(* ===== verification/Prelude.thy ===== *)
theory Prelude
  imports Main "HOL-Library.Word" "HOL-Library.Sublist" "HOL-Library.Stream"
begin

text \<open>
  Shared vocabulary of the development: the machine types of the Go sources, the
  string functions of Go's standard library that the services call, errors as values,
  the state-and-error form in which every fallible method is written, and the generic
  lemmas (signed words, maps, sums over finite maps, preservation of an invariant by a
  composed method, reachable states) on which the component theories rest.
\<close>

section \<open>Machine types\<close>

text \<open>
  Go's \<open>uint64\<close>, \<open>int64\<close> and \<open>int32\<close> keep their width; the signed types are read with
  \<^const>\<open>sint\<close>, so addition and subtraction wrap as they do in Go. A \<open>time.Time\<close> is the
  number of nanoseconds since the Unix epoch and a \<open>time.Duration\<close> a number of
  nanoseconds. Go's \<open>int\<close> is used in the sources for counters and page limits only and is
  modelled by \<^typ>\<open>int\<close>. A Go string is a sequence of bytes, a \<^typ>\<open>char list\<close>.
\<close>

type_synonym uint64 = "64 word"
type_synonym int64 = "64 word"
type_synonym int32 = "32 word"
type_synonym time = int
type_synonym duration = int

text \<open>A clock is the stream of the readings that the calls of \<open>now()\<close> return in turn.\<close>

type_synonym clock = "time stream"

definition Millisecond :: duration where "Millisecond = 1000000"
definition Second :: duration where "Second = 1000000000"

text \<open>The zero \<open>time.Time\<close> is the first of January of year one.\<close>

definition zero_time :: time where "zero_time = -62135596800000000000"

named_theorems go_defs \<open>unfolding rules of the state-and-error combinators\<close>
named_theorems const_defs \<open>the string constants of the sources\<close>
named_theorems pres_intros \<open>introduction rules for preservation of an invariant\<close>

section \<open>Errors as values\<close>

datatype grpc_code =
    Canceled | Unknown | InvalidArgument | DeadlineExceeded | NotFound | AlreadyExists
  | PermissionDenied | ResourceExhausted | FailedPrecondition | Aborted | Internal
  | Unavailable | Unauthenticated

text \<open>
  The error values of the sources: a plain \<open>errors.New\<close> or \<open>fmt.Errorf\<close> text, a text that
  wraps another error (\<open>%w\<close>, after or before the text), a gRPC status, the \<open>Error\<close> struct of the order package
  (code, message, optional cause), and the two errors of a \<open>context.Context\<close>. The Chinese
  user-facing texts are given as ASCII glosses.
\<close>

datatype go_error =
    ErrorText string
  | WrapError string go_error
  | SuffixError go_error string
  | StatusError grpc_code string
  | OrderError string string "go_error option"
  | ContextCanceled
  | ContextDeadlineExceeded

type_synonym 'a result = "go_error + 'a"

fun grpc_code_text :: "grpc_code \<Rightarrow> string" where
  "grpc_code_text Canceled = ''Canceled''"
| "grpc_code_text Unknown = ''Unknown''"
| "grpc_code_text InvalidArgument = ''InvalidArgument''"
| "grpc_code_text DeadlineExceeded = ''DeadlineExceeded''"
| "grpc_code_text NotFound = ''NotFound''"
| "grpc_code_text AlreadyExists = ''AlreadyExists''"
| "grpc_code_text PermissionDenied = ''PermissionDenied''"
| "grpc_code_text ResourceExhausted = ''ResourceExhausted''"
| "grpc_code_text FailedPrecondition = ''FailedPrecondition''"
| "grpc_code_text Aborted = ''Aborted''"
| "grpc_code_text Internal = ''Internal''"
| "grpc_code_text Unavailable = ''Unavailable''"
| "grpc_code_text Unauthenticated = ''Unauthenticated''"

text \<open>The \<open>Error()\<close> text of an error value.\<close>

fun error_text :: "go_error \<Rightarrow> string" where
  "error_text (ErrorText m) = m"
| "error_text (WrapError m e) = m @ error_text e"
| "error_text (SuffixError e m) = error_text e @ m"
| "error_text (StatusError c m) =
     ''rpc error: code = '' @ grpc_code_text c @ '' desc = '' @ m"
| "error_text (OrderError c m None) = m"
| "error_text (OrderError c m (Some e)) = m @ '': '' @ error_text e"
| "error_text ContextCanceled = ''context canceled''"
| "error_text ContextDeadlineExceeded = ''context deadline exceeded''"

text \<open>\<open>errors.Is\<close>: the target occurs on the chain of wrapped errors.\<close>

fun errors_is :: "go_error \<Rightarrow> go_error \<Rightarrow> bool" where
  "errors_is (WrapError m e) t = (WrapError m e = t \<or> errors_is e t)"
| "errors_is (SuffixError e m) t = (SuffixError e m = t \<or> errors_is e t)"
| "errors_is (OrderError c m (Some e)) t = (OrderError c m (Some e) = t \<or> errors_is e t)"
| "errors_is e t = (e = t)"

text \<open>\<open>status.Code\<close>: the code of the first gRPC status on the chain, \<open>Unknown\<close> without one.\<close>

fun status_code :: "go_error \<Rightarrow> grpc_code" where
  "status_code (StatusError c m) = c"
| "status_code (WrapError m e) = status_code e"
| "status_code (SuffixError e m) = status_code e"
| "status_code (OrderError c m (Some e)) = status_code e"
| "status_code e = Unknown"

section \<open>Methods that change state and may fail\<close>

text \<open>
  A Go method that returns an error keeps the state changes it made before it failed, so
  a method is a function from the state to a result and the state it leaves behind.
  \<open>and_then\<close> is the \<open>if err != nil \<open>return err\<close>\<close> idiom; \<open>inspect\<close> hands the result,
  error or value, to the continuation.
\<close>

type_synonym ('w, 'a) go = "'w \<Rightarrow> 'a result \<times> 'w"

definition ret :: "'a \<Rightarrow> ('w, 'a) go" where [go_defs]: "ret x w = (Inr x, w)"

definition fail :: "go_error \<Rightarrow> ('w, 'a) go" where [go_defs]: "fail e w = (Inl e, w)"

definition and_then :: "('w, 'a) go \<Rightarrow> ('a \<Rightarrow> ('w, 'b) go) \<Rightarrow> ('w, 'b) go" where [go_defs]:
  "and_then m f w = (case m w of (Inl e, w') \<Rightarrow> (Inl e, w') | (Inr x, w') \<Rightarrow> f x w')"

definition inspect :: "('w, 'a) go \<Rightarrow> ('a result \<Rightarrow> ('w, 'b) go) \<Rightarrow> ('w, 'b) go" where [go_defs]:
  "inspect m f w = (case m w of (r, w') \<Rightarrow> f r w')"

definition of_result :: "'a result \<Rightarrow> ('w, 'a) go" where [go_defs]: "of_result r w = (r, w)"

definition modify_state :: "('w \<Rightarrow> 'w) \<Rightarrow> ('w, unit) go" where [go_defs]:
  "modify_state f w = (Inr (), f w)"

definition read_state :: "('w \<Rightarrow> 'a) \<Rightarrow> ('w, 'a) go" where [go_defs]:
  "read_state f w = (Inr (f w), w)"

text \<open>A loop \<open>for _, x := range xs\<close> whose body may return early with an error.\<close>

primrec for_each :: "'a list \<Rightarrow> ('a \<Rightarrow> ('w, unit) go) \<Rightarrow> ('w, unit) go" where
  "for_each [] body = ret ()"
| "for_each (x # xs) body = and_then (body x) (\<lambda>_. for_each xs body)"

section \<open>Invariants of methods\<close>

text \<open>\<open>preserves P m\<close>: method \<open>m\<close> keeps \<open>P\<close>, whether it fails or not.\<close>

definition preserves :: "('w \<Rightarrow> bool) \<Rightarrow> ('w, 'a) go \<Rightarrow> bool" where
  "preserves P m \<longleftrightarrow> (\<forall>w. P w \<longrightarrow> P (snd (m w)))"

lemma preservesI: "(\<And>w. P w \<Longrightarrow> P (snd (m w))) \<Longrightarrow> preserves P m"
  by (simp add: preserves_def)

lemma preserves_snd: "preserves P m \<Longrightarrow> P w \<Longrightarrow> P (snd (m w))"
  by (simp add: preserves_def)

lemma preservesD: "preserves P m \<Longrightarrow> P w \<Longrightarrow> m w = (r, w') \<Longrightarrow> P w'"
  using preserves_snd [of P m w] by simp

lemma preserves_ret [pres_intros]: "preserves P (ret x)"
  by (simp add: preserves_def ret_def)

lemma preserves_fail [pres_intros]: "preserves P (fail e)"
  by (simp add: preserves_def fail_def)

lemma preserves_of_result [pres_intros]: "preserves P (of_result r)"
  by (simp add: preserves_def of_result_def)

lemma preserves_read_state [pres_intros]: "preserves P (read_state f)"
  by (simp add: preserves_def read_state_def)

lemma preserves_modify_state: "(\<And>w. P w \<Longrightarrow> P (f w)) \<Longrightarrow> preserves P (modify_state f)"
  by (simp add: preserves_def modify_state_def)

lemma preserves_and_then [pres_intros]:
  assumes "preserves P m" and "\<And>x. preserves P (f x)"
  shows "preserves P (and_then m f)"
proof (rule preservesI)
  fix w assume "P w"
  obtain r w' where m: "m w = (r, w')" by (cases "m w")
  with assms(1) \<open>P w\<close> have "P w'" by (rule preservesD)
  with assms(2) m show "P (snd (and_then m f w))"
    by (cases r) (auto simp: and_then_def preserves_def)
qed

lemma preserves_inspect [pres_intros]:
  assumes "preserves P m" and "\<And>r. preserves P (f r)"
  shows "preserves P (inspect m f)"
proof (rule preservesI)
  fix w assume "P w"
  obtain r w' where m: "m w = (r, w')" by (cases "m w")
  with assms(1) \<open>P w\<close> have "P w'" by (rule preservesD)
  with assms(2) m show "P (snd (inspect m f w))"
    by (auto simp: inspect_def preserves_def)
qed

lemma preserves_if [pres_intros]:
  "preserves P m \<Longrightarrow> preserves P n \<Longrightarrow> preserves P (if b then m else n)"
  by simp

lemma preserves_case_sum [pres_intros]:
  "(\<And>e. preserves P (f e)) \<Longrightarrow> (\<And>x. preserves P (g x)) \<Longrightarrow>
   preserves P (case r of Inl e \<Rightarrow> f e | Inr x \<Rightarrow> g x)"
  by (cases r) auto

lemma preserves_case_option [pres_intros]:
  "preserves P m \<Longrightarrow> (\<And>x. preserves P (f x)) \<Longrightarrow>
   preserves P (case r of None \<Rightarrow> m | Some x \<Rightarrow> f x)"
  by (cases r) auto

lemma preserves_case_prod [pres_intros]:
  "(\<And>a b. preserves P (f a b)) \<Longrightarrow> preserves P (case p of (a, b) \<Rightarrow> f a b)"
  by (cases p) auto

lemma preserves_for_each [pres_intros]:
  "(\<And>x. preserves P (body x)) \<Longrightarrow> preserves P (for_each xs body)"
  by (induction xs) (simp_all add: preserves_ret preserves_and_then)

lemma preserves_conj:
  "preserves P m \<Longrightarrow> preserves Q m \<Longrightarrow> preserves (\<lambda>w. P w \<and> Q w) m"
  by (simp add: preserves_def)

text \<open>A method that succeeds ran all its parts to success.\<close>

lemma and_then_InrE:
  assumes "and_then m f w = (Inr y, w'')"
  obtains x w' where "m w = (Inr x, w')" and "f x w' = (Inr y, w'')"
  using assms by (auto simp: and_then_def split: prod.splits sum.splits)

lemma inspect_eqE:
  assumes "inspect m f w = (y, w'')"
  obtains r w' where "m w = (r, w')" and "f r w' = (y, w'')"
  using assms by (auto simp: inspect_def split: prod.splits)

lemma for_each_ConsE:
  assumes "for_each (x # xs) body w = (Inr (), w'')"
  obtains w' where "body x w = (Inr (), w')" and "for_each xs body w' = (Inr (), w'')"
  using assms by (auto elim: and_then_InrE)

section \<open>Reachable states\<close>

text \<open>
  Every store of the system is shared by concurrent callers and guarded by a mutex that
  each method holds from its first access to its last, so its behaviours are the
  sequences of whole methods. A \<open>state_machine\<close> is a step relation with an invariant that
  holds at the start and that each step keeps.
\<close>

locale state_machine =
  fixes init :: "'s \<Rightarrow> bool" and step :: "'s \<Rightarrow> 's \<Rightarrow> bool" and inv :: "'s \<Rightarrow> bool"
  assumes inv_init: "init s \<Longrightarrow> inv s"
    and inv_step: "inv s \<Longrightarrow> step s t \<Longrightarrow> inv t"
begin

lemma inv_steps: "step\<^sup>*\<^sup>* s t \<Longrightarrow> inv s \<Longrightarrow> inv t"
  by (induction rule: rtranclp_induct) (auto intro: inv_step)

lemma inv_reachable: "init s \<Longrightarrow> step\<^sup>*\<^sup>* s t \<Longrightarrow> inv t"
  using inv_init inv_steps by blast

text \<open>What one step keeps under the invariant, every run keeps.\<close>

lemma stable_steps:
  assumes "step\<^sup>*\<^sup>* s t" and "inv s" and "Q s"
    and "\<And>u v. inv u \<Longrightarrow> Q u \<Longrightarrow> step u v \<Longrightarrow> Q v"
  shows "Q t"
proof -
  from assms(1) have "inv t \<and> Q t"
  proof (induction rule: rtranclp_induct)
    case base
    show ?case using assms(2,3) by simp
  next
    case (step u v)
    then show ?case using inv_step assms(4) by blast
  qed
  then show ?thesis by simp
qed

end

section \<open>Signed words\<close>

lemma sint32_range: "- 2147483648 \<le> sint (a :: int32)" "sint (a :: int32) < 2147483648"
  using sint_range_size [of a] by (simp_all add: word_size)

lemma sint64_range:
  "- 9223372036854775808 \<le> sint (a :: int64)" "sint (a :: int64) < 9223372036854775808"
  using sint_range_size [of a] by (simp_all add: word_size)

lemma sint32_of_int: "- 2147483648 \<le> x \<Longrightarrow> x < 2147483648 \<Longrightarrow> sint (word_of_int x :: int32) = x"
  by (simp add: sint_sbintrunc' signed_take_bit_int_eq_self)

lemma sint64_of_int:
  "- 9223372036854775808 \<le> x \<Longrightarrow> x < 9223372036854775808 \<Longrightarrow> sint (word_of_int x :: int64) = x"
  by (simp add: sint_sbintrunc' signed_take_bit_int_eq_self)

lemma sint32_add:
  fixes a b :: int32
  assumes "- 2147483648 \<le> sint a + sint b" and "sint a + sint b < 2147483648"
  shows "sint (a + b) = sint a + sint b"
  using assms sint32_of_int [of "sint a + sint b"] by simp

lemma sint32_diff:
  fixes a b :: int32
  assumes "- 2147483648 \<le> sint a - sint b" and "sint a - sint b < 2147483648"
  shows "sint (a - b) = sint a - sint b"
  using assms sint32_of_int [of "sint a - sint b"] by simp

text \<open>An \<open>int32\<close> sum that leaves the range wraps to a negative value.\<close>

lemma sint32_add_cases:
  fixes a b :: int32
  assumes "0 \<le> sint a" and "0 \<le> sint b"
  shows "sint (a + b) = sint a + sint b \<or>
    (2147483648 \<le> sint a + sint b \<and> sint (a + b) = sint a + sint b - 4294967296)"
proof (cases "sint a + sint b < 2147483648")
  case True
  with assms show ?thesis by (simp add: sint32_add)
next
  case False
  have w: "word_of_int (sint a + sint b - 4294967296) = (a + b :: int32)"
    by simp
  have "- 2147483648 \<le> sint a + sint b - 4294967296"
    and "sint a + sint b - 4294967296 < 2147483648"
    using False sint32_range [of a] sint32_range [of b] by linarith+
  then have "sint (word_of_int (sint a + sint b - 4294967296) :: int32) =
      sint a + sint b - 4294967296"
    by (rule sint32_of_int)
  with False show ?thesis unfolding w by simp
qed

lemma sint64_add:
  fixes a b :: int64
  assumes "- 9223372036854775808 \<le> sint a + sint b" and "sint a + sint b < 9223372036854775808"
  shows "sint (a + b) = sint a + sint b"
  using assms sint64_of_int [of "sint a + sint b"] by simp

lemma sint64_mult:
  fixes a b :: int64
  assumes "- 9223372036854775808 \<le> sint a * sint b" and "sint a * sint b < 9223372036854775808"
  shows "sint (a * b) = sint a * sint b"
  using assms sint64_of_int [of "sint a * sint b"] by simp

text \<open>The conversion \<open>int64(x)\<close> of an \<open>int32\<close> keeps the value.\<close>

lemma sint64_of_int32: "sint (word_of_int (sint (a :: int32)) :: int64) = sint a"
  using sint32_range [of a] by (intro sint64_of_int) auto

section \<open>Maps\<close>

text \<open>
  The values of a map in the order in which a \<open>for range\<close> loop meets its keys. Go leaves
  that order open, so it is an argument of every method that ranges over a map.
\<close>

primrec range_values :: "'k list \<Rightarrow> ('k \<rightharpoonup> 'v) \<Rightarrow> 'v list" where
  "range_values [] m = []"
| "range_values (k # ks) m = (case m k of None \<Rightarrow> range_values ks m | Some v \<Rightarrow> v # range_values ks m)"

definition range_order :: "'k list \<Rightarrow> ('k \<rightharpoonup> 'v) \<Rightarrow> bool" where
  "range_order ks m \<longleftrightarrow> distinct ks \<and> set ks = dom m"

lemma set_range_values: "set (range_values ks m) = {v. \<exists>k \<in> set ks. m k = Some v}"
  by (induction ks) (auto split: option.splits)

lemma set_range_values_order: "range_order ks m \<Longrightarrow> set (range_values ks m) = ran m"
  by (auto simp: set_range_values range_order_def ran_def)

text \<open>The sum of a weight over the values of a finite map.\<close>

definition sum_values :: "('v \<Rightarrow> int) \<Rightarrow> ('k \<rightharpoonup> 'v) \<Rightarrow> int" where
  "sum_values f m = (\<Sum>k \<in> dom m. f (the (m k)))"

lemma sum_values_empty [simp]: "sum_values f Map.empty = 0"
  by (simp add: sum_values_def)

lemma sum_values_insert:
  assumes "finite (dom m)" and "m k = None"
  shows "sum_values f (m(k \<mapsto> v)) = sum_values f m + f v"
proof -
  have "(\<Sum>j \<in> dom m. f (the ((m(k \<mapsto> v)) j))) = (\<Sum>j \<in> dom m. f (the (m j)))"
    using assms(2) by (intro sum.cong) auto
  moreover have "k \<notin> dom m" using assms(2) by auto
  ultimately show ?thesis using assms(1) by (simp add: sum_values_def)
qed

lemma sum_values_update:
  assumes "finite (dom m)" and "m k = Some u"
  shows "sum_values f (m(k \<mapsto> v)) = sum_values f m - f u + f v"
proof -
  have "sum_values f m = f u + (\<Sum>j \<in> dom m - {k}. f (the (m j)))"
    using assms by (simp add: sum_values_def sum.remove [of _ k] domI)
  moreover have "sum_values f (m(k \<mapsto> v)) = f v + (\<Sum>j \<in> dom m - {k}. f (the (m j)))"
  proof -
    have "dom (m(k \<mapsto> v)) = dom m" using assms(2) by auto
    then have "sum_values f (m(k \<mapsto> v)) =
        f v + (\<Sum>j \<in> dom m - {k}. f (the ((m(k \<mapsto> v)) j)))"
      using assms by (simp add: sum_values_def sum.remove [of _ k] domI)
    also have "(\<Sum>j \<in> dom m - {k}. f (the ((m(k \<mapsto> v)) j))) =
        (\<Sum>j \<in> dom m - {k}. f (the (m j)))"
      by (intro sum.cong) auto
    finally show ?thesis .
  qed
  ultimately show ?thesis by simp
qed

lemma sum_values_nonneg: "(\<And>k v. m k = Some v \<Longrightarrow> 0 \<le> f v) \<Longrightarrow> 0 \<le> sum_values f m"
  unfolding sum_values_def by (intro sum_nonneg) auto

lemma sum_values_mono: "(\<And>k v. m k = Some v \<Longrightarrow> f v \<le> g v) \<Longrightarrow> sum_values f m \<le> sum_values g m"
  unfolding sum_values_def by (intro sum_mono) auto

lemma sum_values_member:
  assumes "finite (dom m)" and "m k = Some v" and "\<And>j u. m j = Some u \<Longrightarrow> 0 \<le> f u"
  shows "f v \<le> sum_values f m"
proof -
  have "(\<Sum>j \<in> {k}. f (the (m j))) \<le> (\<Sum>j \<in> dom m. f (the (m j)))"
    using assms by (intro sum_mono2) auto
  with assms(2) show ?thesis by (simp add: sum_values_def)
qed

end
