(* ===== verification/Go_Strings.thy ===== *)
theory Go_Strings
  imports Prelude
begin

text \<open>
  The string functions the services use: \<open>strings.TrimSpace\<close>, decimal formatting of
  integers (\<open>%d\<close> and \<open>strconv.FormatUint\<close>), and the composite keys built from them, with
  the facts that keys built from different parts differ.
\<close>

section \<open>strings.TrimSpace\<close>

text \<open>
  The UTF-8 encodings of the code points that \<open>unicode.IsSpace\<close> accepts: the six ASCII
  spaces, then U+0085, U+00A0, U+1680, U+2000 to U+200A, U+2028, U+2029, U+202F, U+205F
  and U+3000.
\<close>

definition space_bytes :: "nat list list" where
  "space_bytes =
     [[9], [10], [11], [12], [13], [32], [194, 133], [194, 160], [225, 154, 128],
      [226, 128, 128], [226, 128, 129], [226, 128, 130], [226, 128, 131], [226, 128, 132],
      [226, 128, 133], [226, 128, 134], [226, 128, 135], [226, 128, 136], [226, 128, 137],
      [226, 128, 138], [226, 128, 168], [226, 128, 169], [226, 128, 175], [226, 129, 159],
      [227, 128, 128]]"

definition space_seqs :: "string list" where
  "space_seqs = map (map char_of) space_bytes"

text \<open>The length of the space sequence (of the given list) that starts a string, or 0.\<close>

fun space_prefix :: "string list \<Rightarrow> string \<Rightarrow> nat" where
  "space_prefix [] s = 0"
| "space_prefix (p # ps) s = (if prefix p s then length p else space_prefix ps s)"

fun trim_front :: "string list \<Rightarrow> string \<Rightarrow> string" where
  "trim_front ps s =
     (if space_prefix ps s = 0 \<or> s = [] then s else trim_front ps (drop (space_prefix ps s) s))"

declare trim_front.simps [simp del]

definition TrimSpace :: "string \<Rightarrow> string" where
  "TrimSpace s = rev (trim_front (map rev space_seqs) (rev (trim_front space_seqs s)))"

lemma space_prefix_zero_prefix:
  "\<forall>p \<in> set ps. p \<noteq> [] \<Longrightarrow> space_prefix ps s = 0 \<Longrightarrow> prefix t s \<Longrightarrow> space_prefix ps t = 0"
  by (induction ps) (auto split: if_splits dest: prefix_order.trans)

lemma trim_front_done: "space_prefix ps (trim_front ps s) = 0 \<or> trim_front ps s = []"
  by (induction ps s rule: trim_front.induct) (subst (1 2) trim_front.simps, auto)

lemma space_prefix_Nil: "\<forall>p \<in> set ps. p \<noteq> [] \<Longrightarrow> space_prefix ps [] = 0"
  by (induction ps) auto

lemma trim_front_fixed: "space_prefix ps s = 0 \<Longrightarrow> trim_front ps s = s"
  by (subst trim_front.simps) simp

lemma suffix_trim_front: "suffix (trim_front ps s) s"
proof (induction ps s rule: trim_front.induct)
  case (1 ps s)
  show ?case
  proof (cases "space_prefix ps s = 0 \<or> s = []")
    case True
    then show ?thesis by (subst trim_front.simps) auto
  next
    case False
    with "1.IH" have "suffix (trim_front ps (drop (space_prefix ps s) s)) s"
      by (meson suffix_drop suffix_order.trans)
    with False show ?thesis by (subst trim_front.simps) simp
  qed
qed

lemma space_seqs_nonempty:
  "\<forall>p \<in> set space_seqs. p \<noteq> []" "\<forall>p \<in> set (map rev space_seqs). p \<noteq> []"
  by (simp_all add: space_seqs_def space_bytes_def)

lemma TrimSpace_front: "space_prefix space_seqs (TrimSpace s) = 0"
proof -
  let ?f = "trim_front space_seqs s"
  let ?b = "trim_front (map rev space_seqs) (rev ?f)"
  have "prefix (rev ?b) ?f"
    using suffix_trim_front [of "map rev space_seqs" "rev ?f"] by (simp add: suffix_to_prefix)
  moreover have "space_prefix space_seqs ?f = 0"
    using trim_front_done [of space_seqs s] space_prefix_Nil space_seqs_nonempty by metis
  ultimately show ?thesis
    unfolding TrimSpace_def using space_prefix_zero_prefix space_seqs_nonempty(1) by blast
qed

lemma TrimSpace_back: "space_prefix (map rev space_seqs) (rev (TrimSpace s)) = 0"
  using trim_front_done [of "map rev space_seqs"] space_prefix_Nil [OF space_seqs_nonempty(2)]
  unfolding TrimSpace_def by (metis rev_rev_ident)

lemma TrimSpace_idem [simp]: "TrimSpace (TrimSpace s) = TrimSpace s"
proof -
  have "trim_front space_seqs (TrimSpace s) = TrimSpace s"
    by (rule trim_front_fixed [OF TrimSpace_front])
  moreover have "trim_front (map rev space_seqs) (rev (TrimSpace s)) = rev (TrimSpace s)"
    by (rule trim_front_fixed [OF TrimSpace_back])
  ultimately show ?thesis by (subst TrimSpace_def) simp
qed

lemma TrimSpace_Nil [simp]: "TrimSpace [] = []"
  by (simp add: TrimSpace_def trim_front.simps)

text \<open>
  A string whose bytes are all printable ASCII other than the space has nothing to trim.
\<close>

definition graphic :: "char \<Rightarrow> bool" where
  "graphic c \<longleftrightarrow> 32 < (of_char c :: nat) \<and> (of_char c :: nat) < 127"

lemma space_prefix_graphic:
  assumes "\<forall>p \<in> set ps. \<exists>c cs. p = c # cs \<and> \<not> graphic c" and "s = [] \<or> graphic (hd s)"
  shows "space_prefix ps s = 0"
  using assms by (induction ps) (auto simp: prefix_def split: if_splits)

lemma space_seqs_graphic:
  "\<forall>p \<in> set space_seqs. \<exists>c cs. p = c # cs \<and> \<not> graphic c"
  "\<forall>p \<in> set (map rev space_seqs). \<exists>c cs. p = c # cs \<and> \<not> graphic c"
  by (simp_all add: space_seqs_def space_bytes_def graphic_def of_char_of)

lemma TrimSpace_graphic:
  assumes "s = [] \<or> (graphic (hd s) \<and> graphic (last s))"
  shows "TrimSpace s = s"
proof -
  have "space_prefix space_seqs s = 0"
    using assms by (intro space_prefix_graphic [OF space_seqs_graphic(1)]) auto
  moreover have "space_prefix (map rev space_seqs) (rev s) = 0"
    using assms by (intro space_prefix_graphic [OF space_seqs_graphic(2)]) (auto simp: hd_rev)
  ultimately show ?thesis by (simp add: TrimSpace_def trim_front_fixed)
qed

lemma TrimSpace_blank: "TrimSpace (CHR '' '' # s) = TrimSpace s"
proof -
  have "space_prefix space_seqs (CHR '' '' # s) = 1"
    by (simp add: space_seqs_def space_bytes_def char_of_def bit_0)
  then have "trim_front space_seqs (CHR '' '' # s) = trim_front space_seqs s"
    by (subst trim_front.simps) simp
  then show ?thesis by (simp add: TrimSpace_def)
qed

section \<open>Decimal formatting\<close>

definition digit :: "nat \<Rightarrow> char" where "digit d = char_of (48 + d)"

fun decimal :: "nat \<Rightarrow> string" where
  "decimal n = (if n < 10 then [digit n] else decimal (n div 10) @ [digit (n mod 10)])"

declare decimal.simps [simp del]

text \<open>\<open>%d\<close> of an unsigned and of a signed value.\<close>

definition fmt_uint :: "uint64 \<Rightarrow> string" where "fmt_uint x = decimal (unat x)"

definition fmt_int :: "int \<Rightarrow> string" where
  "fmt_int x = (if x < 0 then CHR ''-'' # decimal (nat (- x)) else decimal (nat x))"

definition decimal_value :: "string \<Rightarrow> nat" where
  "decimal_value s = foldl (\<lambda>a c. 10 * a + (of_char c - 48)) 0 s"

lemma of_char_digit: "d < 10 \<Longrightarrow> of_char (digit d) = (48 + d :: nat)"
  by (simp add: digit_def of_char_of)

lemma decimal_value_decimal: "decimal_value (decimal n) = n"
proof (induction n rule: decimal.induct)
  case (1 n)
  show ?case
  proof (cases "n < 10")
    case True
    then show ?thesis by (subst decimal.simps) (simp add: decimal_value_def of_char_digit)
  next
    case False
    with 1 have "decimal_value (decimal (n div 10)) = n div 10" by simp
    with False show ?thesis
      by (subst decimal.simps) (simp add: decimal_value_def of_char_digit)
  qed
qed

lemma decimal_inj [simp]: "decimal m = decimal n \<longleftrightarrow> m = n"
  by (metis decimal_value_decimal)

lemma set_decimal: "c \<in> set (decimal n) \<Longrightarrow> 48 \<le> (of_char c :: nat) \<and> (of_char c :: nat) < 58"
proof (induction n rule: decimal.induct)
  case (1 n)
  show ?case
  proof (cases "n < 10")
    case True
    with "1.prems" show ?thesis by (simp add: decimal.simps [of n] of_char_digit)
  next
    case False
    with "1.prems" have "c \<in> set (decimal (n div 10)) \<or> c = digit (n mod 10)"
      by (auto simp: decimal.simps [of n])
    with False "1.IH" show ?thesis by (auto simp: of_char_digit)
  qed
qed

lemma colon_notin_decimal [simp]: "CHR '':'' \<notin> set (decimal n)"
  using set_decimal by fastforce

lemma fmt_uint_inj [simp]: "fmt_uint a = fmt_uint b \<longleftrightarrow> a = b"
  by (simp add: fmt_uint_def word_unat_eq_iff)

lemma colon_notin_fmt_uint [simp]: "CHR '':'' \<notin> set (fmt_uint a)"
  by (simp add: fmt_uint_def)

section \<open>Composite keys\<close>

lemma append_sep_inj:
  "c \<notin> set a \<Longrightarrow> c \<notin> set a' \<Longrightarrow> a @ c # b = a' @ c # b' \<longleftrightarrow> a = a' \<and> b = b'"
  by (induction a arbitrary: a') (auto simp: Cons_eq_append_conv append_eq_Cons_conv, force+)

text \<open>The format \<open>%d:%s\<close>.\<close>

definition key_us :: "uint64 \<Rightarrow> string \<Rightarrow> string" where
  "key_us a s = fmt_uint a @ CHR '':'' # s"

lemma key_us_inj [simp]: "key_us a s = key_us b t \<longleftrightarrow> a = b \<and> s = t"
  by (simp add: key_us_def append_sep_inj)

text \<open>The format \<open>%d:%d:%d\<close>.\<close>

definition key_uuu :: "uint64 \<Rightarrow> uint64 \<Rightarrow> uint64 \<Rightarrow> string" where
  "key_uuu a b c = fmt_uint a @ CHR '':'' # fmt_uint b @ CHR '':'' # fmt_uint c"

lemma key_uuu_inj [simp]:
  "key_uuu a b c = key_uuu a' b' c' \<longleftrightarrow> a = a' \<and> b = b' \<and> c = c'"
  by (simp add: key_uuu_def append_sep_inj)

section \<open>Runes\<close>

text \<open>
  The width in bytes of the first rune of a non-empty string, as the UTF-8 decoder of Go
  reads it: a byte that starts no well-formed sequence is one rune of width 1.
\<close>

definition continuation :: "nat \<Rightarrow> bool" where "continuation b \<longleftrightarrow> 128 \<le> b \<and> b \<le> 191"

fun rune_width :: "nat list \<Rightarrow> nat" where
  "rune_width (a # b # c # d # bs) =
     (if 194 \<le> a \<and> a \<le> 223 \<and> continuation b then 2
      else if continuation c \<and>
        (a = 224 \<and> 160 \<le> b \<and> b \<le> 191 \<or> a = 237 \<and> 128 \<le> b \<and> b \<le> 159 \<or>
         225 \<le> a \<and> a \<le> 239 \<and> a \<noteq> 237 \<and> continuation b) then 3
      else if continuation c \<and> continuation d \<and>
        (a = 240 \<and> 144 \<le> b \<and> b \<le> 191 \<or> a = 244 \<and> 128 \<le> b \<and> b \<le> 143 \<or>
         241 \<le> a \<and> a \<le> 243 \<and> continuation b) then 4
      else 1)"
| "rune_width [a, b, c] =
     (if 194 \<le> a \<and> a \<le> 223 \<and> continuation b then 2
      else if continuation c \<and>
        (a = 224 \<and> 160 \<le> b \<and> b \<le> 191 \<or> a = 237 \<and> 128 \<le> b \<and> b \<le> 159 \<or>
         225 \<le> a \<and> a \<le> 239 \<and> a \<noteq> 237 \<and> continuation b) then 3
      else 1)"
| "rune_width [a, b] = (if 194 \<le> a \<and> a \<le> 223 \<and> continuation b then 2 else 1)"
| "rune_width _ = 1"

lemma rune_width_pos: "0 < rune_width bs"
  by (induction bs rule: rune_width.induct) auto

function rune_count_bytes :: "nat list \<Rightarrow> nat" where
  "rune_count_bytes bs = (if bs = [] then 0 else 1 + rune_count_bytes (drop (rune_width bs) bs))"
  by pat_completeness auto
termination
  by (relation "measure length") (auto simp: rune_width_pos)

declare rune_count_bytes.simps [simp del]

text \<open>\<open>len([]rune(s))\<close>.\<close>

definition rune_count :: "string \<Rightarrow> nat" where
  "rune_count s = rune_count_bytes (map of_char s)"

text \<open>
  The first rune of a non-empty string is a byte that is not UTF-8; strings without such bytes;
  and what \<open>json.Marshal\<close> makes of a string, where each such byte becomes U+FFFD.
\<close>

definition broken_rune :: "string \<Rightarrow> bool" where
  "broken_rune s \<longleftrightarrow> rune_width (map of_char s) = 1 \<and> 128 \<le> (of_char (hd s) :: nat)"

function valid_utf8 :: "string \<Rightarrow> bool" where
  "valid_utf8 s = (if s = [] then True else if broken_rune s then False
     else valid_utf8 (drop (rune_width (map of_char s)) s))"
  by pat_completeness auto
termination
  by (relation "measure length") (auto simp: rune_width_pos)

function coerce_utf8 :: "string \<Rightarrow> string" where
  "coerce_utf8 s =
     (if s = [] then []
      else let w = rune_width (map of_char s) in
        (if broken_rune s then [CHR 0xEF, CHR 0xBF, CHR 0xBD] else take w s) @ coerce_utf8 (drop w s))"
  by pat_completeness auto
termination
  by (relation "measure length") (auto simp: rune_width_pos)

declare valid_utf8.simps [simp del] coerce_utf8.simps [simp del]

lemma coerce_utf8_valid [simp]: "valid_utf8 s \<Longrightarrow> coerce_utf8 s = s"
proof (induction s rule: coerce_utf8.induct)
  case (1 s)
  show ?case
  proof (cases "s = []")
    case False
    with "1.prems" have "\<not> broken_rune s" "valid_utf8 (drop (rune_width (map of_char s)) s)"
      by (simp_all add: valid_utf8.simps [of s] split: if_splits)
    with False "1.IH" [OF False refl] show ?thesis by (subst coerce_utf8.simps) (simp add: Let_def)
  qed (simp add: coerce_utf8.simps)
qed

lemma coerce_utf8_Nil [simp]: "coerce_utf8 [] = []" "coerce_utf8 s = [] \<longleftrightarrow> s = []"
proof -
  show "coerce_utf8 s = [] \<longleftrightarrow> s = []" for s
    using rune_width_pos [of "map of_char s"] by (subst coerce_utf8.simps) (simp add: Let_def)
  then show "coerce_utf8 [] = []" by simp
qed

lemma rune_width_ascii:
  assumes "a < 128"
  shows "rune_width (a # bs) = 1"
proof -
  have "\<not> 194 \<le> a" "\<not> 225 \<le> a" "\<not> 241 \<le> a" "a \<noteq> 224" "a \<noteq> 237" "a \<noteq> 240" "a \<noteq> 244" using assms by simp_all
  then show ?thesis by (cases "a # bs" rule: rune_width.cases) simp_all
qed

lemma valid_utf8_ascii: "\<forall>c \<in> set s. (of_char c :: nat) < 128 \<Longrightarrow> valid_utf8 s"
proof (induction s)
  case Nil
  show ?case by (simp add: valid_utf8.simps)
next
  case (Cons c s)
  then have "rune_width (map of_char (c # s)) = 1" by (simp add: rune_width_ascii)
  with Cons show ?case by (subst valid_utf8.simps) (simp add: broken_rune_def)
qed

end
