(* ===== verification/Contracts.thy ===== *)
theory Contracts
  imports Go_Strings
begin

text \<open>
  shared/contracts: the event envelope, the cross-service payloads, and the catalog of
  service boundaries. JSON documents are modelled as values (\<open>json\<close>), so
  \<open>json.Marshal\<close> of a payload is its object with the fields of the struct tags, and
  \<open>json.Unmarshal\<close> reads those fields back; the byte encoding of a document is not
  modelled.
\<close>

section \<open>Service and event names (events.go)\<close>

definition ServiceIdentity :: string where [const_defs]: "ServiceIdentity = ''identity-service''"
definition ServiceCatalog :: string where [const_defs]: "ServiceCatalog = ''catalog-service''"
definition ServiceInventory :: string where [const_defs]: "ServiceInventory = ''inventory-service''"
definition ServiceCart :: string where [const_defs]: "ServiceCart = ''cart-service''"
definition ServiceOrder :: string where [const_defs]: "ServiceOrder = ''order-service''"
definition ServicePayment :: string where [const_defs]: "ServicePayment = ''payment-service''"
definition ServiceFulfillment :: string where [const_defs]: "ServiceFulfillment = ''fulfillment-service''"

definition EventSeckillAccepted :: string where [const_defs]: "EventSeckillAccepted = ''seckill.accepted.v1''"
definition EventOrderCreated :: string where [const_defs]: "EventOrderCreated = ''order.created.v1''"
definition EventOrderCancelled :: string where [const_defs]: "EventOrderCancelled = ''order.cancelled.v1''"
definition EventPaymentSucceeded :: string where [const_defs]: "EventPaymentSucceeded = ''payment.succeeded.v1''"
definition EventPaymentRefunded :: string where [const_defs]: "EventPaymentRefunded = ''payment.refunded.v1''"
definition EventInventoryReserved :: string where [const_defs]: "EventInventoryReserved = ''inventory.reserved.v1''"
definition EventInventoryReleased :: string where [const_defs]: "EventInventoryReleased = ''inventory.released.v1''"
definition EventInventoryRestocked :: string where [const_defs]: "EventInventoryRestocked = ''inventory.restocked.v1''"
definition EventShipmentCreated :: string where [const_defs]: "EventShipmentCreated = ''shipment.created.v1''"
definition EventShipmentDelivered :: string where [const_defs]: "EventShipmentDelivered = ''shipment.delivered.v1''"

definition knownEventTypes :: "string list" where
  "knownEventTypes =
     [EventSeckillAccepted, EventOrderCreated, EventOrderCancelled, EventPaymentSucceeded,
      EventPaymentRefunded, EventInventoryReserved, EventInventoryReleased,
      EventInventoryRestocked, EventShipmentCreated, EventShipmentDelivered]"

definition IsKnownEventType :: "string \<Rightarrow> bool" where
  "IsKnownEventType t \<longleftrightarrow> TrimSpace t \<in> set knownEventTypes"

lemma known_event_trimmed: "t \<in> set knownEventTypes \<Longrightarrow> TrimSpace t = t"
  by (auto simp: knownEventTypes_def const_defs graphic_def intro!: TrimSpace_graphic)

lemma known_event_known [simp]: "t \<in> set knownEventTypes \<Longrightarrow> IsKnownEventType t"
  by (simp add: IsKnownEventType_def known_event_trimmed)

section \<open>JSON values\<close>

text \<open>
  A JSON text is represented by the value that it denotes: its strings are the decoded ones, which
  are UTF-8, and white space between its tokens does not exist. So is the raw payload of an
  envelope; the payloads that the services write come from \<open>json.Marshal\<close>, which writes none.
\<close>

datatype json =
    JNull
  | JBool bool
  | JInt int
  | JString string
  | JArray "json list"
  | JObject "(string \<times> json) list"

text \<open>A later field of an object wins over an earlier one of the same name.\<close>

definition json_field :: "(string \<times> json) list \<Rightarrow> string \<Rightarrow> json option" where
  "json_field fields name = map_of (rev fields) name"

definition json_type_error :: "string \<Rightarrow> go_error" where
  "json_type_error name = ErrorText (''json: cannot unmarshal field '' @ name)"

definition get_string :: "(string \<times> json) list \<Rightarrow> string \<Rightarrow> string result" where
  "get_string fields name =
     (case json_field fields name of None \<Rightarrow> Inr [] | Some JNull \<Rightarrow> Inr []
      | Some (JString s) \<Rightarrow> Inr s | Some _ \<Rightarrow> Inl (json_type_error name))"

definition get_uint64 :: "(string \<times> json) list \<Rightarrow> string \<Rightarrow> uint64 result" where
  "get_uint64 fields name =
     (case json_field fields name of None \<Rightarrow> Inr 0 | Some JNull \<Rightarrow> Inr 0
      | Some (JInt n) \<Rightarrow>
          (if 0 \<le> n \<and> n < 2 ^ 64 then Inr (word_of_int n) else Inl (json_type_error name))
      | Some _ \<Rightarrow> Inl (json_type_error name))"

definition get_int64 :: "(string \<times> json) list \<Rightarrow> string \<Rightarrow> int64 result" where
  "get_int64 fields name =
     (case json_field fields name of None \<Rightarrow> Inr 0 | Some JNull \<Rightarrow> Inr 0
      | Some (JInt n) \<Rightarrow>
          (if - (2 ^ 63) \<le> n \<and> n < 2 ^ 63 then Inr (word_of_int n) else Inl (json_type_error name))
      | Some _ \<Rightarrow> Inl (json_type_error name))"

fun json_strings :: "json list \<Rightarrow> string list option" where
  "json_strings [] = Some []"
| "json_strings (JString s # js) = map_option ((#) s) (json_strings js)"
| "json_strings (JNull # js) = map_option ((#) []) (json_strings js)"
| "json_strings (_ # js) = None"

definition get_strings :: "(string \<times> json) list \<Rightarrow> string \<Rightarrow> string list result" where
  "get_strings fields name =
     (case json_field fields name of None \<Rightarrow> Inr [] | Some JNull \<Rightarrow> Inr []
      | Some (JArray js) \<Rightarrow>
          (case json_strings js of None \<Rightarrow> Inl (json_type_error name) | Some ss \<Rightarrow> Inr ss)
      | Some _ \<Rightarrow> Inl (json_type_error name))"

definition bind_result :: "'a result \<Rightarrow> ('a \<Rightarrow> 'b result) \<Rightarrow> 'b result" where
  "bind_result r f = (case r of Inl e \<Rightarrow> Inl e | Inr x \<Rightarrow> f x)"

lemma bind_result_simps [simp]:
  "bind_result (Inl e) f = Inl e" "bind_result (Inr x) f = f x"
  by (simp_all add: bind_result_def)

text \<open>\<open>json.Unmarshal\<close> into a struct: an object is read field by field, \<open>null\<close> changes nothing.\<close>

definition with_object :: "json \<Rightarrow> ((string \<times> json) list \<Rightarrow> 'a result) \<Rightarrow> 'a result" where
  "with_object j f =
     (case j of JObject fields \<Rightarrow> f fields | JNull \<Rightarrow> f []
      | _ \<Rightarrow> Inl (ErrorText ''json: cannot unmarshal value into struct''))"

section \<open>Event envelope (events.go)\<close>

record EventEnvelope =
  eEventID :: string
  eEventType :: string
  eEventVersion :: int
  eAggregateType :: string
  eAggregateID :: string
  eOccurredAt :: time
  eTraceID :: string
  ePayload :: json

definition Envelope_Validate :: "EventEnvelope \<Rightarrow> unit result" where
  "Envelope_Validate e =
     (if eEventID e = [] then Inl (ErrorText ''event_id is required'')
      else if eEventType e = [] then Inl (ErrorText ''event_type is required'')
      else if eEventVersion e \<le> 0 then Inl (ErrorText ''event_version must be positive'')
      else if eAggregateType e = [] then Inl (ErrorText ''aggregate_type is required'')
      else if eAggregateID e = [] then Inl (ErrorText ''aggregate_id is required'')
      else if eOccurredAt e = zero_time then Inl (ErrorText ''occurred_at is required'')
      else if ePayload e = JNull then Inl (ErrorText ''payload is required'')
      else Inr ())"

definition NewEventEnvelope ::
  "string \<Rightarrow> string \<Rightarrow> string \<Rightarrow> string \<Rightarrow> int \<Rightarrow> json \<Rightarrow> time \<Rightarrow> EventEnvelope result" where
  "NewEventEnvelope eventID eventType aggregateType aggregateID version payload occurredAt =
     (let envelope = \<lparr>eEventID = TrimSpace eventID, eEventType = TrimSpace eventType,
            eEventVersion = version, eAggregateType = TrimSpace aggregateType,
            eAggregateID = TrimSpace aggregateID, eOccurredAt = occurredAt, eTraceID = [],
            ePayload = payload\<rparr>
      in case Envelope_Validate envelope of Inl e \<Rightarrow> Inl e | Inr _ \<Rightarrow> Inr envelope)"

definition Envelope_InboxKey :: "EventEnvelope \<Rightarrow> string \<Rightarrow> string result" where
  "Envelope_InboxKey e consumer =
     (case Envelope_Validate e of Inl err \<Rightarrow> Inl err
      | Inr _ \<Rightarrow>
          (if TrimSpace consumer = [] then Inl (ErrorText ''consumer is required'')
           else Inr (TrimSpace consumer @ '':'' @ eEventID e)))"

section \<open>Payloads (payloads.go)\<close>

record OrderItemPayload =
  oipSKUID :: uint64
  oipQuantity :: int32
  oipReservationID :: string
  oipUnitPriceCents :: int64

record OrderCreatedPayload =
  ocpOrderID :: string
  ocpUserID :: uint64
  ocpOrderType :: string
  ocpTotalAmountCents :: int64
  ocpItems :: "OrderItemPayload list"

record OrderCancelledPayload =
  oxpOrderID :: string
  oxpUserID :: uint64
  oxpReason :: string
  oxpReservationIDs :: "string list"

record PaymentSucceededPayload =
  pspPaymentNo :: string
  pspOrderID :: string
  pspUserID :: uint64
  pspAmountCents :: int64
  pspCallbackRef :: string

record PaymentRefundedPayload =
  prpRefundNo :: string
  prpPaymentNo :: string
  prpOrderID :: string
  prpUserID :: uint64
  prpAmountCents :: int64
  prpReason :: string

record InventoryReservationPayload =
  irpReservationID :: string
  irpOrderID :: string
  irpUserID :: uint64
  irpSKUID :: uint64
  irpQuantity :: int32
  irpMode :: string

record ShipmentPayload =
  shpOrderID :: string
  shpCarrier :: string
  shpTrackingNo :: string
  shpStatus :: string

definition marshal_OrderItem :: "OrderItemPayload \<Rightarrow> json" where
  "marshal_OrderItem p = JObject
     [(''sku_id'', JInt (uint (oipSKUID p))), (''quantity'', JInt (sint (oipQuantity p))),
      (''reservation_id'', JString (oipReservationID p)),
      (''unit_price_cents'', JInt (sint (oipUnitPriceCents p)))]"

definition marshal_OrderCreated :: "OrderCreatedPayload \<Rightarrow> json" where
  "marshal_OrderCreated p = JObject
     [(''order_id'', JString (ocpOrderID p)), (''user_id'', JInt (uint (ocpUserID p))),
      (''order_type'', JString (ocpOrderType p)),
      (''total_amount_cents'', JInt (sint (ocpTotalAmountCents p))),
      (''items'', JArray (map marshal_OrderItem (ocpItems p)))]"

definition marshal_OrderCancelled :: "OrderCancelledPayload \<Rightarrow> json" where
  "marshal_OrderCancelled p = JObject
     [(''order_id'', JString (oxpOrderID p)), (''user_id'', JInt (uint (oxpUserID p))),
      (''reason'', JString (oxpReason p)),
      (''reservation_ids'', JArray (map JString (oxpReservationIDs p)))]"

definition marshal_PaymentSucceeded :: "PaymentSucceededPayload \<Rightarrow> json" where
  "marshal_PaymentSucceeded p = JObject
     [(''payment_no'', JString (pspPaymentNo p)), (''order_id'', JString (pspOrderID p)),
      (''user_id'', JInt (uint (pspUserID p))), (''amount_cents'', JInt (sint (pspAmountCents p))),
      (''callback_ref'', JString (pspCallbackRef p))]"

definition marshal_PaymentRefunded :: "PaymentRefundedPayload \<Rightarrow> json" where
  "marshal_PaymentRefunded p = JObject
     [(''refund_no'', JString (prpRefundNo p)), (''payment_no'', JString (prpPaymentNo p)),
      (''order_id'', JString (prpOrderID p)), (''user_id'', JInt (uint (prpUserID p))),
      (''amount_cents'', JInt (sint (prpAmountCents p))), (''reason'', JString (prpReason p))]"

definition marshal_InventoryReservation :: "InventoryReservationPayload \<Rightarrow> json" where
  "marshal_InventoryReservation p = JObject
     [(''reservation_id'', JString (irpReservationID p)), (''order_id'', JString (irpOrderID p)),
      (''user_id'', JInt (uint (irpUserID p))), (''sku_id'', JInt (uint (irpSKUID p))),
      (''quantity'', JInt (sint (irpQuantity p))), (''mode'', JString (irpMode p))]"

text \<open>\<open>carrier\<close> and \<open>tracking_no\<close> carry \<open>omitempty\<close>.\<close>

definition marshal_Shipment :: "ShipmentPayload \<Rightarrow> json" where
  "marshal_Shipment p = JObject
     ([(''order_id'', JString (shpOrderID p))] @
      (if shpCarrier p = [] then [] else [(''carrier'', JString (shpCarrier p))]) @
      (if shpTrackingNo p = [] then [] else [(''tracking_no'', JString (shpTrackingNo p))]) @
      [(''status'', JString (shpStatus p))])"

definition unmarshal_OrderCancelled :: "json \<Rightarrow> OrderCancelledPayload result" where
  "unmarshal_OrderCancelled j = with_object j (\<lambda>fs.
     bind_result (get_string fs ''order_id'') (\<lambda>oid.
     bind_result (get_uint64 fs ''user_id'') (\<lambda>uid.
     bind_result (get_string fs ''reason'') (\<lambda>reason.
     bind_result (get_strings fs ''reservation_ids'') (\<lambda>ids.
       Inr \<lparr>oxpOrderID = oid, oxpUserID = uid, oxpReason = reason, oxpReservationIDs = ids\<rparr>)))))"

definition unmarshal_PaymentSucceeded :: "json \<Rightarrow> PaymentSucceededPayload result" where
  "unmarshal_PaymentSucceeded j = with_object j (\<lambda>fs.
     bind_result (get_string fs ''payment_no'') (\<lambda>pno.
     bind_result (get_string fs ''order_id'') (\<lambda>oid.
     bind_result (get_uint64 fs ''user_id'') (\<lambda>uid.
     bind_result (get_int64 fs ''amount_cents'') (\<lambda>amt.
     bind_result (get_string fs ''callback_ref'') (\<lambda>cb.
       Inr \<lparr>pspPaymentNo = pno, pspOrderID = oid, pspUserID = uid, pspAmountCents = amt,
            pspCallbackRef = cb\<rparr>))))))"

definition unmarshal_PaymentRefunded :: "json \<Rightarrow> PaymentRefundedPayload result" where
  "unmarshal_PaymentRefunded j = with_object j (\<lambda>fs.
     bind_result (get_string fs ''refund_no'') (\<lambda>rno.
     bind_result (get_string fs ''payment_no'') (\<lambda>pno.
     bind_result (get_string fs ''order_id'') (\<lambda>oid.
     bind_result (get_uint64 fs ''user_id'') (\<lambda>uid.
     bind_result (get_int64 fs ''amount_cents'') (\<lambda>amt.
     bind_result (get_string fs ''reason'') (\<lambda>reason.
       Inr \<lparr>prpRefundNo = rno, prpPaymentNo = pno, prpOrderID = oid, prpUserID = uid,
            prpAmountCents = amt, prpReason = reason\<rparr>)))))))"

definition unmarshal_Shipment :: "json \<Rightarrow> ShipmentPayload result" where
  "unmarshal_Shipment j = with_object j (\<lambda>fs.
     bind_result (get_string fs ''order_id'') (\<lambda>oid.
     bind_result (get_string fs ''carrier'') (\<lambda>carrier.
     bind_result (get_string fs ''tracking_no'') (\<lambda>tno.
     bind_result (get_string fs ''status'') (\<lambda>st.
       Inr \<lparr>shpOrderID = oid, shpCarrier = carrier, shpTrackingNo = tno, shpStatus = st\<rparr>)))))"

text \<open>The fields \<open>ValidateEventPayload\<close> requires of each known event type.\<close>

definition required_fields :: "string \<Rightarrow> string list" where
  "required_fields t =
     (if t = EventSeckillAccepted then
        [''order_id'', ''reservation_id'', ''user_id'', ''sku_id'', ''quantity'']
      else if t = EventOrderCreated then
        [''order_id'', ''user_id'', ''total_amount_cents'', ''items'']
      else if t = EventOrderCancelled then
        [''order_id'', ''user_id'', ''reason'', ''reservation_ids'']
      else if t = EventPaymentSucceeded then
        [''payment_no'', ''order_id'', ''user_id'', ''amount_cents'', ''callback_ref'']
      else if t = EventPaymentRefunded then
        [''refund_no'', ''payment_no'', ''order_id'', ''user_id'', ''amount_cents'', ''reason'']
      else if t = EventInventoryReserved \<or> t = EventInventoryReleased \<or> t = EventInventoryRestocked
      then [''reservation_id'', ''order_id'', ''user_id'', ''sku_id'', ''quantity'']
      else if t = EventShipmentCreated \<or> t = EventShipmentDelivered then [''order_id'', ''status'']
      else [])"

fun require_fields :: "(string \<times> json) list \<Rightarrow> string list \<Rightarrow> unit result" where
  "require_fields raw [] = Inr ()"
| "require_fields raw (f # fs) =
     (case json_field raw f of
        None \<Rightarrow> Inl (ErrorText (''event payload field is required: '' @ f))
      | Some JNull \<Rightarrow> Inl (ErrorText (''event payload field is required: '' @ f))
      | Some _ \<Rightarrow> require_fields raw fs)"

definition ValidateEventPayload :: "EventEnvelope \<Rightarrow> unit result" where
  "ValidateEventPayload event =
     (case Envelope_Validate event of Inl e \<Rightarrow> Inl e
      | Inr _ \<Rightarrow>
          (if eEventVersion event \<noteq> 1 \<or> \<not> IsKnownEventType (eEventType event) then Inr ()
           else case ePayload event of
             JObject raw \<Rightarrow> require_fields raw (required_fields (eEventType event))
           | _ \<Rightarrow> Inl (WrapError ''event payload must be a JSON object: ''
                     (ErrorText ''json: cannot unmarshal value into map''))))"

section \<open>Facts about envelopes and payloads\<close>

lemma Envelope_Validate_iff:
  "Envelope_Validate e = Inr () \<longleftrightarrow>
     eEventID e \<noteq> [] \<and> eEventType e \<noteq> [] \<and> 0 < eEventVersion e \<and> eAggregateType e \<noteq> [] \<and>
     eAggregateID e \<noteq> [] \<and> eOccurredAt e \<noteq> zero_time \<and> ePayload e \<noteq> JNull"
  by (auto simp: Envelope_Validate_def)

lemma NewEventEnvelope_Inr:
  "NewEventEnvelope eid t at aid v p now = Inr env \<Longrightarrow>
     Envelope_Validate env = Inr () \<and> eEventID env = TrimSpace eid \<and> eEventType env = TrimSpace t \<and>
     eAggregateID env = TrimSpace aid \<and> eEventVersion env = v \<and> ePayload env = p \<and>
     eOccurredAt env = now"
  by (auto simp: NewEventEnvelope_def Let_def split: sum.splits)

lemma NewEventEnvelope_ok:
  assumes "TrimSpace eid \<noteq> []" "TrimSpace t \<noteq> []" "TrimSpace at \<noteq> []" "TrimSpace aid \<noteq> []"
    and "0 < v" "p \<noteq> JNull" "now \<noteq> zero_time"
  shows "\<exists>env. NewEventEnvelope eid t at aid v p now = Inr env"
  using assms by (auto simp: NewEventEnvelope_def Let_def Envelope_Validate_def)

lemma require_fields_iff:
  "require_fields raw fs = Inr () \<longleftrightarrow>
     (\<forall>f \<in> set fs. \<exists>j. json_field raw f = Some j \<and> j \<noteq> JNull)"
  by (induction fs) (auto split: option.splits json.splits)

text \<open>The name of a valid envelope's inbox record determines consumer and event.\<close>

lemma Envelope_InboxKey_Inr:
  "Envelope_InboxKey e c = Inr k \<Longrightarrow> k = TrimSpace c @ '':'' @ eEventID e \<and> TrimSpace c \<noteq> [] \<and>
     Envelope_Validate e = Inr ()"
  by (auto simp: Envelope_InboxKey_def split: sum.splits if_splits)

lemmas json_reader_defs =
  with_object_def get_string_def get_uint64_def get_int64_def get_strings_def json_field_def

lemma json_strings_map: "json_strings (map JString ss) = Some ss"
  by (induction ss) auto

lemma uint64_in_range: "uint (w :: uint64) < 2 ^ 64"
  using uint_bounded [of w] by simp

lemma sint64_in_range: "- (2 ^ 63) \<le> sint (w :: int64)" "sint (w :: int64) < 2 ^ 63"
  using sint64_range [of w] by simp_all

lemmas word_ranges = uint64_in_range sint64_in_range

lemma OrderCancelled_roundtrip: "unmarshal_OrderCancelled (marshal_OrderCancelled p) = Inr p"
  using word_ranges
  by (simp add: unmarshal_OrderCancelled_def marshal_OrderCancelled_def json_reader_defs
      json_strings_map)

lemma PaymentSucceeded_roundtrip: "unmarshal_PaymentSucceeded (marshal_PaymentSucceeded p) = Inr p"
  using word_ranges
  by (simp add: unmarshal_PaymentSucceeded_def marshal_PaymentSucceeded_def json_reader_defs)

lemma PaymentRefunded_roundtrip: "unmarshal_PaymentRefunded (marshal_PaymentRefunded p) = Inr p"
  using word_ranges
  by (simp add: unmarshal_PaymentRefunded_def marshal_PaymentRefunded_def json_reader_defs)

lemma Shipment_roundtrip: "unmarshal_Shipment (marshal_Shipment p) = Inr p"
  by (simp add: unmarshal_Shipment_def marshal_Shipment_def json_reader_defs)

lemma required_fields_simps:
  "required_fields EventSeckillAccepted =
     [''order_id'', ''reservation_id'', ''user_id'', ''sku_id'', ''quantity'']"
  "required_fields EventOrderCreated = [''order_id'', ''user_id'', ''total_amount_cents'', ''items'']"
  "required_fields EventOrderCancelled = [''order_id'', ''user_id'', ''reason'', ''reservation_ids'']"
  "required_fields EventPaymentSucceeded =
     [''payment_no'', ''order_id'', ''user_id'', ''amount_cents'', ''callback_ref'']"
  "required_fields EventPaymentRefunded =
     [''refund_no'', ''payment_no'', ''order_id'', ''user_id'', ''amount_cents'', ''reason'']"
  "required_fields EventInventoryReserved =
     [''reservation_id'', ''order_id'', ''user_id'', ''sku_id'', ''quantity'']"
  "required_fields EventInventoryReleased =
     [''reservation_id'', ''order_id'', ''user_id'', ''sku_id'', ''quantity'']"
  "required_fields EventInventoryRestocked =
     [''reservation_id'', ''order_id'', ''user_id'', ''sku_id'', ''quantity'']"
  "required_fields EventShipmentCreated = [''order_id'', ''status'']"
  "required_fields EventShipmentDelivered = [''order_id'', ''status'']"
  by (simp_all add: required_fields_def const_defs)

text \<open>
  The marshalled form of each payload has the fields that \<open>ValidateEventPayload\<close> requires
  of the event types that carry it, so a valid envelope around it passes.
\<close>

lemma ValidateEventPayload_object:
  assumes "Envelope_Validate e = Inr ()"
    and "\<exists>raw. ePayload e = JObject raw \<and>
      require_fields raw (required_fields (eEventType e)) = Inr ()"
  shows "ValidateEventPayload e = Inr ()"
  using assms by (auto simp: ValidateEventPayload_def)

lemma ValidateEventPayload_OrderCreated:
  "Envelope_Validate e = Inr () \<Longrightarrow> eEventType e = EventOrderCreated \<Longrightarrow>
   ePayload e = marshal_OrderCreated p \<Longrightarrow> ValidateEventPayload e = Inr ()"
  by (rule ValidateEventPayload_object)
    (simp_all add: marshal_OrderCreated_def required_fields_simps json_field_def)

lemma ValidateEventPayload_OrderCancelled:
  "Envelope_Validate e = Inr () \<Longrightarrow> eEventType e = EventOrderCancelled \<Longrightarrow>
   ePayload e = marshal_OrderCancelled q \<Longrightarrow> ValidateEventPayload e = Inr ()"
  by (rule ValidateEventPayload_object)
    (simp_all add: marshal_OrderCancelled_def required_fields_simps json_field_def)

lemma ValidateEventPayload_PaymentSucceeded:
  "Envelope_Validate e = Inr () \<Longrightarrow> eEventType e = EventPaymentSucceeded \<Longrightarrow>
   ePayload e = marshal_PaymentSucceeded r \<Longrightarrow> ValidateEventPayload e = Inr ()"
  by (rule ValidateEventPayload_object)
    (simp_all add: marshal_PaymentSucceeded_def required_fields_simps json_field_def)

lemma ValidateEventPayload_PaymentRefunded:
  "Envelope_Validate e = Inr () \<Longrightarrow> eEventType e = EventPaymentRefunded \<Longrightarrow>
   ePayload e = marshal_PaymentRefunded t \<Longrightarrow> ValidateEventPayload e = Inr ()"
  by (rule ValidateEventPayload_object)
    (simp_all add: marshal_PaymentRefunded_def required_fields_simps json_field_def)

lemma ValidateEventPayload_Shipment:
  "Envelope_Validate e = Inr () \<Longrightarrow> eEventType e = EventShipmentCreated \<or>
   eEventType e = EventShipmentDelivered \<Longrightarrow> ePayload e = marshal_Shipment u \<Longrightarrow>
   ValidateEventPayload e = Inr ()"
  by (rule ValidateEventPayload_object)
    (auto simp: marshal_Shipment_def required_fields_simps json_field_def)

lemma ValidateEventPayload_Inventory:
  "Envelope_Validate e = Inr () \<Longrightarrow>
   eEventType e \<in> {EventSeckillAccepted, EventInventoryReserved, EventInventoryReleased,
     EventInventoryRestocked} \<Longrightarrow>
   ePayload e = marshal_InventoryReservation v \<Longrightarrow> ValidateEventPayload e = Inr ()"
  by (rule ValidateEventPayload_object)
    (auto simp: marshal_InventoryReservation_def required_fields_simps json_field_def)

end
