(* ===== verification/Boundaries.thy ===== *)
theory Boundaries
  imports Contracts
begin

text \<open>
  shared/contracts/boundaries.go: which service owns which data set, on whom it depends,
  and which events it publishes and consumes; and the start-up check of that catalog.
\<close>

record ServiceBoundary =
  bService :: string
  bOwnedData :: "string list"
  bSynchronousDependencies :: "string list"
  bPublishedEvents :: "string list"
  bConsumedEvents :: "string list"

definition serviceBoundaryCatalog :: "ServiceBoundary list" where
  "serviceBoundaryCatalog =
     [\<lparr>bService = ServiceIdentity, bOwnedData = [''users'', ''refresh_tokens'', ''user_addresses''],
       bSynchronousDependencies = [], bPublishedEvents = [], bConsumedEvents = []\<rparr>,
      \<lparr>bService = ServiceCatalog, bOwnedData = [''categories'', ''spus'', ''skus'', ''product_images''],
       bSynchronousDependencies = [], bPublishedEvents = [], bConsumedEvents = []\<rparr>,
      \<lparr>bService = ServiceInventory,
       bOwnedData = [''inventory_stock'', ''inventory_reservations'', ''seckill_activities'',
         ''seckill_user_limits''],
       bSynchronousDependencies = [],
       bPublishedEvents = [EventSeckillAccepted, EventInventoryReserved, EventInventoryReleased,
         EventInventoryRestocked],
       bConsumedEvents = []\<rparr>,
      \<lparr>bService = ServiceCart, bOwnedData = [''cart_items''], bSynchronousDependencies = [],
       bPublishedEvents = [], bConsumedEvents = []\<rparr>,
      \<lparr>bService = ServiceOrder,
       bOwnedData = [''commerce_orders'', ''order_items'', ''order_status_history'',
         ''order_create_intents'', ''order_operations'', ''order_outbox_events'',
         ''order_inbox_events''],
       bSynchronousDependencies = [ServiceCatalog, ServiceIdentity, ServiceInventory],
       bPublishedEvents = [EventOrderCreated, EventOrderCancelled],
       bConsumedEvents = [EventPaymentSucceeded, EventPaymentRefunded, EventInventoryReserved,
         EventInventoryReleased, EventShipmentCreated, EventShipmentDelivered]\<rparr>,
      \<lparr>bService = ServicePayment,
       bOwnedData = [''payments'', ''refunds'', ''payment_outbox_events'', ''payment_inbox_events''],
       bSynchronousDependencies = [],
       bPublishedEvents = [EventPaymentSucceeded, EventPaymentRefunded],
       bConsumedEvents = [EventOrderCreated, EventOrderCancelled]\<rparr>,
      \<lparr>bService = ServiceFulfillment,
       bOwnedData = [''shipments'', ''fulfillment_outbox_events'', ''fulfillment_inbox_events''],
       bSynchronousDependencies = [],
       bPublishedEvents = [EventShipmentCreated, EventShipmentDelivered],
       bConsumedEvents = [EventPaymentSucceeded]\<rparr>]"

fun ServiceBoundaryFor :: "ServiceBoundary list \<Rightarrow> string \<Rightarrow> ServiceBoundary option" where
  "ServiceBoundaryFor [] service = None"
| "ServiceBoundaryFor (b # bs) service =
     (if bService b = service then Some b else ServiceBoundaryFor bs service)"

definition boundaryCatalogContains :: "ServiceBoundary list \<Rightarrow> string \<Rightarrow> bool" where
  "boundaryCatalogContains catalog service \<longleftrightarrow> service \<in> set (map bService catalog)"

fun claim_data :: "string \<Rightarrow> string list \<Rightarrow> (string \<rightharpoonup> string) \<Rightarrow> (string \<rightharpoonup> string) result" where
  "claim_data service [] ownedBy = Inr ownedBy"
| "claim_data service (d # ds) ownedBy =
     (case ownedBy d of
        Some previous \<Rightarrow> Inl (ErrorText (''data set '' @ d @ '' owned by both '' @ previous @
          '' and '' @ service))
      | None \<Rightarrow> claim_data service ds (ownedBy(d \<mapsto> service)))"

fun check_all :: "('a \<Rightarrow> bool) \<Rightarrow> ('a \<Rightarrow> go_error) \<Rightarrow> 'a list \<Rightarrow> unit result" where
  "check_all ok err [] = Inr ()"
| "check_all ok err (x # xs) = (if ok x then check_all ok err xs else Inl (err x))"

text \<open>The loop of \<open>ValidateServiceBoundaries\<close>, with its two maps \<open>seenServices\<close> and \<open>ownedBy\<close>.\<close>

fun validate_boundaries ::
  "ServiceBoundary list \<Rightarrow> string set \<Rightarrow> (string \<rightharpoonup> string) \<Rightarrow> ServiceBoundary list \<Rightarrow> unit result" where
  "validate_boundaries catalog seen ownedBy [] = Inr ()"
| "validate_boundaries catalog seen ownedBy (b # bs) =
     (if bService b = [] then Inl (ErrorText ''service boundary service is required'')
      else if bService b \<in> seen then Inl (ErrorText (''duplicate service boundary: '' @ bService b))
      else case claim_data (bService b) (bOwnedData b) ownedBy of
        Inl e \<Rightarrow> Inl e
      | Inr ownedBy' \<Rightarrow>
         (case check_all (boundaryCatalogContains catalog)
                 (\<lambda>d. ErrorText (''service '' @ bService b @ '' depends on unknown service '' @ d))
                 (bSynchronousDependencies b) of
            Inl e \<Rightarrow> Inl e
          | Inr _ \<Rightarrow>
             (case check_all IsKnownEventType
                     (\<lambda>t. ErrorText (''service '' @ bService b @ '' references unknown event '' @ t))
                     (bPublishedEvents b @ bConsumedEvents b) of
                Inl e \<Rightarrow> Inl e
              | Inr _ \<Rightarrow> validate_boundaries catalog (insert (bService b) seen) ownedBy' bs)))"

definition ValidateServiceBoundaries :: "ServiceBoundary list \<Rightarrow> unit result" where
  "ValidateServiceBoundaries catalog = validate_boundaries catalog {} Map.empty catalog"

lemma check_all_Inr [simp]: "check_all ok err xs = Inr () \<longleftrightarrow> (\<forall>x \<in> set xs. ok x)"
  by (induction xs) auto

lemma check_all_Inl: "check_all ok err xs = Inl e \<Longrightarrow> \<not> (\<forall>x \<in> set xs. ok x)"
  by (induction xs) (auto split: if_splits)

lemma claim_data_Inr:
  "claim_data s ds m = Inr m' \<Longrightarrow>
     distinct ds \<and> set ds \<inter> dom m = {} \<and> dom m' = dom m \<union> set ds"
proof (induction ds arbitrary: m)
  case Nil
  then show ?case by simp
next
  case (Cons d ds)
  then have none: "m d = None" and rec: "claim_data s ds (m(d \<mapsto> s)) = Inr m'"
    by (auto split: option.splits)
  from Cons.IH [OF rec] none show ?case by auto
qed

lemma claim_data_ok:
  "distinct ds \<Longrightarrow> set ds \<inter> dom m = {} \<Longrightarrow> \<exists>m'. claim_data s ds m = Inr m'"
  by (induction ds arbitrary: m) (auto split: option.splits)

text \<open>
  The check accepts a catalog exactly when service names are non-empty and distinct, no
  data set is listed twice, and every dependency and event is known.
\<close>

lemma validate_boundaries_iff:
  "validate_boundaries cat seen m bs = Inr () \<longleftrightarrow>
     (\<forall>b \<in> set bs. bService b \<noteq> []) \<and> distinct (map bService bs) \<and>
     set (map bService bs) \<inter> seen = {} \<and>
     distinct (concat (map bOwnedData bs)) \<and> set (concat (map bOwnedData bs)) \<inter> dom m = {} \<and>
     (\<forall>b \<in> set bs. set (bSynchronousDependencies b) \<subseteq> set (map bService cat)) \<and>
     (\<forall>b \<in> set bs. \<forall>t \<in> set (bPublishedEvents b @ bConsumedEvents b). IsKnownEventType t)"
proof (induction bs arbitrary: seen m)
  case Nil
  show ?case by simp
next
  case (Cons b bs)
  show ?case
  proof (cases "claim_data (bService b) (bOwnedData b) m")
    case (Inl e)
    then have "\<not> (distinct (bOwnedData b) \<and> set (bOwnedData b) \<inter> dom m = {})"
      using claim_data_ok [of "bOwnedData b" m "bService b"] by auto
    with Inl show ?thesis by auto
  next
    case (Inr m')
    from claim_data_Inr [OF this] have facts: "distinct (bOwnedData b)"
      "set (bOwnedData b) \<inter> dom m = {}" "dom m' = dom m \<union> set (bOwnedData b)" by auto
    have "validate_boundaries cat seen m (b # bs) = Inr () \<longleftrightarrow>
        bService b \<noteq> [] \<and> bService b \<notin> seen \<and>
        set (bSynchronousDependencies b) \<subseteq> set (map bService cat) \<and>
        (\<forall>t \<in> set (bPublishedEvents b @ bConsumedEvents b). IsKnownEventType t) \<and>
        validate_boundaries cat (insert (bService b) seen) m' bs = Inr ()"
      using Inr by (auto simp: boundaryCatalogContains_def split: sum.splits dest!: check_all_Inl)
    moreover have "set (map bService bs) \<inter> insert (bService b) seen = {} \<longleftrightarrow>
        bService b \<notin> set (map bService bs) \<and> set (map bService bs) \<inter> seen = {}"
      by blast
    moreover have "set (concat (map bOwnedData bs)) \<inter> dom m' = {} \<longleftrightarrow>
        set (bOwnedData b) \<inter> set (concat (map bOwnedData bs)) = {} \<and>
        set (concat (map bOwnedData bs)) \<inter> dom m = {}"
      using facts(3) by blast
    moreover have "set (concat (map bOwnedData (b # bs))) \<inter> dom m = {} \<longleftrightarrow>
        set (concat (map bOwnedData bs)) \<inter> dom m = {}"
      using facts(2) by auto
    moreover have "set (map bService (b # bs)) \<inter> seen = {} \<longleftrightarrow>
        bService b \<notin> seen \<and> set (map bService bs) \<inter> seen = {}"
      by auto
    ultimately show ?thesis
      unfolding Cons.IH using facts(1) by (simp only: list.map concat.simps distinct_append
        distinct.simps list.set ball_simps) argo
  qed
qed

lemma ServiceBoundaryFor_unique:
  "distinct (map bService bs) \<Longrightarrow> b \<in> set bs \<Longrightarrow> ServiceBoundaryFor bs (bService b) = Some b"
  by (induction bs) auto

text \<open>
  C14. \<open>ValidateServiceBoundaries\<close> returns nil exactly for the catalogs in which service
  names are non-empty and distinct, no data set has two owners (or is listed twice), every
  synchronous dependency is itself in the catalog, and every event is a known one.
\<close>

theorem ValidateServiceBoundaries_correct:
  "ValidateServiceBoundaries cat = Inr () \<longleftrightarrow>
     (\<forall>b \<in> set cat. bService b \<noteq> []) \<and> distinct (map bService cat) \<and>
     distinct (concat (map bOwnedData cat)) \<and>
     (\<forall>b \<in> set cat. set (bSynchronousDependencies b) \<subseteq> set (map bService cat)) \<and>
     (\<forall>b \<in> set cat. \<forall>t \<in> set (bPublishedEvents b @ bConsumedEvents b). IsKnownEventType t)"
  by (simp add: ValidateServiceBoundaries_def validate_boundaries_iff)

theorem ValidateServiceBoundaries_correct_witness:
  "ValidateServiceBoundaries serviceBoundaryCatalog = Inr ()"
  unfolding ValidateServiceBoundaries_correct
  by (simp add: serviceBoundaryCatalog_def const_defs IsKnownEventType_def knownEventTypes_def
      TrimSpace_graphic graphic_def)

end
