(* ===== verification/Inventory.thy ===== *)
theory Inventory
  imports Contracts "HOL-Library.Char_ord"
begin

text \<open>
  services/inventory/internal/app: the reservation state machine behind normal orders and
  seckill admission (model.go, memory_store.go), the in-process event stream
  (memory_stream.go), the gRPC server (server.go) and the event handlers (events.go).
  A method of \<open>MemoryStore\<close> holds the store's mutex for its whole body, so each is one
  atomic function of the store.
\<close>

section \<open>Data (model.go, repository.go)\<close>

definition ReservationReserved :: string where [const_defs]: "ReservationReserved = ''reserved''"
definition ReservationConfirmed :: string where [const_defs]: "ReservationConfirmed = ''confirmed''"
definition ReservationReleased :: string where [const_defs]: "ReservationReleased = ''released''"
definition ReservationRestocked :: string where [const_defs]: "ReservationRestocked = ''restocked''"
definition ReservationExpired :: string where [const_defs]: "ReservationExpired = ''expired''"

record Reservation =
  rReservationID :: string
  rOrderID :: string
  rUserID :: uint64
  rActivityID :: uint64
  rSKUID :: uint64
  rQuantity :: int32
  rStatus :: string
  rMode :: string
  rCreatedAt :: time
  rUpdatedAt :: time

record ReserveCommand =
  rcReservationID :: string
  rcOrderID :: string
  rcUserID :: uint64
  rcSKUID :: uint64
  rcQuantity :: int32
  rcMode :: string

record SeckillAdmissionCommand =
  saRequestID :: string
  saActivityID :: uint64
  saUserID :: uint64
  saSKUID :: uint64
  saQuantity :: int32
  saOrderID :: string

record StreamEvent =
  seID :: string
  seEvent :: EventEnvelope

definition ErrInvalidRequest :: go_error where "ErrInvalidRequest = ErrorText ''inventory request is invalid''"
definition ErrNotFound :: go_error where "ErrNotFound = ErrorText ''inventory reservation not found''"
definition ErrOutOfStock :: go_error where "ErrOutOfStock = ErrorText ''inventory is insufficient''"
definition ErrPurchaseLimit :: go_error where "ErrPurchaseLimit = ErrorText ''purchase limit exceeded''"
definition ErrConflict :: go_error where "ErrConflict = ErrorText ''inventory reservation state conflict''"

section \<open>The store (memory_store.go)\<close>

record MemoryStore =
  msStock :: "uint64 \<rightharpoonup> int32"
  msReservations :: "string \<rightharpoonup> Reservation"
  msPurchased :: "string \<rightharpoonup> int32"
  msPurchaseLimit :: int32
  msNow :: clock
  msEventStream :: "StreamEvent list option"

text \<open>Reading a Go map of numbers at a missing key gives 0.\<close>

definition get0 :: "('k \<rightharpoonup> 'a::zero) \<Rightarrow> 'k \<Rightarrow> 'a" where
  "get0 m k = (case m k of None \<Rightarrow> 0 | Some v \<Rightarrow> v)"

definition NewMemoryStore :: "clock \<Rightarrow> (uint64 \<rightharpoonup> int32) \<Rightarrow> int32 \<Rightarrow> MemoryStore" where
  "NewMemoryStore clk stock purchaseLimit =
     \<lparr>msStock = stock, msReservations = Map.empty, msPurchased = Map.empty,
      msPurchaseLimit = (if sint purchaseLimit \<le> 0 then 1 else purchaseLimit), msNow = clk,
      msEventStream = None\<rparr>"

definition SetEventStream :: "MemoryStore \<Rightarrow> MemoryStore" where
  "SetEventStream s = s\<lparr>msEventStream := Some []\<rparr>"

definition store_now :: "(MemoryStore, time) go" where
  "store_now s = (Inr (shd (msNow s)), s\<lparr>msNow := stl (msNow s)\<rparr>)"

definition opaque_char :: "char \<Rightarrow> bool" where
  "opaque_char c \<longleftrightarrow>
     (CHR ''a'' \<le> c \<and> c \<le> CHR ''z'') \<or> (CHR ''A'' \<le> c \<and> c \<le> CHR ''Z'') \<or>
     (CHR ''0'' \<le> c \<and> c \<le> CHR ''9'') \<or> c = CHR ''-'' \<or> c = CHR ''_'' \<or> c = CHR ''.''"

text \<open>A byte outside ASCII decodes to a rune that the loop over runes rejects as well.\<close>

definition validOpaqueID :: "string \<Rightarrow> bool" where
  "validOpaqueID v \<longleftrightarrow>
     \<not> (TrimSpace v \<noteq> v \<or> v = [] \<or> 128 < length v) \<and> list_all opaque_char v"

definition validateReserveCommand :: "ReserveCommand \<Rightarrow> unit result" where
  "validateReserveCommand c =
     (if \<not> validOpaqueID (rcReservationID c) \<or> \<not> validOpaqueID (rcOrderID c) \<or> rcUserID c = 0 \<or>
         rcSKUID c = 0 \<or> sint (rcQuantity c) \<le> 0
      then Inl ErrInvalidRequest else Inr ())"

definition sameReservation :: "Reservation \<Rightarrow> ReserveCommand \<Rightarrow> bool" where
  "sameReservation r c \<longleftrightarrow>
     rOrderID r = rcOrderID c \<and> rUserID r = rcUserID c \<and> rSKUID r = rcSKUID c \<and>
     rQuantity r = rcQuantity c \<and> rMode r = rcMode c"

definition reservation_payload :: "Reservation \<Rightarrow> InventoryReservationPayload" where
  "reservation_payload r =
     \<lparr>irpReservationID = rReservationID r, irpOrderID = rOrderID r, irpUserID = rUserID r,
      irpSKUID = rSKUID r, irpQuantity = rQuantity r, irpMode = rMode r\<rparr>"

text \<open>\<open>MemoryEventStream.Append\<close>: the event goes to the end of the stream.\<close>

definition stream_append :: "EventEnvelope \<Rightarrow> StreamEvent list \<Rightarrow> StreamEvent list" where
  "stream_append event events = events @ [\<lparr>seID = eEventID event, seEvent = event\<rparr>]"

definition appendEvent :: "string \<Rightarrow> Reservation \<Rightarrow> time \<Rightarrow> (MemoryStore, unit) go" where
  "appendEvent eventType r now s =
     (case msEventStream s of
        None \<Rightarrow> (Inr (), s)
      | Some events \<Rightarrow>
         (case NewEventEnvelope (eventType @ '':'' @ rReservationID r) eventType ''reservation''
                 (rReservationID r) 1 (marshal_InventoryReservation (reservation_payload r)) now of
            Inl e \<Rightarrow> (Inl e, s)
          | Inr event \<Rightarrow> (Inr (), s\<lparr>msEventStream := Some (stream_append event events)\<rparr>)))"

definition findReservation :: "MemoryStore \<Rightarrow> string \<Rightarrow> string \<Rightarrow> Reservation result" where
  "findReservation s reservationID orderID =
     (if \<not> validOpaqueID reservationID then Inl ErrInvalidRequest
      else case msReservations s reservationID of
        None \<Rightarrow> Inl ErrNotFound
      | Some r \<Rightarrow>
          (if orderID \<noteq> [] \<and> rOrderID r \<noteq> [] \<and> rOrderID r \<noteq> orderID then Inl ErrConflict
           else Inr r))"

definition put_reservation :: "string \<Rightarrow> Reservation \<Rightarrow> (MemoryStore, unit) go" where
  "put_reservation k r = modify_state (\<lambda>s. s\<lparr>msReservations := (msReservations s)(k \<mapsto> r)\<rparr>)"

definition add_stock :: "uint64 \<Rightarrow> int32 \<Rightarrow> (MemoryStore, unit) go" where
  "add_stock sku q =
     modify_state (\<lambda>s. s\<lparr>msStock := (msStock s)(sku \<mapsto> get0 (msStock s) sku + q)\<rparr>)"

definition purchaseKey :: "uint64 \<Rightarrow> uint64 \<Rightarrow> uint64 \<Rightarrow> string" where
  "purchaseKey activityID userID skuID = key_uuu activityID userID skuID"

text \<open>The tail shared by \<open>Release\<close> and \<open>Restock\<close>: give the purchase quota back.\<close>

definition return_purchase :: "Reservation \<Rightarrow> (MemoryStore, unit) go" where
  "return_purchase r =
     (if rMode r = ''seckill'' then
        modify_state (\<lambda>s.
          let key = purchaseKey (rActivityID r) (rUserID r) (rSKUID r);
              left = get0 (msPurchased s) key - rQuantity r
          in if sint left \<le> 0 then s\<lparr>msPurchased := (msPurchased s)(key := None)\<rparr>
             else s\<lparr>msPurchased := (msPurchased s)(key \<mapsto> left)\<rparr>)
      else ret ())"

definition MemoryStore_Reserve :: "ReserveCommand \<Rightarrow> (MemoryStore, Reservation) go" where
  "MemoryStore_Reserve c =
     and_then (of_result (validateReserveCommand c)) (\<lambda>_ s.
       case msReservations s (rcReservationID c) of
         Some existing \<Rightarrow>
           (if \<not> sameReservation existing c then fail ErrConflict
            else if rStatus existing \<noteq> ReservationReserved then fail ErrConflict
            else ret existing) s
       | None \<Rightarrow>
           (if sint (get0 (msStock s) (rcSKUID c)) < sint (rcQuantity c) then fail ErrOutOfStock
            else and_then store_now (\<lambda>now.
              let reservation =
                \<lparr>rReservationID = rcReservationID c, rOrderID = rcOrderID c, rUserID = rcUserID c,
                 rActivityID = 0, rSKUID = rcSKUID c, rQuantity = rcQuantity c,
                 rStatus = ReservationReserved, rMode = rcMode c, rCreatedAt = now,
                 rUpdatedAt = now\<rparr>
              in and_then (appendEvent EventInventoryReserved reservation now) (\<lambda>_.
                 and_then (add_stock (rcSKUID c) (- rcQuantity c)) (\<lambda>_.
                 and_then (put_reservation (rcReservationID c) reservation) (\<lambda>_.
                   ret reservation))))) s)"

definition MemoryStore_Confirm :: "string \<Rightarrow> string \<Rightarrow> (MemoryStore, Reservation) go" where
  "MemoryStore_Confirm reservationID orderID = (\<lambda>s.
     and_then (of_result (findReservation s reservationID orderID)) (\<lambda>reservation.
       if rStatus reservation = ReservationConfirmed then ret reservation
       else if rStatus reservation = ReservationReserved then
         (let bound = (if rOrderID reservation = [] \<and> orderID \<noteq> []
                       then reservation\<lparr>rOrderID := orderID\<rparr> else reservation)
          in and_then store_now (\<lambda>now.
             let updated = bound\<lparr>rStatus := ReservationConfirmed, rUpdatedAt := now\<rparr>
             in and_then (put_reservation reservationID updated) (\<lambda>_. ret updated)))
       else fail ErrConflict) s)"

definition MemoryStore_Release :: "string \<Rightarrow> string \<Rightarrow> (MemoryStore, Reservation) go" where
  "MemoryStore_Release reservationID orderID = (\<lambda>s.
     and_then (of_result (findReservation s reservationID orderID)) (\<lambda>reservation.
       if rStatus reservation = ReservationReleased \<or> rStatus reservation = ReservationExpired
       then ret reservation
       else if rStatus reservation = ReservationReserved then
         and_then store_now (\<lambda>now.
           let updated = reservation\<lparr>rStatus := ReservationReleased, rUpdatedAt := now\<rparr>
           in and_then (appendEvent EventInventoryReleased updated now) (\<lambda>_.
              and_then (add_stock (rSKUID updated) (rQuantity updated)) (\<lambda>_.
              and_then (return_purchase updated) (\<lambda>_.
              and_then (put_reservation reservationID updated) (\<lambda>_. ret updated)))))
       else fail ErrConflict) s)"

definition MemoryStore_Restock :: "string \<Rightarrow> string \<Rightarrow> (MemoryStore, Reservation) go" where
  "MemoryStore_Restock reservationID orderID = (\<lambda>s.
     and_then (of_result (findReservation s reservationID orderID)) (\<lambda>reservation.
       if rStatus reservation = ReservationRestocked then ret reservation
       else if rStatus reservation = ReservationConfirmed then
         and_then store_now (\<lambda>now.
           let updated = reservation\<lparr>rStatus := ReservationRestocked, rUpdatedAt := now\<rparr>
           in and_then (appendEvent EventInventoryRestocked updated now) (\<lambda>_.
              and_then (add_stock (rSKUID updated) (rQuantity updated)) (\<lambda>_.
              and_then (return_purchase updated) (\<lambda>_.
              and_then (put_reservation reservationID updated) (\<lambda>_. ret updated)))))
       else fail ErrConflict) s)"

definition sameAdmission :: "Reservation \<Rightarrow> SeckillAdmissionCommand \<Rightarrow> bool" where
  "sameAdmission r c \<longleftrightarrow>
     \<not> (rActivityID r \<noteq> saActivityID c \<or> rUserID r \<noteq> saUserID c \<or> rSKUID r \<noteq> saSKUID c \<or>
        rQuantity r \<noteq> saQuantity c \<or> (saOrderID c \<noteq> [] \<and> rOrderID r \<noteq> saOrderID c))"

definition MemoryStore_AdmitSeckill :: "SeckillAdmissionCommand \<Rightarrow> (MemoryStore, Reservation) go" where
  "MemoryStore_AdmitSeckill c =
     (if \<not> validOpaqueID (saRequestID c) \<or> saActivityID c = 0 \<or> saUserID c = 0 \<or> saSKUID c = 0 \<or>
         sint (saQuantity c) \<le> 0
      then fail ErrInvalidRequest
      else (\<lambda>s.
        let reservationID = ''admit_'' @ saRequestID c;
            key = purchaseKey (saActivityID c) (saUserID c) (saSKUID c)
        in case msReservations s reservationID of
             Some existing \<Rightarrow>
               (if \<not> sameAdmission existing c then fail ErrConflict
                else if rStatus existing \<noteq> ReservationReserved then fail ErrConflict
                else ret existing) s
           | None \<Rightarrow>
               (if sint (msPurchaseLimit s) < sint (get0 (msPurchased s) key + saQuantity c)
                then fail ErrPurchaseLimit
                else if sint (get0 (msStock s) (saSKUID c)) < sint (saQuantity c)
                then fail ErrOutOfStock
                else and_then store_now (\<lambda>now.
                  let reservation =
                    \<lparr>rReservationID = reservationID, rOrderID = saOrderID c, rUserID = saUserID c,
                     rActivityID = saActivityID c, rSKUID = saSKUID c, rQuantity = saQuantity c,
                     rStatus = ReservationReserved, rMode = ''seckill'', rCreatedAt = now,
                     rUpdatedAt = now\<rparr>
                  in and_then (appendEvent EventSeckillAccepted reservation now) (\<lambda>_.
                     and_then (appendEvent EventInventoryReserved reservation now) (\<lambda>_.
                     and_then (add_stock (saSKUID c) (- saQuantity c)) (\<lambda>_.
                     and_then (modify_state (\<lambda>s. s\<lparr>msPurchased :=
                       (msPurchased s)(key \<mapsto> get0 (msPurchased s) key + saQuantity c)\<rparr>)) (\<lambda>_.
                     and_then (put_reservation reservationID reservation) (\<lambda>_.
                       ret reservation))))))) s))"

definition AvailableStock :: "MemoryStore \<Rightarrow> uint64 \<Rightarrow> int32" where
  "AvailableStock s skuID = get0 (msStock s) skuID"

text \<open>The keys are met in the order \<open>ks\<close> of the range loop.\<close>

definition ReservationIDsByOrder :: "string list \<Rightarrow> MemoryStore \<Rightarrow> string \<Rightarrow> string list" where
  "ReservationIDsByOrder ks s orderID =
     filter (\<lambda>k. case msReservations s k of None \<Rightarrow> False | Some r \<Rightarrow> rOrderID r = orderID) ks"

section \<open>The gRPC server (server.go)\<close>

record InventoryReservationResponse =
  irsReservationId :: string
  irsStatus :: string
  irsMessage :: string

record InventorySeckillAdmitResponse =
  isrAdmissionId :: string
  isrStatus :: string
  isrMessage :: string

definition mapError :: "go_error \<Rightarrow> go_error" where
  "mapError err =
     (if errors_is err ErrInvalidRequest then StatusError InvalidArgument ''inventory request invalid''
      else if errors_is err ErrNotFound then StatusError NotFound ''reservation does not exist''
      else if errors_is err ErrOutOfStock then StatusError ResourceExhausted ''out of stock''
      else if errors_is err ErrPurchaseLimit then StatusError AlreadyExists ''seckill purchase limit exceeded''
      else if errors_is err ErrConflict then StatusError Aborted ''reservation state conflict''
      else StatusError Internal ''inventory service unavailable'')"

definition reservationResponse :: "Reservation \<Rightarrow> string \<Rightarrow> InventoryReservationResponse" where
  "reservationResponse r message =
     \<lparr>irsReservationId = rReservationID r, irsStatus = rStatus r, irsMessage = message\<rparr>"

text \<open>A handler: a nil request is refused, an error is mapped to a status.\<close>

definition respond :: "(MemoryStore, Reservation) go \<Rightarrow> (Reservation \<Rightarrow> 'a) \<Rightarrow> (MemoryStore, 'a) go" where
  "respond m reply =
     inspect m (\<lambda>r. case r of Inl e \<Rightarrow> fail (mapError e) | Inr v \<Rightarrow> ret (reply v))"

definition nil_request :: go_error where
  "nil_request = StatusError InvalidArgument ''request must not be empty''"

definition Server_Reserve :: "ReserveCommand option \<Rightarrow> (MemoryStore, InventoryReservationResponse) go" where
  "Server_Reserve req = (case req of None \<Rightarrow> fail nil_request
     | Some c \<Rightarrow> respond (MemoryStore_Reserve c) (\<lambda>r. reservationResponse r ''reserved''))"

definition Server_Confirm :: "(string \<times> string) option \<Rightarrow> (MemoryStore, InventoryReservationResponse) go" where
  "Server_Confirm req = (case req of None \<Rightarrow> fail nil_request
     | Some (rid, oid) \<Rightarrow> respond (MemoryStore_Confirm rid oid) (\<lambda>r. reservationResponse r ''confirmed''))"

definition Server_Release :: "(string \<times> string) option \<Rightarrow> (MemoryStore, InventoryReservationResponse) go" where
  "Server_Release req = (case req of None \<Rightarrow> fail nil_request
     | Some (rid, oid) \<Rightarrow> respond (MemoryStore_Release rid oid) (\<lambda>r. reservationResponse r ''released''))"

definition Server_Restock :: "(string \<times> string) option \<Rightarrow> (MemoryStore, InventoryReservationResponse) go" where
  "Server_Restock req = (case req of None \<Rightarrow> fail nil_request
     | Some (rid, oid) \<Rightarrow> respond (MemoryStore_Restock rid oid) (\<lambda>r. reservationResponse r ''refunded and restocked''))"

definition Server_AdmitSeckill ::
  "SeckillAdmissionCommand option \<Rightarrow> (MemoryStore, InventorySeckillAdmitResponse) go" where
  "Server_AdmitSeckill req = (case req of None \<Rightarrow> fail nil_request
     | Some c \<Rightarrow> respond (MemoryStore_AdmitSeckill c) (\<lambda>r.
         \<lparr>isrAdmissionId = rReservationID r, isrStatus = rStatus r, isrMessage = ''admitted''\<rparr>))"

section \<open>Event handlers (events.go)\<close>

text \<open>\<open>ErrNotFound\<close> of a single reservation is skipped, any other error stops the loop.\<close>

definition skip_not_found :: "(MemoryStore, Reservation) go \<Rightarrow> (MemoryStore, unit) go" where
  "skip_not_found m =
     inspect m (\<lambda>r. case r of Inl e \<Rightarrow> if e \<noteq> ErrNotFound then fail e else ret () | Inr _ \<Rightarrow> ret ())"

definition decodeInventoryPayload :: "EventEnvelope \<Rightarrow> (json \<Rightarrow> 'a result) \<Rightarrow> 'a result" where
  "decodeInventoryPayload event unmarshal =
     (case ValidateEventPayload event of Inl e \<Rightarrow> Inl e | Inr _ \<Rightarrow> unmarshal (ePayload event))"

definition Handler_orderCancelled :: "EventEnvelope \<Rightarrow> (MemoryStore, unit) go" where
  "Handler_orderCancelled event =
     and_then (of_result (decodeInventoryPayload event unmarshal_OrderCancelled)) (\<lambda>payload.
       for_each (oxpReservationIDs payload) (\<lambda>rid.
         skip_not_found (MemoryStore_Release rid (oxpOrderID payload))))"

definition Handler_paymentRefunded :: "string list \<Rightarrow> EventEnvelope \<Rightarrow> (MemoryStore, unit) go" where
  "Handler_paymentRefunded ks event =
     and_then (of_result (decodeInventoryPayload event unmarshal_PaymentRefunded)) (\<lambda>payload s.
       for_each (ReservationIDsByOrder ks s (prpOrderID payload)) (\<lambda>rid.
         skip_not_found (MemoryStore_Restock rid (prpOrderID payload))) s)"

end
