(* ===== verification/Inventory_Branches.thy ===== *)
theory Inventory_Branches
  imports Inventory
begin

text \<open>
  The branches of the store's methods: what each returns and the exact store it leaves,
  error paths included. The refinement, the life-cycle and the event-stream properties of
  the inventory all rest on these equations.
\<close>

section \<open>Opaque identifiers and the events of a reservation\<close>

definition opaque_text :: "string \<Rightarrow> bool" where
  "opaque_text v \<longleftrightarrow> v \<noteq> [] \<and> list_all opaque_char v"

lemma opaque_char_graphic: "opaque_char c \<Longrightarrow> graphic c"
  by (auto simp: opaque_char_def graphic_def less_eq_char_def)

lemma opaque_text_ends:
  "opaque_text v \<Longrightarrow> graphic (hd v) \<and> graphic (last v)"
  by (cases v) (auto simp: opaque_text_def list_all_iff intro: opaque_char_graphic)

lemma opaque_text_trimmed: "opaque_text v \<Longrightarrow> TrimSpace v = v"
  using opaque_text_ends by (intro TrimSpace_graphic) blast

lemma validOpaqueID_iff: "validOpaqueID v \<longleftrightarrow> opaque_text v \<and> length v \<le> 128"
  using opaque_text_trimmed by (auto simp: validOpaqueID_def opaque_text_def)

lemma opaque_text_admit: "opaque_text v \<Longrightarrow> opaque_text (''admit_'' @ v)"
  by (simp add: opaque_text_def opaque_char_def)

definition reservation_event :: "string \<Rightarrow> Reservation \<Rightarrow> time \<Rightarrow> EventEnvelope" where
  "reservation_event t r now =
     \<lparr>eEventID = t @ '':'' @ rReservationID r, eEventType = t, eEventVersion = 1,
      eAggregateType = ''reservation'', eAggregateID = rReservationID r, eOccurredAt = now,
      eTraceID = [], ePayload = marshal_InventoryReservation (reservation_payload r)\<rparr>"

definition zero_clock_error :: go_error where
  "zero_clock_error = ErrorText ''occurred_at is required''"

lemma known_event_hd: "t \<in> set knownEventTypes \<Longrightarrow> t \<noteq> [] \<and> graphic (hd t)"
  by (auto simp: knownEventTypes_def const_defs graphic_def)

lemma NewEventEnvelope_reservation:
  assumes "t \<in> set knownEventTypes" and "opaque_text (rReservationID r)"
  shows "NewEventEnvelope (t @ '':'' @ rReservationID r) t ''reservation'' (rReservationID r) 1
      (marshal_InventoryReservation (reservation_payload r)) now =
    (if now = zero_time then Inl zero_clock_error else Inr (reservation_event t r now))"
proof -
  have "TrimSpace (t @ '':'' @ rReservationID r) = t @ '':'' @ rReservationID r"
    using known_event_hd [OF assms(1)] opaque_text_ends [OF assms(2)] assms(2)
    by (intro TrimSpace_graphic) (auto simp: opaque_text_def)
  moreover have "TrimSpace ''reservation'' = ''reservation''"
    by (rule TrimSpace_graphic) (simp add: graphic_def)
  moreover have "rReservationID r \<noteq> []" using assms(2) by (simp add: opaque_text_def)
  ultimately show ?thesis
    using known_event_trimmed [OF assms(1)] opaque_text_trimmed [OF assms(2)]
      known_event_hd [OF assms(1)]
    by (simp add: NewEventEnvelope_def Envelope_Validate_def reservation_event_def
        zero_clock_error_def marshal_InventoryReservation_def)
qed

section \<open>The parts of a transition\<close>

definition tick :: "MemoryStore \<Rightarrow> MemoryStore" where
  "tick s = s\<lparr>msNow := stl (msNow s)\<rparr>"

definition log_event :: "EventEnvelope \<Rightarrow> MemoryStore \<Rightarrow> MemoryStore" where
  "log_event ev s = s\<lparr>msEventStream := map_option (stream_append ev) (msEventStream s)\<rparr>"

text \<open>With a stream attached, an event cannot be stamped with the zero time.\<close>

definition stampable :: "MemoryStore \<Rightarrow> bool" where
  "stampable s \<longleftrightarrow> msEventStream s = None \<or> shd (msNow s) \<noteq> zero_time"

lemma part_sel [simp]:
  "msStock (tick s) = msStock s" "msReservations (tick s) = msReservations s"
  "msPurchased (tick s) = msPurchased s" "msPurchaseLimit (tick s) = msPurchaseLimit s"
  "msEventStream (tick s) = msEventStream s" "msNow (tick s) = stl (msNow s)"
  "msStock (log_event ev s) = msStock s" "msReservations (log_event ev s) = msReservations s"
  "msPurchased (log_event ev s) = msPurchased s" "msPurchaseLimit (log_event ev s) = msPurchaseLimit s"
  "msNow (log_event ev s) = msNow s"
  "msEventStream (log_event ev s) = map_option (stream_append ev) (msEventStream s)"
  by (simp_all add: tick_def log_event_def)

lemma appendEvent_exact:
  assumes "t \<in> set knownEventTypes" and "opaque_text (rReservationID r)"
  shows "appendEvent t r now s =
    (if msEventStream s = None \<or> now \<noteq> zero_time then (Inr (), log_event (reservation_event t r now) s)
     else (Inl zero_clock_error, s))"
  by (simp del: append.simps add: appendEvent_def NewEventEnvelope_reservation [OF assms]
      log_event_def split: option.splits)

lemma inventory_events_known:
  "EventInventoryReserved \<in> set knownEventTypes" "EventInventoryReleased \<in> set knownEventTypes"
  "EventInventoryRestocked \<in> set knownEventTypes" "EventSeckillAccepted \<in> set knownEventTypes"
  by (simp_all add: knownEventTypes_def)

text \<open>Stock and quota leave with a new reservation and come back with a finished one.\<close>

definition hold :: "bool \<Rightarrow> Reservation \<Rightarrow> MemoryStore \<Rightarrow> MemoryStore" where
  "hold quota r s =
     (let key = purchaseKey (rActivityID r) (rUserID r) (rSKUID r) in
      s\<lparr>msStock := (msStock s)(rSKUID r \<mapsto> get0 (msStock s) (rSKUID r) - rQuantity r),
        msPurchased := (if quota
          then (msPurchased s)(key \<mapsto> get0 (msPurchased s) key + rQuantity r) else msPurchased s),
        msReservations := (msReservations s)(rReservationID r \<mapsto> r)\<rparr>)"

definition hand_back :: "string \<Rightarrow> Reservation \<Rightarrow> MemoryStore \<Rightarrow> MemoryStore" where
  "hand_back k r s =
     (let key = purchaseKey (rActivityID r) (rUserID r) (rSKUID r);
          left = get0 (msPurchased s) key - rQuantity r in
      s\<lparr>msStock := (msStock s)(rSKUID r \<mapsto> get0 (msStock s) (rSKUID r) + rQuantity r),
        msPurchased := (if rMode r = ''seckill''
          then (msPurchased s)(key := if sint left \<le> 0 then None else Some left)
          else msPurchased s),
        msReservations := (msReservations s)(k \<mapsto> r)\<rparr>)"

lemma hold_sel [simp]:
  "msReservations (hold b r s) = (msReservations s)(rReservationID r \<mapsto> r)"
  "msEventStream (hold b r s) = msEventStream s" "msNow (hold b r s) = msNow s"
  "msPurchaseLimit (hold b r s) = msPurchaseLimit s"
  by (simp_all add: hold_def Let_def)

lemma hand_back_sel [simp]:
  "msReservations (hand_back k r s) = (msReservations s)(k \<mapsto> r)"
  "msEventStream (hand_back k r s) = msEventStream s" "msNow (hand_back k r s) = msNow s"
  "msPurchaseLimit (hand_back k r s) = msPurchaseLimit s"
  by (simp_all add: hand_back_def Let_def)

lemma hand_back_runs:
  "and_then (add_stock (rSKUID r) (rQuantity r)) (\<lambda>_. and_then (return_purchase r) (\<lambda>_.
     and_then (put_reservation k r) (\<lambda>_. ret r))) s = (Inr r, hand_back k r s)"
  by (simp add: hand_back_def add_stock_def return_purchase_def put_reservation_def
      go_defs Let_def)

section \<open>Reserve and AdmitSeckill\<close>

definition new_reservation :: "ReserveCommand \<Rightarrow> time \<Rightarrow> Reservation" where
  "new_reservation c now =
     \<lparr>rReservationID = rcReservationID c, rOrderID = rcOrderID c, rUserID = rcUserID c,
      rActivityID = 0, rSKUID = rcSKUID c, rQuantity = rcQuantity c, rStatus = ReservationReserved,
      rMode = rcMode c, rCreatedAt = now, rUpdatedAt = now\<rparr>"

definition new_admission :: "SeckillAdmissionCommand \<Rightarrow> time \<Rightarrow> Reservation" where
  "new_admission c now =
     \<lparr>rReservationID = ''admit_'' @ saRequestID c, rOrderID = saOrderID c, rUserID = saUserID c,
      rActivityID = saActivityID c, rSKUID = saSKUID c, rQuantity = saQuantity c,
      rStatus = ReservationReserved, rMode = ''seckill'', rCreatedAt = now, rUpdatedAt = now\<rparr>"

lemma new_reservation_sel [simp]:
  "rReservationID (new_reservation c now) = rcReservationID c" "rOrderID (new_reservation c now) = rcOrderID c"
  "rUserID (new_reservation c now) = rcUserID c" "rActivityID (new_reservation c now) = 0"
  "rSKUID (new_reservation c now) = rcSKUID c" "rQuantity (new_reservation c now) = rcQuantity c"
  "rStatus (new_reservation c now) = ReservationReserved" "rMode (new_reservation c now) = rcMode c"
  by (simp_all add: new_reservation_def)

lemma new_admission_sel [simp]:
  "rReservationID (new_admission c now) = ''admit_'' @ saRequestID c" "rOrderID (new_admission c now) = saOrderID c"
  "rUserID (new_admission c now) = saUserID c" "rActivityID (new_admission c now) = saActivityID c"
  "rSKUID (new_admission c now) = saSKUID c" "rQuantity (new_admission c now) = saQuantity c"
  "rStatus (new_admission c now) = ReservationReserved" "rMode (new_admission c now) = ''seckill''"
  by (simp_all add: new_admission_def)

definition reserve_command_ok :: "ReserveCommand \<Rightarrow> bool" where
  "reserve_command_ok c \<longleftrightarrow>
     validOpaqueID (rcReservationID c) \<and> validOpaqueID (rcOrderID c) \<and> rcUserID c \<noteq> 0 \<and>
     rcSKUID c \<noteq> 0 \<and> 0 < sint (rcQuantity c)"

definition admission_ok :: "SeckillAdmissionCommand \<Rightarrow> bool" where
  "admission_ok c \<longleftrightarrow>
     validOpaqueID (saRequestID c) \<and> saActivityID c \<noteq> 0 \<and> saUserID c \<noteq> 0 \<and> saSKUID c \<noteq> 0 \<and>
     0 < sint (saQuantity c)"

definition admission_key :: "SeckillAdmissionCommand \<Rightarrow> string" where
  "admission_key c = purchaseKey (saActivityID c) (saUserID c) (saSKUID c)"

text \<open>The store after a new reservation: clock read, events logged, stock held.\<close>

definition reserved :: "ReserveCommand \<Rightarrow> MemoryStore \<Rightarrow> MemoryStore" where
  "reserved c s =
     (let r = new_reservation c (shd (msNow s)) in
      hold False r (log_event (reservation_event EventInventoryReserved r (shd (msNow s))) (tick s)))"

definition admitted :: "SeckillAdmissionCommand \<Rightarrow> MemoryStore \<Rightarrow> MemoryStore" where
  "admitted c s =
     (let now = shd (msNow s); r = new_admission c now in
      hold True r (log_event (reservation_event EventInventoryReserved r now)
        (log_event (reservation_event EventSeckillAccepted r now) (tick s))))"

lemma Reserve_exact:
  "MemoryStore_Reserve c s =
     (if \<not> reserve_command_ok c then (Inl ErrInvalidRequest, s)
      else case msReservations s (rcReservationID c) of
        Some r \<Rightarrow>
          (if sameReservation r c \<and> rStatus r = ReservationReserved then (Inr r, s)
           else (Inl ErrConflict, s))
      | None \<Rightarrow>
          (if sint (get0 (msStock s) (rcSKUID c)) < sint (rcQuantity c) then (Inl ErrOutOfStock, s)
           else if \<not> stampable s then (Inl zero_clock_error, tick s)
           else (Inr (new_reservation c (shd (msNow s))), reserved c s)))"
proof (cases "reserve_command_ok c")
  case True
  then have "opaque_text (rcReservationID c)"
    by (simp add: reserve_command_ok_def validOpaqueID_iff)
  with True show ?thesis
    by (simp add: MemoryStore_Reserve_def go_defs validateReserveCommand_def reserve_command_ok_def
        not_le store_now_def new_reservation_def [symmetric] inventory_events_known
        appendEvent_exact stampable_def tick_def [symmetric] reserved_def hold_def Let_def
        add_stock_def put_reservation_def split: option.split)
next
  case False
  then show ?thesis
    by (auto simp: MemoryStore_Reserve_def go_defs validateReserveCommand_def reserve_command_ok_def)
qed

lemma AdmitSeckill_exact:
  "MemoryStore_AdmitSeckill c s =
     (if \<not> admission_ok c then (Inl ErrInvalidRequest, s)
      else case msReservations s (''admit_'' @ saRequestID c) of
        Some r \<Rightarrow>
          (if sameAdmission r c \<and> rStatus r = ReservationReserved then (Inr r, s)
           else (Inl ErrConflict, s))
      | None \<Rightarrow>
          (if sint (msPurchaseLimit s) < sint (get0 (msPurchased s) (admission_key c) + saQuantity c)
           then (Inl ErrPurchaseLimit, s)
           else if sint (get0 (msStock s) (saSKUID c)) < sint (saQuantity c) then (Inl ErrOutOfStock, s)
           else if \<not> stampable s then (Inl zero_clock_error, tick s)
           else (Inr (new_admission c (shd (msNow s))), admitted c s)))"
proof (cases "admission_ok c")
  case True
  then have "opaque_text (''admit_'' @ saRequestID c)"
    using opaque_text_admit by (simp add: admission_ok_def validOpaqueID_iff)
  with True show ?thesis
    by (simp del: append.simps add: MemoryStore_AdmitSeckill_def go_defs admission_ok_def admission_key_def
        not_le store_now_def new_admission_def [symmetric] inventory_events_known
        appendEvent_exact stampable_def tick_def [symmetric] admitted_def hold_def Let_def
        add_stock_def put_reservation_def split: option.split)
next
  case False
  then show ?thesis
    by (auto simp: MemoryStore_AdmitSeckill_def go_defs admission_ok_def)
qed

section \<open>Confirm, Release and Restock\<close>

text \<open>Reservations are filed under their own identifier.\<close>

definition ids_ok :: "MemoryStore \<Rightarrow> bool" where
  "ids_ok s \<longleftrightarrow>
     (\<forall>k r. msReservations s k = Some r \<longrightarrow> rReservationID r = k \<and> opaque_text k)"

lemma ids_okD:
  "ids_ok s \<Longrightarrow> msReservations s k = Some r \<Longrightarrow> rReservationID r = k \<and> opaque_text k"
  by (simp add: ids_ok_def)

lemma findReservation_InrD:
  "findReservation s rid oid = Inr r \<Longrightarrow>
     msReservations s rid = Some r \<and> validOpaqueID rid \<and>
     (oid = [] \<or> rOrderID r = [] \<or> rOrderID r = oid)"
  by (auto simp: findReservation_def split: if_splits option.splits)

lemma findReservation_Inr_iff:
  "findReservation s rid oid = Inr r \<longleftrightarrow>
     msReservations s rid = Some r \<and> validOpaqueID rid \<and>
     (oid = [] \<or> rOrderID r = [] \<or> rOrderID r = oid)"
  by (auto simp: findReservation_def split: if_splits option.splits)

definition bound :: "string \<Rightarrow> Reservation \<Rightarrow> Reservation" where
  "bound oid r = (if rOrderID r = [] \<and> oid \<noteq> [] then r\<lparr>rOrderID := oid\<rparr> else r)"

definition confirmed :: "string \<Rightarrow> string \<Rightarrow> Reservation \<Rightarrow> MemoryStore \<Rightarrow> MemoryStore" where
  "confirmed rid oid r s = (tick s)\<lparr>msReservations := (msReservations s)(rid \<mapsto>
     (bound oid r)\<lparr>rStatus := ReservationConfirmed, rUpdatedAt := shd (msNow s)\<rparr>)\<rparr>"

definition returned :: "string \<Rightarrow> string \<Rightarrow> string \<Rightarrow> Reservation \<Rightarrow> MemoryStore \<Rightarrow> MemoryStore" where
  "returned t st rid r s =
     (let r' = r\<lparr>rStatus := st, rUpdatedAt := shd (msNow s)\<rparr> in
      hand_back rid r' (log_event (reservation_event t r' (shd (msNow s))) (tick s)))"

lemma Confirm_exact:
  "MemoryStore_Confirm rid oid s =
     (case findReservation s rid oid of
        Inl e \<Rightarrow> (Inl e, s)
      | Inr r \<Rightarrow>
          (if rStatus r = ReservationConfirmed then (Inr r, s)
           else if rStatus r = ReservationReserved then
             (Inr ((bound oid r)\<lparr>rStatus := ReservationConfirmed, rUpdatedAt := shd (msNow s)\<rparr>),
              confirmed rid oid r s)
           else (Inl ErrConflict, s)))"
  by (simp add: MemoryStore_Confirm_def go_defs bound_def [symmetric] store_now_def confirmed_def
      tick_def put_reservation_def Let_def split: sum.split)

lemma Release_exact:
  assumes "ids_ok s"
  shows "MemoryStore_Release rid oid s =
     (case findReservation s rid oid of
        Inl e \<Rightarrow> (Inl e, s)
      | Inr r \<Rightarrow>
          (if rStatus r = ReservationReleased \<or> rStatus r = ReservationExpired then (Inr r, s)
           else if rStatus r = ReservationReserved then
             (if \<not> stampable s then (Inl zero_clock_error, tick s)
              else (Inr (r\<lparr>rStatus := ReservationReleased, rUpdatedAt := shd (msNow s)\<rparr>),
                returned EventInventoryReleased ReservationReleased rid r s))
           else (Inl ErrConflict, s)))"
proof (cases "findReservation s rid oid")
  case (Inr r)
  then have "opaque_text (rReservationID r)"
    using ids_okD [OF assms] findReservation_InrD by metis
  then show ?thesis
    using hand_back_runs [of "r\<lparr>rStatus := ReservationReleased, rUpdatedAt := shd (msNow s)\<rparr>" rid]
    by (simp add: Inr MemoryStore_Release_def go_defs store_now_def tick_def [symmetric]
        inventory_events_known appendEvent_exact stampable_def returned_def Let_def)
qed (simp add: MemoryStore_Release_def go_defs)

lemma Restock_exact:
  assumes "ids_ok s"
  shows "MemoryStore_Restock rid oid s =
     (case findReservation s rid oid of
        Inl e \<Rightarrow> (Inl e, s)
      | Inr r \<Rightarrow>
          (if rStatus r = ReservationRestocked then (Inr r, s)
           else if rStatus r = ReservationConfirmed then
             (if \<not> stampable s then (Inl zero_clock_error, tick s)
              else (Inr (r\<lparr>rStatus := ReservationRestocked, rUpdatedAt := shd (msNow s)\<rparr>),
                returned EventInventoryRestocked ReservationRestocked rid r s))
           else (Inl ErrConflict, s)))"
proof (cases "findReservation s rid oid")
  case (Inr r)
  then have "opaque_text (rReservationID r)"
    using ids_okD [OF assms] findReservation_InrD by metis
  then show ?thesis
    using hand_back_runs [of "r\<lparr>rStatus := ReservationRestocked, rUpdatedAt := shd (msNow s)\<rparr>" rid]
    by (simp add: Inr MemoryStore_Restock_def go_defs store_now_def tick_def [symmetric]
        inventory_events_known appendEvent_exact stampable_def returned_def Let_def)
qed (simp add: MemoryStore_Restock_def go_defs)

lemmas method_exact = Reserve_exact AdmitSeckill_exact Confirm_exact Release_exact Restock_exact

section \<open>The changes of state a method can make\<close>

inductive store_change :: "MemoryStore \<Rightarrow> MemoryStore \<Rightarrow> bool" where
  unchanged: "store_change s s"
| ticked: "store_change s (tick s)"
| reserves: "store_change s (reserved c s)"
    if "reserve_command_ok c" "msReservations s (rcReservationID c) = None"
      "sint (rcQuantity c) \<le> sint (get0 (msStock s) (rcSKUID c))" "stampable s"
| admits: "store_change s (admitted c s)"
    if "admission_ok c" "msReservations s (''admit_'' @ saRequestID c) = None"
      "sint (get0 (msPurchased s) (admission_key c) + saQuantity c) \<le> sint (msPurchaseLimit s)"
      "sint (saQuantity c) \<le> sint (get0 (msStock s) (saSKUID c))" "stampable s"
| confirms: "store_change s (confirmed rid oid r s)"
    if "findReservation s rid oid = Inr r" "rStatus r = ReservationReserved"
| releases: "store_change s (returned EventInventoryReleased ReservationReleased rid r s)"
    if "findReservation s rid oid = Inr r" "rStatus r = ReservationReserved" "stampable s"
| restocks: "store_change s (returned EventInventoryRestocked ReservationRestocked rid r s)"
    if "findReservation s rid oid = Inr r" "rStatus r = ReservationConfirmed" "stampable s"

inductive_cases store_changeE: "store_change s s'"

lemma Reserve_change: "store_change s (snd (MemoryStore_Reserve c s))"
  by (auto simp: Reserve_exact not_less split: option.split intro: store_change.intros)

lemma AdmitSeckill_change: "store_change s (snd (MemoryStore_AdmitSeckill c s))"
  by (simp add: AdmitSeckill_exact not_less store_change.intros split: option.split)

lemma Confirm_change: "store_change s (snd (MemoryStore_Confirm rid oid s))"
  by (auto simp: Confirm_exact split: sum.split intro: store_change.intros)

lemma Release_change: "ids_ok s \<Longrightarrow> store_change s (snd (MemoryStore_Release rid oid s))"
  by (auto simp: Release_exact split: sum.split intro: store_change.intros)

lemma Restock_change: "ids_ok s \<Longrightarrow> store_change s (snd (MemoryStore_Restock rid oid s))"
  by (auto simp: Restock_exact split: sum.split intro: store_change.intros)

lemmas method_change =
  Reserve_change AdmitSeckill_change Confirm_change Release_change Restock_change

lemma status_distinct [simp]:
  "ReservationReserved \<noteq> ReservationConfirmed" "ReservationConfirmed \<noteq> ReservationReserved"
  "ReservationReserved \<noteq> ReservationReleased" "ReservationReleased \<noteq> ReservationReserved"
  "ReservationReserved \<noteq> ReservationRestocked" "ReservationRestocked \<noteq> ReservationReserved"
  "ReservationConfirmed \<noteq> ReservationReleased" "ReservationReleased \<noteq> ReservationConfirmed"
  "ReservationConfirmed \<noteq> ReservationRestocked" "ReservationRestocked \<noteq> ReservationConfirmed"
  "ReservationReleased \<noteq> ReservationRestocked" "ReservationRestocked \<noteq> ReservationReleased"
  "ReservationReserved \<noteq> ReservationExpired" "ReservationConfirmed \<noteq> ReservationExpired"
  "ReservationReleased \<noteq> ReservationExpired" "ReservationRestocked \<noteq> ReservationExpired"
  "ReservationExpired \<noteq> ReservationReserved" "ReservationExpired \<noteq> ReservationConfirmed"
  "ReservationExpired \<noteq> ReservationReleased" "ReservationExpired \<noteq> ReservationRestocked"
  by (simp_all add: const_defs)

lemma change_sel [simp]:
  "msReservations (reserved c s) =
     (msReservations s)(rcReservationID c \<mapsto> new_reservation c (shd (msNow s)))"
  "msReservations (admitted a s) =
     (msReservations s)(''admit_'' @ saRequestID a \<mapsto> new_admission a (shd (msNow s)))"
  "msReservations (confirmed rid oid r s) = (msReservations s)(rid \<mapsto>
     (bound oid r)\<lparr>rStatus := ReservationConfirmed, rUpdatedAt := shd (msNow s)\<rparr>)"
  "msReservations (returned t st rid r s) = (msReservations s)(rid \<mapsto>
     r\<lparr>rStatus := st, rUpdatedAt := shd (msNow s)\<rparr>)"
  "msPurchaseLimit (reserved c s) = msPurchaseLimit s" "msPurchaseLimit (admitted a s) = msPurchaseLimit s"
  "msPurchaseLimit (confirmed rid oid r s) = msPurchaseLimit s"
  "msPurchaseLimit (returned t st rid r s) = msPurchaseLimit s"
  by (simp_all add: reserved_def admitted_def confirmed_def returned_def Let_def)

lemma bound_sel [simp]:
  "rReservationID (bound oid r) = rReservationID r" "rStatus (bound oid r) = rStatus r"
  "rUserID (bound oid r) = rUserID r" "rActivityID (bound oid r) = rActivityID r"
  "rSKUID (bound oid r) = rSKUID r" "rQuantity (bound oid r) = rQuantity r"
  "rMode (bound oid r) = rMode r"
  by (simp_all add: bound_def)

lemma ids_ok_change:
  assumes "ids_ok s" and "store_change s s'"
  shows "ids_ok s'"
  using assms(2)
proof cases
  case (reserves c)
  then show ?thesis
    using assms(1) by (simp add: ids_ok_def reserve_command_ok_def validOpaqueID_iff)
next
  case (admits c)
  then have "opaque_text (''admit_'' @ saRequestID c)"
    using opaque_text_admit by (simp add: admission_ok_def validOpaqueID_iff)
  with admits assms(1) show ?thesis by (simp add: ids_ok_def)
next
  case (confirms rid oid r)
  then show ?thesis using assms(1) by (auto simp: ids_ok_def findReservation_Inr_iff)
next
  case (releases rid oid r)
  then show ?thesis using assms(1) by (auto simp: ids_ok_def findReservation_Inr_iff)
next
  case (restocks rid oid r)
  then show ?thesis using assms(1) by (auto simp: ids_ok_def findReservation_Inr_iff)
qed (use assms(1) in \<open>simp_all add: ids_ok_def\<close>)

end
