(* ===== verification/Inventory_Ledger.thy ===== *)
theory Inventory_Ledger
  imports Inventory_Branches
begin

text \<open>
  The contract of the inventory store: an abstract ledger over unbounded integers, the
  steps it may take, and the invariants of those steps (conservation of stock, purchase
  quota).
\<close>

section \<open>The abstract ledger\<close>

text \<open>
  \<open>lAvail\<close> is the sellable stock of a SKU, \<open>lBought\<close> the quantity a user holds of a SKU in
  an activity, both as integers that cannot overflow.
\<close>

type_synonym quota = "uint64 \<times> uint64 \<times> uint64"

record ledger =
  lAvail :: "uint64 \<Rightarrow> int"
  lBought :: "quota \<Rightarrow> int"
  lLimit :: int
  lRes :: "string \<rightharpoonup> Reservation"

definition active :: "Reservation \<Rightarrow> bool" where
  "active r \<longleftrightarrow> rStatus r = ReservationReserved \<or> rStatus r = ReservationConfirmed"

definition quota_of :: "Reservation \<Rightarrow> quota" where
  "quota_of r = (rActivityID r, rUserID r, rSKUID r)"

definition on_quota :: "Reservation \<Rightarrow> bool" where
  "on_quota r \<longleftrightarrow> rMode r = ''seckill'' \<and> rActivityID r \<noteq> 0"

definition held :: "uint64 \<Rightarrow> Reservation \<Rightarrow> int" where
  "held sku r = (if rSKUID r = sku \<and> active r then sint (rQuantity r) else 0)"

definition bought :: "quota \<Rightarrow> Reservation \<Rightarrow> int" where
  "bought q r = (if on_quota r \<and> quota_of r = q \<and> active r then sint (rQuantity r) else 0)"

text \<open>The edges of the reservation life cycle that give stock back.\<close>

definition gives_back :: "string \<Rightarrow> string \<Rightarrow> bool" where
  "gives_back from to \<longleftrightarrow>
     from = ReservationReserved \<and> to = ReservationReleased \<or>
     from = ReservationConfirmed \<and> to = ReservationRestocked"

inductive ledger_step :: "ledger \<Rightarrow> ledger \<Rightarrow> bool" where
  idle: "ledger_step l l"
| take_stock: "ledger_step l (l\<lparr>lAvail := (lAvail l)(rSKUID r := lAvail l (rSKUID r) - sint (rQuantity r)),
      lBought := (if on_quota r
        then (lBought l)(quota_of r := lBought l (quota_of r) + sint (rQuantity r)) else lBought l),
      lRes := (lRes l)(k \<mapsto> r)\<rparr>)"
    if "lRes l k = None" and "rStatus r = ReservationReserved" and "0 < sint (rQuantity r)"
      and "sint (rQuantity r) \<le> lAvail l (rSKUID r)"
      and "on_quota r \<Longrightarrow> lBought l (quota_of r) + sint (rQuantity r) \<le> lLimit l"
| settle: "ledger_step l (l\<lparr>lRes := (lRes l)(k \<mapsto> r\<lparr>rOrderID := oid, rStatus := ReservationConfirmed,
      rUpdatedAt := t\<rparr>)\<rparr>)"
    if "lRes l k = Some r" and "rStatus r = ReservationReserved"
      and "oid = rOrderID r \<or> rOrderID r = []"
| give_back: "ledger_step l (l\<lparr>lAvail := (lAvail l)(rSKUID r := lAvail l (rSKUID r) + sint (rQuantity r)),
      lBought := (if on_quota r
        then (lBought l)(quota_of r := lBought l (quota_of r) - sint (rQuantity r)) else lBought l),
      lRes := (lRes l)(k \<mapsto> r\<lparr>rStatus := st, rUpdatedAt := t\<rparr>)\<rparr>)"
    if "lRes l k = Some r" and "gives_back (rStatus r) st"

inductive_cases ledger_stepE: "ledger_step l l'"

section \<open>Invariants of the ledger\<close>

text \<open>\<open>T sku\<close> is the stock the store was created with.\<close>

definition ledger_inv :: "(uint64 \<Rightarrow> int) \<Rightarrow> ledger \<Rightarrow> bool" where
  "ledger_inv T l \<longleftrightarrow>
     finite (dom (lRes l)) \<and>
     (\<forall>k r. lRes l k = Some r \<longrightarrow> 0 < sint (rQuantity r)) \<and>
     (\<forall>sku. 0 \<le> lAvail l sku \<and> lAvail l sku + sum_values (held sku) (lRes l) = T sku) \<and>
     (\<forall>q. lBought l q = sum_values (bought q) (lRes l) \<and> lBought l q \<le> lLimit l)"

lemma ledger_invD:
  assumes "ledger_inv T l"
  shows "finite (dom (lRes l))" "\<And>k r. lRes l k = Some r \<Longrightarrow> 0 < sint (rQuantity r)"
    "\<And>sku. 0 \<le> lAvail l sku" "\<And>sku. lAvail l sku + sum_values (held sku) (lRes l) = T sku"
    "\<And>q. lBought l q = sum_values (bought q) (lRes l)" "\<And>q. lBought l q \<le> lLimit l"
  using assms unfolding ledger_inv_def by blast+

lemma held_nonneg: "0 < sint (rQuantity r) \<Longrightarrow> 0 \<le> held sku r"
  by (simp add: held_def)

lemma bought_nonneg: "0 < sint (rQuantity r) \<Longrightarrow> 0 \<le> bought q r"
  by (simp add: bought_def)

lemma bought_le_held: "0 < sint (rQuantity r) \<Longrightarrow> bought (a, u, sku) r \<le> held sku r"
  by (simp add: bought_def held_def quota_of_def)

lemma gives_back_active:
  assumes "gives_back (rStatus r) st"
  shows "active r" "\<not> active (r\<lparr>rStatus := st, rUpdatedAt := t\<rparr>)"
  using assms by (auto simp: gives_back_def active_def const_defs)

lemma held_given_back:
  "gives_back (rStatus r) st \<Longrightarrow> held sku (r\<lparr>rStatus := st, rUpdatedAt := t\<rparr>) = 0"
  "gives_back (rStatus r) st \<Longrightarrow> bought q (r\<lparr>rStatus := st, rUpdatedAt := t\<rparr>) = 0"
  using gives_back_active by (simp_all add: held_def bought_def)

lemma held_settled:
  "rStatus r = ReservationReserved \<Longrightarrow>
     held sku (r\<lparr>rOrderID := oid, rStatus := ReservationConfirmed, rUpdatedAt := t\<rparr>) = held sku r"
  "rStatus r = ReservationReserved \<Longrightarrow>
     bought q (r\<lparr>rOrderID := oid, rStatus := ReservationConfirmed, rUpdatedAt := t\<rparr>) = bought q r"
  by (simp_all add: held_def bought_def active_def on_quota_def quota_of_def)

lemma quota_within_stock:
  assumes "ledger_inv T l"
  shows "lBought l (a, u, sku) + lAvail l sku \<le> T sku"
proof -
  have "sum_values (bought (a, u, sku)) (lRes l) \<le> sum_values (held sku) (lRes l)"
    using ledger_invD(2) [OF assms] by (intro sum_values_mono bought_le_held)
  then show ?thesis
    using ledger_invD(4) [OF assms, of sku] ledger_invD(5) [OF assms, of "(a, u, sku)"] by simp
qed

lemma ledger_inv_take_stock:
  assumes inv: "ledger_inv T l" and "lRes l k = None" and st: "rStatus r = ReservationReserved"
    and "0 < sint (rQuantity r)" and "sint (rQuantity r) \<le> lAvail l (rSKUID r)"
    and "on_quota r \<Longrightarrow> lBought l (quota_of r) + sint (rQuantity r) \<le> lLimit l"
  shows "ledger_inv T (l\<lparr>lAvail := (lAvail l)(rSKUID r := lAvail l (rSKUID r) - sint (rQuantity r)),
      lBought := (if on_quota r
        then (lBought l)(quota_of r := lBought l (quota_of r) + sint (rQuantity r)) else lBought l),
      lRes := (lRes l)(k \<mapsto> r)\<rparr>)"
proof -
  note D = ledger_invD [OF inv]
  have ins: "sum_values f ((lRes l)(k \<mapsto> r)) = sum_values f (lRes l) + f r" for f
    using D(1) assms(2) by (rule sum_values_insert)
  have act: "active r" using st by (simp add: active_def)
  have h: "held sku r = (if rSKUID r = sku then sint (rQuantity r) else 0)" for sku
    using act by (simp add: held_def)
  have b: "bought q r = (if on_quota r \<and> quota_of r = q then sint (rQuantity r) else 0)" for q
    using act by (simp add: bought_def)
  show ?thesis
    using D(1,2) D(3) D(4) D(6) assms(4-6) D(5)
    unfolding ledger_inv_def by (auto simp: ins h b algebra_simps)
qed

lemma ledger_inv_settle:
  assumes inv: "ledger_inv T l" and k: "lRes l k = Some r" and st: "rStatus r = ReservationReserved"
  shows "ledger_inv T (l\<lparr>lRes := (lRes l)(k \<mapsto>
    r\<lparr>rOrderID := oid, rStatus := ReservationConfirmed, rUpdatedAt := t\<rparr>)\<rparr>)"
proof -
  note D = ledger_invD [OF inv]
  have upd: "sum_values f ((lRes l)(k \<mapsto> r')) = sum_values f (lRes l)" if "f r' = f r" for f r'
    using sum_values_update [OF D(1) k, of f r'] that by simp
  show ?thesis
    using D(1,2,3,4,6) D(5) D(2) [OF k]
    by (auto simp: ledger_inv_def upd held_settled [OF st])
qed

lemma ledger_inv_give_back:
  assumes inv: "ledger_inv T l" and k: "lRes l k = Some r" and gb: "gives_back (rStatus r) st"
  shows "ledger_inv T (l\<lparr>lAvail := (lAvail l)(rSKUID r := lAvail l (rSKUID r) + sint (rQuantity r)),
      lBought := (if on_quota r
        then (lBought l)(quota_of r := lBought l (quota_of r) - sint (rQuantity r)) else lBought l),
      lRes := (lRes l)(k \<mapsto> r\<lparr>rStatus := st, rUpdatedAt := t\<rparr>)\<rparr>)"
proof -
  note D = ledger_invD [OF inv]
  have upd: "sum_values f ((lRes l)(k \<mapsto> r\<lparr>rStatus := st, rUpdatedAt := t\<rparr>)) = sum_values f (lRes l) - f r"
    if "f (r\<lparr>rStatus := st, rUpdatedAt := t\<rparr>) = 0" for f
    using sum_values_update [OF D(1) k, of f] that by simp
  have act: "active r" using gb by (rule gives_back_active)
  have h: "held sku r = (if rSKUID r = sku then sint (rQuantity r) else 0)" for sku
    using act by (simp add: held_def)
  have b: "bought q r = (if on_quota r \<and> quota_of r = q then sint (rQuantity r) else 0)" for q
    using act by (simp add: bought_def)
  have pos: "0 < sint (rQuantity r)" using D(2) [OF k] .
  have lim: "sum_values (bought q) (lRes l) \<le> lLimit l"
    "sum_values (bought q) (lRes l) - sint (rQuantity r) \<le> lLimit l" for q
    using D(5,6) [of q] pos by linarith+
  show ?thesis
    using D(1) D(2) D(3) D(4) pos lim
    unfolding ledger_inv_def
    by (auto simp: upd held_given_back [OF gb] h b D(5) add_increasing2 algebra_simps)
qed

theorem ledger_step_inv: "ledger_inv T l \<Longrightarrow> ledger_step l l' \<Longrightarrow> ledger_inv T l'"
  by (erule ledger_stepE)
    (simp_all add: ledger_inv_take_stock ledger_inv_settle ledger_inv_give_back)

end
