(* ===== verification/Inventory_Refinement.thy ===== *)
theory Inventory_Refinement
  imports Inventory_Ledger
begin

text \<open>
  Every method of the machine-integer store takes a step of the abstract ledger: int32
  additions and subtractions never leave their range, because the stock a SKU was created
  with bounds every sum that the store forms.
\<close>

section \<open>The abstraction\<close>

definition ledger_of :: "MemoryStore \<Rightarrow> ledger" where
  "ledger_of s =
     \<lparr>lAvail = (\<lambda>sku. sint (get0 (msStock s) sku)),
      lBought = (\<lambda>(a, u, sku). sint (get0 (msPurchased s) (purchaseKey a u sku))),
      lLimit = sint (msPurchaseLimit s),
      lRes = msReservations s\<rparr>"

lemma ledger_of_sel [simp]:
  "lAvail (ledger_of s) sku = sint (get0 (msStock s) sku)"
  "lBought (ledger_of s) (a, u, sku) = sint (get0 (msPurchased s) (purchaseKey a u sku))"
  "lLimit (ledger_of s) = sint (msPurchaseLimit s)"
  "lRes (ledger_of s) = msReservations s"
  by (simp_all add: ledger_of_def)

lemma ledger_of_frame [simp]:
  "ledger_of (tick s) = ledger_of s" "ledger_of (log_event ev s) = ledger_of s"
  by (simp_all add: ledger_of_def)

definition store_inv :: "(uint64 \<Rightarrow> int) \<Rightarrow> MemoryStore \<Rightarrow> bool" where
  "store_inv T s \<longleftrightarrow> ledger_inv T (ledger_of s) \<and> (\<forall>sku. T sku < 2147483648)"

lemma get0_upd [simp]: "get0 (m(k \<mapsto> v)) j = (if j = k then v else get0 m j)"
  by (simp add: get0_def)

lemma get0_del [simp]: "get0 (m(k := None)) j = (if j = k then 0 else get0 m j)"
  by (simp add: get0_def)

lemma purchaseKey_inj [simp]:
  "purchaseKey a b c = purchaseKey a' b' c' \<longleftrightarrow> a = a' \<and> b = b' \<and> c = c'"
  by (simp add: purchaseKey_def)

section \<open>Arithmetic stays in range\<close>

lemma stock_in_range:
  assumes "store_inv T s"
  shows "0 \<le> sint (get0 (msStock s) sku)" "sint (get0 (msStock s) sku) \<le> T sku"
proof -
  note D = ledger_invD [OF assms [unfolded store_inv_def, THEN conjunct1]]
  have "0 \<le> sum_values (held sku) (msReservations s)"
    using D(2) by (auto intro!: sum_values_nonneg held_nonneg)
  then show "0 \<le> sint (get0 (msStock s) sku)" "sint (get0 (msStock s) sku) \<le> T sku"
    using D(3,4) [of sku] by auto
qed

lemma stock_add_in_range:
  assumes inv: "store_inv T s" and k: "msReservations s k = Some r" and act: "active r"
  shows "sint (get0 (msStock s) (rSKUID r) + rQuantity r) =
    sint (get0 (msStock s) (rSKUID r)) + sint (rQuantity r)"
proof (rule sint32_add)
  note D = ledger_invD [OF inv [unfolded store_inv_def, THEN conjunct1]]
  have pos: "0 < sint (rQuantity r)" using D(2) k by simp
  have "held (rSKUID r) r \<le> sum_values (held (rSKUID r)) (msReservations s)"
    using D(1,2) k by (intro sum_values_member) (auto intro: held_nonneg)
  then have "sint (rQuantity r) \<le> sum_values (held (rSKUID r)) (msReservations s)"
    using act by (simp add: held_def)
  moreover have "T (rSKUID r) < 2147483648" using inv by (simp add: store_inv_def)
  ultimately show "sint (get0 (msStock s) (rSKUID r)) + sint (rQuantity r) < 2147483648"
    using D(4) [of "rSKUID r"] by simp
  show "- 2147483648 \<le> sint (get0 (msStock s) (rSKUID r)) + sint (rQuantity r)"
    using D(3) [of "rSKUID r"] pos by simp
qed

lemma purchased_sum:
  assumes "store_inv T s"
  shows "sint (get0 (msPurchased s) (purchaseKey a u sku)) =
    sum_values (bought (a, u, sku)) (msReservations s)"
  using ledger_invD(5) [OF assms [unfolded store_inv_def, THEN conjunct1], of "(a, u, sku)"] by simp

lemma purchased_nonneg:
  assumes "store_inv T s"
  shows "0 \<le> sint (get0 (msPurchased s) (purchaseKey a u sku))"
  unfolding purchased_sum [OF assms]
  using ledger_invD(2) [OF assms [unfolded store_inv_def, THEN conjunct1]]
  by (auto intro!: sum_values_nonneg bought_nonneg)

lemma purchased_no_activity:
  assumes "store_inv T s"
  shows "sint (get0 (msPurchased s) (purchaseKey 0 u sku)) = 0"
proof -
  have "bought (0, u, sku) = (\<lambda>_. 0)"
    by (rule ext) (auto simp: bought_def on_quota_def quota_of_def)
  then show ?thesis using purchased_sum [OF assms, of 0 u sku] by (simp add: sum_values_def)
qed

lemma purchased_member:
  assumes inv: "store_inv T s" and k: "msReservations s k = Some r" and act: "active r" "on_quota r"
  shows "sint (rQuantity r) \<le>
    sint (get0 (msPurchased s) (purchaseKey (rActivityID r) (rUserID r) (rSKUID r)))"
proof -
  note D = ledger_invD [OF inv [unfolded store_inv_def, THEN conjunct1]]
  have "bought (quota_of r) r \<le> sum_values (bought (quota_of r)) (msReservations s)"
    using D(1,2) k by (intro sum_values_member) (auto intro: bought_nonneg)
  then show ?thesis using act purchased_sum [OF inv] by (simp add: bought_def quota_of_def)
qed

text \<open>
  The quota check of \<open>AdmitSeckill\<close> adds two int32 values without a guard. The sum can wrap
  only where the stock check that follows fails.
\<close>

lemma quota_sum_in_range:
  assumes inv: "store_inv T s" and q: "0 < sint (q :: int32)" "sint q \<le> sint (get0 (msStock s) sku)"
  shows "sint (get0 (msPurchased s) (purchaseKey a u sku) + q) =
    sint (get0 (msPurchased s) (purchaseKey a u sku)) + sint q"
proof (rule sint32_add)
  have "sint (get0 (msPurchased s) (purchaseKey a u sku)) + sint (get0 (msStock s) sku) \<le> T sku"
    using quota_within_stock [OF inv [unfolded store_inv_def, THEN conjunct1], of a u sku] by simp
  moreover have "T sku < 2147483648" using inv by (simp add: store_inv_def)
  ultimately show "sint (get0 (msPurchased s) (purchaseKey a u sku)) + sint q < 2147483648"
    using q(2) by linarith
  show "- 2147483648 \<le> sint (get0 (msPurchased s) (purchaseKey a u sku)) + sint q"
    using purchased_nonneg [OF inv, of a u sku] q(1) by linarith
qed

section \<open>Every change of the store is a step of the ledger\<close>

lemma purchased_given_back:
  assumes inv: "store_inv T s" and k: "msReservations s k = Some r" and act: "active r"
    and m: "rMode r = ''seckill''"
  defines "key \<equiv> purchaseKey (rActivityID r) (rUserID r) (rSKUID r)"
  defines "left \<equiv> get0 (msPurchased s) key - rQuantity r"
  shows "sint (get0 ((msPurchased s)(key := if sint left \<le> 0 then None else Some left)) key) =
    (if on_quota r then sint (get0 (msPurchased s) key) - sint (rQuantity r)
     else sint (get0 (msPurchased s) key))"
proof -
  have pos: "0 < sint (rQuantity r)"
    using ledger_invD(2) [OF inv [unfolded store_inv_def, THEN conjunct1]] k by simp
  have nonneg: "0 \<le> sint (get0 (msPurchased s) key)"
    unfolding key_def by (rule purchased_nonneg [OF inv])
  have left: "sint left = sint (get0 (msPurchased s) key) - sint (rQuantity r)"
    unfolding left_def using nonneg pos sint32_range [of "rQuantity r"]
      sint32_range [of "get0 (msPurchased s) key"] by (intro sint32_diff) linarith+
  show ?thesis
  proof (cases "on_quota r")
    case True
    have "sint (rQuantity r) \<le> sint (get0 (msPurchased s) key)"
      unfolding key_def by (rule purchased_member [OF inv k act True])
    with True left show ?thesis by simp
  next
    case False
    with m have "rActivityID r = 0" by (simp add: on_quota_def)
    then have "sint (get0 (msPurchased s) key) = 0"
      unfolding key_def using purchased_no_activity [OF inv] by simp
    with False left pos show ?thesis by simp
  qed
qed

lemma returned_refines:
  assumes inv: "store_inv T s" and k: "msReservations s k = Some r"
    and gb: "gives_back (rStatus r) st"
  shows "ledger_step (ledger_of s) (ledger_of (returned t st k r s))"
proof -
  let ?r = "r\<lparr>rStatus := st, rUpdatedAt := shd (msNow s)\<rparr>"
  have act: "active r" using gb by (rule gives_back_active)
  let ?l = "(ledger_of s)\<lparr>lAvail := (lAvail (ledger_of s))(rSKUID r :=
        lAvail (ledger_of s) (rSKUID r) + sint (rQuantity r)),
      lBought := (if on_quota r then (lBought (ledger_of s))(quota_of r :=
        lBought (ledger_of s) (quota_of r) - sint (rQuantity r)) else lBought (ledger_of s)),
      lRes := (lRes (ledger_of s))(k \<mapsto> ?r)\<rparr>"
  have "lBought (ledger_of (returned t st k r s)) q = lBought ?l q" for q
    using purchased_given_back [OF inv k act]
    by (cases q; cases "rMode r = ''seckill''")
      (auto simp: returned_def hand_back_def Let_def quota_of_def on_quota_def split: if_splits)
  moreover have "lAvail (ledger_of (returned t st k r s)) = lAvail ?l"
    using stock_add_in_range [OF inv k act]
    by (auto simp: fun_eq_iff returned_def hand_back_def Let_def)
  ultimately have eq: "ledger_of (returned t st k r s) = ?l"
    by (intro ledger.equality) (auto simp: fun_eq_iff)
  show ?thesis unfolding eq by (rule ledger_step.give_back) (use k gb in simp_all)
qed

lemma hold_refines:
  assumes inv: "store_inv T s" and k: "msReservations s (rReservationID r) = None"
    and st: "rStatus r = ReservationReserved"
    and q: "0 < sint (rQuantity r)" "sint (rQuantity r) \<le> sint (get0 (msStock s) (rSKUID r))"
    and lim: "on_quota r \<Longrightarrow> sint (get0 (msPurchased s) (purchaseKey (rActivityID r) (rUserID r)
      (rSKUID r)) + rQuantity r) \<le> sint (msPurchaseLimit s)"
  shows "ledger_step (ledger_of s) (ledger_of (hold (on_quota r) r s))"
proof -
  let ?key = "purchaseKey (rActivityID r) (rUserID r) (rSKUID r)"
  let ?l = "(ledger_of s)\<lparr>lAvail := (lAvail (ledger_of s))(rSKUID r :=
        lAvail (ledger_of s) (rSKUID r) - sint (rQuantity r)),
      lBought := (if on_quota r then (lBought (ledger_of s))(quota_of r :=
        lBought (ledger_of s) (quota_of r) + sint (rQuantity r)) else lBought (ledger_of s)),
      lRes := (lRes (ledger_of s))(rReservationID r \<mapsto> r)\<rparr>"
  have sub: "sint (get0 (msStock s) (rSKUID r) - rQuantity r) =
      sint (get0 (msStock s) (rSKUID r)) - sint (rQuantity r)"
    using q sint32_range [of "get0 (msStock s) (rSKUID r)"] by (intro sint32_diff) linarith+
  have sum: "sint (get0 (msPurchased s) ?key + rQuantity r) =
      sint (get0 (msPurchased s) ?key) + sint (rQuantity r)"
    by (rule quota_sum_in_range [OF inv q])
  have "lBought (ledger_of (hold (on_quota r) r s)) p = lBought ?l p" for p
    using sum by (cases p) (simp add: quota_of_def hold_def Let_def)
  then have eq: "ledger_of (hold (on_quota r) r s) = ?l"
    using sub by (intro ledger.equality) (auto simp: fun_eq_iff hold_def Let_def)
  show ?thesis unfolding eq
  proof (rule ledger_step.take_stock)
    show "on_quota r \<Longrightarrow> lBought (ledger_of s) (quota_of r) + sint (rQuantity r) \<le> lLimit (ledger_of s)"
      using lim sum by (simp add: quota_of_def)
  qed (use k st q in simp_all)
qed

lemma store_inv_parts [simp]:
  "store_inv T (tick s) = store_inv T s" "store_inv T (log_event ev s) = store_inv T s"
  by (simp_all add: store_inv_def)

lemma confirmed_refines:
  assumes k: "findReservation s rid oid = Inr r" and st: "rStatus r = ReservationReserved"
  shows "ledger_step (ledger_of s) (ledger_of (confirmed rid oid r s))"
proof -
  have "(bound oid r)\<lparr>rStatus := ReservationConfirmed, rUpdatedAt := t\<rparr> =
      r\<lparr>rOrderID := rOrderID (bound oid r), rStatus := ReservationConfirmed, rUpdatedAt := t\<rparr>" for t
    by (simp add: bound_def)
  then have "ledger_of (confirmed rid oid r s) = (ledger_of s)\<lparr>lRes := (lRes (ledger_of s))(rid \<mapsto>
      r\<lparr>rOrderID := rOrderID (bound oid r), rStatus := ReservationConfirmed,
        rUpdatedAt := shd (msNow s)\<rparr>)\<rparr>"
    by (simp add: ledger_of_def confirmed_def)
  moreover have "ledger_step (ledger_of s) \<dots>"
    using k st by (intro ledger_step.settle) (auto simp: findReservation_Inr_iff bound_def)
  ultimately show ?thesis by simp
qed

lemma reserved_refines:
  assumes inv: "store_inv T s" and "reserve_command_ok c" "msReservations s (rcReservationID c) = None"
    "sint (rcQuantity c) \<le> sint (get0 (msStock s) (rcSKUID c))"
  shows "ledger_step (ledger_of s) (ledger_of (reserved c s))"
proof -
  let ?r = "new_reservation c (shd (msNow s))"
  let ?s = "log_event (reservation_event EventInventoryReserved ?r (shd (msNow s))) (tick s)"
  have no: "\<not> on_quota ?r" by (simp add: on_quota_def)
  have "ledger_step (ledger_of ?s) (ledger_of (hold (on_quota ?r) ?r ?s))"
    using assms no by (intro hold_refines) (simp_all add: reserve_command_ok_def)
  then show ?thesis using no by (simp add: reserved_def Let_def)
qed

lemma admitted_refines:
  assumes inv: "store_inv T s" and "admission_ok c" "msReservations s (''admit_'' @ saRequestID c) = None"
    "sint (get0 (msPurchased s) (admission_key c) + saQuantity c) \<le> sint (msPurchaseLimit s)"
    "sint (saQuantity c) \<le> sint (get0 (msStock s) (saSKUID c))"
  shows "ledger_step (ledger_of s) (ledger_of (admitted c s))"
proof -
  let ?now = "shd (msNow s)"
  let ?r = "new_admission c ?now"
  let ?s = "log_event (reservation_event EventInventoryReserved ?r ?now)
    (log_event (reservation_event EventSeckillAccepted ?r ?now) (tick s))"
  have yes: "on_quota ?r" using assms(2) by (simp add: on_quota_def admission_ok_def)
  have "ledger_step (ledger_of ?s) (ledger_of (hold (on_quota ?r) ?r ?s))"
    using assms by (intro hold_refines) (simp_all add: admission_ok_def admission_key_def)
  then show ?thesis using yes by (simp add: admitted_def Let_def)
qed

text \<open>The simulation: what the store changes, the ledger changes.\<close>

lemma store_change_refines:
  assumes inv: "store_inv T s" and "store_change s s'"
  shows "ledger_step (ledger_of s) (ledger_of s')"
  using assms(2)
proof cases
  case (confirms rid oid r)
  then show ?thesis by (simp add: confirmed_refines)
next
  case (releases rid oid r)
  then show ?thesis using inv
    by (auto simp: findReservation_Inr_iff gives_back_def intro: returned_refines)
next
  case (restocks rid oid r)
  then show ?thesis using inv
    by (auto simp: findReservation_Inr_iff gives_back_def intro: returned_refines)
qed (use inv in \<open>simp_all add: ledger_step.idle reserved_refines admitted_refines\<close>)

lemma store_inv_change: "store_inv T s \<Longrightarrow> store_change s s' \<Longrightarrow> store_inv T s'"
  using store_change_refines ledger_step_inv unfolding store_inv_def by blast

end
