(* ===== verification/Inventory_Service.thy ===== *)
theory Inventory_Service
  imports Inventory_Refinement
begin

text \<open>
  The inventory service as a whole: its gRPC methods and event handlers as the steps of a
  state machine, the contract that carries a property from the changes a method can make
  to every entry point (locale \<open>store_property\<close>), and what the service promises on every
  run: stock conservation, purchase quota, the life cycle of a reservation, and an event
  stream that agrees with the reservations.
\<close>

section \<open>Entry points\<close>

inductive store_call :: "MemoryStore \<Rightarrow> MemoryStore \<Rightarrow> bool" where
  call_reserve: "store_call s (snd (Server_Reserve req s))"
| call_confirm: "store_call s (snd (Server_Confirm ref s))"
| call_release: "store_call s (snd (Server_Release ref s))"
| call_restock: "store_call s (snd (Server_Restock ref s))"
| call_admit: "store_call s (snd (Server_AdmitSeckill adm s))"
| on_order_cancelled: "store_call s (snd (Handler_orderCancelled event s))"
| on_payment_refunded: "store_call s (snd (Handler_paymentRefunded ks event s))"
    if "range_order ks (msReservations s)"

inductive_cases store_callE: "store_call s s'"

text \<open>
  What every change of the store keeps, every entry point keeps: a handler is a sequence
  of methods, and a method makes one of the changes.
\<close>

locale store_property =
  fixes P :: "MemoryStore \<Rightarrow> bool"
  assumes has_ids: "P s \<Longrightarrow> ids_ok s"
    and kept: "P s \<Longrightarrow> store_change s s' \<Longrightarrow> P s'"
begin

lemma methods_keep [pres_intros]:
  "preserves P (MemoryStore_Reserve c)" "preserves P (MemoryStore_AdmitSeckill a)"
  "preserves P (MemoryStore_Confirm rid oid)" "preserves P (MemoryStore_Release rid oid)"
  "preserves P (MemoryStore_Restock rid oid)"
  using method_change has_ids by (auto intro!: preservesI intro: kept)

lemma respond_keeps: "preserves P m \<Longrightarrow> preserves P (respond m msg)"
  unfolding respond_def by (intro pres_intros)

lemma skip_not_found_keeps: "preserves P m \<Longrightarrow> preserves P (skip_not_found m)"
  unfolding skip_not_found_def by (intro pres_intros)

lemma servers_keep:
  "preserves P (Server_Reserve req)" "preserves P (Server_AdmitSeckill adm)"
  "preserves P (Server_Confirm ref)" "preserves P (Server_Release ref)"
  "preserves P (Server_Restock ref)"
  unfolding Server_Reserve_def Server_AdmitSeckill_def Server_Confirm_def Server_Release_def
    Server_Restock_def
  by (intro pres_intros respond_keeps)+

lemma handlers_keep:
  "preserves P (Handler_orderCancelled event)"
  "preserves P (Handler_paymentRefunded ks event)"
proof -
  have "preserves P (for_each xs (\<lambda>rid. skip_not_found (MemoryStore_Restock rid oid)))" for xs oid
    by (intro pres_intros skip_not_found_keeps)
  then have "preserves P (\<lambda>s. for_each (f s) (\<lambda>rid. skip_not_found (MemoryStore_Restock rid oid)) s)"
    for f oid by (simp add: preserves_def)
  then show "preserves P (Handler_paymentRefunded ks event)"
    unfolding Handler_paymentRefunded_def by (intro pres_intros)
  show "preserves P (Handler_orderCancelled event)"
    unfolding Handler_orderCancelled_def by (intro pres_intros skip_not_found_keeps)
qed

lemma call_keeps: "P s \<Longrightarrow> store_call s s' \<Longrightarrow> P s'"
  using servers_keep handlers_keep by (auto simp: preserves_def elim!: store_callE)

lemma run_keeps: "store_call\<^sup>*\<^sup>* s s' \<Longrightarrow> P s \<Longrightarrow> P s'"
  by (induction rule: rtranclp_induct) (auto intro: call_keeps)

end

section \<open>The service as a state machine\<close>

definition fresh_store :: "(uint64 \<Rightarrow> int) \<Rightarrow> MemoryStore \<Rightarrow> bool" where
  "fresh_store T s \<longleftrightarrow>
     (\<exists>clk stock limit.
        (\<forall>sku. T sku = sint (get0 stock sku) \<and> 0 \<le> T sku) \<and>
        (s = NewMemoryStore clk stock limit \<or> s = SetEventStream (NewMemoryStore clk stock limit)))"

definition service_inv :: "(uint64 \<Rightarrow> int) \<Rightarrow> MemoryStore \<Rightarrow> bool" where
  "service_inv T s \<longleftrightarrow> store_inv T s \<and> ids_ok s"

lemma fresh_store_data:
  assumes "fresh_store T s"
  shows "msReservations s = Map.empty" "msPurchased s = Map.empty" "0 < sint (msPurchaseLimit s)"
    "sint (get0 (msStock s) sku) = T sku" "0 \<le> T sku"
    "msEventStream s = None \<or> msEventStream s = Some []"
  using assms by (auto simp: fresh_store_def NewMemoryStore_def SetEventStream_def)

lemma fresh_store_inv:
  assumes "fresh_store T s"
  shows "service_inv T s"
proof -
  note fresh_store_data [OF assms]
  moreover have "T sku < 2147483648" for sku
    using calculation(4) [of sku] sint32_range(2) by metis
  ultimately show ?thesis
    by (simp add: service_inv_def store_inv_def ledger_inv_def ledger_of_def ids_ok_def get0_def
        split: prod.split)
qed

interpretation service_inv: store_property "service_inv T" for T
  by unfold_locales (auto simp: service_inv_def intro: store_inv_change ids_ok_change)

interpretation inventory: state_machine "fresh_store T" store_call "service_inv T" for T
  using fresh_store_inv service_inv.call_keeps by unfold_locales

section \<open>Reservation life cycle\<close>

text \<open>The order in which a reservation passes through its states.\<close>

inductive later_status :: "string \<Rightarrow> string \<Rightarrow> bool" where
  same: "later_status st st"
| confirm: "later_status ReservationReserved ReservationConfirmed"
| release: "later_status ReservationReserved ReservationReleased"
| restock: "later_status ReservationConfirmed ReservationRestocked"
| confirm_restock: "later_status ReservationReserved ReservationRestocked"

inductive_simps later_status_reserved: "later_status st ReservationReserved"
inductive_simps later_status_confirmed: "later_status st ReservationConfirmed"
inductive_simps later_status_from_released: "later_status ReservationReleased st"
inductive_simps later_status_from_restocked: "later_status ReservationRestocked st"
inductive_simps later_status_from_expired: "later_status ReservationExpired st"

lemmas later_status_final =
  later_status_from_released later_status_from_restocked later_status_from_expired

definition evolves :: "Reservation \<Rightarrow> Reservation \<Rightarrow> bool" where
  "evolves r r' \<longleftrightarrow>
     later_status (rStatus r) (rStatus r') \<and> rReservationID r' = rReservationID r \<and>
     rUserID r' = rUserID r \<and> rActivityID r' = rActivityID r \<and> rSKUID r' = rSKUID r \<and>
     rQuantity r' = rQuantity r \<and> rMode r' = rMode r \<and> rCreatedAt r' = rCreatedAt r \<and>
     (rOrderID r' = rOrderID r \<or> rOrderID r = []) \<and> (rStatus r' = rStatus r \<longrightarrow> r' = r)"

definition final :: "Reservation \<Rightarrow> bool" where
  "final r \<longleftrightarrow> rStatus r = ReservationReleased \<or> rStatus r = ReservationExpired \<or>
     rStatus r = ReservationRestocked"

lemma evolves_refl: "evolves r r"
  by (simp add: evolves_def later_status.same)

lemma evolves_final: "evolves r r' \<Longrightarrow> final r \<Longrightarrow> r' = r"
  by (auto simp: evolves_def final_def later_status_final)

text \<open>A reservation that exists keeps its terms and moves forward; a final one does not move.\<close>

definition evolved :: "string \<Rightarrow> Reservation \<Rightarrow> MemoryStore \<Rightarrow> bool" where
  "evolved k r s \<longleftrightarrow> ids_ok s \<and> (\<exists>r'. msReservations s k = Some r' \<and> evolves r r')"

lemma evolves_confirmed:
  "evolves r r' \<Longrightarrow> rStatus r' = ReservationReserved \<Longrightarrow>
     evolves r ((bound oid r')\<lparr>rStatus := ReservationConfirmed, rUpdatedAt := t\<rparr>)"
  by (auto simp: evolves_def bound_def later_status_reserved intro: later_status.intros)

lemma evolves_released:
  "evolves r r' \<Longrightarrow> rStatus r' = ReservationReserved \<Longrightarrow>
     evolves r (r'\<lparr>rStatus := ReservationReleased, rUpdatedAt := t\<rparr>)"
  by (auto simp: evolves_def later_status_reserved intro: later_status.intros)

lemma evolves_restocked:
  "evolves r r' \<Longrightarrow> rStatus r' = ReservationConfirmed \<Longrightarrow>
     evolves r (r'\<lparr>rStatus := ReservationRestocked, rUpdatedAt := t\<rparr>)"
  by (auto simp: evolves_def later_status_confirmed intro: later_status.intros)

lemmas evolves_intros = evolves_confirmed evolves_released evolves_restocked

lemma evolved_change:
  assumes e: "evolved k r s" and "store_change s s'"
  shows "evolved k r s'"
proof -
  obtain r' where r': "msReservations s k = Some r'" "evolves r r'"
    using e by (auto simp: evolved_def)
  have "ids_ok s'" using assms by (auto simp: evolved_def intro: ids_ok_change)
  moreover have "\<exists>r''. msReservations s' k = Some r'' \<and> evolves r r''"
    using assms(2)
    by cases (use r' in \<open>auto simp: findReservation_Inr_iff evolves_intros\<close>)
  ultimately show ?thesis by (simp add: evolved_def)
qed

interpretation evolved: store_property "evolved k r" for k r
  by unfold_locales (simp add: evolved_def, erule evolved_change)

section \<open>The event stream agrees with the reservations\<close>

text \<open>The events a reservation must have announced in its present state.\<close>

definition events_of :: "Reservation \<Rightarrow> string list" where
  "events_of r =
     (if rActivityID r \<noteq> 0 then [EventSeckillAccepted] else []) @ [EventInventoryReserved] @
     (if rStatus r = ReservationReleased then [EventInventoryReleased] else []) @
     (if rStatus r = ReservationRestocked then [EventInventoryRestocked] else [])"

definition expected_keys :: "MemoryStore \<Rightarrow> (string \<times> string) set" where
  "expected_keys s = {(t, k). \<exists>r. msReservations s k = Some r \<and> t \<in> set (events_of r)}"

definition event_key :: "StreamEvent \<Rightarrow> string \<times> string" where
  "event_key x = (eEventType (seEvent x), eAggregateID (seEvent x))"

text \<open>An event carries the terms of its reservation; the order may have been bound later.\<close>

definition describes :: "StreamEvent \<Rightarrow> Reservation \<Rightarrow> bool" where
  "describes x r \<longleftrightarrow>
     seID x = eEventType (seEvent x) @ '':'' @ eAggregateID (seEvent x) \<and>
     eEventID (seEvent x) = seID x \<and> eEventType (seEvent x) \<in> set knownEventTypes \<and>
     (\<exists>oid. (oid = rOrderID r \<or> oid = []) \<and>
        ePayload (seEvent x) = marshal_InventoryReservation (reservation_payload (r\<lparr>rOrderID := oid\<rparr>)))"

definition stream_agrees :: "MemoryStore \<Rightarrow> StreamEvent list \<Rightarrow> bool" where
  "stream_agrees s es \<longleftrightarrow>
     distinct (map event_key es) \<and> event_key ` set es = expected_keys s \<and>
     (\<forall>x \<in> set es. \<exists>r. msReservations s (eAggregateID (seEvent x)) = Some r \<and> describes x r)"

definition stream_inv :: "MemoryStore \<Rightarrow> bool" where
  "stream_inv s \<longleftrightarrow> ids_ok s \<and> (\<forall>es. msEventStream s = Some es \<longrightarrow> stream_agrees s es)"

definition stream_item :: "string \<Rightarrow> Reservation \<Rightarrow> time \<Rightarrow> StreamEvent" where
  "stream_item t r now =
     \<lparr>seID = t @ '':'' @ rReservationID r, seEvent = reservation_event t r now\<rparr>"

lemma stream_append_event:
  "stream_append (reservation_event t r now) es = es @ [stream_item t r now]"
  by (simp add: stream_append_def stream_item_def reservation_event_def)

lemma event_key_item [simp]: "event_key (stream_item t r now) = (t, rReservationID r)"
  by (simp add: event_key_def stream_item_def reservation_event_def)

lemma aggregate_item [simp]: "eAggregateID (seEvent (stream_item t r now)) = rReservationID r"
  by (simp add: stream_item_def reservation_event_def)

lemma describes_item: "t \<in> set knownEventTypes \<Longrightarrow> describes (stream_item t r now) r"
  by (simp add: describes_def stream_item_def reservation_event_def exI [of _ "rOrderID r"])

lemma describes_evolves: "describes x r \<Longrightarrow> evolves r r' \<Longrightarrow> describes x r'"
  by (auto simp: describes_def evolves_def reservation_payload_def)

lemma events_distinct [simp]:
  "EventSeckillAccepted \<noteq> EventInventoryReserved" "EventInventoryReserved \<noteq> EventSeckillAccepted"
  "EventInventoryReleased \<noteq> EventInventoryReserved" "EventInventoryRestocked \<noteq> EventInventoryReserved"
  "EventInventoryReleased \<noteq> EventSeckillAccepted" "EventInventoryRestocked \<noteq> EventSeckillAccepted"
  "EventInventoryReleased \<noteq> EventInventoryRestocked" "EventInventoryRestocked \<noteq> EventInventoryReleased"
  by (simp_all add: const_defs)

text \<open>One step: a reservation is filed under \<open>k\<close> and its new events are appended.\<close>

lemma stream_agrees_step:
  assumes es: "stream_agrees s es" and r: "rReservationID r = k"
    and res: "msReservations s' = (msReservations s)(k \<mapsto> r)"
    and old: "\<And>q. msReservations s k = Some q \<Longrightarrow> evolves q r \<and> set (events_of r) = set ts \<union> set (events_of q)"
    and new: "msReservations s k = None \<Longrightarrow> set (events_of r) = set ts"
    and ts: "distinct ts" "set ts \<subseteq> set knownEventTypes"
    and fresh: "\<And>t. t \<in> set ts \<Longrightarrow> (t, k) \<notin> expected_keys s"
  shows "stream_agrees s' (es @ map (\<lambda>t. stream_item t r now) ts)"
proof -
  have "(t, j) \<in> expected_keys s' \<longleftrightarrow> (t, j) \<in> expected_keys s \<or> j = k \<and> t \<in> set ts" for t j
  proof (cases "j = k")
    case True
    then have "(t, j) \<in> expected_keys s' \<longleftrightarrow> t \<in> set (events_of r)"
      by (simp add: expected_keys_def res)
    also have "\<dots> \<longleftrightarrow> (t, k) \<in> expected_keys s \<or> t \<in> set ts"
      using old new by (cases "msReservations s k") (auto simp: expected_keys_def)
    finally show ?thesis using True by simp
  qed (simp add: expected_keys_def res)
  then have keys: "expected_keys s' = expected_keys s \<union> {(t, k) | t. t \<in> set ts}" by auto
  have desc: "\<exists>r. msReservations s' (eAggregateID (seEvent x)) = Some r \<and> describes x r"
    if "x \<in> set es" for x
  proof -
    obtain q where "msReservations s (eAggregateID (seEvent x)) = Some q" "describes x q"
      using es \<open>x \<in> set es\<close> by (auto simp: stream_agrees_def)
    then show ?thesis using old res by (auto intro: describes_evolves)
  qed
  have "distinct (map event_key (es @ map (\<lambda>t. stream_item t r now) ts))"
    using es ts fresh r by (auto simp: stream_agrees_def distinct_map inj_on_def comp_def)
  moreover have "event_key ` set (es @ map (\<lambda>t. stream_item t r now) ts) = expected_keys s'"
    using es r unfolding keys stream_agrees_def by (auto simp: image_Un image_image)
  moreover have "\<exists>q. msReservations s' (eAggregateID (seEvent x)) = Some q \<and> describes x q"
    if "x \<in> (\<lambda>t. stream_item t r now) ` set ts" for x
    using that ts r res by (auto intro: describes_item)
  ultimately show ?thesis
    using desc unfolding stream_agrees_def by auto
qed

text \<open>What each change appends to the stream.\<close>

lemma change_stream:
  "msEventStream (reserved c s) = map_option (\<lambda>es. es @ map (\<lambda>t.
     stream_item t (new_reservation c (shd (msNow s))) (shd (msNow s))) [EventInventoryReserved])
     (msEventStream s)"
  "msEventStream (admitted a s) = map_option (\<lambda>es. es @ map (\<lambda>t.
     stream_item t (new_admission a (shd (msNow s))) (shd (msNow s)))
       [EventSeckillAccepted, EventInventoryReserved]) (msEventStream s)"
  "msEventStream (confirmed rid oid r s) = map_option (\<lambda>es. es @ map (\<lambda>t.
     stream_item t (bound oid r) (shd (msNow s))) []) (msEventStream s)"
  "msEventStream (returned t st rid r s) = map_option (\<lambda>es. es @ map (\<lambda>t.
     stream_item t (r\<lparr>rStatus := st, rUpdatedAt := shd (msNow s)\<rparr>) (shd (msNow s))) [t])
     (msEventStream s)"
  by (cases "msEventStream s"; simp add: reserved_def admitted_def confirmed_def returned_def
      Let_def stream_append_event)+

lemma stream_inv_step:
  assumes inv: "stream_inv s" and change: "store_change s s'" and r: "rReservationID r = k"
    and res: "msReservations s' = (msReservations s)(k \<mapsto> r)"
    and es: "msEventStream s' = map_option (\<lambda>es. es @ map (\<lambda>t. stream_item t r' now) ts) (msEventStream s)"
    and r': "ts = [] \<or> r' = r"
    and old: "\<And>q. msReservations s k = Some q \<Longrightarrow>
      evolves q r \<and> set (events_of r) = set ts \<union> set (events_of q) \<and> set ts \<inter> set (events_of q) = {}"
    and new: "msReservations s k = None \<Longrightarrow> set (events_of r) = set ts"
    and ts: "distinct ts" "set ts \<subseteq> set knownEventTypes"
  shows "stream_inv s'"
proof -
  have "(t, k) \<notin> expected_keys s" if "t \<in> set ts" for t
    using old that by (cases "msReservations s k") (auto simp: expected_keys_def)
  then have "stream_agrees s' (es @ map (\<lambda>t. stream_item t r now) ts)" if "stream_agrees s es" for es
    using that r res old new ts by (intro stream_agrees_step) auto
  then have "stream_agrees s' (es @ map (\<lambda>t. stream_item t r' now) ts)" if "stream_agrees s es" for es
    using that r' by (cases ts) auto
  then show ?thesis
    using inv es ids_ok_change [OF _ change] by (auto simp: stream_inv_def)
qed

lemma stream_inv_same:
  assumes "stream_inv s" and "msReservations s' = msReservations s" and "msEventStream s' = msEventStream s"
  shows "stream_inv s'"
  using assms by (simp add: stream_inv_def stream_agrees_def expected_keys_def ids_ok_def)

lemma stream_inv_change:
  assumes inv: "stream_inv s" and change: "store_change s s'"
  shows "stream_inv s'"
  using change
proof cases
  case (reserves c)
  show ?thesis
    by (rule stream_inv_step [OF inv change, where k = "rcReservationID c" and r = "new_reservation c (shd (msNow s))" and r' = "new_reservation c (shd (msNow s))"
        and now = "shd (msNow s)" and ts = "[EventInventoryReserved]"])
      (use reserves in \<open>simp_all add: change_stream events_of_def inventory_events_known\<close>)
next
  case (admits c)
  then show ?thesis
    by (intro stream_inv_step [OF inv change, where k = "''admit_'' @ saRequestID c" and r = "new_admission c (shd (msNow s))" and r' = "new_admission c (shd (msNow s))"
        and now = "shd (msNow s)" and ts = "[EventSeckillAccepted, EventInventoryReserved]"])
      (simp_all add: change_stream events_of_def inventory_events_known admission_ok_def)
next
  case (confirms rid oid r)
  then have r: "msReservations s rid = Some r" "rReservationID r = rid"
    using inv by (auto simp: findReservation_Inr_iff stream_inv_def dest: ids_okD)
  show ?thesis unfolding confirms
    by (rule stream_inv_step [OF inv change [unfolded confirms], where k = rid and r = "(bound oid r)\<lparr>rStatus := ReservationConfirmed, rUpdatedAt := shd (msNow s)\<rparr>" and r' = "bound oid r"
        and now = "shd (msNow s)" and ts = "[]"])
      (use r confirms(3) in \<open>simp_all add: change_stream events_of_def evolves_confirmed evolves_refl\<close>)
next
  case (releases rid oid r)
  then have r: "msReservations s rid = Some r" "rReservationID r = rid"
    using inv by (auto simp: findReservation_Inr_iff stream_inv_def dest: ids_okD)
  show ?thesis unfolding releases
    by (rule stream_inv_step [OF inv change [unfolded releases], where k = rid and r = "r\<lparr>rStatus := ReservationReleased, rUpdatedAt := shd (msNow s)\<rparr>" and r' = "r\<lparr>rStatus := ReservationReleased, rUpdatedAt := shd (msNow s)\<rparr>"
        and now = "shd (msNow s)" and ts = "[EventInventoryReleased]"])
      (use r releases(3) in \<open>simp_all add: change_stream events_of_def evolves_released evolves_refl
        inventory_events_known\<close>)
next
  case (restocks rid oid r)
  then have r: "msReservations s rid = Some r" "rReservationID r = rid"
    using inv by (auto simp: findReservation_Inr_iff stream_inv_def dest: ids_okD)
  show ?thesis unfolding restocks
    by (rule stream_inv_step [OF inv change [unfolded restocks], where k = rid and r = "r\<lparr>rStatus := ReservationRestocked, rUpdatedAt := shd (msNow s)\<rparr>" and r' = "r\<lparr>rStatus := ReservationRestocked, rUpdatedAt := shd (msNow s)\<rparr>"
        and now = "shd (msNow s)" and ts = "[EventInventoryRestocked]"])
      (use r restocks(3) in \<open>simp_all add: change_stream events_of_def evolves_restocked evolves_refl
        inventory_events_known\<close>)
qed (auto intro: stream_inv_same [OF inv])

interpretation stream_inv: store_property stream_inv
  by unfold_locales (simp add: stream_inv_def, erule stream_inv_change)

text \<open>Event identifiers determine the event: a type has no colon.\<close>

lemma known_event_no_colon: "t \<in> set knownEventTypes \<Longrightarrow> CHR '':'' \<notin> set t"
  by (auto simp: knownEventTypes_def const_defs)

lemma stream_agrees_ids: "stream_agrees s es \<Longrightarrow> distinct (map seID es)"
proof -
  assume es: "stream_agrees s es"
  have "event_key x = event_key y" if "x \<in> set es" "y \<in> set es" "seID x = seID y" for x y
  proof -
    have "\<exists>q. describes x q" "\<exists>r. describes y r"
      using es that(1,2) unfolding stream_agrees_def by blast+
    then have d: "seID x = eEventType (seEvent x) @ '':'' @ eAggregateID (seEvent x)"
        "seID y = eEventType (seEvent y) @ '':'' @ eAggregateID (seEvent y)"
        "CHR '':'' \<notin> set (eEventType (seEvent x))" "CHR '':'' \<notin> set (eEventType (seEvent y))"
      by (auto simp: describes_def known_event_no_colon)
    then show ?thesis using that(3) by (simp add: event_key_def append_sep_inj)
  qed
  with es show ?thesis unfolding stream_agrees_def distinct_map inj_on_def by blast
qed

section \<open>Loops of the event handlers\<close>

text \<open>
  A method that finishes a reservation: it finds every reservation that exists, and its
  success leaves the reservation in a final state. A handler that runs such a method over a
  list of identifiers and succeeds has finished all of them.
\<close>

locale finishing_method =
  fixes M :: "string \<Rightarrow> (MemoryStore, Reservation) go" and finished :: "Reservation \<Rightarrow> bool"
  assumes moves: "preserves (evolved k q) (M rid)"
    and finishes: "ids_ok s \<Longrightarrow> M rid s = (Inr r, s') \<Longrightarrow>
      msReservations s' rid = Some r \<and> finished r \<and> final r"
    and finds: "msReservations s rid = Some q \<Longrightarrow> ids_ok s \<Longrightarrow> M rid s \<noteq> (Inl ErrNotFound, s')"
begin

lemma skip_moves: "preserves (evolved k q) (skip_not_found (M rid))"
  by (rule evolved.skip_not_found_keeps [OF moves])

lemma loop_moves: "preserves (evolved k q) (for_each rids (\<lambda>rid. skip_not_found (M rid)))"
  by (intro pres_intros skip_moves)

lemma loop_finishes:
  assumes "for_each rids (\<lambda>rid. skip_not_found (M rid)) s = (Inr (), s')"
    and "ids_ok s" and "msReservations s rid = Some q" and "rid \<in> set rids"
  shows "\<exists>r. msReservations s' rid = Some r \<and> finished r"
  using assms
proof (induction rids arbitrary: s q)
  case (Cons x rids)
  obtain s1 where s1: "skip_not_found (M x) s = (Inr (), s1)"
      and rest: "for_each rids (\<lambda>rid. skip_not_found (M rid)) s1 = (Inr (), s')"
    using Cons.prems(1) by (rule for_each_ConsE)
  have start: "evolved rid q s" using Cons.prems(2,3) by (simp add: evolved_def evolves_refl)
  then have "evolved rid q s1" using preservesD [OF skip_moves start s1] by simp
  then obtain q1 where q1: "ids_ok s1" "msReservations s1 rid = Some q1" by (auto simp: evolved_def)
  show ?case
  proof (cases "rid \<in> set rids")
    case True
    then show ?thesis using Cons.IH [OF rest q1] by simp
  next
    case False
    with Cons.prems(4) have x: "x = rid" by simp
    obtain r where r: "M rid s = (Inr r, s1)"
      using s1 finds [OF Cons.prems(3,2)] unfolding x skip_not_found_def
      by (auto simp: go_defs split: prod.splits sum.splits if_splits)
    from finishes [OF Cons.prems(2) r]
    have "msReservations s1 rid = Some r" "finished r" "final r" by simp_all
    moreover from this q1(1) have "evolved rid r s1" by (simp add: evolved_def evolves_refl)
    with rest have "evolved rid r s'" using preservesD [OF loop_moves] by blast
    ultimately show ?thesis using evolves_final by (auto simp: evolved_def)
  qed
qed simp

end

interpretation releasing: finishing_method "\<lambda>rid. MemoryStore_Release rid oid"
  "\<lambda>r. rStatus r = ReservationReleased \<or> rStatus r = ReservationExpired" for oid
proof unfold_locales
  fix k q rid show "preserves (evolved k q) (MemoryStore_Release rid oid)"
    by (rule evolved.methods_keep)
qed (auto simp: Release_exact findReservation_def final_def zero_clock_error_def ErrNotFound_def
    ErrConflict_def ErrInvalidRequest_def split: sum.splits if_splits option.splits)

interpretation restocking: finishing_method "\<lambda>rid. MemoryStore_Restock rid oid"
  "\<lambda>r. rStatus r = ReservationRestocked" for oid
proof unfold_locales
  fix k q rid show "preserves (evolved k q) (MemoryStore_Restock rid oid)"
    by (rule evolved.methods_keep)
qed (auto simp: Restock_exact findReservation_def final_def zero_clock_error_def ErrNotFound_def
    ErrConflict_def ErrInvalidRequest_def split: sum.splits if_splits option.splits)

end
