(* ===== verification/Inventory_Properties.thy ===== *)
theory Inventory_Properties
  imports Inventory_Service
begin

text \<open>
  What the inventory service promises to its callers, each promise stated of the methods
  of \<open>memory_store.go\<close>, \<open>server.go\<close> and \<open>events.go\<close>.
\<close>

section \<open>Facts shared by the properties\<close>

lemma reachable_inv:
  assumes "\<forall>sku. 0 \<le> sint (get0 stock sku)"
    and "s0 = NewMemoryStore clk stock limit \<or> s0 = SetEventStream (NewMemoryStore clk stock limit)"
    and "store_call\<^sup>*\<^sup>* s0 s"
  shows "service_inv (\<lambda>sku. sint (get0 stock sku)) s"
  using assms by (intro inventory.inv_reachable [of _ s0]) (auto simp: fresh_store_def)

lemma limit_change: "store_change s s' \<Longrightarrow> msPurchaseLimit s' = msPurchaseLimit s"
  by (erule store_changeE) simp_all

interpretation limit_kept: store_property "\<lambda>s. ids_ok s \<and> msPurchaseLimit s = L" for L
  by unfold_locales (auto simp: limit_change intro: ids_ok_change)

interpretation refines: store_property "\<lambda>s. service_inv T s \<and> ledger_step\<^sup>*\<^sup>* l (ledger_of s)" for T l
proof unfold_locales
  fix s s' assume P: "service_inv T s \<and> ledger_step\<^sup>*\<^sup>* l (ledger_of s)" and "store_change s s'"
  then have "service_inv T s'" by (auto intro: service_inv.kept)
  moreover have "ledger_step (ledger_of s) (ledger_of s')"
    using P \<open>store_change s s'\<close> by (intro store_change_refines) (auto simp: service_inv_def)
  ultimately show "service_inv T s' \<and> ledger_step\<^sup>*\<^sup>* l (ledger_of s')"
    using P by (auto intro: rtranclp.rtrancl_into_rtrancl)
qed (simp add: service_inv_def)

lemma stream_change: "store_change s s' \<Longrightarrow> msEventStream s \<noteq> None \<Longrightarrow> msEventStream s' \<noteq> None"
  by (erule store_changeE) (simp_all add: change_stream)

interpretation stream_kept: store_property "\<lambda>s. ids_ok s \<and> msEventStream s \<noteq> None"
  by unfold_locales (simp, metis ids_ok_change stream_change)

lemma evolved_start: "ids_ok s \<Longrightarrow> msReservations s k = Some r \<Longrightarrow> evolved k r s"
  by (simp add: evolved_def evolves_refl)

text \<open>A small shop for the examples: five pieces of SKU 7, two per customer.\<close>

definition shop :: MemoryStore where
  "shop = SetEventStream (NewMemoryStore (sconst 1) [7 \<mapsto> 5] 2)"

definition shop_command :: ReserveCommand where
  "shop_command = \<lparr>rcReservationID = ''r1'', rcOrderID = ''o1'', rcUserID = 3, rcSKUID = 7,
     rcQuantity = 2, rcMode = ''normal''\<rparr>"

definition shop_admission :: SeckillAdmissionCommand where
  "shop_admission = \<lparr>saRequestID = ''q1'', saActivityID = 9, saUserID = 3, saSKUID = 7,
     saQuantity = 2, saOrderID = ''o2''\<rparr>"

lemma opaque_examples [simp]:
  "validOpaqueID ''r1''" "validOpaqueID ''o1''" "validOpaqueID ''q1''" "validOpaqueID ''admit_q1''"
  by (simp_all add: validOpaqueID_iff opaque_text_def opaque_char_def)

lemma shop_sel [simp]:
  "msStock shop = [7 \<mapsto> 5]" "msReservations shop = Map.empty" "msPurchased shop = Map.empty"
  "msPurchaseLimit shop = 2" "msNow shop = sconst 1" "msEventStream shop = Some []"
  by (simp_all add: shop_def SetEventStream_def NewMemoryStore_def)

lemma shop_ids [simp]: "ids_ok shop"
  by (simp add: ids_ok_def)

lemma shop_stampable [simp]: "stampable shop"
  by (simp add: stampable_def zero_time_def)

lemma shop_command_ok [simp]: "reserve_command_ok shop_command"
  by (simp add: reserve_command_ok_def shop_command_def)

lemma shop_admission_ok [simp]: "admission_ok shop_admission"
  by (simp add: admission_ok_def shop_admission_def)

lemma shop_reserve:
  "MemoryStore_Reserve shop_command shop = (Inr (new_reservation shop_command 1), reserved shop_command shop)"
  by (simp add: Reserve_exact, simp add: shop_command_def get0_def)

lemma shop_admit:
  "MemoryStore_AdmitSeckill shop_admission shop =
     (Inr (new_admission shop_admission 1), admitted shop_admission shop)"
  by (simp add: AdmitSeckill_exact, simp add: shop_admission_def get0_def)

lemma shop_reserved_call: "store_call shop (reserved shop_command shop)"
  using call_reserve [of shop "Some shop_command"]
  by (simp add: Server_Reserve_def respond_def go_defs shop_reserve)

lemma shop_admitted_call: "store_call shop (admitted shop_admission shop)"
  using call_admit [of shop "Some shop_admission"]
  by (simp add: Server_AdmitSeckill_def respond_def go_defs shop_admit)

lemma shop_stock: "0 \<le> sint (get0 [7 \<mapsto> (5 :: int32)] sku)"
  by (simp add: get0_def)

definition shop1 :: MemoryStore where "shop1 = reserved shop_command shop"

lemma shop_reserved_ids [simp]: "ids_ok shop1"
  using ids_ok_change [OF shop_ids Reserve_change [of shop shop_command]]
  by (simp add: shop_reserve shop1_def)

lemma shop1_now [simp]: "msNow shop1 = sconst 1"
  by (simp add: shop1_def reserved_def Let_def siterate.simps)

lemma shop1_stampable [simp]: "stampable shop1"
  by (simp add: stampable_def zero_time_def)

lemma shop_r1: "msReservations shop1 ''r1'' = Some (new_reservation shop_command 1)"
  by (simp add: shop1_def shop_command_def)

lemma shop_find:
  "findReservation shop1 ''r1'' ''o1'' = Inr (new_reservation shop_command 1)"
  using shop_r1 by (simp add: findReservation_Inr_iff shop_command_def)

lemma shop_release:
  "MemoryStore_Release ''r1'' ''o1'' shop1 =
     (Inr ((new_reservation shop_command 1)\<lparr>rStatus := ReservationReleased, rUpdatedAt := 1\<rparr>),
      returned EventInventoryReleased ReservationReleased ''r1'' (new_reservation shop_command 1) shop1)"
  using shop_find by (simp add: Release_exact)

text \<open>The shop after the order was paid, and the events of its cancellation and refund.\<close>

definition shop2 :: MemoryStore where
  "shop2 = confirmed ''r1'' ''o1'' (new_reservation shop_command 1) shop1"

lemma shop2_ids: "ids_ok shop2"
  using ids_ok_change [OF shop_reserved_ids Confirm_change [of shop1 "''r1''" "''o1''"]] shop_find
  by (simp add: Confirm_exact shop2_def)

lemma shop2_r1: "msReservations shop2 ''r1'' = Some ((bound ''o1'' (new_reservation shop_command 1))
    \<lparr>rStatus := ReservationConfirmed, rUpdatedAt := 1\<rparr>)"
  by (simp add: shop2_def)

lemma shop_restock:
  "MemoryStore_Restock ''r1'' ''o1'' shop2 =
     (Inr ((bound ''o1'' (new_reservation shop_command 1))\<lparr>rStatus := ReservationRestocked, rUpdatedAt := 1\<rparr>),
      returned EventInventoryRestocked ReservationRestocked ''r1'' ((bound ''o1''
        (new_reservation shop_command 1))\<lparr>rStatus := ReservationConfirmed, rUpdatedAt := 1\<rparr>) shop2)"
proof -
  have "findReservation shop2 ''r1'' ''o1'' = Inr ((bound ''o1'' (new_reservation shop_command 1))
      \<lparr>rStatus := ReservationConfirmed, rUpdatedAt := 1\<rparr>)"
    using shop2_r1 by (simp add: findReservation_Inr_iff shop_command_def bound_def)
  moreover have "stampable shop2" "shd (msNow shop2) = 1"
    by (simp_all add: stampable_def shop2_def confirmed_def zero_time_def siterate.simps)
  ultimately show ?thesis by (simp add: Restock_exact [OF shop2_ids])
qed

definition shop_cancel_payload :: OrderCancelledPayload where
  "shop_cancel_payload = \<lparr>oxpOrderID = ''o1'', oxpUserID = 3, oxpReason = ''late'',
     oxpReservationIDs = [''r1'']\<rparr>"

definition shop_cancelled :: EventEnvelope where
  "shop_cancelled = \<lparr>eEventID = ''e1'', eEventType = EventOrderCancelled, eEventVersion = 1,
     eAggregateType = ''order'', eAggregateID = ''o1'', eOccurredAt = 1, eTraceID = [],
     ePayload = marshal_OrderCancelled shop_cancel_payload\<rparr>"

lemma shop_cancelled_decodes:
  "decodeInventoryPayload shop_cancelled unmarshal_OrderCancelled = Inr shop_cancel_payload"
proof -
  have "ValidateEventPayload shop_cancelled = Inr ()"
    by (rule ValidateEventPayload_OrderCancelled [of _ shop_cancel_payload])
      (simp_all add: shop_cancelled_def Envelope_Validate_iff const_defs zero_time_def
        marshal_OrderCancelled_def)
  then show ?thesis
    by (simp add: decodeInventoryPayload_def shop_cancelled_def OrderCancelled_roundtrip)
qed

definition shop_refund_payload :: PaymentRefundedPayload where
  "shop_refund_payload = \<lparr>prpRefundNo = ''f1'', prpPaymentNo = ''p1'', prpOrderID = ''o1'',
     prpUserID = 3, prpAmountCents = 100, prpReason = ''broken''\<rparr>"

definition shop_refunded :: EventEnvelope where
  "shop_refunded = \<lparr>eEventID = ''e2'', eEventType = EventPaymentRefunded, eEventVersion = 1,
     eAggregateType = ''payment'', eAggregateID = ''p1'', eOccurredAt = 1, eTraceID = [],
     ePayload = marshal_PaymentRefunded shop_refund_payload\<rparr>"

lemma shop_refunded_decodes:
  "decodeInventoryPayload shop_refunded unmarshal_PaymentRefunded = Inr shop_refund_payload"
proof -
  have "ValidateEventPayload shop_refunded = Inr ()"
    by (rule ValidateEventPayload_PaymentRefunded [of _ shop_refund_payload])
      (simp_all add: shop_refunded_def Envelope_Validate_iff const_defs zero_time_def
        marshal_PaymentRefunded_def)
  then show ?thesis
    by (simp add: decodeInventoryPayload_def shop_refunded_def PaymentRefunded_roundtrip)
qed

section \<open>Stock\<close>

text \<open>
  C1. No overselling: after any sequence of gRPC calls and delivered events, the sellable
  stock of every SKU is non-negative, and together with the quantities of the reservations
  that are reserved or confirmed it is exactly the stock the store was created with, although
  all of it is computed in int32.
\<close>

theorem stock_conserved:
  assumes "\<forall>sku. 0 \<le> sint (get0 stock sku)"
    and "s0 = NewMemoryStore clk stock limit \<or> s0 = SetEventStream (NewMemoryStore clk stock limit)"
    and "store_call\<^sup>*\<^sup>* s0 s"
  shows "0 \<le> sint (AvailableStock s sku) \<and>
    sint (AvailableStock s sku) + sum_values (held sku) (msReservations s) = sint (get0 stock sku)"
  using ledger_invD(3,4) [of "\<lambda>sku. sint (get0 stock sku)" "ledger_of s"] reachable_inv [OF assms]
  by (simp add: service_inv_def store_inv_def AvailableStock_def)

theorem stock_conserved_witness:
  "sint (AvailableStock (reserved shop_command shop) 7) +
     sum_values (held 7) (msReservations (reserved shop_command shop)) = 5"
  using stock_conserved [of "[7 \<mapsto> 5]" shop "sconst 1" 2 "reserved shop_command shop" 7]
    shop_stock shop_reserved_call
  by (auto simp: shop_def get0_def r_into_rtranclp)

text \<open>
  C6. The seckill quota: after any sequence of calls, the quantity that a user holds of a
  SKU in an activity (reserved or confirmed) does not exceed the purchase limit, and the
  limit is the one the store was created with (1 when that was not positive). The quota that
  the store has on record for this user, activity and SKU is exactly that quantity, so no
  quota is lost and none is charged twice. The quota
  check of \<open>AdmitSeckill\<close> adds two int32 values without a guard against overflow; it is
  never fooled by a wrapped sum.
\<close>

theorem purchase_limit_kept:
  assumes "\<forall>sku. 0 \<le> sint (get0 stock sku)"
    and "s0 = NewMemoryStore clk stock limit \<or> s0 = SetEventStream (NewMemoryStore clk stock limit)"
    and "store_call\<^sup>*\<^sup>* s0 s"
  shows "sum_values (bought (activity, user, sku)) (msReservations s) \<le> (if sint limit \<le> 0 then 1 else sint limit) \<and>
    sint (get0 (msPurchased s) (purchaseKey activity user sku)) = sum_values (bought (activity, user, sku)) (msReservations s)"
proof -
  have "ids_ok s0 \<and> msPurchaseLimit s0 = (if sint limit \<le> 0 then 1 else limit)"
    using assms(2) by (auto simp: NewMemoryStore_def SetEventStream_def ids_ok_def)
  from limit_kept.run_keeps [OF assms(3) this]
  have lim: "sint (msPurchaseLimit s) = (if sint limit \<le> 0 then 1 else sint limit)" by simp
  have inv: "store_inv (\<lambda>sku. sint (get0 stock sku)) s"
    using reachable_inv [OF assms] by (simp add: service_inv_def)
  then have "ledger_inv (\<lambda>sku. sint (get0 stock sku)) (ledger_of s)" by (simp add: store_inv_def)
  from ledger_invD(5,6) [OF this, of "(activity, user, sku)"] lim show ?thesis by simp
qed

theorem purchase_limit_kept_witness:
  "sum_values (bought (9, 3, 7)) (msReservations (admitted shop_admission shop)) \<le> 2 \<and>
   sint (get0 (msPurchased (admitted shop_admission shop)) (purchaseKey 9 3 7)) =
     sum_values (bought (9, 3, 7)) (msReservations (admitted shop_admission shop))"
  using purchase_limit_kept [of "[7 \<mapsto> 5]" shop "sconst 1" 2 "admitted shop_admission shop" 9 3 7]
    shop_stock shop_admitted_call
  by (auto simp: shop_def r_into_rtranclp)

text \<open>
  C7. Refinement: every entry point of the service, gRPC method or event handler, takes
  the machine-integer store through steps of the abstract ledger over unbounded integers,
  from every store that a run can reach.
\<close>

theorem calls_refine_ledger:
  assumes "\<forall>sku. 0 \<le> sint (get0 stock sku)"
    and "s0 = NewMemoryStore clk stock limit \<or> s0 = SetEventStream (NewMemoryStore clk stock limit)"
    and "store_call\<^sup>*\<^sup>* s0 s" and "store_call s s'"
  shows "ledger_step\<^sup>*\<^sup>* (ledger_of s) (ledger_of s')"
  using refines.call_keeps [OF _ assms(4)] reachable_inv [OF assms(1-3)] by blast

theorem calls_refine_ledger_witness:
  "ledger_step\<^sup>*\<^sup>* (ledger_of shop) (ledger_of (admitted shop_admission shop))"
  using calls_refine_ledger [of "[7 \<mapsto> 5]" shop "sconst 1" 2 shop "admitted shop_admission shop"]
    shop_stock shop_admitted_call
  by (auto simp: shop_def)

section \<open>Reservations\<close>

text \<open>
  The life cycle of a reservation: on every run a reservation keeps its identifier,
  user, activity, SKU, quantity, mode and creation time, its order once it is bound to one,
  and its status only moves forward, from reserved to confirmed or released and from
  confirmed to restocked; while the status stays, nothing of the reservation changes, so a
  released, expired or restocked reservation is frozen.
\<close>

lemma reservation_life_cycle:
  assumes "ids_ok s" and "store_call\<^sup>*\<^sup>* s s'" and "msReservations s k = Some r"
  shows "\<exists>r'. msReservations s' k = Some r' \<and> evolves r r' \<and> (final r \<longrightarrow> r' = r)"
  using evolved.run_keeps [OF assms(2) evolved_start [OF assms(1,3)]] evolves_final
  by (auto simp: evolved_def)

lemma reservation_life_cycle_example:
  "\<exists>r'. msReservations (snd (Server_Release (Some (''r1'', ''o1'')) shop1))
      ''r1'' = Some r' \<and> evolves (new_reservation shop_command 1) r'"
  using reservation_life_cycle [OF shop_reserved_ids _ shop_r1] call_release by blast

lemma release_exactly_once:
  assumes "ids_ok s" and "MemoryStore_Release rid oid s = (Inr r, s')" and "store_call\<^sup>*\<^sup>* s' s''"
  shows "MemoryStore_Release rid oid s'' = (Inr r, s'')"
proof -
  have r: "msReservations s' rid = Some r" "validOpaqueID rid"
      "oid = [] \<or> rOrderID r = [] \<or> rOrderID r = oid"
      "rStatus r = ReservationReleased \<or> rStatus r = ReservationExpired"
    using assms(2)
    by (auto simp: Release_exact [OF assms(1)] findReservation_Inr_iff split: sum.splits if_splits)
  have ids: "ids_ok s'"
    using ids_ok_change [OF assms(1) Release_change [OF assms(1), of rid oid]] assms(2) by simp
  from evolved.run_keeps [OF assms(3) evolved_start [OF this r(1)]]
  have "msReservations s'' rid = Some r \<and> ids_ok s''"
    using r(4) evolves_final by (auto simp: evolved_def final_def)
  then show ?thesis using r by (auto simp: Release_exact findReservation_Inr_iff [THEN iffD2])
qed

lemma restock_exactly_once:
  assumes "ids_ok s" and "MemoryStore_Restock rid oid s = (Inr r, s')" and "store_call\<^sup>*\<^sup>* s' s''"
  shows "MemoryStore_Restock rid oid s'' = (Inr r, s'')"
proof -
  have r: "msReservations s' rid = Some r" "validOpaqueID rid"
      "oid = [] \<or> rOrderID r = [] \<or> rOrderID r = oid" "rStatus r = ReservationRestocked"
    using assms(2)
    by (auto simp: Restock_exact [OF assms(1)] findReservation_Inr_iff split: sum.splits if_splits)
  have ids: "ids_ok s'"
    using ids_ok_change [OF assms(1) Restock_change [OF assms(1), of rid oid]] assms(2) by simp
  from evolved.run_keeps [OF assms(3) evolved_start [OF this r(1)]]
  have "msReservations s'' rid = Some r \<and> ids_ok s''"
    using r(4) evolves_final by (auto simp: evolved_def final_def)
  then show ?thesis using r by (auto simp: Restock_exact findReservation_Inr_iff [THEN iffD2])
qed

lemma reserve_exactly_once:
  assumes "ids_ok s" and "MemoryStore_Reserve c s = (Inr r, s')" and "store_call\<^sup>*\<^sup>* s' s''"
  shows "MemoryStore_Reserve c s'' = (Inr r, s'') \<or>
    MemoryStore_Reserve c s'' = (Inl ErrConflict, s'') \<and>
      (\<exists>r'. msReservations s'' (rcReservationID c) = Some r' \<and> rStatus r' \<noteq> ReservationReserved)"
proof -
  have r: "msReservations s' (rcReservationID c) = Some r" "reserve_command_ok c"
      "sameReservation r c" "rStatus r = ReservationReserved"
    using assms(2) by (auto simp: Reserve_exact sameReservation_def split: option.splits if_splits)
  have ids: "ids_ok s'"
    using ids_ok_change [OF assms(1) Reserve_change [of s c]] assms(2) by simp
  from evolved.run_keeps [OF assms(3) evolved_start [OF this r(1)]]
  obtain r' where r': "msReservations s'' (rcReservationID c) = Some r'" "evolves r r'"
    by (auto simp: evolved_def)
  then show ?thesis
    using r by (cases "rStatus r' = ReservationReserved") (auto simp: Reserve_exact evolves_def)
qed

text \<open>
  C8. Reserving, releasing and restocking happen once: when the call has succeeded, the same
  call at any later time, after any calls in between, changes nothing. A release and a restock
  answer as the first time; a reserve returns the reservation while that is still reserved and
  a conflict afterwards. Stock is never taken or given back twice.
\<close>

theorem reservation_calls_exactly_once:
  assumes "ids_ok s" and "store_call\<^sup>*\<^sup>* s' s''"
  shows "(MemoryStore_Reserve c s = (Inr r, s') \<longrightarrow> MemoryStore_Reserve c s'' = (Inr r, s'') \<or>
      MemoryStore_Reserve c s'' = (Inl ErrConflict, s'') \<and>
        (\<exists>r'. msReservations s'' (rcReservationID c) = Some r' \<and> rStatus r' \<noteq> ReservationReserved)) \<and>
    (MemoryStore_Release rid oid s = (Inr r, s') \<longrightarrow> MemoryStore_Release rid oid s'' = (Inr r, s'')) \<and>
    (MemoryStore_Restock rid oid s = (Inr r, s') \<longrightarrow> MemoryStore_Restock rid oid s'' = (Inr r, s''))"
  using reserve_exactly_once release_exactly_once restock_exactly_once assms by (intro conjI impI) blast+

theorem reservation_calls_exactly_once_witness:
  "MemoryStore_Reserve shop_command shop1 = (Inr (new_reservation shop_command 1), shop1) \<and>
   fst (MemoryStore_Release ''r1'' ''o1'' (snd (MemoryStore_Release ''r1'' ''o1'' shop1))) =
     Inr ((new_reservation shop_command 1)\<lparr>rStatus := ReservationReleased, rUpdatedAt := 1\<rparr>) \<and>
   (\<exists>r s''. MemoryStore_Restock ''r1'' ''o1'' s'' = (Inr r, s'') \<and> rStatus r = ReservationRestocked)"
proof (intro conjI)
  show "MemoryStore_Reserve shop_command shop1 = (Inr (new_reservation shop_command 1), shop1)"
    using reservation_calls_exactly_once [OF shop_ids rtranclp.rtrancl_refl, THEN conjunct1, rule_format, OF shop_reserve]
      shop_r1 by (auto simp: shop1_def shop_command_def)
  show "fst (MemoryStore_Release ''r1'' ''o1'' (snd (MemoryStore_Release ''r1'' ''o1'' shop1))) =
     Inr ((new_reservation shop_command 1)\<lparr>rStatus := ReservationReleased, rUpdatedAt := 1\<rparr>)"
    using reservation_calls_exactly_once [OF shop_reserved_ids rtranclp.rtrancl_refl, THEN conjunct2, THEN conjunct1,
        rule_format, OF shop_release] by (simp add: shop_release)
  show "\<exists>r s''. MemoryStore_Restock ''r1'' ''o1'' s'' = (Inr r, s'') \<and> rStatus r = ReservationRestocked"
    using reservation_calls_exactly_once [OF shop2_ids rtranclp.rtrancl_refl, THEN conjunct2, THEN conjunct2,
        rule_format, OF shop_restock] by fastforce
qed

text \<open>
  C9. A method that fails changes nothing: stock, reservations, purchase quota and event
  stream are as before, on every error path, so that neither stock nor an announcement
  leaks.
\<close>

theorem failure_changes_nothing:
  assumes "ids_ok s"
    and "MemoryStore_Reserve c s = (Inl e, s') \<or> MemoryStore_AdmitSeckill a s = (Inl e, s') \<or>
      MemoryStore_Confirm rid oid s = (Inl e, s') \<or> MemoryStore_Release rid oid s = (Inl e, s') \<or>
      MemoryStore_Restock rid oid s = (Inl e, s')"
  shows "msStock s' = msStock s \<and> msReservations s' = msReservations s \<and>
    msPurchased s' = msPurchased s \<and> msEventStream s' = msEventStream s"
proof -
  have "s' = s \<or> s' = tick s"
    using assms(2)
  proof (elim disjE)
    assume "MemoryStore_AdmitSeckill a s = (Inl e, s')"
    then show ?thesis unfolding AdmitSeckill_exact
      by (simp only: split: if_splits option.splits) simp_all
  qed (auto simp: Reserve_exact Confirm_exact Release_exact [OF assms(1)] Restock_exact [OF assms(1)]
      split: if_splits option.splits sum.splits)
  then show ?thesis by auto
qed

theorem failure_changes_nothing_witness:
  "fst (MemoryStore_Confirm ''q1'' ''o1'' shop) = Inl ErrNotFound \<and>
   msStock (snd (MemoryStore_Confirm ''q1'' ''o1'' shop)) = msStock shop"
proof -
  have "MemoryStore_Confirm ''q1'' ''o1'' shop = (Inl ErrNotFound, shop)"
    by (simp add: Confirm_exact findReservation_def)
  with failure_changes_nothing [OF shop_ids] show ?thesis by auto
qed

section \<open>Events\<close>

text \<open>
  C10. The event stream agrees with the reservations: on every run of a store with a stream
  the events are pairwise different, there is a reserved event exactly for every
  reservation, an accepted event exactly for every seckill admission, a released event
  exactly for every released reservation and a restocked event exactly for every restocked
  one, and each event carries the terms of its reservation.
\<close>

theorem stream_agrees_with_store:
  assumes "store_call\<^sup>*\<^sup>* (SetEventStream (NewMemoryStore clk stock limit)) s"
  shows "\<exists>es. msEventStream s = Some es \<and> stream_agrees s es \<and> distinct (map seID es)"
proof -
  let ?s0 = "SetEventStream (NewMemoryStore clk stock limit)"
  have "stream_inv ?s0"
    by (simp add: stream_inv_def stream_agrees_def expected_keys_def ids_ok_def SetEventStream_def
        NewMemoryStore_def)
  with assms have inv: "stream_inv s" by (rule stream_inv.run_keeps)
  have "ids_ok ?s0 \<and> msEventStream ?s0 \<noteq> None"
    by (simp add: SetEventStream_def NewMemoryStore_def ids_ok_def)
  with assms have "msEventStream s \<noteq> None" using stream_kept.run_keeps by blast
  then obtain es where "msEventStream s = Some es" by blast
  with inv show ?thesis by (auto simp: stream_inv_def stream_agrees_ids)
qed

theorem stream_agrees_with_store_witness:
  "\<exists>es. msEventStream shop1 = Some es \<and> stream_agrees shop1 es"
  using stream_agrees_with_store [of "sconst 1" "[7 \<mapsto> 5]" 2 shop1] shop_reserved_call
  by (auto simp: shop_def shop1_def)

lemma order_cancelled_releases:
  assumes "ids_ok s" and "Handler_orderCancelled event s = (Inr (), s')"
    and "decodeInventoryPayload event unmarshal_OrderCancelled = Inr payload"
    and "rid \<in> set (oxpReservationIDs payload)" and "msReservations s rid = Some q"
  shows "\<exists>r. msReservations s' rid = Some r \<and>
    (rStatus r = ReservationReleased \<or> rStatus r = ReservationExpired)"
  using assms(2) releasing.loop_finishes [OF _ assms(1,5,4)]
  by (simp add: Handler_orderCancelled_def and_then_def of_result_def assms(3))

lemma payment_refunded_restocks:
  assumes "ids_ok s" and "range_order ks (msReservations s)"
    and "Handler_paymentRefunded ks event s = (Inr (), s')"
    and "decodeInventoryPayload event unmarshal_PaymentRefunded = Inr payload"
    and "msReservations s rid = Some q" and "rOrderID q = prpOrderID payload"
  shows "\<exists>r. msReservations s' rid = Some r \<and> rStatus r = ReservationRestocked"
proof -
  have "rid \<in> set (ReservationIDsByOrder ks s (prpOrderID payload))"
    using assms(2,5,6) by (auto simp: ReservationIDsByOrder_def range_order_def)
  from restocking.loop_finishes [OF _ assms(1,5) this] assms(3) show ?thesis
    by (simp add: Handler_paymentRefunded_def and_then_def of_result_def assms(4))
qed

text \<open>
  C11. A cancelled or refunded order gives its stock back: when the handler of
  \<open>order.cancelled.v1\<close> reports success, every existing reservation that the event lists is
  released; when the handler of \<open>payment.refunded.v1\<close> does, every reservation of the order is
  restocked, whatever the order in which the reservation map is ranged over.
\<close>

theorem events_give_stock_back:
  assumes "ids_ok s" and "msReservations s rid = Some q"
  shows "(decodeInventoryPayload event unmarshal_OrderCancelled = Inr cancelled \<and> rid \<in> set (oxpReservationIDs cancelled) \<and>
      Handler_orderCancelled event s = (Inr (), s') \<longrightarrow>
      (\<exists>r. msReservations s' rid = Some r \<and> (rStatus r = ReservationReleased \<or> rStatus r = ReservationExpired))) \<and>
    (decodeInventoryPayload event unmarshal_PaymentRefunded = Inr refunded \<and> rOrderID q = prpOrderID refunded \<and>
      range_order ks (msReservations s) \<and> Handler_paymentRefunded ks event s = (Inr (), s') \<longrightarrow>
      (\<exists>r. msReservations s' rid = Some r \<and> rStatus r = ReservationRestocked))"
  using order_cancelled_releases [OF assms(1)] payment_refunded_restocks [OF assms(1)] assms(2)
  by (intro conjI impI) blast+

theorem events_give_stock_back_witness:
  "(\<exists>r. msReservations (snd (Handler_orderCancelled shop_cancelled shop1)) ''r1'' = Some r \<and>
     (rStatus r = ReservationReleased \<or> rStatus r = ReservationExpired)) \<and>
   (\<exists>r. msReservations (snd (Handler_paymentRefunded [''r1''] shop_refunded shop2)) ''r1'' = Some r \<and>
     rStatus r = ReservationRestocked)"
proof
  obtain s' where "Handler_orderCancelled shop_cancelled shop1 = (Inr (), s')"
    using shop_release shop_cancelled_decodes
    by (simp add: Handler_orderCancelled_def shop_cancel_payload_def skip_not_found_def go_defs)
  then show "\<exists>r. msReservations (snd (Handler_orderCancelled shop_cancelled shop1)) ''r1'' = Some r \<and>
     (rStatus r = ReservationReleased \<or> rStatus r = ReservationExpired)"
    using events_give_stock_back [OF shop_reserved_ids shop_r1, of shop_cancelled shop_cancel_payload s'] shop_cancelled_decodes
    by (simp add: shop_cancel_payload_def)
next
  have dom: "range_order [''r1''] (msReservations shop2)"
    by (simp add: range_order_def shop2_def shop1_def shop_command_def)
  obtain s' where "Handler_paymentRefunded [''r1''] shop_refunded shop2 = (Inr (), s')"
    using shop_restock shop_refunded_decodes shop2_r1
    by (simp add: Handler_paymentRefunded_def ReservationIDsByOrder_def shop_refund_payload_def
        skip_not_found_def go_defs bound_def shop_command_def)
  then show "\<exists>r. msReservations (snd (Handler_paymentRefunded [''r1''] shop_refunded shop2)) ''r1'' = Some r \<and>
     rStatus r = ReservationRestocked"
    using events_give_stock_back [OF shop2_ids shop2_r1, of shop_refunded _ s' shop_refund_payload "[''r1'']"] shop_refunded_decodes dom
    by (simp add: shop_refund_payload_def bound_def shop_command_def)
qed

section \<open>Identifiers that the store accepts and cannot serve\<close>

text \<open>
  \<open>AdmitSeckill\<close> accepts request identifiers of up to 128 bytes and files the
  reservation under the identifier with the prefix \<open>admit_\<close>. For a request identifier of
  more than 122 bytes the reservation that it just returned is refused as an invalid
  request by \<open>Confirm\<close>, \<open>Release\<close> and \<open>Restock\<close> in every state: its stock and quota
  can never be confirmed or given back.
\<close>

lemma long_admission_is_stuck:
  assumes "MemoryStore_AdmitSeckill c s = (Inr r, s')" and "msReservations s (''admit_'' @ saRequestID c) = None"
    and "122 < length (saRequestID c)"
  shows "msReservations s' (rReservationID r) = Some r \<and>
    MemoryStore_Confirm (rReservationID r) oid t = (Inl ErrInvalidRequest, t) \<and>
    MemoryStore_Release (rReservationID r) oid t = (Inl ErrInvalidRequest, t) \<and>
    MemoryStore_Restock (rReservationID r) oid t = (Inl ErrInvalidRequest, t)"
proof -
  have r: "r = new_admission c (shd (msNow s))" and s': "s' = admitted c s"
    using assms(1,2) by (simp_all add: AdmitSeckill_exact split: if_splits)
  have "\<not> validOpaqueID (rReservationID r)" using assms(3) by (simp add: r validOpaqueID_iff)
  then have "findReservation t (rReservationID r) oid = Inl ErrInvalidRequest"
    by (simp add: findReservation_def)
  then show ?thesis
    by (simp add: s' r MemoryStore_Confirm_def MemoryStore_Release_def MemoryStore_Restock_def
        go_defs)
qed

lemma long_admission_is_stuck_example:
  "MemoryStore_Release (''admit_'' @ replicate 123 CHR ''q'') [] shop = (Inl ErrInvalidRequest, shop)"
proof -
  define c where "c = shop_admission\<lparr>saRequestID := replicate 123 CHR ''q''\<rparr>"
  have "validOpaqueID (replicate 123 CHR ''q'')"
    by (simp add: validOpaqueID_iff opaque_text_def opaque_char_def list_all_iff)
  then have "admission_ok c" by (simp add: admission_ok_def c_def shop_admission_def)
  then have "MemoryStore_AdmitSeckill c shop = (Inr (new_admission c 1), admitted c shop)"
    by (simp add: AdmitSeckill_exact, simp add: c_def shop_admission_def get0_def)
  from long_admission_is_stuck [OF this] show ?thesis by (simp add: c_def)
qed

end
