(* ===== verification/Sha256.thy ===== *)
theory Sha256
  imports Go_Strings
begin

text \<open>
  \<open>crypto/sha256\<close> and \<open>encoding/hex\<close> as the order service uses them: the hexadecimal SHA-256
  digest of a string of bytes (FIPS 180-4), computed on 32-bit words.
\<close>

unbundle bit_operations_syntax

type_synonym w32 = "32 word"

text \<open>
  The constants of the standard are the first 32 bits of the fractional parts of the cube
  roots of the first 64 primes and of the square roots of the first 8. \<open>root_bits\<close> finds an
  integer root bit by bit from above; the conversion to a word keeps the low 32 bits.
\<close>

definition sha_primes :: "nat list" where
  "sha_primes =
     [2, 3, 5, 7, 11, 13, 17, 19, 23, 29, 31, 37, 41, 43, 47, 53, 59, 61, 67, 71, 73, 79,
      83, 89, 97, 101, 103, 107, 109, 113, 127, 131, 137, 139, 149, 151, 157, 163, 167,
      173, 179, 181, 191, 193, 197, 199, 211, 223, 227, 229, 233, 239, 241, 251, 257, 263,
      269, 271, 277, 281, 283, 293, 307, 311]"

primrec root_bits :: "nat \<Rightarrow> nat \<Rightarrow> nat \<Rightarrow> nat \<Rightarrow> nat" where
  "root_bits k n r 0 = r"
| "root_bits k n r (Suc b) = root_bits k n (if (r + 2 ^ b) ^ k \<le> n then r + 2 ^ b else r) b"

definition root_fraction :: "nat \<Rightarrow> nat \<Rightarrow> w32" where
  "root_fraction k p = word_of_nat (root_bits k (p * 2 ^ (32 * k)) 0 40)"

definition sha_K :: "w32 list" where "sha_K = map (root_fraction 3) sha_primes"

definition sha_H :: "w32 list" where "sha_H = map (root_fraction 2) (take 8 sha_primes)"

definition shr :: "nat \<Rightarrow> w32 \<Rightarrow> w32" where "shr n w = drop_bit n w"

definition rotr :: "nat \<Rightarrow> w32 \<Rightarrow> w32" where
  "rotr n w = drop_bit n w OR push_bit (32 - n) w"

definition big_sigma0 :: "w32 \<Rightarrow> w32" where
  "big_sigma0 w = rotr 2 w XOR rotr 13 w XOR rotr 22 w"
definition big_sigma1 :: "w32 \<Rightarrow> w32" where
  "big_sigma1 w = rotr 6 w XOR rotr 11 w XOR rotr 25 w"
definition small_sigma0 :: "w32 \<Rightarrow> w32" where
  "small_sigma0 w = rotr 7 w XOR rotr 18 w XOR shr 3 w"
definition small_sigma1 :: "w32 \<Rightarrow> w32" where
  "small_sigma1 w = rotr 17 w XOR rotr 19 w XOR shr 10 w"
definition sha_ch :: "w32 \<Rightarrow> w32 \<Rightarrow> w32 \<Rightarrow> w32" where
  "sha_ch x y z = (x AND y) XOR (NOT x AND z)"
definition sha_maj :: "w32 \<Rightarrow> w32 \<Rightarrow> w32 \<Rightarrow> w32" where
  "sha_maj x y z = (x AND y) XOR (x AND z) XOR (y AND z)"

text \<open>The big-endian bytes of a number, and the padding of a message to whole blocks.\<close>

primrec be_bytes :: "nat \<Rightarrow> nat \<Rightarrow> nat list" where
  "be_bytes 0 n = []"
| "be_bytes (Suc k) n = be_bytes k (n div 256) @ [n mod 256]"

definition sha_pad :: "nat list \<Rightarrow> nat list" where
  "sha_pad bs =
     bs @ [128] @ replicate ((119 - length bs mod 64) mod 64) 0 @ be_bytes 8 (8 * length bs)"

fun be_words :: "nat list \<Rightarrow> w32 list" where
  "be_words (a # b # c # d # bs) =
     word_of_int (int (((a * 256 + b) * 256 + c) * 256 + d)) # be_words bs"
| "be_words bs = []"

text \<open>The message schedule, newest word first.\<close>

primrec sha_schedule :: "nat \<Rightarrow> w32 list \<Rightarrow> w32 list" where
  "sha_schedule 0 ws = ws"
| "sha_schedule (Suc n) ws =
     sha_schedule n ((small_sigma1 (ws ! 1) + ws ! 6 + small_sigma0 (ws ! 14) + ws ! 15) # ws)"

fun sha_round :: "w32 list \<Rightarrow> w32 \<times> w32 \<Rightarrow> w32 list" where
  "sha_round [a, b, c, d, e, f, g, h] (k, w) =
     (let t1 = h + big_sigma1 e + sha_ch e f g + k + w; t2 = big_sigma0 a + sha_maj a b c
      in [t1 + t2, a, b, c, d + t1, e, f, g])"
| "sha_round s kw = s"

definition sha_block :: "w32 list \<Rightarrow> w32 list \<Rightarrow> w32 list" where
  "sha_block hs ws =
     map2 (+) hs (foldl sha_round hs (zip sha_K (rev (sha_schedule 48 (rev ws)))))"

fun sha_blocks :: "w32 list \<Rightarrow> w32 list \<Rightarrow> w32 list" where
  "sha_blocks hs ws =
     (if length ws < 16 then hs else sha_blocks (sha_block hs (take 16 ws)) (drop 16 ws))"

declare sha_blocks.simps [simp del]

definition hex_digit :: "nat \<Rightarrow> char" where
  "hex_digit d = (if d < 10 then char_of (48 + d) else char_of (87 + d))"

primrec hex_digits :: "nat \<Rightarrow> nat \<Rightarrow> string" where
  "hex_digits 0 n = []"
| "hex_digits (Suc k) n = hex_digits k (n div 16) @ [hex_digit (n mod 16)]"

definition sha256_words :: "nat list \<Rightarrow> w32 list" where
  "sha256_words bs = sha_blocks sha_H (be_words (sha_pad bs))"

definition hex_words :: "w32 list \<Rightarrow> string" where
  "hex_words ws = concat (map (\<lambda>w. hex_digits 8 (unat w)) ws)"

text \<open>\<open>hex.EncodeToString(sha256.Sum256(s))\<close>.\<close>

definition sha256_hex :: "string \<Rightarrow> string" where
  "sha256_hex s = hex_words (sha256_words (map of_char s))"

text \<open>\<open>crypto/hmac\<close> with SHA-256, in hexadecimal.\<close>

definition byte_xor :: "nat \<Rightarrow> nat \<Rightarrow> nat" where "byte_xor a b = a XOR b"

definition word_bytes :: "w32 list \<Rightarrow> nat list" where
  "word_bytes ws = concat (map (\<lambda>w. be_bytes 4 (unat w)) ws)"

definition hmac_key :: "nat list \<Rightarrow> nat list" where
  "hmac_key key =
     (let k = (if length key > 64 then word_bytes (sha256_words key) else key)
      in k @ replicate (64 - length k) 0)"

definition hmac_sha256_hex :: "string \<Rightarrow> string \<Rightarrow> string" where
  "hmac_sha256_hex key msg =
     (let k = hmac_key (map of_char key);
          inner = word_bytes (sha256_words (map (byte_xor 54) k @ map of_char msg))
      in hex_words (sha256_words (map (byte_xor 92) k @ inner)))"

section \<open>The form of a digest\<close>

lemma length_sha_round: "length (sha_round s kw) = length s"
  by (induction s kw rule: sha_round.induct) (simp_all add: Let_def)

lemma length_sha_rounds: "length (foldl sha_round s kws) = length s"
  by (induction kws arbitrary: s) (simp_all add: length_sha_round)

lemma length_sha_block: "length (sha_block hs ws) = length hs"
  by (simp add: sha_block_def length_sha_rounds)

lemma length_sha_blocks: "length (sha_blocks hs ws) = length hs"
  by (induction hs ws rule: sha_blocks.induct)
    (subst sha_blocks.simps, simp add: length_sha_block)

lemma length_sha_H: "length sha_H = 8"
  by (simp add: sha_H_def sha_primes_def)

lemma length_hex_digits: "length (hex_digits k n) = k"
  by (induction k arbitrary: n) simp_all

lemma length_sha256_hex: "length (sha256_hex s) = 64"
proof -
  have "length (concat (map (\<lambda>w. hex_digits 8 (unat w)) ws)) = 8 * length ws" for ws :: "w32 list"
    by (induction ws) (simp_all add: length_hex_digits)
  then show ?thesis
    by (simp add: sha256_hex_def hex_words_def sha256_words_def length_sha_blocks length_sha_H)
qed

definition hex_char :: "char \<Rightarrow> bool" where
  "hex_char c \<longleftrightarrow> (\<exists>d < 16. c = hex_digit d)"

lemma hex_digits_chars: "c \<in> set (hex_digits k n) \<Longrightarrow> hex_char c"
  by (induction k arbitrary: n) (auto simp: hex_char_def intro: exI [of _ "_ mod 16"])

lemma sha256_hex_chars: "c \<in> set (sha256_hex s) \<Longrightarrow> hex_char c"
  by (auto simp: sha256_hex_def hex_words_def intro: hex_digits_chars)

end
