(* ===== verification/Order_Model.thy ===== *)
theory Order_Model
  imports Sha256 Contracts
begin

text \<open>
  services/order/internal/app/model.go: the data of the order service, the validation of a
  create command, the transition table of an order and the checked arithmetic of amounts.
  User-facing Chinese texts are given as ASCII glosses.
\<close>

section \<open>Constants\<close>

definition OrderTypeNormal :: string where [const_defs]: "OrderTypeNormal = ''normal''"
definition OrderTypeSeckill :: string where [const_defs]: "OrderTypeSeckill = ''seckill''"

definition StatusPendingPayment :: string where [const_defs]: "StatusPendingPayment = ''pending_payment''"
definition StatusPaid :: string where [const_defs]: "StatusPaid = ''paid''"
definition StatusShipped :: string where [const_defs]: "StatusShipped = ''shipped''"
definition StatusCompleted :: string where [const_defs]: "StatusCompleted = ''completed''"
definition StatusCanceled :: string where [const_defs]: "StatusCanceled = ''canceled''"
definition StatusRefundPending :: string where [const_defs]: "StatusRefundPending = ''refund_pending''"
definition StatusRefunded :: string where [const_defs]: "StatusRefunded = ''refunded''"

definition CodeValidation :: string where [const_defs]: "CodeValidation = ''VALIDATION_ERROR''"
definition CodeNotFound :: string where [const_defs]: "CodeNotFound = ''NOT_FOUND''"
definition CodeConflict :: string where [const_defs]: "CodeConflict = ''CONFLICT''"
definition CodeForbidden :: string where [const_defs]: "CodeForbidden = ''FORBIDDEN''"
definition CodeOutOfStock :: string where [const_defs]: "CodeOutOfStock = ''OUT_OF_STOCK''"
definition CodeInvalidTransition :: string where [const_defs]: "CodeInvalidTransition = ''INVALID_TRANSITION''"
definition CodeUnavailable :: string where [const_defs]: "CodeUnavailable = ''UPSTREAM_UNAVAILABLE''"

definition CreateIntentStarted :: string where [const_defs]: "CreateIntentStarted = ''started''"
definition CreateIntentDone :: string where [const_defs]: "CreateIntentDone = ''done''"
definition CreateIntentFailed :: string where [const_defs]: "CreateIntentFailed = ''failed''"

definition OperationPending :: string where [const_defs]: "OperationPending = ''pending_retry''"
definition OperationDone :: string where [const_defs]: "OperationDone = ''done''"
definition OperationFailed :: string where [const_defs]: "OperationFailed = ''failed''"

definition maxOperationAttempts :: int where "maxOperationAttempts = 8"
definition maxCreateIntentAttempts :: int where "maxCreateIntentAttempts = 8"

section \<open>Errors\<close>

definition NewError :: "string \<Rightarrow> string \<Rightarrow> go_error option \<Rightarrow> go_error" where
  "NewError code message cause = OrderError code message cause"

text \<open>\<open>errors.As\<close> looks for the first \<open>*Error\<close> on the chain.\<close>

fun as_order_error :: "go_error \<Rightarrow> (string \<times> string) option" where
  "as_order_error (OrderError c m cause) = Some (c, m)"
| "as_order_error (WrapError m e) = as_order_error e"
| "as_order_error (SuffixError e m) = as_order_error e"
| "as_order_error e = None"

definition ErrorCode :: "go_error \<Rightarrow> string" where
  "ErrorCode err = (case as_order_error err of Some (c, m) \<Rightarrow> c | None \<Rightarrow> ''INTERNAL_ERROR'')"

definition PublicMessage :: "go_error \<Rightarrow> string" where
  "PublicMessage err =
     (case as_order_error err of Some (c, m) \<Rightarrow> m | None \<Rightarrow> ''order service temporarily unavailable'')"

section \<open>Data\<close>

record SKU =
  skID :: uint64
  skCode :: string
  skName :: string
  skPriceCents :: int64
  skActive :: bool

record Address =
  adID :: uint64
  adUserID :: uint64
  adRecipient :: string
  adPhone :: string
  adProvince :: string
  adCity :: string
  adDistrict :: string
  adDetail :: string

record Item =
  itSKUID :: uint64
  itSKUCode :: string
  itSKUName :: string
  itUnitPriceCents :: int64
  itQuantity :: int32
  itSubtotalCents :: int64
  itReservationID :: string

record StatusHistory =
  shFromStatus :: string
  shToStatus :: string
  shReason :: string
  shActorType :: string
  shActorID :: uint64
  shCreatedAt :: time

record Order =
  oOrderID :: string
  oUserID :: uint64
  oAddressID :: uint64
  oOrderType :: string
  oStatus :: string
  oTotalAmountCents :: int64
  oIdempotencyKey :: string
  oRequestDigest :: string
  oAddressSnapshot :: Address
  oItems :: "Item list"
  oStatusHistory :: "StatusHistory list"
  oExpiresAt :: time
  oCreatedAt :: time
  oUpdatedAt :: time

record CreateItem =
  ciSKUID :: uint64
  ciQuantity :: int32

record CreateCommand =
  ccUserID :: uint64
  ccAddressID :: uint64
  ccOrderType :: string
  ccActivityID :: uint64
  ccIdempotencyKey :: string
  ccItems :: "CreateItem list"

record OrderReservation =
  orReservationID :: string
  orOrderID :: string
  orSKUID :: uint64
  orQuantity :: int32
  orStatus :: string

record OrderReserveCommand =
  ocReservationID :: string
  ocOrderID :: string
  ocUserID :: uint64
  ocActivityID :: uint64
  ocSKUID :: uint64
  ocQuantity :: int32
  ocMode :: string

record Operation =
  opID :: string
  opOrderID :: string
  opKind :: string
  opReservationID :: string
  opStatus :: string
  opAttempts :: int
  opLastError :: string
  opNextRetryAt :: time
  opCreatedAt :: time
  opUpdatedAt :: time

text \<open>The payload of an intent is the JSON document of the create command.\<close>

record CreateIntent =
  inIntentID :: string
  inUserID :: uint64
  inIdempotencyKey :: string
  inRequestDigest :: string
  inOrderID :: string
  inStatus :: string
  inAttempts :: int
  inPayload :: json
  inLastError :: string
  inNextRetryAt :: time
  inCreatedAt :: time
  inUpdatedAt :: time

section \<open>Validation, transitions and amounts\<close>

definition invalid :: "string \<Rightarrow> go_error" where
  "invalid message = NewError CodeValidation message None"

fun validate_items :: "uint64 list \<Rightarrow> CreateItem list \<Rightarrow> unit result" where
  "validate_items seen [] = Inr ()"
| "validate_items seen (item # items) =
     (if ciSKUID item = 0 \<or> sint (ciQuantity item) \<le> 0 \<or> sint (ciQuantity item) > 99
      then Inl (invalid ''SKU or quantity invalid'')
      else if ciSKUID item \<in> set seen then Inl (invalid ''same SKU submitted twice'')
      else validate_items (ciSKUID item # seen) items)"

text \<open>The command is a copy: the trimmed order type is not seen by the caller.\<close>

definition validateCreate :: "CreateCommand \<Rightarrow> unit result" where
  "validateCreate c =
     (if ccUserID c = 0 \<or> ccAddressID c = 0 then Inl (invalid ''user and address must not be empty'')
      else let orderType = TrimSpace (ccOrderType c) in
      if orderType \<noteq> OrderTypeNormal \<and> orderType \<noteq> OrderTypeSeckill
      then Inl (invalid ''order type invalid'')
      else if TrimSpace (ccIdempotencyKey c) = [] \<or> length (ccIdempotencyKey c) > 128
      then Inl (invalid ''Idempotency-Key must not be empty or longer than 128'')
      else if ccItems c = [] then Inl (invalid ''an order needs a SKU'')
      else if orderType = OrderTypeSeckill \<and> ccActivityID c = 0
      then Inl (invalid ''seckill activity must not be empty'')
      else case validate_items [] (ccItems c) of
        Inl e \<Rightarrow> Inl e
      | Inr _ \<Rightarrow>
          (if orderType = OrderTypeSeckill \<and> length (ccItems c) \<noteq> 1
           then Inl (invalid ''a seckill order has one SKU only'') else Inr ()))"

definition canTransition :: "string \<Rightarrow> string \<Rightarrow> bool" where
  "canTransition from to =
     (if from = StatusPendingPayment then to = StatusPaid \<or> to = StatusCanceled
      else if from = StatusPaid then to = StatusShipped \<or> to = StatusRefundPending
      else if from = StatusShipped then to = StatusCompleted \<or> to = StatusRefundPending
      else if from = StatusRefundPending then to = StatusRefunded
      else False)"

definition max_int64 :: int where "max_int64 = 9223372036854775807"

definition subtotal :: "int64 \<Rightarrow> int32 \<Rightarrow> int64 result" where
  "subtotal price quantity =
     (if sint price < 0 \<or> sint quantity \<le> 0 \<or> sint price > max_int64 div sint quantity
      then Inl (invalid ''amount or quantity invalid'')
      else Inr (price * word_of_int (sint quantity)))"

definition addAmount :: "int64 \<Rightarrow> int64 \<Rightarrow> int64 result" where
  "addAmount left right =
     (if sint left < 0 \<or> sint right < 0 \<or> sint left > max_int64 - sint right
      then Inl (invalid ''order amount out of range'')
      else Inr (left + right))"

definition operationID :: "string \<Rightarrow> string \<Rightarrow> string \<Rightarrow> string" where
  "operationID kind orderID reservationID = kind @ '':'' @ orderID @ '':'' @ reservationID"

section \<open>Digests and identifiers (service.go)\<close>

definition digest_text :: "CreateCommand \<Rightarrow> string" where
  "digest_text c =
     fmt_uint (ccUserID c) @ ''|'' @ fmt_uint (ccAddressID c) @ ''|'' @ ccOrderType c @ ''|'' @
     fmt_uint (ccActivityID c) @ ''|'' @
     concat (map (\<lambda>i. fmt_uint (ciSKUID i) @ '':'' @ fmt_int (sint (ciQuantity i)) @ '';'')
       (sort_key ciSKUID (ccItems c)))"

definition requestDigest :: "CreateCommand \<Rightarrow> string" where
  "requestDigest c = sha256_hex (digest_text c)"

definition deterministicOrderID :: "uint64 \<Rightarrow> string \<Rightarrow> string \<Rightarrow> string" where
  "deterministicOrderID userID idempotencyKey digest =
     ''ord_'' @ take 32 (sha256_hex (fmt_uint userID @ ''|'' @ TrimSpace idempotencyKey @ ''|'' @ digest))"

definition retryDelay :: "int \<Rightarrow> duration" where
  "retryDelay attempt =
     (let attempt = (if attempt < 1 then 1 else attempt);
          attempt = (if attempt > 6 then 6 else attempt)
      in 2 ^ nat (attempt - 1) * Second)"

definition compactError :: "go_error \<Rightarrow> string" where
  "compactError err = (let m = error_text err in if length m > 255 then take 255 m else m)"

section \<open>The JSON document of a create command\<close>

definition marshal_CreateItem :: "CreateItem \<Rightarrow> json" where
  "marshal_CreateItem i =
     JObject [(''SKUID'', JInt (uint (ciSKUID i))), (''Quantity'', JInt (sint (ciQuantity i)))]"

definition marshal_CreateCommand :: "CreateCommand \<Rightarrow> json" where
  "marshal_CreateCommand c = JObject
     [(''UserID'', JInt (uint (ccUserID c))), (''AddressID'', JInt (uint (ccAddressID c))),
      (''OrderType'', JString (ccOrderType c)), (''ActivityID'', JInt (uint (ccActivityID c))),
      (''IdempotencyKey'', JString (ccIdempotencyKey c)),
      (''Items'', JArray (map marshal_CreateItem (ccItems c)))]"

definition get_int32 :: "(string \<times> json) list \<Rightarrow> string \<Rightarrow> int32 result" where
  "get_int32 fs name =
     (case json_field fs name of None \<Rightarrow> Inr 0 | Some JNull \<Rightarrow> Inr 0
      | Some (JInt n) \<Rightarrow>
          (if - (2 ^ 31) \<le> n \<and> n < 2 ^ 31 then Inr (word_of_int n) else Inl (json_type_error name))
      | Some _ \<Rightarrow> Inl (json_type_error name))"

definition unmarshal_CreateItem :: "json \<Rightarrow> CreateItem result" where
  "unmarshal_CreateItem j = with_object j (\<lambda>fs.
     bind_result (get_uint64 fs ''SKUID'') (\<lambda>sku.
     bind_result (get_int32 fs ''Quantity'') (\<lambda>q. Inr \<lparr>ciSKUID = sku, ciQuantity = q\<rparr>)))"

fun unmarshal_CreateItems :: "json list \<Rightarrow> CreateItem list result" where
  "unmarshal_CreateItems [] = Inr []"
| "unmarshal_CreateItems (j # js) =
     bind_result (unmarshal_CreateItem j) (\<lambda>i.
     bind_result (unmarshal_CreateItems js) (\<lambda>rest. Inr (i # rest)))"

definition get_items :: "(string \<times> json) list \<Rightarrow> string \<Rightarrow> CreateItem list result" where
  "get_items fs name =
     (case json_field fs name of None \<Rightarrow> Inr [] | Some JNull \<Rightarrow> Inr []
      | Some (JArray js) \<Rightarrow> unmarshal_CreateItems js | Some _ \<Rightarrow> Inl (json_type_error name))"

definition unmarshal_CreateCommand :: "json \<Rightarrow> CreateCommand result" where
  "unmarshal_CreateCommand j = with_object j (\<lambda>fs.
     bind_result (get_uint64 fs ''UserID'') (\<lambda>uid.
     bind_result (get_uint64 fs ''AddressID'') (\<lambda>aid.
     bind_result (get_string fs ''OrderType'') (\<lambda>ot.
     bind_result (get_uint64 fs ''ActivityID'') (\<lambda>act.
     bind_result (get_string fs ''IdempotencyKey'') (\<lambda>key.
     bind_result (get_items fs ''Items'') (\<lambda>items.
       Inr \<lparr>ccUserID = uid, ccAddressID = aid, ccOrderType = ot, ccActivityID = act,
            ccIdempotencyKey = key, ccItems = items\<rparr>)))))))"

section \<open>Facts\<close>

lemma order_status_distinct [simp]:
  "StatusPendingPayment \<noteq> StatusPaid" "StatusPendingPayment \<noteq> StatusShipped"
  "StatusPendingPayment \<noteq> StatusCompleted" "StatusPendingPayment \<noteq> StatusCanceled"
  "StatusPendingPayment \<noteq> StatusRefundPending" "StatusPendingPayment \<noteq> StatusRefunded"
  "StatusPaid \<noteq> StatusShipped" "StatusPaid \<noteq> StatusCompleted" "StatusPaid \<noteq> StatusCanceled"
  "StatusPaid \<noteq> StatusRefundPending" "StatusPaid \<noteq> StatusRefunded"
  "StatusShipped \<noteq> StatusCompleted" "StatusShipped \<noteq> StatusCanceled"
  "StatusShipped \<noteq> StatusRefundPending" "StatusShipped \<noteq> StatusRefunded"
  "StatusCompleted \<noteq> StatusCanceled" "StatusCompleted \<noteq> StatusRefundPending"
  "StatusCompleted \<noteq> StatusRefunded" "StatusCanceled \<noteq> StatusRefundPending"
  "StatusCanceled \<noteq> StatusRefunded" "StatusRefundPending \<noteq> StatusRefunded"
  by (simp_all add: const_defs)

lemmas order_status_distinct_sym [simp] = order_status_distinct [symmetric]

lemma CreateItems_roundtrip: "unmarshal_CreateItems (map marshal_CreateItem items) = Inr items"
proof -
  have "unmarshal_CreateItem (marshal_CreateItem i) = Inr i" for i
    using word_ranges(1) sint32_range [of "ciQuantity i"]
    by (simp add: unmarshal_CreateItem_def marshal_CreateItem_def json_reader_defs get_int32_def)
  then show ?thesis by (induction items) simp_all
qed

lemma CreateCommand_roundtrip: "unmarshal_CreateCommand (marshal_CreateCommand c) = Inr c"
  using word_ranges
  by (simp add: unmarshal_CreateCommand_def marshal_CreateCommand_def json_reader_defs
      get_items_def CreateItems_roundtrip)

lemma subtotal_exact:
  assumes "subtotal price quantity = Inr line"
  shows "sint line = sint price * sint quantity \<and> 0 \<le> sint line \<and> 0 \<le> sint price \<and> 0 < sint quantity"
proof -
  have p: "0 \<le> sint price" "0 < sint quantity" "sint price \<le> max_int64 div sint quantity"
    and line: "line = price * word_of_int (sint quantity)"
    using assms by (auto simp: subtotal_def split: if_splits)
  have q: "sint (word_of_int (sint quantity) :: int64) = sint quantity"
    by (rule sint64_of_int32)
  have "sint price * sint quantity \<le> max_int64 div sint quantity * sint quantity"
    using p by (intro mult_right_mono) auto
  also have "\<dots> \<le> max_int64"
    using p(2) by (metis div_mult_mod_eq add_le_same_cancel1 add.commute le_add_same_cancel1 pos_mod_sign)
  finally have "sint price * sint quantity \<le> max_int64" .
  moreover have "0 \<le> sint price * sint quantity" using p by simp
  ultimately have "sint line = sint price * sint quantity"
    using sint64_mult [of price "word_of_int (sint quantity)"] unfolding line q max_int64_def by linarith
  with p show ?thesis by simp
qed

lemma addAmount_exact:
  assumes "addAmount left right = Inr amount"
  shows "sint amount = sint left + sint right \<and> 0 \<le> sint amount"
  using assms sint64_add [of left right]
  by (auto simp: addAmount_def max_int64_def split: if_splits)

end
