(* ===== verification/Messaging.thy ===== *)
theory Messaging
  imports Contracts "HOL-Library.List_Lexorder" "HOL-Library.Char_ord" "HOL-Library.Product_Lexorder"
begin

text \<open>
  shared/platform/messaging: the outbox and inbox of a service (types.go, memory_store.go).
  Every method of the store holds its mutex for its whole body and reads the clock itself.
  A payload is a JSON value, headers are a list of named values.
\<close>

section \<open>Data (types.go)\<close>

definition StatusPending :: string where [const_defs]: "StatusPending = ''pending''"
definition StatusPublishing :: string where [const_defs]: "StatusPublishing = ''publishing''"
definition StatusPublished :: string where [const_defs]: "StatusPublished = ''published''"
definition StatusFailed :: string where [const_defs]: "StatusFailed = ''failed''"
definition StatusProcessing :: string where [const_defs]: "StatusProcessing = ''processing''"
definition StatusProcessed :: string where [const_defs]: "StatusProcessed = ''processed''"

type_synonym headers = "(string \<times> json) list"

record OutboxEvent =
  obID :: uint64
  obEventID :: string
  obAggregateType :: string
  obAggregateID :: string
  obEventType :: string
  obEventVersion :: int
  obPayload :: json
  obHeaders :: headers
  obStatus :: string
  obAttempts :: int
  obNextRetryAt :: time
  obLastError :: string
  obCreatedAt :: time
  obUpdatedAt :: time

record InboxClaim =
  icClaimed :: bool
  icProcessed :: bool
  icAttempts :: int

record memoryInboxRecord =
  ixConsumer :: string
  ixEventID :: string
  ixStatus :: string
  ixAttempts :: int
  ixUpdated :: time

record MessageStore =
  mgNextID :: uint64
  mgOutbox :: "string \<rightharpoonup> OutboxEvent"
  mgInbox :: "string \<rightharpoonup> memoryInboxRecord"
  mgClock :: clock

definition NewMessageStore :: "clock \<Rightarrow> MessageStore" where
  "NewMessageStore clk =
     \<lparr>mgNextID = 1, mgOutbox = Map.empty, mgInbox = Map.empty, mgClock = clk\<rparr>"

definition NewEvent :: "string \<Rightarrow> string \<Rightarrow> string \<Rightarrow> string \<Rightarrow> json \<Rightarrow> time \<Rightarrow> EventEnvelope result" where
  "NewEvent eventID eventType aggregateType aggregateID payload occurredAt =
     NewEventEnvelope eventID eventType aggregateType aggregateID 1 payload occurredAt"

text \<open>The doubling loop of \<open>RetryDelay\<close>, from the second attempt on, in 64 bits.\<close>

fun double_delay :: "nat \<Rightarrow> duration \<Rightarrow> duration" where
  "double_delay 0 delay = delay"
| "double_delay (Suc n) delay = double_delay n (sint (word_of_int (delay * 2) :: int64))"

definition RetryDelay :: "int \<Rightarrow> duration \<Rightarrow> duration" where
  "RetryDelay attempt base =
     (let attempt = (if attempt < 1 then 1 else attempt);
          base = (if base \<le> 0 then Second else base);
          attempt = (if attempt > 6 then 6 else attempt);
          delay = double_delay (nat (attempt - 1)) base
      in if delay > 300 * Second then 300 * Second else delay)"

definition table_char :: "char \<Rightarrow> bool" where
  "table_char c \<longleftrightarrow>
     (CHR ''a'' \<le> c \<and> c \<le> CHR ''z'') \<or> (CHR ''A'' \<le> c \<and> c \<le> CHR ''Z'') \<or>
     (CHR ''0'' \<le> c \<and> c \<le> CHR ''9'') \<or> c = CHR ''_''"

text \<open>A name that is not accepted is quoted in the error; the quoting is left out.\<close>

definition ValidateTableName :: "string \<Rightarrow> unit result" where
  "ValidateTableName name =
     (if TrimSpace name \<noteq> name \<or> name = [] then Inl (ErrorText ''table name is required'')
      else if list_all table_char name then Inr ()
      else Inl (ErrorText (''invalid table name: '' @ name)))"

section \<open>Outbox (memory_store.go)\<close>

definition message_now :: "(MessageStore, time) go" where
  "message_now s = (Inr (shd (mgClock s)), s\<lparr>mgClock := stl (mgClock s)\<rparr>)"

definition AppendEvent :: "EventEnvelope \<Rightarrow> headers \<Rightarrow> (MessageStore, unit) go" where
  "AppendEvent event hdrs =
     and_then (of_result (ValidateEventPayload event)) (\<lambda>_.
     and_then message_now (\<lambda>now s.
       case mgOutbox s (eEventID event) of
         Some _ \<Rightarrow> (Inr (), s)
       | None \<Rightarrow> (Inr (), s\<lparr>mgOutbox := (mgOutbox s)(eEventID event \<mapsto>
            \<lparr>obID = mgNextID s, obEventID = eEventID event, obAggregateType = eAggregateType event,
             obAggregateID = eAggregateID event, obEventType = eEventType event,
             obEventVersion = eEventVersion event, obPayload = ePayload event, obHeaders = hdrs,
             obStatus = StatusPending, obAttempts = 0, obNextRetryAt = now, obLastError = [],
             obCreatedAt = now, obUpdatedAt = now\<rparr>), mgNextID := mgNextID s + 1\<rparr>)))"

definition claimable :: "time \<Rightarrow> OutboxEvent \<Rightarrow> bool" where
  "claimable now v \<longleftrightarrow>
     \<not> ((obStatus v \<noteq> StatusPending \<and> obStatus v \<noteq> StatusPublishing) \<or> now < obNextRetryAt v)"

text \<open>The comparison of the candidates: retry time, creation time, number, identifier.\<close>

definition claim_key :: "OutboxEvent \<Rightarrow> time \<times> time \<times> uint64 \<times> string" where
  "claim_key v = (obNextRetryAt v, obCreatedAt v, obID v, obEventID v)"

definition leased :: "time \<Rightarrow> duration \<Rightarrow> OutboxEvent \<Rightarrow> OutboxEvent" where
  "leased now lease v =
     v\<lparr>obStatus := StatusPublishing, obAttempts := obAttempts v + 1, obNextRetryAt := now + lease,
       obUpdatedAt := now\<rparr>"

primrec lease_all ::
  "time \<Rightarrow> duration \<Rightarrow> OutboxEvent list \<Rightarrow> (string \<rightharpoonup> OutboxEvent) \<Rightarrow> (string \<rightharpoonup> OutboxEvent)" where
  "lease_all now lease [] outbox = outbox"
| "lease_all now lease (v # vs) outbox =
     lease_all now lease vs (outbox(obEventID v \<mapsto> leased now lease v))"

text \<open>The outbox map is ranged over in the order \<open>ks\<close>.\<close>

definition Outbox_Claim ::
  "string list \<Rightarrow> time \<Rightarrow> int \<Rightarrow> duration \<Rightarrow> (MessageStore, OutboxEvent list) go" where
  "Outbox_Claim ks now limit lease s =
     (let limit = (if limit \<le> 0 then 100 else limit);
          lease = (if lease \<le> 0 then 30 * Second else lease);
          candidates = sort_key claim_key (filter (claimable now) (range_values ks (mgOutbox s)));
          candidates = (if limit < int (length candidates) then take (nat limit) candidates
                        else candidates)
      in (Inr (map (leased now lease) candidates),
          s\<lparr>mgOutbox := lease_all now lease candidates (mgOutbox s)\<rparr>))"

text \<open>\<open>truncateError\<close> (sql_store.go) keeps at most 255 bytes of a reason.\<close>

definition truncateError :: "string \<Rightarrow> string" where
  "truncateError value = (if length value > 255 then take 255 value else value)"

definition updateOutbox :: "string \<Rightarrow> (OutboxEvent \<Rightarrow> OutboxEvent) \<Rightarrow> (MessageStore, unit) go" where
  "updateOutbox eventID upd = (\<lambda>s.
     case mgOutbox s eventID of
       None \<Rightarrow> (Inl (ErrorText ''outbox event not found''), s)
     | Some v \<Rightarrow> and_then message_now (\<lambda>now. modify_state (\<lambda>s.
         s\<lparr>mgOutbox := (mgOutbox s)(eventID \<mapsto> (upd v)\<lparr>obUpdatedAt := now\<rparr>)\<rparr>)) s)"

definition MarkPublished :: "string \<Rightarrow> (MessageStore, unit) go" where
  "MarkPublished eventID = updateOutbox eventID (\<lambda>v. v\<lparr>obStatus := StatusPublished, obLastError := []\<rparr>)"

definition MarkRetry :: "string \<Rightarrow> time \<Rightarrow> string \<Rightarrow> (MessageStore, unit) go" where
  "MarkRetry eventID nextRetryAt reason =
     updateOutbox eventID (\<lambda>v. v\<lparr>obStatus := StatusPending, obNextRetryAt := nextRetryAt,
       obLastError := truncateError reason\<rparr>)"

definition Outbox_MarkFailed :: "string \<Rightarrow> string \<Rightarrow> (MessageStore, unit) go" where
  "Outbox_MarkFailed eventID reason =
     updateOutbox eventID (\<lambda>v. v\<lparr>obStatus := StatusFailed, obLastError := truncateError reason\<rparr>)"

definition OutboxEvents :: "string list \<Rightarrow> MessageStore \<Rightarrow> OutboxEvent list" where
  "OutboxEvents ks s = sort_key obID (range_values ks (mgOutbox s))"

section \<open>Inbox (memory_store.go)\<close>

definition Inbox_Claim :: "string \<Rightarrow> EventEnvelope \<Rightarrow> duration \<Rightarrow> (MessageStore, InboxClaim) go" where
  "Inbox_Claim consumer event lease =
     and_then (of_result (Envelope_Validate event)) (\<lambda>_.
     let lease = (if lease \<le> 0 then 30 * Second else lease) in
     and_then message_now (\<lambda>now.
     and_then (of_result (Envelope_InboxKey event consumer)) (\<lambda>key s.
       case mgInbox s key of
         None \<Rightarrow>
           (Inr \<lparr>icClaimed = True, icProcessed = False, icAttempts = 1\<rparr>,
            s\<lparr>mgInbox := (mgInbox s)(key \<mapsto> \<lparr>ixConsumer = consumer, ixEventID = eEventID event,
              ixStatus = StatusProcessing, ixAttempts = 1, ixUpdated = now\<rparr>)\<rparr>)
       | Some v \<Rightarrow>
           (if ixStatus v = StatusProcessed then
              (Inr \<lparr>icClaimed = False, icProcessed = True, icAttempts = ixAttempts v\<rparr>, s)
            else if now - lease < ixUpdated v then
              (Inr \<lparr>icClaimed = False, icProcessed = False, icAttempts = ixAttempts v\<rparr>, s)
            else
              (let v' = v\<lparr>ixStatus := StatusProcessing, ixAttempts := ixAttempts v + 1, ixUpdated := now\<rparr>
               in (Inr \<lparr>icClaimed = True, icProcessed = False, icAttempts = ixAttempts v'\<rparr>,
                   s\<lparr>mgInbox := (mgInbox s)(key \<mapsto> v')\<rparr>))))))"

definition updateInbox ::
  "string \<Rightarrow> string \<Rightarrow> (memoryInboxRecord \<Rightarrow> memoryInboxRecord) \<Rightarrow> (MessageStore, unit) go" where
  "updateInbox consumer eventID upd = (\<lambda>s.
     let key = consumer @ '':'' @ eventID in
     case mgInbox s key of
       None \<Rightarrow> (Inl (ErrorText ''inbox event not found''), s)
     | Some v \<Rightarrow> and_then message_now (\<lambda>now. modify_state (\<lambda>s.
         s\<lparr>mgInbox := (mgInbox s)(key \<mapsto> (upd v)\<lparr>ixUpdated := now\<rparr>)\<rparr>)) s)"

definition MarkProcessed :: "string \<Rightarrow> string \<Rightarrow> (MessageStore, unit) go" where
  "MarkProcessed consumer eventID =
     updateInbox consumer eventID (\<lambda>v. v\<lparr>ixStatus := StatusProcessed\<rparr>)"

definition Inbox_MarkFailed :: "string \<Rightarrow> string \<Rightarrow> string \<Rightarrow> (MessageStore, unit) go" where
  "Inbox_MarkFailed consumer eventID reason =
     updateInbox consumer eventID (\<lambda>v. v\<lparr>ixStatus := StatusProcessing\<rparr>)"

section \<open>An optional event sink\<close>

text \<open>
  The repositories of the services append to their outbox only when one was set: without a
  sink nothing is built, with one a failing envelope or append fails the method.
\<close>

definition append_to_sink ::
  "EventEnvelope result \<Rightarrow> MessageStore option \<Rightarrow> unit result \<times> MessageStore option" where
  "append_to_sink ev sink =
     (case sink of
        None \<Rightarrow> (Inr (), None)
      | Some store \<Rightarrow>
          (case ev of
             Inl e \<Rightarrow> (Inl e, sink)
           | Inr event \<Rightarrow> (case AppendEvent event [] store of (res, store') \<Rightarrow> (res, Some store'))))"

end
