(* ===== verification/Order_Repository.thy ===== *)
theory Order_Repository
  imports Order_Model Messaging
begin

text \<open>
  services/order/internal/app/memory_repository.go: orders, idempotency records, create
  intents and compensation operations behind one mutex, with the outbox of the service as
  an optional event sink. A loop over a map takes the order of its keys as an argument.
\<close>

section \<open>State\<close>

record MemoryRepository =
  rpOrders :: "string \<rightharpoonup> Order"
  rpIdempotency :: "string \<rightharpoonup> string"
  rpIntents :: "string \<rightharpoonup> CreateIntent"
  rpOperations :: "string \<rightharpoonup> Operation"
  rpEventSink :: "MessageStore option"

definition NewMemoryRepository :: MemoryRepository where
  "NewMemoryRepository =
     \<lparr>rpOrders = Map.empty, rpIdempotency = Map.empty, rpIntents = Map.empty,
      rpOperations = Map.empty, rpEventSink = None\<rparr>"

definition SetEventSink :: "MessageStore \<Rightarrow> MemoryRepository \<Rightarrow> MemoryRepository" where
  "SetEventSink sink r = r\<lparr>rpEventSink := Some sink\<rparr>"

definition idempotencyKey :: "uint64 \<Rightarrow> string \<Rightarrow> string" where
  "idempotencyKey userID key = key_us userID key"

text \<open>Reading a missing order from the Go map gives the zero \<open>Order\<close>.\<close>

definition zero_order :: Order where
  "zero_order = \<lparr>oOrderID = [], oUserID = 0, oAddressID = 0, oOrderType = [], oStatus = [],
     oTotalAmountCents = 0, oIdempotencyKey = [], oRequestDigest = [],
     oAddressSnapshot = \<lparr>adID = 0, adUserID = 0, adRecipient = [], adPhone = [], adProvince = [],
       adCity = [], adDistrict = [], adDetail = []\<rparr>,
     oItems = [], oStatusHistory = [], oExpiresAt = zero_time, oCreatedAt = zero_time,
     oUpdatedAt = zero_time\<rparr>"

text \<open>
  A loop that collects the values with a property and breaks off once there are \<open>limit\<close>.
\<close>

fun collect :: "('v \<Rightarrow> bool) \<Rightarrow> int \<Rightarrow> 'v list \<Rightarrow> 'v list \<Rightarrow> 'v list" where
  "collect P limit values [] = values"
| "collect P limit values (v # vs) =
     (if P v then
        (let values = values @ [v] in
         if limit \<le> int (length values) then values else collect P limit values vs)
      else collect P limit values vs)"

section \<open>Events\<close>

definition orderItemPayloads :: "Item list \<Rightarrow> OrderItemPayload list" where
  "orderItemPayloads items =
     map (\<lambda>i. \<lparr>oipSKUID = itSKUID i, oipQuantity = itQuantity i, oipReservationID = itReservationID i,
       oipUnitPriceCents = itUnitPriceCents i\<rparr>) items"

definition order_created_event :: "Order \<Rightarrow> EventEnvelope result" where
  "order_created_event v =
     NewEvent (''order.created:'' @ oOrderID v) EventOrderCreated ''order'' (oOrderID v)
       (marshal_OrderCreated \<lparr>ocpOrderID = oOrderID v, ocpUserID = oUserID v,
          ocpOrderType = oOrderType v, ocpTotalAmountCents = oTotalAmountCents v,
          ocpItems = orderItemPayloads (oItems v)\<rparr>) (oCreatedAt v)"

definition order_cancelled_event :: "Order \<Rightarrow> string \<Rightarrow> time \<Rightarrow> EventEnvelope result" where
  "order_cancelled_event v reason now =
     NewEvent (''order.cancelled:'' @ oOrderID v) EventOrderCancelled ''order'' (oOrderID v)
       (marshal_OrderCancelled \<lparr>oxpOrderID = oOrderID v, oxpUserID = oUserID v, oxpReason = reason,
          oxpReservationIDs = map itReservationID (oItems v)\<rparr>) now"

text \<open>Without a sink nothing is built; a failing envelope or append fails the method.\<close>

definition emit :: "EventEnvelope result \<Rightarrow> (MemoryRepository, unit) go" where
  "emit ev r =
     (case rpEventSink r of
        None \<Rightarrow> (Inr (), r)
      | Some sink \<Rightarrow>
          (case ev of
             Inl e \<Rightarrow> (Inl e, r)
           | Inr event \<Rightarrow>
               (case AppendEvent event [] sink of
                  (res, sink') \<Rightarrow> (res, r\<lparr>rpEventSink := Some sink'\<rparr>))))"

section \<open>Operations\<close>

definition FindByIdempotency :: "uint64 \<Rightarrow> string \<Rightarrow> (MemoryRepository, Order option) go" where
  "FindByIdempotency userID key r =
     (case rpIdempotency r (idempotencyKey userID key) of
        None \<Rightarrow> (Inr None, r)
      | Some orderID \<Rightarrow>
          (case rpOrders r orderID of
             None \<Rightarrow> (Inl (NewError CodeConflict ''order idempotency record incomplete'' None), r)
           | Some order \<Rightarrow> (Inr (Some order), r)))"

definition put_order :: "string \<Rightarrow> Order \<Rightarrow> (MemoryRepository, unit) go" where
  "put_order k v = modify_state (\<lambda>r. r\<lparr>rpOrders := (rpOrders r)(k \<mapsto> v)\<rparr>)"

definition Repository_Create :: "Order \<Rightarrow> (MemoryRepository, Order \<times> bool) go" where
  "Repository_Create v = (\<lambda>r.
     let key = idempotencyKey (oUserID v) (oIdempotencyKey v) in
     case rpIdempotency r key of
       Some orderID \<Rightarrow>
         (let existing = (case rpOrders r orderID of None \<Rightarrow> zero_order | Some o' \<Rightarrow> o') in
          (if oRequestDigest existing \<noteq> oRequestDigest v
           then fail (NewError CodeConflict ''Idempotency-Key used with other parameters'' None)
           else ret (existing, True)) r)
     | None \<Rightarrow>
         and_then (emit (order_created_event v)) (\<lambda>_.
         and_then (put_order (oOrderID v) v) (\<lambda>_.
         and_then (modify_state (\<lambda>r. r\<lparr>rpIdempotency := (rpIdempotency r)(key \<mapsto> oOrderID v)\<rparr>)) (\<lambda>_.
           ret (v, False)))) r)"

definition FindCreateIntent :: "uint64 \<Rightarrow> string \<Rightarrow> (MemoryRepository, CreateIntent option) go" where
  "FindCreateIntent userID key = read_state (\<lambda>r. rpIntents r (idempotencyKey userID key))"

definition put_intent :: "CreateIntent \<Rightarrow> (MemoryRepository, unit) go" where
  "put_intent v = modify_state (\<lambda>r.
     r\<lparr>rpIntents := (rpIntents r)(idempotencyKey (inUserID v) (inIdempotencyKey v) \<mapsto> v)\<rparr>)"

definition SaveCreateIntent :: "CreateIntent \<Rightarrow> (MemoryRepository, unit) go" where
  "SaveCreateIntent v = (\<lambda>r.
     case rpIntents r (idempotencyKey (inUserID v) (inIdempotencyKey v)) of
       Some existing \<Rightarrow>
         (if inRequestDigest existing \<noteq> inRequestDigest v
          then fail (NewError CodeConflict ''create intent parameters differ'' None)
          else put_intent v) r
     | None \<Rightarrow> put_intent v r)"

definition UpdateCreateIntent :: "CreateIntent \<Rightarrow> (MemoryRepository, unit) go" where
  "UpdateCreateIntent v = (\<lambda>r.
     case rpIntents r (idempotencyKey (inUserID v) (inIdempotencyKey v)) of
       None \<Rightarrow> fail (NewError CodeNotFound ''create intent does not exist'' None) r
     | Some _ \<Rightarrow> put_intent v r)"

definition intent_due :: "time \<Rightarrow> CreateIntent \<Rightarrow> bool" where
  "intent_due now v \<longleftrightarrow>
     (inStatus v = CreateIntentStarted \<or> inStatus v = CreateIntentFailed) \<and>
     inAttempts v < maxCreateIntentAttempts \<and> \<not> now < inNextRetryAt v"

definition ListPendingCreateIntents ::
  "string list \<Rightarrow> time \<Rightarrow> int \<Rightarrow> (MemoryRepository, CreateIntent list) go" where
  "ListPendingCreateIntents ks now limit = read_state (\<lambda>r.
     sort_key inNextRetryAt (collect (intent_due now) limit [] (range_values ks (rpIntents r))))"

definition order_missing :: go_error where
  "order_missing = NewError CodeNotFound ''order does not exist'' None"

definition visible :: "uint64 \<Rightarrow> Order \<Rightarrow> bool" where
  "visible userID v \<longleftrightarrow> \<not> (userID \<noteq> 0 \<and> oUserID v \<noteq> userID)"

definition Repository_Get :: "uint64 \<Rightarrow> string \<Rightarrow> (MemoryRepository, Order) go" where
  "Repository_Get userID orderID = (\<lambda>r.
     case rpOrders r orderID of
       None \<Rightarrow> fail order_missing r
     | Some v \<Rightarrow> (if visible userID v then ret v else fail order_missing) r)"

definition Repository_List ::
  "string list \<Rightarrow> uint64 \<Rightarrow> int \<Rightarrow> int \<Rightarrow> (MemoryRepository, Order list \<times> int) go" where
  "Repository_List ks userID offset limit = read_state (\<lambda>r.
     let values = sort_key (\<lambda>v. - oCreatedAt v)
           (filter (\<lambda>v. oUserID v = userID) (range_values ks (rpOrders r)));
         total' = int (length values);
         offset = (if offset > int (length values) then int (length values) else offset);
         stop = (if offset + limit > int (length values) then int (length values) else offset + limit)
     in (take (nat (stop - offset)) (drop (nat offset) values), total'))"

definition order_expired :: "time \<Rightarrow> Order \<Rightarrow> bool" where
  "order_expired now v \<longleftrightarrow> oStatus v = StatusPendingPayment \<and> \<not> now < oExpiresAt v"

definition ListExpired :: "string list \<Rightarrow> time \<Rightarrow> int \<Rightarrow> (MemoryRepository, Order list) go" where
  "ListExpired ks now limit = read_state (\<lambda>r.
     collect (order_expired now) limit [] (range_values ks (rpOrders r)))"

text \<open>The new status, its entry in the history, and the time of the change.\<close>

definition moved :: "string \<Rightarrow> string \<Rightarrow> string \<Rightarrow> uint64 \<Rightarrow> time \<Rightarrow> Order \<Rightarrow> Order" where
  "moved target reason actorType actorID now v =
     v\<lparr>oStatusHistory := oStatusHistory v @ [\<lparr>shFromStatus = oStatus v, shToStatus = target,
         shReason = reason, shActorType = actorType, shActorID = actorID, shCreatedAt = now\<rparr>],
       oStatus := target, oUpdatedAt := now\<rparr>"

definition Transition ::
  "string \<Rightarrow> uint64 \<Rightarrow> string \<Rightarrow> string \<Rightarrow> string \<Rightarrow> uint64 \<Rightarrow> time \<Rightarrow> (MemoryRepository, Order) go" where
  "Transition orderID userID target reason actorType actorID now = (\<lambda>r.
     case rpOrders r orderID of
       None \<Rightarrow> fail order_missing r
     | Some v \<Rightarrow>
         (if \<not> visible userID v then fail order_missing
          else if oStatus v = target then ret v
          else if \<not> canTransition (oStatus v) target
          then fail (NewError CodeInvalidTransition ''operation not allowed in this order status'' None)
          else and_then (if target = StatusCanceled then emit (order_cancelled_event v reason now)
                         else ret ()) (\<lambda>_.
               and_then (put_order orderID (moved target reason actorType actorID now v)) (\<lambda>_.
                 ret (moved target reason actorType actorID now v)))) r)"

definition put_operation :: "Operation \<Rightarrow> (MemoryRepository, unit) go" where
  "put_operation v = modify_state (\<lambda>r. r\<lparr>rpOperations := (rpOperations r)(opID v \<mapsto> v)\<rparr>)"

definition SaveOperation :: "Operation \<Rightarrow> (MemoryRepository, unit) go" where
  "SaveOperation v = (\<lambda>r.
     case rpOperations r (opID v) of
       Some existing \<Rightarrow> (if opStatus existing = OperationDone then ret () else put_operation v) r
     | None \<Rightarrow> put_operation v r)"

definition operation_due :: "time \<Rightarrow> Operation \<Rightarrow> bool" where
  "operation_due now v \<longleftrightarrow> opStatus v = OperationPending \<and> \<not> now < opNextRetryAt v"

definition ListPendingOperations ::
  "string list \<Rightarrow> time \<Rightarrow> int \<Rightarrow> (MemoryRepository, Operation list) go" where
  "ListPendingOperations ks now limit = read_state (\<lambda>r.
     collect (operation_due now) limit [] (range_values ks (rpOperations r)))"

definition UpdateOperation :: "Operation \<Rightarrow> (MemoryRepository, unit) go" where
  "UpdateOperation v = put_operation v"

end
