(* ===== verification/Order_Service.thy ===== *)
theory Order_Service
  imports Order_Repository
begin

text \<open>
  services/order/internal/app/service.go: the orchestration of order creation, payment,
  cancellation, refund, shipment and the two recovery workers over the repository and the
  clients of the catalog, identity and inventory services.

  The clients are interfaces (clients.go); their implementations are functions of an
  environment state \<open>'e\<close> kept in the record \<open>dependencies\<close>. A timeout or a cancelled
  context shows as an error of the call.
\<close>

section \<open>World and dependencies\<close>

record 'e dependencies =
  GetSKUSnapshot :: "uint64 list \<Rightarrow> ('e, SKU list) go"
  GetAddressSnapshot :: "uint64 \<Rightarrow> uint64 \<Rightarrow> ('e, Address) go"
  inv_Reserve :: "OrderReserveCommand \<Rightarrow> ('e, OrderReservation) go"
  inv_AdmitSeckill :: "OrderReserveCommand \<Rightarrow> ('e, OrderReservation) go"
  inv_Confirm :: "string \<Rightarrow> string \<Rightarrow> ('e, unit) go"
  inv_Release :: "string \<Rightarrow> string \<Rightarrow> ('e, unit) go"
  inv_Restock :: "string \<Rightarrow> string \<Rightarrow> ('e, unit) go"
  orderTTL :: duration

record 'e world =
  wRepo :: MemoryRepository
  wEnv :: 'e
  wNow :: clock

definition on_repo :: "(MemoryRepository, 'a) go \<Rightarrow> ('e world, 'a) go" where
  "on_repo m w = (case m (wRepo w) of (res, r) \<Rightarrow> (res, w\<lparr>wRepo := r\<rparr>))"

definition on_env :: "('e, 'a) go \<Rightarrow> ('e world, 'a) go" where
  "on_env m w = (case m (wEnv w) of (res, e) \<Rightarrow> (res, w\<lparr>wEnv := e\<rparr>))"

definition service_now :: "('e world, time) go" where
  "service_now w = (Inr (shd (wNow w)), w\<lparr>wNow := stl (wNow w)\<rparr>)"

text \<open>A call whose error is discarded.\<close>

definition ignore_error :: "('w, 'a) go \<Rightarrow> ('w, unit) go" where
  "ignore_error m = inspect m (\<lambda>_. ret ())"

definition saveOperation :: "Operation \<Rightarrow> ('e world, unit) go" where
  "saveOperation v = ignore_error (on_repo (SaveOperation v))"

text \<open>The record of a compensation that is to be retried.\<close>

definition pending_operation :: "string \<Rightarrow> string \<Rightarrow> string \<Rightarrow> go_error \<Rightarrow> time \<Rightarrow> time \<Rightarrow> time \<Rightarrow> Operation" where
  "pending_operation kind orderID reservationID err next created updated =
     \<lparr>opID = operationID kind orderID reservationID, opOrderID = orderID, opKind = kind,
      opReservationID = reservationID, opStatus = OperationPending, opAttempts = 1,
      opLastError = error_text err, opNextRetryAt = next, opCreatedAt = created,
      opUpdatedAt = updated\<rparr>"

definition save_pending :: "string \<Rightarrow> string \<Rightarrow> string \<Rightarrow> go_error \<Rightarrow> ('e world, unit) go" where
  "save_pending kind orderID reservationID err =
     and_then service_now (\<lambda>now.
       saveOperation (pending_operation kind orderID reservationID err (now + Second) now now))"

section \<open>Create\<close>

primrec compensate :: "'e dependencies \<Rightarrow> string \<Rightarrow> OrderReservation list \<Rightarrow> ('e world, unit) go" where
  "compensate d orderID [] = ret ()"
| "compensate d orderID (reservation # rest) =
     and_then
       (inspect (on_env (inv_Release d (orReservationID reservation) orderID)) (\<lambda>res.
          case res of
            Inl err \<Rightarrow> save_pending ''release'' orderID (orReservationID reservation) err
          | Inr _ \<Rightarrow> ret ()))
       (\<lambda>_. compensate d orderID rest)"

text \<open>Reservations are released in reverse order; failures are recorded, never returned.\<close>

definition compensateReservations ::
  "'e dependencies \<Rightarrow> string \<Rightarrow> OrderReservation list \<Rightarrow> ('e world, unit) go" where
  "compensateReservations d orderID reservations = compensate d orderID (rev reservations)"

definition reservation_id :: "string \<Rightarrow> uint64 \<Rightarrow> string" where
  "reservation_id orderID skuID = ''res_'' @ orderID @ ''_'' @ fmt_uint skuID"

definition reserve_command :: "CreateCommand \<Rightarrow> string \<Rightarrow> CreateItem \<Rightarrow> OrderReserveCommand" where
  "reserve_command c orderID requested =
     \<lparr>ocReservationID = reservation_id orderID (ciSKUID requested), ocOrderID = orderID,
      ocUserID = ccUserID c, ocActivityID = ccActivityID c, ocSKUID = ciSKUID requested,
      ocQuantity = ciQuantity requested, ocMode = ccOrderType c\<rparr>"

definition sku_unavailable :: go_error where
  "sku_unavailable = NewError CodeNotFound ''SKU does not exist or is not on sale'' None"

text \<open>The loop over the sorted items, with the amount, lines and reservations so far.\<close>

primrec reserve_items ::
  "'e dependencies \<Rightarrow> CreateCommand \<Rightarrow> string \<Rightarrow> (uint64 \<rightharpoonup> SKU) \<Rightarrow> CreateItem list \<Rightarrow>
   int64 \<Rightarrow> Item list \<Rightarrow> OrderReservation list \<Rightarrow>
   ('e world, int64 \<times> Item list \<times> OrderReservation list) go" where
  "reserve_items d c orderID byID [] amount lines reservations = ret (amount, lines, reservations)"
| "reserve_items d c orderID byID (requested # rest) amount lines reservations =
     (case byID (ciSKUID requested) of
        None \<Rightarrow> fail sku_unavailable
      | Some sku \<Rightarrow>
          (if \<not> skActive sku then fail sku_unavailable
           else
             and_then (of_result (subtotal (skPriceCents sku) (ciQuantity requested))) (\<lambda>lineTotal.
             and_then (of_result (addAmount amount lineTotal)) (\<lambda>amount'.
             let command = reserve_command c orderID requested in
             inspect (on_env (if ccOrderType c = OrderTypeSeckill then inv_AdmitSeckill d command
                              else inv_Reserve d command)) (\<lambda>res.
               case res of
                 Inl err \<Rightarrow>
                   and_then (compensateReservations d orderID reservations) (\<lambda>_. fail err)
               | Inr reservation \<Rightarrow>
                   reserve_items d c orderID byID rest amount'
                     (lines @ [\<lparr>itSKUID = skID sku, itSKUCode = skCode sku, itSKUName = skName sku,
                        itUnitPriceCents = skPriceCents sku, itQuantity = ciQuantity requested,
                        itSubtotalCents = lineTotal, itReservationID = orReservationID reservation\<rparr>])
                     (reservations @ [reservation]))))))"

definition new_order ::
  "'e dependencies \<Rightarrow> CreateCommand \<Rightarrow> string \<Rightarrow> string \<Rightarrow> Address \<Rightarrow> time \<Rightarrow> int64 \<Rightarrow> Item list \<Rightarrow> Order" where
  "new_order d c digest orderID address now amount lines =
     \<lparr>oOrderID = orderID, oUserID = ccUserID c, oAddressID = ccAddressID c,
      oOrderType = ccOrderType c, oStatus = StatusPendingPayment, oTotalAmountCents = amount,
      oIdempotencyKey = ccIdempotencyKey c, oRequestDigest = digest, oAddressSnapshot = address,
      oItems = lines,
      oStatusHistory = [\<lparr>shFromStatus = [], shToStatus = StatusPendingPayment,
        shReason = ''order created'', shActorType = ''user'', shActorID = ccUserID c,
        shCreatedAt = now\<rparr>],
      oExpiresAt = now + orderTTL d, oCreatedAt = now, oUpdatedAt = now\<rparr>"

text \<open>Snapshots, reservations and the new order: what runs between saving and closing the intent.\<close>

definition create_body ::
  "'e dependencies \<Rightarrow> CreateCommand \<Rightarrow> string \<Rightarrow> string \<Rightarrow> time \<Rightarrow> ('e world, Order \<times> bool) go" where
  "create_body d c digest orderID now =
     (let items = sort_key ciSKUID (ccItems c) in
      and_then (on_env (GetSKUSnapshot d (map ciSKUID items))) (\<lambda>skus.
      let byID = map_of (rev (map (\<lambda>sku. (skID sku, sku)) skus)) in
      and_then (on_env (GetAddressSnapshot d (ccUserID c) (ccAddressID c))) (\<lambda>address.
      if adID address \<noteq> ccAddressID c \<or> adUserID address \<noteq> ccUserID c
      then fail (NewError CodeForbidden ''address does not belong to the user'' None)
      else
        and_then (reserve_items d c orderID byID items 0 [] []) (\<lambda>(amount, lines, reservations).
        inspect (on_repo (Repository_Create (new_order d c digest orderID address now amount lines)))
          (\<lambda>res. case res of
             Inl err \<Rightarrow> and_then (compensateReservations d orderID reservations) (\<lambda>_. fail err)
           | Inr (created, reused) \<Rightarrow> ret (created, reused))))))"

text \<open>The deferred function of \<open>Create\<close>: the intent records how the attempt ended.\<close>

definition close_intent :: "CreateIntent \<Rightarrow> 'a result \<Rightarrow> ('e world, unit) go" where
  "close_intent intent res =
     and_then service_now (\<lambda>now.
       ignore_error (on_repo (UpdateCreateIntent
         (case res of
            Inl err \<Rightarrow> intent\<lparr>inUpdatedAt := now, inStatus := CreateIntentFailed,
              inAttempts := inAttempts intent + 1, inLastError := compactError err,
              inNextRetryAt := now + retryDelay 1\<rparr>
          | Inr _ \<Rightarrow> intent\<lparr>inUpdatedAt := now, inStatus := CreateIntentDone, inLastError := []\<rparr>))))"

definition intent_mismatch :: go_error where
  "intent_mismatch = NewError CodeConflict ''Idempotency-Key used with another create intent'' None"

definition key_mismatch :: go_error where
  "key_mismatch = NewError CodeConflict ''Idempotency-Key used with other parameters'' None"

definition attempts_exhausted :: go_error where
  "attempts_exhausted = NewError CodeUnavailable ''create intent reached the retry limit'' None"

text \<open>The order exists already: it is returned and an open intent is closed.\<close>

definition reuse_order :: "CreateCommand \<Rightarrow> string \<Rightarrow> Order \<Rightarrow> ('e world, Order \<times> bool) go" where
  "reuse_order c digest existing =
     (if oRequestDigest existing \<noteq> digest then fail key_mismatch
      else and_then (on_repo (FindCreateIntent (ccUserID c) (ccIdempotencyKey c))) (\<lambda>found.
        case found of
          None \<Rightarrow> ret (existing, True)
        | Some intent \<Rightarrow>
            (if inRequestDigest intent \<noteq> digest then fail intent_mismatch
             else and_then service_now (\<lambda>now.
               and_then (on_repo (UpdateCreateIntent (intent\<lparr>inStatus := CreateIntentDone,
                 inLastError := [], inUpdatedAt := now\<rparr>))) (\<lambda>_. ret (existing, True))))))"

text \<open>\<open>strings.TrimPrefix(orderID, "ord_")\<close>.\<close>

definition trim_ord :: "string \<Rightarrow> string" where
  "trim_ord s = (if take 4 s = ''ord_'' then drop 4 s else s)"

definition start_intent :: "CreateCommand \<Rightarrow> string \<Rightarrow> string \<Rightarrow> int \<Rightarrow> time \<Rightarrow> CreateIntent" where
  "start_intent c digest orderID attempts now =
     \<lparr>inIntentID = ''intent_'' @ trim_ord orderID, inUserID = ccUserID c,
      inIdempotencyKey = ccIdempotencyKey c, inRequestDigest = digest, inOrderID = orderID,
      inStatus = CreateIntentStarted, inAttempts = attempts, inPayload = marshal_CreateCommand c,
      inLastError = [], inNextRetryAt = now, inCreatedAt = now, inUpdatedAt = now\<rparr>"

definition create_new ::
  "'e dependencies \<Rightarrow> CreateCommand \<Rightarrow> string \<Rightarrow> int \<Rightarrow> ('e world, Order \<times> bool) go" where
  "create_new d c digest attempts =
     and_then service_now (\<lambda>now.
     let orderID = deterministicOrderID (ccUserID c) (ccIdempotencyKey c) digest;
         intent = start_intent c digest orderID attempts now in
     and_then (on_repo (SaveCreateIntent intent)) (\<lambda>_.
     inspect (create_body d c digest orderID now) (\<lambda>res.
     and_then (close_intent intent res) (\<lambda>_. of_result res))))"

definition Service_Create :: "'e dependencies \<Rightarrow> CreateCommand \<Rightarrow> ('e world, Order \<times> bool) go" where
  "Service_Create d cmd =
     (let c = cmd\<lparr>ccIdempotencyKey := TrimSpace (ccIdempotencyKey cmd)\<rparr> in
      and_then (of_result (validateCreate c)) (\<lambda>_.
      let digest = requestDigest c in
      and_then (on_repo (FindByIdempotency (ccUserID c) (ccIdempotencyKey c))) (\<lambda>found.
      case found of
        Some existing \<Rightarrow> reuse_order c digest existing
      | None \<Rightarrow>
          and_then (on_repo (FindCreateIntent (ccUserID c) (ccIdempotencyKey c))) (\<lambda>intent.
          case intent of
            None \<Rightarrow> create_new d c digest 0
          | Some old \<Rightarrow>
              (if inRequestDigest old \<noteq> digest then fail intent_mismatch
               else if maxCreateIntentAttempts \<le> inAttempts old then fail attempts_exhausted
               else create_new d c digest (inAttempts old))))))"

definition page_limit :: "int \<Rightarrow> int" where
  "page_limit limit = (if limit \<le> 0 \<or> limit > 1000 then 100 else limit)"

definition intent_intact :: "CreateIntent \<Rightarrow> CreateCommand result \<Rightarrow> bool" where
  "intent_intact intent res =
     (case res of Inl _ \<Rightarrow> False
      | Inr c \<Rightarrow> \<not> (ccUserID c \<noteq> inUserID intent \<or> ccIdempotencyKey c \<noteq> inIdempotencyKey intent \<or>
          requestDigest c \<noteq> inRequestDigest intent))"

text \<open>
  \<open>RecoverCreateIntents\<close> returns the number of recovered intents beside the error, so its
  result is a pair.
\<close>

primrec recover_intents ::
  "'e dependencies \<Rightarrow> CreateIntent list \<Rightarrow> int \<Rightarrow> 'e world \<Rightarrow> (int \<times> go_error option) \<times> 'e world" where
  "recover_intents d [] recovered w = ((recovered, None), w)"
| "recover_intents d (intent # rest) recovered w =
     (let res = unmarshal_CreateCommand (inPayload intent) in
      if \<not> intent_intact intent res then
        (case and_then service_now (\<lambda>now. on_repo (UpdateCreateIntent
            (intent\<lparr>inStatus := CreateIntentFailed, inAttempts := maxCreateIntentAttempts,
              inLastError := ''create intent payload check failed'', inUpdatedAt := now\<rparr>))) w of
           (Inl e, w') \<Rightarrow> ((recovered, Some e), w')
         | (Inr _, w') \<Rightarrow> recover_intents d rest recovered w')
      else
        (case Service_Create d (projr res) w of
           (Inl e, w') \<Rightarrow> ((recovered, Some e), w')
         | (Inr _, w') \<Rightarrow> recover_intents d rest (recovered + 1) w'))"

definition RecoverCreateIntents ::
  "'e dependencies \<Rightarrow> string list \<Rightarrow> int \<Rightarrow> 'e world \<Rightarrow> (int \<times> go_error option) \<times> 'e world" where
  "RecoverCreateIntents d ks limit w =
     (case and_then service_now (\<lambda>now. on_repo (ListPendingCreateIntents ks now (page_limit limit))) w of
        (Inl e, w') \<Rightarrow> ((0, Some e), w')
      | (Inr intents, w') \<Rightarrow> recover_intents d intents 0 w')"

end
