(* ===== verification/Order_Lifecycle.thy ===== *)
theory Order_Lifecycle
  imports Order_Service
begin

text \<open>
  services/order/internal/app/service.go, the methods after creation: reading, cancellation
  and expiry, payment, shipment, receipt, refund, and the worker that retries the recorded
  compensations; the event handlers of events.go.
\<close>

section \<open>Reading\<close>

definition Service_Get :: "uint64 \<Rightarrow> string \<Rightarrow> ('e world, Order) go" where
  "Service_Get userID orderID =
     (if userID = 0 \<or> TrimSpace orderID = []
      then fail (invalid ''user and order number must not be empty'')
      else on_repo (Repository_Get userID (TrimSpace orderID)))"

definition Service_List ::
  "string list \<Rightarrow> uint64 \<Rightarrow> int \<Rightarrow> int \<Rightarrow> ('e world, Order list \<times> int) go" where
  "Service_List ks userID offset limit =
     (if userID = 0 then fail (invalid ''user must not be empty'')
      else on_repo (Repository_List ks userID (if offset < 0 then 0 else offset)
             (if limit \<le> 0 \<or> limit > 100 then 20 else limit)))"

section \<open>Cancellation\<close>

primrec release_items :: "'e dependencies \<Rightarrow> string \<Rightarrow> Item list \<Rightarrow> ('e world, unit) go" where
  "release_items d orderID [] = ret ()"
| "release_items d orderID (item # rest) =
     inspect (on_env (inv_Release d (itReservationID item) orderID)) (\<lambda>res.
       case res of
         Inl err \<Rightarrow> and_then (save_pending ''release'' orderID (itReservationID item) err) (\<lambda>_. fail err)
       | Inr _ \<Rightarrow> release_items d orderID rest)"

text \<open>The transition at the end of a method, stamped with the time it is reached.\<close>

definition transition_now ::
  "string \<Rightarrow> uint64 \<Rightarrow> string \<Rightarrow> string \<Rightarrow> string \<Rightarrow> uint64 \<Rightarrow> ('e world, Order) go" where
  "transition_now orderID userID target reason actorType actorID =
     and_then service_now (\<lambda>now.
       on_repo (Transition orderID userID target reason actorType actorID now))"

definition cancel ::
  "'e dependencies \<Rightarrow> uint64 \<Rightarrow> string \<Rightarrow> string \<Rightarrow> string \<Rightarrow> uint64 \<Rightarrow> ('e world, Order) go" where
  "cancel d userID orderID reason actorType actorID =
     (if orderID = [] then fail (invalid ''order number must not be empty'')
      else and_then (on_repo (Repository_Get userID orderID)) (\<lambda>order.
        if oStatus order = StatusCanceled then ret order
        else and_then (release_items d (oOrderID order) (oItems order)) (\<lambda>_.
          transition_now (oOrderID order) userID StatusCanceled
            (if reason = [] then ''cancelled by user'' else reason) actorType actorID)))"

definition Service_Cancel :: "'e dependencies \<Rightarrow> uint64 \<Rightarrow> string \<Rightarrow> string \<Rightarrow> ('e world, Order) go" where
  "Service_Cancel d userID orderID reason =
     (if userID = 0 then fail (invalid ''user must not be empty'')
      else cancel d userID (TrimSpace orderID) (TrimSpace reason) ''user'' userID)"

primrec expire_orders ::
  "'e dependencies \<Rightarrow> Order list \<Rightarrow> int \<Rightarrow> 'e world \<Rightarrow> (int \<times> go_error option) \<times> 'e world" where
  "expire_orders d [] count w = ((count, None), w)"
| "expire_orders d (v # rest) count w =
     (case cancel d 0 (oOrderID v) ''payment timed out'' ''system'' 0 w of
        (Inl e, w') \<Rightarrow> ((count, Some e), w')
      | (Inr _, w') \<Rightarrow> expire_orders d rest (count + 1) w')"

definition Service_Expire ::
  "'e dependencies \<Rightarrow> string list \<Rightarrow> int \<Rightarrow> 'e world \<Rightarrow> (int \<times> go_error option) \<times> 'e world" where
  "Service_Expire d ks limit w =
     (case and_then service_now (\<lambda>now. on_repo (ListExpired ks now (page_limit limit))) w of
        (Inl e, w') \<Rightarrow> ((0, Some e), w')
      | (Inr values, w') \<Rightarrow> expire_orders d values 0 w')"

section \<open>Payment\<close>

primrec confirm_items :: "'e dependencies \<Rightarrow> string \<Rightarrow> Item list \<Rightarrow> ('e world, unit) go" where
  "confirm_items d orderID [] = ret ()"
| "confirm_items d orderID (item # rest) =
     inspect (on_env (inv_Confirm d (itReservationID item) orderID)) (\<lambda>res.
       case res of
         Inl err \<Rightarrow>
           and_then service_now (\<lambda>next.
           and_then service_now (\<lambda>created.
           and_then service_now (\<lambda>updated.
           and_then (saveOperation (pending_operation ''confirm'' orderID (itReservationID item) err
             (next + Second) created updated)) (\<lambda>_. fail err))))
       | Inr _ \<Rightarrow> confirm_items d orderID rest)"

definition ConfirmPayment ::
  "'e dependencies \<Rightarrow> uint64 \<Rightarrow> string \<Rightarrow> string \<Rightarrow> string \<Rightarrow> ('e world, Order \<times> bool) go" where
  "ConfirmPayment d userID orderID paymentNo callbackRef =
     (if userID = 0 \<or> TrimSpace orderID = [] \<or> TrimSpace paymentNo = [] \<or> TrimSpace callbackRef = []
      then fail (invalid ''payment confirmation parameters must not be empty'')
      else and_then (on_repo (Repository_Get userID (TrimSpace orderID))) (\<lambda>order.
        if oStatus order = StatusPaid then ret (order, True)
        else if oStatus order \<noteq> StatusPendingPayment
        then fail (NewError CodeInvalidTransition ''order cannot be paid'' None)
        else and_then (confirm_items d (oOrderID order) (oItems order)) (\<lambda>_.
          and_then (transition_now (oOrderID order) userID StatusPaid
            (''payment succeeded: '' @ TrimSpace paymentNo) ''payment'' 0) (\<lambda>v. ret (v, False)))))"

section \<open>Shipment and receipt\<close>

definition Service_Ship ::
  "uint64 \<Rightarrow> string \<Rightarrow> string \<Rightarrow> string \<Rightarrow> ('e world, Order) go" where
  "Service_Ship actorID orderID carrier trackingNo =
     (if actorID = 0 \<or> TrimSpace orderID = [] \<or> TrimSpace carrier = [] \<or> TrimSpace trackingNo = []
      then fail (invalid ''shipment parameters invalid'')
      else and_then (on_repo (Repository_Get 0 (TrimSpace orderID))) (\<lambda>v.
        if oStatus v = StatusShipped then ret v
        else transition_now (oOrderID v) 0 StatusShipped
          (''order shipped: '' @ TrimSpace carrier @ ''/'' @ TrimSpace trackingNo) ''admin'' actorID))"

definition Service_ConfirmReceipt :: "uint64 \<Rightarrow> string \<Rightarrow> ('e world, Order) go" where
  "Service_ConfirmReceipt userID orderID =
     (if userID = 0 \<or> TrimSpace orderID = [] then fail (invalid ''receipt parameters invalid'')
      else transition_now (TrimSpace orderID) userID StatusCompleted ''user confirmed receipt'' ''user'' userID)"

definition ApplyShipmentCreated :: "string \<Rightarrow> string \<Rightarrow> string \<Rightarrow> ('e world, unit) go" where
  "ApplyShipmentCreated orderID carrier trackingNo =
     and_then (on_repo (Repository_Get 0 (TrimSpace orderID))) (\<lambda>v.
       if oStatus v = StatusShipped \<or> oStatus v = StatusCompleted then ret ()
       else if oStatus v \<noteq> StatusPaid
       then fail (NewError CodeInvalidTransition ''order not paid, shipment cannot be applied'' None)
       else and_then (transition_now (oOrderID v) 0 StatusShipped
         (''fulfilled '' @ TrimSpace carrier @ ''/'' @ TrimSpace trackingNo) ''fulfillment'' 0) (\<lambda>_. ret ()))"

definition ApplyShipmentDelivered :: "string \<Rightarrow> ('e world, unit) go" where
  "ApplyShipmentDelivered orderID =
     and_then (on_repo (Repository_Get 0 (TrimSpace orderID))) (\<lambda>v.
       if oStatus v = StatusCompleted then ret ()
       else if oStatus v \<noteq> StatusShipped
       then fail (NewError CodeInvalidTransition ''order not shipped, receipt cannot be applied'' None)
       else and_then (transition_now (oOrderID v) 0 StatusCompleted ''delivered'' ''fulfillment'' 0) (\<lambda>_. ret ()))"

section \<open>Refund\<close>

definition done_operation :: "string \<Rightarrow> string \<Rightarrow> string \<Rightarrow> time \<Rightarrow> Operation" where
  "done_operation kind orderID reservationID now =
     \<lparr>opID = operationID kind orderID reservationID, opOrderID = orderID, opKind = kind,
      opReservationID = reservationID, opStatus = OperationDone, opAttempts = 1, opLastError = [],
      opNextRetryAt = zero_time, opCreatedAt = now, opUpdatedAt = now\<rparr>"

primrec restock_items :: "'e dependencies \<Rightarrow> string \<Rightarrow> Item list \<Rightarrow> ('e world, unit) go" where
  "restock_items d orderID [] = ret ()"
| "restock_items d orderID (item # rest) =
     inspect (on_env (inv_Restock d (itReservationID item) orderID)) (\<lambda>res.
       case res of
         Inl err \<Rightarrow> and_then (save_pending ''restock'' orderID (itReservationID item) err) (\<lambda>_. fail err)
       | Inr _ \<Rightarrow>
           and_then service_now (\<lambda>now.
           and_then (saveOperation (done_operation ''restock'' orderID (itReservationID item) now)) (\<lambda>_.
             restock_items d orderID rest)))"

definition restockItems :: "'e dependencies \<Rightarrow> Order \<Rightarrow> ('e world, unit) go" where
  "restockItems d v = restock_items d (oOrderID v) (oItems v)"

definition Service_Refund ::
  "'e dependencies \<Rightarrow> uint64 \<Rightarrow> string \<Rightarrow> string \<Rightarrow> string \<Rightarrow> ('e world, Order) go" where
  "Service_Refund d userID orderID refundNo reason =
     (if userID = 0 \<or> TrimSpace orderID = [] \<or> TrimSpace refundNo = [] \<or> TrimSpace reason = []
      then fail (invalid ''refund parameters invalid'')
      else and_then (on_repo (Repository_Get userID (TrimSpace orderID))) (\<lambda>v.
        if oStatus v = StatusRefunded then ret v
        else
          and_then (if oStatus v = StatusPaid \<or> oStatus v = StatusShipped
            then and_then (transition_now (oOrderID v) userID StatusRefundPending
                   (''refund requested: '' @ TrimSpace reason) ''user'' userID)
                   (\<lambda>_. ret (v\<lparr>oStatus := StatusRefundPending\<rparr>))
            else ret v) (\<lambda>v.
          if oStatus v = StatusRefundPending
          then and_then (restockItems d v) (\<lambda>_.
            transition_now (oOrderID v) userID StatusRefunded
              (''refund done: '' @ TrimSpace refundNo) ''payment'' 0)
          else fail (NewError CodeInvalidTransition ''order cannot be refunded'' None))))"

section \<open>Retrying recorded compensations\<close>

primrec confirm_all :: "'e dependencies \<Rightarrow> string \<Rightarrow> Item list \<Rightarrow> ('e world, unit) go" where
  "confirm_all d orderID [] = ret ()"
| "confirm_all d orderID (item # rest) =
     and_then (on_env (inv_Confirm d (itReservationID item) orderID)) (\<lambda>_. confirm_all d orderID rest)"

definition finalizePendingPayment :: "'e dependencies \<Rightarrow> string \<Rightarrow> ('e world, unit) go" where
  "finalizePendingPayment d orderID =
     and_then (on_repo (Repository_Get 0 orderID)) (\<lambda>v.
       if oStatus v \<noteq> StatusPendingPayment then ret ()
       else and_then (confirm_all d (oOrderID v) (oItems v)) (\<lambda>_.
         and_then (transition_now (oOrderID v) 0 StatusPaid ''payment compensation done'' ''payment'' 0) (\<lambda>_.
           ret ())))"

definition finalizePendingCancellation :: "'e dependencies \<Rightarrow> string \<Rightarrow> ('e world, unit) go" where
  "finalizePendingCancellation d orderID =
     inspect (on_repo (Repository_Get 0 orderID)) (\<lambda>res.
       case res of
         Inl err \<Rightarrow> if ErrorCode err = CodeNotFound then ret () else fail err
       | Inr v \<Rightarrow>
           (if oStatus v \<noteq> StatusPendingPayment then ret ()
            else and_then (release_items d (oOrderID v) (oItems v)) (\<lambda>_.
              and_then (transition_now (oOrderID v) 0 StatusCanceled ''release compensation done'' ''system'' 0)
                (\<lambda>_. ret ()))))"

definition finalizePendingRefund :: "'e dependencies \<Rightarrow> string \<Rightarrow> ('e world, unit) go" where
  "finalizePendingRefund d orderID =
     and_then (on_repo (Repository_Get 0 orderID)) (\<lambda>v.
       if oStatus v \<noteq> StatusRefundPending then ret ()
       else and_then (restockItems d v) (\<lambda>_.
         and_then (transition_now (oOrderID v) 0 StatusRefunded ''refund compensation done'' ''payment'' 0) (\<lambda>_.
           ret ())))"

definition run_operation :: "'e dependencies \<Rightarrow> Operation \<Rightarrow> ('e world, unit) go" where
  "run_operation d op =
     on_env (if opKind op = ''confirm'' then inv_Confirm d (opReservationID op) (opOrderID op)
             else if opKind op = ''release'' then inv_Release d (opReservationID op) (opOrderID op)
             else inv_Restock d (opReservationID op) (opOrderID op))"

definition finalize_operation :: "'e dependencies \<Rightarrow> Operation \<Rightarrow> ('e world, unit) go" where
  "finalize_operation d op =
     and_then (if opKind op = ''confirm'' then finalizePendingPayment d (opOrderID op) else ret ()) (\<lambda>_.
     and_then (if opKind op = ''restock'' then finalizePendingRefund d (opOrderID op) else ret ()) (\<lambda>_.
       if opKind op = ''release'' then finalizePendingCancellation d (opOrderID op) else ret ()))"

text \<open>The record of an operation after an attempt.\<close>

definition attempted :: "time \<Rightarrow> unit result \<Rightarrow> Operation \<Rightarrow> Operation" where
  "attempted now res op =
     (let op' = op\<lparr>opAttempts := opAttempts op + 1, opUpdatedAt := now\<rparr> in
      case res of
        Inr _ \<Rightarrow> op'\<lparr>opStatus := OperationDone, opLastError := []\<rparr>
      | Inl err \<Rightarrow> op'\<lparr>opLastError := error_text err, opNextRetryAt := now + retryDelay (opAttempts op')\<rparr>)"

definition known_kind :: "string \<Rightarrow> bool" where
  "known_kind kind \<longleftrightarrow> \<not> (kind \<noteq> ''release'' \<and> kind \<noteq> ''confirm'' \<and> kind \<noteq> ''restock'')"

primrec retry_operations ::
  "'e dependencies \<Rightarrow> time \<Rightarrow> Operation list \<Rightarrow> int \<Rightarrow> 'e world \<Rightarrow> (int \<times> go_error option) \<times> 'e world" where
  "retry_operations d now [] completed w = ((completed, None), w)"
| "retry_operations d now (op # rest) completed w =
     (if maxOperationAttempts \<le> opAttempts op then
        (case on_repo (UpdateOperation (op\<lparr>opStatus := OperationFailed,
            opLastError := ''maximum number of retries exceeded'', opUpdatedAt := now\<rparr>)) w of
           (Inl e, w') \<Rightarrow> ((completed, Some e), w')
         | (Inr _, w') \<Rightarrow> retry_operations d now rest completed w')
      else if \<not> known_kind (opKind op) then
        (case on_repo (UpdateOperation (op\<lparr>opAttempts := opAttempts op + 1,
            opLastError := ''unsupported operation kind'',
            opNextRetryAt := now + retryDelay (opAttempts op + 1), opUpdatedAt := now\<rparr>)) w of
           (Inl e, w') \<Rightarrow> ((completed, Some e), w')
         | (Inr _, w') \<Rightarrow> retry_operations d now rest completed w')
      else
        (case run_operation d op w of
           (res, w1) \<Rightarrow>
             (let completed' = (case res of Inr _ \<Rightarrow> completed + 1 | Inl _ \<Rightarrow> completed) in
              case on_repo (UpdateOperation (attempted now res op)) w1 of
                (Inl e, w2) \<Rightarrow> ((completed', Some e), w2)
              | (Inr _, w2) \<Rightarrow>
                  (case res of
                     Inl _ \<Rightarrow> retry_operations d now rest completed' w2
                   | Inr _ \<Rightarrow>
                       (case finalize_operation d op w2 of
                          (Inl e, w3) \<Rightarrow> ((completed', Some e), w3)
                        | (Inr _, w3) \<Rightarrow> retry_operations d now rest completed' w3)))))"

definition RetryOperations ::
  "'e dependencies \<Rightarrow> string list \<Rightarrow> int \<Rightarrow> 'e world \<Rightarrow> (int \<times> go_error option) \<times> 'e world" where
  "RetryOperations d ks limit w =
     (case service_now w of
        (Inr now, w1) \<Rightarrow>
          (case on_repo (ListPendingOperations ks now (page_limit limit)) w1 of
             (Inl e, w2) \<Rightarrow> ((0, Some e), w2)
           | (Inr ops, w2) \<Rightarrow> retry_operations d now ops 0 w2)
      | (Inl e, w1) \<Rightarrow> ((0, Some e), w1))"

section \<open>Event handlers (events.go)\<close>

definition decodePayload :: "EventEnvelope \<Rightarrow> (json \<Rightarrow> 'a result) \<Rightarrow> 'a result" where
  "decodePayload event unmarshal =
     (case ValidateEventPayload event of Inl e \<Rightarrow> Inl e | Inr _ \<Rightarrow> unmarshal (ePayload event))"

definition Handler_paymentSucceeded :: "'e dependencies \<Rightarrow> EventEnvelope \<Rightarrow> ('e world, unit) go" where
  "Handler_paymentSucceeded d event =
     and_then (of_result (decodePayload event unmarshal_PaymentSucceeded)) (\<lambda>p.
     and_then (ConfirmPayment d (pspUserID p) (pspOrderID p) (pspPaymentNo p) (pspCallbackRef p)) (\<lambda>_. ret ()))"

definition Handler_orderRefunded :: "'e dependencies \<Rightarrow> EventEnvelope \<Rightarrow> ('e world, unit) go" where
  "Handler_orderRefunded d event =
     and_then (of_result (decodePayload event unmarshal_PaymentRefunded)) (\<lambda>p.
     and_then (Service_Refund d (prpUserID p) (prpOrderID p) (prpRefundNo p) (prpReason p)) (\<lambda>_. ret ()))"

definition Handler_shipmentCreated :: "EventEnvelope \<Rightarrow> ('e world, unit) go" where
  "Handler_shipmentCreated event =
     and_then (of_result (decodePayload event unmarshal_Shipment)) (\<lambda>p.
       ApplyShipmentCreated (shpOrderID p) (shpCarrier p) (shpTrackingNo p))"

definition Handler_shipmentDelivered :: "EventEnvelope \<Rightarrow> ('e world, unit) go" where
  "Handler_shipmentDelivered event =
     and_then (of_result (decodePayload event unmarshal_Shipment)) (\<lambda>p.
       ApplyShipmentDelivered (shpOrderID p))"

definition Order_Handlers :: "'e dependencies \<Rightarrow> string \<rightharpoonup> (EventEnvelope \<Rightarrow> ('e world, unit) go)" where
  "Order_Handlers d =
     [EventPaymentSucceeded \<mapsto> Handler_paymentSucceeded d,
      EventPaymentRefunded \<mapsto> Handler_orderRefunded d,
      EventShipmentCreated \<mapsto> Handler_shipmentCreated,
      EventShipmentDelivered \<mapsto> Handler_shipmentDelivered,
      EventInventoryReserved \<mapsto> (\<lambda>_. ret ()),
      EventInventoryReleased \<mapsto> (\<lambda>_. ret ()),
      EventSeckillAccepted \<mapsto> (\<lambda>_. ret ())]"

section \<open>The workers keep what their parts keep\<close>

lemma expire_orders_keeps:
  assumes "\<And>k. preserves Q (cancel d 0 k ''payment timed out'' ''system'' 0)"
  shows "Q w \<Longrightarrow> Q (snd (expire_orders d vs n w))"
proof (induction vs arbitrary: n w)
  case (Cons v vs)
  obtain res w1 where c: "cancel d 0 (oOrderID v) ''payment timed out'' ''system'' 0 w = (res, w1)"
    by fastforce
  have "Q w1" using preservesD [OF assms Cons.prems c] .
  then show ?case using c Cons.IH by (cases res) simp_all
qed simp

lemma Expire_keeps:
  assumes "\<And>k. preserves Q (cancel d 0 k ''payment timed out'' ''system'' 0)"
    and "\<And>now n. preserves Q (on_repo (ListExpired ks now n))" and "preserves Q service_now" and "Q w"
  shows "Q (snd (Service_Expire d ks lim w))"
proof -
  let ?m = "and_then service_now (\<lambda>now. on_repo (ListExpired ks now (page_limit lim)))"
  obtain res w1 where m: "?m w = (res, w1)" by (cases "?m w")
  have "preserves Q ?m" using assms(2,3) by (intro preserves_and_then)
  then have "Q w1" using assms(4) m by (rule preservesD)
  then show ?thesis
    using m expire_orders_keeps [OF assms(1)] by (cases res) (simp_all add: Service_Expire_def)
qed

lemma retry_operations_keeps:
  assumes upd: "\<And>x. preserves Q (on_repo (UpdateOperation x))"
    and run: "\<And>op. preserves Q (run_operation d op)"
    and fin: "\<And>op. preserves Q (finalize_operation d op)"
  shows "Q w \<Longrightarrow> Q (snd (retry_operations d now ops n w))"
proof (induction ops arbitrary: n w)
  case (Cons op ops)
  show ?case
  proof (cases "maxOperationAttempts \<le> opAttempts op \<or> \<not> known_kind (opKind op)")
    case True
    then show ?thesis
      using Cons.IH preservesD [OF upd Cons.prems] by (auto split: prod.split sum.split)
  next
    case False
    then show ?thesis
      using Cons.IH preservesD [OF upd preservesD [OF run Cons.prems]]
        preservesD [OF fin preservesD [OF upd preservesD [OF run Cons.prems]]]
      by (simp add: Let_def split: prod.split sum.split)
  qed
qed simp

lemma RetryOperations_keeps:
  assumes "\<And>x. preserves Q (on_repo (UpdateOperation x))" "\<And>op. preserves Q (run_operation d op)"
    "\<And>op. preserves Q (finalize_operation d op)"
    and "\<And>now n. preserves Q (on_repo (ListPendingOperations ks now n))" and "preserves Q service_now"
    and "Q w"
  shows "Q (snd (RetryOperations d ks lim w))"
proof -
  let ?w = "w\<lparr>wNow := stl (wNow w)\<rparr>"
  have w1: "Q ?w" using preservesD [OF assms(5,6)] by (simp add: service_now_def)
  obtain res w2 where l: "on_repo (ListPendingOperations ks (shd (wNow w)) (page_limit lim)) ?w = (res, w2)"
    by fastforce
  have "Q w2" using preservesD [OF assms(4) w1 l] .
  then show ?thesis using l retry_operations_keeps [OF assms(1-3)]
    by (cases res) (simp_all add: RetryOperations_def service_now_def)
qed

lemma recover_intents_keeps:
  assumes create: "\<And>c. preserves Q (Service_Create d c)"
    and upd: "\<And>i. preserves Q (on_repo (UpdateCreateIntent i))" and now: "preserves Q service_now"
  shows "Q w \<Longrightarrow> Q (snd (recover_intents d intents n w))"
proof (induction intents arbitrary: n w)
  case (Cons i intents)
  have a: "preserves Q (and_then service_now (\<lambda>now. on_repo (UpdateCreateIntent (f now))))" for f
    by (intro preserves_and_then now upd)
  show ?case
    using Cons.IH preservesD [OF a Cons.prems] preservesD [OF create Cons.prems]
    by (simp add: Let_def split: prod.split sum.split)
qed simp

lemma RecoverCreateIntents_keeps:
  assumes "\<And>c. preserves Q (Service_Create d c)" "\<And>i. preserves Q (on_repo (UpdateCreateIntent i))"
    "preserves Q service_now" and "\<And>now n. preserves Q (on_repo (ListPendingCreateIntents ks now n))"
    and "Q w"
  shows "Q (snd (RecoverCreateIntents d ks lim w))"
proof -
  let ?m = "and_then service_now (\<lambda>now. on_repo (ListPendingCreateIntents ks now (page_limit lim)))"
  obtain res w1 where m: "?m w = (res, w1)" by (cases "?m w")
  have "preserves Q ?m" using assms(3,4) by (intro preserves_and_then)
  then have "Q w1" using assms(5) m by (rule preservesD)
  then show ?thesis
    using m recover_intents_keeps [OF assms(1-3)] by (cases res) (simp_all add: RecoverCreateIntents_def)
qed

end
