(* ===== verification/Internalcall.thy ===== *)
theory Internalcall
  imports Sha256
begin

text \<open>
  shared/platform/internalcall/auth.go: the HMAC identity that one service attaches to a
  call of another, and its verification. gRPC metadata is the list of its key-value pairs
  in the order in which they were appended; a key may occur more than once. The secret is
  an argument, as it is in the sources, where the caller reads it from the environment.
\<close>

section \<open>Definitions\<close>

type_synonym metadata = "(string \<times> string) list"

definition UserKey :: string where [const_defs]: "UserKey = ''x-internal-user-id''"
definition RoleKey :: string where [const_defs]: "RoleKey = ''x-internal-role''"
definition TimestampKey :: string where [const_defs]: "TimestampKey = ''x-internal-timestamp''"
definition SignatureKey :: string where [const_defs]: "SignatureKey = ''x-internal-signature''"
definition ClockSkew :: duration where "ClockSkew = 30 * Second"
definition SystemActorID :: uint64 where "SystemActorID = 1"
definition SystemRole :: string where [const_defs]: "SystemRole = ''system''"

definition ValidateSecret :: "string \<Rightarrow> unit result" where
  "ValidateSecret secret =
     (if length (TrimSpace secret) < 32
      then Inl (ErrorText ''internal call secret length must be at least 32'') else Inr ())"

text \<open>\<open>Time.Unix\<close>: whole seconds since the epoch, rounded down.\<close>

definition Unix :: "time \<Rightarrow> int" where "Unix t = t div Second"

definition sign :: "string \<Rightarrow> string \<Rightarrow> string \<Rightarrow> string \<Rightarrow> string \<Rightarrow> string" where
  "sign secret method userID role timestamp =
     hmac_sha256_hex (TrimSpace secret) (method @ ''|'' @ userID @ ''|'' @ role @ ''|'' @ timestamp)"

definition AppendUser :: "metadata \<Rightarrow> string \<Rightarrow> string \<Rightarrow> uint64 \<Rightarrow> time \<Rightarrow> metadata" where
  "AppendUser md secret method userID now =
     (if TrimSpace secret = [] \<or> userID = 0 then md
      else let timestamp = fmt_int (Unix now); user = fmt_uint userID;
               signature = sign (TrimSpace secret) method user [] timestamp
      in md @ [(UserKey, user), (TimestampKey, timestamp), (SignatureKey, signature)])"

definition AppendRole :: "metadata \<Rightarrow> string \<Rightarrow> string \<Rightarrow> uint64 \<Rightarrow> string \<Rightarrow> time \<Rightarrow> metadata" where
  "AppendRole md secret method userID role now =
     (if TrimSpace secret = [] \<or> userID = 0 \<or> TrimSpace role = [] then md
      else let timestamp = fmt_int (Unix now); user = fmt_uint userID;
               signature = sign (TrimSpace secret) method user (TrimSpace role) timestamp
      in md @ [(UserKey, user), (RoleKey, TrimSpace role), (TimestampKey, timestamp),
               (SignatureKey, signature)])"

text \<open>\<open>first\<close>: the first value of a key, trimmed, or the empty string.\<close>

definition first :: "metadata \<Rightarrow> string \<Rightarrow> string" where
  "first md key = (case map_of md key of None \<Rightarrow> [] | Some v \<Rightarrow> TrimSpace v)"

definition is_digit :: "char \<Rightarrow> bool" where
  "is_digit c \<longleftrightarrow> 48 \<le> (of_char c :: nat) \<and> (of_char c :: nat) < 58"

text \<open>\<open>strconv.ParseUint(s, 10, 64)\<close> and \<open>strconv.ParseInt(s, 10, 64)\<close>.\<close>

definition parse_digits :: "string \<Rightarrow> nat option" where
  "parse_digits s = (if s = [] \<or> \<not> list_all is_digit s then None else Some (decimal_value s))"

definition ParseUint :: "string \<Rightarrow> uint64 option" where
  "ParseUint s =
     (case parse_digits s of None \<Rightarrow> None
      | Some n \<Rightarrow> if n < 2 ^ 64 then Some (word_of_nat n) else None)"

definition ParseInt :: "string \<Rightarrow> int option" where
  "ParseInt s =
     (let (neg, digits) = (case s of [] \<Rightarrow> (False, [])
        | c # cs \<Rightarrow> if c = CHR ''+'' then (False, cs) else if c = CHR ''-'' then (True, cs)
                   else (False, s)) in
      case parse_digits digits of None \<Rightarrow> None
      | Some n \<Rightarrow>
          if neg then (if n \<le> 2 ^ 63 then Some (- int n) else None)
          else (if n < 2 ^ 63 then Some (int n) else None))"

definition denied :: "string \<Rightarrow> go_error" where
  "denied message = StatusError PermissionDenied message"

text \<open>Without incoming metadata the context has no identity; the metadata is then \<open>None\<close>.\<close>

definition metadataValues :: "metadata option \<Rightarrow> (uint64 \<times> string \<times> int \<times> string) result" where
  "metadataValues ctx =
     (case ctx of
        None \<Rightarrow> Inl (denied ''internal identity missing'')
      | Some md \<Rightarrow>
          (case (ParseUint (first md UserKey), ParseInt (first md TimestampKey)) of
             (Some user, Some timestamp) \<Rightarrow>
               (if user = 0 \<or> first md SignatureKey = []
                then Inl (denied ''internal identity invalid'')
                else Inr (user, first md RoleKey, timestamp, first md SignatureKey))
           | _ \<Rightarrow> Inl (denied ''internal identity invalid'')))"

definition validateTimestamp :: "int \<Rightarrow> time \<Rightarrow> unit result" where
  "validateTimestamp timestamp now =
     (let requestTime = timestamp * Second in
      if now - requestTime > ClockSkew \<or> requestTime - now > ClockSkew
      then Inl (denied ''internal identity expired'') else Inr ())"

definition AuthorizeUser :: "metadata option \<Rightarrow> string \<Rightarrow> string \<Rightarrow> uint64 \<Rightarrow> time \<Rightarrow> unit result" where
  "AuthorizeUser ctx secret method userID now =
     (if TrimSpace secret = [] then Inr ()
      else case metadataValues ctx of
        Inl _ \<Rightarrow> Inl (denied ''internal identity invalid'')
      | Inr (user, role, timestamp, signature) \<Rightarrow>
          (if role \<noteq> [] \<or> user \<noteq> userID then Inl (denied ''internal identity invalid'')
           else case validateTimestamp timestamp now of
             Inl e \<Rightarrow> Inl e
           | Inr _ \<Rightarrow>
               (if sign secret method (fmt_uint user) [] (fmt_int timestamp) \<noteq> signature
                then Inl (denied ''internal signature invalid'') else Inr ())))"

definition AuthorizeRole ::
  "metadata option \<Rightarrow> string \<Rightarrow> string \<Rightarrow> uint64 \<Rightarrow> string \<Rightarrow> time \<Rightarrow> unit result" where
  "AuthorizeRole ctx secret method userID requiredRole now =
     (if TrimSpace secret = [] then Inr ()
      else case metadataValues ctx of
        Inl _ \<Rightarrow> Inl (denied ''internal role invalid'')
      | Inr (user, role, timestamp, signature) \<Rightarrow>
          (if user \<noteq> userID \<or> role \<noteq> requiredRole then Inl (denied ''internal role invalid'')
           else case validateTimestamp timestamp now of
             Inl e \<Rightarrow> Inl e
           | Inr _ \<Rightarrow>
               (if sign secret method (fmt_uint user) role (fmt_int timestamp) \<noteq> signature
                then Inl (denied ''internal signature invalid'') else Inr ())))"

section \<open>Numbers in metadata\<close>

lemma decimal_nonempty [simp]: "decimal n \<noteq> []"
  by (subst decimal.simps) simp

lemma decimal_digits: "list_all is_digit (decimal n)"
  using set_decimal by (auto simp: list_all_iff is_digit_def)

lemma parse_digits_decimal [simp]: "parse_digits (decimal n) = Some n"
  by (simp add: parse_digits_def decimal_digits decimal_value_decimal)

lemma digit_graphic: "is_digit c \<Longrightarrow> graphic c"
  by (simp add: is_digit_def graphic_def)

lemma decimal_graphic: "c \<in> set (decimal n) \<Longrightarrow> graphic c"
  using decimal_digits [of n] digit_graphic by (auto simp: list_all_iff)

lemma TrimSpace_chars: "(\<And>c. c \<in> set s \<Longrightarrow> graphic c) \<Longrightarrow> TrimSpace s = s"
  by (rule TrimSpace_graphic) (cases s, auto)

lemma TrimSpace_fmt_uint [simp]: "TrimSpace (fmt_uint u) = fmt_uint u"
  by (rule TrimSpace_chars) (simp add: fmt_uint_def decimal_graphic)

lemma TrimSpace_fmt_int [simp]: "TrimSpace (fmt_int n) = fmt_int n"
proof (rule TrimSpace_chars)
  fix c assume "c \<in> set (fmt_int n)"
  moreover have "graphic CHR ''-''" by (simp add: graphic_def)
  ultimately show "graphic c" by (auto simp: fmt_int_def decimal_graphic split: if_splits)
qed

lemma ParseUint_fmt [simp]: "ParseUint (fmt_uint u) = Some u"
  using unsigned_less [of u, where 'a = nat] by (simp add: ParseUint_def fmt_uint_def)

lemma hd_decimal: "is_digit (hd (decimal n))"
  using decimal_digits [of n] by (cases "decimal n") auto

lemma ParseInt_fmt: "- (2 ^ 63) \<le> n \<Longrightarrow> n < 2 ^ 63 \<Longrightarrow> ParseInt (fmt_int n) = Some n"
proof (cases "n < 0")
  case True
  assume "- (2 ^ 63) \<le> n"
  then have "nat (- n) \<le> 2 ^ 63" using True by simp
  with True show ?thesis by (simp add: ParseInt_def fmt_int_def)
next
  case False
  assume "n < 2 ^ 63"
  then have n: "nat n < 2 ^ 63" using False by simp
  obtain c cs where d: "decimal (nat n) = c # cs" by (cases "decimal (nat n)") auto
  then have "is_digit c" using hd_decimal [of "nat n"] by simp
  then have "c \<noteq> CHR ''+''" "c \<noteq> CHR ''-''" by (auto simp: is_digit_def)
  with False n d show ?thesis using parse_digits_decimal [of "nat n"] by (simp add: ParseInt_def fmt_int_def)
qed

lemma hex_char_graphic: "hex_char c \<Longrightarrow> graphic c"
  by (auto simp: hex_char_def hex_digit_def graphic_def of_char_of split: if_splits)

lemma hmac_hex_graphic: "c \<in> set (hmac_sha256_hex k m) \<Longrightarrow> graphic c"
  by (auto simp: hmac_sha256_hex_def hex_words_def Let_def intro: hex_char_graphic hex_digits_chars)

lemma length_hmac_hex: "length (hmac_sha256_hex k m) = 64"
proof -
  have "length (hex_words ws) = 8 * length ws" for ws
    by (induction ws) (simp_all add: hex_words_def length_hex_digits)
  then show ?thesis
    by (simp add: hmac_sha256_hex_def Let_def sha256_words_def length_sha_blocks length_sha_H)
qed

lemma sign_facts: "TrimSpace (sign s m u r t) = sign s m u r t" "sign s m u r t \<noteq> []"
  using length_hmac_hex [of "TrimSpace s" "m @ ''|'' @ u @ ''|'' @ r @ ''|'' @ t"]
  by (auto simp: sign_def intro: TrimSpace_chars hmac_hex_graphic)

lemma sign_trim [simp]: "sign (TrimSpace s) m u r t = sign s m u r t"
  by (simp add: sign_def TrimSpace_idem)

lemma metadata_keys_distinct [simp]:
  "UserKey \<noteq> TimestampKey" "UserKey \<noteq> SignatureKey" "UserKey \<noteq> RoleKey" "TimestampKey \<noteq> UserKey"
  "TimestampKey \<noteq> SignatureKey" "TimestampKey \<noteq> RoleKey" "SignatureKey \<noteq> UserKey"
  "SignatureKey \<noteq> TimestampKey" "SignatureKey \<noteq> RoleKey" "RoleKey \<noteq> UserKey"
  "RoleKey \<noteq> TimestampKey" "RoleKey \<noteq> SignatureKey"
  by (simp_all add: const_defs)

lemma first_append: "key \<notin> fst ` set md \<Longrightarrow> first (md @ xs) key = first xs key"
  by (simp add: first_def map_of_append map_add_def map_of_eq_None_iff [THEN iffD2])

section \<open>Properties\<close>

lemma metadataValues_user:
  assumes "TrimSpace secret \<noteq> []" and "userID \<noteq> 0" and "- (2 ^ 63) \<le> Unix t" and "Unix t < 2 ^ 63"
    and "\<forall>key \<in> {UserKey, RoleKey, TimestampKey, SignatureKey}. key \<notin> fst ` set md"
  shows "metadataValues (Some (AppendUser md secret method userID t)) =
    Inr (userID, [], Unix t, sign secret method (fmt_uint userID) [] (fmt_int (Unix t)))"
proof -
  let ?xs = "[(UserKey, fmt_uint userID), (TimestampKey, fmt_int (Unix t)),
    (SignatureKey, sign secret method (fmt_uint userID) [] (fmt_int (Unix t)))]"
  have "AppendUser md secret method userID t = md @ ?xs"
    using assms(1,2) by (simp add: AppendUser_def Let_def)
  moreover have "first (md @ ?xs) key = first ?xs key"
    if "key \<in> {UserKey, RoleKey, TimestampKey, SignatureKey}" for key
    using assms(5) that by (intro first_append) blast
  ultimately show ?thesis
    using assms(2) ParseInt_fmt [OF assms(3,4)] sign_facts
    by (simp add: metadataValues_def) (simp add: first_def)
qed

lemma metadataValues_role:
  assumes "TrimSpace secret \<noteq> []" and "userID \<noteq> 0" and "TrimSpace role \<noteq> []"
    and "- (2 ^ 63) \<le> Unix t" and "Unix t < 2 ^ 63"
    and "\<forall>key \<in> {UserKey, RoleKey, TimestampKey, SignatureKey}. key \<notin> fst ` set md"
  shows "metadataValues (Some (AppendRole md secret method userID role t)) =
    Inr (userID, TrimSpace role, Unix t,
      sign secret method (fmt_uint userID) (TrimSpace role) (fmt_int (Unix t)))"
proof -
  let ?xs = "[(UserKey, fmt_uint userID), (RoleKey, TrimSpace role), (TimestampKey, fmt_int (Unix t)),
    (SignatureKey, sign secret method (fmt_uint userID) (TrimSpace role) (fmt_int (Unix t)))]"
  have "AppendRole md secret method userID role t = md @ ?xs"
    using assms(1-3) by (simp add: AppendRole_def Let_def)
  moreover have "first (md @ ?xs) key = first ?xs key"
    if "key \<in> {UserKey, RoleKey, TimestampKey, SignatureKey}" for key
    using assms(6) that by (intro first_append) blast
  ultimately show ?thesis
    using assms(2) ParseInt_fmt [OF assms(4,5)] sign_facts TrimSpace_idem
    by (simp add: metadataValues_def) (simp add: first_def)
qed

lemma validateTimestamp_iff:
  "validateTimestamp ts now = Inr () \<longleftrightarrow> \<bar>now - ts * Second\<bar> \<le> ClockSkew"
  by (auto simp: validateTimestamp_def Let_def abs_le_iff)

lemma Unix_close: "0 \<le> t - Unix t * Second \<and> t - Unix t * Second < Second"
proof -
  have "t - Unix t * Second = t mod Second"
    by (simp add: Unix_def minus_div_mult_eq_mod)
  then show ?thesis by (simp add: Second_def)
qed

text \<open>A fresh signature is accepted, and so is everything where no secret is configured.\<close>

lemma AuthorizeUser_AppendUser:
  assumes "userID \<noteq> 0" and "- (2 ^ 63) \<le> Unix t" and "Unix t < 2 ^ 63" and "t \<le> now" and "now \<le> t + 29 * Second"
  shows "AuthorizeUser (Some (AppendUser [] secret method userID t)) (TrimSpace secret) method userID now = Inr ()"
proof (cases "TrimSpace secret = []")
  case False
  have "validateTimestamp (Unix t) now = Inr ()"
    using Unix_close [of t] assms(4,5) by (simp add: validateTimestamp_iff ClockSkew_def)
  with metadataValues_user [OF False assms(1-3), of "[]"] show ?thesis by (simp add: AuthorizeUser_def)
qed (simp add: AuthorizeUser_def TrimSpace_idem)

text \<open>
  C12. A call signed by \<open>AppendUser\<close> or \<open>AppendRole\<close> is accepted by a service with the same
  secret for the same method and identity exactly while the clock of the receiver is within 30
  seconds, before or after, of the timestamp of the call, which is the time of signing in whole
  seconds; the outgoing context carried no identity before.
\<close>

theorem signed_call_accepted:
  assumes "TrimSpace secret \<noteq> []" and "userID \<noteq> 0" and "TrimSpace role \<noteq> []"
    and "- (2 ^ 63) \<le> Unix t" and "Unix t < 2 ^ 63"
    and "\<forall>key \<in> {UserKey, RoleKey, TimestampKey, SignatureKey}. key \<notin> fst ` set md"
  shows "(AuthorizeUser (Some (AppendUser md secret method userID t)) secret method userID now = Inr () \<longleftrightarrow>
      \<bar>now - Unix t * Second\<bar> \<le> ClockSkew) \<and>
    (AuthorizeRole (Some (AppendRole md secret method userID role t)) secret method userID (TrimSpace role) now = Inr () \<longleftrightarrow>
      \<bar>now - Unix t * Second\<bar> \<le> ClockSkew)"
proof -
  have "validateTimestamp (Unix t) now = Inr () \<longleftrightarrow> \<bar>now - Unix t * Second\<bar> \<le> ClockSkew"
    by (rule validateTimestamp_iff)
  then show ?thesis
    using assms(1) metadataValues_user [OF assms(1,2,4,5,6)] metadataValues_role [OF assms(1-6)]
    by (auto simp: AuthorizeUser_def AuthorizeRole_def split: sum.splits)
qed

theorem signed_call_accepted_witness:
  "AuthorizeUser (Some (AppendUser [] ''k'' ''/order/Create'' 7 (5 * Second))) ''k'' ''/order/Create'' 7
     (35 * Second) = Inr () \<and>
   AuthorizeUser (Some (AppendUser [] ''k'' ''/order/Create'' 7 (5 * Second))) ''k'' ''/order/Create'' 7
     (- 25 * Second) = Inr () \<and>
   AuthorizeUser (Some (AppendUser [] ''k'' ''/order/Create'' 7 (5 * Second))) ''k'' ''/order/Create'' 7
     (36 * Second) \<noteq> Inr ()"
proof -
  have "TrimSpace ''k'' = ''k''" by (rule TrimSpace_graphic) (simp add: graphic_def)
  moreover have "Unix (5 * Second) = 5" by (simp add: Unix_def Second_def)
  ultimately show ?thesis
    using signed_call_accepted [of "''k''" 7 "''k''" "5 * Second" "[]" "''/order/Create''"]
    by (simp add: Second_def ClockSkew_def)
qed

text \<open>
  C13. With a secret configured, an accepted call proves that its metadata names the claimed
  user (or user and role), that its signature is the HMAC of exactly this method, user, role
  and timestamp under the secret, and that the timestamp is within 30 seconds of now; a user
  call carries no role, so the metadata of one kind of call never passes for the other.
\<close>

theorem accepted_call_signed:
  assumes "TrimSpace secret \<noteq> []"
  shows "(AuthorizeUser ctx secret method userID now = Inr () \<longrightarrow>
      (\<exists>ts. metadataValues ctx =
          Inr (userID, [], ts, sign secret method (fmt_uint userID) [] (fmt_int ts)) \<and>
        \<bar>now - ts * Second\<bar> \<le> ClockSkew) \<and>
      (role \<noteq> [] \<longrightarrow> AuthorizeRole ctx secret method' userID' role now' \<noteq> Inr ())) \<and>
    (AuthorizeRole ctx secret method userID role now = Inr () \<longrightarrow>
      (\<exists>ts. metadataValues ctx =
          Inr (userID, role, ts, sign secret method (fmt_uint userID) role (fmt_int ts)) \<and>
        \<bar>now - ts * Second\<bar> \<le> ClockSkew))"
  using assms
  by (auto simp: AuthorizeUser_def AuthorizeRole_def validateTimestamp_iff split: sum.splits if_splits)

theorem accepted_call_signed_witness:
  "AuthorizeRole (Some (AppendUser [] ''k'' ''/order/Create'' 7 (5 * Second))) ''k'' ''/order/Ship'' 7
     ''admin'' (20 * Second) \<noteq> Inr ()"
proof -
  have k: "TrimSpace ''k'' = ''k''" by (rule TrimSpace_graphic) (simp add: graphic_def)
  have u: "Unix (5 * Second) = 5" by (simp add: Unix_def Second_def)
  have "AuthorizeUser (Some (AppendUser [] ''k'' ''/order/Create'' 7 (5 * Second))) ''k''
      ''/order/Create'' 7 (20 * Second) = Inr ()"
    using metadataValues_user [of "''k''" 7 "5 * Second" "[]" "''/order/Create''"] k u
    by (simp add: AuthorizeUser_def validateTimestamp_def ClockSkew_def Second_def)
  with accepted_call_signed [of "''k''"] k show ?thesis by simp
qed

end
