(* ===== verification/Catalog.thy ===== *)
theory Catalog
  imports Go_Strings
begin

text \<open>
  services/catalog/internal/app: SKUs and products (model.go, repository.go), the in-memory
  repository (memory_repository.go) and the gRPC server (server.go). The methods only read the
  repository, so they are functions of it; the order in which a \<open>for range\<close> loop meets the keys
  of the product map is an argument, and the lemmas show that it does not matter.
\<close>

section \<open>Data\<close>

record CatalogSKU =
  ctID :: uint64
  ctSPUID :: uint64
  ctCode :: string
  ctName :: string
  ctPriceCents :: int64
  ctAvailableStock :: int32
  ctReservedStock :: int32
  ctActive :: bool
  ctCreatedAt :: time
  ctUpdatedAt :: time

record Product =
  pdSPUID :: uint64
  pdCategoryID :: uint64
  pdName :: string
  pdDescription :: string
  pdActive :: bool
  pdSKUs :: "CatalogSKU list"
  pdImages :: "string list"

record ProductPage =
  ppItems :: "Product list"
  ppTotal :: int
  ppOffset :: int
  ppLimit :: int

definition Catalog_ErrInvalidRequest :: go_error where
  "Catalog_ErrInvalidRequest = ErrorText ''catalog request is invalid''"
definition Catalog_ErrNotFound :: go_error where
  "Catalog_ErrNotFound = ErrorText ''catalog item not found''"

section \<open>Repository\<close>

record CatalogRepository =
  crProducts :: "uint64 \<rightharpoonup> Product"
  crSkus :: "uint64 \<rightharpoonup> CatalogSKU"

definition demo_sku :: "time \<Rightarrow> CatalogSKU" where
  "demo_sku now = \<lparr>ctID = 1, ctSPUID = 1, ctCode = ''IPHONE15-128-BLACK'', ctName = ''iPhone 15 128GB black'',
     ctPriceCents = 699900, ctAvailableStock = 100, ctReservedStock = 0, ctActive = True, ctCreatedAt = now,
     ctUpdatedAt = now\<rparr>"

definition NewCatalogRepository :: "time \<Rightarrow> CatalogRepository" where
  "NewCatalogRepository now =
     \<lparr>crProducts = [1 \<mapsto> \<lparr>pdSPUID = 1, pdCategoryID = 1, pdName = ''iPhone 15'', pdDescription = ''demo product'',
        pdActive = True, pdSKUs = [demo_sku now], pdImages = []\<rparr>],
      crSkus = [1 \<mapsto> demo_sku now]\<rparr>"

definition cloneProduct :: "Product \<Rightarrow> bool \<Rightarrow> Product" where
  "cloneProduct p includeInactive =
     p\<lparr>pdSKUs := filter (\<lambda>sku. includeInactive \<or> ctActive sku) (pdSKUs p)\<rparr>"

definition listed_ids :: "uint64 list \<Rightarrow> bool \<Rightarrow> CatalogRepository \<Rightarrow> uint64 list" where
  "listed_ids order includeInactive r =
     filter (\<lambda>i. case crProducts r i of None \<Rightarrow> False | Some p \<Rightarrow> includeInactive \<or> pdActive p) order"

definition CatalogRepository_ListProducts ::
  "uint64 list \<Rightarrow> int \<Rightarrow> int \<Rightarrow> bool \<Rightarrow> CatalogRepository \<Rightarrow> ProductPage result" where
  "CatalogRepository_ListProducts order offset' limit includeInactive r =
     (if offset' < 0 \<or> limit \<le> 0 then Inl Catalog_ErrInvalidRequest
      else
        let ids = sort (listed_ids order includeInactive r);
            offset = (if offset' > int (length ids) then int (length ids) else offset');
            end' = (if offset + limit > int (length ids) then int (length ids) else offset + limit);
            page = take (nat (end' - offset)) (drop (nat offset) ids)
        in Inr \<lparr>ppItems = map (\<lambda>p. cloneProduct p includeInactive) (range_values page (crProducts r)),
             ppTotal = int (length ids), ppOffset = offset, ppLimit = limit\<rparr>)"

definition CatalogRepository_GetProduct :: "uint64 \<Rightarrow> bool \<Rightarrow> CatalogRepository \<Rightarrow> Product result" where
  "CatalogRepository_GetProduct spuID includeInactive r =
     (if spuID = 0 then Inl Catalog_ErrInvalidRequest
      else case crProducts r spuID of
        None \<Rightarrow> Inl Catalog_ErrNotFound
      | Some p \<Rightarrow> (if \<not> includeInactive \<and> \<not> pdActive p then Inl Catalog_ErrNotFound
                  else Inr (cloneProduct p includeInactive)))"

fun snapshot_skus :: "uint64 list \<Rightarrow> bool \<Rightarrow> CatalogRepository \<Rightarrow> CatalogSKU list result" where
  "snapshot_skus [] includeInactive r = Inr []"
| "snapshot_skus (skuID # rest) includeInactive r =
     (if skuID = 0 then Inl Catalog_ErrInvalidRequest
      else case crSkus r skuID of
        None \<Rightarrow> Inl Catalog_ErrNotFound
      | Some sku \<Rightarrow>
          (if \<not> includeInactive \<and> \<not> ctActive sku then Inl Catalog_ErrNotFound
           else case snapshot_skus rest includeInactive r of
             Inl e \<Rightarrow> Inl e
           | Inr items \<Rightarrow> Inr (sku # items)))"

definition CatalogRepository_GetSKUSnapshot ::
  "uint64 list \<Rightarrow> bool \<Rightarrow> CatalogRepository \<Rightarrow> CatalogSKU list result" where
  "CatalogRepository_GetSKUSnapshot skuIDs includeInactive r =
     (if skuIDs = [] then Inl Catalog_ErrInvalidRequest else snapshot_skus skuIDs includeInactive r)"

section \<open>Server\<close>

record CatalogSKUSnapshot =
  csSkuId :: uint64
  csSpuId :: uint64
  csSkuCode :: string
  csSkuName :: string
  csPriceCents :: int64
  csActive :: bool
  csAvailableStock :: int32
  csReservedStock :: int32
  csCreatedAt :: "time option"
  csUpdatedAt :: "time option"

record CatalogProduct =
  cpSpuId :: uint64
  cpCategoryId :: uint64
  cpName :: string
  cpDescription :: string
  cpActive :: bool
  cpSkus :: "CatalogSKUSnapshot list"
  cpImages :: "string list"

record CatalogListProductsResponse =
  clItems :: "CatalogProduct list"
  clTotal :: int
  clOffset :: int32
  clLimit :: int32

definition timestamp :: "time \<Rightarrow> time option" where
  "timestamp t = (if t = zero_time then None else Some t)"

definition skuToProto :: "CatalogSKU \<Rightarrow> CatalogSKUSnapshot" where
  "skuToProto sku = \<lparr>csSkuId = ctID sku, csSpuId = ctSPUID sku, csSkuCode = ctCode sku, csSkuName = ctName sku,
     csPriceCents = ctPriceCents sku, csActive = ctActive sku, csAvailableStock = ctAvailableStock sku,
     csReservedStock = ctReservedStock sku, csCreatedAt = timestamp (ctCreatedAt sku),
     csUpdatedAt = timestamp (ctUpdatedAt sku)\<rparr>"

definition productToProto :: "Product \<Rightarrow> CatalogProduct" where
  "productToProto p = \<lparr>cpSpuId = pdSPUID p, cpCategoryId = pdCategoryID p, cpName = pdName p,
     cpDescription = pdDescription p, cpActive = pdActive p, cpSkus = map skuToProto (pdSKUs p),
     cpImages = pdImages p\<rparr>"

definition Catalog_mapError :: "go_error \<Rightarrow> go_error" where
  "Catalog_mapError err =
     (if errors_is err Catalog_ErrInvalidRequest then StatusError InvalidArgument ''catalog request invalid''
      else if errors_is err Catalog_ErrNotFound then StatusError NotFound ''product or SKU does not exist''
      else StatusError Internal ''catalog service temporarily unavailable'')"

definition catalog_reply :: "'a result \<Rightarrow> ('a \<Rightarrow> 'b) \<Rightarrow> 'b result" where
  "catalog_reply res reply = (case res of Inl err \<Rightarrow> Inl (Catalog_mapError err) | Inr v \<Rightarrow> Inr (reply v))"

text \<open>A request for a page is its offset and limit, both \<open>int32\<close>, and the flag.\<close>

definition CatalogServer_ListProducts ::
  "uint64 list \<Rightarrow> (int32 \<times> int32 \<times> bool) option \<Rightarrow> CatalogRepository \<Rightarrow> CatalogListProductsResponse result" where
  "CatalogServer_ListProducts order req r =
     (case req of
        None \<Rightarrow> Inl (StatusError InvalidArgument ''request must not be empty'')
      | Some (offset, limit', includeInactive) \<Rightarrow>
          (if sint offset < 0 then Inl (StatusError InvalidArgument ''offset must not be negative'')
           else
             let limit = (if sint limit' \<le> 0 \<or> sint limit' > 100 then 20 else sint limit') in
             catalog_reply (CatalogRepository_ListProducts order (sint offset) limit includeInactive r)
               (\<lambda>page. \<lparr>clItems = map productToProto (ppItems page), clTotal = ppTotal page,
                  clOffset = word_of_int (ppOffset page), clLimit = word_of_int (ppLimit page)\<rparr>)))"

definition CatalogServer_GetProduct ::
  "(uint64 \<times> bool) option \<Rightarrow> CatalogRepository \<Rightarrow> CatalogProduct result" where
  "CatalogServer_GetProduct req r =
     (case req of
        None \<Rightarrow> Inl (StatusError InvalidArgument ''spu_id invalid'')
      | Some (spuId, includeInactive) \<Rightarrow>
          (if spuId = 0 then Inl (StatusError InvalidArgument ''spu_id invalid'')
           else catalog_reply (CatalogRepository_GetProduct spuId includeInactive r) productToProto))"

definition CatalogServer_GetSKUSnapshot ::
  "(uint64 list \<times> bool) option \<Rightarrow> CatalogRepository \<Rightarrow> CatalogSKUSnapshot list result" where
  "CatalogServer_GetSKUSnapshot req r =
     (case req of
        None \<Rightarrow> Inl (StatusError InvalidArgument ''sku_ids must not be empty'')
      | Some (skuIds, includeInactive) \<Rightarrow>
          (if skuIds = [] then Inl (StatusError InvalidArgument ''sku_ids must not be empty'')
           else catalog_reply (CatalogRepository_GetSKUSnapshot skuIds includeInactive r) (map skuToProto)))"

section \<open>Pages\<close>

lemma concat_pages: "concat (map (\<lambda>k. take m (drop (k * m) xs)) [0..<n]) = take (n * m) xs"
proof (induction n)
  case (Suc n)
  have "take (Suc n * m) xs = take (n * m) xs @ take m (drop (n * m) xs)"
    by (metis add.commute mult_Suc take_add)
  with Suc show ?case by simp
qed simp

lemma range_values_append: "range_values (xs @ ys) m = range_values xs m @ range_values ys m"
  by (induction xs) (auto split: option.splits)

lemma range_values_concat: "range_values (concat xss) m = concat (map (\<lambda>xs. range_values xs m) xss)"
  by (induction xss) (simp_all add: range_values_append)

text \<open>The identifiers listed, in ascending order: a function of the repository alone.\<close>

definition catalog_ids :: "bool \<Rightarrow> CatalogRepository \<Rightarrow> uint64 list" where
  "catalog_ids includeInactive r =
     sorted_list_of_set {i. \<exists>p. crProducts r i = Some p \<and> (includeInactive \<or> pdActive p)}"

lemma sort_listed_ids:
  assumes "range_order order (crProducts r)"
  shows "sort (listed_ids order includeInactive r) = catalog_ids includeInactive r"
proof -
  have "set (listed_ids order includeInactive r) = {i. \<exists>p. crProducts r i = Some p \<and> (includeInactive \<or> pdActive p)}"
    using assms by (auto simp: listed_ids_def range_order_def dom_def split: option.splits)
  moreover have "distinct (listed_ids order includeInactive r)"
    using assms by (simp add: listed_ids_def range_order_def)
  ultimately show ?thesis
    unfolding catalog_ids_def by (metis distinct_remdups_id sorted_list_of_set_sort_remdups)
qed

text \<open>One page, with the bounds of the slice simplified.\<close>

lemma ListProducts_page:
  assumes "range_order order (crProducts r)" and "0 \<le> offset" and "0 < limit"
  shows "\<exists>page. CatalogRepository_ListProducts order offset limit includeInactive r = Inr page \<and>
    ppItems page = map (\<lambda>p. cloneProduct p includeInactive)
      (range_values (take (nat limit) (drop (nat offset) (catalog_ids includeInactive r))) (crProducts r)) \<and>
    ppTotal page = int (length (catalog_ids includeInactive r))"
proof -
  let ?ids = "catalog_ids includeInactive r"
  let ?n = "int (length ?ids)"
  let ?o = "if offset > ?n then ?n else offset"
  have "take (nat ((if ?o + limit > ?n then ?n else ?o + limit) - ?o)) (drop (nat ?o) ?ids) =
      take (nat limit) (drop (nat offset) ?ids)"
    using assms(2,3) by (auto simp: min_def intro!: take_all_iff [THEN iffD2] nth_equalityI)
  then show ?thesis
    using assms by (simp add: CatalogRepository_ListProducts_def Let_def sort_listed_ids [OF assms(1)])
qed

lemma catalog_ids_member:
  assumes "range_order order (crProducts r)" and "i \<in> set (catalog_ids includeInactive r)"
  shows "\<exists>p. crProducts r i = Some p \<and> (includeInactive \<or> pdActive p)"
proof -
  have "finite (dom (crProducts r))" using assms(1) by (metis range_order_def List.finite_set)
  then have "finite {i. \<exists>p. crProducts r i = Some p \<and> (includeInactive \<or> pdActive p)}"
    by (rule rev_finite_subset) auto
  with assms(2) show ?thesis by (simp add: catalog_ids_def)
qed

definition page_items :: "int32 \<Rightarrow> bool \<Rightarrow> CatalogRepository \<Rightarrow> nat \<Rightarrow> CatalogProduct list" where
  "page_items limit includeInactive r k =
     map (\<lambda>p. productToProto (cloneProduct p includeInactive))
       (range_values (take (nat (sint limit)) (drop (k * nat (sint limit)) (catalog_ids includeInactive r))) (crProducts r))"

lemma ListProducts_call:
  assumes "range_order order (crProducts r)" and "0 < sint limit" and "sint limit \<le> 100"
    and "int n * sint limit < 2147483648" and "k < n"
  shows "\<exists>page. CatalogServer_ListProducts order (Some (word_of_int (int k * sint limit), limit, includeInactive)) r = Inr page \<and>
    clItems page = page_items limit includeInactive r k \<and> clTotal page = int (length (catalog_ids includeInactive r))"
proof -
  have "int k * sint limit \<le> int n * sint limit" "0 \<le> int k * sint limit" using assms(2,5) by simp_all
  then have "sint (word_of_int (int k * sint limit) :: int32) = int k * sint limit"
    using assms(4) by (intro sint32_of_int) linarith+
  moreover have "nat (int k * sint limit) = k * nat (sint limit)"
    using assms(2) by (simp add: nat_mult_distrib)
  moreover have "0 \<le> int k * sint limit" using assms(2) by simp
  ultimately show ?thesis
    using ListProducts_page [of order r "int k * sint limit" "sint limit" includeInactive] assms(1-3)
    by (auto simp: CatalogServer_ListProducts_def catalog_reply_def Let_def page_items_def)
qed

lemma concat_page_items:
  assumes "range_order order (crProducts r)" and "0 < sint limit"
    and "int (length (catalog_ids includeInactive r)) \<le> int n * sint limit"
  shows "concat (map (page_items limit includeInactive r) [0..<n]) =
    map (\<lambda>i. productToProto (cloneProduct (the (crProducts r i)) includeInactive)) (catalog_ids includeInactive r)"
proof -
  let ?ids = "catalog_ids includeInactive r"
  let ?show = "\<lambda>p. productToProto (cloneProduct p includeInactive)"
  have reads: "range_values xs (crProducts r) = map (\<lambda>i. the (crProducts r i)) xs" if "set xs \<subseteq> set ?ids" for xs
    using that by (induction xs) (auto dest!: catalog_ids_member [OF assms(1)])
  have "length ?ids \<le> n * nat (sint limit)"
    using assms(2,3) by (metis int_nat_eq nat_int nat_mult_distrib of_nat_0_le_iff of_nat_le_iff of_nat_mult order_less_imp_le)
  then have all: "concat (map (\<lambda>k. take (nat (sint limit)) (drop (k * nat (sint limit)) ?ids)) [0..<n]) = ?ids"
    by (simp add: concat_pages)
  have "concat (map (page_items limit includeInactive r) [0..<n]) =
      map ?show (range_values (concat (map (\<lambda>k. take (nat (sint limit)) (drop (k * nat (sint limit)) ?ids)) [0..<n])) (crProducts r))"
    by (simp add: page_items_def [abs_def] range_values_concat map_concat comp_def)
  with all reads show ?thesis by simp
qed

text \<open>
  C24. Reading the catalog page by page, at offsets 0, \<open>limit\<close>, \<open>2 * limit\<close> and so on until
  every product is covered, lists each product that the caller may see exactly once, in
  ascending order of its identifier, however the map iteration orders its keys in each call;
  without the flag no inactive product and no inactive SKU appears, and every page reports the
  full number of products.
\<close>

theorem catalog_pages_complete:
  assumes "\<forall>k. range_order (orders k) (crProducts r)" and "0 < sint limit" and "sint limit \<le> 100"
    and "int n * sint limit < 2147483648" and "int (length (catalog_ids includeInactive r)) \<le> int n * sint limit"
  shows "\<exists>pages. map (\<lambda>k. CatalogServer_ListProducts (orders k)
        (Some (word_of_int (int k * sint limit), limit, includeInactive)) r) [0..<n] = map Inr pages \<and>
    concat (map clItems pages) =
      map (\<lambda>i. productToProto (cloneProduct (the (crProducts r i)) includeInactive)) (catalog_ids includeInactive r) \<and>
    list_all (\<lambda>page. clTotal page = int (length (catalog_ids includeInactive r))) pages \<and>
    (includeInactive \<or> list_all (\<lambda>p. cpActive p \<and> list_all csActive (cpSkus p)) (concat (map clItems pages)))"
proof -
  let ?ids = "catalog_ids includeInactive r"
  let ?call = "\<lambda>k. CatalogServer_ListProducts (orders k) (Some (word_of_int (int k * sint limit), limit, includeInactive)) r"
  have "\<forall>k. \<exists>page. k < n \<longrightarrow> ?call k = Inr page \<and> clItems page = page_items limit includeInactive r k \<and>
      clTotal page = int (length ?ids)"
    using ListProducts_call assms(1-4) by blast
  then obtain page where page: "\<And>k. k < n \<Longrightarrow> ?call k = Inr (page k)"
      "\<And>k. k < n \<Longrightarrow> clItems (page k) = page_items limit includeInactive r k"
      "\<And>k. k < n \<Longrightarrow> clTotal (page k) = int (length ?ids)"
    by metis
  have "concat (map clItems (map page [0..<n])) = concat (map (page_items limit includeInactive r) [0..<n])"
    by (rule arg_cong [where f = concat]) (simp add: page(2))
  then have all: "concat (map clItems (map page [0..<n])) =
      map (\<lambda>i. productToProto (cloneProduct (the (crProducts r i)) includeInactive)) ?ids"
    using concat_page_items assms by metis
  have "includeInactive \<or> list_all pdActive (map (\<lambda>i. the (crProducts r i)) ?ids)"
    using catalog_ids_member assms(1) by (fastforce simp: list_all_iff)
  then have shown: "includeInactive \<or> list_all (\<lambda>p. cpActive p \<and> list_all csActive (cpSkus p))
      (concat (map clItems (map page [0..<n])))"
    unfolding all by (auto simp: list_all_iff productToProto_def cloneProduct_def skuToProto_def)
  have calls: "map ?call [0..<n] = map Inr (map page [0..<n])"
    and totals: "list_all (\<lambda>page. clTotal page = int (length ?ids)) (map page [0..<n])"
    using page(1,3) by (simp_all add: list_all_iff)
  from calls all totals shown show ?thesis by (intro exI conjI)
qed

definition shelf :: CatalogRepository where
  "shelf = NewCatalogRepository 1000"

theorem catalog_pages_complete_witness:
  "\<exists>page. CatalogServer_ListProducts [1] (Some (0, 10, False)) shelf = Inr page \<and>
     map cpSpuId (clItems page) = [1] \<and> clTotal page = 1"
proof -
  have "{i. \<exists>p. crProducts shelf i = Some p \<and> (False \<or> pdActive p)} = {1}"
    by (auto simp: shelf_def NewCatalogRepository_def split: if_splits)
  then have ids: "catalog_ids False shelf = [1]" by (simp add: catalog_ids_def)
  have order: "\<forall>k :: nat. range_order [1] (crProducts shelf)"
    by (simp add: range_order_def shelf_def NewCatalogRepository_def)
  show ?thesis
    using catalog_pages_complete [of "\<lambda>_. [1]" shelf 10 1 False] order ids
    by (auto simp: productToProto_def cloneProduct_def shelf_def NewCatalogRepository_def)
qed

end
