(* ===== verification/Order_Server.thy ===== *)
theory Order_Server
  imports Order_Lifecycle Inventory Internalcall Catalog
begin

text \<open>
  services/order/internal/app: the gRPC clients of the catalog, identity and inventory
  services (clients.go), the authorization of internal calls (internal_auth.go) and the gRPC
  server (grpc_server.go). A generated client is a function from a request to its reply and
  may be missing (a nil client). The replies leave out the constant human-readable \<open>Message\<close>.
\<close>

section \<open>Clients (clients.go)\<close>

definition mapDependencyError :: "go_error \<Rightarrow> string \<Rightarrow> go_error" where
  "mapDependencyError err fallback =
     (if as_order_error err \<noteq> None then err
      else case status_code err of
        InvalidArgument \<Rightarrow> NewError CodeValidation ''downstream request invalid'' (Some err)
      | NotFound \<Rightarrow> NewError CodeNotFound ''downstream resource does not exist'' (Some err)
      | ResourceExhausted \<Rightarrow> NewError CodeOutOfStock ''out of stock'' (Some err)
      | AlreadyExists \<Rightarrow> NewError CodeConflict ''downstream conflict'' (Some err)
      | Aborted \<Rightarrow> NewError CodeConflict ''downstream conflict'' (Some err)
      | _ \<Rightarrow> NewError CodeUnavailable fallback (Some (WrapError [] err)))"

text \<open>A call through a client: no client, a mapped error, or the reply.\<close>

definition through ::
  "('req \<Rightarrow> ('e, 'resp) go) option \<Rightarrow> string \<Rightarrow> string \<Rightarrow> 'req \<Rightarrow> ('resp \<Rightarrow> 'a result) \<Rightarrow> ('e, 'a) go" where
  "through client missing fallback req reply =
     (case client of
        None \<Rightarrow> fail (NewError CodeUnavailable missing None)
      | Some rpc \<Rightarrow>
          inspect (rpc req) (\<lambda>res. case res of
             Inl err \<Rightarrow> fail (mapDependencyError err fallback)
           | Inr resp \<Rightarrow> of_result (reply resp)))"

text \<open>A nil entry of the reply is an error.\<close>

fun sku_items :: "CatalogSKUSnapshot option list \<Rightarrow> SKU list result" where
  "sku_items [] = Inr []"
| "sku_items (None # items) = Inl (NewError CodeUnavailable ''catalog returned an invalid SKU'' None)"
| "sku_items (Some i # items) =
     bind_result (sku_items items) (\<lambda>skus.
       Inr (\<lparr>skID = csSkuId i, skCode = csSkuCode i, skName = csSkuName i, skPriceCents = csPriceCents i,
             skActive = csActive i\<rparr> # skus))"

definition GRPCCatalogClient_GetSKUSnapshot ::
  "(uint64 list \<Rightarrow> ('e, CatalogSKUSnapshot option list) go) option \<Rightarrow> uint64 list \<Rightarrow> ('e, SKU list) go" where
  "GRPCCatalogClient_GetSKUSnapshot client skuIDs =
     through client ''catalog client not configured'' ''catalog temporarily unavailable'' skuIDs sku_items"

record IdentityAddressSnapshotResponse =
  iaAddressId :: uint64
  iaUserId :: uint64
  iaRecipient :: string
  iaPhone :: string
  iaProvince :: string
  iaCity :: string
  iaDistrict :: string
  iaDetail :: string

definition IdentityService_GetAddressSnapshot_FullMethodName :: string where [const_defs]:
  "IdentityService_GetAddressSnapshot_FullMethodName =
     ''/commerce.identity.v1.IdentityService/GetAddressSnapshot''"

text \<open>The call carries the signed identity of the user in its metadata.\<close>

definition GRPCIdentityClient_GetAddressSnapshot ::
  "string \<Rightarrow> time \<Rightarrow> (metadata \<times> uint64 \<times> uint64 \<Rightarrow> ('e, IdentityAddressSnapshotResponse) go) option \<Rightarrow>
   uint64 \<Rightarrow> uint64 \<Rightarrow> ('e, Address) go" where
  "GRPCIdentityClient_GetAddressSnapshot secret now client userID addressID =
     through client ''identity client not configured'' ''identity temporarily unavailable''
       (AppendUser [] secret IdentityService_GetAddressSnapshot_FullMethodName userID now, userID, addressID)
       (\<lambda>v. Inr \<lparr>adID = iaAddressId v, adUserID = iaUserId v, adRecipient = iaRecipient v,
          adPhone = iaPhone v, adProvince = iaProvince v, adCity = iaCity v,
          adDistrict = iaDistrict v, adDetail = iaDetail v\<rparr>)"

definition inventory_missing :: string where "inventory_missing = ''inventory client not configured''"
definition inventory_down :: string where "inventory_down = ''inventory temporarily unavailable''"

definition GRPCInventoryClient_Reserve ::
  "(ReserveCommand option \<Rightarrow> ('e, InventoryReservationResponse) go) option \<Rightarrow> OrderReserveCommand \<Rightarrow>
   ('e, OrderReservation) go" where
  "GRPCInventoryClient_Reserve client c =
     through client inventory_missing inventory_down
       (Some \<lparr>rcReservationID = ocReservationID c, rcOrderID = ocOrderID c, rcUserID = ocUserID c,
          rcSKUID = ocSKUID c, rcQuantity = ocQuantity c, rcMode = ocMode c\<rparr>)
       (\<lambda>resp. Inr \<lparr>orReservationID = irsReservationId resp, orOrderID = ocOrderID c, orSKUID = ocSKUID c,
          orQuantity = ocQuantity c, orStatus = irsStatus resp\<rparr>)"

definition GRPCInventoryClient_AdmitSeckill ::
  "(SeckillAdmissionCommand option \<Rightarrow> ('e, InventorySeckillAdmitResponse) go) option \<Rightarrow>
   OrderReserveCommand \<Rightarrow> ('e, OrderReservation) go" where
  "GRPCInventoryClient_AdmitSeckill client c =
     through client inventory_missing inventory_down
       (Some \<lparr>saRequestID = ocReservationID c, saActivityID = ocActivityID c, saUserID = ocUserID c,
          saSKUID = ocSKUID c, saQuantity = ocQuantity c, saOrderID = ocOrderID c\<rparr>)
       (\<lambda>resp. Inr \<lparr>orReservationID = isrAdmissionId resp, orOrderID = ocOrderID c, orSKUID = ocSKUID c,
          orQuantity = ocQuantity c, orStatus = isrStatus resp\<rparr>)"

definition GRPCInventoryClient_call ::
  "((string \<times> string) option \<Rightarrow> ('e, InventoryReservationResponse) go) option \<Rightarrow> string \<Rightarrow> string \<Rightarrow>
   ('e, unit) go" where
  "GRPCInventoryClient_call client reservationID orderID =
     through client inventory_missing inventory_down (Some (reservationID, orderID)) (\<lambda>_. Inr ())"

section \<open>Authorization (internal_auth.go)\<close>

text \<open>What a handler sees of its context: incoming metadata, the configured secret, the time.\<close>

record call_context =
  cxMetadata :: "metadata option"
  cxSecret :: string
  cxNow :: time

definition AuthorizeInternalRequest :: "call_context \<Rightarrow> string \<Rightarrow> uint64 \<Rightarrow> unit result" where
  "AuthorizeInternalRequest ctx method userID =
     AuthorizeUser (cxMetadata ctx) (TrimSpace (cxSecret ctx)) method userID (cxNow ctx)"

definition AuthorizeInternalRoleRequest ::
  "call_context \<Rightarrow> string \<Rightarrow> uint64 \<Rightarrow> string \<Rightarrow> unit result" where
  "AuthorizeInternalRoleRequest ctx method userID requiredRole =
     AuthorizeRole (cxMetadata ctx) (TrimSpace (cxSecret ctx)) method userID requiredRole (cxNow ctx)"

section \<open>Server (grpc_server.go)\<close>

definition order_method :: "string \<Rightarrow> string" where
  "order_method name = ''/commerce.order.v1.CommerceOrderService/'' @ name"

definition Order_mapError :: "go_error \<Rightarrow> go_error" where
  "Order_mapError err =
     (if ErrorCode err = CodeValidation then StatusError InvalidArgument (PublicMessage err)
      else if ErrorCode err = CodeNotFound then StatusError NotFound (PublicMessage err)
      else if ErrorCode err = CodeForbidden then StatusError PermissionDenied (PublicMessage err)
      else if ErrorCode err = CodeConflict then StatusError Aborted (PublicMessage err)
      else if ErrorCode err = CodeOutOfStock then StatusError ResourceExhausted (PublicMessage err)
      else if ErrorCode err = CodeInvalidTransition then StatusError FailedPrecondition (PublicMessage err)
      else if ErrorCode err = CodeUnavailable then StatusError Unavailable (PublicMessage err)
      else if errors_is err ContextCanceled then StatusError Canceled ''request cancelled''
      else StatusError Internal ''order service temporarily unavailable'')"

text \<open>Authorize, call the service, map its error, build the reply.\<close>

definition answer :: "('w, 'a) go \<Rightarrow> ('a \<Rightarrow> 'b) \<Rightarrow> ('w, 'b) go" where
  "answer m reply =
     inspect m (\<lambda>res. case res of Inl err \<Rightarrow> fail (Order_mapError err) | Inr v \<Rightarrow> ret (reply v))"

definition guarded :: "unit result \<Rightarrow> ('w, 'b) go \<Rightarrow> ('w, 'b) go" where
  "guarded auth m = and_then (of_result auth) (\<lambda>_. m)"

definition empty_request :: go_error where
  "empty_request = StatusError InvalidArgument ''request must not be empty''"

record OrderCreateRequest =
  qcUserId :: uint64
  qcAddressId :: uint64
  qcOrderType :: string
  qcActivityId :: uint64
  qcIdempotencyKey :: string
  qcItems :: "(uint64 \<times> int32) option list"

record OrderCreateResponse =
  pcOrderId :: string
  pcStatus :: string
  pcTotalAmountCents :: int64
  pcReused :: bool

record OrderGetResponse =
  pgOrderId :: string
  pgUserId :: uint64
  pgOrderType :: string
  pgStatus :: string
  pgTotalAmountCents :: int64

record OrderTransitionResponse =
  ptOrderId :: string
  ptStatus :: string
  ptReused :: bool

fun create_items :: "(uint64 \<times> int32) option list \<Rightarrow> CreateItem list result" where
  "create_items [] = Inr []"
| "create_items (None # items) = Inl (StatusError InvalidArgument ''order item must not be empty'')"
| "create_items (Some (sku, q) # items) =
     bind_result (create_items items) (\<lambda>rest. Inr (\<lparr>ciSKUID = sku, ciQuantity = q\<rparr> # rest))"

definition GRPCServer_Create ::
  "'e dependencies \<Rightarrow> call_context \<Rightarrow> OrderCreateRequest option \<Rightarrow> ('e world, OrderCreateResponse) go" where
  "GRPCServer_Create d ctx req =
     (case req of None \<Rightarrow> fail empty_request
      | Some q \<Rightarrow>
          guarded (AuthorizeInternalRequest ctx (order_method ''Create'') (qcUserId q))
            (and_then (of_result (create_items (qcItems q))) (\<lambda>items.
              answer (Service_Create d \<lparr>ccUserID = qcUserId q, ccAddressID = qcAddressId q,
                  ccOrderType = qcOrderType q, ccActivityID = qcActivityId q,
                  ccIdempotencyKey = qcIdempotencyKey q, ccItems = items\<rparr>)
                (\<lambda>(v, reused). \<lparr>pcOrderId = oOrderID v, pcStatus = oStatus v,
                   pcTotalAmountCents = oTotalAmountCents v, pcReused = reused\<rparr>))))"

definition orderResponse :: "Order \<Rightarrow> OrderGetResponse" where
  "orderResponse v = \<lparr>pgOrderId = oOrderID v, pgUserId = oUserID v, pgOrderType = oOrderType v,
     pgStatus = oStatus v, pgTotalAmountCents = oTotalAmountCents v\<rparr>"

definition GRPCServer_Get ::
  "call_context \<Rightarrow> (uint64 \<times> string) option \<Rightarrow> ('e world, OrderGetResponse) go" where
  "GRPCServer_Get ctx req =
     (case req of None \<Rightarrow> fail empty_request
      | Some (userId, orderId) \<Rightarrow>
          guarded (AuthorizeInternalRequest ctx (order_method ''Get'') userId)
            (answer (Service_Get userId orderId) orderResponse))"

definition GRPCServer_List ::
  "string list \<Rightarrow> call_context \<Rightarrow> (uint64 \<times> int32 \<times> int32) option \<Rightarrow>
   ('e world, OrderGetResponse list \<times> int) go" where
  "GRPCServer_List ks ctx req =
     (case req of None \<Rightarrow> fail empty_request
      | Some (userId, offset, limit) \<Rightarrow>
          guarded (AuthorizeInternalRequest ctx (order_method ''List'') userId)
            (answer (Service_List ks userId (sint offset) (sint limit))
              (\<lambda>(items, n). (map orderResponse items, n))))"

definition transition_reply :: "bool \<Rightarrow> Order \<Rightarrow> OrderTransitionResponse" where
  "transition_reply reused v = \<lparr>ptOrderId = oOrderID v, ptStatus = oStatus v, ptReused = reused\<rparr>"

definition GRPCServer_Cancel ::
  "'e dependencies \<Rightarrow> call_context \<Rightarrow> (uint64 \<times> string \<times> string) option \<Rightarrow>
   ('e world, OrderTransitionResponse) go" where
  "GRPCServer_Cancel d ctx req =
     (case req of None \<Rightarrow> fail empty_request
      | Some (userId, orderId, reason) \<Rightarrow>
          guarded (AuthorizeInternalRequest ctx (order_method ''Cancel'') userId)
            (answer (Service_Cancel d userId orderId reason) (transition_reply False)))"

text \<open>The reply of \<open>Expire\<close> is a count; an error discards it.\<close>

definition GRPCServer_Expire ::
  "'e dependencies \<Rightarrow> string list \<Rightarrow> call_context \<Rightarrow> int32 option \<Rightarrow> ('e world, int) go" where
  "GRPCServer_Expire d ks ctx req =
     guarded (AuthorizeInternalRoleRequest ctx (order_method ''Expire'') SystemActorID SystemRole)
       (\<lambda>w. let limit = (case req of Some l \<Rightarrow> if sint l > 0 then sint l else 100 | None \<Rightarrow> 100) in
         case Service_Expire d ks limit w of
           ((count, Some err), w') \<Rightarrow> (Inl (Order_mapError err), w')
         | ((count, None), w') \<Rightarrow> (Inr (sint (word_of_int count :: int32)), w'))"

definition GRPCServer_ConfirmPayment ::
  "'e dependencies \<Rightarrow> call_context \<Rightarrow> (uint64 \<times> string \<times> string \<times> string) option \<Rightarrow>
   ('e world, OrderTransitionResponse) go" where
  "GRPCServer_ConfirmPayment d ctx req =
     (case req of None \<Rightarrow> fail empty_request
      | Some (userId, orderId, paymentNo, callbackRef) \<Rightarrow>
          guarded (AuthorizeInternalRequest ctx (order_method ''ConfirmPayment'') userId)
            (answer (ConfirmPayment d userId orderId paymentNo callbackRef)
              (\<lambda>(v, reused). transition_reply reused v)))"

definition GRPCServer_Ship ::
  "call_context \<Rightarrow> (uint64 \<times> string \<times> string \<times> string) option \<Rightarrow>
   ('e world, OrderTransitionResponse) go" where
  "GRPCServer_Ship ctx req =
     (case req of None \<Rightarrow> fail empty_request
      | Some (actorId, orderId, carrier, trackingNo) \<Rightarrow>
          guarded (AuthorizeInternalRoleRequest ctx (order_method ''Ship'') actorId ''admin'')
            (answer (Service_Ship actorId orderId carrier trackingNo) (transition_reply False)))"

definition GRPCServer_ConfirmReceipt ::
  "call_context \<Rightarrow> (uint64 \<times> string) option \<Rightarrow> ('e world, OrderTransitionResponse) go" where
  "GRPCServer_ConfirmReceipt ctx req =
     (case req of None \<Rightarrow> fail empty_request
      | Some (userId, orderId) \<Rightarrow>
          guarded (AuthorizeInternalRequest ctx (order_method ''ConfirmReceipt'') userId)
            (answer (Service_ConfirmReceipt userId orderId) (transition_reply False)))"

definition GRPCServer_Refund ::
  "'e dependencies \<Rightarrow> call_context \<Rightarrow> (uint64 \<times> string \<times> string \<times> string) option \<Rightarrow>
   ('e world, OrderTransitionResponse) go" where
  "GRPCServer_Refund d ctx req =
     (case req of None \<Rightarrow> fail empty_request
      | Some (userId, orderId, refundNo, reason) \<Rightarrow>
          guarded (AuthorizeInternalRequest ctx (order_method ''Refund'') userId)
            (answer (Service_Refund d userId orderId refundNo reason) (transition_reply False)))"

end
