(* ===== verification/Order_Invariant.thy ===== *)
theory Order_Invariant
  imports Order_Lifecycle
begin

text \<open>
  What every method of the order service keeps: an order's history is a path through the
  transition table that ends in its status, its amount is the exact sum of its lines, and
  its status keeps the promises made to the inventory. The last part is proved against the
  contract of the inventory client, the locale \<open>reservation_port\<close>.
\<close>

section \<open>Well-formed orders and repositories\<close>

fun path :: "string \<Rightarrow> StatusHistory list \<Rightarrow> string \<Rightarrow> bool" where
  "path st [] goal \<longleftrightarrow> st = goal"
| "path st (h # hs) goal \<longleftrightarrow>
     shFromStatus h = st \<and> canTransition st (shToStatus h) \<and> path (shToStatus h) hs goal"

definition history_ok :: "Order \<Rightarrow> bool" where
  "history_ok v \<longleftrightarrow>
     (\<exists>h hs. oStatusHistory v = h # hs \<and> shFromStatus h = [] \<and>
        shToStatus h = StatusPendingPayment \<and> path StatusPendingPayment hs (oStatus v))"

definition line_ok :: "Item \<Rightarrow> bool" where
  "line_ok i \<longleftrightarrow> 0 \<le> sint (itUnitPriceCents i) \<and> 0 < sint (itQuantity i) \<and>
     sint (itSubtotalCents i) = sint (itUnitPriceCents i) * sint (itQuantity i)"

definition bill_ok :: "int64 \<Rightarrow> Item list \<Rightarrow> bool" where
  "bill_ok amount items \<longleftrightarrow>
     (\<forall>i \<in> set items. line_ok i) \<and>
     sint amount = (\<Sum>i\<leftarrow>items. sint (itUnitPriceCents i) * sint (itQuantity i))"

definition order_ok :: "Order \<Rightarrow> bool" where
  "order_ok v \<longleftrightarrow> history_ok v \<and> bill_ok (oTotalAmountCents v) (oItems v)"

definition repo_ok :: "MemoryRepository \<Rightarrow> bool" where
  "repo_ok r \<longleftrightarrow>
     (\<forall>k v. rpOrders r k = Some v \<longrightarrow> oOrderID v = k \<and> order_ok v) \<and>
     (\<forall>key k. rpIdempotency r key = Some k \<longrightarrow> rpOrders r k \<noteq> None)"

lemma path_snoc:
  "path st (hs @ [h]) goal \<longleftrightarrow>
     path st hs (shFromStatus h) \<and> canTransition (shFromStatus h) (shToStatus h) \<and> shToStatus h = goal"
  by (induction hs arbitrary: st) auto

lemma moved_sel [simp]:
  "oStatus (moved t r a i n v) = t" "oOrderID (moved t r a i n v) = oOrderID v"
  "oItems (moved t r a i n v) = oItems v" "oUserID (moved t r a i n v) = oUserID v"
  "oTotalAmountCents (moved t r a i n v) = oTotalAmountCents v"
  "oRequestDigest (moved t r a i n v) = oRequestDigest v"
  "oIdempotencyKey (moved t r a i n v) = oIdempotencyKey v"
  by (simp_all add: moved_def)

lemma history_ok_moved:
  "history_ok v \<Longrightarrow> canTransition (oStatus v) t \<Longrightarrow> history_ok (moved t r a i n v)"
  by (auto simp: history_ok_def moved_def path_snoc)

lemma order_ok_moved:
  "order_ok v \<Longrightarrow> canTransition (oStatus v) t \<Longrightarrow> order_ok (moved t r a i n v)"
  by (simp add: order_ok_def history_ok_moved)

section \<open>What the primitives do to the repository\<close>

lemma emit_orders:
  "emit ev r = (res, r') \<Longrightarrow>
     rpOrders r' = rpOrders r \<and> rpIdempotency r' = rpIdempotency r \<and> rpIntents r' = rpIntents r \<and>
     rpOperations r' = rpOperations r"
  by (auto simp: emit_def split: option.splits sum.splits prod.splits)

lemma Transition_cases:
  obtains (kept) res r' where "Transition oid uid target reason at aid now r = (res, r')"
      "rpOrders r' = rpOrders r" "rpIdempotency r' = rpIdempotency r"
      "\<forall>v. res = Inr v \<longrightarrow> rpOrders r oid = Some v \<and> oStatus v = target"
  | (moves) v r' where "Transition oid uid target reason at aid now r =
        (Inr (moved target reason at aid now v), r')"
      "rpOrders r oid = Some v" "canTransition (oStatus v) target"
      "rpOrders r' = (rpOrders r)(oid \<mapsto> moved target reason at aid now v)"
      "rpIdempotency r' = rpIdempotency r"
proof (cases "rpOrders r oid")
  case None
  then show ?thesis using kept by (simp add: Transition_def fail_def)
next
  case (Some v)
  show ?thesis
  proof (cases "visible uid v \<and> oStatus v \<noteq> target \<and> canTransition (oStatus v) target")
    case False
    let ?T = "Transition oid uid target reason at aid now r"
    have "snd ?T = r" "\<forall>v'. fst ?T = Inr v' \<longrightarrow> v' = v \<and> oStatus v = target"
      using False Some by (auto simp: Transition_def fail_def ret_def)
    then show ?thesis using kept [of "fst ?T" "snd ?T"] Some by (auto simp: prod_eq_iff)
  next
    case True
    let ?m = "if target = StatusCanceled then emit (order_cancelled_event v reason now) else ret ()"
    obtain res r1 where m: "?m r = (res, r1)" by (cases "?m r")
    then have r1: "rpOrders r1 = rpOrders r" "rpIdempotency r1 = rpIdempotency r"
      using emit_orders by (auto simp: ret_def split: if_splits)
    have T: "Transition oid uid target reason at aid now r =
      (and_then ?m (\<lambda>_. and_then (put_order oid (moved target reason at aid now v)) (\<lambda>_.
         ret (moved target reason at aid now v)))) r"
      using Some True by (simp add: Transition_def)
    show ?thesis
    proof (cases res)
      case (Inl e)
      then show ?thesis using kept T m r1 by (simp add: and_then_def)
    next
      case (Inr u)
      then show ?thesis
        using moves [of v "r1\<lparr>rpOrders := (rpOrders r1)(oid \<mapsto> moved target reason at aid now v)\<rparr>"]
          T m r1 Some True by (simp add: and_then_def put_order_def modify_state_def ret_def)
    qed
  qed
qed

lemma Repository_Create_cases:
  obtains (kept) res r' where "Repository_Create v r = (res, r')" "rpOrders r' = rpOrders r"
      "rpIdempotency r' = rpIdempotency r"
  | (adds) r' where "Repository_Create v r = (Inr (v, False), r')"
      "rpOrders r' = (rpOrders r)(oOrderID v \<mapsto> v)"
      "rpIdempotency r' = (rpIdempotency r)(idempotencyKey (oUserID v) (oIdempotencyKey v) \<mapsto> oOrderID v)"
      "rpIdempotency r (idempotencyKey (oUserID v) (oIdempotencyKey v)) = None"
proof (cases "rpIdempotency r (idempotencyKey (oUserID v) (oIdempotencyKey v))")
  case (Some k)
  then have "snd (Repository_Create v r) = r"
    by (simp add: Repository_Create_def fail_def ret_def Let_def)
  then show ?thesis using kept [of "fst (Repository_Create v r)" r] by (simp add: prod_eq_iff)
next
  case None
  obtain res r1 where m: "emit (order_created_event v) r = (res, r1)"
    by (cases "emit (order_created_event v) r")
  note r1 = emit_orders [OF m]
  show ?thesis
  proof (cases res)
    case (Inl e)
    then show ?thesis using kept None m r1 by (simp add: Repository_Create_def and_then_def Let_def)
  next
    case (Inr u)
    then show ?thesis
      using adds None m r1
      by (simp add: Repository_Create_def and_then_def Let_def put_order_def modify_state_def ret_def)
  qed
qed

text \<open>Everything else leaves orders and idempotency records alone.\<close>

definition same_orders :: "MemoryRepository \<Rightarrow> MemoryRepository \<Rightarrow> bool" where
  "same_orders r r' \<longleftrightarrow> rpOrders r' = rpOrders r \<and> rpIdempotency r' = rpIdempotency r"

lemma bookkeeping_same_orders:
  "same_orders r (snd (SaveOperation op r))" "same_orders r (snd (UpdateOperation op r))"
  "same_orders r (snd (SaveCreateIntent i r))" "same_orders r (snd (UpdateCreateIntent i r))"
  "same_orders r (snd (FindByIdempotency u k r))" "same_orders r (snd (FindCreateIntent u k r))"
  "same_orders r (snd (Repository_Get u oid r))" "same_orders r (snd (ListExpired ks now n r))"
  "same_orders r (snd (ListPendingOperations ks now n r))"
  "same_orders r (snd (ListPendingCreateIntents ks now n r))"
  "same_orders r (snd (Repository_List ks u off n r))"
  by (simp_all add: same_orders_def SaveOperation_def UpdateOperation_def put_operation_def
      SaveCreateIntent_def UpdateCreateIntent_def put_intent_def FindByIdempotency_def
      FindCreateIntent_def Repository_Get_def ListExpired_def ListPendingOperations_def
      ListPendingCreateIntents_def Repository_List_def read_state_def modify_state_def ret_def fail_def
      split: option.split)

lemma repo_ok_same: "repo_ok r \<Longrightarrow> same_orders r r' \<Longrightarrow> repo_ok r'"
  by (simp add: repo_ok_def same_orders_def)

lemma repo_ok_Transition:
  assumes "repo_ok r"
  shows "repo_ok (snd (Transition oid uid target reason at aid now r))"
proof (rule Transition_cases [of oid uid target reason at aid now r], goal_cases kept moves)
  case (kept res r')
  then show ?thesis using assms by (simp add: repo_ok_def)
next
  case (moves v r')
  then show ?thesis using assms by (auto simp: repo_ok_def intro: order_ok_moved)
qed

lemma repo_ok_Create:
  assumes "repo_ok r" and "order_ok v"
  shows "repo_ok (snd (Repository_Create v r))"
proof (rule Repository_Create_cases [of v r], goal_cases kept adds)
  case (kept res r')
  then show ?thesis using assms by (simp add: repo_ok_def)
next
  case (adds r')
  then show ?thesis using assms by (auto simp: repo_ok_def)
qed

section \<open>The contract of the inventory client\<close>

text \<open>
  A call of a client keeps what is known of reservations: a released one stays released, a
  settled one (its stock is sold, and maybe came back by a refund) stays settled, a
  restocked one stays restocked.
\<close>

definition keeps ::
  "('e \<Rightarrow> bool) \<Rightarrow> ('e \<Rightarrow> string \<Rightarrow> bool) \<Rightarrow> ('e \<Rightarrow> string \<Rightarrow> bool) \<Rightarrow> ('e \<Rightarrow> string \<Rightarrow> bool) \<Rightarrow>
   ('e, 'a) go \<Rightarrow> bool" where
  "keeps env_ok released settled restocked m \<longleftrightarrow>
     (\<forall>e. env_ok e \<longrightarrow> env_ok (snd (m e)) \<and>
        (\<forall>rid. (released e rid \<longrightarrow> released (snd (m e)) rid) \<and>
           (settled e rid \<longrightarrow> settled (snd (m e)) rid) \<and>
           (restocked e rid \<longrightarrow> restocked (snd (m e)) rid)))"

text \<open>What the status of an order promises about its reservations.\<close>

definition promises ::
  "('e \<Rightarrow> string \<Rightarrow> bool) \<Rightarrow> ('e \<Rightarrow> string \<Rightarrow> bool) \<Rightarrow> ('e \<Rightarrow> string \<Rightarrow> bool) \<Rightarrow>
   'e \<Rightarrow> string \<Rightarrow> Item list \<Rightarrow> bool" where
  "promises released settled restocked e st items \<longleftrightarrow>
     (\<forall>i \<in> set items.
        (st = StatusCanceled \<longrightarrow> released e (itReservationID i)) \<and>
        (st \<in> {StatusPaid, StatusShipped, StatusCompleted, StatusRefundPending} \<longrightarrow>
           settled e (itReservationID i)) \<and>
        (st = StatusRefunded \<longrightarrow> restocked e (itReservationID i)))"

definition sound_world ::
  "('e \<Rightarrow> bool) \<Rightarrow> ('e \<Rightarrow> string \<Rightarrow> bool) \<Rightarrow> ('e \<Rightarrow> string \<Rightarrow> bool) \<Rightarrow> ('e \<Rightarrow> string \<Rightarrow> bool) \<Rightarrow>
   'e world \<Rightarrow> bool" where
  "sound_world env_ok released settled restocked w \<longleftrightarrow>
     repo_ok (wRepo w) \<and> env_ok (wEnv w) \<and>
     (\<forall>k v. rpOrders (wRepo w) k = Some v \<longrightarrow>
        promises released settled restocked (wEnv w) (oStatus v) (oItems v))"

locale reservation_port =
  fixes d :: "'e dependencies" and env_ok :: "'e \<Rightarrow> bool"
    and released settled restocked :: "'e \<Rightarrow> string \<Rightarrow> bool"
  assumes reads_keep:
      "keeps env_ok released settled restocked (GetSKUSnapshot d ids)"
      "keeps env_ok released settled restocked (GetAddressSnapshot d u a)"
    and writes_keep:
      "keeps env_ok released settled restocked (inv_Reserve d c)"
      "keeps env_ok released settled restocked (inv_AdmitSeckill d c)"
      "keeps env_ok released settled restocked (inv_Confirm d rid oid)"
      "keeps env_ok released settled restocked (inv_Release d rid oid)"
      "keeps env_ok released settled restocked (inv_Restock d rid oid)"
    and release_ok: "env_ok e \<Longrightarrow> inv_Release d rid oid e = (Inr (), e') \<Longrightarrow> released e' rid"
    and confirm_ok: "env_ok e \<Longrightarrow> inv_Confirm d rid oid e = (Inr (), e') \<Longrightarrow> settled e' rid"
    and restock_ok: "env_ok e \<Longrightarrow> inv_Restock d rid oid e = (Inr (), e') \<Longrightarrow> restocked e' rid"
begin

abbreviation sound :: "'e world \<Rightarrow> bool" where
  "sound \<equiv> sound_world env_ok released settled restocked"

lemma promises_kept:
  "keeps env_ok released settled restocked m \<Longrightarrow> env_ok e \<Longrightarrow>
   promises released settled restocked e st items \<Longrightarrow>
   promises released settled restocked (snd (m e)) st items"
  by (auto simp: keeps_def promises_def)

lemma sound_env:
  assumes "keeps env_ok released settled restocked m"
  shows "preserves sound (on_env m)"
proof (rule preservesI)
  fix w assume "sound w"
  then show "sound (snd (on_env m w))"
    using assms promises_kept [OF assms]
    by (auto simp: sound_world_def on_env_def keeps_def split: prod.split) (metis snd_conv)+
qed

lemmas sound_calls [pres_intros] = reads_keep [THEN sound_env] writes_keep [THEN sound_env]

lemma sound_repo:
  assumes "\<And>r. same_orders r (snd (m r))"
  shows "preserves sound (on_repo m)"
proof (rule preservesI)
  fix w assume w: "sound w"
  obtain res r where m: "m (wRepo w) = (res, r)" by (cases "m (wRepo w)")
  with assms [of "wRepo w"] have r: "same_orders (wRepo w) r" by simp
  then have "repo_ok r" using w repo_ok_same by (auto simp: sound_world_def)
  with w r show "sound (snd (on_repo m w))" by (simp add: sound_world_def on_repo_def m same_orders_def)
qed

lemmas sound_books [pres_intros] = bookkeeping_same_orders [THEN sound_repo]

lemma sound_now [pres_intros]: "preserves sound service_now"
  by (simp add: preserves_def service_now_def sound_world_def)

lemma sound_ignore [pres_intros]: "preserves sound m \<Longrightarrow> preserves sound (ignore_error m)"
  unfolding ignore_error_def by (intro pres_intros)

lemma sound_save [pres_intros]:
  "preserves sound (saveOperation op)" "preserves sound (save_pending kind oid rid err)"
  unfolding saveOperation_def save_pending_def by (intro pres_intros)+

text \<open>A transition is sound when its target's promises hold already.\<close>

lemma sound_Transition:
  assumes w: "sound w"
    and new: "\<And>v. rpOrders (wRepo w) oid = Some v \<Longrightarrow> canTransition (oStatus v) target \<Longrightarrow>
      promises released settled restocked (wEnv w) target (oItems v)"
  shows "sound (snd (on_repo (Transition oid uid target reason at aid now) w))"
proof -
  let ?T = "Transition oid uid target reason at aid now (wRepo w)"
  have "repo_ok (snd ?T)" using w by (auto simp: sound_world_def intro: repo_ok_Transition)
  moreover have "promises released settled restocked (wEnv w) (oStatus v) (oItems v)"
    if "rpOrders (snd ?T) k = Some v" for k v
    using that
  proof (rule_tac Transition_cases [of oid uid target reason at aid now "wRepo w"], goal_cases kept moves)
    case (kept res r')
    then show ?case using w that by (auto simp: sound_world_def)
  next
    case (moves u r')
    then show ?case using w that new [of u] by (auto simp: sound_world_def split: if_splits)
  qed
  ultimately show ?thesis using w by (simp add: sound_world_def on_repo_def split_beta)
qed

lemma promises_follow:
  assumes "promises released settled restocked e st items" and "canTransition st target"
    and "target \<in> {StatusShipped, StatusCompleted, StatusRefundPending}"
  shows "promises released settled restocked e target items"
  using assms by (auto simp: promises_def canTransition_def split: if_splits)

lemma sound_follow [pres_intros]:
  assumes "target \<in> {StatusShipped, StatusCompleted, StatusRefundPending}"
  shows "preserves sound (transition_now oid uid target reason at aid)"
  unfolding transition_now_def
proof (intro pres_intros preservesI)
  fix now w assume w: "sound w"
  show "sound (snd (on_repo (Transition oid uid target reason at aid now) w))"
  proof (rule sound_Transition [OF w])
    fix v assume "rpOrders (wRepo w) oid = Some v" "canTransition (oStatus v) target"
    then show "promises released settled restocked (wEnv w) target (oItems v)"
      using w promises_follow [OF _ _ assms] unfolding sound_world_def by blast
  qed
qed

lemma sound_finish:
  assumes w: "sound w" and k: "rpOrders (wRepo w) k = Some v" "oOrderID v = k"
    and m: "promises released settled restocked (wEnv w) target (oItems v)"
  shows "sound (snd (transition_now k uid target reason at aid w))"
proof -
  let ?w = "w\<lparr>wNow := stl (wNow w)\<rparr>"
  have "sound ?w" using w by (simp add: sound_world_def)
  then have "sound (snd (on_repo (Transition k uid target reason at aid (shd (wNow w))) ?w))"
    by (rule sound_Transition) (use k m in auto)
  then show ?thesis by (simp add: transition_now_def and_then_def service_now_def)
qed

text \<open>
  Between reading an order and moving it, the methods only call clients and keep books: the
  orders stay as they are, and so does every stable fact about the environment.
\<close>

definition stable :: "('e \<Rightarrow> bool) \<Rightarrow> bool" where
  "stable R \<longleftrightarrow> (\<forall>e e'. R e \<longrightarrow> (\<forall>rid. (released e rid \<longrightarrow> released e' rid) \<and>
     (settled e rid \<longrightarrow> settled e' rid) \<and> (restocked e rid \<longrightarrow> restocked e' rid)) \<longrightarrow> R e')"

lemma stable_facts:
  "stable (\<lambda>_. True)" "stable (\<lambda>e. released e rid)" "stable (\<lambda>e. settled e rid)"
  "stable (\<lambda>e. restocked e rid)"
  by (simp_all add: stable_def)

abbreviation steady :: "('e \<Rightarrow> bool) \<Rightarrow> (string \<rightharpoonup> Order) \<Rightarrow> 'e world \<Rightarrow> bool" where
  "steady R orders w \<equiv> sound w \<and> R (wEnv w) \<and> rpOrders (wRepo w) = orders"

lemma steady_env:
  assumes m: "keeps env_ok released settled restocked m" and R: "stable R"
  shows "preserves (steady R orders) (on_env m)"
proof (rule preservesI)
  fix w assume w: "steady R orders w"
  obtain res e where me: "m (wEnv w) = (res, e)" by (cases "m (wEnv w)")
  have "sound (snd (on_env m w))"
    using sound_env [OF m] w by (simp add: preserves_def)
  moreover have "R e"
    using R m w me by (auto simp: stable_def keeps_def sound_world_def)
  ultimately show "steady R orders (snd (on_env m w))"
    using w me by (simp add: on_env_def)
qed

lemma steady_repo:
  assumes "\<And>r. same_orders r (snd (m r))"
  shows "preserves (steady R orders) (on_repo m)"
proof (rule preservesI)
  fix w assume w: "steady R orders w"
  moreover have "sound (snd (on_repo m w))"
    using sound_repo [OF assms] w by (simp add: preserves_def)
  moreover have "same_orders (wRepo w) (snd (m (wRepo w)))" by (rule assms)
  ultimately show "steady R orders (snd (on_repo m w))"
    by (simp add: on_repo_def same_orders_def split_beta)
qed

lemma steady_now: "preserves (steady R orders) service_now"
  using sound_now by (simp add: preserves_def service_now_def)

lemmas steady_books = bookkeeping_same_orders [THEN steady_repo]

lemma steady_save:
  "preserves (steady R orders) (saveOperation op)"
  "preserves (steady R orders) (save_pending kind oid rid err)"
  unfolding saveOperation_def save_pending_def ignore_error_def
  by (intro pres_intros steady_books steady_now)+

lemmas steady_intros = steady_now steady_save steady_books

lemma steady_release: "stable R \<Longrightarrow> preserves (steady R orders) (release_items d oid items)"
  by (induction items) (simp_all, (intro pres_intros steady_intros steady_env writes_keep; assumption?)+)

lemma steady_confirm: "stable R \<Longrightarrow> preserves (steady R orders) (confirm_items d oid items)"
  by (induction items) (simp_all, (intro pres_intros steady_intros steady_env writes_keep; assumption?)+)

lemma steady_confirm_all: "stable R \<Longrightarrow> preserves (steady R orders) (confirm_all d oid items)"
  by (induction items) (simp_all, (intro pres_intros steady_intros steady_env writes_keep; assumption?)+)

lemma steady_restock: "stable R \<Longrightarrow> preserves (steady R orders) (restock_items d oid items)"
  by (induction items) (simp_all, (intro pres_intros steady_intros steady_env writes_keep; assumption?)+)

lemma steady_compensate: "stable R \<Longrightarrow> preserves (steady R orders) (compensate d oid reservations)"
  by (induction reservations) (simp_all, (intro pres_intros steady_intros steady_env writes_keep; assumption?)+)

text \<open>A loop that succeeds has done its work on every item, and it stays done.\<close>

lemma loop_done:
  assumes step: "\<And>i items w. sound w \<Longrightarrow> loop (i # items) w = (Inr (), w') \<Longrightarrow>
      \<exists>w1. sound w1 \<and> R i (wEnv w1) \<and> loop items w1 = (Inr (), w')"
    and still: "\<And>i items orders. preserves (steady (R i) orders) (loop items)"
    and "sound w" and "loop items w = (Inr (), w')"
  shows "\<forall>i \<in> set items. R i (wEnv w')"
  using assms(3,4)
proof (induction items arbitrary: w)
  case (Cons i items)
  then obtain w1 where w1: "sound w1" "R i (wEnv w1)" "loop items w1 = (Inr (), w')"
    using step by blast
  then have "R i (wEnv w')"
    using preservesD [OF still [of i "rpOrders (wRepo w1)"] _ w1(3)] by simp
  with Cons.IH [OF w1(1,3)] show ?case by simp
qed simp

lemma sound_call:
  "keeps env_ok released settled restocked m \<Longrightarrow> sound w \<Longrightarrow> m (wEnv w) = (res, e) \<Longrightarrow>
   sound (w\<lparr>wEnv := e\<rparr>)"
  using preservesD [OF sound_env, of m w res "w\<lparr>wEnv := e\<rparr>"] by (simp add: on_env_def)

lemma sound_env_ok: "sound w \<Longrightarrow> env_ok (wEnv w)"
  by (simp add: sound_world_def)

lemma release_items_done:
  assumes "sound w" and "release_items d oid items w = (Inr (), w')"
  shows "\<forall>i \<in> set items. released (wEnv w') (itReservationID i)"
proof (rule loop_done [where loop = "release_items d oid"
      and R = "\<lambda>i e. released e (itReservationID i)", OF _ _ assms])
  fix i items w assume w: "sound w" and run: "release_items d oid (i # items) w = (Inr (), w')"
  from run obtain e where e: "inv_Release d (itReservationID i) oid (wEnv w) = (Inr (), e)"
      and rest: "release_items d oid items (w\<lparr>wEnv := e\<rparr>) = (Inr (), w')"
    by (auto simp: inspect_def on_env_def and_then_def fail_def split: prod.splits sum.splits)
  show "\<exists>w1. sound w1 \<and> released (wEnv w1) (itReservationID i) \<and>
      release_items d oid items w1 = (Inr (), w')"
    using sound_call [OF writes_keep(4) w e] release_ok [OF sound_env_ok [OF w] e] rest
    by (intro exI [of _ "w\<lparr>wEnv := e\<rparr>"]) simp
qed (rule steady_release [OF stable_facts(2)])

lemma confirm_items_done:
  assumes "sound w" and "confirm_items d oid items w = (Inr (), w')"
  shows "\<forall>i \<in> set items. settled (wEnv w') (itReservationID i)"
proof (rule loop_done [where loop = "confirm_items d oid"
      and R = "\<lambda>i e. settled e (itReservationID i)", OF _ _ assms])
  fix i items w assume w: "sound w" and run: "confirm_items d oid (i # items) w = (Inr (), w')"
  from run obtain e where e: "inv_Confirm d (itReservationID i) oid (wEnv w) = (Inr (), e)"
      and rest: "confirm_items d oid items (w\<lparr>wEnv := e\<rparr>) = (Inr (), w')"
    by (auto simp: inspect_def on_env_def and_then_def fail_def split: prod.splits sum.splits)
  show "\<exists>w1. sound w1 \<and> settled (wEnv w1) (itReservationID i) \<and>
      confirm_items d oid items w1 = (Inr (), w')"
    using sound_call [OF writes_keep(3) w e] confirm_ok [OF sound_env_ok [OF w] e] rest
    by (intro exI [of _ "w\<lparr>wEnv := e\<rparr>"]) simp
qed (rule steady_confirm [OF stable_facts(3)])

lemma confirm_all_done:
  assumes "sound w" and "confirm_all d oid items w = (Inr (), w')"
  shows "\<forall>i \<in> set items. settled (wEnv w') (itReservationID i)"
proof (rule loop_done [where loop = "confirm_all d oid"
      and R = "\<lambda>i e. settled e (itReservationID i)", OF _ _ assms])
  fix i items w assume w: "sound w" and run: "confirm_all d oid (i # items) w = (Inr (), w')"
  from run obtain e where e: "inv_Confirm d (itReservationID i) oid (wEnv w) = (Inr (), e)"
      and rest: "confirm_all d oid items (w\<lparr>wEnv := e\<rparr>) = (Inr (), w')"
    by (auto simp: on_env_def and_then_def split: prod.splits sum.splits)
  show "\<exists>w1. sound w1 \<and> settled (wEnv w1) (itReservationID i) \<and>
      confirm_all d oid items w1 = (Inr (), w')"
    using sound_call [OF writes_keep(3) w e] confirm_ok [OF sound_env_ok [OF w] e] rest
    by (intro exI [of _ "w\<lparr>wEnv := e\<rparr>"]) simp
qed (rule steady_confirm_all [OF stable_facts(3)])

lemma restock_items_done:
  assumes "sound w" and "restock_items d oid items w = (Inr (), w')"
  shows "\<forall>i \<in> set items. restocked (wEnv w') (itReservationID i)"
proof (rule loop_done [where loop = "restock_items d oid"
      and R = "\<lambda>i e. restocked e (itReservationID i)", OF _ _ assms])
  fix i items w assume w: "sound w" and run: "restock_items d oid (i # items) w = (Inr (), w')"
  from run obtain e where e: "inv_Restock d (itReservationID i) oid (wEnv w) = (Inr (), e)"
      and "and_then service_now (\<lambda>now. and_then (saveOperation (done_operation ''restock'' oid
        (itReservationID i) now)) (\<lambda>_. restock_items d oid items)) (w\<lparr>wEnv := e\<rparr>) = (Inr (), w')"
    by (auto simp: inspect_def on_env_def and_then_def [of "save_pending _ _ _ _"] fail_def
        split: prod.splits sum.splits)
  then obtain now w1 w2 where n: "service_now (w\<lparr>wEnv := e\<rparr>) = (Inr now, w1)"
      and sv: "saveOperation (done_operation ''restock'' oid (itReservationID i) now) w1 = (Inr (), w2)"
      and rest: "restock_items d oid items w2 = (Inr (), w')"
    by (auto elim!: and_then_InrE)
  have st: "steady (\<lambda>e. restocked e (itReservationID i)) (rpOrders (wRepo w)) (w\<lparr>wEnv := e\<rparr>)"
    using sound_call [OF writes_keep(5) w e] restock_ok [OF sound_env_ok [OF w] e] by simp
  let ?R = "\<lambda>e. restocked e (itReservationID i)"
  have "steady ?R (rpOrders (wRepo w)) w1"
    by (rule preservesD [OF steady_now [where R = ?R] st n])
  from preservesD [OF steady_save(1) [where R = ?R] this sv] rest
  show "\<exists>w1. sound w1 \<and> restocked (wEnv w1) (itReservationID i) \<and>
      restock_items d oid items w1 = (Inr (), w')" by blast
qed (rule steady_restock [OF stable_facts(4)])

section \<open>Every method is sound\<close>

lemma Repository_Get_run:
  "on_repo (Repository_Get u k) w = (Inr v, w') \<Longrightarrow> w' = w \<and> rpOrders (wRepo w) k = Some v"
  by (auto simp: on_repo_def Repository_Get_def fail_def ret_def split: option.splits if_splits)

lemma sound_Get: "on_repo (Repository_Get u k) w = (Inr v, w') \<Longrightarrow> sound w \<Longrightarrow>
   w' = w \<and> rpOrders (wRepo w) (oOrderID v) = Some v \<and> k = oOrderID v"
  using Repository_Get_run [of u k w v w'] by (auto simp: sound_world_def repo_ok_def)

text \<open>The shape shared by cancelling, paying and refunding: read, work through the items, move.\<close>

lemma sound_read_work_move:
  assumes work: "\<And>v w w'. sound w \<Longrightarrow> loop v w = (Inr (), w') \<Longrightarrow>
      promises released settled restocked (wEnv w') target (oItems v)"
    and steady: "\<And>v orders. preserves (steady (\<lambda>_. True) orders) (loop v)"
    and w: "sound w" and u: "rpOrders (wRepo w) (oOrderID v) = Some u" "oItems u = oItems v"
  shows "sound (snd (and_then (loop v) (\<lambda>_. transition_now (oOrderID v) uid target reason at aid) w))"
proof -
  obtain res w1 where run: "loop v w = (res, w1)" by (cases "loop v w")
  have w1: "sound w1" "rpOrders (wRepo w1) (oOrderID v) = Some u"
    using preservesD [OF steady _ run, of "rpOrders (wRepo w)"] w u by simp_all
  show ?thesis
  proof (cases res)
    case (Inl e)
    then show ?thesis using run w1 by (simp add: and_then_def)
  next
    case (Inr x)
    then have "promises released settled restocked (wEnv w1) target (oItems u)"
      using work [OF w] run u(2) by simp
    moreover have "oOrderID u = oOrderID v" using w1 by (simp add: sound_world_def repo_ok_def)
    ultimately show ?thesis using sound_finish [OF w1] Inr run by (simp add: and_then_def)
  qed
qed

lemma promises_intro:
  "\<forall>i \<in> set items. released e (itReservationID i) \<Longrightarrow>
     promises released settled restocked e StatusCanceled items"
  "\<forall>i \<in> set items. settled e (itReservationID i) \<Longrightarrow>
     promises released settled restocked e StatusPaid items"
  "\<forall>i \<in> set items. restocked e (itReservationID i) \<Longrightarrow>
     promises released settled restocked e StatusRefunded items"
  by (simp_all add: promises_def)

lemma sound_cancel_tail:
  "sound w \<Longrightarrow> rpOrders (wRepo w) (oOrderID v) = Some v \<Longrightarrow>
   sound (snd (and_then (release_items d (oOrderID v) (oItems v))
     (\<lambda>_. transition_now (oOrderID v) uid StatusCanceled reason at aid) w))"
  by (rule sound_read_work_move [where loop = "\<lambda>v. release_items d (oOrderID v) (oItems v)"])
    (rule promises_intro(1), erule (1) release_items_done, rule steady_release [OF stable_facts(1)],
      assumption+, rule refl)

lemma sound_payment_tail:
  "sound w \<Longrightarrow> rpOrders (wRepo w) (oOrderID v) = Some v \<Longrightarrow>
   sound (snd (and_then (confirm_items d (oOrderID v) (oItems v))
     (\<lambda>_. transition_now (oOrderID v) uid StatusPaid reason at aid) w))"
  by (rule sound_read_work_move [where loop = "\<lambda>v. confirm_items d (oOrderID v) (oItems v)"])
    (rule promises_intro(2), erule (1) confirm_items_done, rule steady_confirm [OF stable_facts(1)],
      assumption+, rule refl)

lemma sound_retry_payment_tail:
  "sound w \<Longrightarrow> rpOrders (wRepo w) (oOrderID v) = Some v \<Longrightarrow>
   sound (snd (and_then (confirm_all d (oOrderID v) (oItems v))
     (\<lambda>_. transition_now (oOrderID v) uid StatusPaid reason at aid) w))"
  by (rule sound_read_work_move [where loop = "\<lambda>v. confirm_all d (oOrderID v) (oItems v)"])
    (rule promises_intro(2), erule (1) confirm_all_done, rule steady_confirm_all [OF stable_facts(1)],
      assumption+, rule refl)

lemma sound_refund_tail:
  "sound w \<Longrightarrow> rpOrders (wRepo w) (oOrderID v) = Some u \<Longrightarrow> oItems u = oItems v \<Longrightarrow>
   sound (snd (and_then (restockItems d v)
     (\<lambda>_. transition_now (oOrderID v) uid StatusRefunded reason at aid) w))"
  unfolding restockItems_def
  by (rule sound_read_work_move [where loop = "\<lambda>v. restock_items d (oOrderID v) (oItems v)"])
    (rule promises_intro(3), erule (1) restock_items_done, rule steady_restock [OF stable_facts(1)], assumption+)

text \<open>Reading an order and going on with it.\<close>

lemma sound_with_order:
  assumes "\<And>w v. sound w \<Longrightarrow> rpOrders (wRepo w) (oOrderID v) = Some v \<Longrightarrow> sound (snd (f v w))"
  shows "preserves sound (and_then (on_repo (Repository_Get u k)) f)"
proof (rule preservesI)
  fix w assume w: "sound w"
  obtain res w1 where g: "on_repo (Repository_Get u k) w = (res, w1)"
    by (cases "on_repo (Repository_Get u k) w")
  show "sound (snd (and_then (on_repo (Repository_Get u k)) f w))"
  proof (cases res)
    case (Inl e)
    moreover have "sound w1" using preservesD [OF sound_books(7) w g] .
    ultimately show ?thesis using g by (simp add: and_then_def)
  next
    case (Inr v)
    then show ?thesis using sound_Get [of u k w v w1] assms [of w v] g w by (simp add: and_then_def)
  qed
qed

lemma and_then_assoc:
  "and_then (and_then m f) g = and_then m (\<lambda>x. and_then (f x) g)"
  by (rule ext) (simp add: and_then_def split: prod.split sum.split)

lemma and_then_ret_snd: "snd (and_then m (\<lambda>x. ret (f x)) w) = snd (m w)"
  by (simp add: and_then_def ret_def split: prod.split sum.split)

lemma sound_cancel: "preserves sound (cancel d u k reason at aid)"
  unfolding cancel_def
  by (intro pres_intros sound_with_order) (auto simp: ret_def intro: sound_cancel_tail)

lemma sound_ConfirmPayment: "preserves sound (ConfirmPayment d u k pno cb)"
  unfolding ConfirmPayment_def
  by (intro pres_intros sound_with_order)
    (auto simp: ret_def fail_def and_then_assoc [symmetric] and_then_ret_snd intro: sound_payment_tail)

lemma sound_finalize:
  "preserves sound (finalizePendingPayment d k)" "preserves sound (finalizePendingRefund d k)"
  unfolding finalizePendingPayment_def finalizePendingRefund_def
  by (intro pres_intros sound_with_order;
      auto simp: ret_def and_then_assoc [symmetric] and_then_ret_snd
        intro: sound_retry_payment_tail sound_refund_tail)+

lemma sound_finalizePendingCancellation: "preserves sound (finalizePendingCancellation d k)"
proof (rule preservesI)
  fix w assume w: "sound w"
  obtain res w1 where g: "on_repo (Repository_Get 0 k) w = (res, w1)"
    by (cases "on_repo (Repository_Get 0 k) w")
  show "sound (snd (finalizePendingCancellation d k w))"
  proof (cases res)
    case (Inl e)
    moreover have "sound w1" using preservesD [OF sound_books(7) w g] .
    ultimately show ?thesis
      using g by (simp add: finalizePendingCancellation_def inspect_def ret_def fail_def)
  next
    case (Inr v)
    then show ?thesis
      using sound_Get [of 0 k w v w1] g w sound_cancel_tail [of w v]
      by (simp add: finalizePendingCancellation_def inspect_def ret_def
          and_then_assoc [symmetric] and_then_ret_snd)
  qed
qed

lemma transition_items:
  assumes "transition_now k uid target reason at aid w = (res, w')" and "rpOrders (wRepo w) k = Some v"
  shows "\<exists>u. rpOrders (wRepo w') k = Some u \<and> oItems u = oItems v"
proof -
  let ?w = "w\<lparr>wNow := stl (wNow w)\<rparr>"
  have "on_repo (Transition k uid target reason at aid (shd (wNow w))) ?w = (res, w')"
    using assms(1) by (simp add: transition_now_def and_then_def service_now_def)
  then have w': "wRepo w' = snd (Transition k uid target reason at aid (shd (wNow w)) (wRepo w))"
    by (auto simp: on_repo_def split: prod.splits)
  show ?thesis
    by (rule Transition_cases [of k uid target reason at aid "shd (wNow w)" "wRepo w"])
      (use w' assms(2) in auto)
qed

lemma sound_refund_pending:
  assumes w: "sound w" and v: "rpOrders (wRepo w) (oOrderID v) = Some v"
  shows "sound (snd (and_then (and_then (transition_now (oOrderID v) uid StatusRefundPending r1 a1 i1)
      (\<lambda>_. ret (v\<lparr>oStatus := StatusRefundPending\<rparr>))) (\<lambda>v.
      if oStatus v = StatusRefundPending
      then and_then (restockItems d v) (\<lambda>_. transition_now (oOrderID v) uid StatusRefunded r2 a2 i2)
      else fail e) w))"
proof -
  let ?t = "transition_now (oOrderID v) uid StatusRefundPending r1 a1 i1"
  let ?v = "v\<lparr>oStatus := StatusRefundPending\<rparr>"
  obtain res w1 where t: "?t w = (res, w1)" by (cases "?t w")
  have "preserves sound ?t" by (rule sound_follow) simp
  then have w1: "sound w1" using w t by (rule preservesD)
  obtain u where u: "rpOrders (wRepo w1) (oOrderID ?v) = Some u" "oItems u = oItems ?v"
    using transition_items [OF t v] by auto
  show ?thesis
    using t w1 sound_refund_tail [OF w1 u] by (cases res) (simp_all add: and_then_def [of "and_then ?t _"]
      and_then_def [of ?t] ret_def)
qed

lemma sound_Refund: "preserves sound (Service_Refund d uid k rno reason)"
  unfolding Service_Refund_def
proof (intro preserves_if sound_with_order pres_intros, goal_cases)
  case (1 w v)
  then show ?case
    using sound_refund_pending [OF 1] sound_refund_tail [OF 1]
    by (simp add: ret_def fail_def and_then_def [of "ret _"])
qed

lemma sound_shipping:
  "preserves sound (Service_Ship aid k carrier tno)" "preserves sound (Service_ConfirmReceipt uid k)"
  "preserves sound (ApplyShipmentCreated k carrier tno)" "preserves sound (ApplyShipmentDelivered k)"
  unfolding Service_Ship_def Service_ConfirmReceipt_def ApplyShipmentCreated_def
    ApplyShipmentDelivered_def
  by (intro pres_intros; simp)+

lemma sound_reading:
  "preserves sound (Service_Get uid k)" "preserves sound (Service_List ks uid off lim)"
  unfolding Service_Get_def Service_List_def by (intro pres_intros)+

lemma sound_Cancel: "preserves sound (Service_Cancel d uid k reason)"
  unfolding Service_Cancel_def by (intro pres_intros sound_cancel)

text \<open>The workers, which return a count beside the error.\<close>

lemma sound_Expire: "sound w \<Longrightarrow> sound (snd (Service_Expire d ks lim w))"
  by (rule Expire_keeps [OF sound_cancel sound_books(8) sound_now])

lemma sound_finalize_operation: "preserves sound (finalize_operation d op)"
  unfolding finalize_operation_def
  by (intro pres_intros sound_finalize sound_finalizePendingCancellation)

lemma sound_run_operation: "preserves sound (run_operation d op)"
  unfolding run_operation_def by (simp add: sound_calls)

lemma sound_RetryOperations: "sound w \<Longrightarrow> sound (snd (RetryOperations d ks lim w))"
  by (rule RetryOperations_keeps [OF sound_books(2) sound_run_operation sound_finalize_operation
        sound_books(9) sound_now])

section \<open>Creating an order is sound\<close>

lemma bill_ok_snoc:
  assumes "bill_ok amount lines" and "subtotal (skPriceCents sku) q = Inr line"
    and "addAmount amount line = Inr amount'"
    and i: "i = \<lparr>itSKUID = skID sku, itSKUCode = skCode sku, itSKUName = skName sku,
      itUnitPriceCents = skPriceCents sku, itQuantity = q, itSubtotalCents = line, itReservationID = rid\<rparr>"
  shows "bill_ok amount' (lines @ [i])"
  using assms(1) subtotal_exact [OF assms(2)] addAmount_exact [OF assms(3)]
  by (auto simp: bill_ok_def line_ok_def i)

lemma reserve_items_bill:
  "reserve_items d c oid byID items amount lines rs w = (Inr (amount', lines', rs'), w') \<Longrightarrow>
   bill_ok amount lines \<Longrightarrow> bill_ok amount' lines'"
proof (induction items arbitrary: amount lines rs w)
  case (Cons req items)
  from Cons.prems(1) obtain sku :: SKU and line a1 and res :: OrderReservation and w1 where
      s: "subtotal (skPriceCents sku) (ciQuantity req) = Inr line" "addAmount amount line = Inr a1"
    and rest: "reserve_items d c oid byID items a1 (lines @ [\<lparr>itSKUID = skID sku,
        itSKUCode = skCode sku, itSKUName = skName sku, itUnitPriceCents = skPriceCents sku,
        itQuantity = ciQuantity req, itSubtotalCents = line, itReservationID = orReservationID res\<rparr>])
        (rs @ [res]) w1 = (Inr (amount', lines', rs'), w')"
    by (auto simp: fail_def of_result_def inspect_def and_then_def Let_def
        split: option.splits if_splits sum.splits prod.splits)
  show ?case using Cons.IH [OF rest] bill_ok_snoc [OF Cons.prems(2) s refl] by blast
qed (simp add: ret_def)

lemma steady_reserve:
  "stable R \<Longrightarrow> preserves (steady R orders) (reserve_items d c oid byID items amount lines rs)"
proof (induction items arbitrary: amount lines rs)
  case (Cons req items)
  have call: "preserves (steady R orders) (on_env (if b then inv_AdmitSeckill d x else inv_Reserve d x))"
    for b x using steady_env [OF writes_keep(1) Cons.prems] steady_env [OF writes_keep(2) Cons.prems]
    by simp
  show ?case
    unfolding reserve_items.simps Let_def compensateReservations_def
    by (intro pres_intros call steady_compensate [OF Cons.prems] Cons.IH [OF Cons.prems])
qed (simp add: preserves_ret)

lemma sound_of_steady:
  assumes "\<And>orders. preserves (steady (\<lambda>_. True) orders) m"
  shows "preserves sound m"
  using assms by (auto simp: preserves_def)

lemma sound_compensate: "preserves sound (compensateReservations d oid rs)"
  unfolding compensateReservations_def
  by (rule sound_of_steady) (rule steady_compensate [OF stable_facts(1)])

lemma order_ok_new: "bill_ok amount lines \<Longrightarrow> order_ok (new_order d c digest oid address now amount lines)"
  by (simp add: order_ok_def history_ok_def new_order_def)

lemma sound_Repository_Create:
  assumes w: "sound w" and v: "order_ok v" "oStatus v = StatusPendingPayment"
  shows "sound (snd (on_repo (Repository_Create v) w))"
proof -
  have "repo_ok (snd (Repository_Create v (wRepo w)))"
    using w v by (auto simp: sound_world_def intro: repo_ok_Create)
  moreover have "promises released settled restocked (wEnv w) (oStatus u) (oItems u)"
    if "rpOrders (snd (Repository_Create v (wRepo w))) k = Some u" for k u
  proof (rule Repository_Create_cases [of v "wRepo w"], goal_cases kept adds)
    case (kept res r')
    then show ?case using w that by (auto simp: sound_world_def)
  next
    case (adds r')
    then show ?case using w v that by (auto simp: sound_world_def promises_def split: if_splits)
  qed
  ultimately show ?thesis using w by (simp add: sound_world_def on_repo_def split_beta)
qed

lemma sound_store_order:
  assumes "sound w" and "reserve_items d c oid byID items 0 [] [] w = (Inr (amount, lines, rs), w1)"
  shows "sound (snd (inspect (on_repo (Repository_Create (new_order d c digest oid address now amount lines)))
    (\<lambda>res. case res of Inl err \<Rightarrow> and_then (compensateReservations d oid rs) (\<lambda>_. fail err)
       | Inr (created, reused) \<Rightarrow> ret (created, reused)) w1))"
proof -
  let ?v = "new_order d c digest oid address now amount lines"
  have w1: "sound w1"
    using preservesD [OF sound_of_steady [OF steady_reserve [OF stable_facts(1)]] assms] .
  have "bill_ok 0 []" by (simp add: bill_ok_def)
  with reserve_items_bill [OF assms(2)] have "order_ok ?v" by (simp add: order_ok_new)
  then have s: "sound (snd (on_repo (Repository_Create ?v) w1))"
    using w1 by (rule_tac sound_Repository_Create) (simp_all add: new_order_def)
  have "preserves sound (case res of Inl err \<Rightarrow> and_then (compensateReservations d oid rs) (\<lambda>_. fail err)
       | Inr (created, reused) \<Rightarrow> ret (created, reused))" for res
    by (intro pres_intros sound_compensate)
  note cont = this
  obtain res w2 where w2: "on_repo (Repository_Create ?v) w1 = (res, w2)" by fastforce
  with s have "sound w2" by simp
  with cont [of res] show ?thesis using w2 by (simp add: inspect_def preserves_def)
qed

lemma sound_reserve_and_store:
  "preserves sound (and_then (reserve_items d c oid byID items 0 [] []) (\<lambda>(amount, lines, rs).
     inspect (on_repo (Repository_Create (new_order d c digest oid address now amount lines)))
       (\<lambda>res. case res of Inl err \<Rightarrow> and_then (compensateReservations d oid rs) (\<lambda>_. fail err)
        | Inr (created, reused) \<Rightarrow> ret (created, reused))))"
proof (rule preservesI, goal_cases)
  case (1 w)
  let ?m = "reserve_items d c oid byID items 0 [] []"
  obtain res w1 where m: "?m w = (res, w1)" by (cases "?m w")
  have "sound w1"
    using preservesD [OF sound_of_steady [OF steady_reserve [OF stable_facts(1)]] 1 m] .
  then show ?case using m sound_store_order [OF 1] by (cases res) (auto simp: and_then_def [of ?m])
qed

lemma sound_create_body: "preserves sound (create_body d c digest oid now)"
  unfolding create_body_def Let_def
  by (rule preserves_and_then, rule sound_calls, rule preserves_and_then, rule sound_calls,
      rule preserves_if, rule preserves_fail, rule sound_reserve_and_store)

lemma sound_close_intent: "preserves sound (close_intent intent res)"
  unfolding close_intent_def by (intro pres_intros)

lemma sound_Create: "preserves sound (Service_Create d cmd)"
  unfolding Service_Create_def create_new_def reuse_order_def Let_def
  by (intro pres_intros sound_create_body sound_close_intent)

lemma sound_RecoverCreateIntents: "sound w \<Longrightarrow> sound (snd (RecoverCreateIntents d ks lim w))"
  by (rule RecoverCreateIntents_keeps [OF sound_Create sound_books(4) sound_now sound_books(10)])

lemma sound_handlers:
  "preserves sound (Handler_paymentSucceeded d ev)" "preserves sound (Handler_orderRefunded d ev)"
  "preserves sound (Handler_shipmentCreated ev)" "preserves sound (Handler_shipmentDelivered ev)"
  unfolding Handler_paymentSucceeded_def Handler_orderRefunded_def Handler_shipmentCreated_def
    Handler_shipmentDelivered_def
  by (intro pres_intros sound_ConfirmPayment sound_Refund sound_shipping)+

end

end
