(* ===== verification/Order_System.thy ===== *)
theory Order_System
  imports Order_Server Order_Invariant Inventory_Service
begin

text \<open>
  The order service running against the inventory service: the entry points of the order
  service as a step relation, the network between the two services, and the interpretation
  of the contract \<open>reservation_port\<close> on the inventory store behind that network.
\<close>

section \<open>Entry points of the order service\<close>

inductive order_call :: "'e dependencies \<Rightarrow> 'e world \<Rightarrow> 'e world \<Rightarrow> bool" for d where
  call_create: "order_call d w (snd (GRPCServer_Create d ctx req w))"
| call_get: "order_call d w (snd (GRPCServer_Get ctx get w))"
| call_list: "order_call d w (snd (GRPCServer_List ks ctx page w))"
    if "range_order ks (rpOrders (wRepo w))"
| call_cancel: "order_call d w (snd (GRPCServer_Cancel d ctx cn w))"
| call_expire: "order_call d w (snd (GRPCServer_Expire d ks ctx lim w))"
    if "range_order ks (rpOrders (wRepo w))"
| call_payment: "order_call d w (snd (GRPCServer_ConfirmPayment d ctx pay w))"
| call_ship: "order_call d w (snd (GRPCServer_Ship ctx ship w))"
| call_receipt: "order_call d w (snd (GRPCServer_ConfirmReceipt ctx get w))"
| call_refund: "order_call d w (snd (GRPCServer_Refund d ctx pay w))"
| on_event: "order_call d w (snd (h event w))" if "Order_Handlers d t = Some h"
| work_expire: "order_call d w (snd (Service_Expire d ks n w))"
    if "range_order ks (rpOrders (wRepo w))"
| work_retry: "order_call d w (snd (RetryOperations d ks n w))"
    if "range_order ks (rpOperations (wRepo w))"
| work_recover: "order_call d w (snd (RecoverCreateIntents d ks n w))"
    if "range_order ks (rpIntents (wRepo w))"

inductive_cases order_callE: "order_call d w w'"

lemma preserves_answer [pres_intros]: "preserves P m \<Longrightarrow> preserves P (answer m reply)"
  unfolding answer_def by (intro pres_intros)

lemma preserves_guarded [pres_intros]: "preserves P m \<Longrightarrow> preserves P (guarded auth m)"
  unfolding guarded_def by (intro pres_intros)

lemma Order_Handlers_Some:
  "Order_Handlers d t = Some h \<Longrightarrow>
     h = Handler_paymentSucceeded d \<or> h = Handler_orderRefunded d \<or> h = Handler_shipmentCreated \<or>
     h = Handler_shipmentDelivered \<or> h = (\<lambda>_. ret ())"
  by (auto simp: Order_Handlers_def split: if_splits)

context reservation_port
begin

lemma sound_server:
  "preserves sound (GRPCServer_Create d ctx req)" "preserves sound (GRPCServer_Get ctx get)"
  "preserves sound (GRPCServer_List ks ctx page)" "preserves sound (GRPCServer_Cancel d ctx cn)"
  "preserves sound (GRPCServer_ConfirmPayment d ctx pay)" "preserves sound (GRPCServer_Ship ctx ship)"
  "preserves sound (GRPCServer_ConfirmReceipt ctx rec)" "preserves sound (GRPCServer_Refund d ctx ref)"
  unfolding GRPCServer_Create_def GRPCServer_Get_def GRPCServer_List_def GRPCServer_Cancel_def
    GRPCServer_ConfirmPayment_def GRPCServer_Ship_def GRPCServer_ConfirmReceipt_def GRPCServer_Refund_def
  by (intro pres_intros sound_Create sound_reading sound_Cancel sound_ConfirmPayment sound_shipping
      sound_Refund)+

lemma sound_server_expire: "preserves sound (GRPCServer_Expire d ks ctx req)"
  unfolding GRPCServer_Expire_def Let_def
proof (intro pres_intros preservesI, goal_cases)
  case (1 w)
  let ?n = "case req of Some l \<Rightarrow> if sint l > 0 then sint l else 100 | None \<Rightarrow> 100"
  obtain c err w' where "Service_Expire d ks ?n w = ((c, err), w')" by (metis surj_pair)
  with sound_Expire [OF 1, of ks ?n] show ?case by (cases err) simp_all
qed

lemma call_sound:
  assumes "sound w" and "order_call d w w'"
  shows "sound w'"
  using assms(2)
proof cases
  case (on_event t h event)
  then have "preserves sound (h event)"
    using Order_Handlers_Some [of d t h] sound_handlers by (auto simp: preserves_ret)
  with on_event assms(1) show ?thesis by (simp add: preserves_def)
qed (use assms(1) sound_server sound_server_expire sound_Expire sound_RetryOperations
      sound_RecoverCreateIntents in \<open>auto simp: preserves_def\<close>)

lemma run_sound: "(order_call d)\<^sup>*\<^sup>* w w' \<Longrightarrow> sound w \<Longrightarrow> sound w'"
  by (induction rule: rtranclp_induct) (auto intro: call_sound)

end

section \<open>Any dependencies at all\<close>

text \<open>
  Whatever the clients answer, history and amounts are in order: the contract holds of any
  dependencies when nothing is asked of the reservations.
\<close>

interpretation any_port: reservation_port d "\<lambda>_. True" "\<lambda>_ _. True" "\<lambda>_ _. True" "\<lambda>_ _. True" for d
  by unfold_locales (simp_all add: keeps_def)

section \<open>The inventory service behind a network\<close>

text \<open>
  A call may be delivered, its request may be lost (nothing happens) or its reply (it
  happened, but the caller sees an error). Before a call arrives, other callers of the
  inventory may have run: \<open>seOthers\<close> is what they do, in turn.
\<close>

datatype delivery = Delivered | RequestLost | ReplyLost

record 'c system =
  seStore :: MemoryStore
  seNetwork :: "delivery stream"
  seOthers :: "(MemoryStore \<Rightarrow> MemoryStore) stream"
  seRest :: 'c

definition unavailable :: go_error where "unavailable = StatusError Unavailable ''connection lost''"
definition timed_out :: go_error where "timed_out = StatusError DeadlineExceeded ''deadline exceeded''"

definition over_network :: "(MemoryStore, 'a) go \<Rightarrow> ('c system, 'a) go" where
  "over_network m e =
     (let s = shd (seOthers e) (seStore e);
          e' = e\<lparr>seOthers := stl (seOthers e), seNetwork := stl (seNetwork e)\<rparr> in
      case shd (seNetwork e) of
        Delivered \<Rightarrow> (case m s of (res, s') \<Rightarrow> (res, e'\<lparr>seStore := s'\<rparr>))
      | RequestLost \<Rightarrow> (Inl unavailable, e'\<lparr>seStore := s\<rparr>)
      | ReplyLost \<Rightarrow> (case m s of (_, s') \<Rightarrow> (Inl timed_out, e'\<lparr>seStore := s'\<rparr>)))"

text \<open>Catalog and identity live in the rest of the system.\<close>

definition on_rest :: "('c, 'a) go \<Rightarrow> ('c system, 'a) go" where
  "on_rest m e = (case m (seRest e) of (res, c) \<Rightarrow> (res, e\<lparr>seRest := c\<rparr>))"

definition system_dependencies ::
  "(uint64 list \<Rightarrow> ('c, SKU list) go) \<Rightarrow> (uint64 \<Rightarrow> uint64 \<Rightarrow> ('c, Address) go) \<Rightarrow> duration \<Rightarrow>
   'c system dependencies" where
  "system_dependencies catalog identity ttl =
     \<lparr>GetSKUSnapshot = (\<lambda>ids. on_rest (catalog ids)),
      GetAddressSnapshot = (\<lambda>u a. on_rest (identity u a)),
      inv_Reserve = GRPCInventoryClient_Reserve (Some (\<lambda>req. over_network (Server_Reserve req))),
      inv_AdmitSeckill =
        GRPCInventoryClient_AdmitSeckill (Some (\<lambda>req. over_network (Server_AdmitSeckill req))),
      inv_Confirm = GRPCInventoryClient_call (Some (\<lambda>req. over_network (Server_Confirm req))),
      inv_Release = GRPCInventoryClient_call (Some (\<lambda>req. over_network (Server_Release req))),
      inv_Restock = GRPCInventoryClient_call (Some (\<lambda>req. over_network (Server_Restock req))),
      orderTTL = ttl\<rparr>"

definition system_ok :: "'c system \<Rightarrow> bool" where
  "system_ok e \<longleftrightarrow> ids_ok (seStore e) \<and> (\<forall>g \<in> sset (seOthers e). \<forall>s. store_call\<^sup>*\<^sup>* s (g s))"

definition status_in :: "string set \<Rightarrow> 'c system \<Rightarrow> string \<Rightarrow> bool" where
  "status_in S e rid \<longleftrightarrow> (\<exists>r. msReservations (seStore e) rid = Some r \<and> rStatus r \<in> S)"

abbreviation stock_returned :: "'c system \<Rightarrow> string \<Rightarrow> bool" where
  "stock_returned \<equiv> status_in {ReservationReleased, ReservationExpired}"

abbreviation stock_sold :: "'c system \<Rightarrow> string \<Rightarrow> bool" where
  "stock_sold \<equiv> status_in {ReservationConfirmed, ReservationRestocked}"

abbreviation stock_restocked :: "'c system \<Rightarrow> string \<Rightarrow> bool" where
  "stock_restocked \<equiv> status_in {ReservationRestocked}"

text \<open>A set of states that a reservation cannot leave.\<close>

definition closed_status :: "string set \<Rightarrow> bool" where
  "closed_status S \<longleftrightarrow> (\<forall>a b. later_status a b \<longrightarrow> a \<in> S \<longrightarrow> b \<in> S)"

lemma closed_sets:
  "closed_status {ReservationReleased, ReservationExpired}"
  "closed_status {ReservationConfirmed, ReservationRestocked}" "closed_status {ReservationRestocked}"
  by (auto simp: closed_status_def elim: later_status.cases)

lemma status_in_run:
  assumes "store_call\<^sup>*\<^sup>* (seStore e) (seStore e')" and "ids_ok (seStore e)" and "closed_status S"
    and "status_in S e rid"
  shows "status_in S e' rid"
proof -
  obtain r where r: "msReservations (seStore e) rid = Some r" "rStatus r \<in> S"
    using assms(4) by (auto simp: status_in_def)
  then have "evolved rid r (seStore e)" using assms(2) by (simp add: evolved_def evolves_refl)
  from evolved.run_keeps [OF assms(1) this] r(2) assms(3) show ?thesis
    by (auto simp: evolved_def status_in_def evolves_def closed_status_def)
qed

interpretation ids_kept: store_property ids_ok
  by unfold_locales (auto intro: ids_ok_change)

lemma over_network_run:
  assumes "\<And>s. store_call s (snd (m s))" and "system_ok e"
  shows "store_call\<^sup>*\<^sup>* (seStore e) (seStore (snd (over_network m e))) \<and> system_ok (snd (over_network m e))"
proof -
  let ?e = "snd (over_network m e)"
  let ?s = "shd (seOthers e) (seStore e)"
  have "shd (seOthers e) \<in> sset (seOthers e)" "\<And>g. g \<in> sset (stl (seOthers e)) \<Longrightarrow> g \<in> sset (seOthers e)"
    by (cases "seOthers e"; simp)+
  then have g: "store_call\<^sup>*\<^sup>* (seStore e) ?s" "\<forall>g \<in> sset (stl (seOthers e)). \<forall>s. store_call\<^sup>*\<^sup>* s (g s)"
    using assms(2) by (auto simp: system_ok_def)
  have "seStore ?e = ?s \<or> seStore ?e = snd (m ?s)"
    by (auto simp: over_network_def Let_def split: delivery.split prod.split)
  then have run: "store_call\<^sup>*\<^sup>* (seStore e) (seStore ?e)"
    using g(1) assms(1) [of ?s] by (auto intro: rtranclp.rtrancl_into_rtrancl)
  have "seOthers ?e = stl (seOthers e)"
    by (auto simp: over_network_def Let_def split: delivery.split prod.split)
  with g(2) run assms(2) ids_kept.run_keeps [OF run] show ?thesis by (simp add: system_ok_def)
qed

lemma through_snd: "snd (through (Some rpc) m f req reply e) = snd (rpc req e)"
  by (auto simp: through_def inspect_def fail_def of_result_def split: prod.split sum.split)

lemma system_keeps:
  fixes m :: "('c system, 'a) go"
  assumes "\<And>e. system_ok e \<Longrightarrow> store_call\<^sup>*\<^sup>* (seStore e) (seStore (snd (m e))) \<and> system_ok (snd (m e))"
  shows "keeps system_ok stock_returned stock_sold stock_restocked m"
  unfolding keeps_def
proof (intro allI impI)
  fix e :: "'c system" assume e: "system_ok e"
  then have "ids_ok (seStore e)" by (simp add: system_ok_def)
  with assms [OF e] status_in_run [of e "snd (m e)"] closed_sets
  show "system_ok (snd (m e)) \<and> (\<forall>rid.
      (stock_returned e rid \<longrightarrow> stock_returned (snd (m e)) rid) \<and>
      (stock_sold e rid \<longrightarrow> stock_sold (snd (m e)) rid) \<and>
      (stock_restocked e rid \<longrightarrow> stock_restocked (snd (m e)) rid))" by blast
qed

lemma on_rest_keeps: "keeps system_ok stock_returned stock_sold stock_restocked (on_rest m)"
  by (rule system_keeps) (simp add: on_rest_def system_ok_def split: prod.split)

lemma rpc_keeps:
  assumes "\<And>s. store_call s (snd (m s))"
  shows "keeps system_ok stock_returned stock_sold stock_restocked
    (through (Some (\<lambda>req. over_network m)) msg fb req reply)"
  by (rule system_keeps) (simp add: through_snd over_network_run [OF assms])

text \<open>A reply without an error means that the request was delivered and served.\<close>

lemma over_network_Inr:
  "over_network m e = (Inr x, e') \<Longrightarrow> m (shd (seOthers e) (seStore e)) = (Inr x, seStore e')"
  by (auto simp: over_network_def Let_def split: delivery.splits prod.splits)

lemma call_Inr:
  assumes "GRPCInventoryClient_call (Some (\<lambda>req. over_network (srv req))) rid oid e = (Inr (), e')"
    and "system_ok e"
  shows "\<exists>s resp. srv (Some (rid, oid)) s = (Inr resp, seStore e') \<and> ids_ok s"
proof -
  obtain resp where "over_network (srv (Some (rid, oid))) e = (Inr resp, e')"
    using assms(1)
    by (auto simp: GRPCInventoryClient_call_def through_def inspect_def fail_def of_result_def
        split: prod.splits sum.splits)
  then have "srv (Some (rid, oid)) (shd (seOthers e) (seStore e)) = (Inr resp, seStore e')"
    by (rule over_network_Inr)
  moreover have "ids_ok (shd (seOthers e) (seStore e))"
    using assms(2) ids_kept.run_keeps shd_sset [of "seOthers e"] by (auto simp: system_ok_def)
  ultimately show ?thesis by blast
qed

lemma respond_Inr: "respond m f s = (Inr x, s') \<Longrightarrow> \<exists>r. m s = (Inr r, s')"
  by (auto simp: respond_def inspect_def fail_def ret_def split: prod.splits sum.splits)

lemma served:
  "ids_ok s \<Longrightarrow> Server_Release (Some (rid, oid)) s = (Inr x, s') \<Longrightarrow>
     \<exists>r. msReservations s' rid = Some r \<and> rStatus r \<in> {ReservationReleased, ReservationExpired}"
  "ids_ok s \<Longrightarrow> Server_Confirm (Some (rid, oid)) s = (Inr x, s') \<Longrightarrow>
     \<exists>r. msReservations s' rid = Some r \<and> rStatus r \<in> {ReservationConfirmed, ReservationRestocked}"
  "ids_ok s \<Longrightarrow> Server_Restock (Some (rid, oid)) s = (Inr x, s') \<Longrightarrow>
     \<exists>r. msReservations s' rid = Some r \<and> rStatus r \<in> {ReservationRestocked}"
  by (auto simp: Server_Release_def Server_Confirm_def Server_Restock_def dest!: respond_Inr)
    (auto simp: Release_exact Confirm_exact Restock_exact findReservation_Inr_iff
      split: sum.splits if_splits)

interpretation store_port: reservation_port "system_dependencies catalog identity ttl" system_ok
  stock_returned stock_sold stock_restocked for catalog identity ttl
proof unfold_locales
  fix e e' :: "'a system" and rid oid
  assume e: "system_ok e"
  show "inv_Release (system_dependencies catalog identity ttl) rid oid e = (Inr (), e') \<Longrightarrow>
      stock_returned e' rid"
    using call_Inr [OF _ e, of Server_Release] served(1)
    by (fastforce simp: system_dependencies_def status_in_def)
  show "inv_Confirm (system_dependencies catalog identity ttl) rid oid e = (Inr (), e') \<Longrightarrow>
      stock_sold e' rid"
    using call_Inr [OF _ e, of Server_Confirm] served(2)
    by (fastforce simp: system_dependencies_def status_in_def)
  show "inv_Restock (system_dependencies catalog identity ttl) rid oid e = (Inr (), e') \<Longrightarrow>
      stock_restocked e' rid"
    using call_Inr [OF _ e, of Server_Restock] served(3)
    by (fastforce simp: system_dependencies_def status_in_def)
qed (simp_all add: system_dependencies_def on_rest_keeps GRPCInventoryClient_Reserve_def
    GRPCInventoryClient_AdmitSeckill_def GRPCInventoryClient_call_def system_keeps through_snd
    over_network_run store_call.intros)

end
