(* ===== verification/Order_History.thy ===== *)
theory Order_History
  imports Order_System
begin

text \<open>
  Properties of the order repository that no client can break, carried to every entry point of
  the service: from what operations, events and transitions leave alone (locale
  \<open>service_property\<close>) and what creation and recovery keep (\<open>order_property\<close>), or from the
  repository operations alone when only orders and keys matter (\<open>repository_property\<close>). Two are
  such: every order is filed under its idempotency key, and an order only moves forward.
\<close>

section \<open>From the repository to the service\<close>

text \<open>Everything but operations and events is the same.\<close>

definition same_books :: "MemoryRepository \<Rightarrow> MemoryRepository \<Rightarrow> bool" where
  "same_books r r' \<longleftrightarrow> same_orders r r' \<and> rpIntents r' = rpIntents r"

lemma bookkeeping_same_books:
  "same_books r (snd (SaveOperation op r))" "same_books r (snd (UpdateOperation op r))"
  "same_books r (snd (FindByIdempotency u k r))" "same_books r (snd (FindCreateIntent u k r))"
  "same_books r (snd (Repository_Get u oid r))" "same_books r (snd (ListExpired ks now n r))"
  "same_books r (snd (ListPendingOperations ks now n r))"
  "same_books r (snd (ListPendingCreateIntents ks now n r))"
  "same_books r (snd (Repository_List ks u off n r))"
  unfolding same_books_def same_orders_def
  by (simp_all add: SaveOperation_def UpdateOperation_def put_operation_def
      FindByIdempotency_def FindCreateIntent_def Repository_Get_def ListExpired_def ListPendingOperations_def
      ListPendingCreateIntents_def Repository_List_def read_state_def modify_state_def ret_def fail_def
      split: option.split)

lemma on_repo_keeps:
  assumes "\<And>r. P r \<Longrightarrow> P (snd (m r))"
  shows "preserves (\<lambda>w. P (wRepo w)) (on_repo m)"
  using assms by (auto simp: preserves_def on_repo_def split: prod.split) (metis snd_conv)

text \<open>Properties that operations, events and transitions do not touch.\<close>

locale service_property =
  fixes P :: "MemoryRepository \<Rightarrow> bool"
  assumes operations: "P r \<Longrightarrow> same_books r r' \<Longrightarrow> P r'"
    and transitions: "P r \<Longrightarrow> P (snd (Transition oid uid target reason at aid now r))"
begin

abbreviation holds :: "'e world \<Rightarrow> bool" where "holds w \<equiv> P (wRepo w)"

lemma holds_env [pres_intros]: "preserves holds (on_env m)"
  by (simp add: preserves_def on_env_def split: prod.split)

lemma holds_now [pres_intros]: "preserves holds service_now"
  by (simp add: preserves_def service_now_def)

lemma holds_repo: "(\<And>r. same_books r (snd (m r))) \<Longrightarrow> preserves holds (on_repo m)"
  by (rule on_repo_keeps) (rule operations)

lemmas holds_books [pres_intros] = bookkeeping_same_books [THEN holds_repo]

lemma holds_transition [pres_intros]: "preserves holds (on_repo (Transition oid uid target reason at aid now))"
  by (rule on_repo_keeps) (rule transitions)

lemma holds_tools [pres_intros]:
  "preserves holds m \<Longrightarrow> preserves holds (ignore_error m)"
  "preserves holds (saveOperation op)" "preserves holds (save_pending kind oid rid err)"
  "preserves holds (transition_now oid uid target reason at aid)"
  unfolding ignore_error_def saveOperation_def save_pending_def transition_now_def
  by (intro pres_intros; assumption?)+

lemma holds_loops [pres_intros]:
  fixes d :: "'e dependencies"
  shows "preserves holds (compensate d oid rs)" "preserves holds (release_items d oid items)"
    "preserves holds (confirm_items d oid items)" "preserves holds (confirm_all d oid items)"
    "preserves holds (restock_items d oid items)"
    by (induction rs; simp; intro pres_intros; assumption)
      (induction items; simp; intro pres_intros; assumption)+

lemma holds_reserve [pres_intros]:
  "preserves holds (reserve_items d c oid byID items amount lines rs)"
proof (induction items arbitrary: amount lines rs)
  case (Cons x items)
  show ?case unfolding reserve_items.simps Let_def compensateReservations_def
    by (intro pres_intros Cons.IH)
qed (simp add: preserves_ret)

lemma holds_lifecycle [pres_intros]:
  "preserves holds (cancel d u k reason at aid)" "preserves holds (ConfirmPayment d u k pno cb)"
  "preserves holds (Service_Refund d u k rno reason)" "preserves holds (Service_Cancel d u k reason)"
  "preserves holds (Service_Ship aid k carrier tno)" "preserves holds (Service_ConfirmReceipt u k)"
  "preserves holds (ApplyShipmentCreated k carrier tno)" "preserves holds (ApplyShipmentDelivered k)"
  "preserves holds (Service_Get u k)" "preserves holds (Service_List ks u off lim)"
  unfolding Service_Cancel_def cancel_def ConfirmPayment_def Service_Refund_def restockItems_def
    Service_Ship_def Service_ConfirmReceipt_def ApplyShipmentCreated_def ApplyShipmentDelivered_def
    Service_Get_def Service_List_def
  by (intro pres_intros)+

lemma holds_finalize [pres_intros]: "preserves holds (finalize_operation d op)"
  unfolding finalize_operation_def finalizePendingPayment_def finalizePendingRefund_def
    finalizePendingCancellation_def restockItems_def
  by (intro pres_intros)

lemma holds_run_operation [pres_intros]: "preserves holds (run_operation d op)"
  unfolding run_operation_def by (intro pres_intros)

lemma holds_workers:
  fixes w :: "'e world"
  assumes "holds w"
  shows "holds (snd (Service_Expire d ks lim w))" "holds (snd (RetryOperations d ks lim w))"
  by (rule Expire_keeps RetryOperations_keeps; (intro pres_intros | rule assms))+

end

text \<open>Properties that creation and its recovery keep as well hold on every run.\<close>

locale order_property = service_property P for P +
  fixes d :: "'e dependencies"
  assumes creation: "preserves (\<lambda>w :: 'e world. P (wRepo w)) (Service_Create d c)"
    and recovery: "P (wRepo (w :: 'e world)) \<Longrightarrow> P (wRepo (snd (RecoverCreateIntents d ks lim w)))"
begin

lemma holds_server:
  "preserves holds (GRPCServer_Create d ctx req)" "preserves holds (GRPCServer_Get ctx get)"
  "preserves holds (GRPCServer_List ks ctx page)" "preserves holds (GRPCServer_Cancel d ctx cn)"
  "preserves holds (GRPCServer_ConfirmPayment d ctx pay)" "preserves holds (GRPCServer_Ship ctx ship)"
  "preserves holds (GRPCServer_ConfirmReceipt ctx rec)" "preserves holds (GRPCServer_Refund d ctx ref)"
  unfolding GRPCServer_Create_def GRPCServer_Get_def GRPCServer_List_def GRPCServer_Cancel_def
    GRPCServer_ConfirmPayment_def GRPCServer_Ship_def GRPCServer_ConfirmReceipt_def GRPCServer_Refund_def
  by (intro pres_intros creation)+

lemma holds_handlers:
  "preserves holds (Handler_paymentSucceeded d ev)" "preserves holds (Handler_orderRefunded d ev)"
  "preserves holds (Handler_shipmentCreated ev)" "preserves holds (Handler_shipmentDelivered ev)"
  unfolding Handler_paymentSucceeded_def Handler_orderRefunded_def Handler_shipmentCreated_def
    Handler_shipmentDelivered_def
  by (intro pres_intros)+

lemma holds_call:
  assumes "holds w" and "order_call d w w'"
  shows "holds w'"
  using assms(2)
proof cases
  case (call_expire ks ctx lim)
  let ?n = "case lim of Some l \<Rightarrow> if sint l > 0 then sint l else 100 | None \<Rightarrow> 100"
  obtain c err w1 where e: "Service_Expire d ks ?n w = ((c, err), w1)" by (metis surj_pair)
  then have "snd (GRPCServer_Expire d ks ctx lim w) = w \<or> snd (GRPCServer_Expire d ks ctx lim w) = w1"
    by (cases err) (auto simp: GRPCServer_Expire_def guarded_def and_then_def of_result_def Let_def
        split: sum.split)
  then show ?thesis using call_expire assms(1) e holds_workers(1) [OF assms(1), of d ks ?n] by auto
next
  case (on_event t h event)
  then have "preserves holds (h event)"
    using Order_Handlers_Some [of d t h] holds_handlers by (auto simp: preserves_ret)
  with on_event assms(1) show ?thesis by (simp add: preserves_def)
qed (auto intro: holds_server [THEN preserves_snd] holds_workers recovery assms(1))

lemma holds_run: "(order_call d)\<^sup>*\<^sup>* w w' \<Longrightarrow> holds w \<Longrightarrow> holds w'"
  by (induction rule: rtranclp_induct) (auto intro: holds_call)

end

text \<open>Properties of the orders and their keys alone, which the repository keeps.\<close>

locale repository_property =
  fixes P :: "MemoryRepository \<Rightarrow> bool"
  assumes books: "P r \<Longrightarrow> same_orders r r' \<Longrightarrow> P r'"
    and moves: "P r \<Longrightarrow> P (snd (Transition oid uid target reason at aid now r))"
    and creates: "P r \<Longrightarrow> P (snd (Repository_Create v r))"

sublocale repository_property < service_property P
  by unfold_locales (auto simp: same_books_def intro: books moves)

context repository_property
begin

lemma holds_orders [pres_intros]:
  "preserves holds (on_repo (SaveCreateIntent i))" "preserves holds (on_repo (UpdateCreateIntent i))"
  "preserves holds (on_repo (Repository_Create v))"
  by (intro on_repo_keeps; blast intro: books creates bookkeeping_same_orders)+

lemma holds_Create [pres_intros]: "preserves holds (Service_Create d cmd)"
  unfolding Service_Create_def create_new_def reuse_order_def create_body_def close_intent_def
    compensateReservations_def Let_def
  by (intro pres_intros)

lemma holds_recovery: "holds w \<Longrightarrow> holds (snd (RecoverCreateIntents d ks lim w))"
  by (rule RecoverCreateIntents_keeps) (intro pres_intros)+

end

sublocale repository_property < order_property P d for d
  by unfold_locales (rule holds_Create, rule holds_recovery)

section \<open>Every order is filed under its idempotency key\<close>

definition order_key :: "Order \<Rightarrow> string" where
  "order_key v = idempotencyKey (oUserID v) (oIdempotencyKey v)"

definition keys_ok :: "MemoryRepository \<Rightarrow> bool" where
  "keys_ok r \<longleftrightarrow>
     (\<forall>k v. rpOrders r k = Some v \<longrightarrow> rpIdempotency r (order_key v) = Some k) \<and>
     (\<forall>key k. rpIdempotency r key = Some k \<longrightarrow> rpOrders r k \<noteq> None)"

lemma order_key_moved [simp]: "order_key (moved t r a i n v) = order_key v"
  by (simp add: order_key_def)

lemma keys_ok_Transition:
  assumes "keys_ok r"
  shows "keys_ok (snd (Transition oid uid target reason at aid now r))"
proof (rule Transition_cases [of oid uid target reason at aid now r], goal_cases kept moves)
  case (kept res r')
  then show ?case using assms by (simp add: keys_ok_def)
next
  case (moves v r')
  then show ?case using assms by (auto simp: keys_ok_def)
qed

lemma keys_ok_Create:
  assumes "keys_ok r"
  shows "keys_ok (snd (Repository_Create v r))"
proof (rule Repository_Create_cases [of v r], goal_cases kept adds)
  case (kept res r')
  then show ?case using assms by (simp add: keys_ok_def)
next
  case (adds r')
  then show ?case
    using assms unfolding keys_ok_def order_key_def [symmetric]
    by (auto split: if_splits) (metis option.distinct(1))
qed

interpretation keys_ok: repository_property keys_ok
  by unfold_locales (simp add: keys_ok_def same_orders_def, erule keys_ok_Transition, erule keys_ok_Create)

section \<open>An order only moves forward\<close>

text \<open>
  \<open>v'\<close> is a later state of \<open>v\<close>: nothing but status, history and update time differs, and the
  history was extended along the transition table.
\<close>

definition continues :: "Order \<Rightarrow> Order \<Rightarrow> bool" where
  "continues v v' \<longleftrightarrow>
     (\<exists>hs t. v' = v\<lparr>oStatus := oStatus v', oStatusHistory := oStatusHistory v @ hs, oUpdatedAt := t\<rparr> \<and>
        path (oStatus v) hs (oStatus v'))"

lemma continues_refl: "continues v v"
  unfolding continues_def by (rule exI [of _ "[]"], rule exI [of _ "oUpdatedAt v"]) simp

lemma continues_moved:
  assumes "continues v u" and "canTransition (oStatus u) target"
  shows "continues v (moved target reason at aid now u)"
proof -
  obtain hs t where u: "u = v\<lparr>oStatus := oStatus u, oStatusHistory := oStatusHistory v @ hs, oUpdatedAt := t\<rparr>"
      and p: "path (oStatus v) hs (oStatus u)"
    using assms(1) by (auto simp: continues_def)
  let ?h = "\<lparr>shFromStatus = oStatus u, shToStatus = target, shReason = reason, shActorType = at,
    shActorID = aid, shCreatedAt = now\<rparr>"
  have "oStatusHistory u = oStatusHistory v @ hs" by (subst u) simp
  then have "moved target reason at aid now u = v\<lparr>oStatus := target,
      oStatusHistory := oStatusHistory v @ (hs @ [?h]), oUpdatedAt := now\<rparr>"
    by (subst (1) u) (simp add: moved_def)
  moreover have "path (oStatus v) (hs @ [?h]) target" using p assms(2) by (simp add: path_snoc)
  ultimately show ?thesis unfolding continues_def
    by (intro exI [of _ "hs @ [?h]"] exI [of _ now]) simp
qed

lemma continues_terms:
  assumes "continues v u"
  shows "order_key u = order_key v" "oOrderID u = oOrderID v" "oUserID u = oUserID v"
    "oItems u = oItems v" "oTotalAmountCents u = oTotalAmountCents v"
    "oRequestDigest u = oRequestDigest v" "oAddressSnapshot u = oAddressSnapshot v"
    "prefix (oStatusHistory v) (oStatusHistory u)"
proof -
  obtain hs t where u: "u = v\<lparr>oStatus := oStatus u, oStatusHistory := oStatusHistory v @ hs, oUpdatedAt := t\<rparr>"
    using assms by (auto simp: continues_def)
  show "order_key u = order_key v" "oOrderID u = oOrderID v" "oUserID u = oUserID v"
    "oItems u = oItems v" "oTotalAmountCents u = oTotalAmountCents v"
    "oRequestDigest u = oRequestDigest v" "oAddressSnapshot u = oAddressSnapshot v"
    "prefix (oStatusHistory v) (oStatusHistory u)"
    by (subst u, simp add: order_key_def)+
qed

text \<open>Canceled, completed and refunded orders do not move.\<close>

definition final_status :: "string \<Rightarrow> bool" where
  "final_status st \<longleftrightarrow> st = StatusCanceled \<or> st = StatusCompleted \<or> st = StatusRefunded"

lemma path_final: "path st hs goal \<Longrightarrow> final_status st \<Longrightarrow> hs = [] \<and> goal = st"
  by (cases hs) (auto simp: final_status_def canTransition_def)

text \<open>
  The order under \<open>k\<close> is a later state of \<open>v\<close>, unless another request with the same
  truncated digest took its place.
\<close>

definition forward :: "string \<Rightarrow> Order \<Rightarrow> MemoryRepository \<Rightarrow> bool" where
  "forward k v r \<longleftrightarrow> rpIdempotency r (order_key v) = Some k \<and>
     (\<exists>u. rpOrders r k = Some u \<and> (continues v u \<or> order_key u \<noteq> order_key v))"

lemma forward_Transition:
  assumes "forward k v r"
  shows "forward k v (snd (Transition oid uid target reason at aid now r))"
proof (rule Transition_cases [of oid uid target reason at aid now r], goal_cases kept moves)
  case (kept res r')
  then show ?case using assms by (simp add: forward_def)
next
  case (moves u r')
  then show ?case using assms continues_moved by (auto simp: forward_def)
qed

lemma forward_Create:
  assumes "forward k v r"
  shows "forward k v (snd (Repository_Create x r))"
proof (rule Repository_Create_cases [of x r], goal_cases kept adds)
  case (kept res r')
  then show ?case using assms by (simp add: forward_def)
next
  case (adds r')
  then have "order_key x \<noteq> order_key v"
    using assms by (auto simp: forward_def order_key_def [symmetric])
  then show ?case using assms adds by (auto simp: forward_def order_key_def [symmetric])
qed

interpretation forward: repository_property "forward k v" for k v
  by unfold_locales (simp add: forward_def same_orders_def, erule forward_Transition, erule forward_Create)

end
