(* ===== verification/Order_Create.thy ===== *)
theory Order_Create
  imports Order_History
begin

text \<open>
  What \<open>Create\<close> does on a key with and without an order, how it keeps its intents, and that the
  intent of a key stays with the order of the key on every run.
\<close>

section \<open>What creation leaves alone\<close>

definition core :: "MemoryRepository \<Rightarrow> (string \<rightharpoonup> Order) \<times> (string \<rightharpoonup> string) \<times>
    (string \<rightharpoonup> CreateIntent) \<times> MessageStore option" where
  "core r = (rpOrders r, rpIdempotency r, rpIntents r, rpEventSink r)"

abbreviation fixed_core :: "_ \<Rightarrow> 'e world \<Rightarrow> bool" where
  "fixed_core x w \<equiv> core (wRepo w) = x"

lemma core_env [pres_intros]: "preserves (fixed_core x) (on_env m)"
  by (simp add: preserves_def on_env_def split: prod.split)

lemma core_now [pres_intros]: "preserves (fixed_core x) service_now"
  by (simp add: preserves_def service_now_def)

lemma core_save [pres_intros]:
  "preserves (fixed_core x) (saveOperation op)" "preserves (fixed_core x) (save_pending kind oid rid err)"
proof -
  have "preserves (fixed_core x) (on_repo (SaveOperation op))" for op
    by (simp add: preserves_def on_repo_def SaveOperation_def put_operation_def modify_state_def
        ret_def core_def split: option.split)
  then show "preserves (fixed_core x) (saveOperation op)" for op
    unfolding saveOperation_def ignore_error_def by (intro pres_intros)
  then show "preserves (fixed_core x) (save_pending kind oid rid err)"
    unfolding save_pending_def by (intro pres_intros core_now)
qed

lemma core_compensate [pres_intros]: "preserves (fixed_core x) (compensate d oid rs)"
  by (induction rs; simp; intro pres_intros; assumption)

lemma core_reserve [pres_intros]:
  "preserves (fixed_core x) (reserve_items d c oid byID items amount lines rs)"
proof (induction items arbitrary: amount lines rs)
  case (Cons y items)
  show ?case unfolding reserve_items.simps Let_def compensateReservations_def
    by (intro pres_intros Cons.IH)
qed (simp add: preserves_ret)

section \<open>Idempotency\<close>

definition trimmed :: "CreateCommand \<Rightarrow> CreateCommand" where
  "trimmed c = c\<lparr>ccIdempotencyKey := TrimSpace (ccIdempotencyKey c)\<rparr>"

definition command_key :: "CreateCommand \<Rightarrow> string" where
  "command_key c = idempotencyKey (ccUserID c) (TrimSpace (ccIdempotencyKey c))"

lemma trimmed_sel [simp]:
  "ccUserID (trimmed c) = ccUserID c" "ccIdempotencyKey (trimmed c) = TrimSpace (ccIdempotencyKey c)"
  "ccOrderType (trimmed c) = ccOrderType c" "ccItems (trimmed c) = ccItems c"
  "ccAddressID (trimmed c) = ccAddressID c" "ccActivityID (trimmed c) = ccActivityID c"
  by (simp_all add: trimmed_def)

definition command_order_id :: "CreateCommand \<Rightarrow> string" where
  "command_order_id c =
     deterministicOrderID (ccUserID c) (TrimSpace (ccIdempotencyKey c)) (requestDigest (trimmed c))"

lemma Create_invalid:
  "validateCreate (trimmed c) = Inl e \<Longrightarrow> Service_Create d c w = (Inl e, w)"
  by (simp add: Service_Create_def Let_def trimmed_def [symmetric] and_then_def of_result_def)

lemma Create_known:
  assumes "validateCreate (trimmed c) = Inr ()" and "rpIdempotency (wRepo w) (command_key c) = Some k"
    and "rpOrders (wRepo w) k = Some v"
  shows "Service_Create d c w = reuse_order (trimmed c) (requestDigest (trimmed c)) v w"
  using assms
  by (simp add: Service_Create_def Let_def trimmed_def [symmetric] and_then_def of_result_def on_repo_def
      FindByIdempotency_def command_key_def)

lemma Create_unknown:
  assumes "validateCreate (trimmed c) = Inr ()" and "rpIdempotency (wRepo w) (command_key c) = None"
  shows "Service_Create d c w =
    (case rpIntents (wRepo w) (command_key c) of
       None \<Rightarrow> create_new d (trimmed c) (requestDigest (trimmed c)) 0
     | Some old \<Rightarrow>
         (if inRequestDigest old \<noteq> requestDigest (trimmed c) then fail intent_mismatch
          else if maxCreateIntentAttempts \<le> inAttempts old then fail attempts_exhausted
          else create_new d (trimmed c) (requestDigest (trimmed c)) (inAttempts old))) w"
  using assms
  by (simp add: Service_Create_def Let_def trimmed_def [symmetric] and_then_def of_result_def on_repo_def
      FindByIdempotency_def FindCreateIntent_def read_state_def command_key_def split: option.split)

definition intent_closable :: "CreateCommand \<Rightarrow> MemoryRepository \<Rightarrow> bool" where
  "intent_closable c r \<longleftrightarrow>
     (\<forall>i. rpIntents r (command_key c) = Some i \<longrightarrow>
        inRequestDigest i = requestDigest (trimmed c) \<and>
        rpIntents r (idempotencyKey (inUserID i) (inIdempotencyKey i)) \<noteq> None)"

text \<open>The state after the order was found: at most the intent and the clock changed.\<close>

definition only_intents :: "'e world \<Rightarrow> 'e world \<Rightarrow> bool" where
  "only_intents w w' \<longleftrightarrow>
     wEnv w' = wEnv w \<and> same_orders (wRepo w) (wRepo w') \<and>
     rpOperations (wRepo w') = rpOperations (wRepo w) \<and> rpEventSink (wRepo w') = rpEventSink (wRepo w)"

lemma reuse_order_only_intents: "only_intents w (snd (reuse_order c dg v w))"
  by (simp add: reuse_order_def only_intents_def same_orders_def fail_def ret_def and_then_def
      on_repo_def FindCreateIntent_def read_state_def service_now_def UpdateCreateIntent_def
      put_intent_def modify_state_def split: option.split)

lemma reuse_order_runs:
  assumes "oRequestDigest v = requestDigest (trimmed c)" and "intent_closable c (wRepo w)"
  shows "\<exists>w'. reuse_order (trimmed c) (requestDigest (trimmed c)) v w = (Inr (v, True), w')"
  using assms
  by (auto simp: reuse_order_def fail_def ret_def and_then_def on_repo_def FindCreateIntent_def
      read_state_def service_now_def UpdateCreateIntent_def put_intent_def modify_state_def
      intent_closable_def command_key_def split: option.split)

lemma reuse_order_InrD:
  assumes "reuse_order (trimmed c) (requestDigest (trimmed c)) v w = (Inr (u, b), w')"
  shows "u = v \<and> oRequestDigest v = requestDigest (trimmed c) \<and> intent_closable c (wRepo w')"
  using assms
  by (auto simp: reuse_order_def fail_def ret_def and_then_def on_repo_def FindCreateIntent_def
      read_state_def service_now_def UpdateCreateIntent_def put_intent_def modify_state_def
      intent_closable_def command_key_def split: option.splits if_splits)

section \<open>A fresh attempt\<close>

lemma Repository_Create_new:
  assumes "rpIdempotency r (order_key v) = None" and "Repository_Create v r = (Inr (u, b), r')"
  shows "u = v \<and> \<not> b \<and> rpOrders r' = (rpOrders r)(oOrderID v \<mapsto> v) \<and>
    rpIdempotency r' = (rpIdempotency r)(order_key v \<mapsto> oOrderID v) \<and> rpIntents r' = rpIntents r"
proof -
  obtain res r1 where m: "emit (order_created_event v) r = (res, r1)"
    by (cases "emit (order_created_event v) r")
  then show ?thesis
    using assms emit_orders [OF m]
    by (cases res) (auto simp: Repository_Create_def order_key_def and_then_def Let_def put_order_def
        modify_state_def ret_def)
qed

text \<open>The parts of a body that succeeded.\<close>

lemma create_body_InrE:
  assumes "create_body d c dg oid now w = (Inr x, w')"
  obtains skus w1 address w2 amount lines rs w3 where
    "on_env (GetSKUSnapshot d (map ciSKUID (sort_key ciSKUID (ccItems c)))) w = (Inr skus, w1)"
    and "on_env (GetAddressSnapshot d (ccUserID c) (ccAddressID c)) w1 = (Inr address, w2)"
    and "reserve_items d c oid (map_of (rev (map (\<lambda>sku. (skID sku, sku)) skus)))
      (sort_key ciSKUID (ccItems c)) 0 [] [] w2 = (Inr (amount, lines, rs), w3)"
    and "on_repo (Repository_Create (new_order d c dg oid address now amount lines)) w3 = (Inr x, w')"
proof -
  obtain skus w1 where s1: "on_env (GetSKUSnapshot d (map ciSKUID (sort_key ciSKUID (ccItems c)))) w = (Inr skus, w1)"
      and rest: "(let byID = map_of (rev (map (\<lambda>sku. (skID sku, sku)) skus)) in
      and_then (on_env (GetAddressSnapshot d (ccUserID c) (ccAddressID c))) (\<lambda>address.
      if adID address \<noteq> ccAddressID c \<or> adUserID address \<noteq> ccUserID c
      then fail (NewError CodeForbidden ''address does not belong to the user'' None)
      else
        and_then (reserve_items d c oid byID (sort_key ciSKUID (ccItems c)) 0 [] []) (\<lambda>(amount, lines, reservations).
        inspect (on_repo (Repository_Create (new_order d c dg oid address now amount lines)))
          (\<lambda>res. case res of
             Inl err \<Rightarrow> and_then (compensateReservations d oid reservations) (\<lambda>_. fail err)
           | Inr (created, reused) \<Rightarrow> ret (created, reused))))) w1 = (Inr x, w')"
    using assms(1) unfolding create_body_def Let_def [of "sort_key _ _"] by (rule and_then_InrE)
  let ?byID = "map_of (rev (map (\<lambda>sku. (skID sku, sku)) skus))"
  let ?reserve = "\<lambda>address. and_then (reserve_items d c oid ?byID (sort_key ciSKUID (ccItems c)) 0 [] [])
        (\<lambda>(amount, lines, reservations).
        inspect (on_repo (Repository_Create (new_order d c dg oid address now amount lines)))
          (\<lambda>res. case res of
             Inl err \<Rightarrow> and_then (compensateReservations d oid reservations) (\<lambda>_. fail err)
           | Inr (created, reused) \<Rightarrow> ret (created, reused)))"
  obtain address w2 where s2: "on_env (GetAddressSnapshot d (ccUserID c) (ccAddressID c)) w1 = (Inr address, w2)"
      and rest2: "(if adID address \<noteq> ccAddressID c \<or> adUserID address \<noteq> ccUserID c
      then fail (NewError CodeForbidden ''address does not belong to the user'' None)
      else ?reserve address) w2 = (Inr x, w')"
    using rest unfolding Let_def by (rule and_then_InrE)
  then have "?reserve address w2 = (Inr x, w')" by (auto simp: fail_def split: if_splits)
  then obtain amount lines rs w3 where
      s3: "reserve_items d c oid ?byID (sort_key ciSKUID (ccItems c)) 0 [] [] w2 = (Inr (amount, lines, rs), w3)"
      and rest3: "inspect (on_repo (Repository_Create (new_order d c dg oid address now amount lines)))
          (\<lambda>res. case res of
             Inl err \<Rightarrow> and_then (compensateReservations d oid rs) (\<lambda>_. fail err)
           | Inr (created, reused) \<Rightarrow> ret (created, reused)) w3 = (Inr x, w')"
    by (auto elim!: and_then_InrE)
  then have "on_repo (Repository_Create (new_order d c dg oid address now amount lines)) w3 = (Inr x, w')"
    by (auto simp: inspect_def and_then_def fail_def ret_def split: prod.splits sum.splits)
  with s1 s2 s3 show thesis by (rule that)
qed

lemma create_body_Inr:
  assumes "create_body d c dg oid now w = (Inr (v, b), w')"
    and "rpIdempotency (wRepo w) (idempotencyKey (ccUserID c) (ccIdempotencyKey c)) = None"
  shows "\<not> b \<and> (\<exists>address amount lines. v = new_order d c dg oid address now amount lines) \<and>
    rpOrders (wRepo w') = (rpOrders (wRepo w))(oid \<mapsto> v) \<and>
    rpIdempotency (wRepo w') = (rpIdempotency (wRepo w))
      (idempotencyKey (ccUserID c) (ccIdempotencyKey c) \<mapsto> oid) \<and>
    rpIntents (wRepo w') = rpIntents (wRepo w)"
  using assms(1)
proof (rule create_body_InrE)
  fix skus w1 address w2 amount lines rs w3
  assume s1: "on_env (GetSKUSnapshot d (map ciSKUID (sort_key ciSKUID (ccItems c)))) w = (Inr skus, w1)"
    and s2: "on_env (GetAddressSnapshot d (ccUserID c) (ccAddressID c)) w1 = (Inr address, w2)"
    and s3: "reserve_items d c oid (map_of (rev (map (\<lambda>sku. (skID sku, sku)) skus)))
      (sort_key ciSKUID (ccItems c)) 0 [] [] w2 = (Inr (amount, lines, rs), w3)"
    and rc: "on_repo (Repository_Create (new_order d c dg oid address now amount lines)) w3 = (Inr (v, b), w')"
  let ?v = "new_order d c dg oid address now amount lines"
  have core3: "core (wRepo w3) = core (wRepo w)"
    using preservesD [OF core_reserve preservesD [OF core_env preservesD [OF core_env refl s1] s2] s3] .
  have "Repository_Create ?v (wRepo w3) = (Inr (v, b), wRepo w')"
    using rc by (auto simp: on_repo_def split: prod.splits)
  moreover have "order_key ?v = idempotencyKey (ccUserID c) (ccIdempotencyKey c)" "oOrderID ?v = oid"
    by (simp_all add: order_key_def new_order_def)
  ultimately show ?thesis
    using Repository_Create_new [of "wRepo w3" ?v v b "wRepo w'"] core3 assms(2)
    by (auto simp: core_def)
qed

section \<open>Intents during an attempt\<close>

abbreviation fixed_intents :: "_ \<Rightarrow> 'e world \<Rightarrow> bool" where
  "fixed_intents x w \<equiv> rpIntents (wRepo w) = x"

lemma core_intents:
  assumes "\<And>x. preserves (fixed_core x) m"
  shows "preserves (fixed_intents y) m"
proof (rule preservesI)
  fix w :: "'a world" assume "fixed_intents y w"
  moreover have "core (wRepo (snd (m w))) = core (wRepo w)"
    using assms [of "core (wRepo w)"] by (rule preserves_snd) simp
  ultimately show "fixed_intents y (snd (m w))" by (simp add: core_def)
qed

lemma intents_Repository_Create: "preserves (fixed_intents y) (on_repo (Repository_Create v))"
proof -
  have "rpIntents (snd (emit ev r)) = rpIntents r" for ev r
    by (simp add: emit_def split: option.split sum.split prod.split)
  then have "rpIntents (snd (Repository_Create v r)) = rpIntents r" for r
    by (auto simp: Repository_Create_def and_then_def Let_def put_order_def modify_state_def ret_def
        fail_def split: option.split prod.split sum.split) (metis snd_conv)+
  then show ?thesis
    by (auto simp: preserves_def on_repo_def split: prod.split) (metis snd_conv)
qed

lemma intents_body: "preserves (fixed_intents y) (create_body d c dg oid now)"
  unfolding create_body_def Let_def compensateReservations_def
  by (intro preserves_and_then preserves_inspect preserves_if preserves_case_prod preserves_case_sum
      intents_Repository_Create pres_intros core_intents)

definition closed_intent :: "CreateIntent \<Rightarrow> time \<Rightarrow> 'a result \<Rightarrow> CreateIntent" where
  "closed_intent i now res =
     (case res of
        Inl err \<Rightarrow> i\<lparr>inUpdatedAt := now, inStatus := CreateIntentFailed, inAttempts := inAttempts i + 1,
          inLastError := compactError err, inNextRetryAt := now + retryDelay 1\<rparr>
      | Inr _ \<Rightarrow> i\<lparr>inUpdatedAt := now, inStatus := CreateIntentDone, inLastError := []\<rparr>)"

lemma closed_intent_sel [simp]:
  "inUserID (closed_intent i now res) = inUserID i"
  "inIdempotencyKey (closed_intent i now res) = inIdempotencyKey i"
  "inRequestDigest (closed_intent i now res) = inRequestDigest i"
  by (simp_all add: closed_intent_def split: sum.split)

lemma close_intent_exact:
  assumes "rpIntents (wRepo w) (idempotencyKey (inUserID i) (inIdempotencyKey i)) \<noteq> None"
  shows "close_intent i res w =
    (Inr (), w\<lparr>wRepo := (wRepo w)\<lparr>rpIntents := (rpIntents (wRepo w))
       (idempotencyKey (inUserID i) (inIdempotencyKey i) \<mapsto> closed_intent i (shd (wNow w)) res)\<rparr>,
       wNow := stl (wNow w)\<rparr>)"
  using assms
  by (cases res) (auto simp: close_intent_def closed_intent_def service_now_def and_then_def
      ignore_error_def inspect_def on_repo_def UpdateCreateIntent_def put_intent_def modify_state_def ret_def)

text \<open>
  An attempt whose intent fits: it is saved, the body runs, and the intent is closed with
  the outcome of the body.
\<close>

lemma create_new_exact:
  assumes "\<And>i. rpIntents (wRepo w) (command_key c) = Some i \<Longrightarrow> inRequestDigest i = dg"
  obtains i w1 res w2 where
    "i = start_intent (trimmed c) dg
       (deterministicOrderID (ccUserID c) (TrimSpace (ccIdempotencyKey c)) dg) n (shd (wNow w))"
    and "w1 = w\<lparr>wNow := stl (wNow w),
       wRepo := (wRepo w)\<lparr>rpIntents := (rpIntents (wRepo w))(command_key c \<mapsto> i)\<rparr>\<rparr>"
    and "create_body d (trimmed c) dg (inOrderID i) (shd (wNow w)) w1 = (res, w2)"
    and "create_new d (trimmed c) dg n w =
       (res, w2\<lparr>wRepo := (wRepo w2)\<lparr>rpIntents := (rpIntents (wRepo w))
          (command_key c \<mapsto> closed_intent i (shd (wNow w2)) res)\<rparr>, wNow := stl (wNow w2)\<rparr>)"
proof -
  let ?i = "start_intent (trimmed c) dg
       (deterministicOrderID (ccUserID c) (TrimSpace (ccIdempotencyKey c)) dg) n (shd (wNow w))"
  let ?w1 = "w\<lparr>wNow := stl (wNow w),
       wRepo := (wRepo w)\<lparr>rpIntents := (rpIntents (wRepo w))(command_key c \<mapsto> ?i)\<rparr>\<rparr>"
  have key: "idempotencyKey (inUserID ?i) (inIdempotencyKey ?i) = command_key c"
    by (simp add: start_intent_def command_key_def)
  have save: "on_repo (SaveCreateIntent ?i) (w\<lparr>wNow := stl (wNow w)\<rparr>) = (Inr (), ?w1)"
    using assms key by (auto simp: on_repo_def SaveCreateIntent_def put_intent_def modify_state_def
        start_intent_def split: option.split)
  obtain res w2 where body: "create_body d (trimmed c) dg (inOrderID ?i) (shd (wNow w)) ?w1 = (res, w2)"
    by fastforce
  have intents: "rpIntents (wRepo w2) = (rpIntents (wRepo w))(command_key c \<mapsto> ?i)"
    by (rule preservesD [OF intents_body _ body]) simp
  have close: "close_intent ?i res w2 = (Inr (), w2\<lparr>wRepo := (wRepo w2)\<lparr>rpIntents :=
      (rpIntents (wRepo w))(command_key c \<mapsto> closed_intent ?i (shd (wNow w2)) res)\<rparr>, wNow := stl (wNow w2)\<rparr>)"
    using close_intent_exact [of w2 ?i res] intents key by simp
  have "inOrderID ?i = deterministicOrderID (ccUserID c) (TrimSpace (ccIdempotencyKey c)) dg"
    by (simp add: start_intent_def)
  then have "create_new d (trimmed c) dg n w =
       (res, w2\<lparr>wRepo := (wRepo w2)\<lparr>rpIntents := (rpIntents (wRepo w))
          (command_key c \<mapsto> closed_intent ?i (shd (wNow w2)) res)\<rparr>, wNow := stl (wNow w2)\<rparr>)"
    using save body close
    by (simp add: create_new_def and_then_def service_now_def inspect_def of_result_def Let_def)
  with body that show thesis by blast
qed

lemma create_new_closed:
  assumes "\<And>i. rpIntents (wRepo w) (command_key c) = Some i \<Longrightarrow> inRequestDigest i = dg"
    and "create_new d (trimmed c) dg n w = (res, w')"
  shows "\<exists>i now'. inAttempts i = n \<and>
    rpIntents (wRepo w') (command_key c) = Some (closed_intent i now' res)"
proof (rule create_new_exact [of w c dg n d], erule assms(1))
  fix i w1 res1 w2
  assume i: "i = start_intent (trimmed c) dg
       (deterministicOrderID (ccUserID c) (TrimSpace (ccIdempotencyKey c)) dg) n (shd (wNow w))"
    and run: "create_new d (trimmed c) dg n w =
       (res1, w2\<lparr>wRepo := (wRepo w2)\<lparr>rpIntents := (rpIntents (wRepo w))
          (command_key c \<mapsto> closed_intent i (shd (wNow w2)) res1)\<rparr>, wNow := stl (wNow w2)\<rparr>)"
  have "rpIntents (wRepo w') (command_key c) = Some (closed_intent i (shd (wNow w2)) res)"
    using run unfolding assms(2) by auto
  moreover have "inAttempts i = n" by (simp add: i start_intent_def)
  ultimately show ?thesis by blast
qed

section \<open>Create on a key without an order\<close>

definition attempts_so_far :: "CreateCommand \<Rightarrow> MemoryRepository \<Rightarrow> int" where
  "attempts_so_far c r = (case rpIntents r (command_key c) of None \<Rightarrow> 0 | Some i \<Rightarrow> inAttempts i)"

lemma Create_attempt:
  assumes "validateCreate (trimmed c) = Inr ()" and "rpIdempotency (wRepo w) (command_key c) = None"
    and "\<And>i. rpIntents (wRepo w) (command_key c) = Some i \<Longrightarrow> inRequestDigest i = requestDigest (trimmed c)"
  shows "Service_Create d c w =
    (if maxCreateIntentAttempts \<le> attempts_so_far c (wRepo w) then (Inl attempts_exhausted, w)
     else create_new d (trimmed c) (requestDigest (trimmed c)) (attempts_so_far c (wRepo w)) w)"
  using assms(3)
  by (auto simp: Create_unknown [OF assms(1,2)] attempts_so_far_def maxCreateIntentAttempts_def fail_def
      split: option.split)

text \<open>What a created order looks like in the repository.\<close>

definition filed :: "CreateCommand \<Rightarrow> Order \<Rightarrow> MemoryRepository \<Rightarrow> bool" where
  "filed c v r \<longleftrightarrow>
     (\<exists>k. rpIdempotency r (command_key c) = Some k \<and> rpOrders r k = Some v) \<and>
     oRequestDigest v = requestDigest (trimmed c) \<and> intent_closable c r"

lemma create_new_filed:
  assumes "create_new d (trimmed c) (requestDigest (trimmed c)) n w = (Inr (v, b), w')"
    and "rpIdempotency (wRepo w) (command_key c) = None"
    and "\<And>i. rpIntents (wRepo w) (command_key c) = Some i \<Longrightarrow> inRequestDigest i = requestDigest (trimmed c)"
  shows "filed c v (wRepo w') \<and> \<not> b"
proof (rule create_new_exact [of w c "requestDigest (trimmed c)" n d], erule assms(3))
  fix i w1 res w2
  assume i: "i = start_intent (trimmed c) (requestDigest (trimmed c)) (deterministicOrderID (ccUserID c)
        (TrimSpace (ccIdempotencyKey c)) (requestDigest (trimmed c))) n (shd (wNow w))"
    and w1: "w1 = w\<lparr>wNow := stl (wNow w),
       wRepo := (wRepo w)\<lparr>rpIntents := (rpIntents (wRepo w))(command_key c \<mapsto> i)\<rparr>\<rparr>"
    and body: "create_body d (trimmed c) (requestDigest (trimmed c)) (inOrderID i) (shd (wNow w)) w1 = (res, w2)"
    and run: "create_new d (trimmed c) (requestDigest (trimmed c)) n w =
       (res, w2\<lparr>wRepo := (wRepo w2)\<lparr>rpIntents := (rpIntents (wRepo w))
          (command_key c \<mapsto> closed_intent i (shd (wNow w2)) res)\<rparr>, wNow := stl (wNow w2)\<rparr>)"
  have res: "res = Inr (v, b)" and w': "w' = w2\<lparr>wRepo := (wRepo w2)\<lparr>rpIntents := (rpIntents (wRepo w))
          (command_key c \<mapsto> closed_intent i (shd (wNow w2)) res)\<rparr>, wNow := stl (wNow w2)\<rparr>"
    using run unfolding assms(1) by simp_all
  have "idempotencyKey (ccUserID (trimmed c)) (ccIdempotencyKey (trimmed c)) = command_key c"
    by (simp add: command_key_def)
  with create_body_Inr [OF body [unfolded res]] assms(2) w1
  have "\<not> b \<and> oRequestDigest v = requestDigest (trimmed c) \<and>
      rpIdempotency (wRepo w2) (command_key c) = Some (inOrderID i) \<and>
      rpOrders (wRepo w2) (inOrderID i) = Some v"
    by (auto simp: new_order_def)
  moreover have "intent_closable c (wRepo w')"
    by (simp add: intent_closable_def w' i start_intent_def command_key_def)
  ultimately show ?thesis by (simp add: filed_def w')
qed

lemma Create_filed:
  assumes "Service_Create d c w = (Inr (v, b), w')"
  shows "filed c v (wRepo w')"
proof -
  let ?dg = "requestDigest (trimmed c)"
  have valid: "validateCreate (trimmed c) = Inr ()"
    using assms Create_invalid [of c _ d w] by (cases "validateCreate (trimmed c)") auto
  show ?thesis
  proof (cases "rpIdempotency (wRepo w) (command_key c)")
    case None
    then have fits: "inRequestDigest i = ?dg" if "rpIntents (wRepo w) (command_key c) = Some i" for i
      using assms that by (auto simp: Create_unknown [OF valid None] fail_def split: if_splits)
    then have "create_new d (trimmed c) ?dg (attempts_so_far c (wRepo w)) w = (Inr (v, b), w')"
      using assms by (auto simp: Create_attempt [OF valid None fits] split: if_splits)
    then show ?thesis using create_new_filed None fits by blast
  next
    case (Some k)
    obtain u where u: "rpOrders (wRepo w) k = Some u"
      using assms valid Some
      by (cases "rpOrders (wRepo w) k") (auto simp: Service_Create_def Let_def trimmed_def [symmetric]
          and_then_def of_result_def on_repo_def FindByIdempotency_def command_key_def)
    then have run: "reuse_order (trimmed c) ?dg u w = (Inr (v, b), w')"
      using Create_known [OF valid Some u] assms by simp
    then have "same_orders (wRepo w) (wRepo w')"
      using reuse_order_only_intents [of w "trimmed c" ?dg u] by (simp add: only_intents_def)
    with reuse_order_InrD [OF run] Some u show ?thesis by (auto simp: filed_def same_orders_def)
  qed
qed

section \<open>Intents stay with their order\<close>

definition intent_key :: "CreateIntent \<Rightarrow> string" where
  "intent_key i = idempotencyKey (inUserID i) (inIdempotencyKey i)"

text \<open>
  Every intent is filed under its own key, and for the pairs of \<open>S\<close>, keys with an order and the
  digests of their requests, the intent of the key is for that request.
\<close>

definition intents_settled :: "(string \<times> string) set \<Rightarrow> MemoryRepository \<Rightarrow> bool" where
  "intents_settled S r \<longleftrightarrow> keys_ok r \<and> (\<forall>k i. rpIntents r k = Some i \<longrightarrow> intent_key i = k) \<and>
     (\<forall>k dg. (k, dg) \<in> S \<longrightarrow> rpIdempotency r k \<noteq> None \<and> (\<forall>i. rpIntents r k = Some i \<longrightarrow> inRequestDigest i = dg))"

definition settled_intent :: "(string \<times> string) set \<Rightarrow> CreateIntent \<Rightarrow> bool" where
  "settled_intent S i \<longleftrightarrow> (\<forall>dg. (intent_key i, dg) \<in> S \<longrightarrow> inRequestDigest i = dg)"

lemma settled_intent_fields [simp]:
  "settled_intent S (i\<lparr>inStatus := st, inLastError := e, inUpdatedAt := t\<rparr>) = settled_intent S i"
  "settled_intent S (i\<lparr>inStatus := st, inAttempts := n, inLastError := e, inUpdatedAt := t\<rparr>) = settled_intent S i"
  by (simp_all add: settled_intent_def intent_key_def)

lemma settled_update:
  assumes "intents_settled S r" and "settled_intent S i"
  shows "intents_settled S (r\<lparr>rpIntents := (rpIntents r)(intent_key i \<mapsto> i)\<rparr>)"
  using assms by (auto simp: intents_settled_def settled_intent_def keys_ok_def split: if_splits)

lemma settled_found: "intents_settled S r \<Longrightarrow> rpIntents r k = Some i \<Longrightarrow> settled_intent S i"
  unfolding intents_settled_def settled_intent_def by blast

lemma settled_UpdateCreateIntent:
  "intents_settled S r \<Longrightarrow> settled_intent S i \<Longrightarrow> intents_settled S (snd (UpdateCreateIntent i r))"
  using settled_update [of S r i]
  by (simp add: UpdateCreateIntent_def put_intent_def modify_state_def fail_def intent_key_def split: option.split)

interpretation has_key: repository_property "\<lambda>r. rpIdempotency r k = Some oid" for k oid
proof unfold_locales
  fix r :: MemoryRepository and v assume "rpIdempotency r k = Some oid"
  then show "rpIdempotency (snd (Repository_Create v r)) k = Some oid"
    by (cases rule: Repository_Create_cases [of v r]) auto
next
  fix r :: MemoryRepository and oid' uid target reason at aid now assume "rpIdempotency r k = Some oid"
  then show "rpIdempotency (snd (Transition oid' uid target reason at aid now r)) k = Some oid"
    by (cases rule: Transition_cases [of oid' uid target reason at aid now r]) auto
qed (simp add: same_orders_def)

lemma Transition_intents: "rpIntents (snd (Transition oid uid target reason at aid now r)) = rpIntents r"
proof -
  let ?P = "\<lambda>r'. rpIntents r' = rpIntents r"
  have emits: "preserves ?P (emit ev)" for ev
    using emit_orders by (auto simp: preserves_def) (metis prod.collapse)
  have puts: "preserves ?P (put_order k v)" for k v
    unfolding put_order_def by (rule preserves_modify_state) simp
  show ?thesis
  proof (cases "rpOrders r oid")
    case (Some v)
    have "preserves ?P (if \<not> visible uid v then fail order_missing else if oStatus v = target then ret v
        else if \<not> canTransition (oStatus v) target
        then fail (NewError CodeInvalidTransition ''operation not allowed in this order status'' None)
        else and_then (if target = StatusCanceled then emit (order_cancelled_event v reason now) else ret ()) (\<lambda>_.
          and_then (put_order oid (moved target reason at aid now v)) (\<lambda>_. ret (moved target reason at aid now v))))"
      by (intro pres_intros emits puts)
    from preserves_snd [OF this, of r] Some show ?thesis by (simp only: Transition_def option.case)
  qed (simp add: Transition_def fail_def)
qed

text \<open>What a method does to orders and keys is kept by \<open>keys_ok\<close> and \<open>has_key\<close>; intents are left.\<close>

lemma settled_after:
  assumes "intents_settled S (wRepo w)" and "\<And>P. repository_property P \<Longrightarrow> P (wRepo w) \<Longrightarrow> P (wRepo w')"
    and "\<And>k i. rpIntents (wRepo w') k = Some i \<Longrightarrow> intent_key i = k \<and> settled_intent S i"
  shows "intents_settled S (wRepo w')"
proof -
  have "keys_ok (wRepo w')"
    using assms(2) [OF keys_ok.repository_property_axioms] assms(1) unfolding intents_settled_def by blast
  moreover have "rpIdempotency (wRepo w') k \<noteq> None" if "(k, dg) \<in> S" for k dg
  proof -
    from assms(1) that obtain oid where "rpIdempotency (wRepo w) k = Some oid" unfolding intents_settled_def by blast
    then have "rpIdempotency (wRepo w') k = Some oid" by (rule assms(2) [OF has_key.repository_property_axioms])
    then show ?thesis by simp
  qed
  moreover have "inRequestDigest i = dg" if "(k, dg) \<in> S" "rpIntents (wRepo w') k = Some i" for k dg i
    using assms(3) [OF that(2)] that(1) by (auto simp: settled_intent_def)
  ultimately show ?thesis using assms(3) unfolding intents_settled_def by blast
qed

lemma reuse_order_state:
  "snd (reuse_order c dg v w) = w \<or> (\<exists>i. rpIntents (wRepo w) (idempotencyKey (ccUserID c) (ccIdempotencyKey c)) = Some i \<and>
     wRepo (snd (reuse_order c dg v w)) = snd (UpdateCreateIntent (i\<lparr>inStatus := CreateIntentDone, inLastError := [],
       inUpdatedAt := shd (wNow w)\<rparr>) (wRepo w)))"
  by (auto simp: reuse_order_def fail_def ret_def and_then_def on_repo_def FindCreateIntent_def
      read_state_def service_now_def split: option.split prod.split sum.split)

lemma reuse_order_settled:
  assumes "intents_settled S (wRepo w)"
  shows "intents_settled S (wRepo (snd (reuse_order c dg v w)))"
  using reuse_order_state [of c dg v w] assms settled_found [OF assms]
  by (auto intro!: settled_UpdateCreateIntent)

lemma settled_Create: "preserves (\<lambda>w. intents_settled S (wRepo w)) (Service_Create d c)"
proof (rule preservesI)
  fix w :: "'a world" assume ok: "intents_settled S (wRepo w)"
  let ?dg = "requestDigest (trimmed c)"
  show "intents_settled S (wRepo (snd (Service_Create d c w)))"
  proof (cases "validateCreate (trimmed c)")
    case (Inl e)
    with ok show ?thesis by (simp add: Create_invalid)
  next
    case (Inr u)
    then have valid: "validateCreate (trimmed c) = Inr ()" by simp
    consider (known) k v where "rpIdempotency (wRepo w) (command_key c) = Some k" "rpOrders (wRepo w) k = Some v"
      | (other) i where "rpIdempotency (wRepo w) (command_key c) = None" "rpIntents (wRepo w) (command_key c) = Some i"
          "inRequestDigest i \<noteq> ?dg"
      | (fits) "rpIdempotency (wRepo w) (command_key c) = None"
          "\<And>i. rpIntents (wRepo w) (command_key c) = Some i \<Longrightarrow> inRequestDigest i = ?dg"
      using ok unfolding intents_settled_def keys_ok_def by (metis not_None_eq)
    then show ?thesis
    proof cases
      case known
      with ok show ?thesis by (simp add: Create_known [OF valid known] reuse_order_settled)
    next
      case other
      with ok show ?thesis by (simp add: Create_unknown [OF valid other(1)] fail_def)
    next
      case fits
      note run = Create_attempt [OF valid fits, of d]
      show ?thesis
      proof (cases "maxCreateIntentAttempts \<le> attempts_so_far c (wRepo w)")
        case True
        with ok run show ?thesis by simp
      next
        case False
        obtain i w1 res w2 where i: "i = start_intent (trimmed c) ?dg
            (deterministicOrderID (ccUserID c) (TrimSpace (ccIdempotencyKey c)) ?dg) (attempts_so_far c (wRepo w)) (shd (wNow w))"
          and new: "create_new d (trimmed c) ?dg (attempts_so_far c (wRepo w)) w =
            (res, w2\<lparr>wRepo := (wRepo w2)\<lparr>rpIntents := (rpIntents (wRepo w))
              (command_key c \<mapsto> closed_intent i (shd (wNow w2)) res)\<rparr>, wNow := stl (wNow w2)\<rparr>)"
          by (rule create_new_exact [of w c ?dg "attempts_so_far c (wRepo w)" d, OF fits(2)])
        let ?i = "closed_intent i (shd (wNow w2)) res"
        have key: "intent_key ?i = command_key c" by (simp add: intent_key_def i start_intent_def command_key_def)
        moreover have "(command_key c, dg) \<notin> S" for dg using ok fits(1) unfolding intents_settled_def by blast
        ultimately have "settled_intent S ?i" by (simp add: settled_intent_def)
        moreover have "intent_key i' = k \<and> settled_intent S i'" if "rpIntents (wRepo w) k = Some i'" for k i'
          using ok that settled_found [OF ok that] by (auto simp: intents_settled_def)
        moreover have "rpIntents (wRepo (snd (Service_Create d c w))) = (rpIntents (wRepo w))(command_key c \<mapsto> ?i)"
          using run False new by simp
        ultimately have "intent_key i' = k \<and> settled_intent S i'"
          if "rpIntents (wRepo (snd (Service_Create d c w))) k = Some i'" for k i'
          using that key by (auto split: if_splits)
        moreover have "P (wRepo (snd (Service_Create d c w)))" if "repository_property P" "P (wRepo w)" for P
          by (rule repository_property.holds_Create [OF that(1), THEN preserves_snd]) (rule that(2))
        ultimately show ?thesis by (rule settled_after [OF ok, rotated])
      qed
    qed
  qed
qed

lemma recover_intents_settled:
  "intents_settled S (wRepo w) \<Longrightarrow> \<forall>i \<in> set intents. settled_intent S i \<Longrightarrow>
     intents_settled S (wRepo (snd (recover_intents d intents n w)))"
proof (induction intents arbitrary: n w)
  case (Cons i intents)
  have create: "intents_settled S (wRepo w')" if "Service_Create d c w = (res, w')" for c res w'
    using preservesD [OF settled_Create Cons.prems(1) that] .
  have update: "intents_settled S (wRepo w')"
    if "and_then service_now (\<lambda>now. on_repo (UpdateCreateIntent (i\<lparr>inStatus := CreateIntentFailed,
      inAttempts := maxCreateIntentAttempts, inLastError := e, inUpdatedAt := now\<rparr>))) w = (res, w')" for e res w'
  proof -
    have "wRepo w' = snd (UpdateCreateIntent (i\<lparr>inStatus := CreateIntentFailed,
      inAttempts := maxCreateIntentAttempts, inLastError := e, inUpdatedAt := shd (wNow w)\<rparr>) (wRepo w))"
      using that by (auto simp: and_then_def service_now_def on_repo_def split: prod.splits)
    with Cons.prems show ?thesis by (simp add: settled_UpdateCreateIntent)
  qed
  show ?case
    using Cons.IH Cons.prems(2) create update by (simp add: Let_def split: prod.split sum.split)
qed simp

lemma set_collect: "set (collect P limit values vs) \<subseteq> set values \<union> set vs"
  by (induction P limit "values" vs rule: collect.induct) (auto simp: Let_def)

lemma settled_recovery:
  assumes "intents_settled S (wRepo w)"
  shows "intents_settled S (wRepo (snd (RecoverCreateIntents d ks lim w)))"
proof -
  let ?list = "sort_key inNextRetryAt (collect (intent_due (shd (wNow w))) (page_limit lim) [] (range_values ks (rpIntents (wRepo w))))"
  have "settled_intent S i" if "i \<in> set ?list" for i
    using that set_collect [of "intent_due (shd (wNow w))" "page_limit lim" "[]"] settled_found [OF assms]
    by (fastforce simp: set_range_values)
  then have "intents_settled S (wRepo (snd (recover_intents d ?list 0 (w\<lparr>wNow := stl (wNow w)\<rparr>))))"
    using assms by (intro recover_intents_settled) simp_all
  then show ?thesis
    by (simp add: RecoverCreateIntents_def and_then_def service_now_def on_repo_def ListPendingCreateIntents_def read_state_def)
qed

interpretation settled: order_property "intents_settled S" d for S d
proof unfold_locales
  fix r r' assume "intents_settled S r" "same_books r r'"
  then show "intents_settled S r'" by (simp add: intents_settled_def same_books_def same_orders_def keys_ok_def)
next
  fix r oid uid target reason at aid now assume ok: "intents_settled S r"
  let ?r = "snd (Transition oid uid target reason at aid now r)"
  have "rpIdempotency ?r = rpIdempotency r"
    by (cases rule: Transition_cases [of oid uid target reason at aid now r]) auto
  with ok keys_ok_Transition Transition_intents show "intents_settled S ?r" by (simp add: intents_settled_def)
qed (rule settled_Create, rule settled_recovery)

text \<open>Only the intent of the key and the clock changed.\<close>

definition only_intent :: "string \<Rightarrow> 'e world \<Rightarrow> 'e world \<Rightarrow> bool" where
  "only_intent key w w' \<longleftrightarrow> only_intents w w' \<and> (\<forall>k. k \<noteq> key \<longrightarrow> rpIntents (wRepo w') k = rpIntents (wRepo w) k)"

lemma reuse_order_only_intent:
  assumes "intents_settled S (wRepo w)"
  shows "only_intent (command_key c) w (snd (reuse_order (trimmed c) dg v w))"
proof -
  have "rpIntents (wRepo (snd (reuse_order (trimmed c) dg v w))) k = rpIntents (wRepo w) k" if "k \<noteq> command_key c" for k
    using reuse_order_state [of "trimmed c" dg v w]
  proof
    assume "\<exists>i. rpIntents (wRepo w) (idempotencyKey (ccUserID (trimmed c)) (ccIdempotencyKey (trimmed c))) = Some i \<and>
     wRepo (snd (reuse_order (trimmed c) dg v w)) = snd (UpdateCreateIntent (i\<lparr>inStatus := CreateIntentDone, inLastError := [],
       inUpdatedAt := shd (wNow w)\<rparr>) (wRepo w))"
    then obtain i where i: "rpIntents (wRepo w) (command_key c) = Some i"
      "wRepo (snd (reuse_order (trimmed c) dg v w)) = snd (UpdateCreateIntent (i\<lparr>inStatus := CreateIntentDone, inLastError := [],
       inUpdatedAt := shd (wNow w)\<rparr>) (wRepo w))"
      by (auto simp: command_key_def)
    moreover have "idempotencyKey (inUserID i) (inIdempotencyKey i) = command_key c"
      using assms i(1) by (auto simp: intents_settled_def intent_key_def)
    ultimately show ?thesis
      using that by (simp add: UpdateCreateIntent_def put_intent_def modify_state_def)
  qed simp
  with reuse_order_only_intents [of w "trimmed c" dg v] show ?thesis by (simp add: only_intent_def)
qed

text \<open>A command on a key whose order is known and whose intent is for the request of the order.\<close>

lemma Create_again:
  assumes "intents_settled {(command_key c, dg)} (wRepo w)" and "rpIdempotency (wRepo w) (command_key c) = Some k"
    and "rpOrders (wRepo w) k = Some u" and "oRequestDigest u = dg" and "validateCreate (trimmed c) = Inr ()"
  shows "if requestDigest (trimmed c) = dg
    then \<exists>w'. Service_Create d c w = (Inr (u, True), w') \<and> only_intent (command_key c) w w'
    else Service_Create d c w = (Inl key_mismatch, w)"
proof -
  have run: "Service_Create d c w = reuse_order (trimmed c) (requestDigest (trimmed c)) u w"
    using assms(5,2,3) by (rule Create_known)
  have "intent_closable c (wRepo w)" if "requestDigest (trimmed c) = dg"
    using assms(1) that by (auto simp: intent_closable_def intents_settled_def intent_key_def)
  then show ?thesis
    using run reuse_order_runs [of u c w] reuse_order_only_intent [OF assms(1), of c "requestDigest (trimmed c)" u] assms(4)
    by (cases "requestDigest (trimmed c) = dg") (auto simp: reuse_order_def fail_def dest: sym)
qed

end
