(* ===== verification/Order_Example.thy ===== *)
theory Order_Example
  imports Order_Create
begin

text \<open>
  A concrete setting for the examples: a catalog with one SKU, an address for everybody, and
  a stock room that is the list of the reservations it holds; and the inventory service of
  the repository with five pieces of that SKU, behind a network that loses nothing.
\<close>

definition desk_sku :: SKU where
  "desk_sku = \<lparr>skID = 7, skCode = ''LAMP'', skName = ''lamp'', skPriceCents = 250, skActive = True\<rparr>"

definition desk_catalog :: "uint64 list \<Rightarrow> ('c, SKU list) go" where
  "desk_catalog ids = ret (if 7 \<in> set ids then [desk_sku] else [])"

definition desk_address :: "uint64 \<Rightarrow> uint64 \<Rightarrow> ('c, Address) go" where
  "desk_address u a = ret \<lparr>adID = a, adUserID = u, adRecipient = ''Li'', adPhone = ''1'',
     adProvince = ''p'', adCity = ''c'', adDistrict = ''d'', adDetail = ''x''\<rparr>"

definition desk_hold :: "OrderReserveCommand \<Rightarrow> (string list, OrderReservation) go" where
  "desk_hold c = and_then (modify_state (\<lambda>held. ocReservationID c # held)) (\<lambda>_.
     ret \<lparr>orReservationID = ocReservationID c, orOrderID = ocOrderID c, orSKUID = ocSKUID c,
       orQuantity = ocQuantity c, orStatus = ''reserved''\<rparr>)"

definition desk :: "string list dependencies" where
  "desk = \<lparr>GetSKUSnapshot = desk_catalog, GetAddressSnapshot = desk_address,
     inv_Reserve = desk_hold, inv_AdmitSeckill = desk_hold, inv_Confirm = (\<lambda>rid oid. ret ()),
     inv_Release = (\<lambda>rid oid. modify_state (removeAll rid)), inv_Restock = (\<lambda>rid oid. ret ()),
     orderTTL = 900 * Second\<rparr>"

definition room :: "string list world" where
  "room = \<lparr>wRepo = NewMemoryRepository, wEnv = [], wNow = sconst 1000\<rparr>"

definition lamp_order :: CreateCommand where
  "lamp_order = \<lparr>ccUserID = 3, ccAddressID = 4, ccOrderType = ''normal'', ccActivityID = 0,
     ccIdempotencyKey = ''k1'', ccItems = [\<lparr>ciSKUID = 7, ciQuantity = 2\<rparr>]\<rparr>"

lemma trim_examples [simp]:
  "TrimSpace ''k1'' = ''k1''" "TrimSpace ''normal'' = ''normal''" "TrimSpace ''seckill'' = ''seckill''"
  by (simp_all add: TrimSpace_graphic graphic_def)

lemma lamp_order_sel [simp]:
  "ccUserID lamp_order = 3" "ccAddressID lamp_order = 4" "ccOrderType lamp_order = ''normal''"
  "ccActivityID lamp_order = 0" "ccIdempotencyKey lamp_order = ''k1''"
  "ccItems lamp_order = [\<lparr>ciSKUID = 7, ciQuantity = 2\<rparr>]"
  by (simp_all add: lamp_order_def)

lemma trimmed_lamp [simp]: "trimmed lamp_order = lamp_order"
  by (simp add: trimmed_def lamp_order_def)

lemma lamp_valid: "validateCreate lamp_order = Inr ()"
  by (simp add: validateCreate_def lamp_order_def Let_def const_defs)

text \<open>How a creation is evaluated: everything but the digests, which stay symbolic.\<close>

lemmas create_eval =
  create_new_def create_body_def Let_def service_now_def on_repo_def on_env_def and_then_def
  inspect_def of_result_def ret_def fail_def modify_state_def read_state_def SaveCreateIntent_def
  UpdateCreateIntent_def put_intent_def start_intent_def close_intent_def ignore_error_def
  Repository_Create_def put_order_def emit_def new_order_def reserve_command_def

definition lamp :: Order where
  "lamp = \<lparr>oOrderID = command_order_id lamp_order, oUserID = 3, oAddressID = 4,
     oOrderType = ''normal'', oStatus = StatusPendingPayment, oTotalAmountCents = 500,
     oIdempotencyKey = ''k1'', oRequestDigest = requestDigest lamp_order,
     oAddressSnapshot = \<lparr>adID = 4, adUserID = 3, adRecipient = ''Li'', adPhone = ''1'',
       adProvince = ''p'', adCity = ''c'', adDistrict = ''d'', adDetail = ''x''\<rparr>,
     oItems = [\<lparr>itSKUID = 7, itSKUCode = ''LAMP'', itSKUName = ''lamp'', itUnitPriceCents = 250,
       itQuantity = 2, itSubtotalCents = 500,
       itReservationID = reservation_id (command_order_id lamp_order) 7\<rparr>],
     oStatusHistory = [\<lparr>shFromStatus = [], shToStatus = StatusPendingPayment,
        shReason = ''order created'', shActorType = ''user'', shActorID = 3, shCreatedAt = 1000\<rparr>],
     oExpiresAt = 1000 + 900 * Second, oCreatedAt = 1000, oUpdatedAt = 1000\<rparr>"

lemma lamp_create:
  fixes d :: "'e dependencies"
  assumes "rpIdempotency (wRepo w) (command_key lamp_order) = None"
    and "rpIntents (wRepo w) (command_key lamp_order) = None" and "rpEventSink (wRepo w) = None"
    and "\<And>e. GetSKUSnapshot d [7] e = (Inr [desk_sku], e)"
    and "\<And>e. GetAddressSnapshot d 3 4 e = desk_address 3 4 e"
    and "orderTTL d = 900 * Second" and "wNow w = sconst 1000"
    and "inv_Reserve d (reserve_command lamp_order (command_order_id lamp_order)
        \<lparr>ciSKUID = 7, ciQuantity = 2\<rparr>) (wEnv w) =
      (Inr \<lparr>orReservationID = reservation_id (command_order_id lamp_order) 7,
         orOrderID = command_order_id lamp_order, orSKUID = 7, orQuantity = 2, orStatus = st\<rparr>, e')"
  shows "\<exists>w'. Service_Create d lamp_order w = (Inr (lamp, False), w') \<and> wEnv w' = e' \<and>
    wNow w' = sconst 1000 \<and> rpOrders (wRepo w') = (rpOrders (wRepo w))(command_order_id lamp_order \<mapsto> lamp) \<and>
    rpOperations (wRepo w') = rpOperations (wRepo w) \<and> rpEventSink (wRepo w') = None"
proof -
  have "Service_Create d lamp_order w = create_new d lamp_order (requestDigest lamp_order) 0 w"
    using Create_unknown [of lamp_order w d] assms(1,2) lamp_valid by simp
  moreover have "inv_Reserve d \<lparr>ocReservationID = reservation_id (command_order_id lamp_order) 7,
      ocOrderID = command_order_id lamp_order, ocUserID = 3, ocActivityID = 0, ocSKUID = 7,
      ocQuantity = 2, ocMode = ''normal''\<rparr> (wEnv w) = (Inr \<lparr>orReservationID = reservation_id (command_order_id lamp_order) 7,
         orOrderID = command_order_id lamp_order, orSKUID = 7, orQuantity = 2, orStatus = st\<rparr>, e')"
    using assms(8) by (simp add: reserve_command_def)
  moreover have "subtotal 250 2 = Inr 500" "addAmount 0 500 = Inr 500"
    by (simp_all add: subtotal_def addAmount_def max_int64_def)
  moreover have "deterministicOrderID 3 ''k1'' (requestDigest lamp_order) = command_order_id lamp_order"
    by (simp add: command_order_id_def)
  moreover have "command_key lamp_order = idempotencyKey 3 ''k1''"
    by (simp add: command_key_def)
  ultimately show ?thesis using assms(1-7)
    by (simp add: create_eval desk_sku_def desk_address_def lamp_def OrderTypeSeckill_def siterate.simps)
qed

section \<open>The example on the inventory service\<close>

definition warehouse :: "unit system" where
  "warehouse = \<lparr>seStore = NewMemoryStore (sconst 1) [7 \<mapsto> 5] 2, seNetwork = sconst Delivered,
     seOthers = sconst id, seRest = ()\<rparr>"

abbreviation warehouse_desk :: "unit system dependencies" where
  "warehouse_desk \<equiv> system_dependencies desk_catalog desk_address (900 * Second)"

definition floor :: "unit system world" where
  "floor = \<lparr>wRepo = NewMemoryRepository, wEnv = warehouse, wNow = sconst 1000\<rparr>"

lemma desk_create:
  "\<exists>w'. Service_Create desk lamp_order room = (Inr (lamp, False), w') \<and>
     wEnv w' = [reservation_id (command_order_id lamp_order) 7] \<and> wNow w' = sconst 1000 \<and>
     rpOrders (wRepo w') = [command_order_id lamp_order \<mapsto> lamp] \<and>
     rpOperations (wRepo w') = Map.empty \<and> rpEventSink (wRepo w') = None"
  using lamp_create [of room desk "''reserved''" "[reservation_id (command_order_id lamp_order) 7]"]
  by (simp add: room_def NewMemoryRepository_def desk_def desk_catalog_def desk_hold_def
      reserve_command_def and_then_def modify_state_def ret_def)

lemma hex_opaque:
  assumes "hex_char c"
  shows "opaque_char c"
proof -
  obtain d where d: "d < 16" "c = hex_digit d" using assms by (auto simp: hex_char_def)
  then have "(of_char c :: nat) = (if d < 10 then 48 + d else 87 + d)"
    by (simp add: hex_digit_def)
  with d(1) show ?thesis by (auto simp: opaque_char_def less_eq_char_def split: if_splits)
qed

lemma order_id_opaque: "opaque_text (command_order_id c)" "length (command_order_id c) = 36"
proof -
  have "opaque_char x" if "x \<in> set (take 32 (sha256_hex s))" for x s
    using that by (intro hex_opaque sha256_hex_chars) (rule in_set_takeD)
  moreover have "length (take 32 (sha256_hex s)) = 32" for s by (simp add: length_sha256_hex)
  ultimately show "opaque_text (command_order_id c)" "length (command_order_id c) = 36"
    by (auto simp: command_order_id_def deterministicOrderID_def opaque_text_def list_all_iff
        opaque_char_def [of "CHR ''_''"] opaque_char_def [of "CHR ''o''"] opaque_char_def [of "CHR ''r''"]
        opaque_char_def [of "CHR ''d''"])
qed

lemma fmt_seven: "fmt_uint 7 = ''7''"
  by (simp add: fmt_uint_def decimal.simps digit_def char_of_def bit_0)

lemma lamp_ids:
  "validOpaqueID (command_order_id c)" "validOpaqueID (reservation_id (command_order_id c) 7)"
  using order_id_opaque [of c]
  by (simp_all add: validOpaqueID_iff reservation_id_def opaque_text_def fmt_seven opaque_char_def)

lemma warehouse_create:
  "\<exists>w' r. Service_Create warehouse_desk lamp_order floor = (Inr (lamp, False), w') \<and>
     msReservations (seStore (wEnv w')) = [reservation_id (command_order_id lamp_order) 7 \<mapsto> r] \<and>
     rStatus r = ReservationReserved \<and> rOrderID r = command_order_id lamp_order \<and>
     rReservationID r = reservation_id (command_order_id lamp_order) 7 \<and>
     rUserID r = 3 \<and> rSKUID r = 7 \<and> rQuantity r = 2 \<and>
     msNow (seStore (wEnv w')) = sconst 1 \<and> msEventStream (seStore (wEnv w')) = None \<and>
     seNetwork (wEnv w') = sconst Delivered \<and> seOthers (wEnv w') = sconst id \<and> wNow w' = sconst 1000 \<and>
     rpOrders (wRepo w') = [command_order_id lamp_order \<mapsto> lamp] \<and>
     rpOperations (wRepo w') = Map.empty \<and> rpEventSink (wRepo w') = None"
proof -
  let ?rid = "reservation_id (command_order_id lamp_order) 7"
  let ?c = "\<lparr>rcReservationID = ?rid, rcOrderID = command_order_id lamp_order, rcUserID = 3, rcSKUID = 7,
     rcQuantity = 2, rcMode = ''normal''\<rparr>"
  let ?e = "warehouse\<lparr>seStore := reserved ?c (seStore warehouse)\<rparr>"
  have "MemoryStore_Reserve ?c (seStore warehouse) = (Inr (new_reservation ?c 1), reserved ?c (seStore warehouse))"
    using lamp_ids [of lamp_order]
    by (simp add: Reserve_exact reserve_command_ok_def warehouse_def NewMemoryStore_def get0_def
        stampable_def zero_time_def)
  then have "over_network (Server_Reserve (Some ?c)) warehouse =
      (Inr (reservationResponse (new_reservation ?c 1) ''reserved''), ?e)"
    by (simp add: over_network_def Server_Reserve_def respond_def inspect_def ret_def warehouse_def)
  then have "inv_Reserve warehouse_desk (reserve_command lamp_order (command_order_id lamp_order)
        \<lparr>ciSKUID = 7, ciQuantity = 2\<rparr>) (wEnv floor) =
      (Inr \<lparr>orReservationID = ?rid, orOrderID = command_order_id lamp_order, orSKUID = 7, orQuantity = 2,
         orStatus = ReservationReserved\<rparr>, ?e)"
    by (simp add: system_dependencies_def GRPCInventoryClient_Reserve_def through_def inspect_def
        of_result_def reserve_command_def floor_def reservationResponse_def new_reservation_def)
  from lamp_create [OF _ _ _ _ _ _ _ this] obtain w' where
      w': "Service_Create warehouse_desk lamp_order floor = (Inr (lamp, False), w')" "wEnv w' = ?e"
        "wNow w' = sconst 1000"
        "rpOrders (wRepo w') = (rpOrders (wRepo floor))(command_order_id lamp_order \<mapsto> lamp)"
        "rpOperations (wRepo w') = rpOperations (wRepo floor)" "rpEventSink (wRepo w') = None"
    by (auto simp: floor_def NewMemoryRepository_def system_dependencies_def on_rest_def
        desk_catalog_def ret_def desk_address_def)
  show ?thesis
    by (rule exI [of _ w'], rule exI [of _ "new_reservation ?c 1"])
      (simp add: w', simp add: floor_def NewMemoryRepository_def reserved_def hold_def Let_def
        new_reservation_def warehouse_def NewMemoryStore_def)
qed

end
