(* ===== verification/Order_Properties.thy ===== *)
theory Order_Properties
  imports Order_Example
begin

text \<open>
  What the order service promises: to its callers (history, amounts, idempotency, bounded
  attempts), to the inventory (an order's status tells the state of its stock), and where
  creation does not keep what its comments promise.
\<close>

section \<open>Facts shared by the properties\<close>

definition fresh_repository :: "MemoryRepository \<Rightarrow> bool" where
  "fresh_repository r \<longleftrightarrow> r = NewMemoryRepository \<or> (\<exists>sink. r = SetEventSink sink NewMemoryRepository)"

lemma fresh_empty:
  assumes "fresh_repository r"
  shows "rpOrders r = Map.empty" "rpIdempotency r = Map.empty" "rpIntents r = Map.empty"
  using assms by (auto simp: fresh_repository_def NewMemoryRepository_def SetEventSink_def)

lemma fresh_sound:
  assumes "fresh_repository (wRepo w)" and "env_ok (wEnv w)"
  shows "sound_world env_ok P Q R w"
  using assms fresh_empty [OF assms(1)] by (simp add: sound_world_def repo_ok_def)

lemma run_order_ok:
  assumes "fresh_repository (wRepo w)" and "(order_call d)\<^sup>*\<^sup>* w w'" and "rpOrders (wRepo w') k = Some v"
  shows "order_ok v"
proof -
  have "sound_world (\<lambda>_. True) (\<lambda>_ _. True) (\<lambda>_ _. True) (\<lambda>_ _. True) w"
    by (rule fresh_sound [OF assms(1)]) simp
  from any_port.run_sound [OF assms(2) this] assms(3) show ?thesis
    by (simp add: sound_world_def repo_ok_def)
qed

text \<open>The example: the lamp order, placed through the gRPC server without a secret.\<close>

definition open_context :: call_context where
  "open_context = \<lparr>cxMetadata = None, cxSecret = [], cxNow = 0\<rparr>"

definition lamp_request :: OrderCreateRequest where
  "lamp_request = \<lparr>qcUserId = 3, qcAddressId = 4, qcOrderType = ''normal'', qcActivityId = 0,
     qcIdempotencyKey = ''k1'', qcItems = [Some (7, 2)]\<rparr>"

lemma lamp_served:
  assumes "Service_Create d lamp_order w = (Inr (lamp, False), w')"
  shows "order_call d w w'"
proof -
  have "snd (GRPCServer_Create d open_context (Some lamp_request) w) = w'"
    using assms by (simp add: GRPCServer_Create_def lamp_request_def open_context_def guarded_def
        AuthorizeInternalRequest_def AuthorizeUser_def and_then_def of_result_def bind_result_def
        answer_def inspect_def ret_def lamp_order_def [symmetric])
  then show ?thesis by (metis call_create)
qed

lemma room_run:
  "\<exists>w'. (order_call desk)\<^sup>*\<^sup>* room w' \<and> rpOrders (wRepo w') (command_order_id lamp_order) = Some lamp"
  proof -
  obtain w' where "Service_Create desk lamp_order room = (Inr (lamp, False), w')"
      "rpOrders (wRepo w') = [command_order_id lamp_order \<mapsto> lamp]"
    using desk_create by blast
  then show ?thesis by (intro exI [of _ w']) (simp add: lamp_served r_into_rtranclp)
qed

section \<open>Orders\<close>

text \<open>
  C2. Whatever the catalog, identity and inventory services answer, and however calls, events
  and workers interleave, the recorded history of every stored order starts with its creation
  in \<open>pending_payment\<close>, each further entry is a move the transition table allows from where
  the previous one ended, and the last one leads to the current status.
\<close>

theorem order_history_valid:
  assumes "fresh_repository (wRepo w)" and "(order_call d)\<^sup>*\<^sup>* w w'"
    and "rpOrders (wRepo w') k = Some v"
  shows "\<exists>h hs. oStatusHistory v = h # hs \<and> shFromStatus h = [] \<and>
    shToStatus h = StatusPendingPayment \<and> path StatusPendingPayment hs (oStatus v)"
  using run_order_ok [OF assms] by (simp add: order_ok_def history_ok_def)

theorem order_history_valid_witness:
  "\<exists>h hs. oStatusHistory lamp = h # hs \<and> shFromStatus h = [] \<and>
    shToStatus h = StatusPendingPayment \<and> path StatusPendingPayment hs (oStatus lamp)"
proof -
  obtain w' where w': "(order_call desk)\<^sup>*\<^sup>* room w'" "rpOrders (wRepo w') (command_order_id lamp_order) = Some lamp"
    using room_run by blast
  show ?thesis
    by (rule order_history_valid [OF _ w']) (simp add: room_def fresh_repository_def)
qed

text \<open>
  C3. Amounts never wrap: whatever prices the catalog quotes, the amount of every stored order
  is the exact sum, in unbounded integers, of unit price times quantity over its lines, and
  every line has a non-negative price, a positive quantity and an exact subtotal.
\<close>

theorem order_amount_exact:
  assumes "fresh_repository (wRepo w)" and "(order_call d)\<^sup>*\<^sup>* w w'"
    and "rpOrders (wRepo w') k = Some v"
  shows "sint (oTotalAmountCents v) = (\<Sum>i\<leftarrow>oItems v. sint (itUnitPriceCents i) * sint (itQuantity i)) \<and>
    (\<forall>i \<in> set (oItems v). 0 \<le> sint (itUnitPriceCents i) \<and> 0 < sint (itQuantity i) \<and>
       sint (itSubtotalCents i) = sint (itUnitPriceCents i) * sint (itQuantity i))"
  using run_order_ok [OF assms] by (auto simp: order_ok_def bill_ok_def line_ok_def)

theorem order_amount_exact_witness: "sint (oTotalAmountCents lamp) = 500"
proof -
  obtain w' where w': "(order_call desk)\<^sup>*\<^sup>* room w'" "rpOrders (wRepo w') (command_order_id lamp_order) = Some lamp"
    using room_run by blast
  have "sint (oTotalAmountCents lamp) = (\<Sum>i\<leftarrow>oItems lamp. sint (itUnitPriceCents i) * sint (itQuantity i))"
    using order_amount_exact [OF _ w'] by (simp add: room_def fresh_repository_def)
  then show ?thesis by (simp add: lamp_def)
qed

text \<open>
  C15. Orders and stock agree: with the order service running against the inventory service
  over a network that may lose requests and replies, and with other callers of the inventory
  running in between, the stock behind a canceled order has been given back, the stock behind
  a paid, shipped, completed or refunding order is sold (or already restocked), and the stock
  behind a refunded order has been put back.
\<close>

theorem order_status_keeps_promises:
  assumes "fresh_repository (wRepo w)" and "system_ok (wEnv w)"
    and "(order_call (system_dependencies catalog identity ttl))\<^sup>*\<^sup>* w w'"
    and "rpOrders (wRepo w') k = Some v" and "i \<in> set (oItems v)"
  shows "(oStatus v = StatusCanceled \<longrightarrow> stock_returned (wEnv w') (itReservationID i)) \<and>
    (oStatus v \<in> {StatusPaid, StatusShipped, StatusCompleted, StatusRefundPending} \<longrightarrow>
       stock_sold (wEnv w') (itReservationID i)) \<and>
    (oStatus v = StatusRefunded \<longrightarrow> stock_restocked (wEnv w') (itReservationID i))"
proof -
  have "sound_world system_ok stock_returned stock_sold stock_restocked w"
    using assms(1,2) by (rule fresh_sound)
  from store_port.run_sound [OF assms(3) this] assms(4,5) show ?thesis
    by (auto simp: sound_world_def promises_def)
qed

text \<open>The lamp order, cancelled again.\<close>

definition lamp_cancelled :: Order where
  "lamp_cancelled = moved StatusCanceled ''cancelled by user'' ''user'' 3 1000 lamp"

lemma lamp_cancel:
  assumes "Service_Create warehouse_desk lamp_order floor = (Inr (lamp, False), w)"
  shows "\<exists>w'. order_call warehouse_desk w w' \<and>
    rpOrders (wRepo w') (command_order_id lamp_order) = Some lamp_cancelled"
proof -
  let ?oid = "command_order_id lamp_order" and ?rid = "reservation_id (command_order_id lamp_order) 7"
  obtain r where w: "msReservations (seStore (wEnv w)) = [?rid \<mapsto> r]" "rStatus r = ReservationReserved"
      "rOrderID r = ?oid" "rReservationID r = ?rid" "msNow (seStore (wEnv w)) = sconst 1" "msEventStream (seStore (wEnv w)) = None"
      "seNetwork (wEnv w) = sconst Delivered" "seOthers (wEnv w) = sconst id" "wNow w = sconst 1000"
      "rpOrders (wRepo w) = [?oid \<mapsto> lamp]" "rpEventSink (wRepo w) = None"
    using warehouse_create assms by auto
  have "\<exists>r' s'. MemoryStore_Release ?rid ?oid (seStore (wEnv w)) = (Inr r', s')"
  proof -
    have "ids_ok (seStore (wEnv w))" "findReservation (seStore (wEnv w)) ?rid ?oid = Inr r"
      using w lamp_ids [of lamp_order]
      by (auto simp: ids_ok_def validOpaqueID_iff findReservation_Inr_iff)
    with w show ?thesis by (simp add: Release_exact stampable_def)
  qed
  then have "\<exists>e'. inv_Release warehouse_desk ?rid ?oid (wEnv w) = (Inr (), e')"
    using w by (auto simp: system_dependencies_def GRPCInventoryClient_call_def through_def inspect_def
        over_network_def Server_Release_def respond_def ret_def of_result_def Let_def)
  then obtain e' where rel: "inv_Release warehouse_desk ?rid ?oid (wEnv w) = (Inr (), e')" by blast
  have "TrimSpace ?oid = ?oid" "?oid \<noteq> []"
    using order_id_opaque [of lamp_order] by (auto simp: opaque_text_trimmed opaque_text_def)
  moreover have "canTransition StatusPendingPayment StatusCanceled" "StatusCanceled \<noteq> StatusPendingPayment"
    by (simp_all add: canTransition_def const_defs)
  ultimately have "rpOrders (wRepo (snd (GRPCServer_Cancel warehouse_desk open_context (Some (3, ?oid, [])) w))) ?oid
      = Some lamp_cancelled"
    using rel w(9-11)
    by (simp add: GRPCServer_Cancel_def open_context_def guarded_def AuthorizeInternalRequest_def
        AuthorizeUser_def of_result_def answer_def Service_Cancel_def cancel_def Repository_Get_def
        visible_def transition_now_def Transition_def lamp_cancelled_def create_eval lamp_def moved_def)
  then show ?thesis by (metis call_cancel)
qed

theorem order_status_keeps_promises_witness:
  "\<exists>w'. (order_call warehouse_desk)\<^sup>*\<^sup>* floor w' \<and>
     stock_returned (wEnv w') (reservation_id (command_order_id lamp_order) 7)"
proof -
  obtain w where w: "Service_Create warehouse_desk lamp_order floor = (Inr (lamp, False), w)"
    using warehouse_create by blast
  then obtain w' where w': "order_call warehouse_desk w w'"
      "rpOrders (wRepo w') (command_order_id lamp_order) = Some lamp_cancelled"
    using lamp_cancel by blast
  have run: "(order_call warehouse_desk)\<^sup>*\<^sup>* floor w'"
    using lamp_served [OF w] w'(1) by auto
  have "system_ok (wEnv floor)"
    by (simp add: floor_def warehouse_def system_ok_def ids_ok_def NewMemoryStore_def)
  then have "stock_returned (wEnv w') (reservation_id (command_order_id lamp_order) 7)"
    using order_status_keeps_promises [OF _ _ run w'(2), of "hd (oItems lamp)"]
    by (simp add: floor_def fresh_repository_def lamp_cancelled_def lamp_def)
  with run show ?thesis by blast
qed

text \<open>
  C16. An order only moves forward. From any state of a running service, whatever happens
  later, the order is still there under its identifier and idempotency key, its user, items,
  amount and history so far are unchanged, its history was extended along the transition
  table, and a canceled, completed or refunded order has not changed its status at all. The
  only exception is an order whose identifier, a digest cut to 128 bits, was taken over by an
  order of another idempotency key.
\<close>

theorem order_moves_forward:
  assumes "fresh_repository (wRepo w0)" and "(order_call d)\<^sup>*\<^sup>* w0 w" and "(order_call d)\<^sup>*\<^sup>* w w'"
    and "rpOrders (wRepo w) k = Some v"
  shows "rpIdempotency (wRepo w') (order_key v) = Some k \<and>
    (\<exists>u. rpOrders (wRepo w') k = Some u \<and>
       (order_key u \<noteq> order_key v \<or>
        (oOrderID u = oOrderID v \<and> oUserID u = oUserID v \<and> oItems u = oItems v \<and>
         oTotalAmountCents u = oTotalAmountCents v \<and>
         (\<exists>hs. oStatusHistory u = oStatusHistory v @ hs \<and> path (oStatus v) hs (oStatus u)) \<and>
         (final_status (oStatus v) \<longrightarrow> oStatus u = oStatus v))))"
proof -
  have "keys_ok (wRepo w0)" using fresh_empty [OF assms(1)] by (simp add: keys_ok_def)
  then have "keys_ok (wRepo w)" using keys_ok.holds_run [OF assms(2)] by blast
  then have "forward k v (wRepo w)"
    using assms(4) continues_refl by (auto simp: keys_ok_def forward_def)
  then have "forward k v (wRepo w')" using forward.holds_run [OF assms(3)] by blast
  then obtain u where u: "rpIdempotency (wRepo w') (order_key v) = Some k" "rpOrders (wRepo w') k = Some u"
      "continues v u \<or> order_key u \<noteq> order_key v"
    by (auto simp: forward_def)
  show ?thesis
  proof (cases "order_key u = order_key v")
    case True
    with u(3) have c: "continues v u" by simp
    then obtain hs t where hs: "u = v\<lparr>oStatus := oStatus u, oStatusHistory := oStatusHistory v @ hs, oUpdatedAt := t\<rparr>"
        "path (oStatus v) hs (oStatus u)"
      by (auto simp: continues_def)
    have "oStatusHistory u = oStatusHistory v @ hs" by (subst hs(1)) simp
    with hs(2) u c continues_terms [OF c] path_final [OF hs(2)] show ?thesis by auto
  qed (use u in auto)
qed

theorem order_moves_forward_witness:
  "\<exists>w w' u. (order_call warehouse_desk)\<^sup>*\<^sup>* w w' \<and>
     rpOrders (wRepo w) (command_order_id lamp_order) = Some lamp \<and>
     rpOrders (wRepo w') (command_order_id lamp_order) = Some u \<and> oStatus u = StatusCanceled \<and>
     (\<exists>hs. oStatusHistory u = oStatusHistory lamp @ hs \<and> path StatusPendingPayment hs StatusCanceled)"
proof -
  obtain w where w: "Service_Create warehouse_desk lamp_order floor = (Inr (lamp, False), w)"
      "rpOrders (wRepo w) = [command_order_id lamp_order \<mapsto> lamp]"
    using warehouse_create by blast
  then obtain w' where w': "order_call warehouse_desk w w'"
      "rpOrders (wRepo w') (command_order_id lamp_order) = Some lamp_cancelled"
    using lamp_cancel by blast
  have "(order_call warehouse_desk)\<^sup>*\<^sup>* floor w" "(order_call warehouse_desk)\<^sup>*\<^sup>* w w'"
    using lamp_served [OF w(1)] w'(1) by auto
  moreover have "oStatus lamp_cancelled = StatusCanceled" "oStatus lamp = StatusPendingPayment"
      "order_key lamp_cancelled = order_key lamp"
    by (simp_all add: lamp_cancelled_def lamp_def)
  ultimately show ?thesis
    using order_moves_forward [of floor warehouse_desk w w' "command_order_id lamp_order" lamp] w(2) w'(2)
    by (intro exI [of _ w] exI [of _ w'] exI [of _ lamp_cancelled])
      (auto simp: floor_def fresh_repository_def)
qed

section \<open>Creation\<close>

text \<open>
  C5. Creation is idempotent by key. Once a create command has succeeded in a running service,
  then after any sequence of calls, events and background work, any valid command of the same
  user with the same idempotency key (up to surrounding space) finds that order, as it is by
  then: with the same request digest it returns the order, marked as reused, calls no client and
  changes no order, operation, event, downstream state or other intent (only the intent of this
  key is marked done, with the time); with another digest it is refused as a conflict and
  nothing at all changes. The only exception is an order whose identifier, a digest cut to 128
  bits, was taken over by an order of another idempotency key.
\<close>

theorem create_idempotent:
  assumes "fresh_repository (wRepo w0)" and "(order_call d)\<^sup>*\<^sup>* w0 w" and "Service_Create d c w = (Inr (v, b), w1)"
    and "(order_call d)\<^sup>*\<^sup>* w1 w2" and "command_key c' = command_key c" and "validateCreate (trimmed c') = Inr ()"
  shows "\<exists>k u. rpIdempotency (wRepo w2) (command_key c) = Some k \<and> rpOrders (wRepo w2) k = Some u \<and>
    (order_key u \<noteq> order_key v \<or> continues v u \<and>
      (if requestDigest (trimmed c') = requestDigest (trimmed c)
       then \<exists>w3. Service_Create d' c' w2 = (Inr (u, True), w3) \<and> only_intent (command_key c') w2 w3
       else Service_Create d' c' w2 = (Inl key_mismatch, w2)))"
proof -
  let ?S = "{(command_key c, requestDigest (trimmed c))}"
  have "intents_settled {} (wRepo w0)"
    using fresh_empty [OF assms(1)] by (simp add: intents_settled_def keys_ok_def)
  then have "intents_settled {} (wRepo w)" by (rule settled.holds_run [OF assms(2)])
  then have start: "intents_settled {} (wRepo w1)" using preservesD [OF settled_Create _ assms(3)] by blast
  obtain k where k: "rpIdempotency (wRepo w1) (command_key c) = Some k" "rpOrders (wRepo w1) k = Some v"
    and filed: "oRequestDigest v = requestDigest (trimmed c)" "intent_closable c (wRepo w1)"
    using Create_filed [OF assms(3)] by (auto simp: filed_def)
  from start k(1) filed(2) have "intents_settled ?S (wRepo w1)"
    by (auto simp: intents_settled_def intent_closable_def)
  then have settled: "intents_settled ?S (wRepo w2)" by (rule settled.holds_run [OF assms(4)])
  have key: "rpIdempotency (wRepo w2) (command_key c) = Some k" using k(1) by (rule has_key.holds_run [OF assms(4)])
  have "forward k v (wRepo w1)"
    using start k(2) continues_refl by (auto simp: intents_settled_def keys_ok_def forward_def)
  then have "forward k v (wRepo w2)" by (rule forward.holds_run [OF assms(4)])
  then obtain u where u: "rpOrders (wRepo w2) k = Some u" "continues v u \<or> order_key u \<noteq> order_key v"
    by (auto simp: forward_def)
  have "if requestDigest (trimmed c') = requestDigest (trimmed c)
       then \<exists>w3. Service_Create d' c' w2 = (Inr (u, True), w3) \<and> only_intent (command_key c') w2 w3
       else Service_Create d' c' w2 = (Inl key_mismatch, w2)" if "continues v u"
    using settled key u(1) filed(1) continues_terms(6) [OF that] assms(5,6)
    by (intro Create_again) simp_all
  with key u show ?thesis by blast
qed

theorem create_idempotent_witness:
  "\<exists>w w' w'' u. Service_Create warehouse_desk lamp_order floor = (Inr (lamp, False), w) \<and> order_call warehouse_desk w w' \<and>
     Service_Create warehouse_desk lamp_order w' = (Inr (u, True), w'') \<and> oStatus u = StatusCanceled \<and> wEnv w'' = wEnv w'"
proof -
  obtain w where w: "Service_Create warehouse_desk lamp_order floor = (Inr (lamp, False), w)"
      "rpOrders (wRepo w) = [command_order_id lamp_order \<mapsto> lamp]"
    using warehouse_create by blast
  then obtain w' where w': "order_call warehouse_desk w w'"
      "rpOrders (wRepo w') (command_order_id lamp_order) = Some lamp_cancelled"
    using lamp_cancel by blast
  obtain k where k: "rpIdempotency (wRepo w) (command_key lamp_order) = Some k" "rpOrders (wRepo w) k = Some lamp"
    using Create_filed [OF w(1)] by (auto simp: filed_def)
  then have "k = command_order_id lamp_order" using w(2) by (auto split: if_splits)
  with k(1) have key: "rpIdempotency (wRepo w') (command_key lamp_order) = Some (command_order_id lamp_order)"
    using has_key.holds_call [OF _ w'(1)] by blast
  have fresh: "fresh_repository (wRepo floor)" by (simp add: floor_def fresh_repository_def)
  have lamps: "order_key lamp_cancelled = order_key lamp" "oStatus lamp_cancelled = StatusCanceled"
    by (simp_all add: lamp_cancelled_def lamp_def)
  have "trimmed lamp_order = lamp_order" by (simp add: trimmed_def lamp_order_def)
  then have "validateCreate (trimmed lamp_order) = Inr ()" using lamp_valid by simp
  from create_idempotent [OF fresh rtranclp.rtrancl_refl w(1) r_into_rtranclp [where r = "order_call warehouse_desk", OF w'(1)] refl this,
      of warehouse_desk] key w'(2) lamps(1)
  obtain w'' where "Service_Create warehouse_desk lamp_order w' = (Inr (lamp_cancelled, True), w'')"
      "only_intent (command_key lamp_order) w' w''" by auto
  with w(1) w'(1) lamps(2) show ?thesis by (auto simp: only_intent_def only_intents_def)
qed

end
