(* ===== verification/Order_Failures.thy ===== *)
theory Order_Failures
  imports Order_Properties
begin

text \<open>
  Failed creations: how attempts are counted and bounded, what compensation achieves, and the
  paths on which a failed attempt leaves stock behind or can never succeed later.
\<close>

section \<open>Attempts\<close>

text \<open>
  C22. Attempts on a key without an order are counted and bounded. From eight failures on, the
  command is refused and nothing changes, no client is called. Before that, an attempt either
  creates and files the order and marks the intent done, or fails and leaves an intent that is
  marked failed, has exactly one attempt more, carries the error, and is due again one second
  later.
\<close>

theorem create_attempts_bounded:
  assumes "validateCreate (trimmed c) = Inr ()" and "rpIdempotency (wRepo w) (command_key c) = None"
    and "\<And>i. rpIntents (wRepo w) (command_key c) = Some i \<Longrightarrow> inRequestDigest i = requestDigest (trimmed c)"
  shows "if 8 \<le> attempts_so_far c (wRepo w) then Service_Create d c w = (Inl attempts_exhausted, w)
    else \<exists>res w' i. Service_Create d c w = (res, w') \<and> rpIntents (wRepo w') (command_key c) = Some i \<and>
      (case res of
         Inl e \<Rightarrow> inStatus i = CreateIntentFailed \<and> inAttempts i = attempts_so_far c (wRepo w) + 1 \<and>
           inLastError i = compactError e \<and> inNextRetryAt i = inUpdatedAt i + Second
       | Inr (v, reused) \<Rightarrow> \<not> reused \<and> filed c v (wRepo w') \<and> inStatus i = CreateIntentDone)"
proof (cases "8 \<le> attempts_so_far c (wRepo w)")
  case True
  with Create_attempt [OF assms] show ?thesis by (simp add: maxCreateIntentAttempts_def)
next
  case False
  let ?n = "attempts_so_far c (wRepo w)" and ?dg = "requestDigest (trimmed c)"
  have run: "Service_Create d c w = create_new d (trimmed c) ?dg ?n w"
    using Create_attempt [OF assms] False by (simp add: maxCreateIntentAttempts_def)
  obtain res w' where new: "create_new d (trimmed c) ?dg ?n w = (res, w')" by fastforce
  with create_new_closed [OF assms(3) new] obtain i now' where i: "inAttempts i = ?n"
      and closed: "rpIntents (wRepo w') (command_key c) = Some (closed_intent i now' res)"
    by blast
  show ?thesis
  proof (cases res)
    case (Inl e)
    then show ?thesis using False run new closed i
      by (auto simp: closed_intent_def retryDelay_def Second_def)
  next
    case (Inr x)
    obtain v b where "x = (v, b)" by (cases x)
    with Inr new create_new_filed [OF _ assms(2,3), of d ?n v b w'] have "filed c v (wRepo w') \<and> \<not> b" by blast
    with Inr \<open>x = (v, b)\<close> False run new closed show ?thesis by (auto simp: closed_intent_def)
  qed
qed

theorem create_attempts_bounded_witness:
  "\<exists>w' i. Service_Create desk lamp_order room = (Inr (lamp, False), w') \<and>
     rpIntents (wRepo w') (command_key lamp_order) = Some i \<and> inStatus i = CreateIntentDone"
proof -
  obtain w' where "Service_Create desk lamp_order room = (Inr (lamp, False), w')"
    using desk_create by blast
  moreover have "\<not> 8 \<le> attempts_so_far lamp_order (wRepo room)"
    by (simp add: attempts_so_far_def room_def NewMemoryRepository_def)
  ultimately show ?thesis
    using create_attempts_bounded [of lamp_order room desk] lamp_valid
    by (auto simp: room_def NewMemoryRepository_def)
qed

section \<open>A reservation that is not compensated\<close>

text \<open>
  When the first line of a new order has been reserved and the catalog has no active SKU
  for the second, the attempt fails right there: the environment is the one in which the first
  reservation was made (no release is sent) and no compensation is recorded for the worker.
\<close>

lemma create_leaks_reservation:
  assumes "validateCreate (trimmed c) = Inr ()" and "rpIdempotency (wRepo w) (command_key c) = None"
    and "rpIntents (wRepo w) (command_key c) = None" and "ccOrderType c \<noteq> OrderTypeSeckill"
    and "sort_key ciSKUID (ccItems c) = a # b # rest"
    and "GetSKUSnapshot d (map ciSKUID (a # b # rest)) (wEnv w) = (Inr [sku], e1)"
    and "GetAddressSnapshot d (ccUserID c) (ccAddressID c) e1 = (Inr address, e2)"
    and "adID address = ccAddressID c" and "adUserID address = ccUserID c"
    and "skID sku = ciSKUID a" and "skActive sku" and "ciSKUID b \<noteq> ciSKUID a"
    and "subtotal (skPriceCents sku) (ciQuantity a) = Inr lineTotal" and "addAmount 0 lineTotal = Inr amount"
    and "inv_Reserve d (reserve_command (trimmed c) (command_order_id c) a) e2 = (Inr reservation, e3)"
  shows "\<exists>w'. Service_Create d c w = (Inl sku_unavailable, w') \<and> wEnv w' = e3 \<and>
    rpOperations (wRepo w') = rpOperations (wRepo w)"
proof -
  have run: "Service_Create d c w = create_new d (trimmed c) (requestDigest (trimmed c)) 0 w"
    using Create_unknown [OF assms(1,2)] assms(3) by simp
  have oid: "deterministicOrderID (ccUserID c) (TrimSpace (ccIdempotencyKey c)) (requestDigest (trimmed c)) =
      command_order_id c"
    by (simp add: command_order_id_def)
  have key: "idempotencyKey (ccUserID c) (TrimSpace (ccIdempotencyKey c)) = command_key c"
    by (simp add: command_key_def)
  have body: "create_body d (trimmed c) dg (command_order_id c) now v = (Inl sku_unavailable, v\<lparr>wEnv := e3\<rparr>)"
    if "wEnv v = wEnv w" for dg now v
    using assms(4-15) that
    by (simp add: create_body_def Let_def and_then_def on_env_def of_result_def inspect_def fail_def)
  show ?thesis
    using assms(3) body oid key
    by (simp add: run create_new_def and_then_def service_now_def on_repo_def SaveCreateIntent_def put_intent_def
        modify_state_def inspect_def of_result_def Let_def close_intent_def ignore_error_def ret_def
        UpdateCreateIntent_def start_intent_def)
qed

text \<open>A lamp and a SKU that the catalog does not have.\<close>

definition pair_order :: CreateCommand where
  "pair_order = lamp_order\<lparr>ccItems := [\<lparr>ciSKUID = 7, ciQuantity = 2\<rparr>, \<lparr>ciSKUID = 8, ciQuantity = 1\<rparr>]\<rparr>"

lemma create_leaks_reservation_example:
  "\<exists>w'. Service_Create desk pair_order room = (Inl sku_unavailable, w') \<and>
     wEnv w' = [reservation_id (command_order_id pair_order) 7] \<and> rpOperations (wRepo w') = Map.empty"
proof -
  let ?r = "\<lparr>orReservationID = reservation_id (command_order_id pair_order) 7,
    orOrderID = command_order_id pair_order, orSKUID = 7, orQuantity = 2, orStatus = ''reserved''\<rparr>"
  have t: "trimmed pair_order = pair_order" by (simp add: trimmed_def pair_order_def)
  have "validateCreate (trimmed pair_order) = Inr ()"
    by (simp add: validateCreate_def pair_order_def trimmed_def Let_def const_defs)
  moreover have "inv_Reserve desk (reserve_command (trimmed pair_order) (command_order_id pair_order)
      \<lparr>ciSKUID = 7, ciQuantity = 2\<rparr>) [] = (Inr ?r, [reservation_id (command_order_id pair_order) 7])"
    by (simp add: desk_def desk_hold_def reserve_command_def and_then_def modify_state_def ret_def)
  moreover have "sort_key ciSKUID (ccItems pair_order) =
      [\<lparr>ciSKUID = 7, ciQuantity = 2\<rparr>, \<lparr>ciSKUID = 8, ciQuantity = 1\<rparr>]"
    by (simp add: pair_order_def)
  ultimately show ?thesis
    using create_leaks_reservation [of pair_order room "\<lparr>ciSKUID = 7, ciQuantity = 2\<rparr>"
        "\<lparr>ciSKUID = 8, ciQuantity = 1\<rparr>" "[]" desk desk_sku "[]"
        "\<lparr>adID = 4, adUserID = 3, adRecipient = ''Li'', adPhone = ''1'', adProvince = ''p'', adCity = ''c'',
          adDistrict = ''d'', adDetail = ''x''\<rparr>" "[]" 500 500 ?r
        "[reservation_id (command_order_id pair_order) 7]"]
    by (simp add: room_def NewMemoryRepository_def desk_def desk_catalog_def desk_address_def ret_def
        desk_sku_def subtotal_def addAmount_def max_int64_def const_defs pair_order_def [THEN arg_cong, of ccOrderType]
        pair_order_def [THEN arg_cong, of ccUserID] pair_order_def [THEN arg_cong, of ccAddressID])
qed

section \<open>A padded order type\<close>

lemma compensate_update: "compensate (d\<lparr>inv_AdmitSeckill := f\<rparr>) oid rs = compensate d oid rs"
  by (induction rs) simp_all

lemma reserve_items_update:
  "ccOrderType c \<noteq> OrderTypeSeckill \<Longrightarrow>
   reserve_items (d\<lparr>inv_AdmitSeckill := f\<rparr>) c oid byID items amount lines rs =
   reserve_items d c oid byID items amount lines rs"
  by (induction items arbitrary: amount lines rs)
    (simp_all add: Let_def compensateReservations_def compensate_update
      cong: if_cong option.case_cong sum.case_cong)

text \<open>
  The order type is trimmed for validation only. A command whose order type is the word
  seckill with space around it is validated as a seckill order, yet creation never asks for an
  admission: its outcome is the same whatever \<open>AdmitSeckill\<close> would do, so the activity's
  purchase limit does not apply to it.
\<close>

lemma padded_seckill_skips_admission:
  assumes "TrimSpace (ccOrderType c) = OrderTypeSeckill" and "ccOrderType c \<noteq> OrderTypeSeckill"
  shows "validateCreate c = validateCreate (c\<lparr>ccOrderType := OrderTypeSeckill\<rparr>) \<and>
    Service_Create (d\<lparr>inv_AdmitSeckill := f\<rparr>) c = Service_Create d c"
proof
  have "TrimSpace OrderTypeSeckill = OrderTypeSeckill" by (simp add: OrderTypeSeckill_def)
  with assms(1) show "validateCreate c = validateCreate (c\<lparr>ccOrderType := OrderTypeSeckill\<rparr>)"
    by (simp add: validateCreate_def)
  show "Service_Create (d\<lparr>inv_AdmitSeckill := f\<rparr>) c = Service_Create d c"
    using assms(2)
    by (simp add: Service_Create_def create_new_def create_body_def new_order_def Let_def
        reserve_items_update compensateReservations_def compensate_update
        cong: if_cong option.case_cong sum.case_cong prod.case_cong)
qed

lemma padded_seckill_skips_admission_example:
  "Service_Create (desk\<lparr>inv_AdmitSeckill := \<lambda>_. fail ErrPurchaseLimit\<rparr>)
     (lamp_order\<lparr>ccOrderType := '' seckill'', ccActivityID := 9\<rparr>) room =
   Service_Create desk (lamp_order\<lparr>ccOrderType := '' seckill'', ccActivityID := 9\<rparr>) room"
proof -
  have "TrimSpace '' seckill'' = ''seckill''" by (simp add: TrimSpace_blank)
  then show ?thesis
    using padded_seckill_skips_admission [of "lamp_order\<lparr>ccOrderType := '' seckill'', ccActivityID := 9\<rparr>"
      "\<lambda>_. fail ErrPurchaseLimit" desk]
    by (simp add: OrderTypeSeckill_def)
qed

section \<open>Compensation\<close>

text \<open>The release of a reservation has happened or is on record for the worker.\<close>

definition release_recorded :: "string \<Rightarrow> string \<Rightarrow> MemoryRepository \<Rightarrow> bool" where
  "release_recorded oid rid r \<longleftrightarrow>
     (\<exists>op. rpOperations r (operationID ''release'' oid rid) = Some op \<and>
        (opStatus op = OperationPending \<or> opStatus op = OperationDone))"

lemma save_pending_run:
  "\<exists>w'. save_pending ''release'' oid rid err w = (Inr (), w') \<and> wEnv w' = wEnv w \<and>
     release_recorded oid rid (wRepo w') \<and>
     (\<forall>rid'. release_recorded oid rid' (wRepo w) \<longrightarrow> release_recorded oid rid' (wRepo w'))"
  by (auto simp: save_pending_def saveOperation_def ignore_error_def and_then_def service_now_def
      inspect_def on_repo_def SaveOperation_def put_operation_def modify_state_def ret_def
      pending_operation_def release_recorded_def operationID_def split: option.split)

context reservation_port
begin

lemma compensate_covers:
  assumes "env_ok (wEnv w)"
  shows "\<exists>w'. compensate d oid rs w = (Inr (), w') \<and> env_ok (wEnv w') \<and>
    (\<forall>rid. rid \<in> orReservationID ` set rs \<or> released (wEnv w) rid \<or> release_recorded oid rid (wRepo w) \<longrightarrow>
       released (wEnv w') rid \<or> release_recorded oid rid (wRepo w'))"
  using assms
proof (induction rs arbitrary: w)
  case Nil
  then show ?case by (auto simp: ret_def)
next
  case (Cons x rs)
  let ?rid = "orReservationID x"
  obtain res e where rel: "inv_Release d ?rid oid (wEnv w) = (res, e)" by fastforce
  then have e: "env_ok e" "\<And>rid. released (wEnv w) rid \<Longrightarrow> released e rid"
    using writes_keep(4) [of ?rid oid] Cons.prems by (auto simp: keeps_def dest: spec [of _ "wEnv w"])
  define w1 where "w1 = w\<lparr>wEnv := e\<rparr>"
  obtain w2 where w2: "(case res of Inl err \<Rightarrow> save_pending ''release'' oid ?rid err | Inr _ \<Rightarrow> ret ()) w1 = (Inr (), w2)"
      "wEnv w2 = e" "released e ?rid \<or> release_recorded oid ?rid (wRepo w2)"
      "\<forall>rid. release_recorded oid rid (wRepo w) \<longrightarrow> release_recorded oid rid (wRepo w2)"
  proof (cases res)
    case (Inl err)
    with save_pending_run [of oid ?rid err w1] that show ?thesis by (auto simp: w1_def)
  next
    case (Inr u)
    then have "released e ?rid" using release_ok Cons.prems rel by simp
    with Inr that [of w1] show ?thesis by (auto simp: w1_def ret_def)
  qed
  have "compensate d oid (x # rs) w = compensate d oid rs w2"
    using rel w2(1) by (simp add: and_then_def inspect_def on_env_def w1_def)
  moreover obtain w' where "compensate d oid rs w2 = (Inr (), w')" "env_ok (wEnv w')"
      "\<forall>rid. rid \<in> orReservationID ` set rs \<or> released e rid \<or> release_recorded oid rid (wRepo w2) \<longrightarrow>
        released (wEnv w') rid \<or> release_recorded oid rid (wRepo w')"
    using Cons.IH [of w2] e(1) w2(2) by auto
  ultimately show ?case using e(2) w2(3,4) by (intro exI [of _ w']) auto
qed

end

text \<open>
  C23. Compensation forgets nothing it is given: after \<open>compensateReservations\<close>, which never
  fails, every one of the reservations has been given back in the inventory, or its release is
  on record for the retry worker, whatever requests and replies the network lost on the way.
\<close>

theorem compensation_complete:
  assumes "system_ok (wEnv w)" and "r \<in> set reservations"
  shows "\<exists>w'. compensateReservations (system_dependencies catalog identity ttl) oid reservations w = (Inr (), w') \<and>
    (stock_returned (wEnv w') (orReservationID r) \<or> release_recorded oid (orReservationID r) (wRepo w'))"
  using store_port.compensate_covers [OF assms(1), of catalog identity ttl oid "rev reservations"] assms(2)
  by (auto simp: compensateReservations_def)

definition lost_world :: "unit system world" where
  "lost_world = floor\<lparr>wEnv := warehouse\<lparr>seNetwork := sconst RequestLost\<rparr>\<rparr>"

theorem compensation_complete_witness:
  "\<exists>w'. compensateReservations warehouse_desk ''o1''
       [\<lparr>orReservationID = ''r1'', orOrderID = ''o1'', orSKUID = 7, orQuantity = 2, orStatus = ''reserved''\<rparr>]
       lost_world = (Inr (), w') \<and>
     (stock_returned (wEnv w') ''r1'' \<or> release_recorded ''o1'' ''r1'' (wRepo w'))"
proof -
  have "system_ok (wEnv lost_world)"
    by (simp add: lost_world_def warehouse_def system_ok_def ids_ok_def NewMemoryStore_def)
  then show ?thesis
    using compensation_complete [of lost_world "\<lparr>orReservationID = ''r1'', orOrderID = ''o1'', orSKUID = 7,
        orQuantity = 2, orStatus = ''reserved''\<rparr>"] by simp
qed

section \<open>A compensated creation\<close>

lemma Reserve_returned:
  assumes "stock_returned e (ocReservationID c)" and "system_ok e"
  shows "\<exists>err e'. inv_Reserve (system_dependencies catalog identity ttl) c e = (Inl err, e')"
proof (cases "inv_Reserve (system_dependencies catalog identity ttl) c e")
  case (Pair res e')
  show ?thesis
  proof (cases res)
    case (Inr x)
    let ?s = "shd (seOthers e) (seStore e)"
    let ?c = "\<lparr>rcReservationID = ocReservationID c, rcOrderID = ocOrderID c, rcUserID = ocUserID c,
      rcSKUID = ocSKUID c, rcQuantity = ocQuantity c, rcMode = ocMode c\<rparr>"
    obtain resp where "over_network (Server_Reserve (Some ?c)) e = (Inr resp, e')"
      using Pair Inr by (auto simp: system_dependencies_def GRPCInventoryClient_Reserve_def through_def
          inspect_def fail_def of_result_def split: prod.splits sum.splits)
    then have "Server_Reserve (Some ?c) ?s = (Inr resp, seStore e')" by (rule over_network_Inr)
    then obtain r where r: "MemoryStore_Reserve ?c ?s = (Inr r, seStore e')"
      by (auto simp: Server_Reserve_def dest!: respond_Inr)
    have "store_call\<^sup>*\<^sup>* (seStore e) ?s"
      using assms(2) shd_sset [of "seOthers e"] by (auto simp: system_ok_def)
    then have "stock_returned (e\<lparr>seStore := ?s\<rparr>) (ocReservationID c)"
      using status_in_run [OF _ _ closed_sets(1) assms(1), of "e\<lparr>seStore := ?s\<rparr>"] assms(2)
      by (simp add: system_ok_def)
    then obtain r0 where "msReservations ?s (ocReservationID c) = Some r0" "rStatus r0 \<noteq> ReservationReserved"
      by (auto simp: status_in_def)
    with r show ?thesis by (simp add: Reserve_exact split: if_splits)
  qed (use Pair in auto)
qed

lemma rest_store:
  "seStore (snd (on_rest m e)) = seStore e" "system_ok (snd (on_rest m e)) = system_ok e"
  by (simp_all add: on_rest_def system_ok_def split: prod.split)

lemma reserve_items_returned:
  assumes "ccOrderType c \<noteq> OrderTypeSeckill" and "system_ok (wEnv w)"
    and "stock_returned (wEnv w) (reservation_id oid (ciSKUID a))"
  shows "\<exists>err w'. reserve_items (system_dependencies catalog identity ttl) c oid byID (a # rest) amount lines rs w = (Inl err, w')"
proof -
  let ?d = "system_dependencies catalog identity ttl"
  obtain err e' where res: "inv_Reserve ?d (reserve_command c oid a) (wEnv w) = (Inl err, e')"
    using Reserve_returned [of "wEnv w" "reserve_command c oid a" catalog identity ttl] assms(2,3)
    by (auto simp: reserve_command_def)
  have "\<exists>err'. fst (reserve_items ?d c oid byID (a # rest) amount lines rs w) = Inl err'"
    using res assms(1)
    by (auto simp: Let_def and_then_def of_result_def fail_def inspect_def on_env_def
        split: option.split sum.split prod.split)
  then show ?thesis by (metis prod.collapse)
qed

lemma create_body_returned:
  assumes "sort_key ciSKUID (ccItems c) = a # rest" and "ccOrderType c \<noteq> OrderTypeSeckill"
    and "stock_returned (wEnv w) (reservation_id oid (ciSKUID a))" and "system_ok (wEnv w)"
  shows "\<exists>err w'. create_body (system_dependencies catalog identity ttl) c dg oid now w = (Inl err, w')"
proof (rule ccontr)
  let ?d = "system_dependencies catalog identity ttl"
  assume "\<not> ?thesis"
  then obtain x w' where run: "create_body ?d c dg oid now w = (Inr x, w')"
    by (metis obj_sumE surj_pair)
  have snap: "wEnv (snd (on_env (on_rest m) v)) = snd (on_rest m (wEnv v))" for m and v :: "'a system world"
    by (simp add: on_env_def split: prod.split)
  from run show False
  proof (rule create_body_InrE)
    fix skus w1 address w2 amount lines rs w3
    assume 1: "on_env (GetSKUSnapshot ?d (map ciSKUID (sort_key ciSKUID (ccItems c)))) w = (Inr skus, w1)"
      and 2: "on_env (GetAddressSnapshot ?d (ccUserID c) (ccAddressID c)) w1 = (Inr address, w2)"
      and 3: "reserve_items ?d c oid (map_of (rev (map (\<lambda>sku. (skID sku, sku)) skus)))
        (sort_key ciSKUID (ccItems c)) 0 [] [] w2 = (Inr (amount, lines, rs), w3)"
    have "seStore (wEnv w2) = seStore (wEnv w)" "system_ok (wEnv w2)"
      using snap [of "catalog (map ciSKUID (sort_key ciSKUID (ccItems c)))" w]
        snap [of "identity (ccUserID c) (ccAddressID c)" w1] 1 2 assms(4)
      by (auto simp: system_dependencies_def rest_store)
    then have "\<exists>err w'. reserve_items ?d c oid (map_of (rev (map (\<lambda>sku. (skID sku, sku)) skus)))
        (a # rest) 0 [] [] w2 = (Inl err, w')"
      using assms(2,3) by (intro reserve_items_returned) (simp_all add: status_in_def)
    with 3 assms(1) show False by simp
  qed
qed

text \<open>
  A compensated creation cannot be repeated. Order and reservation identifiers are
  digests of the command, and the inventory refuses to reserve under an identifier whose stock
  was given back; so once the first reservation of an attempt has been released (by
  compensation, or by expiry), every later attempt of that command fails, although the intent
  stays due for recovery.
\<close>

lemma compensated_create_fails:
  assumes "rpIdempotency (wRepo w) (command_key c) = None" and "ccOrderType c \<noteq> OrderTypeSeckill"
    and "sort_key ciSKUID (ccItems c) = a # rest"
    and "stock_returned (wEnv w) (reservation_id (command_order_id c) (ciSKUID a))" and "system_ok (wEnv w)"
  shows "\<exists>err w'. Service_Create (system_dependencies catalog identity ttl) c w = (Inl err, w')"
proof (cases "validateCreate (trimmed c)")
  case (Inl e)
  then show ?thesis using Create_invalid by blast
next
  case (Inr u)
  let ?d = "system_dependencies catalog identity ttl" and ?dg = "requestDigest (trimmed c)"
  have valid: "validateCreate (trimmed c) = Inr ()" using Inr by simp
  show ?thesis
  proof (cases "\<exists>i. rpIntents (wRepo w) (command_key c) = Some i \<and> inRequestDigest i \<noteq> ?dg")
    case True
    then show ?thesis using Create_unknown [OF valid assms(1), of ?d] by (auto simp: fail_def)
  next
    case False
    then have fits: "\<And>i. rpIntents (wRepo w) (command_key c) = Some i \<Longrightarrow> inRequestDigest i = ?dg" by blast
    have "\<exists>err w'. create_new ?d (trimmed c) ?dg n w = (Inl err, w')" for n
    proof (rule create_new_exact [of w c ?dg n ?d], erule fits)
      fix i w1 res w2
      assume i: "i = start_intent (trimmed c) ?dg (deterministicOrderID (ccUserID c)
          (TrimSpace (ccIdempotencyKey c)) ?dg) n (shd (wNow w))"
        and w1: "w1 = w\<lparr>wNow := stl (wNow w),
          wRepo := (wRepo w)\<lparr>rpIntents := (rpIntents (wRepo w))(command_key c \<mapsto> i)\<rparr>\<rparr>"
        and body: "create_body ?d (trimmed c) ?dg (inOrderID i) (shd (wNow w)) w1 = (res, w2)"
        and run: "create_new ?d (trimmed c) ?dg n w =
          (res, w2\<lparr>wRepo := (wRepo w2)\<lparr>rpIntents := (rpIntents (wRepo w))
             (command_key c \<mapsto> closed_intent i (shd (wNow w2)) res)\<rparr>, wNow := stl (wNow w2)\<rparr>)"
      have "inOrderID i = command_order_id c" by (simp add: i start_intent_def command_order_id_def)
      then obtain err where "res = Inl err"
        using create_body_returned [of "trimmed c" a rest w1 "command_order_id c" catalog identity ttl ?dg
            "shd (wNow w)"] assms(2-5) body
        by (auto simp: w1)
      then show ?thesis using run by blast
    qed
    then show ?thesis using Create_attempt [OF valid assms(1) fits, of ?d] by (auto split: if_splits)
  qed
qed

text \<open>The warehouse after the lamp reservation was released.\<close>

definition released_lamp :: Reservation where
  "released_lamp = \<lparr>rReservationID = reservation_id (command_order_id lamp_order) 7,
     rOrderID = command_order_id lamp_order, rUserID = 3, rActivityID = 0, rSKUID = 7, rQuantity = 2,
     rStatus = ReservationReleased, rMode = ''normal'', rCreatedAt = 1, rUpdatedAt = 1\<rparr>"

lemma compensated_create_fails_example:
  "\<exists>err w'. Service_Create warehouse_desk lamp_order (floor\<lparr>wEnv := warehouse\<lparr>seStore :=
     (NewMemoryStore (sconst 1) [7 \<mapsto> 5] 2)\<lparr>msReservations :=
       [reservation_id (command_order_id lamp_order) 7 \<mapsto> released_lamp]\<rparr>\<rparr>\<rparr>) = (Inl err, w')"
  by (rule compensated_create_fails [of _ lamp_order "\<lparr>ciSKUID = 7, ciQuantity = 2\<rparr>" "[]"])
    (use lamp_ids [of lamp_order] in \<open>simp_all add: floor_def NewMemoryRepository_def OrderTypeSeckill_def
      status_in_def released_lamp_def warehouse_def system_ok_def ids_ok_def validOpaqueID_iff\<close>)

end
