(* ===== verification/Order_Client.thy ===== *)
theory Order_Client
  imports Order_Server
begin

text \<open>
  What the order clients of the payment and fulfillment services share
  (services/payment/internal/app/order_client.go, services/fulfillment/internal/app/order_client.go):
  the summary of a transition, the mapping of errors and the signed call. The time limit of a
  call is left out: the reply may be any error.
\<close>

record OrderTransition =
  otOrderID :: string
  otStatus :: string
  otReused :: bool

definition mapOrderClientError :: "go_error \<Rightarrow> go_error" where
  "mapOrderClientError err =
     (if status_code err \<in> {InvalidArgument, NotFound, PermissionDenied, ResourceExhausted, Aborted,
           FailedPrecondition, Unavailable, DeadlineExceeded}
      then err else WrapError ''order service call failed: '' err)"

definition order_client_missing :: go_error where
  "order_client_missing = StatusError Unavailable ''order service client not configured''"

text \<open>
  A call of the order service: without a client it fails; otherwise the context carries the
  metadata \<open>md\<close> with the signed identity of the caller, and an error is mapped.
\<close>

definition signed_call ::
  "(metadata \<Rightarrow> 'req \<Rightarrow> ('e, 'resp) go) option \<Rightarrow> metadata \<Rightarrow> 'req \<Rightarrow> ('resp \<Rightarrow> 'a) \<Rightarrow> ('e, 'a) go" where
  "signed_call client md req reply =
     (case client of
        None \<Rightarrow> fail order_client_missing
      | Some rpc \<Rightarrow>
          inspect (rpc md req) (\<lambda>res. case res of
             Inl err \<Rightarrow> fail (mapOrderClientError err)
           | Inr resp \<Rightarrow> ret (reply resp)))"

definition transition_of :: "OrderTransitionResponse \<Rightarrow> OrderTransition" where
  "transition_of v = \<lparr>otOrderID = ptOrderId v, otStatus = ptStatus v, otReused = ptReused v\<rparr>"

end
