(* ===== verification/Payment_Model.thy ===== *)
theory Payment_Model
  imports Order_Client
begin

text \<open>
  services/payment/internal/app: payments and refunds (model.go, repository.go,
  memory_repository.go), the service that creates a payment, takes the callback of the
  provider and refunds (service.go), its client of the order service (order_client.go), the
  gRPC server (server.go) and the event handlers (events.go). The field \<open>next\<close> of the
  repository, which nothing uses, is left out.
\<close>

section \<open>Data\<close>

definition PaymentPending :: string where [const_defs]: "PaymentPending = ''pending''"
definition PaymentSucceeded :: string where [const_defs]: "PaymentSucceeded = ''succeeded''"
definition RefundSucceeded :: string where [const_defs]: "RefundSucceeded = ''succeeded''"

record Payment =
  pmPaymentNo :: string
  pmOrderID :: string
  pmProvider :: string
  pmStatus :: string
  pmCallbackRef :: string
  pmUserID :: uint64
  pmAmountCents :: int64
  pmPaidAt :: time
  pmCreatedAt :: time
  pmUpdatedAt :: time

record Refund =
  rfRefundNo :: string
  rfOrderID :: string
  rfPaymentNo :: string
  rfReason :: string
  rfStatus :: string
  rfUserID :: uint64
  rfAmountCents :: int64
  rfCreatedAt :: time
  rfCompletedAt :: time

definition Payment_ErrInvalidRequest :: go_error where
  "Payment_ErrInvalidRequest = ErrorText ''payment request is invalid''"
definition Payment_ErrUnauthorized :: go_error where
  "Payment_ErrUnauthorized = ErrorText ''payment callback is unauthorized''"
definition Payment_ErrNotFound :: go_error where
  "Payment_ErrNotFound = ErrorText ''payment resource not found''"
definition Payment_ErrConflict :: go_error where
  "Payment_ErrConflict = ErrorText ''payment request conflicts''"
definition Payment_ErrInvalidTransition :: go_error where
  "Payment_ErrInvalidTransition = ErrorText ''payment transition invalid''"

section \<open>Repository\<close>

record PaymentRepository =
  prPayments :: "string \<rightharpoonup> Payment"
  prPaymentByOrder :: "string \<rightharpoonup> string"
  prCallbacks :: "string \<rightharpoonup> string"
  prRefunds :: "string \<rightharpoonup> Refund"
  prRefundByOrder :: "string \<rightharpoonup> string"
  prEventSink :: "MessageStore option"

definition NewPaymentRepository :: PaymentRepository where
  "NewPaymentRepository =
     \<lparr>prPayments = Map.empty, prPaymentByOrder = Map.empty, prCallbacks = Map.empty,
      prRefunds = Map.empty, prRefundByOrder = Map.empty, prEventSink = None\<rparr>"

definition Payment_SetEventSink :: "MessageStore \<Rightarrow> PaymentRepository \<Rightarrow> PaymentRepository" where
  "Payment_SetEventSink sink r = r\<lparr>prEventSink := Some sink\<rparr>"

text \<open>Reading a missing entry of a Go map gives the zero value.\<close>

definition zero_payment :: Payment where
  "zero_payment = \<lparr>pmPaymentNo = [], pmOrderID = [], pmProvider = [], pmStatus = [],
     pmCallbackRef = [], pmUserID = 0, pmAmountCents = 0, pmPaidAt = zero_time,
     pmCreatedAt = zero_time, pmUpdatedAt = zero_time\<rparr>"

definition zero_refund :: Refund where
  "zero_refund = \<lparr>rfRefundNo = [], rfOrderID = [], rfPaymentNo = [], rfReason = [], rfStatus = [],
     rfUserID = 0, rfAmountCents = 0, rfCreatedAt = zero_time, rfCompletedAt = zero_time\<rparr>"

definition read_payment :: "PaymentRepository \<Rightarrow> string \<Rightarrow> Payment" where
  "read_payment r no = (case prPayments r no of None \<Rightarrow> zero_payment | Some v \<Rightarrow> v)"

definition read_refund :: "PaymentRepository \<Rightarrow> string \<Rightarrow> Refund" where
  "read_refund r no = (case prRefunds r no of None \<Rightarrow> zero_refund | Some v \<Rightarrow> v)"

definition Payment_emit :: "EventEnvelope result \<Rightarrow> (PaymentRepository, unit) go" where
  "Payment_emit ev r =
     (case append_to_sink ev (prEventSink r) of (res, sink) \<Rightarrow> (res, r\<lparr>prEventSink := sink\<rparr>))"

definition PaymentRepository_Create :: "Payment \<Rightarrow> (PaymentRepository, Payment \<times> bool) go" where
  "PaymentRepository_Create v r =
     (case prPaymentByOrder r (pmOrderID v) of
        Some no \<Rightarrow> (Inr (read_payment r no, True), r)
      | None \<Rightarrow>
          (Inr (v, False),
           r\<lparr>prPayments := (prPayments r)(pmPaymentNo v \<mapsto> v),
             prPaymentByOrder := (prPaymentByOrder r)(pmOrderID v \<mapsto> pmPaymentNo v)\<rparr>))"

definition PaymentRepository_Get :: "string \<Rightarrow> (PaymentRepository, Payment) go" where
  "PaymentRepository_Get no r =
     (case prPayments r no of None \<Rightarrow> (Inl Payment_ErrNotFound, r) | Some v \<Rightarrow> (Inr v, r))"

definition paymentSucceededEvent :: "Payment \<Rightarrow> string \<Rightarrow> time \<Rightarrow> EventEnvelope result" where
  "paymentSucceededEvent v callbackRef now =
     NewEvent (''payment.succeeded:'' @ pmPaymentNo v) EventPaymentSucceeded ''order'' (pmOrderID v)
       (marshal_PaymentSucceeded \<lparr>pspPaymentNo = pmPaymentNo v, pspOrderID = pmOrderID v,
          pspUserID = pmUserID v, pspAmountCents = pmAmountCents v, pspCallbackRef = callbackRef\<rparr>) now"

definition paid :: "string \<Rightarrow> time \<Rightarrow> Payment \<Rightarrow> Payment" where
  "paid callbackRef now v =
     v\<lparr>pmStatus := PaymentSucceeded, pmCallbackRef := callbackRef, pmPaidAt := now, pmUpdatedAt := now\<rparr>"

definition MarkSucceeded :: "string \<Rightarrow> string \<Rightarrow> time \<Rightarrow> (PaymentRepository, Payment \<times> bool) go" where
  "MarkSucceeded no callbackRef now r =
     (case prPayments r no of
        None \<Rightarrow> (Inl Payment_ErrNotFound, r)
      | Some v \<Rightarrow>
          (if (case prCallbacks r callbackRef of None \<Rightarrow> False | Some existing \<Rightarrow> existing \<noteq> no)
           then (Inl Payment_ErrConflict, r)
           else if pmStatus v = PaymentSucceeded
           then (if pmCallbackRef v \<noteq> callbackRef then (Inl Payment_ErrConflict, r) else (Inr (v, True), r))
           else and_then (Payment_emit (paymentSucceededEvent v callbackRef now)) (\<lambda>_ r.
             (Inr (paid callbackRef now v, False),
              r\<lparr>prPayments := (prPayments r)(no \<mapsto> paid callbackRef now v),
                prCallbacks := (prCallbacks r)(callbackRef \<mapsto> no)\<rparr>)) r))"

definition FindSucceededPayment :: "string \<Rightarrow> (PaymentRepository, Payment) go" where
  "FindSucceededPayment orderID r =
     (case prPaymentByOrder r orderID of
        None \<Rightarrow> (Inl Payment_ErrInvalidTransition, r)
      | Some no \<Rightarrow>
          (if pmStatus (read_payment r no) \<noteq> PaymentSucceeded then (Inl Payment_ErrInvalidTransition, r)
           else (Inr (read_payment r no), r)))"

definition FindRefundByOrder :: "uint64 \<Rightarrow> string \<Rightarrow> (PaymentRepository, Refund option) go" where
  "FindRefundByOrder userID orderID r =
     (case prRefundByOrder r orderID of
        None \<Rightarrow> (Inr None, r)
      | Some no \<Rightarrow>
          (if rfUserID (read_refund r no) \<noteq> userID then (Inl Payment_ErrNotFound, r)
           else (Inr (Some (read_refund r no)), r)))"

definition payment_refunded_event :: "Refund \<Rightarrow> EventEnvelope result" where
  "payment_refunded_event v =
     NewEvent (''payment.refunded:'' @ rfRefundNo v) EventPaymentRefunded ''order'' (rfOrderID v)
       (marshal_PaymentRefunded \<lparr>prpRefundNo = rfRefundNo v, prpPaymentNo = rfPaymentNo v,
          prpOrderID = rfOrderID v, prpUserID = rfUserID v, prpAmountCents = rfAmountCents v,
          prpReason = rfReason v\<rparr>) (rfCreatedAt v)"

definition CreateRefund :: "Refund \<Rightarrow> (PaymentRepository, Refund \<times> bool) go" where
  "CreateRefund v r =
     (case prRefundByOrder r (rfOrderID v) of
        Some no \<Rightarrow> (Inr (read_refund r no, True), r)
      | None \<Rightarrow>
          and_then (Payment_emit (payment_refunded_event v)) (\<lambda>_ r.
            (Inr (v, False),
             r\<lparr>prRefunds := (prRefunds r)(rfRefundNo v \<mapsto> v),
               prRefundByOrder := (prRefundByOrder r)(rfOrderID v \<mapsto> rfRefundNo v)\<rparr>)) r)"

section \<open>The client of the order service (order_client.go)\<close>

record OrderSummary =
  osOrderID :: string
  osUserID :: uint64
  osStatus :: string
  osTotalAmountCents :: int64

record 'e order_client =
  ord_Get :: "uint64 \<Rightarrow> string \<Rightarrow> ('e, OrderSummary) go"
  ord_ConfirmPayment :: "uint64 \<Rightarrow> string \<Rightarrow> string \<Rightarrow> string \<Rightarrow> ('e, OrderTransition) go"
  ord_Refund :: "uint64 \<Rightarrow> string \<Rightarrow> string \<Rightarrow> string \<Rightarrow> ('e, OrderTransition) go"

definition GRPCOrderClient_Get ::
  "(metadata \<Rightarrow> (uint64 \<times> string) option \<Rightarrow> ('e, OrderGetResponse) go) option \<Rightarrow> string \<Rightarrow> metadata \<Rightarrow>
   time \<Rightarrow> uint64 \<Rightarrow> string \<Rightarrow> ('e, OrderSummary) go" where
  "GRPCOrderClient_Get client secret md now userID orderID =
     signed_call client (AppendUser md secret (order_method ''Get'') userID now) (Some (userID, orderID))
       (\<lambda>v. \<lparr>osOrderID = pgOrderId v, osUserID = pgUserId v, osStatus = pgStatus v,
          osTotalAmountCents = pgTotalAmountCents v\<rparr>)"

definition GRPCOrderClient_ConfirmPayment ::
  "(metadata \<Rightarrow> (uint64 \<times> string \<times> string \<times> string) option \<Rightarrow> ('e, OrderTransitionResponse) go) option \<Rightarrow>
   string \<Rightarrow> metadata \<Rightarrow> time \<Rightarrow> uint64 \<Rightarrow> string \<Rightarrow> string \<Rightarrow> string \<Rightarrow> ('e, OrderTransition) go" where
  "GRPCOrderClient_ConfirmPayment client secret md now userID orderID paymentNo callbackRef =
     signed_call client (AppendUser md secret (order_method ''ConfirmPayment'') userID now)
       (Some (userID, orderID, paymentNo, callbackRef)) transition_of"

definition GRPCOrderClient_Refund ::
  "(metadata \<Rightarrow> (uint64 \<times> string \<times> string \<times> string) option \<Rightarrow> ('e, OrderTransitionResponse) go) option \<Rightarrow>
   string \<Rightarrow> metadata \<Rightarrow> time \<Rightarrow> uint64 \<Rightarrow> string \<Rightarrow> string \<Rightarrow> string \<Rightarrow> ('e, OrderTransition) go" where
  "GRPCOrderClient_Refund client secret md now userID orderID refundNo reason =
     signed_call client (AppendUser md secret (order_method ''Refund'') userID now)
       (Some (userID, orderID, refundNo, reason)) transition_of"

section \<open>Service (service.go)\<close>

text \<open>
  The world of the service: its repository, what is behind the order client, the clock and
  the results of reading 12 random bytes. The secret of the service is an argument.
\<close>

record 'e payment_world =
  pwRepo :: PaymentRepository
  pwEnv :: 'e
  pwNow :: clock
  pwRandom :: "nat list result stream"

definition NewPaymentService :: "string \<Rightarrow> string result" where
  "NewPaymentService secret =
     (if length (TrimSpace secret) < 32
      then Inl (ErrorText ''payment secret length must be at least 32'') else Inr secret)"

definition pay_repo :: "(PaymentRepository, 'a) go \<Rightarrow> ('e payment_world, 'a) go" where
  "pay_repo m w = (case m (pwRepo w) of (res, r) \<Rightarrow> (res, w\<lparr>pwRepo := r\<rparr>))"

definition pay_env :: "('e, 'a) go \<Rightarrow> ('e payment_world, 'a) go" where
  "pay_env m w = (case m (pwEnv w) of (res, e) \<Rightarrow> (res, w\<lparr>pwEnv := e\<rparr>))"

definition pay_now :: "('e payment_world, time) go" where
  "pay_now w = (Inr (shd (pwNow w)), w\<lparr>pwNow := stl (pwNow w)\<rparr>)"

definition hex_bytes :: "nat list \<Rightarrow> string" where
  "hex_bytes bs = concat (map (hex_digits 2) bs)"

definition randomID :: "string \<Rightarrow> ('e payment_world, string) go" where
  "randomID prefix' w =
     (case shd (pwRandom w) of Inl e \<Rightarrow> Inl e | Inr buffer \<Rightarrow> Inr (prefix' @ ''_'' @ hex_bytes buffer),
      w\<lparr>pwRandom := stl (pwRandom w)\<rparr>)"

definition Payment_sign :: "string \<Rightarrow> string \<Rightarrow> string" where
  "Payment_sign secret paymentNo = hmac_sha256_hex secret paymentNo"

definition new_payment :: "string \<Rightarrow> OrderSummary \<Rightarrow> uint64 \<Rightarrow> time \<Rightarrow> time \<Rightarrow> Payment" where
  "new_payment paymentNo order userID created updated =
     \<lparr>pmPaymentNo = paymentNo, pmOrderID = osOrderID order, pmProvider = ''mock'',
      pmStatus = PaymentPending, pmCallbackRef = [], pmUserID = userID,
      pmAmountCents = osTotalAmountCents order, pmPaidAt = zero_time, pmCreatedAt = created,
      pmUpdatedAt = updated\<rparr>"

definition Payment_Create ::
  "'e order_client \<Rightarrow> string \<Rightarrow> uint64 \<Rightarrow> string \<Rightarrow> ('e payment_world, Payment \<times> string \<times> bool) go" where
  "Payment_Create orders secret userID orderID =
     (if userID = 0 \<or> TrimSpace orderID = [] then fail Payment_ErrInvalidRequest
      else and_then (pay_env (ord_Get orders userID orderID)) (\<lambda>order.
      if osUserID order \<noteq> userID \<or> osStatus order \<noteq> ''pending_payment'' then fail Payment_ErrInvalidTransition
      else and_then (randomID ''pay'') (\<lambda>paymentNo.
      and_then pay_now (\<lambda>created. and_then pay_now (\<lambda>updated. and_then pay_now (\<lambda>_.
      and_then (pay_repo (PaymentRepository_Create (new_payment paymentNo order userID created updated)))
        (\<lambda>(payment, reused). ret (payment, Payment_sign secret (pmPaymentNo payment), reused))))))))"

definition Payment_Callback ::
  "'e order_client \<Rightarrow> string \<Rightarrow> string \<Rightarrow> string \<Rightarrow> string \<Rightarrow>
   ('e payment_world, Payment \<times> OrderTransition \<times> bool) go" where
  "Payment_Callback orders secret paymentNo' callbackRef' signature =
     (let paymentNo = TrimSpace paymentNo'; callbackRef = TrimSpace callbackRef' in
      if paymentNo = [] \<or> callbackRef = [] then fail Payment_ErrInvalidRequest
      else if TrimSpace signature \<noteq> Payment_sign secret paymentNo then fail Payment_ErrUnauthorized
      else and_then (pay_repo (PaymentRepository_Get paymentNo)) (\<lambda>payment.
      let confirm = pay_env (ord_ConfirmPayment orders (pmUserID payment) (pmOrderID payment)
            (pmPaymentNo payment) callbackRef) in
      if pmStatus payment = PaymentSucceeded then
        (if pmCallbackRef payment \<noteq> callbackRef then fail Payment_ErrConflict
         else and_then confirm (\<lambda>transition. ret (payment, transition, True)))
      else
        and_then pay_now (\<lambda>now.
        and_then (pay_repo (MarkSucceeded paymentNo callbackRef now)) (\<lambda>(updated, reused).
        and_then confirm (\<lambda>transition. ret (updated, transition, reused))))))"

definition new_refund :: "string \<Rightarrow> string \<Rightarrow> Payment \<Rightarrow> uint64 \<Rightarrow> string \<Rightarrow> time \<Rightarrow> time \<Rightarrow> Refund" where
  "new_refund refundNo orderID payment userID reason created completed =
     \<lparr>rfRefundNo = refundNo, rfOrderID = orderID, rfPaymentNo = pmPaymentNo payment, rfReason = reason,
      rfStatus = RefundSucceeded, rfUserID = userID, rfAmountCents = pmAmountCents payment,
      rfCreatedAt = created, rfCompletedAt = completed\<rparr>"

text \<open>Both finders are methods of the repository; the type assertions succeed.\<close>

definition Payment_Refund ::
  "'e order_client \<Rightarrow> uint64 \<Rightarrow> string \<Rightarrow> string \<Rightarrow> ('e payment_world, Refund \<times> OrderTransition \<times> bool) go" where
  "Payment_Refund orders userID orderID reason' =
     (let reason = TrimSpace reason' in
      if userID = 0 \<or> orderID = [] \<or> reason = [] \<or> rune_count reason > 255 then fail Payment_ErrInvalidRequest
      else and_then (pay_env (ord_Get orders userID orderID)) (\<lambda>order.
      if osUserID order \<noteq> userID then fail Payment_ErrNotFound
      else and_then (pay_repo (FindRefundByOrder userID orderID)) (\<lambda>found.
      case found of
        Some existing \<Rightarrow> ret (existing, \<lparr>otOrderID = orderID, otStatus = ''refunded'', otReused = True\<rparr>, True)
      | None \<Rightarrow>
          and_then (pay_repo (FindSucceededPayment orderID)) (\<lambda>payment.
          and_then (randomID ''ref'') (\<lambda>refundNo.
          and_then (pay_env (ord_Refund orders userID orderID refundNo reason)) (\<lambda>transition.
          and_then pay_now (\<lambda>created. and_then pay_now (\<lambda>completed. and_then pay_now (\<lambda>_.
          and_then (pay_repo (CreateRefund (new_refund refundNo orderID payment userID reason created completed)))
            (\<lambda>(refund, reused). ret (refund, transition, reused)))))))))))"

section \<open>Server (server.go)\<close>

definition payment_method :: "string \<Rightarrow> string" where
  "payment_method name = ''/commerce.payment.v1.PaymentService/'' @ name"

record PaymentCreateResponse =
  pcrPaymentNo :: string
  pcrAmountCents :: int64
  pcrStatus :: string
  pcrOrderId :: string
  pcrUserId :: uint64
  pcrProvider :: string
  pcrCallbackSignature :: string
  pcrReused :: bool

definition paymentProto :: "Payment \<Rightarrow> string \<Rightarrow> PaymentCreateResponse" where
  "paymentProto v signature =
     \<lparr>pcrPaymentNo = pmPaymentNo v, pcrAmountCents = pmAmountCents v, pcrStatus = pmStatus v,
      pcrOrderId = pmOrderID v, pcrUserId = pmUserID v, pcrProvider = pmProvider v,
      pcrCallbackSignature = signature, pcrReused = False\<rparr>"

record PaymentRefundResponse =
  prrRefundNo :: string
  prrOrderId :: string
  prrPaymentNo :: string
  prrAmountCents :: int64
  prrReason :: string
  prrStatus :: string
  prrOrderStatus :: string
  prrReused :: bool

definition Payment_mapError :: "go_error \<Rightarrow> go_error" where
  "Payment_mapError err =
     (if errors_is err Payment_ErrInvalidRequest then StatusError InvalidArgument ''payment request invalid''
      else if errors_is err Payment_ErrUnauthorized then StatusError Unauthenticated ''callback signature invalid''
      else if errors_is err Payment_ErrNotFound then StatusError NotFound ''payment resource does not exist''
      else if errors_is err Payment_ErrConflict then StatusError Aborted ''payment request conflicts''
      else if errors_is err Payment_ErrInvalidTransition
      then StatusError FailedPrecondition ''order does not allow the payment operation''
      else if status_code err = Unavailable then err
      else StatusError Internal ''payment service temporarily unavailable'')"

definition userAuth :: "call_context \<Rightarrow> string \<Rightarrow> uint64 \<Rightarrow> unit result" where
  "userAuth ctx method userID = AuthorizeUser (cxMetadata ctx) (cxSecret ctx) method userID (cxNow ctx)"

definition systemAuth :: "call_context \<Rightarrow> string \<Rightarrow> unit result" where
  "systemAuth ctx method =
     AuthorizeRole (cxMetadata ctx) (cxSecret ctx) method SystemActorID SystemRole (cxNow ctx)"

definition payment_answer :: "('w, 'a) go \<Rightarrow> ('a \<Rightarrow> 'b) \<Rightarrow> ('w, 'b) go" where
  "payment_answer m reply =
     inspect m (\<lambda>res. case res of Inl err \<Rightarrow> fail (Payment_mapError err) | Inr v \<Rightarrow> ret (reply v))"

definition PaymentServer_Create ::
  "'e order_client \<Rightarrow> string \<Rightarrow> call_context \<Rightarrow> (uint64 \<times> string) option \<Rightarrow>
   ('e payment_world, PaymentCreateResponse) go" where
  "PaymentServer_Create orders secret ctx req =
     (case req of None \<Rightarrow> fail empty_request
      | Some (userId, orderId) \<Rightarrow>
          guarded (userAuth ctx (payment_method ''Create'') userId)
            (payment_answer (Payment_Create orders secret userId orderId)
              (\<lambda>(v, signature, reused). (paymentProto v signature)\<lparr>pcrReused := reused\<rparr>)))"

definition PaymentServer_Callback ::
  "'e order_client \<Rightarrow> string \<Rightarrow> call_context \<Rightarrow> (string \<times> string \<times> string) option \<Rightarrow>
   ('e payment_world, PaymentCreateResponse \<times> string \<times> bool) go" where
  "PaymentServer_Callback orders secret ctx req =
     (case req of None \<Rightarrow> fail empty_request
      | Some (paymentNo, callbackRef, signature) \<Rightarrow>
          guarded (systemAuth ctx (payment_method ''Callback''))
            (payment_answer (Payment_Callback orders secret paymentNo callbackRef signature)
              (\<lambda>(v, transition, reused). (paymentProto v [], otStatus transition, reused))))"

definition PaymentServer_Refund ::
  "'e order_client \<Rightarrow> call_context \<Rightarrow> (uint64 \<times> string \<times> string) option \<Rightarrow>
   ('e payment_world, PaymentRefundResponse) go" where
  "PaymentServer_Refund orders ctx req =
     (case req of None \<Rightarrow> fail empty_request
      | Some (userId, orderId, reason) \<Rightarrow>
          guarded (userAuth ctx (payment_method ''Refund'') userId)
            (payment_answer (Payment_Refund orders userId orderId reason)
              (\<lambda>(v, transition, reused). \<lparr>prrRefundNo = rfRefundNo v, prrOrderId = rfOrderID v,
                 prrPaymentNo = rfPaymentNo v, prrAmountCents = rfAmountCents v, prrReason = rfReason v,
                 prrStatus = rfStatus v, prrOrderStatus = otStatus transition, prrReused = reused\<rparr>)))"

section \<open>Events (events.go)\<close>

definition unmarshal_OrderItem :: "json \<Rightarrow> OrderItemPayload result" where
  "unmarshal_OrderItem j = with_object j (\<lambda>fs.
     bind_result (get_uint64 fs ''sku_id'') (\<lambda>sku.
     bind_result (get_int32 fs ''quantity'') (\<lambda>q.
     bind_result (get_string fs ''reservation_id'') (\<lambda>rid.
     bind_result (get_int64 fs ''unit_price_cents'') (\<lambda>price.
       Inr \<lparr>oipSKUID = sku, oipQuantity = q, oipReservationID = rid, oipUnitPriceCents = price\<rparr>)))))"

fun unmarshal_OrderItems :: "json list \<Rightarrow> OrderItemPayload list result" where
  "unmarshal_OrderItems [] = Inr []"
| "unmarshal_OrderItems (j # js) =
     bind_result (unmarshal_OrderItem j) (\<lambda>i.
     bind_result (unmarshal_OrderItems js) (\<lambda>rest. Inr (i # rest)))"

definition get_order_items :: "(string \<times> json) list \<Rightarrow> string \<Rightarrow> OrderItemPayload list result" where
  "get_order_items fs name =
     (case json_field fs name of None \<Rightarrow> Inr [] | Some JNull \<Rightarrow> Inr []
      | Some (JArray js) \<Rightarrow> unmarshal_OrderItems js | Some _ \<Rightarrow> Inl (json_type_error name))"

definition unmarshal_OrderCreated :: "json \<Rightarrow> OrderCreatedPayload result" where
  "unmarshal_OrderCreated j = with_object j (\<lambda>fs.
     bind_result (get_string fs ''order_id'') (\<lambda>oid.
     bind_result (get_uint64 fs ''user_id'') (\<lambda>uid.
     bind_result (get_string fs ''order_type'') (\<lambda>ot.
     bind_result (get_int64 fs ''total_amount_cents'') (\<lambda>amount.
     bind_result (get_order_items fs ''items'') (\<lambda>items.
       Inr \<lparr>ocpOrderID = oid, ocpUserID = uid, ocpOrderType = ot, ocpTotalAmountCents = amount,
            ocpItems = items\<rparr>))))))"

definition decodePaymentPayload :: "EventEnvelope \<Rightarrow> (json \<Rightarrow> 'a result) \<Rightarrow> 'a result" where
  "decodePaymentPayload event unmarshal =
     (case ValidateEventPayload event of Inl e \<Rightarrow> Inl e | Inr _ \<Rightarrow> unmarshal (ePayload event))"

text \<open>The handlers check the payload and change nothing.\<close>

definition Payment_orderCreated :: "EventEnvelope \<Rightarrow> ('w, unit) go" where
  "Payment_orderCreated event =
     and_then (of_result (decodePaymentPayload event unmarshal_OrderCreated)) (\<lambda>_. ret ())"

definition Payment_orderCancelled :: "EventEnvelope \<Rightarrow> ('w, unit) go" where
  "Payment_orderCancelled event =
     and_then (of_result (decodePaymentPayload event unmarshal_OrderCancelled)) (\<lambda>_. ret ())"

definition Payment_Handlers :: "string \<Rightarrow> (EventEnvelope \<Rightarrow> ('w, unit) go) option" where
  "Payment_Handlers t =
     (if t = EventOrderCreated then Some Payment_orderCreated
      else if t = EventOrderCancelled then Some Payment_orderCancelled else None)"

end
