(* ===== verification/Payment_Properties.thy ===== *)
theory Payment_Properties
  imports Payment_Model Order_History
begin

text \<open>
  The books of the payment service: one payment and one refund per order, one payment per
  callback reference, refunds that match a settled payment; what a callback needs and does,
  and what happens when the callback arrives after its order was canceled.
\<close>

section \<open>Steps of the repository\<close>

text \<open>
  The repository is shared by concurrent calls and each of its methods holds the mutex, so it
  moves in whole methods. New identifiers carry 96 random bits; a step takes them to be unused.
\<close>

definition paid_for :: "PaymentRepository \<Rightarrow> Refund \<Rightarrow> bool" where
  "paid_for r f \<longleftrightarrow>
     (\<exists>p. prPayments r (rfPaymentNo f) = Some p \<and> pmStatus p = PaymentSucceeded \<and>
        pmOrderID p = rfOrderID f \<and> pmAmountCents p = rfAmountCents f)"

inductive payment_step :: "PaymentRepository \<Rightarrow> PaymentRepository \<Rightarrow> bool" where
  creates: "payment_step r (snd (PaymentRepository_Create v r))"
    if "pmStatus v = PaymentPending" and "prPayments r (pmPaymentNo v) = None"
| succeeds: "payment_step r (snd (MarkSucceeded no ref now r))"
| refunds: "payment_step r (snd (CreateRefund f r))"
    if "prRefunds r (rfRefundNo f) = None" and "paid_for r f"

inductive_cases payment_stepE: "payment_step r r'"

definition fresh_payments :: "PaymentRepository \<Rightarrow> bool" where
  "fresh_payments r \<longleftrightarrow>
     r = NewPaymentRepository \<or> (\<exists>sink. r = Payment_SetEventSink sink NewPaymentRepository)"

definition books_ok :: "PaymentRepository \<Rightarrow> bool" where
  "books_ok r \<longleftrightarrow>
     (\<forall>no p. prPayments r no = Some p \<longrightarrow>
        pmPaymentNo p = no \<and> prPaymentByOrder r (pmOrderID p) = Some no \<and>
        (pmStatus p = PaymentSucceeded \<longrightarrow> prCallbacks r (pmCallbackRef p) = Some no)) \<and>
     (\<forall>k no. prPaymentByOrder r k = Some no \<longrightarrow> (\<exists>p. prPayments r no = Some p \<and> pmOrderID p = k)) \<and>
     (\<forall>c no. prCallbacks r c = Some no \<longrightarrow>
        (\<exists>p. prPayments r no = Some p \<and> pmStatus p = PaymentSucceeded \<and> pmCallbackRef p = c)) \<and>
     (\<forall>n f. prRefunds r n = Some f \<longrightarrow>
        rfRefundNo f = n \<and> prRefundByOrder r (rfOrderID f) = Some n \<and> paid_for r f) \<and>
     (\<forall>k n. prRefundByOrder r k = Some n \<longrightarrow> (\<exists>f. prRefunds r n = Some f \<and> rfOrderID f = k))"

definition same_books :: "PaymentRepository \<Rightarrow> PaymentRepository \<Rightarrow> bool" where
  "same_books r r' \<longleftrightarrow> (\<exists>sink. r' = r\<lparr>prEventSink := sink\<rparr>)"

lemma same_books_refl [simp]: "same_books r r"
  unfolding same_books_def by (rule exI [of _ "prEventSink r"]) simp

lemma same_books_sink [simp]: "same_books r (r\<lparr>prEventSink := sink\<rparr>)"
  unfolding same_books_def by blast

lemma same_books_emit: "Payment_emit ev r = (res, r') \<Longrightarrow> same_books r r'"
  by (auto simp: Payment_emit_def same_books_def split: prod.splits)

lemma payment_sel [simp]:
  "pmStatus (paid c t p) = PaymentSucceeded" "pmCallbackRef (paid c t p) = c"
  "pmPaymentNo (paid c t p) = pmPaymentNo p" "pmOrderID (paid c t p) = pmOrderID p"
  "pmUserID (paid c t p) = pmUserID p" "pmAmountCents (paid c t p) = pmAmountCents p"
  by (simp_all add: paid_def)

lemma payment_status_distinct [simp]: "PaymentPending \<noteq> PaymentSucceeded" "PaymentSucceeded \<noteq> PaymentPending"
  by (simp_all add: const_defs)

text \<open>The two outcomes of a method that writes: the tables stay, or they gain the new entry.\<close>

lemma MarkSucceeded_cases:
  assumes "MarkSucceeded no ref now r = (res, r')"
  obtains (kept) "same_books r r'" and "\<forall>p b. res = Inr (p, b) \<longrightarrow>
      b \<and> r' = r \<and> prPayments r no = Some p \<and> pmStatus p = PaymentSucceeded \<and> pmCallbackRef p = ref"
  | (settled) p sink where "prPayments r no = Some p" and "pmStatus p \<noteq> PaymentSucceeded"
      and "prCallbacks r ref = None \<or> prCallbacks r ref = Some no" and "res = Inr (paid ref now p, False)"
      and "r' = r\<lparr>prEventSink := sink, prPayments := (prPayments r)(no \<mapsto> paid ref now p),
        prCallbacks := (prCallbacks r)(ref \<mapsto> no)\<rparr>"
proof (cases "prPayments r no")
  case None
  with assms show thesis by (intro kept) (auto simp: MarkSucceeded_def)
next
  case (Some p)
  obtain e r1 where em: "Payment_emit (paymentSucceededEvent p ref now) r = (e, r1)" by fastforce
  then obtain sink where r1: "r1 = r\<lparr>prEventSink := sink\<rparr>" using same_books_emit [OF em] by (auto simp: same_books_def)
  show thesis
  proof (cases "(case prCallbacks r ref of None \<Rightarrow> False | Some k \<Rightarrow> k \<noteq> no) \<or> pmStatus p = PaymentSucceeded \<or> (\<exists>err. e = Inl err)")
    case True
    then have "same_books r r' \<and> (\<forall>p b. res = Inr (p, b) \<longrightarrow>
        b \<and> r' = r \<and> prPayments r no = Some p \<and> pmStatus p = PaymentSucceeded \<and> pmCallbackRef p = ref)"
      using assms Some em by (auto simp: MarkSucceeded_def and_then_def r1 split: if_splits)
    then show thesis using kept by blast
  next
    case False
    then show thesis
      using assms Some em r1 settled [of p sink]
      by (cases e) (auto simp: MarkSucceeded_def and_then_def split: option.splits if_splits)
  qed
qed

lemma CreateRefund_cases:
  assumes "CreateRefund f r = (res, r')"
  obtains (kept) "same_books r r'" and "\<forall>g b. res = Inr (g, b) \<longrightarrow>
      b \<and> r' = r \<and> (\<exists>n. prRefundByOrder r (rfOrderID f) = Some n \<and> g = read_refund r n)"
  | (booked) sink where "prRefundByOrder r (rfOrderID f) = None" and "res = Inr (f, False)"
      and "r' = r\<lparr>prEventSink := sink, prRefunds := (prRefunds r)(rfRefundNo f \<mapsto> f),
        prRefundByOrder := (prRefundByOrder r)(rfOrderID f \<mapsto> rfRefundNo f)\<rparr>"
proof (cases "prRefundByOrder r (rfOrderID f)")
  case (Some n)
  with assms show thesis by (intro kept) (auto simp: CreateRefund_def)
next
  case None
  obtain e r1 where em: "Payment_emit (payment_refunded_event f) r = (e, r1)" by fastforce
  then obtain sink where r1: "r1 = r\<lparr>prEventSink := sink\<rparr>" using same_books_emit [OF em] by (auto simp: same_books_def)
  show thesis
  proof (cases e)
    case (Inl err)
    with assms None em r1 show thesis
      by (intro kept) (auto simp: CreateRefund_def and_then_def same_books_def)
  next
    case (Inr u)
    with assms None em r1 show thesis
      by (intro booked [of sink]) (auto simp: CreateRefund_def and_then_def)
  qed
qed

lemma paid_for_mono:
  assumes "paid_for r f" and "\<And>no p. prPayments r no = Some p \<Longrightarrow> pmStatus p = PaymentSucceeded \<Longrightarrow>
    prPayments r' no = Some p"
  shows "paid_for r' f"
  using assms unfolding paid_for_def by blast

lemma books_same: "books_ok r \<Longrightarrow> same_books r r' \<Longrightarrow> books_ok r'"
  by (auto simp: books_ok_def same_books_def paid_for_def)

lemma booksD:
  assumes "books_ok r"
  shows "prPayments r no = Some p \<Longrightarrow> pmPaymentNo p = no \<and> prPaymentByOrder r (pmOrderID p) = Some no"
    and "prPayments r no = Some p \<Longrightarrow> pmStatus p = PaymentSucceeded \<Longrightarrow> prCallbacks r (pmCallbackRef p) = Some no"
    and "prPaymentByOrder r k = Some no \<Longrightarrow> \<exists>p. prPayments r no = Some p \<and> pmOrderID p = k"
    and "prCallbacks r c = Some no \<Longrightarrow>
      \<exists>p. prPayments r no = Some p \<and> pmStatus p = PaymentSucceeded \<and> pmCallbackRef p = c"
    and "prRefunds r n = Some f \<Longrightarrow>
      rfRefundNo f = n \<and> prRefundByOrder r (rfOrderID f) = Some n \<and> paid_for r f"
    and "prRefundByOrder r k = Some n \<Longrightarrow> \<exists>f. prRefunds r n = Some f \<and> rfOrderID f = k"
  using assms unfolding books_ok_def by simp_all

lemma booksI:
  assumes "\<And>no p. prPayments r no = Some p \<Longrightarrow> pmPaymentNo p = no \<and> prPaymentByOrder r (pmOrderID p) = Some no"
    and "\<And>no p. prPayments r no = Some p \<Longrightarrow> pmStatus p = PaymentSucceeded \<Longrightarrow> prCallbacks r (pmCallbackRef p) = Some no"
    and "\<And>k no. prPaymentByOrder r k = Some no \<Longrightarrow> \<exists>p. prPayments r no = Some p \<and> pmOrderID p = k"
    and "\<And>c no. prCallbacks r c = Some no \<Longrightarrow>
      \<exists>p. prPayments r no = Some p \<and> pmStatus p = PaymentSucceeded \<and> pmCallbackRef p = c"
    and "\<And>n f. prRefunds r n = Some f \<Longrightarrow>
      rfRefundNo f = n \<and> prRefundByOrder r (rfOrderID f) = Some n \<and> paid_for r f"
    and "\<And>k n. prRefundByOrder r k = Some n \<Longrightarrow> \<exists>f. prRefunds r n = Some f \<and> rfOrderID f = k"
  shows "books_ok r"
  using assms unfolding books_ok_def by blast

lemma books_create:
  assumes "books_ok r" and "pmStatus v = PaymentPending" and "prPayments r (pmPaymentNo v) = None"
  shows "books_ok (snd (PaymentRepository_Create v r))"
proof (cases "prPaymentByOrder r (pmOrderID v)")
  case None
  let ?r = "r\<lparr>prPayments := (prPayments r)(pmPaymentNo v \<mapsto> v),
    prPaymentByOrder := (prPaymentByOrder r)(pmOrderID v \<mapsto> pmPaymentNo v)\<rparr>"
  have mono: "paid_for ?r f" if "paid_for r f" for f
    using that assms(3) by (rule_tac paid_for_mono) auto
  have "books_ok ?r"
    by (rule booksI)
      (use assms(2,3) None booksD [OF assms(1)] mono in \<open>fastforce split: if_splits\<close>)+
  with None show ?thesis by (simp add: PaymentRepository_Create_def)
qed (use assms(1) in \<open>simp add: PaymentRepository_Create_def\<close>)

lemma books_succeed:
  assumes "books_ok r"
  shows "books_ok (snd (MarkSucceeded no ref now r))"
proof (cases "MarkSucceeded no ref now r")
  case (Pair res r')
  then show ?thesis
  proof (cases rule: MarkSucceeded_cases)
    case kept
    with assms Pair show ?thesis by (simp add: books_same)
  next
    case (settled p sink)
    have mono: "paid_for r' f" if "paid_for r f" for f
      using that settled by (rule_tac paid_for_mono) auto
    have ref: "prCallbacks r ref = None"
      using settled(1-3) booksD(4) [OF assms, of ref no] by auto
    have "books_ok r'"
      by (rule booksI)
        (use settled(1,2,5) ref booksD [OF assms] mono in \<open>fastforce split: if_splits\<close>)+
    with Pair show ?thesis by simp
  qed
qed

lemma books_refund:
  assumes "books_ok r" and "prRefunds r (rfRefundNo f) = None" and "paid_for r f"
  shows "books_ok (snd (CreateRefund f r))"
proof (cases "CreateRefund f r")
  case (Pair res r')
  then show ?thesis
  proof (cases rule: CreateRefund_cases)
    case kept
    with assms Pair show ?thesis by (simp add: books_same)
  next
    case (booked sink)
    have mono: "paid_for r' g = paid_for r g" for g by (simp add: booked(3) paid_for_def)
    have "books_ok r'"
      by (rule booksI; (subst mono)?)
        (use booked assms(2,3) booksD [OF assms(1)] in \<open>fastforce split: if_splits\<close>)+
    with Pair show ?thesis by simp
  qed
qed

interpretation payments: state_machine fresh_payments payment_step books_ok
proof
  show "fresh_payments r \<Longrightarrow> books_ok r" for r
    by (auto simp: fresh_payments_def NewPaymentRepository_def Payment_SetEventSink_def books_ok_def)
  show "books_ok r \<Longrightarrow> payment_step r r' \<Longrightarrow> books_ok r'" for r r'
    by (erule payment_stepE) (auto intro: books_create books_succeed books_refund)
qed

section \<open>Steps of the service\<close>

text \<open>The next random bytes give unused identifiers.\<close>

definition fresh_random :: "'e payment_world \<Rightarrow> bool" where
  "fresh_random w \<longleftrightarrow>
     (\<forall>buffer. shd (pwRandom w) = Inr buffer \<longrightarrow>
        prPayments (pwRepo w) (''pay_'' @ hex_bytes buffer) = None \<and>
        prRefunds (pwRepo w) (''ref_'' @ hex_bytes buffer) = None)"

inductive payment_call :: "'e order_client \<Rightarrow> string \<Rightarrow> 'e payment_world \<Rightarrow> 'e payment_world \<Rightarrow> bool"
  for orders secret where
  pays: "payment_call orders secret w (snd (PaymentServer_Create orders secret ctx req w))" if "fresh_random w"
| called_back: "payment_call orders secret w (snd (PaymentServer_Callback orders secret ctx cb w))"
| refunds_order: "payment_call orders secret w (snd (PaymentServer_Refund orders ctx ref w))" if "fresh_random w"
| hears: "payment_call orders secret w (snd (h event w))" if "Payment_Handlers t = Some h"

text \<open>A method of the service whose effect on the repository is a run of steps.\<close>

definition runs_steps :: "('e payment_world \<Rightarrow> bool) \<Rightarrow> ('e payment_world, 'a) go \<Rightarrow> bool" where
  "runs_steps P m \<longleftrightarrow>
     (\<forall>w. P w \<longrightarrow> books_ok (pwRepo w) \<longrightarrow> payment_step\<^sup>*\<^sup>* (pwRepo w) (pwRepo (snd (m w))))"

lemma runs_steps_answer: "runs_steps P m \<Longrightarrow> runs_steps P (payment_answer m reply)"
  by (auto simp: runs_steps_def payment_answer_def inspect_def fail_def ret_def split: prod.split sum.split)

lemma runs_steps_guarded: "runs_steps P m \<Longrightarrow> runs_steps P (guarded auth m)"
  by (auto simp: runs_steps_def guarded_def and_then_def of_result_def split: sum.split)

lemma Payment_Create_steps: "runs_steps fresh_random (Payment_Create orders secret uid k)"
  unfolding runs_steps_def
proof (intro allI impI)
  fix w :: "'a payment_world" assume w: "fresh_random w" "books_ok (pwRepo w)"
  let ?r' = "pwRepo (snd (Payment_Create orders secret uid k w))"
  have "?r' = pwRepo w \<or> (\<exists>buffer order created updated. shd (pwRandom w) = Inr buffer \<and>
      ?r' = snd (PaymentRepository_Create (new_payment (''pay_'' @ hex_bytes buffer) order uid created updated) (pwRepo w)))"
    by (auto simp: Payment_Create_def and_then_def pay_env_def randomID_def pay_now_def pay_repo_def fail_def
        ret_def split: prod.split sum.split) (metis snd_conv)+
  then show "payment_step\<^sup>*\<^sup>* (pwRepo w) ?r'"
  proof
    assume "\<exists>buffer order created updated. shd (pwRandom w) = Inr buffer \<and>
      ?r' = snd (PaymentRepository_Create (new_payment (''pay_'' @ hex_bytes buffer) order uid created updated) (pwRepo w))"
    then obtain v where "?r' = snd (PaymentRepository_Create v (pwRepo w))" "pmStatus v = PaymentPending"
        "prPayments (pwRepo w) (pmPaymentNo v) = None"
      using w(1) by (auto simp: fresh_random_def new_payment_def)
    then show ?thesis by (metis creates r_into_rtranclp)
  qed simp
qed

lemma Payment_Callback_steps: "runs_steps P (Payment_Callback orders secret no ref sig)"
  unfolding runs_steps_def
proof (intro allI impI)
  fix w :: "'a payment_world"
  let ?r' = "pwRepo (snd (Payment_Callback orders secret no ref sig w))"
  have "?r' = pwRepo w \<or> (\<exists>no ref now. ?r' = snd (MarkSucceeded no ref now (pwRepo w)))"
    by (auto simp: Payment_Callback_def Let_def and_then_def pay_env_def pay_now_def pay_repo_def fail_def
        PaymentRepository_Get_def ret_def split: prod.split sum.split option.split) (metis snd_conv)+
  then show "payment_step\<^sup>*\<^sup>* (pwRepo w) ?r'" by (metis succeeds r_into_rtranclp rtranclp.rtrancl_refl)
qed

lemma Payment_Refund_steps: "runs_steps fresh_random (Payment_Refund orders uid k reason)"
  unfolding runs_steps_def
proof (intro allI impI)
  fix w :: "'a payment_world" assume w: "fresh_random w" "books_ok (pwRepo w)"
  let ?r' = "pwRepo (snd (Payment_Refund orders uid k reason w))"
  have "?r' = pwRepo w \<or> (\<exists>buffer p created completed. shd (pwRandom w) = Inr buffer \<and>
      FindSucceededPayment k (pwRepo w) = (Inr p, pwRepo w) \<and>
      ?r' = snd (CreateRefund (new_refund (''ref_'' @ hex_bytes buffer) k p uid (TrimSpace reason) created completed) (pwRepo w)))"
    by (auto simp: Payment_Refund_def Let_def and_then_def pay_env_def randomID_def pay_now_def pay_repo_def
        fail_def ret_def FindRefundByOrder_def FindSucceededPayment_def
        split: prod.split sum.split option.split if_split) (metis snd_conv)+
  then show "payment_step\<^sup>*\<^sup>* (pwRepo w) ?r'"
  proof
    assume "\<exists>buffer p created completed. shd (pwRandom w) = Inr buffer \<and>
      FindSucceededPayment k (pwRepo w) = (Inr p, pwRepo w) \<and>
      ?r' = snd (CreateRefund (new_refund (''ref_'' @ hex_bytes buffer) k p uid (TrimSpace reason) created completed) (pwRepo w))"
    then obtain f p no where f: "?r' = snd (CreateRefund f (pwRepo w))" "prRefunds (pwRepo w) (rfRefundNo f) = None"
        and p: "prPaymentByOrder (pwRepo w) (rfOrderID f) = Some no" "p = read_payment (pwRepo w) no"
          "pmStatus p = PaymentSucceeded" "rfPaymentNo f = pmPaymentNo p" "rfAmountCents f = pmAmountCents p"
      using w(1) by (auto simp: fresh_random_def new_refund_def FindSucceededPayment_def split: option.splits if_splits)
    then have "paid_for (pwRepo w) f"
      using booksD(1,3) [OF w(2)] by (fastforce simp: paid_for_def read_payment_def)
    with f show ?thesis by (metis refunds r_into_rtranclp)
  qed simp
qed

lemma Payment_Handlers_keep: "Payment_Handlers t = Some h \<Longrightarrow> snd (h event w) = w"
  by (auto simp: Payment_Handlers_def Payment_orderCreated_def Payment_orderCancelled_def and_then_def
      of_result_def ret_def split: if_splits sum.split)

lemma payment_call_steps:
  assumes "payment_call orders secret w w'" and "books_ok (pwRepo w)"
  shows "payment_step\<^sup>*\<^sup>* (pwRepo w) (pwRepo w')"
  using assms
proof cases
  case (pays ctx req)
  moreover have "runs_steps fresh_random (PaymentServer_Create orders secret ctx req)"
    by (cases req) (auto simp: PaymentServer_Create_def runs_steps_def [of _ "fail _"] fail_def
        intro!: runs_steps_guarded runs_steps_answer Payment_Create_steps)
  ultimately show ?thesis using assms(2) by (simp add: runs_steps_def)
next
  case (called_back ctx cb)
  moreover have "runs_steps (\<lambda>_. True) (PaymentServer_Callback orders secret ctx cb)"
    by (cases cb) (auto simp: PaymentServer_Callback_def runs_steps_def [of _ "fail _"] fail_def
        intro!: runs_steps_guarded runs_steps_answer Payment_Callback_steps)
  ultimately show ?thesis using assms(2) by (simp add: runs_steps_def)
next
  case (refunds_order ctx ref)
  moreover have "runs_steps fresh_random (PaymentServer_Refund orders ctx ref)"
    by (cases ref) (auto simp: PaymentServer_Refund_def runs_steps_def [of _ "fail _"] fail_def
        intro!: runs_steps_guarded runs_steps_answer Payment_Refund_steps)
  ultimately show ?thesis using assms(2) by (simp add: runs_steps_def)
next
  case (hears t h event)
  then show ?thesis by (simp add: Payment_Handlers_keep)
qed

lemma payment_calls_steps:
  assumes "(payment_call orders secret)\<^sup>*\<^sup>* w w'" and "books_ok (pwRepo w)"
  shows "payment_step\<^sup>*\<^sup>* (pwRepo w) (pwRepo w') \<and> books_ok (pwRepo w')"
  using assms(1)
proof (induction rule: rtranclp_induct)
  case (step v v')
  then have "payment_step\<^sup>*\<^sup>* (pwRepo v) (pwRepo v')" by (intro payment_call_steps) auto
  with step.IH show ?case using payments.inv_steps by (meson rtranclp_trans)
qed (use assms(2) in simp)

text \<open>What a step keeps: settled payments and refunds as they are, the terms of any payment.\<close>

definition retains :: "PaymentRepository \<Rightarrow> PaymentRepository \<Rightarrow> bool" where
  "retains r r' \<longleftrightarrow>
     (\<forall>no p. prPayments r no = Some p \<longrightarrow>
        (\<exists>q. prPayments r' no = Some q \<and> (q = p \<or> pmStatus p \<noteq> PaymentSucceeded \<and> (\<exists>c t. q = paid c t p)))) \<and>
     (\<forall>n f. prRefunds r n = Some f \<longrightarrow> prRefunds r' n = Some f)"

lemma retains_step:
  assumes "payment_step r r'"
  shows "retains r r'"
  using assms
proof cases
  case (creates v)
  then show ?thesis by (auto simp: retains_def PaymentRepository_Create_def split: option.split)
next
  case (succeeds no ref now)
  obtain res where "MarkSucceeded no ref now r = (res, r')" using succeeds by (metis prod.collapse)
  then show ?thesis
    by (cases rule: MarkSucceeded_cases) (auto simp: retains_def same_books_def)
next
  case (refunds f)
  obtain res where "CreateRefund f r = (res, r')" using refunds by (metis prod.collapse)
  then show ?thesis
    by (cases rule: CreateRefund_cases) (use refunds in \<open>auto simp: retains_def same_books_def\<close>)
qed

lemma retains_payment:
  assumes "retains r r'" and "prPayments r no = Some p"
  obtains q where "prPayments r' no = Some q" and "q = p \<or> pmStatus p \<noteq> PaymentSucceeded \<and> (\<exists>c t. q = paid c t p)"
  using assms unfolding retains_def by blast

lemma retains_trans:
  assumes "retains r r1" and "retains r1 r2"
  shows "retains r r2"
proof -
  have "\<exists>q. prPayments r2 no = Some q \<and> (q = p \<or> pmStatus p \<noteq> PaymentSucceeded \<and> (\<exists>c t. q = paid c t p))"
    if p: "prPayments r no = Some p" for no p
  proof -
    obtain q where q: "prPayments r1 no = Some q" "q = p \<or> pmStatus p \<noteq> PaymentSucceeded \<and> (\<exists>c t. q = paid c t p)"
      using assms(1) p by (rule retains_payment)
    obtain q' where "prPayments r2 no = Some q'" "q' = q \<or> pmStatus q \<noteq> PaymentSucceeded \<and> (\<exists>c t. q' = paid c t q)"
      using assms(2) q(1) by (rule retains_payment)
    with q(2) show ?thesis by auto
  qed
  moreover have "prRefunds r n = Some f \<Longrightarrow> prRefunds r2 n = Some f" for n f
    using assms by (simp add: retains_def)
  ultimately show ?thesis by (simp add: retains_def)
qed

lemma retains_run: "payment_step\<^sup>*\<^sup>* r r' \<Longrightarrow> retains r r'"
proof (induction rule: rtranclp_induct)
  case base
  show ?case by (simp add: retains_def)
next
  case (step r1 r2)
  then show ?case by (blast intro: retains_trans retains_step)
qed

section \<open>Properties\<close>

text \<open>
  C4. The books of the payment service balance. Whatever the order service answers, after any
  sequence of calls and events an order has at most one payment and at most one refund, a
  callback reference has settled at most one payment, and every refund is of a settled payment
  of its own order, over exactly the amount that was paid.
\<close>

theorem payment_books_balance:
  assumes "fresh_payments (pwRepo w)" and "(payment_call orders secret)\<^sup>*\<^sup>* w w'"
  shows "(\<forall>a b p q. prPayments (pwRepo w') a = Some p \<longrightarrow> prPayments (pwRepo w') b = Some q \<longrightarrow>
      pmOrderID p = pmOrderID q \<longrightarrow> p = q) \<and>
    (\<forall>a b p q. prPayments (pwRepo w') a = Some p \<longrightarrow> prPayments (pwRepo w') b = Some q \<longrightarrow>
      pmStatus p = PaymentSucceeded \<longrightarrow> pmStatus q = PaymentSucceeded \<longrightarrow>
      pmCallbackRef p = pmCallbackRef q \<longrightarrow> p = q) \<and>
    (\<forall>a b f g. prRefunds (pwRepo w') a = Some f \<longrightarrow> prRefunds (pwRepo w') b = Some g \<longrightarrow>
      rfOrderID f = rfOrderID g \<longrightarrow> f = g) \<and>
    (\<forall>a f. prRefunds (pwRepo w') a = Some f \<longrightarrow>
      (\<exists>p. prPayments (pwRepo w') (rfPaymentNo f) = Some p \<and> pmStatus p = PaymentSucceeded \<and>
         pmOrderID p = rfOrderID f \<and> pmAmountCents p = rfAmountCents f))"
proof -
  have ok: "books_ok (pwRepo w')"
    using payment_calls_steps [OF assms(2)] payments.inv_init [OF assms(1)] by blast
  have p: "p = q" if "prPayments (pwRepo w') a = Some p" "prPayments (pwRepo w') b = Some q"
      "pmOrderID p = pmOrderID q" for a b p q
    using booksD(1) [OF ok that(1)] booksD(1) [OF ok that(2)] that by simp
  have c: "p = q" if "prPayments (pwRepo w') a = Some p" "prPayments (pwRepo w') b = Some q"
      "pmStatus p = PaymentSucceeded" "pmStatus q = PaymentSucceeded" "pmCallbackRef p = pmCallbackRef q" for a b p q
    using booksD(2) [OF ok that(1,3)] booksD(2) [OF ok that(2,4)] that by simp
  have f: "f = g" if "prRefunds (pwRepo w') a = Some f" "prRefunds (pwRepo w') b = Some g"
      "rfOrderID f = rfOrderID g" for a b f g
    using booksD(5) [OF ok that(1)] booksD(5) [OF ok that(2)] that by simp
  have "paid_for (pwRepo w') f" if "prRefunds (pwRepo w') a = Some f" for a f
    using booksD(5) [OF ok that] by simp
  with p c f show ?thesis unfolding paid_for_def by blast
qed

text \<open>A till for the example: the order service knows order o1 of user 3 over 500 cents.\<close>

definition till_orders :: "string order_client" where
  "till_orders =
     \<lparr>ord_Get = (\<lambda>u k st. (Inr \<lparr>osOrderID = k, osUserID = u, osStatus = st, osTotalAmountCents = 500\<rparr>, st)),
      ord_ConfirmPayment = (\<lambda>u k p c st. (Inr \<lparr>otOrderID = k, otStatus = ''paid'', otReused = False\<rparr>, ''paid'')),
      ord_Refund = (\<lambda>u k n c st. (Inr \<lparr>otOrderID = k, otStatus = ''refunded'', otReused = False\<rparr>, ''refunded''))\<rparr>"

definition till :: "string payment_world" where
  "till = \<lparr>pwRepo = NewPaymentRepository, pwEnv = ''pending_payment'', pwNow = sconst 1000,
     pwRandom = sconst (Inr [1])\<rparr>"

definition till_payment :: Payment where
  "till_payment = new_payment ''pay_01'' \<lparr>osOrderID = ''o1'', osUserID = 3, osStatus = ''pending_payment'',
     osTotalAmountCents = 500\<rparr> 3 1000 1000"

definition till_open :: "string payment_world" where
  "till_open = till\<lparr>pwRepo := NewPaymentRepository\<lparr>prPayments := [''pay_01'' \<mapsto> till_payment],
     prPaymentByOrder := [''o1'' \<mapsto> ''pay_01'']\<rparr>\<rparr>"

lemma till_texts [simp]:
  "TrimSpace ''o1'' = ''o1''" "TrimSpace ''pay_01'' = ''pay_01''" "TrimSpace ''c1'' = ''c1''"
  by (simp_all add: TrimSpace_graphic graphic_def)

lemma till_hex [simp]: "hex_bytes [Suc 0] = ''01''"
proof -
  have "hex_digits (Suc (Suc 0)) 1 = ''01''"
    by (simp add: hex_digit_def char_of_def bit_0)
  then show ?thesis by (simp add: hex_bytes_def numeral_2_eq_2)
qed

lemma till_pays: "Payment_Create till_orders secret 3 ''o1'' till =
    (Inr (till_payment, Payment_sign secret ''pay_01'', False), till_open)"
  by (simp add: Payment_Create_def till_def till_orders_def and_then_def pay_env_def randomID_def pay_now_def
      pay_repo_def PaymentRepository_Create_def NewPaymentRepository_def ret_def till_payment_def till_open_def
      new_payment_def)

lemma till_open_payment:
  "prPayments (pwRepo till_open) ''pay_01'' = Some till_payment" "pmAmountCents till_payment = 500"
  "pmOrderID till_payment = ''o1''" "pmStatus till_payment = PaymentPending"
  by (simp_all add: till_open_def till_payment_def new_payment_def)

lemma till_run: "payment_call till_orders secret till till_open"
proof -
  have "PaymentServer_Create till_orders secret \<lparr>cxMetadata = None, cxSecret = [], cxNow = 0\<rparr> (Some (3, ''o1'')) till =
      (Inr ((paymentProto till_payment (Payment_sign secret ''pay_01''))\<lparr>pcrReused := False\<rparr>), till_open)"
    by (simp add: PaymentServer_Create_def guarded_def userAuth_def AuthorizeUser_def and_then_def of_result_def
        payment_answer_def inspect_def till_pays ret_def)
  moreover have "fresh_random till" by (simp add: fresh_random_def till_def NewPaymentRepository_def)
  ultimately show ?thesis using pays [of till till_orders secret _ "Some (3, ''o1'')"] by (metis snd_conv)
qed

text \<open>The example goes on: the callback arrives, the order is refunded.\<close>

lemma sign_trimmed [simp]: "TrimSpace (Payment_sign secret no) = Payment_sign secret no"
proof -
  have "Payment_sign secret no \<noteq> []"
    using length_hmac_hex [of secret no] by (auto simp: Payment_sign_def)
  then show ?thesis
    using hmac_hex_graphic [of _ secret no] by (intro TrimSpace_graphic) (simp add: Payment_sign_def)
qed

definition till_paid :: "string payment_world" where
  "till_paid = till_open\<lparr>pwEnv := ''paid'', pwRepo := (pwRepo till_open)\<lparr>
     prPayments := [''pay_01'' \<mapsto> paid ''c1'' 1000 till_payment], prCallbacks := [''c1'' \<mapsto> ''pay_01'']\<rparr>\<rparr>"

lemma till_settles:
  "Payment_Callback till_orders secret ''pay_01'' ''c1'' (Payment_sign secret ''pay_01'') till_open =
     (Inr (paid ''c1'' 1000 till_payment, \<lparr>otOrderID = ''o1'', otStatus = ''paid'', otReused = False\<rparr>, False), till_paid)"
  by (simp add: Payment_Callback_def till_open_def till_def till_orders_def and_then_def pay_env_def pay_now_def
      pay_repo_def PaymentRepository_Get_def NewPaymentRepository_def ret_def till_payment_def new_payment_def
      MarkSucceeded_def Payment_emit_def append_to_sink_def till_paid_def Let_def)

definition till_refund :: Refund where
  "till_refund = new_refund ''ref_01'' ''o1'' till_payment 3 ''late'' 1000 1000"

definition till_refunded :: "string payment_world" where
  "till_refunded = till_paid\<lparr>pwEnv := ''refunded'', pwRepo := (pwRepo till_paid)\<lparr>
     prRefunds := [''ref_01'' \<mapsto> till_refund], prRefundByOrder := [''o1'' \<mapsto> ''ref_01'']\<rparr>\<rparr>"

lemma till_books: "books_ok (pwRepo till_open)" "books_ok (pwRepo till_refunded)"
  by (auto simp: till_refunded_def till_paid_def till_open_def till_def NewPaymentRepository_def books_ok_def
      till_payment_def new_payment_def till_refund_def new_refund_def paid_for_def split: if_splits)

theorem payment_books_balance_witness:
  "{p. \<exists>a. prPayments (pwRepo till_open) a = Some p \<and> pmOrderID p = ''o1''} = {till_payment}"
proof -
  have "fresh_payments (pwRepo till)" by (simp add: till_def fresh_payments_def)
  moreover have "(payment_call till_orders [])\<^sup>*\<^sup>* till till_open" by (simp add: till_run r_into_rtranclp)
  ultimately have "\<forall>a b p q. prPayments (pwRepo till_open) a = Some p \<longrightarrow> prPayments (pwRepo till_open) b = Some q \<longrightarrow>
      pmOrderID p = pmOrderID q \<longrightarrow> p = q"
    using payment_books_balance by blast
  then have "p = till_payment" if "prPayments (pwRepo till_open) a = Some p" "pmOrderID p = ''o1''" for a p
    using that till_open_payment(1,3) by metis
  with till_open_payment(1,3) show ?thesis by auto
qed

text \<open>
  Money is never lost on the books: on every run a payment keeps its number, order, user
  and amount; once it has succeeded it does not change at all; and a refund never changes.
\<close>

lemma payment_records_kept:
  assumes "books_ok (pwRepo w)" and "(payment_call orders secret)\<^sup>*\<^sup>* w w'"
  shows "(\<forall>no p. prPayments (pwRepo w) no = Some p \<longrightarrow>
      (\<exists>q. prPayments (pwRepo w') no = Some q \<and> pmPaymentNo q = pmPaymentNo p \<and> pmOrderID q = pmOrderID p \<and>
         pmUserID q = pmUserID p \<and> pmAmountCents q = pmAmountCents p \<and> (pmStatus p = PaymentSucceeded \<longrightarrow> q = p))) \<and>
    (\<forall>n f. prRefunds (pwRepo w) n = Some f \<longrightarrow> prRefunds (pwRepo w') n = Some f)"
proof -
  have r: "retains (pwRepo w) (pwRepo w')"
    using payment_calls_steps [OF assms(2,1)] retains_run by blast
  then have "\<exists>q. prPayments (pwRepo w') no = Some q \<and> pmPaymentNo q = pmPaymentNo p \<and> pmOrderID q = pmOrderID p \<and>
      pmUserID q = pmUserID p \<and> pmAmountCents q = pmAmountCents p \<and> (pmStatus p = PaymentSucceeded \<longrightarrow> q = p)"
    if "prPayments (pwRepo w) no = Some p" for no p
    using that by (rule retains_payment) auto
  with r show ?thesis by (simp add: retains_def)
qed

lemma payment_records_kept_example:
  "\<exists>q. prPayments (pwRepo (snd (Payment_Callback till_orders [] ''pay_01'' ''c1'' (Payment_sign [] ''pay_01'') till_open)))
     ''pay_01'' = Some q \<and> pmAmountCents q = 500"
proof -
  let ?w' = "snd (Payment_Callback till_orders [] ''pay_01'' ''c1'' (Payment_sign [] ''pay_01'') till_open)"
  have "snd (PaymentServer_Callback till_orders [] \<lparr>cxMetadata = None, cxSecret = [], cxNow = 0\<rparr>
      (Some (''pay_01'', ''c1'', Payment_sign [] ''pay_01'')) till_open) = ?w'"
    by (simp add: PaymentServer_Callback_def guarded_def systemAuth_def AuthorizeRole_def and_then_def
        of_result_def payment_answer_def inspect_def fail_def ret_def split: prod.split sum.split)
  then have "payment_call till_orders [] till_open ?w'" by (metis called_back)
  then have "(payment_call till_orders [])\<^sup>*\<^sup>* till_open ?w'" by simp
  from payment_records_kept [OF till_books(1) this, THEN conjunct1] till_open_payment show ?thesis by fastforce
qed

text \<open>
  C17. Only the provider moves money: a callback that succeeds, or that changes anything, in
  the repository or at the order service, carries the HMAC of the payment number under the
  secret of the service.
\<close>

theorem callback_authentic:
  assumes "Payment_Callback orders secret no ref sig w = (res, w')"
    and "(\<exists>x. res = Inr x) \<or> pwRepo w' \<noteq> pwRepo w \<or> pwEnv w' \<noteq> pwEnv w"
  shows "TrimSpace sig = hmac_sha256_hex secret (TrimSpace no)"
  using assms by (auto simp: Payment_Callback_def Let_def fail_def Payment_sign_def split: if_splits)

theorem callback_authentic_witness:
  "fst (Payment_Callback till_orders ''k'' ''pay_01'' ''c1'' (Payment_sign ''k'' ''pay_01'') till_open) =
     Inr (paid ''c1'' 1000 till_payment, \<lparr>otOrderID = ''o1'', otStatus = ''paid'', otReused = False\<rparr>, False) \<and>
   TrimSpace (Payment_sign ''k'' ''pay_01'') = hmac_sha256_hex ''k'' (TrimSpace ''pay_01'')"
  using callback_authentic [OF till_settles [of "''k''"], OF disjI1, OF exI, OF refl] till_settles [of "''k''"]
  by (metis fst_conv)

lemma callback_found:
  assumes "TrimSpace no \<noteq> []" and "TrimSpace ref \<noteq> []" and "TrimSpace sig = Payment_sign secret (TrimSpace no)"
    and "prPayments (pwRepo w) (TrimSpace no) = Some p" and "pmStatus p = PaymentSucceeded"
  shows "Payment_Callback orders secret no ref sig w =
    (if pmCallbackRef p \<noteq> TrimSpace ref then (Inl Payment_ErrConflict, w)
     else and_then (pay_env (ord_ConfirmPayment orders (pmUserID p) (pmOrderID p) (pmPaymentNo p) (TrimSpace ref)))
       (\<lambda>t. ret (p, t, True)) w)"
  using assms
  by (simp add: Payment_Callback_def Let_def and_then_def pay_repo_def PaymentRepository_Get_def fail_def)

lemma callback_settles:
  assumes "Payment_Callback orders secret no ref sig w = (Inr (p, t, b), w')" and "books_ok (pwRepo w)"
  shows "TrimSpace no \<noteq> [] \<and> TrimSpace ref \<noteq> [] \<and> TrimSpace sig = Payment_sign secret (TrimSpace no) \<and>
    prPayments (pwRepo w') (TrimSpace no) = Some p \<and> pmStatus p = PaymentSucceeded \<and> pmCallbackRef p = TrimSpace ref"
proof -
  have pre: "TrimSpace no \<noteq> []" "TrimSpace ref \<noteq> []" "TrimSpace sig = Payment_sign secret (TrimSpace no)"
    using assms(1) by (auto simp: Payment_Callback_def Let_def fail_def split: if_splits)
  obtain q where q: "prPayments (pwRepo w) (TrimSpace no) = Some q"
    using assms(1) pre by (cases "prPayments (pwRepo w) (TrimSpace no)")
      (auto simp: Payment_Callback_def Let_def and_then_def pay_repo_def PaymentRepository_Get_def)
  show ?thesis
  proof (cases "pmStatus q = PaymentSucceeded")
    case True
    with callback_found [OF pre q True, of orders] assms(1) pre q show ?thesis
      by (auto simp: and_then_def pay_env_def ret_def split: if_splits prod.splits sum.splits)
  next
    case False
    obtain res r where mark: "MarkSucceeded (TrimSpace no) (TrimSpace ref) (shd (pwNow w)) (pwRepo w) = (res, r)"
      by fastforce
    then have "res = Inr (p, b) \<and> pwRepo w' = r"
      using assms(1) pre q False
      by (auto simp: Payment_Callback_def Let_def and_then_def pay_repo_def PaymentRepository_Get_def pay_now_def
          pay_env_def ret_def split: sum.splits prod.splits)
    with mark pre show ?thesis
      by (cases rule: MarkSucceeded_cases) auto
  qed
qed

text \<open>
  C18. A callback settles once. After a callback has succeeded, at any later time the same
  callback returns the same payment, marked as reused, or the error of the order service, and
  leaves the repository alone; the same payment with another reference is refused as a
  conflict and nothing happens, at the order service neither.
\<close>

theorem callback_settles_once:
  assumes "books_ok (pwRepo w)" and "Payment_Callback orders secret no ref sig w = (Inr (p, t, b), w1)"
    and "payment_step\<^sup>*\<^sup>* (pwRepo w1) (pwRepo w2)"
  shows "pwRepo (snd (Payment_Callback orders' secret no ref sig w2)) = pwRepo w2 \<and>
    (case ord_ConfirmPayment orders' (pmUserID p) (pmOrderID p) (pmPaymentNo p) (TrimSpace ref) (pwEnv w2) of
       (Inl e, _) \<Rightarrow> fst (Payment_Callback orders' secret no ref sig w2) = Inl e
     | (Inr t', _) \<Rightarrow> fst (Payment_Callback orders' secret no ref sig w2) = Inr (p, t', True)) \<and>
    (TrimSpace ref' \<noteq> [] \<longrightarrow> TrimSpace ref' \<noteq> TrimSpace ref \<longrightarrow>
       Payment_Callback orders' secret no ref' sig w2 = (Inl Payment_ErrConflict, w2))"
proof -
  note done1 = callback_settles [OF assms(2,1)]
  then have p: "prPayments (pwRepo w2) (TrimSpace no) = Some p" "pmStatus p = PaymentSucceeded"
    using retains_run [OF assms(3)] by (auto elim: retains_payment)
  show ?thesis
    using done1 callback_found [OF _ _ _ p, of ref sig secret orders'] callback_found [OF _ _ _ p, of ref' sig secret orders']
    by (auto simp: and_then_def pay_env_def ret_def split: prod.split sum.split)
qed

theorem callback_settles_once_witness:
  "Payment_Callback till_orders ''k'' ''pay_01'' ''o1'' (Payment_sign ''k'' ''pay_01'') till_paid =
     (Inl Payment_ErrConflict, till_paid)"
  using callback_settles_once [OF till_books(1) till_settles [of "''k''"], of till_paid till_orders "''o1''"] by simp

text \<open>
  C19. A refund happens once. Once an order has its refund, at any later time a refund request
  of that user, for an order the order service still shows to be hers, gets the same refund,
  marked as reused; the only call made is the reading of the order, and the repository stays.
\<close>

theorem refund_happens_once:
  assumes "books_ok r" and "prRefunds r n = Some f" and "payment_step\<^sup>*\<^sup>* r (pwRepo w)"
    and "TrimSpace reason \<noteq> []" and "rune_count (TrimSpace reason) \<le> 255" and "rfUserID f \<noteq> 0"
    and "rfOrderID f \<noteq> []"
    and "ord_Get orders (rfUserID f) (rfOrderID f) (pwEnv w) = (Inr order, e)" and "osUserID order = rfUserID f"
  shows "Payment_Refund orders (rfUserID f) (rfOrderID f) reason w =
    (Inr (f, \<lparr>otOrderID = rfOrderID f, otStatus = ''refunded'', otReused = True\<rparr>, True), w\<lparr>pwEnv := e\<rparr>)"
proof -
  have ok: "books_ok (pwRepo w)" using payments.inv_steps [OF assms(3,1)] .
  have "prRefunds (pwRepo w) n = Some f" using retains_run [OF assms(3)] assms(2) by (simp add: retains_def)
  with booksD(5) [OF ok this] assms(4-) show ?thesis
    by (simp add: Payment_Refund_def Let_def and_then_def pay_env_def pay_repo_def FindRefundByOrder_def
        read_refund_def ret_def)
qed

theorem refund_happens_once_witness:
  "Payment_Refund till_orders 3 ''o1'' ''c1'' till_refunded =
     (Inr (till_refund, \<lparr>otOrderID = ''o1'', otStatus = ''refunded'', otReused = True\<rparr>, True), till_refunded)"
proof -
  have f: "rfUserID till_refund = 3" "rfOrderID till_refund = ''o1''"
    by (simp_all add: till_refund_def new_refund_def)
  have "rune_count ''c1'' = 2" by (simp add: rune_count_def rune_count_bytes.simps)
  then show ?thesis
    using refund_happens_once [of "pwRepo till_refunded" "''ref_01''" till_refund till_refunded "''c1''" till_orders
        "\<lparr>osOrderID = ''o1'', osUserID = 3, osStatus = ''refunded'', osTotalAmountCents = 500\<rparr>" "''refunded''"]
      till_books(2) f
    by (simp add: till_refunded_def till_orders_def)
qed

section \<open>A callback after cancellation\<close>

text \<open>The order client of the payment service on the order service itself.\<close>

definition order_backend :: "'e dependencies \<Rightarrow> string \<Rightarrow> time \<Rightarrow> 'e world order_client" where
  "order_backend d secret now =
     (let ctx = (\<lambda>md. \<lparr>cxMetadata = Some md, cxSecret = secret, cxNow = now\<rparr>) in
      \<lparr>ord_Get = GRPCOrderClient_Get (Some (\<lambda>md. GRPCServer_Get (ctx md))) secret [] now,
       ord_ConfirmPayment =
         GRPCOrderClient_ConfirmPayment (Some (\<lambda>md. GRPCServer_ConfirmPayment d (ctx md))) secret [] now,
       ord_Refund = GRPCOrderClient_Refund (Some (\<lambda>md. GRPCServer_Refund d (ctx md))) secret [] now\<rparr>)"

text \<open>The status of an order that is neither paid nor on its way.\<close>

definition canceled_order :: "string \<Rightarrow> 'e world \<Rightarrow> bool" where
  "canceled_order k w \<longleftrightarrow> (\<exists>v. rpOrders (wRepo w) (TrimSpace k) = Some v \<and> oStatus v = StatusCanceled)"

lemma canceled_refuses:
  assumes "canceled_order k w"
  shows "\<exists>e. ord_ConfirmPayment (order_backend d secret now) u k p c w = (Inl e, w)"
    and "\<exists>e. ord_Refund (order_backend d secret now) u k p c w = (Inl e, w)"
    and "snd (ord_Get (order_backend d secret now) u k w) = w"
proof -
  obtain v where v: "rpOrders (wRepo w) (TrimSpace k) = Some v" "oStatus v = StatusCanceled"
    using assms by (auto simp: canceled_order_def)
  have "\<exists>e. ConfirmPayment d u k p c w = (Inl e, w)" "\<exists>e. Service_Refund d u k p c w = (Inl e, w)"
      "snd (Service_Get u k w) = w"
    using v by (auto simp: ConfirmPayment_def Service_Refund_def Service_Get_def and_then_def on_repo_def Repository_Get_def fail_def ret_def
        order_missing_def)
  then show "\<exists>e. ord_ConfirmPayment (order_backend d secret now) u k p c w = (Inl e, w)"
      "\<exists>e. ord_Refund (order_backend d secret now) u k p c w = (Inl e, w)"
      "snd (ord_Get (order_backend d secret now) u k w) = w"
    by (auto simp: order_backend_def Let_def GRPCOrderClient_ConfirmPayment_def GRPCOrderClient_Refund_def
        GRPCOrderClient_Get_def signed_call_def GRPCServer_ConfirmPayment_def GRPCServer_Refund_def
        GRPCServer_Get_def guarded_def answer_def inspect_def and_then_def of_result_def fail_def ret_def
        split: sum.split prod.split)
qed

text \<open>
  A payment that comes too late is kept and cannot be refunded. When the provider's
  callback arrives after the order was canceled (by its user, or because it expired), the
  payment is first marked as succeeded and then the order service refuses it: the call fails
  with the payment settled. From then on every refund request for that order fails as well,
  since the order service refuses to refund a canceled order, and no refund is recorded.
\<close>

lemma late_payment_is_stuck:
  assumes "prPayments (pwRepo w) no = Some p" and "pmStatus p = PaymentPending" and "prEventSink (pwRepo w) = None"
    and "prCallbacks (pwRepo w) ref = None" and "no \<noteq> []" and "TrimSpace no = no" and "ref \<noteq> []" and "TrimSpace ref = ref"
    and "prRefundByOrder (pwRepo w) (pmOrderID p) = None" and "canceled_order (pmOrderID p) (pwEnv w)"
  shows "\<exists>e w'. Payment_Callback (order_backend d secret now) key no ref (Payment_sign key no) w = (Inl e, w') \<and>
    prPayments (pwRepo w') no = Some (paid ref (shd (pwNow w)) p) \<and> pwEnv w' = pwEnv w \<and>
    (\<forall>uid reason. \<exists>e' w''. Payment_Refund (order_backend d secret now) uid (pmOrderID p) reason w' = (Inl e', w'') \<and>
       pwRepo w'' = pwRepo w')"
proof -
  let ?o = "order_backend d secret now"
  let ?r = "(pwRepo w)\<lparr>prPayments := (prPayments (pwRepo w))(no \<mapsto> paid ref (shd (pwNow w)) p),
    prCallbacks := (prCallbacks (pwRepo w))(ref \<mapsto> no)\<rparr>"
  define w1 where "w1 = w\<lparr>pwRepo := ?r, pwNow := stl (pwNow w)\<rparr>"
  obtain e where confirm: "ord_ConfirmPayment ?o (pmUserID p) (pmOrderID p) (pmPaymentNo p) ref (pwEnv w) = (Inl e, pwEnv w)"
    using canceled_refuses(1) [OF assms(10)] by blast
  have "MarkSucceeded no ref (shd (pwNow w)) (pwRepo w) = (Inr (paid ref (shd (pwNow w)) p, False), ?r)"
    using assms(1-4) by (simp add: MarkSucceeded_def and_then_def Payment_emit_def append_to_sink_def)
  then have "Payment_Callback ?o key no ref (Payment_sign key no) w = (Inl e, w1)"
    using assms(1,2,5-8) confirm
    by (simp add: Payment_Callback_def Let_def and_then_def pay_repo_def PaymentRepository_Get_def pay_now_def
        pay_env_def w1_def)
  moreover have "\<exists>e' w''. Payment_Refund ?o uid (pmOrderID p) reason w1 = (Inl e', w'') \<and> pwRepo w'' = pwRepo w1"
    for uid reason
  proof -
    obtain got where "ord_Get ?o uid (pmOrderID p) (pwEnv w) = (got, pwEnv w)"
      using canceled_refuses(3) [OF assms(10), of d secret now uid] by (metis prod.collapse)
    moreover obtain e2 where "\<And>n c. ord_Refund ?o uid (pmOrderID p) n c (pwEnv w) = (Inl (e2 n c), pwEnv w)"
      using canceled_refuses(2) [OF assms(10), of d secret now uid] by metis
    ultimately show ?thesis
      using assms(9)
      by (auto simp: Payment_Refund_def Let_def and_then_def pay_env_def pay_repo_def FindRefundByOrder_def
          FindSucceededPayment_def randomID_def fail_def w1_def split: sum.split option.split if_split)
  qed
  ultimately show ?thesis by (auto simp: w1_def)
qed

text \<open>The till of the example, with the order service holding o1 as canceled.\<close>

definition idle_dependencies :: "unit dependencies" where
  "idle_dependencies = \<lparr>GetSKUSnapshot = \<lambda>_. fail ContextCanceled, GetAddressSnapshot = \<lambda>_ _. fail ContextCanceled,
     inv_Reserve = \<lambda>_. fail ContextCanceled, inv_AdmitSeckill = \<lambda>_. fail ContextCanceled,
     inv_Confirm = \<lambda>_ _. fail ContextCanceled, inv_Release = \<lambda>_ _. fail ContextCanceled,
     inv_Restock = \<lambda>_ _. fail ContextCanceled, orderTTL = Second\<rparr>"

definition closed_orders :: "unit world" where
  "closed_orders = \<lparr>wRepo = NewMemoryRepository\<lparr>rpOrders := [''o1'' \<mapsto> zero_order\<lparr>oOrderID := ''o1'',
     oStatus := StatusCanceled\<rparr>]\<rparr>, wEnv = (), wNow = sconst 0\<rparr>"

definition late_till :: "unit world payment_world" where
  "late_till = \<lparr>pwRepo = pwRepo till_open, pwEnv = closed_orders, pwNow = sconst 1000, pwRandom = sconst (Inr [1])\<rparr>"

lemma late_payment_is_stuck_example:
  "\<exists>e w'. Payment_Callback (order_backend idle_dependencies ''s'' 0) ''k'' ''pay_01'' ''c1''
       (Payment_sign ''k'' ''pay_01'') late_till = (Inl e, w') \<and>
     prPayments (pwRepo w') ''pay_01'' = Some (paid ''c1'' 1000 till_payment) \<and>
     (\<exists>e' w''. Payment_Refund (order_backend idle_dependencies ''s'' 0) 3 ''o1'' ''late'' w' = (Inl e', w'') \<and>
        pwRepo w'' = pwRepo w')"
proof -
  have "canceled_order ''o1'' closed_orders" by (simp add: canceled_order_def closed_orders_def)
  moreover have "prEventSink (pwRepo till_open) = None" "prCallbacks (pwRepo till_open) ''c1'' = None"
      "prRefundByOrder (pwRepo till_open) ''o1'' = None"
    by (simp_all add: till_open_def NewPaymentRepository_def)
  ultimately show ?thesis
    using late_payment_is_stuck [of late_till "''pay_01''" till_payment "''c1''" idle_dependencies "''s''" 0 "''k''"]
      till_open_payment by (auto simp: late_till_def)
qed

end
