(* ===== verification/Fulfillment_Model.thy ===== *)
theory Fulfillment_Model
  imports Order_Client
begin

text \<open>
  services/fulfillment/internal/app: shipments (model.go, repository.go, memory_repository.go),
  the service (service.go), its client of the order service (order_client.go), the gRPC server
  (server.go) and the event handler (events.go).
\<close>

section \<open>Data\<close>

definition ShipmentShipped :: string where [const_defs]: "ShipmentShipped = ''shipped''"
definition ShipmentReceived :: string where [const_defs]: "ShipmentReceived = ''received''"

record Shipment =
  smID :: uint64
  smOrderID :: string
  smCarrier :: string
  smTrackingNo :: string
  smStatus :: string
  smShippedAt :: time
  smDeliveredAt :: time
  smCreatedAt :: time
  smUpdatedAt :: time

definition PublicID :: "Shipment \<Rightarrow> string" where
  "PublicID v = ''ship_'' @ fmt_uint (smID v)"

definition Shipment_ErrInvalidRequest :: go_error where
  "Shipment_ErrInvalidRequest = ErrorText ''fulfillment request is invalid''"
definition Shipment_ErrNotFound :: go_error where
  "Shipment_ErrNotFound = ErrorText ''shipment not found''"
definition Shipment_ErrConflict :: go_error where
  "Shipment_ErrConflict = ErrorText ''shipment conflicts''"

section \<open>Repository\<close>

record ShipmentRepository =
  srNextID :: uint64
  srShipments :: "string \<rightharpoonup> Shipment"
  srTracking :: "string \<rightharpoonup> string"
  srEventSink :: "MessageStore option"

definition NewShipmentRepository :: ShipmentRepository where
  "NewShipmentRepository =
     \<lparr>srNextID = 1, srShipments = Map.empty, srTracking = Map.empty, srEventSink = None\<rparr>"

definition Shipment_SetEventSink :: "MessageStore \<Rightarrow> ShipmentRepository \<Rightarrow> ShipmentRepository" where
  "Shipment_SetEventSink sink r = r\<lparr>srEventSink := Some sink\<rparr>"

definition trackingKey :: "string \<Rightarrow> string \<Rightarrow> string" where
  "trackingKey carrier number = carrier @ '':'' @ number"

definition shipmentEvent :: "string \<Rightarrow> string \<Rightarrow> Shipment \<Rightarrow> time \<Rightarrow> EventEnvelope result" where
  "shipmentEvent eventID eventType v now =
     NewEvent eventID eventType ''order'' (smOrderID v)
       (marshal_Shipment \<lparr>shpOrderID = smOrderID v, shpCarrier = smCarrier v,
          shpTrackingNo = smTrackingNo v, shpStatus = smStatus v\<rparr>) now"

definition Shipment_emit :: "EventEnvelope result \<Rightarrow> (ShipmentRepository, unit) go" where
  "Shipment_emit ev r =
     (case append_to_sink ev (srEventSink r) of (res, sink) \<Rightarrow> (res, r\<lparr>srEventSink := sink\<rparr>))"

definition ShipmentRepository_Create :: "Shipment \<Rightarrow> (ShipmentRepository, Shipment \<times> bool) go" where
  "ShipmentRepository_Create v r =
     (case srShipments r (smOrderID v) of
        Some existing \<Rightarrow>
          (if smCarrier existing \<noteq> smCarrier v \<or> smTrackingNo existing \<noteq> smTrackingNo v
           then (Inl Shipment_ErrConflict, r) else (Inr (existing, True), r))
      | None \<Rightarrow>
          (let key = trackingKey (smCarrier v) (smTrackingNo v) in
           if (case srTracking r key of None \<Rightarrow> False | Some owner \<Rightarrow> owner \<noteq> smOrderID v)
           then (Inl Shipment_ErrConflict, r)
           else and_then (Shipment_emit (shipmentEvent (''shipment.created:'' @ smOrderID v)
               EventShipmentCreated v (smCreatedAt v))) (\<lambda>_ r.
             (Inr (v\<lparr>smID := srNextID r\<rparr>, False),
              r\<lparr>srNextID := srNextID r + 1,
                srShipments := (srShipments r)(smOrderID v \<mapsto> v\<lparr>smID := srNextID r\<rparr>),
                srTracking := (srTracking r)(key \<mapsto> smOrderID v)\<rparr>)) r))"

definition ShipmentRepository_Get :: "string \<Rightarrow> (ShipmentRepository, Shipment) go" where
  "ShipmentRepository_Get orderID r =
     (case srShipments r orderID of None \<Rightarrow> (Inl Shipment_ErrNotFound, r) | Some v \<Rightarrow> (Inr v, r))"

definition received :: "time \<Rightarrow> Shipment \<Rightarrow> Shipment" where
  "received now v = v\<lparr>smStatus := ShipmentReceived, smDeliveredAt := now, smUpdatedAt := now\<rparr>"

definition MarkReceived :: "string \<Rightarrow> time \<Rightarrow> (ShipmentRepository, Shipment \<times> bool) go" where
  "MarkReceived orderID now r =
     (case srShipments r orderID of
        None \<Rightarrow> (Inl Shipment_ErrNotFound, r)
      | Some v \<Rightarrow>
          (if smStatus v = ShipmentReceived then (Inr (v, True), r)
           else and_then (Shipment_emit (shipmentEvent (''shipment.delivered:'' @ smOrderID v)
               EventShipmentDelivered (received now v) now)) (\<lambda>_ r.
             (Inr (received now v, False),
              r\<lparr>srShipments := (srShipments r)(orderID \<mapsto> received now v)\<rparr>)) r))"

section \<open>The client of the order service (order_client.go)\<close>

record 'e shipping_client =
  shc_Get :: "uint64 \<Rightarrow> string \<Rightarrow> ('e, unit) go"
  shc_Ship :: "uint64 \<Rightarrow> string \<Rightarrow> string \<Rightarrow> string \<Rightarrow> ('e, OrderTransition) go"
  shc_ConfirmReceipt :: "uint64 \<Rightarrow> string \<Rightarrow> ('e, OrderTransition) go"

definition ShippingClient_Get ::
  "(metadata \<Rightarrow> (uint64 \<times> string) option \<Rightarrow> ('e, OrderGetResponse) go) option \<Rightarrow> string \<Rightarrow> metadata \<Rightarrow>
   time \<Rightarrow> uint64 \<Rightarrow> string \<Rightarrow> ('e, unit) go" where
  "ShippingClient_Get client secret md now userID orderID =
     signed_call client (AppendUser md secret (order_method ''Get'') userID now) (Some (userID, orderID)) (\<lambda>_. ())"

definition ShippingClient_Ship ::
  "(metadata \<Rightarrow> (uint64 \<times> string \<times> string \<times> string) option \<Rightarrow> ('e, OrderTransitionResponse) go) option \<Rightarrow>
   string \<Rightarrow> metadata \<Rightarrow> time \<Rightarrow> uint64 \<Rightarrow> string \<Rightarrow> string \<Rightarrow> string \<Rightarrow> ('e, OrderTransition) go" where
  "ShippingClient_Ship client secret md now actorID orderID carrier trackingNo =
     signed_call client (AppendRole md secret (order_method ''Ship'') actorID ''admin'' now)
       (Some (actorID, orderID, carrier, trackingNo)) transition_of"

definition ShippingClient_ConfirmReceipt ::
  "(metadata \<Rightarrow> (uint64 \<times> string) option \<Rightarrow> ('e, OrderTransitionResponse) go) option \<Rightarrow> string \<Rightarrow> metadata \<Rightarrow>
   time \<Rightarrow> uint64 \<Rightarrow> string \<Rightarrow> ('e, OrderTransition) go" where
  "ShippingClient_ConfirmReceipt client secret md now userID orderID =
     signed_call client (AppendUser md secret (order_method ''ConfirmReceipt'') userID now)
       (Some (userID, orderID)) transition_of"

section \<open>Service (service.go)\<close>

record 'e shipping_world =
  swRepo :: ShipmentRepository
  swEnv :: 'e
  swNow :: clock

definition ship_repo :: "(ShipmentRepository, 'a) go \<Rightarrow> ('e shipping_world, 'a) go" where
  "ship_repo m w = (case m (swRepo w) of (res, r) \<Rightarrow> (res, w\<lparr>swRepo := r\<rparr>))"

definition ship_env :: "('e, 'a) go \<Rightarrow> ('e shipping_world, 'a) go" where
  "ship_env m w = (case m (swEnv w) of (res, e) \<Rightarrow> (res, w\<lparr>swEnv := e\<rparr>))"

definition ship_now :: "('e shipping_world, time) go" where
  "ship_now w = (Inr (shd (swNow w)), w\<lparr>swNow := stl (swNow w)\<rparr>)"

definition new_shipment :: "string \<Rightarrow> string \<Rightarrow> string \<Rightarrow> time \<Rightarrow> Shipment" where
  "new_shipment orderID carrier trackingNo now =
     \<lparr>smID = 0, smOrderID = orderID, smCarrier = carrier, smTrackingNo = trackingNo,
      smStatus = ShipmentShipped, smShippedAt = now, smDeliveredAt = zero_time, smCreatedAt = now,
      smUpdatedAt = now\<rparr>"

definition Fulfillment_Ship ::
  "'e shipping_client \<Rightarrow> uint64 \<Rightarrow> string \<Rightarrow> string \<Rightarrow> string \<Rightarrow>
   ('e shipping_world, Shipment \<times> OrderTransition \<times> bool) go" where
  "Fulfillment_Ship orders actorID orderID' carrier' trackingNo' =
     (let orderID = TrimSpace orderID'; carrier = TrimSpace carrier'; trackingNo = TrimSpace trackingNo' in
      if actorID = 0 \<or> orderID = [] \<or> carrier = [] \<or> trackingNo = [] \<or> length carrier > 64 \<or> length trackingNo > 128
      then fail Shipment_ErrInvalidRequest
      else inspect (ship_repo (ShipmentRepository_Get orderID)) (\<lambda>found.
        let ship = ship_env (shc_Ship orders actorID orderID carrier trackingNo) in
        case found of
          Inr existing \<Rightarrow>
            (if smCarrier existing \<noteq> carrier \<or> smTrackingNo existing \<noteq> trackingNo then fail Shipment_ErrConflict
             else and_then ship (\<lambda>transition. ret (existing, transition, True)))
        | Inl err \<Rightarrow>
            (if \<not> errors_is err Shipment_ErrNotFound then fail err
             else and_then ship_now (\<lambda>now.
               and_then (ship_repo (ShipmentRepository_Create (new_shipment orderID carrier trackingNo now)))
                 (\<lambda>(v, reused). and_then ship (\<lambda>transition. ret (v, transition, reused)))))))"

definition Fulfillment_ConfirmReceipt ::
  "'e shipping_client \<Rightarrow> uint64 \<Rightarrow> string \<Rightarrow> ('e shipping_world, Shipment \<times> OrderTransition \<times> bool) go" where
  "Fulfillment_ConfirmReceipt orders userID orderID' =
     (let orderID = TrimSpace orderID' in
      if userID = 0 \<or> orderID = [] then fail Shipment_ErrInvalidRequest
      else and_then (ship_env (shc_Get orders userID orderID)) (\<lambda>_.
        and_then (ship_env (shc_ConfirmReceipt orders userID orderID)) (\<lambda>transition.
        and_then ship_now (\<lambda>now.
        and_then (ship_repo (MarkReceived orderID now)) (\<lambda>(v, reused). ret (v, transition, reused))))))"

definition Fulfillment_Get :: "'e shipping_client \<Rightarrow> uint64 \<Rightarrow> string \<Rightarrow> ('e shipping_world, Shipment) go" where
  "Fulfillment_Get orders userID orderID' =
     (let orderID = TrimSpace orderID' in
      if userID = 0 \<or> orderID = [] then fail Shipment_ErrInvalidRequest
      else and_then (ship_env (shc_Get orders userID orderID)) (\<lambda>_.
        ship_repo (ShipmentRepository_Get orderID)))"

section \<open>Server (server.go) and events (events.go)\<close>

definition shipping_method :: "string \<Rightarrow> string" where
  "shipping_method name = ''/commerce.fulfillment.v1.FulfillmentService/'' @ name"

record FulfillmentShipResponse =
  fsrShipmentId :: string
  fsrStatus :: string
  fsrOrderId :: string
  fsrCarrier :: string
  fsrTrackingNo :: string
  fsrOrderStatus :: string
  fsrReused :: bool

definition shipment_response :: "Shipment \<Rightarrow> OrderTransition \<Rightarrow> bool \<Rightarrow> FulfillmentShipResponse" where
  "shipment_response v transition reused =
     \<lparr>fsrShipmentId = PublicID v, fsrStatus = smStatus v, fsrOrderId = smOrderID v, fsrCarrier = smCarrier v,
      fsrTrackingNo = smTrackingNo v, fsrOrderStatus = otStatus transition, fsrReused = reused\<rparr>"

definition Fulfillment_mapError :: "go_error \<Rightarrow> go_error" where
  "Fulfillment_mapError err =
     (if errors_is err Shipment_ErrInvalidRequest then StatusError InvalidArgument ''fulfillment request invalid''
      else if errors_is err Shipment_ErrNotFound then StatusError NotFound ''shipment does not exist''
      else if errors_is err Shipment_ErrConflict then StatusError Aborted ''shipment conflicts''
      else if status_code err \<noteq> Unknown then err
      else StatusError Internal ''fulfillment service temporarily unavailable'')"

definition shipping_answer :: "('w, 'a) go \<Rightarrow> ('a \<Rightarrow> 'b) \<Rightarrow> ('w, 'b) go" where
  "shipping_answer m reply =
     inspect m (\<lambda>res. case res of Inl err \<Rightarrow> fail (Fulfillment_mapError err) | Inr v \<Rightarrow> ret (reply v))"

definition FulfillmentServer_Ship ::
  "'e shipping_client \<Rightarrow> call_context \<Rightarrow> (uint64 \<times> string \<times> string \<times> string) option \<Rightarrow>
   ('e shipping_world, FulfillmentShipResponse) go" where
  "FulfillmentServer_Ship orders ctx req =
     (case req of None \<Rightarrow> fail empty_request
      | Some (actorId, orderId, carrier, trackingNo) \<Rightarrow>
          guarded (AuthorizeRole (cxMetadata ctx) (cxSecret ctx) (shipping_method ''Ship'') actorId ''admin'' (cxNow ctx))
            (shipping_answer (Fulfillment_Ship orders actorId orderId carrier trackingNo)
              (\<lambda>(v, transition, reused). shipment_response v transition reused)))"

definition FulfillmentServer_ConfirmReceipt ::
  "'e shipping_client \<Rightarrow> call_context \<Rightarrow> (uint64 \<times> string) option \<Rightarrow>
   ('e shipping_world, FulfillmentShipResponse) go" where
  "FulfillmentServer_ConfirmReceipt orders ctx req =
     (case req of None \<Rightarrow> fail empty_request
      | Some (userId, orderId) \<Rightarrow>
          guarded (AuthorizeUser (cxMetadata ctx) (cxSecret ctx) (shipping_method ''ConfirmReceipt'') userId (cxNow ctx))
            (shipping_answer (Fulfillment_ConfirmReceipt orders userId orderId)
              (\<lambda>(v, transition, reused). shipment_response v transition reused)))"

definition FulfillmentServer_Get ::
  "'e shipping_client \<Rightarrow> call_context \<Rightarrow> (uint64 \<times> string) option \<Rightarrow>
   ('e shipping_world, FulfillmentShipResponse) go" where
  "FulfillmentServer_Get orders ctx req =
     (case req of None \<Rightarrow> fail empty_request
      | Some (userId, orderId) \<Rightarrow>
          guarded (AuthorizeUser (cxMetadata ctx) (cxSecret ctx) (shipping_method ''Get'') userId (cxNow ctx))
            (shipping_answer (Fulfillment_Get orders userId orderId)
              (\<lambda>v. shipment_response v \<lparr>otOrderID = smOrderID v, otStatus = [], otReused = False\<rparr> False)))"

definition Fulfillment_paymentSucceeded :: "EventEnvelope \<Rightarrow> ('w, unit) go" where
  "Fulfillment_paymentSucceeded event =
     and_then (of_result (ValidateEventPayload event)) (\<lambda>_.
     and_then (of_result (unmarshal_PaymentSucceeded (ePayload event))) (\<lambda>_. ret ()))"

definition Fulfillment_Handlers :: "string \<Rightarrow> (EventEnvelope \<Rightarrow> ('w, unit) go) option" where
  "Fulfillment_Handlers t = (if t = EventPaymentSucceeded then Some Fulfillment_paymentSucceeded else None)"

end
