(* ===== verification/Fulfillment_Properties.thy ===== *)
theory Fulfillment_Properties
  imports Fulfillment_Model Order_History
begin

text \<open>
  Shipments: one per order and one per tracking number, recorded facts that do not change,
  agreement with the order service when a call succeeds, and what a call leaves behind when
  the order service refuses it.
\<close>

section \<open>Steps of the repository\<close>

inductive shipment_step :: "ShipmentRepository \<Rightarrow> ShipmentRepository \<Rightarrow> bool" where
  sends: "shipment_step r (snd (ShipmentRepository_Create v r))" if "smStatus v = ShipmentShipped"
| delivers: "shipment_step r (snd (MarkReceived k now r))"

inductive_cases shipment_stepE: "shipment_step r r'"

definition fresh_shipments :: "ShipmentRepository \<Rightarrow> bool" where
  "fresh_shipments r \<longleftrightarrow>
     r = NewShipmentRepository \<or> (\<exists>sink. r = Shipment_SetEventSink sink NewShipmentRepository)"

definition shipments_ok :: "ShipmentRepository \<Rightarrow> bool" where
  "shipments_ok r \<longleftrightarrow>
     (\<forall>k v. srShipments r k = Some v \<longrightarrow>
        smOrderID v = k \<and> srTracking r (trackingKey (smCarrier v) (smTrackingNo v)) = Some k \<and>
        (smStatus v = ShipmentShipped \<or> smStatus v = ShipmentReceived))"

lemma shipment_status_distinct [simp]: "ShipmentShipped \<noteq> ShipmentReceived" "ShipmentReceived \<noteq> ShipmentShipped"
  by (simp_all add: const_defs)

lemma received_sel [simp]:
  "smOrderID (received t v) = smOrderID v" "smCarrier (received t v) = smCarrier v" "smID (received t v) = smID v"
  "smTrackingNo (received t v) = smTrackingNo v" "smStatus (received t v) = ShipmentReceived"
  by (simp_all add: received_def)

lemma Shipment_emit_sink: "Shipment_emit ev r = (res, r') \<Longrightarrow> \<exists>sink. r' = r\<lparr>srEventSink := sink\<rparr>"
  by (auto simp: Shipment_emit_def split: prod.splits)

lemma ShipmentRepository_Create_cases:
  assumes "ShipmentRepository_Create v r = (res, r')"
  obtains (kept) sink where "r' = r\<lparr>srEventSink := sink\<rparr>" and "\<forall>u b. res = Inr (u, b) \<longrightarrow>
      b \<and> r' = r \<and> srShipments r (smOrderID v) = Some u \<and> smCarrier u = smCarrier v \<and> smTrackingNo u = smTrackingNo v"
  | (sent) sink where "srShipments r (smOrderID v) = None"
      and "srTracking r (trackingKey (smCarrier v) (smTrackingNo v)) \<in> {None, Some (smOrderID v)}"
      and "res = Inr (v\<lparr>smID := srNextID r\<rparr>, False)"
      and "r' = r\<lparr>srEventSink := sink, srNextID := srNextID r + 1,
        srShipments := (srShipments r)(smOrderID v \<mapsto> v\<lparr>smID := srNextID r\<rparr>),
        srTracking := (srTracking r)(trackingKey (smCarrier v) (smTrackingNo v) \<mapsto> smOrderID v)\<rparr>"
proof (cases "srShipments r (smOrderID v) = None \<and>
    srTracking r (trackingKey (smCarrier v) (smTrackingNo v)) \<in> {None, Some (smOrderID v)}")
  case True
  obtain e r1 where em: "Shipment_emit (shipmentEvent (''shipment.created:'' @ smOrderID v)
      EventShipmentCreated v (smCreatedAt v)) r = (e, r1)" by fastforce
  then obtain sink where r1: "r1 = r\<lparr>srEventSink := sink\<rparr>" using Shipment_emit_sink [OF em] by blast
  show thesis
  proof (cases e)
    case (Inl err)
    with assms True em r1 show thesis
      by (intro kept [of sink]) (auto simp: ShipmentRepository_Create_def Let_def and_then_def split: option.splits)
  next
    case (Inr u)
    with assms True em r1 show thesis
      by (intro sent [of sink]) (auto simp: ShipmentRepository_Create_def Let_def and_then_def split: option.splits)
  qed
next
  case False
  with assms show thesis
    by (intro kept [of "srEventSink r"])
      (auto simp: ShipmentRepository_Create_def Let_def split: option.splits if_splits)
qed

lemma MarkReceived_cases:
  assumes "MarkReceived k now r = (res, r')"
  obtains (kept) sink where "r' = r\<lparr>srEventSink := sink\<rparr>" and "\<forall>u b. res = Inr (u, b) \<longrightarrow>
      b \<and> r' = r \<and> srShipments r k = Some u \<and> smStatus u = ShipmentReceived"
  | (arrived) v sink where "srShipments r k = Some v" and "smStatus v \<noteq> ShipmentReceived"
      and "res = Inr (received now v, False)"
      and "r' = r\<lparr>srEventSink := sink, srShipments := (srShipments r)(k \<mapsto> received now v)\<rparr>"
proof (cases "\<exists>v. srShipments r k = Some v \<and> smStatus v \<noteq> ShipmentReceived")
  case True
  then obtain v where v: "srShipments r k = Some v" "smStatus v \<noteq> ShipmentReceived" by blast
  obtain e r1 where em: "Shipment_emit (shipmentEvent (''shipment.delivered:'' @ smOrderID v)
      EventShipmentDelivered (received now v) now) r = (e, r1)" by fastforce
  then obtain sink where r1: "r1 = r\<lparr>srEventSink := sink\<rparr>" using Shipment_emit_sink [OF em] by blast
  show thesis
  proof (cases e)
    case (Inl err)
    with assms v em r1 show thesis
      by (intro kept [of sink]) (auto simp: MarkReceived_def and_then_def)
  next
    case (Inr u)
    with assms v em r1 show thesis
      by (intro arrived [of v sink]) (auto simp: MarkReceived_def and_then_def)
  qed
next
  case False
  with assms show thesis
    by (intro kept [of "srEventSink r"]) (auto simp: MarkReceived_def split: option.splits if_splits)
qed

lemma shipments_send:
  assumes "shipments_ok r" and "smStatus v = ShipmentShipped"
  shows "shipments_ok (snd (ShipmentRepository_Create v r))"
proof (cases "ShipmentRepository_Create v r")
  case (Pair res r')
  then show ?thesis
  proof (cases rule: ShipmentRepository_Create_cases)
    case (kept sink)
    with assms Pair show ?thesis by (simp add: shipments_ok_def)
  next
    case (sent sink)
    have "srTracking r (trackingKey (smCarrier u) (smTrackingNo u)) = Some k"
      if "srShipments r k = Some u" for k u using assms(1) that by (simp add: shipments_ok_def)
    with assms Pair sent show ?thesis by (fastforce simp: shipments_ok_def)
  qed
qed

lemma shipments_deliver:
  assumes "shipments_ok r"
  shows "shipments_ok (snd (MarkReceived k now r))"
proof (cases "MarkReceived k now r")
  case (Pair res r')
  then show ?thesis
    by (cases rule: MarkReceived_cases) (use assms Pair in \<open>auto simp: shipments_ok_def\<close>)
qed

interpretation shipments: state_machine fresh_shipments shipment_step shipments_ok
proof
  show "fresh_shipments r \<Longrightarrow> shipments_ok r" for r
    by (auto simp: fresh_shipments_def NewShipmentRepository_def Shipment_SetEventSink_def shipments_ok_def)
  show "shipments_ok r \<Longrightarrow> shipment_step r r' \<Longrightarrow> shipments_ok r'" for r r'
    by (erule shipment_stepE) (auto intro: shipments_send shipments_deliver)
qed

text \<open>What a step keeps of a shipment.\<close>

definition ships_on :: "string \<Rightarrow> Shipment \<Rightarrow> ShipmentRepository \<Rightarrow> bool" where
  "ships_on k v r \<longleftrightarrow>
     (\<exists>u. srShipments r k = Some u \<and> (u = v \<or> smStatus v \<noteq> ShipmentReceived \<and> (\<exists>t. u = received t v)))"

lemma ships_on_step:
  assumes "ships_on k v r" and "shipment_step r r'"
  shows "ships_on k v r'"
  using assms(2)
proof cases
  case (sends x)
  obtain res where "ShipmentRepository_Create x r = (res, r')" using sends by (metis prod.collapse)
  then show ?thesis
    by (cases rule: ShipmentRepository_Create_cases) (use assms(1) in \<open>auto simp: ships_on_def\<close>)
next
  case (delivers j now)
  obtain res where "MarkReceived j now r = (res, r')" using delivers by (metis prod.collapse)
  then show ?thesis
    by (cases rule: MarkReceived_cases) (use assms(1) in \<open>auto simp: ships_on_def\<close>)
qed

lemma ships_on_run: "shipment_step\<^sup>*\<^sup>* r r' \<Longrightarrow> ships_on k v r \<Longrightarrow> ships_on k v r'"
  by (induction rule: rtranclp_induct) (auto intro: ships_on_step)

section \<open>Steps of the service\<close>

inductive shipping_call :: "'e shipping_client \<Rightarrow> 'e shipping_world \<Rightarrow> 'e shipping_world \<Rightarrow> bool" for orders where
  ships: "shipping_call orders w (snd (FulfillmentServer_Ship orders ctx req w))"
| confirms: "shipping_call orders w (snd (FulfillmentServer_ConfirmReceipt orders ctx rec w))"
| shows_shipment: "shipping_call orders w (snd (FulfillmentServer_Get orders ctx rec w))"
| hears_payment: "shipping_call orders w (snd (h event w))" if "Fulfillment_Handlers t = Some h"

lemma served_snd:
  "snd (guarded auth (shipping_answer m reply) w) = w \<or> snd (guarded auth (shipping_answer m reply) w) = snd (m w)"
  by (auto simp: guarded_def shipping_answer_def and_then_def of_result_def inspect_def fail_def ret_def
      split: sum.split prod.split)

lemma Fulfillment_Ship_steps: "shipment_step\<^sup>*\<^sup>* (swRepo w) (swRepo (snd (Fulfillment_Ship orders a k c t w)))"
proof -
  let ?r' = "swRepo (snd (Fulfillment_Ship orders a k c t w))"
  have "?r' = swRepo w \<or> (\<exists>now. ?r' = snd (ShipmentRepository_Create
      (new_shipment (TrimSpace k) (TrimSpace c) (TrimSpace t) now) (swRepo w)))"
    by (auto simp: Fulfillment_Ship_def Let_def inspect_def and_then_def ship_env_def ship_now_def ship_repo_def
        ShipmentRepository_Get_def fail_def ret_def split: prod.split sum.split option.split) (metis snd_conv)+
  then show ?thesis
  proof
    assume "\<exists>now. ?r' = snd (ShipmentRepository_Create
      (new_shipment (TrimSpace k) (TrimSpace c) (TrimSpace t) now) (swRepo w))"
    then obtain v where "?r' = snd (ShipmentRepository_Create v (swRepo w))" "smStatus v = ShipmentShipped"
      by (auto simp: new_shipment_def)
    then show ?thesis by (metis sends r_into_rtranclp)
  qed simp
qed

lemma Fulfillment_ConfirmReceipt_steps:
  "shipment_step\<^sup>*\<^sup>* (swRepo w) (swRepo (snd (Fulfillment_ConfirmReceipt orders u k w)))"
proof -
  let ?r' = "swRepo (snd (Fulfillment_ConfirmReceipt orders u k w))"
  have "?r' = swRepo w \<or> (\<exists>now. ?r' = snd (MarkReceived (TrimSpace k) now (swRepo w)))"
    by (auto simp: Fulfillment_ConfirmReceipt_def Let_def and_then_def ship_env_def ship_now_def ship_repo_def
        fail_def ret_def split: prod.split sum.split) (metis snd_conv)+
  then show ?thesis by (metis delivers r_into_rtranclp rtranclp.rtrancl_refl)
qed

lemma Fulfillment_Get_keeps: "swRepo (snd (Fulfillment_Get orders u k w)) = swRepo w"
  by (auto simp: Fulfillment_Get_def Let_def and_then_def ship_env_def ship_repo_def ShipmentRepository_Get_def
      fail_def split: prod.split sum.split option.split)

lemma served_steps:
  assumes "shipment_step\<^sup>*\<^sup>* (swRepo w) (swRepo (snd (m w)))"
  shows "shipment_step\<^sup>*\<^sup>* (swRepo w) (swRepo (snd (guarded auth (shipping_answer m reply) w)))"
  using served_snd [of auth m reply w] assms by auto

lemma shipping_call_steps:
  assumes "shipping_call orders w w'"
  shows "shipment_step\<^sup>*\<^sup>* (swRepo w) (swRepo w')"
  using assms
proof cases
  case (ships ctx req)
  then show ?thesis
    by (auto simp: FulfillmentServer_Ship_def fail_def split: option.split
        intro: served_steps Fulfillment_Ship_steps)
next
  case (confirms ctx req)
  then show ?thesis
    by (auto simp: FulfillmentServer_ConfirmReceipt_def fail_def split: option.split
        intro: served_steps Fulfillment_ConfirmReceipt_steps)
next
  case (shows_shipment ctx req)
  then show ?thesis
    by (auto simp: FulfillmentServer_Get_def fail_def Fulfillment_Get_keeps split: option.split
        intro: served_steps)
next
  case (hears_payment t h event)
  then show ?thesis
    by (auto simp: Fulfillment_Handlers_def Fulfillment_paymentSucceeded_def and_then_def of_result_def ret_def
        split: if_splits sum.split)
qed

lemma shipping_run_steps: "(shipping_call orders)\<^sup>*\<^sup>* w w' \<Longrightarrow> shipment_step\<^sup>*\<^sup>* (swRepo w) (swRepo w')"
  by (induction rule: rtranclp_induct) (auto dest: shipping_call_steps)

section \<open>Properties\<close>

text \<open>
  C20. One shipment per order and one order per tracking number: after any sequence of calls, a
  carrier's tracking number is used by one order only, and a recorded shipment keeps its
  identifier, order, carrier and tracking number, its status changes at most once, from
  shipped to received, and then stays.
\<close>

theorem shipments_unique_and_kept:
  assumes "fresh_shipments (swRepo w)" and "(shipping_call orders)\<^sup>*\<^sup>* w w1" and "(shipping_call orders)\<^sup>*\<^sup>* w1 w2"
    and "srShipments (swRepo w1) k = Some v"
  shows "(\<exists>u. srShipments (swRepo w2) k = Some u \<and> smID u = smID v \<and> smOrderID u = k \<and> smCarrier u = smCarrier v \<and>
      smTrackingNo u = smTrackingNo v \<and> (smStatus v = ShipmentReceived \<longrightarrow> u = v)) \<and>
    (\<forall>j x. srShipments (swRepo w2) j = Some x \<longrightarrow> smCarrier x = smCarrier v \<longrightarrow> smTrackingNo x = smTrackingNo v \<longrightarrow> j = k)"
proof -
  have ok1: "shipments_ok (swRepo w1)"
    using assms(1) shipping_run_steps [OF assms(2)] by (rule shipments.inv_reachable)
  have ok2: "shipments_ok (swRepo w2)"
    using shipping_run_steps [OF assms(3)] ok1 by (rule shipments.inv_steps)
  have "ships_on k v (swRepo w2)"
    using ships_on_run [OF shipping_run_steps [OF assms(3)]] assms(4) by (simp add: ships_on_def)
  then obtain u where u: "srShipments (swRepo w2) k = Some u" "u = v \<or> smStatus v \<noteq> ShipmentReceived \<and> (\<exists>t. u = received t v)"
    by (auto simp: ships_on_def)
  have tr: "srTracking (swRepo w2) (trackingKey (smCarrier x) (smTrackingNo x)) = Some j"
    if "srShipments (swRepo w2) j = Some x" for j x
    using ok2 that by (simp add: shipments_ok_def)
  have terms: "smCarrier u = smCarrier v" "smTrackingNo u = smTrackingNo v" "smID u = smID v" "smOrderID u = k"
      "smStatus v = ShipmentReceived \<longrightarrow> u = v"
    using u(2) ok1 assms(4) by (auto simp: shipments_ok_def)
  have "j = k" if "srShipments (swRepo w2) j = Some x" "smCarrier x = smCarrier v" "smTrackingNo x = smTrackingNo v" for j x
    using tr [OF that(1)] tr [OF u(1)] that(2,3) terms(1,2) by simp
  moreover have "\<exists>u. srShipments (swRepo w2) k = Some u \<and> smID u = smID v \<and> smOrderID u = k \<and>
      smCarrier u = smCarrier v \<and> smTrackingNo u = smTrackingNo v \<and> (smStatus v = ShipmentReceived \<longrightarrow> u = v)"
    by (rule exI [of _ u]) (simp add: u(1) terms)
  ultimately show ?thesis by blast
qed

text \<open>A depot for the examples: the order service accepts everything.\<close>

definition depot_orders :: "unit shipping_client" where
  "depot_orders = \<lparr>shc_Get = (\<lambda>u k. ret ()),
     shc_Ship = (\<lambda>a k c t. ret \<lparr>otOrderID = k, otStatus = ''shipped'', otReused = False\<rparr>),
     shc_ConfirmReceipt = (\<lambda>u k. ret \<lparr>otOrderID = k, otStatus = ''completed'', otReused = False\<rparr>)\<rparr>"

definition depot :: "unit shipping_world" where
  "depot = \<lparr>swRepo = NewShipmentRepository, swEnv = (), swNow = sconst 1000\<rparr>"

definition depot_shipment :: Shipment where
  "depot_shipment = (new_shipment ''o1'' ''SF'' ''t1'' 1000)\<lparr>smID := 1\<rparr>"

lemma depot_texts [simp]: "TrimSpace ''o1'' = ''o1''" "TrimSpace ''SF'' = ''SF''" "TrimSpace ''t1'' = ''t1''"
    "TrimSpace ''t2'' = ''t2''"
  by (simp_all add: TrimSpace_graphic graphic_def)

lemma depot_ships:
  "\<exists>w'. shipping_call depot_orders depot w' \<and> srShipments (swRepo w') ''o1'' = Some depot_shipment"
proof -
  let ?m = "FulfillmentServer_Ship depot_orders \<lparr>cxMetadata = None, cxSecret = [], cxNow = 0\<rparr>
    (Some (1, ''o1'', ''SF'', ''t1''))"
  have "srShipments (swRepo (snd (?m depot))) ''o1'' = Some depot_shipment"
    by (simp add: FulfillmentServer_Ship_def guarded_def AuthorizeRole_def of_result_def shipping_answer_def
        Fulfillment_Ship_def Let_def and_then_def inspect_def ship_env_def ship_now_def ship_repo_def
        ShipmentRepository_Get_def ShipmentRepository_Create_def Shipment_emit_def append_to_sink_def
        depot_def depot_orders_def NewShipmentRepository_def ret_def depot_shipment_def new_shipment_def
        trackingKey_def Shipment_ErrNotFound_def)
  then show ?thesis by (blast intro: ships)
qed

theorem shipments_unique_and_kept_witness:
  "\<exists>w'. (shipping_call depot_orders)\<^sup>*\<^sup>* depot w' \<and>
     {j. \<exists>x. srShipments (swRepo w') j = Some x \<and> smCarrier x = ''SF'' \<and> smTrackingNo x = ''t1''} = {''o1''}"
proof -
  obtain w' where w': "shipping_call depot_orders depot w'" "srShipments (swRepo w') ''o1'' = Some depot_shipment"
    using depot_ships by blast
  then have run: "(shipping_call depot_orders)\<^sup>*\<^sup>* depot w'" by blast
  have "fresh_shipments (swRepo depot)" by (simp add: depot_def fresh_shipments_def)
  have terms: "smCarrier depot_shipment = ''SF''" "smTrackingNo depot_shipment = ''t1''"
    by (simp_all add: depot_shipment_def new_shipment_def)
  have "j = ''o1''" if "srShipments (swRepo w') j = Some x" "smCarrier x = ''SF''" "smTrackingNo x = ''t1''" for j x
    using shipments_unique_and_kept [OF \<open>fresh_shipments (swRepo depot)\<close> run rtranclp.rtrancl_refl w'(2), THEN conjunct2]
      that terms by simp
  with w'(2) terms have "{j. \<exists>x. srShipments (swRepo w') j = Some x \<and> smCarrier x = ''SF'' \<and> smTrackingNo x = ''t1''} = {''o1''}"
    by blast
  with run show ?thesis by blast
qed

section \<open>Shipments and orders\<close>

text \<open>The client of the fulfillment service on the order service itself.\<close>

definition shipping_backend :: "string \<Rightarrow> time \<Rightarrow> 'e world shipping_client" where
  "shipping_backend secret now =
     (let ctx = (\<lambda>md. \<lparr>cxMetadata = Some md, cxSecret = secret, cxNow = now\<rparr>) in
      \<lparr>shc_Get = ShippingClient_Get (Some (\<lambda>md. GRPCServer_Get (ctx md))) secret [] now,
       shc_Ship = ShippingClient_Ship (Some (\<lambda>md. GRPCServer_Ship (ctx md))) secret [] now,
       shc_ConfirmReceipt =
         ShippingClient_ConfirmReceipt (Some (\<lambda>md. GRPCServer_ConfirmReceipt (ctx md))) secret [] now\<rparr>)"

lemma signed_call_Inr:
  "signed_call (Some rpc) md req reply e = (Inr x, e') \<Longrightarrow> \<exists>y. rpc md req e = (Inr y, e')"
  by (auto simp: signed_call_def inspect_def fail_def ret_def split: prod.splits sum.splits)

lemma answer_Inr: "guarded auth (answer m reply) w = (Inr x, w') \<Longrightarrow> \<exists>y. m w = (Inr y, w')"
  by (auto simp: guarded_def answer_def and_then_def of_result_def inspect_def fail_def ret_def
      split: prod.splits sum.splits)

lemma transition_now_Inr:
  assumes "transition_now k u target reason at a w = (Inr v, w')"
  shows "rpOrders (wRepo w') k = Some v \<and> oStatus v = target"
proof -
  have "Transition k u target reason at a (shd (wNow w)) (wRepo w) = (Inr v, wRepo w')"
    using assms by (auto simp: transition_now_def and_then_def service_now_def on_repo_def split: prod.splits)
  then show ?thesis
    by (auto simp: Transition_def fail_def ret_def and_then_def put_order_def modify_state_def
        split: option.splits if_splits prod.splits sum.splits dest!: sym [of _ "wRepo w'"])
qed

lemma shipping_backend_Inr:
  assumes "repo_ok (wRepo w)"
  shows "shc_Ship (shipping_backend secret now) a k c t w = (Inr x, w') \<Longrightarrow>
      \<exists>v. rpOrders (wRepo w') (TrimSpace k) = Some v \<and> oStatus v = StatusShipped"
    and "shc_ConfirmReceipt (shipping_backend secret now) u k w = (Inr x, w') \<Longrightarrow>
      \<exists>v. rpOrders (wRepo w') (TrimSpace k) = Some v \<and> oStatus v = StatusCompleted"
proof -
  have ship: "rpOrders (wRepo w') (TrimSpace k) = Some v \<and> oStatus v = StatusShipped"
    if run: "Service_Ship a k c t w = (Inr v, w')" for v
  proof -
    obtain u where u: "rpOrders (wRepo w) (TrimSpace k) = Some u" "visible 0 u"
      using run by (cases "rpOrders (wRepo w) (TrimSpace k)")
        (auto simp: Service_Ship_def and_then_def on_repo_def Repository_Get_def fail_def visible_def
          split: if_splits)
    then have "oOrderID u = TrimSpace k" using assms by (simp add: repo_ok_def)
    with run u show ?thesis
      by (auto simp: Service_Ship_def and_then_def on_repo_def Repository_Get_def fail_def ret_def
          dest: transition_now_Inr split: if_splits)
  qed
  show "shc_Ship (shipping_backend secret now) a k c t w = (Inr x, w') \<Longrightarrow>
      \<exists>v. rpOrders (wRepo w') (TrimSpace k) = Some v \<and> oStatus v = StatusShipped"
    using ship
    by (auto simp: shipping_backend_def Let_def ShippingClient_Ship_def GRPCServer_Ship_def
        dest!: signed_call_Inr answer_Inr)
  show "shc_ConfirmReceipt (shipping_backend secret now) u k w = (Inr x, w') \<Longrightarrow>
      \<exists>v. rpOrders (wRepo w') (TrimSpace k) = Some v \<and> oStatus v = StatusCompleted"
    by (auto simp: shipping_backend_def Let_def ShippingClient_ConfirmReceipt_def GRPCServer_ConfirmReceipt_def
        Service_ConfirmReceipt_def fail_def dest!: signed_call_Inr answer_Inr transition_now_Inr split: if_splits)
qed

lemma shipping_Get_keeps: "shc_Get (shipping_backend secret now) u k w = (res, w') \<Longrightarrow> w' = w"
  by (auto simp: shipping_backend_def Let_def ShippingClient_Get_def signed_call_def GRPCServer_Get_def
      guarded_def answer_def Service_Get_def on_repo_def Repository_Get_def inspect_def and_then_def of_result_def
      fail_def ret_def split: sum.splits prod.splits if_splits option.splits)

lemma Ship_agrees:
  assumes "repo_ok (wRepo (swEnv w))"
    and "Fulfillment_Ship (shipping_backend secret now) a k c t w = (Inr (v, tr, b), w')"
  shows "(\<exists>u. rpOrders (wRepo (swEnv w')) (TrimSpace k) = Some u \<and> oStatus u = StatusShipped) \<and>
    srShipments (swRepo w') (TrimSpace k) = Some v \<and> smCarrier v = TrimSpace c \<and> smTrackingNo v = TrimSpace t"
proof -
  let ?o = "shipping_backend secret now" and ?v = "new_shipment (TrimSpace k) (TrimSpace c) (TrimSpace t) (shd (swNow w))"
  obtain res r where cr: "ShipmentRepository_Create ?v (swRepo w) = (res, r)" by fastforce
  have sel: "smOrderID ?v = TrimSpace k" "smCarrier ?v = TrimSpace c" "smTrackingNo ?v = TrimSpace t"
    by (simp_all add: new_shipment_def)
  have call: "shc_Ship ?o a (TrimSpace k) (TrimSpace c) (TrimSpace t) (swEnv w) = (Inr tr, swEnv w') \<and>
      (srShipments (swRepo w) (TrimSpace k) = Some v \<and> smCarrier v = TrimSpace c \<and> smTrackingNo v = TrimSpace t \<and>
         swRepo w' = swRepo w \<or> res = Inr (v, b) \<and> swRepo w' = r)"
    using assms(2) cr
    by (auto simp: Fulfillment_Ship_def Let_def inspect_def and_then_def ship_env_def ship_now_def ship_repo_def
        ShipmentRepository_Get_def fail_def ret_def split: if_splits option.splits sum.splits prod.splits)
  moreover have "srShipments r (TrimSpace k) = Some v \<and> smCarrier v = TrimSpace c \<and> smTrackingNo v = TrimSpace t"
    if "res = Inr (v, b)"
    using cr by (cases rule: ShipmentRepository_Create_cases) (use that sel in auto)
  moreover have "\<exists>u. rpOrders (wRepo (swEnv w')) (TrimSpace k) = Some u \<and> oStatus u = StatusShipped"
    using shipping_backend_Inr(1) [OF assms(1), of secret now a "TrimSpace k"] call by auto
  ultimately show ?thesis by auto
qed

lemma ConfirmReceipt_agrees:
  assumes "repo_ok (wRepo (swEnv w))"
    and "Fulfillment_ConfirmReceipt (shipping_backend secret now) u k w = (Inr (v, tr, b), w')"
  shows "(\<exists>u. rpOrders (wRepo (swEnv w')) (TrimSpace k) = Some u \<and> oStatus u = StatusCompleted) \<and>
    srShipments (swRepo w') (TrimSpace k) = Some v \<and> smStatus v = ShipmentReceived"
proof -
  let ?o = "shipping_backend secret now"
  obtain res r where mk: "MarkReceived (TrimSpace k) (shd (swNow w)) (swRepo w) = (res, r)" by fastforce
  have call: "shc_ConfirmReceipt ?o u (TrimSpace k) (swEnv w) = (Inr tr, swEnv w') \<and> res = Inr (v, b) \<and> swRepo w' = r"
    using assms(2) mk
    by (auto simp: Fulfillment_ConfirmReceipt_def Let_def and_then_def ship_env_def ship_now_def ship_repo_def
        fail_def ret_def split: if_splits sum.splits prod.splits dest!: shipping_Get_keeps)
  moreover have "srShipments r (TrimSpace k) = Some v \<and> smStatus v = ShipmentReceived" if "res = Inr (v, b)"
    using mk by (cases rule: MarkReceived_cases) (use that in auto)
  moreover have "\<exists>u. rpOrders (wRepo (swEnv w')) (TrimSpace k) = Some u \<and> oStatus u = StatusCompleted"
    using shipping_backend_Inr(2) [OF assms(1), of secret now u "TrimSpace k"] call by auto
  ultimately show ?thesis by simp
qed

text \<open>
  C21. Shipping and receiving agree with the order: against the order service, a \<open>Ship\<close> that
  succeeds leaves the order in status shipped and a shipment recorded under its identifier
  with just that carrier and tracking number; a \<open>ConfirmReceipt\<close> that succeeds leaves the
  order completed and its shipment received.
\<close>

theorem shipping_agrees_with_order:
  assumes "repo_ok (wRepo (swEnv w))"
  shows "(\<forall>a c t v tr b w'. Fulfillment_Ship (shipping_backend secret now) a k c t w = (Inr (v, tr, b), w') \<longrightarrow>
      (\<exists>u. rpOrders (wRepo (swEnv w')) (TrimSpace k) = Some u \<and> oStatus u = StatusShipped) \<and>
      srShipments (swRepo w') (TrimSpace k) = Some v \<and> smCarrier v = TrimSpace c \<and> smTrackingNo v = TrimSpace t) \<and>
    (\<forall>u v tr b w'. Fulfillment_ConfirmReceipt (shipping_backend secret now) u k w = (Inr (v, tr, b), w') \<longrightarrow>
      (\<exists>u. rpOrders (wRepo (swEnv w')) (TrimSpace k) = Some u \<and> oStatus u = StatusCompleted) \<and>
      srShipments (swRepo w') (TrimSpace k) = Some v \<and> smStatus v = ShipmentReceived)"
  using Ship_agrees [OF assms] ConfirmReceipt_agrees [OF assms] by blast

text \<open>The order service of the examples: o1 with its history up to a given status.\<close>

definition counter_order :: "string \<Rightarrow> StatusHistory list \<Rightarrow> Order" where
  "counter_order st hs = zero_order\<lparr>oOrderID := ''o1'', oUserID := 3, oStatus := st,
     oStatusHistory := \<lparr>shFromStatus = [], shToStatus = StatusPendingPayment, shReason = [], shActorType = ''user'',
       shActorID = 3, shCreatedAt = 0\<rparr> # hs\<rparr>"

definition paid_entry :: StatusHistory where
  "paid_entry = \<lparr>shFromStatus = StatusPendingPayment, shToStatus = StatusPaid, shReason = [],
     shActorType = ''payment'', shActorID = 0, shCreatedAt = 0\<rparr>"

definition counter :: "Order \<Rightarrow> unit world" where
  "counter v = \<lparr>wRepo = NewMemoryRepository\<lparr>rpOrders := [''o1'' \<mapsto> v]\<rparr>, wEnv = (), wNow = sconst 0\<rparr>"

definition counter_depot :: "Order \<Rightarrow> unit world shipping_world" where
  "counter_depot v = \<lparr>swRepo = NewShipmentRepository, swEnv = counter v, swNow = sconst 1000\<rparr>"

lemma counter_ok: "repo_ok (wRepo (counter (counter_order StatusPaid [paid_entry])))"
  by (simp add: counter_def NewMemoryRepository_def repo_ok_def order_ok_def history_ok_def bill_ok_def
      counter_order_def zero_order_def paid_entry_def canTransition_def)

lemmas depot_eval =
  Fulfillment_Ship_def Let_def and_then_def inspect_def ship_env_def ship_now_def ship_repo_def
  ShipmentRepository_Get_def ShipmentRepository_Create_def Shipment_emit_def append_to_sink_def
  NewShipmentRepository_def ret_def fail_def new_shipment_def trackingKey_def Shipment_ErrNotFound_def
  shipping_backend_def ShippingClient_Ship_def signed_call_def GRPCServer_Ship_def guarded_def
  AuthorizeInternalRoleRequest_def AuthorizeRole_def of_result_def answer_def Service_Ship_def on_repo_def
  Repository_Get_def visible_def transition_now_def service_now_def Transition_def put_order_def
  modify_state_def

lemma counter_ships:
  "\<exists>tr w'. Fulfillment_Ship (shipping_backend [] 0) 1 ''o1'' ''SF'' ''t1''
     (counter_depot (counter_order StatusPaid [paid_entry])) = (Inr (depot_shipment, tr, False), w')"
proof -
  have "canTransition StatusPaid StatusShipped" by (simp add: canTransition_def)
  then show ?thesis
    by (simp add: depot_eval counter_depot_def counter_def NewMemoryRepository_def counter_order_def zero_order_def
        depot_shipment_def)
qed

theorem shipping_agrees_with_order_witness:
  "\<exists>tr w' u. Fulfillment_Ship (shipping_backend [] 0) 1 ''o1'' ''SF'' ''t1''
     (counter_depot (counter_order StatusPaid [paid_entry])) = (Inr (depot_shipment, tr, False), w') \<and>
     rpOrders (wRepo (swEnv w')) ''o1'' = Some u \<and> oStatus u = StatusShipped"
proof -
  obtain tr w' where run: "Fulfillment_Ship (shipping_backend [] 0) 1 ''o1'' ''SF'' ''t1''
     (counter_depot (counter_order StatusPaid [paid_entry])) = (Inr (depot_shipment, tr, False), w')"
    using counter_ships by blast
  have "repo_ok (wRepo (swEnv (counter_depot (counter_order StatusPaid [paid_entry]))))"
    using counter_ok by (simp add: counter_depot_def)
  from shipping_agrees_with_order [OF this, of "[]" 0 "''o1''", THEN conjunct1] run show ?thesis by fastforce
qed

text \<open>
  Fulfillment records a shipment before it asks the order service. When the order is not
  paid yet (or already closed), the call fails, but the shipment stays recorded as shipped and
  its tracking number is taken; from then on, whatever happens, shipping that order with any
  other carrier or tracking number is refused as a conflict.
\<close>

lemma refused_shipment_is_recorded:
  assumes "srShipments (swRepo w) k = None" and "srTracking (swRepo w) (trackingKey c t) = None"
    and "srEventSink (swRepo w) = None" and "TrimSpace k = k" and "TrimSpace c = c" and "TrimSpace t = t"
    and "k \<noteq> []" and "c \<noteq> []" and "t \<noteq> []" and "length c \<le> 64" and "length t \<le> 128" and "a \<noteq> 0"
    and "rpOrders (wRepo (swEnv w)) k = Some v" and "oOrderID v = k" and "oStatus v \<notin> {StatusPaid, StatusShipped}"
  shows "\<exists>e w'. Fulfillment_Ship (shipping_backend secret now) a k c t w = (Inl e, w') \<and>
    srShipments (swRepo w') k = Some ((new_shipment k c t (shd (swNow w)))\<lparr>smID := srNextID (swRepo w)\<rparr>) \<and>
    rpOrders (wRepo (swEnv w')) k = Some v \<and>
    (\<forall>orders w2 c' t'. shipment_step\<^sup>*\<^sup>* (swRepo w') (swRepo w2) \<longrightarrow>
       (TrimSpace c', TrimSpace t') \<noteq> (c, t) \<longrightarrow> TrimSpace c' \<noteq> [] \<longrightarrow> TrimSpace t' \<noteq> [] \<longrightarrow>
       length (TrimSpace c') \<le> 64 \<longrightarrow> length (TrimSpace t') \<le> 128 \<longrightarrow>
       Fulfillment_Ship orders a k c' t' (w2 :: 'e world shipping_world) = (Inl Shipment_ErrConflict, w2))"
proof -
  let ?o = "shipping_backend secret now"
  let ?v = "(new_shipment k c t (shd (swNow w)))\<lparr>smID := srNextID (swRepo w)\<rparr>"
  let ?r = "(swRepo w)\<lparr>srNextID := srNextID (swRepo w) + 1, srShipments := (srShipments (swRepo w))(k \<mapsto> ?v),
    srTracking := (srTracking (swRepo w))(trackingKey c t \<mapsto> k)\<rparr>"
  have "oStatus v \<noteq> StatusShipped" "\<not> canTransition (oStatus v) StatusShipped"
    using assms(15) by (auto simp: canTransition_def)
  then obtain e e1 where "Service_Ship a k c t (swEnv w) = (Inl e1, e)" and e: "wRepo e = wRepo (swEnv w)"
    using assms(4-9,12-14)
    by (auto simp: Service_Ship_def and_then_def on_repo_def Repository_Get_def visible_def transition_now_def
        service_now_def Transition_def fail_def ret_def)
  then obtain e2 x where ship: "shc_Ship ?o a k c t (swEnv w) = (Inl e2, x)" and x: "wRepo x = wRepo (swEnv w)"
    by (cases "AuthorizeInternalRoleRequest \<lparr>cxMetadata = Some (AppendRole [] secret (order_method ''Ship'') a ''admin'' now),
        cxSecret = secret, cxNow = now\<rparr> (order_method ''Ship'') a ''admin''")
      (auto simp: shipping_backend_def Let_def ShippingClient_Ship_def signed_call_def GRPCServer_Ship_def
        guarded_def answer_def inspect_def and_then_def of_result_def fail_def)
  have "ShipmentRepository_Create (new_shipment k c t (shd (swNow w))) (swRepo w) = (Inr (?v, False), ?r)"
    using assms(1-3) by (simp add: ShipmentRepository_Create_def new_shipment_def and_then_def Shipment_emit_def
        append_to_sink_def)
  then have run: "Fulfillment_Ship ?o a k c t w = (Inl e2, w\<lparr>swRepo := ?r, swNow := stl (swNow w), swEnv := x\<rparr>)"
    using assms(1,4-12) ship
    by (simp add: Fulfillment_Ship_def Let_def inspect_def and_then_def ship_env_def ship_now_def ship_repo_def
        ShipmentRepository_Get_def Shipment_ErrNotFound_def)
  have stuck: "Fulfillment_Ship orders a k c' t' w2 = (Inl Shipment_ErrConflict, w2)"
    if later: "shipment_step\<^sup>*\<^sup>* ?r (swRepo w2)" "(TrimSpace c', TrimSpace t') \<noteq> (c, t)" "TrimSpace c' \<noteq> []"
      "TrimSpace t' \<noteq> []" "length (TrimSpace c') \<le> 64" "length (TrimSpace t') \<le> 128"
    for orders c' t' and w2 :: "'e world shipping_world"
  proof -
    have "ships_on k ?v ?r" by (simp add: ships_on_def)
    then have "ships_on k ?v (swRepo w2)" using later(1) by (rule ships_on_run [rotated])
    then obtain u where "srShipments (swRepo w2) k = Some u" "smCarrier u = c" "smTrackingNo u = t"
      by (auto simp: ships_on_def new_shipment_def)
    then show ?thesis
      using later(2-) assms(4,7,12)
      by (auto simp: Fulfillment_Ship_def Let_def inspect_def ship_repo_def ShipmentRepository_Get_def fail_def)
  qed
  show ?thesis
    by (intro exI [of _ e2] exI [of _ "w\<lparr>swRepo := ?r, swNow := stl (swNow w), swEnv := x\<rparr>"])
      (use run stuck x assms(13) in simp)
qed

lemma refused_shipment_is_recorded_example:
  "\<exists>e w'. Fulfillment_Ship (shipping_backend [] 0) 1 ''o1'' ''SF'' ''t1''
     (counter_depot (counter_order StatusPendingPayment [])) = (Inl e, w') \<and>
     srShipments (swRepo w') ''o1'' = Some depot_shipment"
proof -
  let ?w = "counter_depot (counter_order StatusPendingPayment [])"
  have "srShipments (swRepo ?w) ''o1'' = None" "srTracking (swRepo ?w) (trackingKey ''SF'' ''t1'') = None"
    "srEventSink (swRepo ?w) = None"
    "rpOrders (wRepo (swEnv ?w)) ''o1'' = Some (counter_order StatusPendingPayment [])"
    "oOrderID (counter_order StatusPendingPayment []) = ''o1''"
    "oStatus (counter_order StatusPendingPayment []) \<notin> {StatusPaid, StatusShipped}"
    by (simp_all add: counter_depot_def counter_def NewShipmentRepository_def NewMemoryRepository_def
        counter_order_def const_defs)
  note facts = this
  have "(new_shipment ''o1'' ''SF'' ''t1'' (shd (swNow ?w)))\<lparr>smID := srNextID (swRepo ?w)\<rparr> = depot_shipment"
    by (simp add: counter_depot_def new_shipment_def NewShipmentRepository_def depot_shipment_def)
  then show ?thesis
    using refused_shipment_is_recorded [of ?w "''o1''" "''SF''" "''t1''" 1 "counter_order StatusPendingPayment []" "[]" 0]
      facts by auto
qed

end
