(* ===== verification/Cart_Model.thy ===== *)
theory Cart_Model
  imports Order_Server
begin

text \<open>
  services/cart/internal/app: cart lines and previews (model.go, repository.go), the in-memory
  repository (memory_repository.go), the service (service.go), its client of the catalog
  (clients.go) and the gRPC server (server.go). The repository ignores the time it is given,
  so the clock of the service is left out.
\<close>

section \<open>Data\<close>

record CartSKU =
  cskID :: uint64
  cskCode :: string
  cskName :: string
  cskPriceCents :: int64
  cskActive :: bool
  cskAvailableStock :: int32

record CartItem =
  lnUserID :: uint64
  lnSKUID :: uint64
  lnQuantity :: int32
  lnSKU :: CartSKU
  lnSubtotalCents :: int64

record Preview =
  pvItems :: "CartItem list"
  pvTotalAmountCents :: int64
  pvAvailable :: bool

definition zero_sku :: CartSKU where
  "zero_sku = \<lparr>cskID = 0, cskCode = [], cskName = [], cskPriceCents = 0, cskActive = False, cskAvailableStock = 0\<rparr>"

definition cart_line :: "uint64 \<Rightarrow> uint64 \<Rightarrow> int32 \<Rightarrow> CartItem" where
  "cart_line userID skuID quantity =
     \<lparr>lnUserID = userID, lnSKUID = skuID, lnQuantity = quantity, lnSKU = zero_sku, lnSubtotalCents = 0\<rparr>"

definition Cart_ErrInvalidRequest :: go_error where
  "Cart_ErrInvalidRequest = ErrorText ''cart request is invalid''"
definition Cart_ErrNotFound :: go_error where
  "Cart_ErrNotFound = ErrorText ''cart item not found''"
definition Cart_ErrUnavailable :: go_error where
  "Cart_ErrUnavailable = ErrorText ''cart dependency unavailable''"

section \<open>Repository\<close>

type_synonym CartRepository = "string \<rightharpoonup> CartItem"

definition NewCartRepository :: CartRepository where
  "NewCartRepository = Map.empty"

definition cartKey :: "uint64 \<Rightarrow> uint64 \<Rightarrow> string" where
  "cartKey userID skuID = fmt_uint userID @ '':'' @ fmt_uint skuID"

definition CartRepository_Set :: "uint64 \<Rightarrow> uint64 \<Rightarrow> int32 \<Rightarrow> (CartRepository, unit) go" where
  "CartRepository_Set userID skuID quantity =
     modify_state (\<lambda>r. r(cartKey userID skuID \<mapsto> cart_line userID skuID quantity))"

definition CartRepository_Delete :: "uint64 \<Rightarrow> uint64 \<Rightarrow> (CartRepository, unit) go" where
  "CartRepository_Delete userID skuID r =
     (case r (cartKey userID skuID) of
        None \<Rightarrow> (Inl Cart_ErrNotFound, r)
      | Some _ \<Rightarrow> (Inr (), r(cartKey userID skuID := None)))"

text \<open>The loop meets the keys of the map in the order \<open>ks\<close>.\<close>

definition CartRepository_List :: "string list \<Rightarrow> uint64 \<Rightarrow> (CartRepository, CartItem list) go" where
  "CartRepository_List ks userID =
     read_state (\<lambda>r. sort_key lnSKUID (filter (\<lambda>i. lnUserID i = userID) (range_values ks r)))"

section \<open>Client of the catalog (clients.go)\<close>

text \<open>The getters of a generated message read a nil message as the zero message.\<close>

definition cart_sku :: "CatalogSKUSnapshot option \<Rightarrow> CartSKU" where
  "cart_sku item = (case item of None \<Rightarrow> zero_sku
     | Some i \<Rightarrow> \<lparr>cskID = csSkuId i, cskCode = csSkuCode i, cskName = csSkuName i, cskPriceCents = csPriceCents i,
         cskActive = csActive i, cskAvailableStock = csAvailableStock i\<rparr>)"

definition unavailable :: "go_error \<Rightarrow> go_error" where
  "unavailable err = SuffixError Cart_ErrUnavailable ('': '' @ error_text err)"

definition CartCatalogClient_GetSKUSnapshot ::
  "((uint64 list \<times> bool) option \<Rightarrow> ('e, CatalogSKUSnapshot option list) go) option \<Rightarrow>
   uint64 list \<Rightarrow> bool \<Rightarrow> ('e, CartSKU list) go" where
  "CartCatalogClient_GetSKUSnapshot client ids includeInactive =
     (case client of
        None \<Rightarrow> fail Cart_ErrUnavailable
      | Some rpc \<Rightarrow>
          inspect (rpc (Some (ids, includeInactive))) (\<lambda>res. case res of
             Inl err \<Rightarrow> fail (unavailable err)
           | Inr items \<Rightarrow> ret (map cart_sku items)))"

section \<open>Service (service.go)\<close>

type_synonym 'e catalog_client = "uint64 list \<Rightarrow> bool \<Rightarrow> ('e, CartSKU list) go"

record 'e cart_world =
  cwRepo :: CartRepository
  cwEnv :: 'e

definition cart_repo :: "(CartRepository, 'a) go \<Rightarrow> ('e cart_world, 'a) go" where
  "cart_repo m w = (case m (cwRepo w) of (res, r) \<Rightarrow> (res, w\<lparr>cwRepo := r\<rparr>))"

definition cart_env :: "('e, 'a) go \<Rightarrow> ('e cart_world, 'a) go" where
  "cart_env m w = (case m (cwEnv w) of (res, e) \<Rightarrow> (res, w\<lparr>cwEnv := e\<rparr>))"

definition maxInt64 :: int where "maxInt64 = 9223372036854775807"

definition itemWithSKU :: "CartItem \<Rightarrow> CartSKU \<Rightarrow> CartItem result" where
  "itemWithSKU item sku =
     (if sint (cskPriceCents sku) < 0 \<or> sint (lnQuantity item) \<le> 0 then Inl Cart_ErrInvalidRequest
      else if cskPriceCents sku \<noteq> 0 \<and> sint (lnQuantity item) > maxInt64 div sint (cskPriceCents sku)
      then Inl Cart_ErrInvalidRequest
      else Inr (item\<lparr>lnSKU := sku,
        lnSubtotalCents := cskPriceCents sku * word_of_int (sint (lnQuantity item))\<rparr>))"

definition mapCatalogError :: "go_error option \<Rightarrow> go_error" where
  "mapCatalogError err = (case err of None \<Rightarrow> Cart_ErrNotFound | Some e \<Rightarrow> unavailable e)"

definition Cart_Set ::
  "'e catalog_client \<Rightarrow> uint64 \<Rightarrow> uint64 \<Rightarrow> int32 \<Rightarrow> ('e cart_world, CartItem) go" where
  "Cart_Set catalog userID skuID quantity =
     (if userID = 0 \<or> skuID = 0 \<or> sint quantity \<le> 0 \<or> sint quantity > 99 then fail Cart_ErrInvalidRequest
      else inspect (cart_env (catalog [skuID] False)) (\<lambda>res. case res of
        Inl err \<Rightarrow> fail (mapCatalogError (Some err))
      | Inr [sku] \<Rightarrow>
          (if cskID sku \<noteq> skuID \<or> \<not> cskActive sku then fail Cart_ErrNotFound
           else and_then (of_result (itemWithSKU (cart_line userID skuID quantity) sku)) (\<lambda>item.
             and_then (cart_repo (CartRepository_Set userID skuID quantity)) (\<lambda>_. ret item)))
      | Inr _ \<Rightarrow> fail (mapCatalogError None)))"

definition Cart_Delete :: "uint64 \<Rightarrow> uint64 \<Rightarrow> ('e cart_world, unit) go" where
  "Cart_Delete userID skuID =
     (if userID = 0 \<or> skuID = 0 then fail Cart_ErrInvalidRequest
      else cart_repo (CartRepository_Delete userID skuID))"

definition index_skus :: "CartSKU list \<Rightarrow> uint64 \<rightharpoonup> CartSKU" where
  "index_skus skus = foldl (\<lambda>byID sku. byID(cskID sku \<mapsto> sku)) Map.empty skus"

fun price_items :: "(uint64 \<rightharpoonup> CartSKU) \<Rightarrow> CartItem list \<Rightarrow> CartItem list result" where
  "price_items byID [] = Inr []"
| "price_items byID (item # items) =
     bind_result (case byID (lnSKUID item) of
         None \<Rightarrow> Inr (item\<lparr>lnSKU := (lnSKU item)\<lparr>cskActive := False\<rparr>\<rparr>)
       | Some sku \<Rightarrow> itemWithSKU item sku) (\<lambda>priced.
     bind_result (price_items byID items) (\<lambda>rest. Inr (priced # rest)))"

definition Cart_List :: "'e catalog_client \<Rightarrow> string list \<Rightarrow> uint64 \<Rightarrow> ('e cart_world, CartItem list) go" where
  "Cart_List catalog ks userID =
     (if userID = 0 then fail Cart_ErrInvalidRequest
      else and_then (cart_repo (CartRepository_List ks userID)) (\<lambda>items.
        if items = [] then ret []
        else inspect (cart_env (catalog (map lnSKUID items) True)) (\<lambda>res. case res of
          Inl err \<Rightarrow> fail (mapCatalogError (Some err))
        | Inr skus \<Rightarrow> of_result (price_items (index_skus skus) items))))"

definition line_available :: "CartItem \<Rightarrow> bool" where
  "line_available item \<longleftrightarrow> cskActive (lnSKU item) \<and> \<not> sint (lnQuantity item) \<le> 0 \<and>
     \<not> sint (lnQuantity item) > sint (cskAvailableStock (lnSKU item))"

fun add_lines :: "CartItem list \<Rightarrow> Preview \<Rightarrow> Preview result" where
  "add_lines [] preview = Inr preview"
| "add_lines (item # items) preview =
     (let preview' = (if \<not> line_available item then preview\<lparr>pvAvailable := False\<rparr> else preview) in
      if sint (lnSubtotalCents item) < 0 \<or> sint (pvTotalAmountCents preview') > maxInt64 - sint (lnSubtotalCents item)
      then Inl Cart_ErrInvalidRequest
      else add_lines items
        (preview'\<lparr>pvTotalAmountCents := pvTotalAmountCents preview' + lnSubtotalCents item\<rparr>))"

definition Cart_Preview :: "'e catalog_client \<Rightarrow> string list \<Rightarrow> uint64 \<Rightarrow> ('e cart_world, Preview) go" where
  "Cart_Preview catalog ks userID =
     and_then (Cart_List catalog ks userID) (\<lambda>items.
       of_result (add_lines items \<lparr>pvItems = items, pvTotalAmountCents = 0, pvAvailable = True\<rparr>))"

definition statusError :: "go_error \<Rightarrow> go_error" where
  "statusError err =
     (if errors_is err Cart_ErrInvalidRequest then StatusError InvalidArgument ''cart request invalid''
      else if errors_is err Cart_ErrNotFound then StatusError NotFound ''cart item does not exist''
      else if errors_is err Cart_ErrUnavailable then StatusError Unavailable ''catalog temporarily unavailable''
      else StatusError Internal ''cart service temporarily unavailable'')"

section \<open>Server (server.go)\<close>

record CartItemProto =
  cipSkuId :: uint64
  cipQuantity :: int32
  cipSkuCode :: string
  cipSkuName :: string
  cipUnitPriceCents :: int64
  cipSubtotalCents :: int64
  cipAvailable :: bool

definition itemProto :: "CartItem \<Rightarrow> CartItemProto" where
  "itemProto v = \<lparr>cipSkuId = lnSKUID v, cipQuantity = lnQuantity v, cipSkuCode = cskCode (lnSKU v),
     cipSkuName = cskName (lnSKU v), cipUnitPriceCents = cskPriceCents (lnSKU v), cipSubtotalCents = lnSubtotalCents v,
     cipAvailable = (cskActive (lnSKU v) \<and> sint (lnQuantity v) \<le> sint (cskAvailableStock (lnSKU v)))\<rparr>"

definition cart_method :: "string \<Rightarrow> string" where
  "cart_method name = ''/commerce.cart.v1.CartService/'' @ name"

definition cart_auth :: "call_context \<Rightarrow> string \<Rightarrow> uint64 \<Rightarrow> unit result" where
  "cart_auth ctx method userID = AuthorizeUser (cxMetadata ctx) (TrimSpace (cxSecret ctx)) method userID (cxNow ctx)"

definition cart_answer :: "('w, 'a) go \<Rightarrow> ('a \<Rightarrow> 'b) \<Rightarrow> ('w, 'b) go" where
  "cart_answer m reply =
     inspect m (\<lambda>res. case res of Inl err \<Rightarrow> fail (statusError err) | Inr v \<Rightarrow> ret (reply v))"

definition CartServer_Set ::
  "'e catalog_client \<Rightarrow> call_context \<Rightarrow> (uint64 \<times> uint64 \<times> int32) option \<Rightarrow> ('e cart_world, CartItemProto) go" where
  "CartServer_Set catalog ctx req =
     (case req of None \<Rightarrow> fail empty_request
      | Some (userId, skuId, quantity) \<Rightarrow>
          guarded (cart_auth ctx (cart_method ''Set'') userId)
            (cart_answer (Cart_Set catalog userId skuId quantity) itemProto))"

definition CartServer_Delete :: "call_context \<Rightarrow> (uint64 \<times> uint64) option \<Rightarrow> ('e cart_world, bool) go" where
  "CartServer_Delete ctx req =
     (case req of None \<Rightarrow> fail empty_request
      | Some (userId, skuId) \<Rightarrow>
          guarded (cart_auth ctx (cart_method ''Delete'') userId)
            (cart_answer (Cart_Delete userId skuId) (\<lambda>_. True)))"

definition CartServer_List ::
  "'e catalog_client \<Rightarrow> string list \<Rightarrow> call_context \<Rightarrow> uint64 option \<Rightarrow> ('e cart_world, CartItemProto list) go" where
  "CartServer_List catalog ks ctx req =
     (case req of None \<Rightarrow> fail empty_request
      | Some userId \<Rightarrow>
          guarded (cart_auth ctx (cart_method ''List'') userId)
            (cart_answer (Cart_List catalog ks userId) (map itemProto)))"

definition CartServer_Preview ::
  "'e catalog_client \<Rightarrow> string list \<Rightarrow> call_context \<Rightarrow> uint64 option \<Rightarrow>
   ('e cart_world, int64 \<times> bool \<times> CartItemProto list) go" where
  "CartServer_Preview catalog ks ctx req =
     (case req of None \<Rightarrow> fail empty_request
      | Some userId \<Rightarrow>
          guarded (cart_auth ctx (cart_method ''Preview'') userId)
            (cart_answer (Cart_Preview catalog ks userId)
              (\<lambda>v. (pvTotalAmountCents v, pvAvailable v, map itemProto (pvItems v)))))"

end
