(* ===== verification/Cart_Properties.thy ===== *)
theory Cart_Properties
  imports Cart_Model
begin

text \<open>
  What the cart service guarantees: its repository is a cart per user, a preview is priced
  exactly and says truly whether everything can be bought, and how the cart reacts to what the
  catalog service answers.
\<close>

section \<open>The repository as one cart per user\<close>

lemma cartKey_inj [simp]: "cartKey u s = cartKey u' s' \<longleftrightarrow> u = u' \<and> s = s'"
  by (simp add: cartKey_def append_sep_inj)

definition carts :: "CartRepository \<Rightarrow> uint64 \<Rightarrow> uint64 \<rightharpoonup> int32" where
  "carts r u s = map_option lnQuantity (r (cartKey u s))"

text \<open>Every entry is a plain line, filed under the key of its user and SKU, of a legal quantity.\<close>

definition cart_ok :: "CartRepository \<Rightarrow> bool" where
  "cart_ok r \<longleftrightarrow> finite (dom r) \<and> (\<forall>k i. r k = Some i \<longrightarrow>
     k = cartKey (lnUserID i) (lnSKUID i) \<and> i = cart_line (lnUserID i) (lnSKUID i) (lnQuantity i) \<and>
     lnUserID i \<noteq> 0 \<and> lnSKUID i \<noteq> 0 \<and> 0 < sint (lnQuantity i) \<and> sint (lnQuantity i) \<le> 99)"

lemma cart_line_fields [simp]: "lnUserID (cart_line u s q) = u" "lnSKUID (cart_line u s q) = s"
    "lnQuantity (cart_line u s q) = q" "lnSKU (cart_line u s q) = zero_sku" "lnSubtotalCents (cart_line u s q) = 0"
  by (simp_all add: cart_line_def)

lemma cart_ok_Set:
  assumes "cart_ok r" and "u \<noteq> 0" "s \<noteq> 0" "0 < sint q" "sint q \<le> 99"
  shows "cart_ok (snd (CartRepository_Set u s q r))"
  using assms by (auto simp: cart_ok_def CartRepository_Set_def modify_state_def)

lemma cart_ok_Delete: "cart_ok r \<Longrightarrow> cart_ok (snd (CartRepository_Delete u s r))"
  by (auto simp: cart_ok_def CartRepository_Delete_def split: option.splits if_splits)

text \<open>The three methods on the carts.\<close>

lemma carts_Set: "carts (snd (CartRepository_Set u s q r)) = (carts r)(u := (carts r u)(s \<mapsto> q))"
  by (auto simp: carts_def CartRepository_Set_def modify_state_def fun_eq_iff)

lemma carts_Delete: "carts (snd (CartRepository_Delete u s r)) = (carts r)(u := (carts r u)(s := None))"
  by (auto simp: carts_def CartRepository_Delete_def fun_eq_iff split: option.split)

lemma fst_Delete: "fst (CartRepository_Delete u s r) =
    (if carts r u s = None then Inl Cart_ErrNotFound else Inr ())"
  by (auto simp: carts_def CartRepository_Delete_def split: option.split)

definition cart_lines :: "CartRepository \<Rightarrow> uint64 \<Rightarrow> CartItem list" where
  "cart_lines r u = map (\<lambda>s. cart_line u s (the (carts r u s))) (sorted_list_of_set (dom (carts r u)))"

lemma finite_carts: "cart_ok r \<Longrightarrow> finite (dom (carts r u))"
  by (rule finite_imageD [of "cartKey u"])
    (auto simp: cart_ok_def carts_def inj_on_def elim: rev_finite_subset)

lemma distinct_range_values:
  "distinct ks \<Longrightarrow> inj_on m {k \<in> set ks. m k \<noteq> None} \<Longrightarrow> distinct (range_values ks m)"
proof (induction ks)
  case (Cons k ks)
  have "inj_on m {k \<in> set ks. m k \<noteq> None}" using Cons.prems(2) by (rule inj_on_subset) auto
  with Cons show ?case
    by (auto simp: set_range_values inj_on_def split: option.splits) (metis option.distinct(1))
qed simp

lemma cart_ok_inj: "cart_ok r \<Longrightarrow> r k = Some i \<Longrightarrow> r k' = Some i \<Longrightarrow> k = k'"
  by (auto simp: cart_ok_def)

text \<open>Listing gives the cart of the user in ascending order of the SKUs, in whatever order the loop runs.\<close>

lemma fst_List:
  assumes "cart_ok r" and "range_order ks r"
  shows "fst (CartRepository_List ks u r) = Inr (cart_lines r u)"
proof -
  let ?xs = "filter (\<lambda>i. lnUserID i = u) (range_values ks r)"
  have line: "i = cart_line u (lnSKUID i) (lnQuantity i)" "r (cartKey u (lnSKUID i)) = Some i" if "i \<in> set ?xs" for i
    using that assms by (auto simp: set_range_values_order ran_def cart_ok_def)
  have "distinct (range_values ks r)"
    using assms cart_ok_inj [OF assms(1)]
    by (intro distinct_range_values) (auto simp: range_order_def inj_on_def)
  moreover have "inj_on lnSKUID (set ?xs)"
    by (rule inj_onI) (metis line(2) option.inject)
  ultimately have d: "distinct (map lnSKUID ?xs)" by (simp add: distinct_map)
  have "set (map lnSKUID ?xs) = dom (carts r u)"
  proof -
    have "s \<in> lnSKUID ` set ?xs" if "r (cartKey u s) = Some i" for s i
      using that assms by (force simp: set_range_values_order ran_def cart_ok_def intro!: image_eqI [of _ _ i])
    moreover have "carts r u (lnSKUID i) \<noteq> None" if "i \<in> set ?xs" for i
      using line(2) [OF that] by (simp add: carts_def)
    ultimately show ?thesis by (auto simp: carts_def)
  qed
  moreover have "distinct (map lnSKUID (sort_key lnSKUID ?xs))"
    using d by (simp add: distinct_map)
  ultimately have "map lnSKUID (sort_key lnSKUID ?xs) = sorted_list_of_set (dom (carts r u))"
    using sorted_list_of_set.idem_if_sorted_distinct [of "map lnSKUID (sort_key lnSKUID ?xs)"] by simp
  moreover have "sort_key lnSKUID ?xs = map (\<lambda>s. cart_line u s (the (carts r u s))) (map lnSKUID (sort_key lnSKUID ?xs))"
    unfolding map_map by (rule map_idI [symmetric]) (use line in \<open>auto simp: carts_def\<close>)
  ultimately show ?thesis by (simp add: CartRepository_List_def read_state_def cart_lines_def)
qed

section \<open>Runs of the service\<close>

text \<open>
  A step is one call, in whatever order the loops run and whatever the catalog answers, or a
  change of what is behind the catalog client.
\<close>

inductive cart_call :: "'e catalog_client \<Rightarrow> 'e cart_world \<Rightarrow> 'e cart_world \<Rightarrow> bool" for catalog where
  sets: "cart_call catalog w (snd (CartServer_Set catalog ctx req w))"
| deletes: "cart_call catalog w (snd (CartServer_Delete ctx req' w))"
| lists: "cart_call catalog w (snd (CartServer_List catalog ks ctx user w))"
| previews: "cart_call catalog w (snd (CartServer_Preview catalog ks ctx user w))"
| elsewhere: "cart_call catalog w (w\<lparr>cwEnv := e\<rparr>)"

lemmas cart_defs = Cart_Set_def Cart_Delete_def Cart_List_def Cart_Preview_def cart_repo_def cart_env_def

lemma Set_cases:
  assumes "Cart_Set catalog u s q w = (res, w')"
  obtains (kept) e where "res = Inl e" "cwRepo w' = cwRepo w"
  | (stored) item where "res = Inr item" "u \<noteq> 0" "s \<noteq> 0" "0 < sint q" "sint q \<le> 99"
      "cwRepo w' = snd (CartRepository_Set u s q (cwRepo w))"
  using assms
  by (auto simp: Cart_Set_def cart_repo_def cart_env_def inspect_def and_then_def of_result_def fail_def ret_def
      CartRepository_Set_def modify_state_def split: if_splits sum.splits prod.splits list.splits) metis+

lemma Delete_runs:
  "Cart_Delete u s w = (if u = 0 \<or> s = 0 then (Inl Cart_ErrInvalidRequest, w)
     else (fst (CartRepository_Delete u s (cwRepo w)), w\<lparr>cwRepo := snd (CartRepository_Delete u s (cwRepo w))\<rparr>))"
  by (simp add: Cart_Delete_def cart_repo_def fail_def split: prod.split)

lemma List_keeps: "cwRepo (snd (Cart_List catalog ks u w)) = cwRepo w"
  by (auto simp: Cart_List_def cart_repo_def cart_env_def CartRepository_List_def read_state_def and_then_def
      inspect_def of_result_def fail_def ret_def split: sum.split prod.split)

lemma Preview_keeps: "cwRepo (snd (Cart_Preview catalog ks u w)) = cwRepo w"
  using List_keeps [of catalog ks u w]
  by (auto simp: Cart_Preview_def and_then_def of_result_def split: sum.split prod.split)

lemma snd_answer [simp]: "snd (cart_answer m reply w) = snd (m w)"
  by (auto simp: cart_answer_def inspect_def fail_def ret_def split: sum.split prod.split)

lemma guarded_snd: "snd (guarded auth m w) = w \<or> snd (guarded auth m w) = snd (m w)"
  by (cases auth) (simp_all add: guarded_def and_then_def of_result_def)

lemma cart_call_ok:
  assumes "cart_call catalog w w'" and "cart_ok (cwRepo w)"
  shows "cart_ok (cwRepo w')"
  using assms(1)
proof cases
  case (sets ctx req)
  show ?thesis
  proof (cases req)
    case None
    then show ?thesis using sets assms(2) by (simp add: CartServer_Set_def fail_def)
  next
    case (Some x)
    obtain u s q where x: "x = (u, s, q)" by (cases x)
    have "cart_ok (cwRepo (snd (Cart_Set catalog u s q w)))"
      by (cases "Cart_Set catalog u s q w") (auto elim!: Set_cases simp: assms(2) cart_ok_Set)
    then show ?thesis
      using sets Some x assms(2) guarded_snd [of "cart_auth ctx (cart_method ''Set'') u"
        "cart_answer (Cart_Set catalog u s q) itemProto" w]
      by (auto simp: CartServer_Set_def)
  qed
next
  case (deletes ctx req)
  show ?thesis
  proof (cases req)
    case None
    then show ?thesis using deletes assms(2) by (simp add: CartServer_Delete_def fail_def)
  next
    case (Some x)
    obtain u s where x: "x = (u, s)" by (cases x)
    have "cart_ok (cwRepo (snd (Cart_Delete u s w)))"
      using assms(2) by (simp add: Delete_runs cart_ok_Delete)
    then show ?thesis
      using deletes Some x assms(2) guarded_snd [of "cart_auth ctx (cart_method ''Delete'') u"
        "cart_answer (Cart_Delete u s) (\<lambda>_. True)" w]
      by (auto simp: CartServer_Delete_def)
  qed
next
  case (lists ks ctx user)
  then show ?thesis
    using assms(2) guarded_snd [of "cart_auth ctx (cart_method ''List'') (the user)"
        "cart_answer (Cart_List catalog ks (the user)) (map itemProto)" w]
    by (auto simp: CartServer_List_def fail_def List_keeps split: option.splits)
next
  case (previews ks ctx user)
  then show ?thesis
    using assms(2) guarded_snd [of "cart_auth ctx (cart_method ''Preview'') (the user)"
        "cart_answer (Cart_Preview catalog ks (the user))
           (\<lambda>v. (pvTotalAmountCents v, pvAvailable v, map itemProto (pvItems v)))" w]
    by (auto simp: CartServer_Preview_def fail_def Preview_keeps split: option.splits)
next
  case (elsewhere e)
  then show ?thesis using assms(2) by simp
qed

lemma new_cart_ok: "cart_ok NewCartRepository"
  by (simp add: NewCartRepository_def cart_ok_def)

interpretation cart: state_machine "\<lambda>w. cwRepo w = NewCartRepository" "cart_call catalog" "\<lambda>w. cart_ok (cwRepo w)"
  by unfold_locales (simp_all add: new_cart_ok cart_call_ok)

section \<open>Prices\<close>

lemma itemWithSKU_exact:
  assumes "itemWithSKU item sku = Inr priced"
  shows "priced = item\<lparr>lnSKU := sku, lnSubtotalCents := lnSubtotalCents priced\<rparr> \<and>
    sint (lnSubtotalCents priced) = sint (cskPriceCents sku) * sint (lnQuantity item) \<and> 0 \<le> sint (lnSubtotalCents priced)"
proof -
  let ?p = "sint (cskPriceCents sku)" and ?q = "sint (lnQuantity item)"
  have pq: "0 \<le> ?p" "0 < ?q" "?p = 0 \<or> ?q \<le> maxInt64 div ?p"
    and priced: "priced = item\<lparr>lnSKU := sku, lnSubtotalCents := cskPriceCents sku * word_of_int ?q\<rparr>"
    using assms by (auto simp: itemWithSKU_def split: if_splits)
  have "?p * ?q \<le> maxInt64"
  proof (cases "?p = 0")
    case False
    then have "?p * ?q \<le> ?p * (maxInt64 div ?p)" using pq by (simp add: mult_left_mono)
    also have "\<dots> \<le> maxInt64"
      using pq(1) False mult_div_mod_eq [of ?p maxInt64] pos_mod_sign [of ?p maxInt64] by linarith
    finally show ?thesis .
  qed (simp add: maxInt64_def)
  moreover have "0 \<le> ?p * ?q" using pq by simp
  ultimately have "sint (cskPriceCents sku * word_of_int ?q) = ?p * ?q"
    using sint64_mult [of "cskPriceCents sku" "word_of_int ?q", unfolded sint64_of_int32] by (simp add: maxInt64_def)
  with priced \<open>0 \<le> ?p * ?q\<close> show ?thesis by simp
qed

lemma itemWithSKU_fits:
  assumes "0 \<le> sint (cskPriceCents sku)" and "0 < sint (lnQuantity item)"
    and "sint (cskPriceCents sku) * sint (lnQuantity item) \<le> maxInt64"
  shows "\<exists>priced. itemWithSKU item sku = Inr priced"
proof (cases "cskPriceCents sku = 0")
  case False
  then have "sint (cskPriceCents sku) \<noteq> 0" by (simp add: signed_eq_0_iff)
  then have "sint (lnQuantity item) \<le> maxInt64 div sint (cskPriceCents sku)"
    using assms zdiv_mono1 [OF assms(3), of "sint (cskPriceCents sku)"] by simp
  with assms False show ?thesis by (simp add: itemWithSKU_def)
qed (use assms in \<open>simp add: itemWithSKU_def\<close>)

text \<open>A priced line is its cart line with what the catalog said of the SKU, or nothing at price zero.\<close>

definition priced_line :: "(uint64 \<rightharpoonup> CartSKU) \<Rightarrow> CartItem \<Rightarrow> CartItem \<Rightarrow> bool" where
  "priced_line byID i p \<longleftrightarrow> lnUserID p = lnUserID i \<and> lnSKUID p = lnSKUID i \<and> lnQuantity p = lnQuantity i \<and>
     lnSKU p = (case byID (lnSKUID i) of None \<Rightarrow> zero_sku | Some sku \<Rightarrow> sku) \<and>
     sint (lnSubtotalCents p) = sint (cskPriceCents (lnSKU p)) * sint (lnQuantity p) \<and> 0 \<le> sint (lnSubtotalCents p)"

lemma price_items_exact:
  "price_items byID items = Inr out \<Longrightarrow> list_all (\<lambda>i. lnSKU i = zero_sku \<and> lnSubtotalCents i = 0) items \<Longrightarrow>
   list_all2 (priced_line byID) items out"
proof (induction items arbitrary: out)
  case (Cons i items)
  then obtain p rest where out: "out = p # rest" "price_items byID items = Inr rest"
    and p: "(case byID (lnSKUID i) of None \<Rightarrow> Inr (i\<lparr>lnSKU := (lnSKU i)\<lparr>cskActive := False\<rparr>\<rparr>)
       | Some sku \<Rightarrow> itemWithSKU i sku) = Inr p"
    by (auto simp: bind_result_def split: sum.splits)
  have "priced_line byID i p"
  proof (cases "byID (lnSKUID i)")
    case None
    with p Cons.prems(2) show ?thesis by (auto simp: priced_line_def zero_sku_def)
  next
    case (Some sku)
    with p itemWithSKU_exact [of i sku p] show ?thesis
      by (auto simp: priced_line_def) (metis CartItem.select_convs CartItem.surjective CartItem.update_convs)+
  qed
  with Cons out show ?case by simp
qed simp

lemma add_lines_exact:
  "add_lines items preview = Inr out \<Longrightarrow> list_all (\<lambda>i. 0 \<le> sint (lnSubtotalCents i)) items \<Longrightarrow>
   0 \<le> sint (pvTotalAmountCents preview) \<Longrightarrow>
   sint (pvTotalAmountCents out) = sint (pvTotalAmountCents preview) + (\<Sum>i\<leftarrow>items. sint (lnSubtotalCents i)) \<and>
   pvAvailable out = (pvAvailable preview \<and> list_all line_available items) \<and> pvItems out = pvItems preview"
proof (induction items arbitrary: preview)
  case (Cons i items)
  let ?p = "if \<not> line_available i then preview\<lparr>pvAvailable := False\<rparr> else preview"
  let ?n = "?p\<lparr>pvTotalAmountCents := pvTotalAmountCents ?p + lnSubtotalCents i\<rparr>"
  have fits: "sint (pvTotalAmountCents preview) \<le> maxInt64 - sint (lnSubtotalCents i)" and rest: "add_lines items ?n = Inr out"
    using Cons.prems(1) by (auto simp: Let_def split: if_splits)
  have sum: "sint (pvTotalAmountCents ?n) = sint (pvTotalAmountCents preview) + sint (lnSubtotalCents i)"
    using fits Cons.prems(2,3) sint64_add [of "pvTotalAmountCents preview" "lnSubtotalCents i"]
    by (simp add: maxInt64_def)
  with Cons.IH [OF rest] Cons.prems(2,3) show ?case by auto
qed simp

lemma List_priced:
  assumes "cart_ok (cwRepo w)" and "range_order ks (cwRepo w)" and "Cart_List catalog ks u w = (Inr items, w')"
  shows "\<exists>byID. list_all2 (priced_line byID) (cart_lines (cwRepo w) u) items"
proof -
  have lines: "CartRepository_List ks u (cwRepo w) = (Inr (cart_lines (cwRepo w) u), cwRepo w)"
    using fst_List [OF assms(1,2), of u] by (simp add: CartRepository_List_def read_state_def)
  have "list_all (\<lambda>i. lnSKU i = zero_sku \<and> lnSubtotalCents i = 0) (cart_lines (cwRepo w) u)"
    by (simp add: cart_lines_def list_all_iff)
  note exact = price_items_exact [OF _ this]
  show ?thesis
  proof (cases "cart_lines (cwRepo w) u = []")
    case True
    then have "items = []"
      using assms(3) lines
      by (auto simp: Cart_List_def cart_repo_def and_then_def ret_def fail_def split: if_splits)
    with True show ?thesis by simp
  next
    case False
    then obtain skus where "price_items (index_skus skus) (cart_lines (cwRepo w) u) = Inr items"
      using assms(3) lines
      by (auto simp: Cart_List_def cart_repo_def cart_env_def and_then_def inspect_def of_result_def ret_def fail_def
          split: if_splits sum.splits prod.splits)
    then show ?thesis using exact by blast
  qed
qed

section \<open>What the service guarantees\<close>

text \<open>
  C37. The cart service keeps one cart per user, a map from SKUs to quantities. In every state
  it can reach, \<open>Set\<close> writes one entry of the cart of its user if it succeeds and nothing if it
  fails, \<open>Delete\<close> removes one entry and fails exactly when there is none, and \<open>List\<close> changes
  nothing and returns the whole cart of the user in ascending order of the SKUs, in whatever
  order the map iteration meets the entries. No call touches the cart of another user.
\<close>

theorem cart_refines_user_maps:
  assumes "cwRepo w0 = NewCartRepository" and "(cart_call catalog)\<^sup>*\<^sup>* w0 w" and "range_order ks (cwRepo w)"
  shows "(\<forall>s q res w'. Cart_Set catalog u s q w = (res, w') \<longrightarrow> carts (cwRepo w') = (case res of
        Inl _ \<Rightarrow> carts (cwRepo w) | Inr _ \<Rightarrow> (carts (cwRepo w))(u := (carts (cwRepo w) u)(s \<mapsto> q)))) \<and>
    (\<forall>s. u \<noteq> 0 \<longrightarrow> s \<noteq> 0 \<longrightarrow>
      fst (Cart_Delete u s w) = (if carts (cwRepo w) u s = None then Inl Cart_ErrNotFound else Inr ()) \<and>
      carts (cwRepo (snd (Cart_Delete u s w))) = (carts (cwRepo w))(u := (carts (cwRepo w) u)(s := None))) \<and>
    (\<forall>items w'. Cart_List catalog ks u w = (Inr items, w') \<longrightarrow> cwRepo w' = cwRepo w \<and>
      map (\<lambda>i. (lnUserID i, lnSKUID i, lnQuantity i)) items =
      map (\<lambda>s. (u, s, the (carts (cwRepo w) u s))) (sorted_list_of_set (dom (carts (cwRepo w) u))))"
proof -
  have ok: "cart_ok (cwRepo w)" using assms(1,2) by (rule cart.inv_reachable)
  have "carts (cwRepo w') = (case res of Inl _ \<Rightarrow> carts (cwRepo w)
      | Inr _ \<Rightarrow> (carts (cwRepo w))(u := (carts (cwRepo w) u)(s \<mapsto> q)))"
    if set: "Cart_Set catalog u s q w = (res, w')" for s q res w'
    using set by (cases rule: Set_cases) (simp_all add: carts_Set)
  moreover have "fst (Cart_Delete u s w) = (if carts (cwRepo w) u s = None then Inl Cart_ErrNotFound else Inr ()) \<and>
      carts (cwRepo (snd (Cart_Delete u s w))) = (carts (cwRepo w))(u := (carts (cwRepo w) u)(s := None))"
    if "u \<noteq> 0" "s \<noteq> 0" for s
    using that by (simp add: Delete_runs fst_Delete carts_Delete)
  moreover have "cwRepo w' = cwRepo w \<and> map (\<lambda>i. (lnUserID i, lnSKUID i, lnQuantity i)) items =
      map (\<lambda>s. (u, s, the (carts (cwRepo w) u s))) (sorted_list_of_set (dom (carts (cwRepo w) u)))"
    if list: "Cart_List catalog ks u w = (Inr items, w')" for items w'
  proof -
    obtain byID where "list_all2 (priced_line byID) (cart_lines (cwRepo w) u) items"
      using List_priced [OF ok assms(3) list] by blast
    then have "map (\<lambda>i. (lnUserID i, lnSKUID i, lnQuantity i)) items =
        map (\<lambda>i. (lnUserID i, lnSKUID i, lnQuantity i)) (cart_lines (cwRepo w) u)"
      by (induction rule: list_all2_induct) (simp_all add: priced_line_def)
    then show ?thesis
      using List_keeps [of catalog ks u w] list by (simp add: cart_lines_def comp_def)
  qed
  ultimately show ?thesis by blast
qed

text \<open>
  C38. A preview is exact: whatever the catalog quotes, in every reachable state a preview that
  succeeds lists the cart of the user, its total is the true sum of price times quantity over
  the lines (no sum or product wraps), and it is marked available exactly when every line has
  an active SKU and a quantity within the stock that the catalog reports.
\<close>

theorem cart_preview_exact:
  assumes "cwRepo w0 = NewCartRepository" and "(cart_call catalog)\<^sup>*\<^sup>* w0 w" and "range_order ks (cwRepo w)"
    and "Cart_Preview catalog ks u w = (Inr p, w')"
  shows "sint (pvTotalAmountCents p) = (\<Sum>i\<leftarrow>pvItems p. sint (cskPriceCents (lnSKU i)) * sint (lnQuantity i)) \<and>
    (pvAvailable p \<longleftrightarrow> list_all (\<lambda>i. cskActive (lnSKU i) \<and> sint (lnQuantity i) \<le> sint (cskAvailableStock (lnSKU i))) (pvItems p)) \<and>
    map (\<lambda>i. (lnSKUID i, Some (lnQuantity i))) (pvItems p) =
    map (\<lambda>s. (s, carts (cwRepo w) u s)) (sorted_list_of_set (dom (carts (cwRepo w) u)))"
proof -
  have ok: "cart_ok (cwRepo w)" using assms(1,2) by (rule cart.inv_reachable)
  obtain items w1 where list: "Cart_List catalog ks u w = (Inr items, w1)"
      and add: "add_lines items \<lparr>pvItems = items, pvTotalAmountCents = 0, pvAvailable = True\<rparr> = Inr p"
    using assms(4) by (auto simp: Cart_Preview_def of_result_def elim!: and_then_InrE)
  obtain byID where priced: "list_all2 (priced_line byID) (cart_lines (cwRepo w) u) items"
    using List_priced [OF ok assms(3) list] by blast
  then have each: "list_all (\<lambda>i. 0 \<le> sint (lnSubtotalCents i)) items"
      "map (\<lambda>i. sint (lnSubtotalCents i)) items = map (\<lambda>i. sint (cskPriceCents (lnSKU i)) * sint (lnQuantity i)) items"
      "map (\<lambda>i. (lnSKUID i, lnQuantity i)) items = map (\<lambda>i. (lnSKUID i, lnQuantity i)) (cart_lines (cwRepo w) u)"
    by (induction rule: list_all2_induct) (auto simp: priced_line_def)
  have lines: "map (\<lambda>i. (lnSKUID i, Some (lnQuantity i))) (cart_lines (cwRepo w) u) =
      map (\<lambda>s. (s, carts (cwRepo w) u s)) (sorted_list_of_set (dom (carts (cwRepo w) u)))"
    using finite_carts [OF ok, of u] by (auto simp: cart_lines_def)
  have "list_all (\<lambda>i. 0 < sint (lnQuantity i)) (cart_lines (cwRepo w) u)"
    using ok finite_carts [OF ok, of u] by (auto simp: cart_lines_def carts_def cart_ok_def list_all_iff)
  with priced have "list_all (\<lambda>i. 0 < sint (lnQuantity i)) items"
    by (induction rule: list_all2_induct) (simp_all add: priced_line_def)
  then have "list_all line_available items =
      list_all (\<lambda>i. cskActive (lnSKU i) \<and> sint (lnQuantity i) \<le> sint (cskAvailableStock (lnSKU i))) items"
    by (auto simp: list_all_iff line_available_def)
  moreover have "map (\<lambda>i. (lnSKUID i, Some (lnQuantity i))) items = map (\<lambda>i. (lnSKUID i, Some (lnQuantity i))) (cart_lines (cwRepo w) u)"
    using arg_cong [OF each(3), of "map (\<lambda>(s, q). (s, Some q))"] by (simp add: comp_def)
  ultimately show ?thesis
    using add_lines_exact [OF add each(1)] each(2) lines by (simp add: comp_def)
qed

section \<open>The cart against the catalog service\<close>

text \<open>The client of the cart connected to the server of the catalog.\<close>

definition catalog_rpc ::
  "(uint64 list \<times> bool) option \<Rightarrow> (CatalogRepository, CatalogSKUSnapshot option list) go" where
  "catalog_rpc req r =
     (case CatalogServer_GetSKUSnapshot req r of Inl e \<Rightarrow> (Inl e, r) | Inr items \<Rightarrow> (Inr (map Some items), r))"

definition catalog_backend :: "CatalogRepository catalog_client" where
  "catalog_backend = CartCatalogClient_GetSKUSnapshot (Some catalog_rpc)"

lemma snapshot_missing:
  "i \<in> set ids \<Longrightarrow> crSkus r i = None \<Longrightarrow> \<exists>e. snapshot_skus ids includeInactive r = Inl e"
  by (induction ids) (auto split: option.splits sum.splits)

lemma backend_missing:
  assumes "i \<in> set ids" and "crSkus r i = None"
  shows "\<exists>e. catalog_backend ids includeInactive r = (Inl (unavailable e), r)"
proof -
  obtain e where "snapshot_skus ids includeInactive r = Inl e" using snapshot_missing [OF assms] by blast
  moreover have "ids \<noteq> []" using assms(1) by auto
  ultimately show ?thesis
    by (intro exI [of _ "Catalog_mapError e"]) (simp add: catalog_backend_def CartCatalogClient_GetSKUSnapshot_def catalog_rpc_def CatalogServer_GetSKUSnapshot_def
        CatalogRepository_GetSKUSnapshot_def catalog_reply_def inspect_def fail_def)
qed

lemma backend_one:
  assumes "s \<noteq> 0"
  shows "catalog_backend [s] False r = (case crSkus r s of
      Some sku \<Rightarrow> if ctActive sku then (Inr [cart_sku (Some (skuToProto sku))], r)
        else (Inl (unavailable (Catalog_mapError Catalog_ErrNotFound)), r)
    | None \<Rightarrow> (Inl (unavailable (Catalog_mapError Catalog_ErrNotFound)), r))"
  using assms
  by (auto simp: catalog_backend_def CartCatalogClient_GetSKUSnapshot_def catalog_rpc_def CatalogServer_GetSKUSnapshot_def
      CatalogRepository_GetSKUSnapshot_def catalog_reply_def inspect_def fail_def ret_def split: option.split)

lemma statusError_unavailable: "statusError (unavailable e) = StatusError Unavailable ''catalog temporarily unavailable''"
  by (simp add: statusError_def unavailable_def Cart_ErrInvalidRequest_def Cart_ErrNotFound_def Cart_ErrUnavailable_def)

text \<open>A \<open>Set\<close> of an SKU that is on sale stores the line and prices it exactly.\<close>

lemma CartServer_Set_sells:
  assumes "u \<noteq> 0" and "s \<noteq> 0" and "0 < sint q" and "sint q \<le> 99" and "cart_auth ctx (cart_method ''Set'') u = Inr ()"
    and sku: "crSkus (cwEnv w) s = Some sku" "ctActive sku" "ctID sku = s" "0 \<le> sint (ctPriceCents sku)"
      "sint (ctPriceCents sku) * sint q \<le> maxInt64"
  shows "\<exists>item. CartServer_Set catalog_backend ctx (Some (u, s, q)) w =
         (Inr item, w\<lparr>cwRepo := (cwRepo w)(cartKey u s \<mapsto> cart_line u s q)\<rparr>) \<and>
         sint (cipSubtotalCents item) = sint (ctPriceCents sku) * sint q"
proof -
  let ?sku = "cart_sku (Some (skuToProto sku))"
  have f: "cskID ?sku = s" "cskActive ?sku" "cskPriceCents ?sku = ctPriceCents sku"
    using sku by (simp_all add: cart_sku_def skuToProto_def)
  obtain item where item: "itemWithSKU (cart_line u s q) ?sku = Inr item"
    using itemWithSKU_fits [of ?sku "cart_line u s q"] sku(4,5) assms(3) f(3) by auto
  from itemWithSKU_exact [OF item] have "sint (lnSubtotalCents item) = sint (ctPriceCents sku) * sint q"
    by (simp add: f(3))
  then show ?thesis
    using assms(1-5) sku(1,2) f(1,2) item
    by (intro exI [of _ "itemProto item"])
      (simp add: CartServer_Set_def guarded_def and_then_def of_result_def cart_answer_def inspect_def Cart_Set_def
        cart_env_def backend_one cart_repo_def CartRepository_Set_def modify_state_def ret_def itemProto_def)
qed

text \<open>
  The cart against the catalog service. A \<open>Set\<close> of an SKU that the catalog sells, at a price
  at which the line does not overflow, stores the line and returns its exact subtotal. A \<open>Set\<close>
  of an SKU that the catalog does not have, or has withdrawn, changes nothing but is answered
  with the status \<open>Unavailable\<close>, which tells the caller to try again, and not with \<open>NotFound\<close>:
  the client hides every error of the catalog behind \<open>ErrUnavailable\<close>. For the same reason one
  SKU in a cart that the catalog no longer has makes the listing of the whole cart unavailable.
\<close>

lemma cart_against_catalog:
  assumes "u \<noteq> 0" and "s \<noteq> 0" and "0 < sint q" and "sint q \<le> 99"
    and "cart_auth ctx (cart_method ''Set'') u = Inr ()" and "cart_auth ctx (cart_method ''List'') u = Inr ()"
    and "cart_ok (cwRepo w)" and "range_order ks (cwRepo w)"
  shows "(\<forall>sku. crSkus (cwEnv w) s = Some sku \<longrightarrow> ctActive sku \<longrightarrow> ctID sku = s \<longrightarrow> 0 \<le> sint (ctPriceCents sku) \<longrightarrow>
      sint (ctPriceCents sku) * sint q \<le> maxInt64 \<longrightarrow>
      (\<exists>item. CartServer_Set catalog_backend ctx (Some (u, s, q)) w =
         (Inr item, w\<lparr>cwRepo := (cwRepo w)(cartKey u s \<mapsto> cart_line u s q)\<rparr>) \<and>
         sint (cipSubtotalCents item) = sint (ctPriceCents sku) * sint q)) \<and>
    (crSkus (cwEnv w) s = None \<or> (\<exists>sku. crSkus (cwEnv w) s = Some sku \<and> \<not> ctActive sku) \<longrightarrow>
      CartServer_Set catalog_backend ctx (Some (u, s, q)) w =
        (Inl (StatusError Unavailable ''catalog temporarily unavailable''), w)) \<and>
    (crSkus (cwEnv w) s = None \<longrightarrow> carts (cwRepo w) u s \<noteq> None \<longrightarrow>
      CartServer_List catalog_backend ks ctx (Some u) w =
        (Inl (StatusError Unavailable ''catalog temporarily unavailable''), w))"
proof (intro conjI allI impI)
  fix sku
  assume sku: "crSkus (cwEnv w) s = Some sku" "ctActive sku" "ctID sku = s" "0 \<le> sint (ctPriceCents sku)"
    "sint (ctPriceCents sku) * sint q \<le> maxInt64"
  then show "\<exists>item. CartServer_Set catalog_backend ctx (Some (u, s, q)) w =
         (Inr item, w\<lparr>cwRepo := (cwRepo w)(cartKey u s \<mapsto> cart_line u s q)\<rparr>) \<and>
         sint (cipSubtotalCents item) = sint (ctPriceCents sku) * sint q"
    by (rule CartServer_Set_sells [OF assms(1-5)])
next
  assume "crSkus (cwEnv w) s = None \<or> (\<exists>sku. crSkus (cwEnv w) s = Some sku \<and> \<not> ctActive sku)"
  then show "CartServer_Set catalog_backend ctx (Some (u, s, q)) w =
      (Inl (StatusError Unavailable ''catalog temporarily unavailable''), w)"
    using assms(1-5)
    by (auto simp: CartServer_Set_def guarded_def and_then_def of_result_def cart_answer_def inspect_def Cart_Set_def
        cart_env_def backend_one fail_def mapCatalogError_def statusError_unavailable)
next
  assume missing: "crSkus (cwEnv w) s = None" "carts (cwRepo w) u s \<noteq> None"
  have lines: "CartRepository_List ks u (cwRepo w) = (Inr (cart_lines (cwRepo w) u), cwRepo w)"
    using fst_List [OF assms(7,8), of u] by (simp add: CartRepository_List_def read_state_def)
  have "s \<in> set (map lnSKUID (cart_lines (cwRepo w) u))"
    using missing(2) finite_carts [OF assms(7)] by (auto simp: cart_lines_def comp_def)
  moreover from this have "cart_lines (cwRepo w) u \<noteq> []" by auto
  moreover obtain e where "catalog_backend (map lnSKUID (cart_lines (cwRepo w) u)) True (cwEnv w) = (Inl (unavailable e), cwEnv w)"
    using backend_missing [OF calculation(1) missing(1)] by blast
  ultimately show "CartServer_List catalog_backend ks ctx (Some u) w =
      (Inl (StatusError Unavailable ''catalog temporarily unavailable''), w)"
    using assms(1,6) lines
    by (simp add: CartServer_List_def guarded_def and_then_def of_result_def cart_answer_def inspect_def Cart_List_def
        cart_env_def cart_repo_def fail_def mapCatalogError_def statusError_unavailable)
qed

section \<open>Example: the demonstration product in the cart of user 3\<close>

definition trolley :: "CatalogRepository cart_world" where
  "trolley = \<lparr>cwRepo = NewCartRepository, cwEnv = shelf\<rparr>"

definition trolley_context :: call_context where
  "trolley_context = \<lparr>cxMetadata = None, cxSecret = [], cxNow = 0\<rparr>"

definition loaded :: "CatalogRepository cart_world" where
  "loaded = trolley\<lparr>cwRepo := [cartKey 3 1 \<mapsto> cart_line 3 1 2]\<rparr>"

lemma trolley_auth [simp]: "cart_auth trolley_context m u = Inr ()"
  by (simp add: cart_auth_def trolley_context_def AuthorizeUser_def)

lemma trolley_order: "range_order [] (cwRepo trolley)"
  by (simp add: range_order_def trolley_def NewCartRepository_def)

lemma loaded_order: "range_order [cartKey 3 1] (cwRepo loaded)"
  by (simp add: range_order_def loaded_def)

lemma trolley_sets:
  "\<exists>item. CartServer_Set catalog_backend trolley_context (Some (3, 1, 2)) trolley = (Inr item, loaded) \<and>
     sint (cipSubtotalCents item) = 1399800"
  by (simp add: CartServer_Set_def guarded_def and_then_def of_result_def cart_answer_def inspect_def Cart_Set_def
      cart_env_def backend_one cart_repo_def CartRepository_Set_def modify_state_def ret_def itemProto_def
      trolley_def shelf_def NewCatalogRepository_def demo_sku_def cart_sku_def skuToProto_def itemWithSKU_def
      maxInt64_def loaded_def NewCartRepository_def cart_line_def)

lemma trolley_run: "(cart_call catalog_backend)\<^sup>*\<^sup>* trolley loaded"
proof -
  have "snd (CartServer_Set catalog_backend trolley_context (Some (3, 1, 2)) trolley) = loaded"
    using trolley_sets by auto
  then show ?thesis by (metis sets r_into_rtranclp)
qed

lemma cart_against_catalog_example:
  "CartServer_Set catalog_backend trolley_context (Some (3, 7, 2)) trolley =
     (Inl (StatusError Unavailable ''catalog temporarily unavailable''), trolley)"
  using cart_against_catalog [of 3 7 2 trolley_context trolley "[]"] trolley_order new_cart_ok
  by (simp add: trolley_def shelf_def NewCatalogRepository_def)

theorem cart_refines_user_maps_witness:
  "\<exists>res w'. Cart_Set catalog_backend 3 1 5 loaded = (res, w') \<and> carts (cwRepo w') 3 1 = Some 5 \<and>
     carts (cwRepo w') 4 = carts (cwRepo loaded) 4"
proof -
  obtain res w' where run: "Cart_Set catalog_backend 3 1 5 loaded = (res, w')" by fastforce
  moreover have "\<exists>item. res = Inr item"
    using run by (auto simp: Cart_Set_def inspect_def and_then_def of_result_def cart_env_def backend_one cart_repo_def
        CartRepository_Set_def modify_state_def ret_def trolley_def shelf_def NewCatalogRepository_def demo_sku_def
        cart_sku_def skuToProto_def itemWithSKU_def maxInt64_def loaded_def)
  moreover have "cwRepo trolley = NewCartRepository" by (simp add: trolley_def)
  ultimately show ?thesis
    using cart_refines_user_maps [OF _ trolley_run loaded_order, of 3, THEN conjunct1] by auto
qed

theorem cart_preview_exact_witness:
  "\<exists>p w'. Cart_Preview catalog_backend [cartKey 3 1] 3 loaded = (Inr p, w') \<and>
     sint (pvTotalAmountCents p) = (\<Sum>i\<leftarrow>pvItems p. sint (cskPriceCents (lnSKU i)) * sint (lnQuantity i))"
proof -
  have "\<exists>p w'. Cart_Preview catalog_backend [cartKey 3 1] 3 loaded = (Inr p, w')"
    by (simp add: Cart_Preview_def Cart_List_def CartRepository_List_def read_state_def loaded_def inspect_def and_then_def
        of_result_def cart_env_def cart_repo_def catalog_backend_def CartCatalogClient_GetSKUSnapshot_def catalog_rpc_def
        CatalogServer_GetSKUSnapshot_def CatalogRepository_GetSKUSnapshot_def catalog_reply_def ret_def trolley_def
        shelf_def NewCatalogRepository_def demo_sku_def cart_sku_def skuToProto_def itemWithSKU_def maxInt64_def
        index_skus_def Let_def)
  moreover have "cwRepo trolley = NewCartRepository" by (simp add: trolley_def)
  ultimately show ?thesis
    using cart_preview_exact [OF _ trolley_run loaded_order] by blast
qed

end
