(* ===== verification/Auth_Manager.thy ===== *)
theory Auth_Manager
  imports Internalcall
begin

text \<open>
  shared/platform/auth/manager.go: password hashes, access tokens and refresh tokens. The
  packages bcrypt and jwt are not part of the repository: what they compute is a parameter,
  the record \<open>auth_library\<close>, and the theorems name what they rely on of it. Random bytes come
  from the state of the caller, as the result of one \<open>rand.Read\<close>.
\<close>

section \<open>Libraries\<close>

record Claims =
  cmUserID :: uint64
  cmRole :: string
  cmTokenType :: string
  cmIssuer :: string
  cmSubject :: string
  cmIssuedAt :: time
  cmNotBefore :: time
  cmExpiresAt :: time

text \<open>
  \<open>bc_Generate\<close> is \<open>bcrypt.GenerateFromPassword\<close> at the default cost with the result of reading
  its salt, \<open>bc_Compare\<close> is \<open>bcrypt.CompareHashAndPassword\<close>. \<open>jwt_Sign\<close> is \<open>SignedString\<close> of a token
  with method HS256 under a secret; \<open>jwt_Parse secret issuer now raw\<close> is \<open>ParseWithClaims\<close> with a
  key function that admits HS256 only, the given issuer and a required expiry.
  \<open>jwt_NumericDate\<close> is the precision in which a token keeps a time.
\<close>

record auth_library =
  bc_Generate :: "nat list result \<Rightarrow> string \<Rightarrow> string result"
  bc_Compare :: "string \<Rightarrow> string \<Rightarrow> unit result"
  jwt_NumericDate :: "time \<Rightarrow> time"
  jwt_Sign :: "string \<Rightarrow> Claims \<Rightarrow> string result"
  jwt_Parse :: "string \<Rightarrow> string \<Rightarrow> time \<Rightarrow> string \<Rightarrow> Claims result"

section \<open>Manager\<close>

definition defaultIssuer :: string where [const_defs]: "defaultIssuer = ''seckill-commerce''"
definition accessType :: string where [const_defs]: "accessType = ''access''"

record Manager =
  mnSecret :: string
  mnAccessTTL :: duration
  mnRefreshTTL :: duration

record ManagerRefreshToken =
  mtRaw :: string
  mtHash :: string
  mtExpiresAt :: time

definition NewManager :: "string \<Rightarrow> duration \<Rightarrow> duration \<Rightarrow> Manager result" where
  "NewManager secret accessTTL refreshTTL =
     (if length (TrimSpace secret) < 32 then Inl (ErrorText ''JWT secret must not be shorter than 32'')
      else if accessTTL \<le> 0 \<or> refreshTTL \<le> 0 then Inl (ErrorText ''token lifetime must be positive'')
      else Inr \<lparr>mnSecret = secret, mnAccessTTL = accessTTL, mnRefreshTTL = refreshTTL\<rparr>)"

definition HashPassword :: "auth_library \<Rightarrow> nat list result \<Rightarrow> string \<Rightarrow> string result" where
  "HashPassword lib salt password =
     (if length password < 8 \<or> length password > 72
      then Inl (ErrorText ''password length must be between 8 and 72 characters'')
      else bc_Generate lib salt password)"

definition VerifyPassword :: "auth_library \<Rightarrow> string \<Rightarrow> string \<Rightarrow> unit result" where
  "VerifyPassword lib hash password = bc_Compare lib hash password"

definition access_claims :: "auth_library \<Rightarrow> Manager \<Rightarrow> uint64 \<Rightarrow> string \<Rightarrow> time \<Rightarrow> Claims" where
  "access_claims lib m userID role now =
     \<lparr>cmUserID = userID, cmRole = role, cmTokenType = accessType, cmIssuer = defaultIssuer,
      cmSubject = fmt_uint userID, cmIssuedAt = jwt_NumericDate lib now, cmNotBefore = jwt_NumericDate lib now,
      cmExpiresAt = jwt_NumericDate lib (now + mnAccessTTL m)\<rparr>"

definition IssueAccessToken ::
  "auth_library \<Rightarrow> Manager \<Rightarrow> uint64 \<Rightarrow> string \<Rightarrow> time \<Rightarrow> (string \<times> time) result" where
  "IssueAccessToken lib m userID role now =
     (if userID = 0 \<or> TrimSpace role = [] then Inl (ErrorText ''user and role must not be empty'')
      else case jwt_Sign lib (mnSecret m) (access_claims lib m userID role now) of
        Inl e \<Rightarrow> Inl e
      | Inr access \<Rightarrow> Inr (access, now + mnAccessTTL m))"

definition ParseAccessToken :: "auth_library \<Rightarrow> Manager \<Rightarrow> time \<Rightarrow> string \<Rightarrow> Claims result" where
  "ParseAccessToken lib m now raw =
     (case jwt_Parse lib (mnSecret m) defaultIssuer now raw of
        Inl _ \<Rightarrow> Inl (ErrorText ''access token invalid or expired'')
      | Inr claims \<Rightarrow>
          (if cmTokenType claims \<noteq> accessType \<or> cmUserID claims = 0 \<or> cmRole claims = []
           then Inl (ErrorText ''access token payload invalid'') else Inr claims))"

text \<open>\<open>base64.RawURLEncoding\<close>: three bytes become four characters, without padding.\<close>

definition base64url_char :: "nat \<Rightarrow> char" where
  "base64url_char n =
     char_of (if n < 26 then 65 + n else if n < 52 then 71 + n else if n < 62 then n - 4 else if n = 62 then 45 else 95)"

fun base64url :: "nat list \<Rightarrow> string" where
  "base64url [] = []"
| "base64url [a] = [base64url_char (a div 4), base64url_char (a mod 4 * 16)]"
| "base64url [a, b] = [base64url_char (a div 4), base64url_char (a mod 4 * 16 + b div 16),
     base64url_char (b mod 16 * 4)]"
| "base64url (a # b # c # bs) =
     base64url_char (a div 4) # base64url_char (a mod 4 * 16 + b div 16) #
     base64url_char (b mod 16 * 4 + c div 64) # base64url_char (c mod 64) # base64url bs"

definition HashOpaqueToken :: "string \<Rightarrow> string" where
  "HashOpaqueToken raw = sha256_hex raw"

definition IssueRefreshToken :: "Manager \<Rightarrow> nat list result \<Rightarrow> time \<Rightarrow> ManagerRefreshToken result" where
  "IssueRefreshToken m random now =
     (case random of
        Inl e \<Rightarrow> Inl (WrapError ''generate refresh token: '' e)
      | Inr buffer \<Rightarrow>
          Inr \<lparr>mtRaw = base64url buffer, mtHash = HashOpaqueToken (base64url buffer), mtExpiresAt = now + mnRefreshTTL m\<rparr>)"

section \<open>Encoded tokens\<close>

lemma base64url_char_inj: "m < 64 \<Longrightarrow> n < 64 \<Longrightarrow> base64url_char m = base64url_char n \<Longrightarrow> m = n"
  by (auto simp: base64url_char_def char_of_eq_iff take_bit_eq_mod split: if_splits)

lemma length_base64url: "length (base64url bs) = (4 * length bs + 2) div 3"
  by (induction bs rule: base64url.induct) auto

lemma digits_eq:
  fixes x y k :: nat
  assumes "y < k" and "y' < k" and "x * k + y = x' * k + y'"
  shows "x = x' \<and> y = y'"
proof -
  have "(x * k + y) div k = x" "(x' * k + y') div k = x'" using assms(1,2) by simp_all
  with assms(3) have "x = x'" by metis
  with assms(3) show ?thesis by simp
qed

text \<open>Different random bytes give different tokens.\<close>

lemma base64url_inj:
  assumes "length bs = length cs" and "\<forall>b \<in> set bs. b < 256" and "\<forall>c \<in> set cs. c < 256"
    and "base64url bs = base64url cs"
  shows "bs = cs"
  using assms
proof (induction bs arbitrary: cs rule: base64url.induct)
  case 1
  then show ?case by simp
next
  case (2 a)
  then obtain a' where cs: "cs = [a']" by (cases cs) auto
  with 2 have "a div 4 = a' div 4" "a mod 4 * 16 = a' mod 4 * 16" by (auto dest!: base64url_char_inj [rotated 2])
  with cs show ?case by (metis div_mult_mod_eq mult_cancel2 zero_neq_numeral)
next
  case (3 a b)
  then obtain a' b' where cs: "cs = [a', b']" by (cases cs rule: base64url.cases) auto
  have lt: "a div 4 < 64" "a' div 4 < 64" "a mod 4 * 16 + b div 16 < 64" "a' mod 4 * 16 + b' div 16 < 64"
      "b div 16 < 16" "b' div 16 < 16" "b mod 16 * 4 < 64" "b' mod 16 * 4 < 64"
    using 3(2,3) cs by auto
  from 3(4) cs have eqs: "a div 4 = a' div 4" "a mod 4 * 16 + b div 16 = a' mod 4 * 16 + b' div 16"
      "b mod 16 * 4 = b' mod 16 * 4"
    using base64url_char_inj [OF lt(1,2)] base64url_char_inj [OF lt(3,4)] base64url_char_inj [OF lt(7,8)] by simp_all
  have "a mod 4 = a' mod 4" "b div 16 = b' div 16" "b mod 16 = b' mod 16"
    using digits_eq [OF lt(5,6) eqs(2)] eqs(3) by simp_all
  with eqs cs show ?case by (metis div_mult_mod_eq)
next
  case (4 a b c bs)
  then obtain a' b' c' cs' where cs: "cs = a' # b' # c' # cs'" by (cases cs rule: base64url.cases) auto
  have lt: "a div 4 < 64" "a' div 4 < 64" "a mod 4 * 16 + b div 16 < 64" "a' mod 4 * 16 + b' div 16 < 64"
      "b mod 16 * 4 + c div 64 < 64" "b' mod 16 * 4 + c' div 64 < 64" "b div 16 < 16" "b' div 16 < 16"
      "c div 64 < 4" "c' div 64 < 4"
    using 4(3,4) cs by auto
  from 4(5) cs have chars: "a div 4 = a' div 4" "a mod 4 * 16 + b div 16 = a' mod 4 * 16 + b' div 16"
      "b mod 16 * 4 + c div 64 = b' mod 16 * 4 + c' div 64" "c mod 64 = c' mod 64" "base64url bs = base64url cs'"
    using base64url_char_inj lt by auto
  have "a mod 4 = a' mod 4" "b div 16 = b' div 16" "b mod 16 = b' mod 16" "c div 64 = c' div 64"
    using digits_eq [OF lt(7,8) chars(2)] digits_eq [OF lt(9,10) chars(3)] by simp_all
  with chars have "a = a'" "b = b'" "c = c'" by (metis div_mult_mod_eq)+
  moreover have "bs = cs'" using 4 cs chars(5) by simp
  ultimately show ?case using cs by simp
qed

section \<open>Access tokens\<close>

text \<open>
  Where the library parses what it signed, as long as the issuer is the expected one and the
  time lies between \<open>NotBefore\<close> and \<open>ExpiresAt\<close>, an access token is accepted until it expires
  and names the user and role it was issued for.
\<close>

lemma access_token_accepted:
  assumes "IssueAccessToken lib m u role now = Inr (access, expires)"
    and "\<And>c t. jwt_Sign lib (mnSecret m) c = Inr t \<Longrightarrow> cmNotBefore c \<le> later \<Longrightarrow> later < cmExpiresAt c \<Longrightarrow>
      jwt_Parse lib (mnSecret m) (cmIssuer c) later t = Inr c"
    and "jwt_NumericDate lib now \<le> later" and "later < jwt_NumericDate lib expires"
  shows "\<exists>c. ParseAccessToken lib m later access = Inr c \<and> cmUserID c = u \<and> cmRole c = role"
proof -
  have sign: "u \<noteq> 0" "TrimSpace role \<noteq> []" "jwt_Sign lib (mnSecret m) (access_claims lib m u role now) = Inr access"
      "expires = now + mnAccessTTL m"
    using assms(1) by (auto simp: IssueAccessToken_def split: if_splits sum.splits)
  then have "role \<noteq> []" by auto
  with assms(2) [OF sign(3)] assms(3,4) sign(1,4) show ?thesis
    by (simp add: access_claims_def ParseAccessToken_def)
qed

end
