(* ===== verification/Identity_Model.thy ===== *)
theory Identity_Model
  imports Order_Server Auth_Manager "HOL-Library.Product_Lexorder"
begin

text \<open>
  services/identity/internal/app: users, refresh tokens and addresses (model.go, repository.go),
  the in-memory repository (memory_repository.go) and the gRPC server (server.go), and the
  creation of the administrator at start-up (services/identity/cmd/identity-service/main.go).
  The bcrypt and jwt packages are the parameter \<open>lib\<close> of the theory of the token manager, and the Unicode
  case tables behind \<open>strings.ToLower\<close> are the parameter \<open>lower\<close>, which only matters for
  strings with bytes outside ASCII.
\<close>

section \<open>Data\<close>

definition RoleCustomer :: string where [const_defs]: "RoleCustomer = ''customer''"
definition RoleAdmin :: string where [const_defs]: "RoleAdmin = ''admin''"
definition StatusActive :: string where [const_defs]: "StatusActive = ''active''"

record User =
  usID :: uint64
  usEmail :: string
  usPasswordHash :: string
  usRole :: string
  usStatus :: string

record RefreshToken =
  rtUserID :: uint64
  rtTokenHash :: string
  rtExpiresAt :: time
  rtCreatedAt :: time

record UserAddress =
  uaID :: uint64
  uaUserID :: uint64
  uaRecipient :: string
  uaPhone :: string
  uaProvince :: string
  uaCity :: string
  uaDistrict :: string
  uaDetail :: string
  uaIsDefault :: bool

definition ErrAddressNotFound :: go_error where "ErrAddressNotFound = ErrorText ''identity address not found''"
definition ErrUserNotFound :: go_error where "ErrUserNotFound = ErrorText ''identity user not found''"
definition ErrEmailConflict :: go_error where "ErrEmailConflict = ErrorText ''identity email already exists''"
definition ErrTokenInvalid :: go_error where "ErrTokenInvalid = ErrorText ''identity refresh token invalid''"

text \<open>\<open>strings.ToLower\<close>: ASCII letters byte by byte, anything else by the Unicode tables.\<close>

definition ascii_lower :: "char \<Rightarrow> char" where
  "ascii_lower c = (let n = of_char c :: nat in if 65 \<le> n \<and> n \<le> 90 then char_of (n + 32) else c)"

definition ToLower :: "(string \<Rightarrow> string) \<Rightarrow> string \<Rightarrow> string" where
  "ToLower lower s = (if list_all (\<lambda>c. (of_char c :: nat) < 128) s then map ascii_lower s else lower s)"

section \<open>Repository\<close>

record IdentityRepository =
  irNextUserID :: uint64
  irNextAddressID :: uint64
  irUsers :: "uint64 \<rightharpoonup> User"
  irUsersByEmail :: "string \<rightharpoonup> uint64"
  irRefreshTokens :: "string \<rightharpoonup> RefreshToken"
  irAddresses :: "uint64 \<rightharpoonup> UserAddress"

definition add_address :: "UserAddress \<Rightarrow> IdentityRepository \<Rightarrow> IdentityRepository" where
  "add_address a r =
     (let i = (if uaID a = 0 then irNextAddressID r else uaID a) in
      r\<lparr>irNextAddressID := (if irNextAddressID r \<le> i then i + 1 else irNextAddressID r),
        irAddresses := (irAddresses r)(i \<mapsto> a\<lparr>uaID := i\<rparr>)\<rparr>)"

definition NewIdentityRepository :: "UserAddress list \<Rightarrow> IdentityRepository" where
  "NewIdentityRepository addresses =
     fold add_address addresses
       \<lparr>irNextUserID = 1, irNextAddressID = 1, irUsers = Map.empty, irUsersByEmail = Map.empty,
        irRefreshTokens = Map.empty, irAddresses = Map.empty\<rparr>"

definition new_user :: "uint64 \<Rightarrow> string \<Rightarrow> string \<Rightarrow> string \<Rightarrow> User" where
  "new_user i email hash role =
     \<lparr>usID = i, usEmail = email, usPasswordHash = hash, usRole = role, usStatus = StatusActive\<rparr>"

definition put_user :: "string \<Rightarrow> string \<Rightarrow> string \<Rightarrow> IdentityRepository \<Rightarrow> IdentityRepository" where
  "put_user email hash role r =
     r\<lparr>irNextUserID := irNextUserID r + 1,
       irUsers := (irUsers r)(irNextUserID r \<mapsto> new_user (irNextUserID r) email hash role),
       irUsersByEmail := (irUsersByEmail r)(email \<mapsto> irNextUserID r)\<rparr>"

definition CreateUser ::
  "(string \<Rightarrow> string) \<Rightarrow> string \<Rightarrow> string \<Rightarrow> string \<Rightarrow> (IdentityRepository, User) go" where
  "CreateUser lower email' hash role r =
     (let email = ToLower lower (TrimSpace email') in
      case irUsersByEmail r email of
        Some _ \<Rightarrow> (Inl ErrEmailConflict, r)
      | None \<Rightarrow> (Inr (new_user (irNextUserID r) email hash role), put_user email hash role r))"

definition zero_user :: User where
  "zero_user = \<lparr>usID = 0, usEmail = [], usPasswordHash = [], usRole = [], usStatus = []\<rparr>"

definition read_user :: "IdentityRepository \<Rightarrow> uint64 \<Rightarrow> User" where
  "read_user r i = (case irUsers r i of None \<Rightarrow> zero_user | Some u \<Rightarrow> u)"

definition FindUserByEmail :: "(string \<Rightarrow> string) \<Rightarrow> string \<Rightarrow> (IdentityRepository, User) go" where
  "FindUserByEmail lower email r =
     (case irUsersByEmail r (ToLower lower (TrimSpace email)) of
        None \<Rightarrow> (Inl ErrUserNotFound, r)
      | Some i \<Rightarrow> (Inr (read_user r i), r))"

definition StoreRefreshToken :: "RefreshToken \<Rightarrow> (IdentityRepository, unit) go" where
  "StoreRefreshToken t = modify_state (\<lambda>r. r\<lparr>irRefreshTokens := (irRefreshTokens r)(rtTokenHash t \<mapsto> t)\<rparr>)"

definition RotateRefreshToken :: "string \<Rightarrow> RefreshToken \<Rightarrow> time \<Rightarrow> (IdentityRepository, User) go" where
  "RotateRefreshToken oldHash replacement now r =
     (case irRefreshTokens r oldHash of
        None \<Rightarrow> (Inl ErrTokenInvalid, r)
      | Some existing \<Rightarrow>
          (if rtExpiresAt existing < now then (Inl ErrTokenInvalid, r)
           else case irUsers r (rtUserID existing) of
             None \<Rightarrow> (Inl ErrUserNotFound, r)
           | Some user \<Rightarrow>
               (if usStatus user \<noteq> StatusActive then (Inl ErrUserNotFound, r)
                else (Inr user,
                  r\<lparr>irRefreshTokens := ((irRefreshTokens r)(oldHash := None))
                      (rtTokenHash replacement \<mapsto> replacement\<lparr>rtUserID := rtUserID existing\<rparr>)\<rparr>))))"

definition EnsureAdmin :: "(string \<Rightarrow> string) \<Rightarrow> string \<Rightarrow> string \<Rightarrow> (IdentityRepository, unit) go" where
  "EnsureAdmin lower email' hash r =
     (let email = ToLower lower (TrimSpace email') in
      case irUsersByEmail r email of
        Some i \<Rightarrow> (Inr (), r\<lparr>irUsers := (irUsers r)(i \<mapsto> (read_user r i)\<lparr>usPasswordHash := hash,
            usRole := RoleAdmin, usStatus := StatusActive\<rparr>)\<rparr>)
      | None \<Rightarrow> (Inr (), put_user email hash RoleAdmin r))"

definition clearDefaults ::
  "uint64 \<Rightarrow> uint64 \<Rightarrow> (uint64 \<rightharpoonup> UserAddress) \<Rightarrow> (uint64 \<rightharpoonup> UserAddress)" where
  "clearDefaults userID exceptID addresses i =
     (case addresses i of
        None \<Rightarrow> None
      | Some a \<Rightarrow> (if uaUserID a = userID \<and> i \<noteq> exceptID \<and> uaIsDefault a then Some (a\<lparr>uaIsDefault := False\<rparr>) else Some a))"

definition put_address :: "UserAddress \<Rightarrow> IdentityRepository \<Rightarrow> IdentityRepository" where
  "put_address a r =
     r\<lparr>irAddresses := (if uaIsDefault a then clearDefaults (uaUserID a) (uaID a) (irAddresses r) else irAddresses r)
         (uaID a \<mapsto> a)\<rparr>"

definition CreateAddress :: "UserAddress \<Rightarrow> (IdentityRepository, UserAddress) go" where
  "CreateAddress a r =
     (let a' = a\<lparr>uaID := irNextAddressID r\<rparr> in
      (Inr a', put_address a' (r\<lparr>irNextAddressID := irNextAddressID r + 1\<rparr>)))"

definition UpdateAddress :: "UserAddress \<Rightarrow> (IdentityRepository, UserAddress) go" where
  "UpdateAddress a r =
     (case irAddresses r (uaID a) of
        None \<Rightarrow> (Inl ErrAddressNotFound, r)
      | Some current \<Rightarrow>
          (if uaUserID current \<noteq> uaUserID a then (Inl ErrAddressNotFound, r) else (Inr a, put_address a r)))"

definition DeleteAddress :: "uint64 \<Rightarrow> uint64 \<Rightarrow> (IdentityRepository, unit) go" where
  "DeleteAddress userID addressID r =
     (case irAddresses r addressID of
        None \<Rightarrow> (Inl ErrAddressNotFound, r)
      | Some a \<Rightarrow>
          (if uaUserID a \<noteq> userID then (Inl ErrAddressNotFound, r)
           else (Inr (), r\<lparr>irAddresses := (irAddresses r)(addressID := None)\<rparr>)))"

definition address_rank :: "UserAddress \<Rightarrow> nat \<times> uint64" where
  "address_rank a = (if uaIsDefault a then 0 else 1, uaID a)"

definition ListAddresses :: "uint64 list \<Rightarrow> uint64 \<Rightarrow> (IdentityRepository, UserAddress list) go" where
  "ListAddresses ks userID =
     read_state (\<lambda>r. sort_key address_rank (filter (\<lambda>a. uaUserID a = userID) (range_values ks (irAddresses r))))"

definition GetAddress :: "uint64 \<Rightarrow> uint64 \<Rightarrow> (IdentityRepository, UserAddress) go" where
  "GetAddress userID addressID r =
     (case irAddresses r addressID of
        None \<Rightarrow> (Inl ErrAddressNotFound, r)
      | Some a \<Rightarrow> (if uaUserID a \<noteq> userID then (Inl ErrAddressNotFound, r) else (Inr a, r)))"

section \<open>Server\<close>

text \<open>
  The world of the server: its repository, the clock (shared with the token manager) and the
  results of reading random bytes. The manager may be missing.
\<close>

record identity_world =
  iwRepo :: IdentityRepository
  iwNow :: clock
  iwRandom :: "nat list result stream"

definition identity_repo :: "(IdentityRepository, 'a) go \<Rightarrow> (identity_world, 'a) go" where
  "identity_repo m w = (case m (iwRepo w) of (res, r) \<Rightarrow> (res, w\<lparr>iwRepo := r\<rparr>))"

definition identity_now :: "(identity_world, time) go" where
  "identity_now w = (Inr (shd (iwNow w)), w\<lparr>iwNow := stl (iwNow w)\<rparr>)"

definition identity_random :: "(identity_world, nat list result) go" where
  "identity_random w = (Inr (shd (iwRandom w)), w\<lparr>iwRandom := stl (iwRandom w)\<rparr>)"

definition identity_method :: "string \<Rightarrow> string" where
  "identity_method name = ''/commerce.identity.v1.IdentityService/'' @ name"

definition authorizeSystem :: "call_context \<Rightarrow> string \<Rightarrow> (identity_world, unit) go" where
  "authorizeSystem ctx method =
     and_then identity_now (\<lambda>now. of_result
       (AuthorizeRole (cxMetadata ctx) (TrimSpace (cxSecret ctx)) method SystemActorID SystemRole now))"

definition authorizeUser :: "call_context \<Rightarrow> string \<Rightarrow> uint64 \<Rightarrow> (identity_world, unit) go" where
  "authorizeUser ctx method userID =
     and_then identity_now (\<lambda>now. of_result
       (AuthorizeUser (cxMetadata ctx) (TrimSpace (cxSecret ctx)) method userID now))"

definition normalizeCredentials ::
  "(string \<Rightarrow> string) \<Rightarrow> string \<Rightarrow> string \<Rightarrow> (string \<times> string) result" where
  "normalizeCredentials lower email' password' =
     (let email = ToLower lower (TrimSpace email'); password = TrimSpace password' in
      if email = [] \<or> CHR ''@'' \<notin> set email \<or> length email > 255
      then Inl (StatusError InvalidArgument ''email format invalid'')
      else if length password < 8 \<or> length password > 72
      then Inl (StatusError InvalidArgument ''password length must be between 8 and 72 characters'')
      else Inr (email, password))"

definition Identity_mapError :: "go_error \<Rightarrow> go_error" where
  "Identity_mapError err =
     (if errors_is err ErrAddressNotFound \<or> errors_is err ErrUserNotFound
      then StatusError NotFound ''resource does not exist''
      else if errors_is err ErrEmailConflict then StatusError AlreadyExists ''email already registered''
      else if errors_is err ErrTokenInvalid then StatusError Unauthenticated ''refresh token invalid''
      else StatusError Internal ''identity service temporarily unavailable'')"

definition identity_call :: "(IdentityRepository, 'a) go \<Rightarrow> (identity_world, 'a) go" where
  "identity_call m =
     inspect (identity_repo m) (\<lambda>res. case res of Inl err \<Rightarrow> fail (Identity_mapError err) | Inr v \<Rightarrow> ret v)"

record IdentityTokenPair =
  tpAccessToken :: string
  tpAccessExpiresAtUnix :: int
  tpRefreshToken :: string
  tpRefreshExpiresAtUnix :: int
  tpUserId :: uint64
  tpUserEmail :: string
  tpUserRole :: string
  tpUserStatus :: string

definition token_pair :: "string \<Rightarrow> time \<Rightarrow> ManagerRefreshToken \<Rightarrow> User \<Rightarrow> IdentityTokenPair" where
  "token_pair access accessExpires refresh user =
     \<lparr>tpAccessToken = access, tpAccessExpiresAtUnix = Unix accessExpires, tpRefreshToken = mtRaw refresh,
      tpRefreshExpiresAtUnix = Unix (mtExpiresAt refresh), tpUserId = usID user, tpUserEmail = usEmail user,
      tpUserRole = usRole user, tpUserStatus = usStatus user\<rparr>"

definition issueTokenPairWithRefresh ::
  "auth_library \<Rightarrow> Manager \<Rightarrow> User \<Rightarrow> ManagerRefreshToken \<Rightarrow> bool \<Rightarrow> (identity_world, IdentityTokenPair) go" where
  "issueTokenPairWithRefresh lib m user refresh store =
     and_then identity_now (\<lambda>issued.
       case IssueAccessToken lib m (usID user) (usRole user) issued of
         Inl _ \<Rightarrow> fail (StatusError Internal ''access token generation failed'')
       | Inr (access, accessExpires) \<Rightarrow>
           and_then (if store then and_then identity_now (\<lambda>now. identity_repo (StoreRefreshToken
               \<lparr>rtUserID = usID user, rtTokenHash = mtHash refresh, rtExpiresAt = mtExpiresAt refresh, rtCreatedAt = now\<rparr>))
             else ret ()) (\<lambda>_. ret (token_pair access accessExpires refresh user)))"

definition auth_missing :: go_error where
  "auth_missing = StatusError Unavailable ''identity authentication not ready''"

definition new_refresh :: "Manager \<Rightarrow> (identity_world, ManagerRefreshToken) go" where
  "new_refresh m =
     and_then identity_random (\<lambda>random. and_then identity_now (\<lambda>now.
       case IssueRefreshToken m random now of
         Inl _ \<Rightarrow> fail (StatusError Internal ''refresh token generation failed'')
       | Inr refresh \<Rightarrow> ret refresh))"

definition issueTokenPair ::
  "auth_library \<Rightarrow> Manager option \<Rightarrow> User \<Rightarrow> (identity_world, IdentityTokenPair) go" where
  "issueTokenPair lib auth user =
     (case auth of
        None \<Rightarrow> fail auth_missing
      | Some m \<Rightarrow> and_then (new_refresh m) (\<lambda>refresh. issueTokenPairWithRefresh lib m user refresh True))"

definition IdentityServer_Register ::
  "auth_library \<Rightarrow> (string \<Rightarrow> string) \<Rightarrow> Manager option \<Rightarrow> call_context \<Rightarrow> (string \<times> string) option \<Rightarrow>
   (identity_world, IdentityTokenPair) go" where
  "IdentityServer_Register lib lower auth ctx req =
     and_then (authorizeSystem ctx (identity_method ''Register'')) (\<lambda>_.
     case req of
       None \<Rightarrow> fail empty_request
     | Some (email', password') \<Rightarrow>
         and_then (of_result (normalizeCredentials lower email' password')) (\<lambda>(email, password).
         and_then identity_random (\<lambda>salt.
         case HashPassword lib salt password of
           Inl err \<Rightarrow> fail (StatusError InvalidArgument (error_text err))
         | Inr hash \<Rightarrow>
             and_then identity_now (\<lambda>_.
             and_then (identity_call (CreateUser lower email hash RoleCustomer)) (\<lambda>user.
               issueTokenPair lib auth user)))))"

definition bad_login :: go_error where
  "bad_login = StatusError Unauthenticated ''email or password wrong''"

definition IdentityServer_Login ::
  "auth_library \<Rightarrow> (string \<Rightarrow> string) \<Rightarrow> Manager option \<Rightarrow> call_context \<Rightarrow> (string \<times> string) option \<Rightarrow>
   (identity_world, IdentityTokenPair) go" where
  "IdentityServer_Login lib lower auth ctx req =
     and_then (authorizeSystem ctx (identity_method ''Login'')) (\<lambda>_.
     case req of
       None \<Rightarrow> fail empty_request
     | Some (email', password') \<Rightarrow>
         (case normalizeCredentials lower email' password' of
            Inl _ \<Rightarrow> fail bad_login
          | Inr (email, password) \<Rightarrow>
              inspect (identity_repo (FindUserByEmail lower email)) (\<lambda>found.
              case found of
                Inl _ \<Rightarrow> fail bad_login
              | Inr user \<Rightarrow>
                  (if usStatus user \<noteq> StatusActive \<or> VerifyPassword lib (usPasswordHash user) password \<noteq> Inr ()
                   then fail bad_login
                   else issueTokenPair lib auth user))))"

definition IdentityServer_Refresh ::
  "auth_library \<Rightarrow> Manager option \<Rightarrow> call_context \<Rightarrow> string option \<Rightarrow> (identity_world, IdentityTokenPair) go" where
  "IdentityServer_Refresh lib auth ctx req =
     and_then (authorizeSystem ctx (identity_method ''Refresh'')) (\<lambda>_.
     case req of
       None \<Rightarrow> fail (StatusError Unauthenticated ''refresh token invalid'')
     | Some token \<Rightarrow>
         (if TrimSpace token = [] then fail (StatusError Unauthenticated ''refresh token invalid'')
          else case auth of
            None \<Rightarrow> fail auth_missing
          | Some m \<Rightarrow>
              and_then (new_refresh m) (\<lambda>replacement.
              and_then identity_now (\<lambda>created. and_then identity_now (\<lambda>now.
              and_then (identity_call (RotateRefreshToken (HashOpaqueToken token)
                  \<lparr>rtUserID = 0, rtTokenHash = mtHash replacement, rtExpiresAt = mtExpiresAt replacement,
                   rtCreatedAt = created\<rparr> now)) (\<lambda>user.
                issueTokenPairWithRefresh lib m user replacement False))))))"

definition addressFromProto :: "uint64 \<Rightarrow> UserAddress \<Rightarrow> UserAddress" where
  "addressFromProto userID v =
     \<lparr>uaID = uaID v, uaUserID = userID, uaRecipient = TrimSpace (uaRecipient v), uaPhone = TrimSpace (uaPhone v),
      uaProvince = TrimSpace (uaProvince v), uaCity = TrimSpace (uaCity v), uaDistrict = TrimSpace (uaDistrict v),
      uaDetail = TrimSpace (uaDetail v), uaIsDefault = uaIsDefault v\<rparr>"

definition address_fields :: "UserAddress \<Rightarrow> (string \<times> string \<times> nat) list" where
  "address_fields a =
     [(''recipient'', uaRecipient a, 64), (''phone'', uaPhone a, 32), (''province'', uaProvince a, 64),
      (''city'', uaCity a, 64), (''district'', uaDistrict a, 64), (''detail'', uaDetail a, 255)]"

fun check_fields :: "(string \<times> string \<times> nat) list \<Rightarrow> unit result" where
  "check_fields [] = Inr ()"
| "check_fields ((name, text, limit) # rest) =
     (if text = [] \<or> rune_count text > limit
      then Inl (StatusError InvalidArgument (name @ '' must not be empty or longer than '' @ decimal limit))
      else check_fields rest)"

definition validateAddress :: "UserAddress \<Rightarrow> unit result" where
  "validateAddress a = check_fields (address_fields a)"

definition address_invalid :: go_error where
  "address_invalid = StatusError InvalidArgument ''address request invalid''"

text \<open>The message of an address has the fields of the stored address; its getters read a missing one as zero.\<close>

definition IdentityServer_CreateAddress ::
  "call_context \<Rightarrow> (uint64 \<times> UserAddress option) option \<Rightarrow> (identity_world, UserAddress) go" where
  "IdentityServer_CreateAddress ctx req =
     (case req of
        Some (userId, Some address) \<Rightarrow>
          (if userId = 0 then fail address_invalid
           else and_then (authorizeUser ctx (identity_method ''CreateAddress'') userId) (\<lambda>_.
             let a = addressFromProto userId address in
             and_then (of_result (validateAddress a)) (\<lambda>_.
             and_then identity_now (\<lambda>_. identity_call (CreateAddress a)))))
      | _ \<Rightarrow> fail address_invalid)"

definition IdentityServer_UpdateAddress ::
  "call_context \<Rightarrow> (uint64 \<times> uint64 \<times> UserAddress option) option \<Rightarrow> (identity_world, UserAddress) go" where
  "IdentityServer_UpdateAddress ctx req =
     (case req of
        Some (userId, addressId, Some address) \<Rightarrow>
          (if userId = 0 \<or> addressId = 0 then fail address_invalid
           else and_then (authorizeUser ctx (identity_method ''UpdateAddress'') userId) (\<lambda>_.
             let a = (addressFromProto userId address)\<lparr>uaID := addressId\<rparr> in
             and_then (of_result (validateAddress a)) (\<lambda>_.
             and_then identity_now (\<lambda>_. identity_call (UpdateAddress a)))))
      | _ \<Rightarrow> fail address_invalid)"

definition IdentityServer_DeleteAddress ::
  "call_context \<Rightarrow> (uint64 \<times> uint64) option \<Rightarrow> (identity_world, bool) go" where
  "IdentityServer_DeleteAddress ctx req =
     (case req of
        Some (userId, addressId) \<Rightarrow>
          (if userId = 0 \<or> addressId = 0 then fail address_invalid
           else and_then (authorizeUser ctx (identity_method ''DeleteAddress'') userId) (\<lambda>_.
             and_then (identity_call (DeleteAddress userId addressId)) (\<lambda>_. ret True)))
      | None \<Rightarrow> fail address_invalid)"

definition IdentityServer_ListAddresses ::
  "uint64 list \<Rightarrow> call_context \<Rightarrow> uint64 option \<Rightarrow> (identity_world, UserAddress list) go" where
  "IdentityServer_ListAddresses ks ctx req =
     (case req of
        Some userId \<Rightarrow>
          (if userId = 0 then fail (StatusError InvalidArgument ''user must not be empty'')
           else and_then (authorizeUser ctx (identity_method ''ListAddresses'') userId) (\<lambda>_.
             identity_call (ListAddresses ks userId)))
      | None \<Rightarrow> fail (StatusError InvalidArgument ''user must not be empty''))"

definition IdentityServer_GetAddressSnapshot ::
  "call_context \<Rightarrow> (uint64 \<times> uint64) option \<Rightarrow> (identity_world, IdentityAddressSnapshotResponse) go" where
  "IdentityServer_GetAddressSnapshot ctx req =
     (case req of
        Some (userId, addressId) \<Rightarrow>
          (if userId = 0 \<or> addressId = 0 then fail (StatusError InvalidArgument ''user and address must not be empty'')
           else and_then (authorizeUser ctx (identity_method ''GetAddressSnapshot'') userId) (\<lambda>_.
             and_then (identity_call (GetAddress userId addressId)) (\<lambda>v.
               ret \<lparr>iaAddressId = uaID v, iaUserId = uaUserID v, iaRecipient = uaRecipient v, iaPhone = uaPhone v,
                 iaProvince = uaProvince v, iaCity = uaCity v, iaDistrict = uaDistrict v, iaDetail = uaDetail v\<rparr>)))
      | None \<Rightarrow> fail (StatusError InvalidArgument ''user and address must not be empty''))"

section \<open>Start-up (cmd/identity-service/main.go)\<close>

text \<open>
  The administrator given by the environment is created at start-up; an error ends the process.
\<close>

definition init_admin ::
  "auth_library \<Rightarrow> (string \<Rightarrow> string) \<Rightarrow> string \<Rightarrow> string \<Rightarrow> (identity_world, unit) go" where
  "init_admin lib lower email' password =
     (let email = TrimSpace email' in
      if email \<noteq> [] \<or> password \<noteq> [] then
        and_then identity_random (\<lambda>salt.
        and_then (of_result (HashPassword lib salt password)) (\<lambda>hash.
          identity_repo (EnsureAdmin lower email hash)))
      else ret ())"

end
