(* ===== verification/Identity_Properties.thy ===== *)
theory Identity_Properties
  imports Identity_Model
begin

text \<open>
  What the identity service guarantees: accounts and addresses stay consistent on every run
  that is too short to exhaust the identifiers, registered credentials log in, a refresh token
  is good for one use, and a padded administrator password locks the administrator out.
\<close>

section \<open>The invariant of the repository\<close>

text \<open>
  Identifiers are drawn from counters of 64 bits. After \<open>n\<close> calls a counter is at most \<open>n + 1\<close>,
  so as long as \<open>n + 1 < 2 ^ 64\<close> no counter has wrapped and every identifier was new.
\<close>

definition accounts_ok :: "IdentityRepository \<Rightarrow> bool" where
  "accounts_ok r \<longleftrightarrow>
     (\<forall>i u. irUsers r i = Some u \<longrightarrow> usID u = i \<and> irUsersByEmail r (usEmail u) = Some i \<and>
        0 < unat i \<and> unat i < unat (irNextUserID r)) \<and>
     (\<forall>e i. irUsersByEmail r e = Some i \<longrightarrow> (\<exists>u. irUsers r i = Some u \<and> usEmail u = e))"

definition addresses_ok :: "IdentityRepository \<Rightarrow> bool" where
  "addresses_ok r \<longleftrightarrow>
     (\<forall>i a. irAddresses r i = Some a \<longrightarrow> uaID a = i \<and> unat i < unat (irNextAddressID r)) \<and>
     (\<forall>i j a b. irAddresses r i = Some a \<longrightarrow> irAddresses r j = Some b \<longrightarrow> uaUserID a = uaUserID b \<longrightarrow>
        uaIsDefault a \<longrightarrow> uaIsDefault b \<longrightarrow> i = j)"

definition counters_ok :: "nat \<Rightarrow> IdentityRepository \<Rightarrow> bool" where
  "counters_ok n r \<longleftrightarrow> 0 < unat (irNextUserID r) \<and> unat (irNextUserID r) \<le> Suc n \<and>
     0 < unat (irNextAddressID r) \<and> unat (irNextAddressID r) \<le> Suc n"

text \<open>The users and emails of an earlier state, \<open>U\<close> and \<open>E\<close>, are still there.\<close>

definition identity_inv :: "nat \<Rightarrow> (uint64 \<rightharpoonup> User) \<Rightarrow> (string \<rightharpoonup> uint64) \<Rightarrow> IdentityRepository \<Rightarrow> bool" where
  "identity_inv n U E r \<longleftrightarrow> (Suc n < 2 ^ 64 \<longrightarrow> counters_ok n r \<and> accounts_ok r \<and> addresses_ok r \<and>
     U \<subseteq>\<^sub>m irUsers r \<and> E \<subseteq>\<^sub>m irUsersByEmail r)"

lemma identity_inv_Suc: "identity_inv n U E r \<Longrightarrow> identity_inv (Suc n) U E r"
  by (auto simp: identity_inv_def counters_ok_def)

lemma identity_inv_new: "identity_inv 0 Map.empty Map.empty (NewIdentityRepository [])"
  by (simp add: identity_inv_def NewIdentityRepository_def counters_ok_def accounts_ok_def addresses_ok_def)

lemma unat_next: "unat (x :: uint64) \<le> Suc n \<Longrightarrow> Suc (Suc n) < 2 ^ 64 \<Longrightarrow> unat (x + 1) = Suc (unat x)"
  by (subst unat_add_lem [THEN iffD1]) auto

lemma put_user_ok:
  assumes "accounts_ok r" and "irUsersByEmail r e = None" and "0 < unat (irNextUserID r)"
    and "unat (irNextUserID r + 1) = Suc (unat (irNextUserID r))"
  shows "accounts_ok (put_user e h role r)"
proof -
  have new: "irUsers r (irNextUserID r) = None"
    using assms(1) by (metis accounts_ok_def less_irrefl not_Some_eq)
  show ?thesis
    unfolding accounts_ok_def
  proof (intro conjI allI impI)
    fix i u
    assume "irUsers (put_user e h role r) i = Some u"
    then consider (new) "i = irNextUserID r" "u = new_user i e h role" | (old) "irUsers r i = Some u" "i \<noteq> irNextUserID r"
      by (cases "i = irNextUserID r") (simp_all add: put_user_def)
    then have "usID u = i \<and> irUsersByEmail (put_user e h role r) (usEmail u) = Some i \<and> 0 < unat i \<and>
        unat i < unat (irNextUserID (put_user e h role r))"
    proof cases
      case new
      then show ?thesis using assms(3,4) by (simp add: put_user_def new_user_def)
    next
      case old
      then have "usEmail u \<noteq> e" using assms(1,2) by (auto simp: accounts_ok_def)
      with old assms(1,4) show ?thesis by (auto simp: accounts_ok_def put_user_def intro: less_SucI)
    qed
    then show "usID u = i" "irUsersByEmail (put_user e h role r) (usEmail u) = Some i" "0 < unat i"
      "unat i < unat (irNextUserID (put_user e h role r))" by simp_all
  next
    fix e' i
    assume "irUsersByEmail (put_user e h role r) e' = Some i"
    then show "\<exists>u. irUsers (put_user e h role r) i = Some u \<and> usEmail u = e'"
      using assms(1) new
      by (cases "e' = e"; cases "i = irNextUserID r") (auto simp: put_user_def new_user_def accounts_ok_def, fastforce)
  qed
qed

lemma put_address_ok:
  assumes "addresses_ok r" and "unat (uaID a) < unat (irNextAddressID r)"
  shows "addresses_ok (put_address a r)"
proof -
  let ?m = "irAddresses (put_address a r)"
  have other: "\<exists>b'. irAddresses r i = Some b' \<and> uaID b = uaID b' \<and> uaUserID b = uaUserID b' \<and> (uaIsDefault b \<longrightarrow> uaIsDefault b')
      \<and> (uaIsDefault a \<longrightarrow> uaUserID b = uaUserID a \<longrightarrow> \<not> uaIsDefault b)"
    if "?m i = Some b" "i \<noteq> uaID a" for i b
    using that by (auto simp: put_address_def clearDefaults_def split: if_splits option.splits)
  have self: "?m (uaID a) = Some a" by (simp add: put_address_def)
  have nxt: "irNextAddressID (put_address a r) = irNextAddressID r" by (simp add: put_address_def)
  show ?thesis
    unfolding addresses_ok_def nxt
  proof (intro conjI allI impI)
    fix i b
    assume i: "?m i = Some b"
    have "uaID b = i \<and> unat i < unat (irNextAddressID r)"
    proof (cases "i = uaID a")
      case True
      with i self assms(2) show ?thesis by simp
    next
      case False
      then obtain b' where "irAddresses r i = Some b'" "uaID b = uaID b'" using other [OF i] by blast
      with assms(1) show ?thesis by (simp add: addresses_ok_def)
    qed
    then show "uaID b = i" "unat i < unat (irNextAddressID r)" by simp_all
  next
    fix i j b c
    assume b: "?m i = Some b" and c: "?m j = Some c" and same: "uaUserID b = uaUserID c" "uaIsDefault b" "uaIsDefault c"
    show "i = j"
    proof (cases "i = uaID a \<or> j = uaID a")
      case True
      with b c self same other [OF b] other [OF c] show ?thesis by (cases "i = j") auto
    next
      case False
      with other [OF b] other [OF c] obtain b' c' where
        "irAddresses r i = Some b'" "irAddresses r j = Some c'" "uaUserID b' = uaUserID c'" "uaIsDefault b'" "uaIsDefault c'"
        using same by auto
      with assms(1) show ?thesis by (auto simp: addresses_ok_def)
    qed
  qed
qed

lemma put_address_users [simp]: "irUsers (put_address a r) = irUsers r" "irUsersByEmail (put_address a r) = irUsersByEmail r"
  by (simp_all add: put_address_def)

lemma put_user_grows:
  assumes "accounts_ok r" and "irUsersByEmail r e = None"
  shows "irUsers r \<subseteq>\<^sub>m irUsers (put_user e h role r)" "irUsersByEmail r \<subseteq>\<^sub>m irUsersByEmail (put_user e h role r)"
proof -
  have "irUsers r (irNextUserID r) = None"
    using assms(1) by (metis accounts_ok_def less_irrefl not_Some_eq)
  then show "irUsers r \<subseteq>\<^sub>m irUsers (put_user e h role r)" "irUsersByEmail r \<subseteq>\<^sub>m irUsersByEmail (put_user e h role r)"
    using assms(2) by (auto simp: put_user_def map_le_def)
qed

lemma accounts_ok_frame:
  "accounts_ok (put_address a r) = accounts_ok r" "accounts_ok (r\<lparr>irAddresses := m\<rparr>) = accounts_ok r"
  "accounts_ok (r\<lparr>irNextAddressID := k\<rparr>) = accounts_ok r" "accounts_ok (r\<lparr>irRefreshTokens := t\<rparr>) = accounts_ok r"
  by (simp_all add: accounts_ok_def put_address_def)

lemma addresses_ok_frame:
  "addresses_ok (put_user e h role r) = addresses_ok r" "addresses_ok (r\<lparr>irRefreshTokens := t\<rparr>) = addresses_ok r"
  by (simp_all add: addresses_ok_def put_user_def)

lemma counters_ok_frame:
  "counters_ok n (r\<lparr>irRefreshTokens := t\<rparr>) = counters_ok n r" "counters_ok n (r\<lparr>irAddresses := m\<rparr>) = counters_ok n r"
  "counters_ok n (put_address a r) = counters_ok n r"
  by (simp_all add: counters_ok_def put_address_def)

text \<open>Two methods draw an identifier; the others keep the invariant as it is.\<close>

lemma CreateUser_inv: "identity_inv n U E r \<Longrightarrow> identity_inv (Suc n) U E (snd (CreateUser lower e h role r))"
proof -
  assume inv: "identity_inv n U E r"
  show ?thesis
  proof (cases "irUsersByEmail r (ToLower lower (TrimSpace e))")
    case None
    let ?r = "put_user (ToLower lower (TrimSpace e)) h role r"
    have "counters_ok (Suc n) ?r \<and> accounts_ok ?r \<and> U \<subseteq>\<^sub>m irUsers ?r \<and> E \<subseteq>\<^sub>m irUsersByEmail ?r" if "Suc (Suc n) < 2 ^ 64"
    proof -
      have "counters_ok n r" "accounts_ok r" "U \<subseteq>\<^sub>m irUsers r" "E \<subseteq>\<^sub>m irUsersByEmail r"
        using inv that by (auto simp: identity_inv_def)
      moreover from this have "unat (irNextUserID r + 1) = Suc (unat (irNextUserID r))"
        using that by (intro unat_next) (auto simp: counters_ok_def)
      ultimately show ?thesis
        using put_user_ok [OF _ None, of h role] put_user_grows [OF _ None, of h role]
        by (auto simp: counters_ok_def intro: map_le_trans) (simp_all add: put_user_def)
    qed
    with None inv show ?thesis
      by (simp add: CreateUser_def Let_def identity_inv_def addresses_ok_frame)
  qed (use identity_inv_Suc [OF inv] in \<open>simp add: CreateUser_def Let_def\<close>)
qed

lemma CreateAddress_inv: "identity_inv n U E r \<Longrightarrow> identity_inv (Suc n) U E (snd (CreateAddress a r))"
proof -
  assume inv: "identity_inv n U E r"
  let ?r = "r\<lparr>irNextAddressID := irNextAddressID r + 1\<rparr>" and ?a = "a\<lparr>uaID := irNextAddressID r\<rparr>"
  have "counters_ok (Suc n) (put_address ?a ?r) \<and> addresses_ok (put_address ?a ?r)" if "Suc (Suc n) < 2 ^ 64"
  proof -
    have c: "counters_ok n r" "addresses_ok r" using inv that by (auto simp: identity_inv_def)
    then have "unat (irNextAddressID r + 1) = Suc (unat (irNextAddressID r))"
      using that by (intro unat_next) (auto simp: counters_ok_def)
    with c have "addresses_ok ?r" "unat (uaID ?a) < unat (irNextAddressID ?r)" "counters_ok (Suc n) ?r"
      by (auto simp: addresses_ok_def counters_ok_def intro: less_SucI)
    then show ?thesis by (simp add: put_address_ok counters_ok_frame)
  qed
  with inv show ?thesis by (simp add: CreateAddress_def Let_def identity_inv_def accounts_ok_frame)
qed

lemma UpdateAddress_inv: "identity_inv n U E r \<Longrightarrow> identity_inv n U E (snd (UpdateAddress a r))"
  by (auto simp: UpdateAddress_def identity_inv_def accounts_ok_frame counters_ok_frame split: option.splits
      intro!: put_address_ok) (auto simp: addresses_ok_def)

lemma DeleteAddress_inv: "identity_inv n U E r \<Longrightarrow> identity_inv n U E (snd (DeleteAddress u i r))"
  by (auto simp: DeleteAddress_def identity_inv_def accounts_ok_frame counters_ok_frame split: option.splits)
    (auto simp: addresses_ok_def split: if_splits)

lemma Rotate_inv: "identity_inv n U E r \<Longrightarrow> identity_inv n U E (snd (RotateRefreshToken h t now r))"
  by (auto simp: RotateRefreshToken_def identity_inv_def accounts_ok_frame addresses_ok_frame counters_ok_frame
      split: option.splits)

lemma Store_inv: "identity_inv n U E r \<Longrightarrow> identity_inv n U E (snd (StoreRefreshToken t r))"
  by (simp add: StoreRefreshToken_def modify_state_def identity_inv_def accounts_ok_frame addresses_ok_frame counters_ok_frame)

lemma reading_inv: "snd (FindUserByEmail lower e r) = r" "snd (ListAddresses ks u r) = r" "snd (GetAddress u i r) = r"
  by (simp_all add: FindUserByEmail_def ListAddresses_def GetAddress_def read_state_def split: option.split)

section \<open>Handlers\<close>

text \<open>
  Most methods preserve the invariant as it is. \<open>takes P m Q\<close>: method \<open>m\<close> leads from states with
  \<open>P\<close> to states with \<open>Q\<close>, whether it fails or not; a handler draws at most one identifier.
\<close>

definition takes :: "('w \<Rightarrow> bool) \<Rightarrow> ('w, 'a) go \<Rightarrow> ('w \<Rightarrow> bool) \<Rightarrow> bool" where
  "takes P m Q \<longleftrightarrow> (\<forall>w. P w \<longrightarrow> Q (snd (m w)))"

definition within :: "nat \<Rightarrow> (uint64 \<rightharpoonup> User) \<Rightarrow> (string \<rightharpoonup> uint64) \<Rightarrow> identity_world \<Rightarrow> bool" where
  "within n U E w \<longleftrightarrow> identity_inv n U E (iwRepo w)"

lemma takes_preserves: "preserves (within n U E) m \<Longrightarrow> takes (within n U E) m (within (Suc n) U E)"
  by (simp add: takes_def preserves_def within_def identity_inv_Suc)

lemma takes_after:
  assumes "preserves (within n U E) m" and "\<And>x. takes (within n U E) (f x) (within (Suc n) U E)"
  shows "takes (within n U E) (and_then m f) (within (Suc n) U E)"
  unfolding takes_def
proof (intro allI impI)
  fix w assume "within n U E w"
  obtain res w' where m: "m w = (res, w')" by (cases "m w")
  with assms(1) \<open>within n U E w\<close> have "within n U E w'" by (rule preservesD)
  with m assms(2) show "within (Suc n) U E (snd (and_then m f w))"
    by (cases res) (auto simp: and_then_def takes_def within_def identity_inv_Suc)
qed

lemma takes_before:
  assumes "takes P m Q" and "\<And>x. preserves Q (f x)"
  shows "takes P (and_then m f) Q"
  unfolding takes_def
proof (intro allI impI)
  fix w assume "P w"
  obtain res w' where m: "m w = (res, w')" by (cases "m w")
  then have "Q w'" using assms(1) \<open>P w\<close> by (metis snd_conv takes_def)
  with m assms(2) show "Q (snd (and_then m f w))" by (cases res) (auto simp: and_then_def preserves_def)
qed

lemma takes_call:
  assumes "\<And>r. identity_inv n U E r \<Longrightarrow> identity_inv k U E (snd (m r))"
  shows "takes (within n U E) (identity_call m) (within k U E)"
proof -
  have "snd (identity_call m w) = w\<lparr>iwRepo := snd (m (iwRepo w))\<rparr>" for w
    by (auto simp: identity_repo_def identity_call_def inspect_def fail_def ret_def split: prod.split sum.split)
  with assms show ?thesis by (simp add: takes_def within_def)
qed

lemma preserves_identity_call:
  "(\<And>r. identity_inv n U E r \<Longrightarrow> identity_inv n U E (snd (m r))) \<Longrightarrow> preserves (within n U E) (identity_call m)"
  using takes_call [of n U E n m] by (simp add: takes_def preserves_def)

lemma preserves_identity_repo:
  "(\<And>r. identity_inv n U E r \<Longrightarrow> identity_inv n U E (snd (m r))) \<Longrightarrow> preserves (within n U E) (identity_repo m)"
  by (simp add: preserves_def within_def identity_repo_def split: prod.split) (metis snd_conv)

lemma preserves_identity_basic [pres_intros]:
  "preserves (within n U E) identity_now" "preserves (within n U E) identity_random"
  by (simp_all add: preserves_def within_def identity_now_def identity_random_def)

lemma preserves_authorize [pres_intros]:
  "preserves (within n U E) (authorizeSystem ctx method)" "preserves (within n U E) (authorizeUser ctx method u)"
  by (simp_all add: authorizeSystem_def authorizeUser_def pres_intros)

lemma preserves_new_refresh [pres_intros]: "preserves (within n U E) (new_refresh m)"
  by (auto simp: new_refresh_def intro!: pres_intros)

lemma preserves_token_pair [pres_intros]:
  "preserves (within n U E) (issueTokenPairWithRefresh lib m u t b)" "preserves (within n U E) (issueTokenPair lib auth u)"
  by (auto simp: issueTokenPairWithRefresh_def issueTokenPair_def intro!: pres_intros preserves_identity_repo Store_inv)

lemma Register_within: "takes (within n U E) (IdentityServer_Register lib lower auth ctx req) (within (Suc n) U E)"
  unfolding IdentityServer_Register_def
  by (auto intro!: takes_after takes_before [OF takes_call] CreateUser_inv pres_intros
      split: option.split sum.split prod.split intro: takes_preserves)

lemma CreateAddress_within: "takes (within n U E) (IdentityServer_CreateAddress ctx req) (within (Suc n) U E)"
  unfolding IdentityServer_CreateAddress_def Let_def
  by (auto intro!: takes_after takes_call CreateAddress_inv pres_intros split: option.split prod.split
      intro: takes_preserves)

lemma Login_within: "preserves (within n U E) (IdentityServer_Login lib lower auth ctx req)"
  unfolding IdentityServer_Login_def
  by (auto intro!: pres_intros preserves_identity_repo simp: reading_inv split: option.split sum.split prod.split)

lemma Refresh_within: "preserves (within n U E) (IdentityServer_Refresh lib auth ctx req)"
  unfolding IdentityServer_Refresh_def
  by (auto intro!: pres_intros preserves_identity_call Rotate_inv split: option.split)

lemma other_calls_within:
  "preserves (within n U E) (IdentityServer_UpdateAddress ctx req1)"
  "preserves (within n U E) (IdentityServer_DeleteAddress ctx req2)"
  "preserves (within n U E) (IdentityServer_ListAddresses ks ctx req3)"
  "preserves (within n U E) (IdentityServer_GetAddressSnapshot ctx req4)"
  unfolding IdentityServer_UpdateAddress_def IdentityServer_DeleteAddress_def IdentityServer_ListAddresses_def
    IdentityServer_GetAddressSnapshot_def Let_def
  by (auto intro!: pres_intros preserves_identity_call UpdateAddress_inv DeleteAddress_inv simp: reading_inv
      split: option.split prod.split)

inductive identity_call_step ::
  "auth_library \<Rightarrow> (string \<Rightarrow> string) \<Rightarrow> Manager option \<Rightarrow> identity_world \<Rightarrow> identity_world \<Rightarrow> bool"
  for lib lower auth where
  registers: "identity_call_step lib lower auth w (snd (IdentityServer_Register lib lower auth ctx creds w))"
| logs_in: "identity_call_step lib lower auth w (snd (IdentityServer_Login lib lower auth ctx creds w))"
| refreshes: "identity_call_step lib lower auth w (snd (IdentityServer_Refresh lib auth ctx token w))"
| adds_address: "identity_call_step lib lower auth w (snd (IdentityServer_CreateAddress ctx new w))"
| updates_address: "identity_call_step lib lower auth w (snd (IdentityServer_UpdateAddress ctx upd w))"
| deletes_address: "identity_call_step lib lower auth w (snd (IdentityServer_DeleteAddress ctx del w))"
| lists_addresses: "identity_call_step lib lower auth w (snd (IdentityServer_ListAddresses ks ctx user w))"
| reads_address: "identity_call_step lib lower auth w (snd (IdentityServer_GetAddressSnapshot ctx addr w))"

lemma keep_within: "preserves (within n U E) m \<Longrightarrow> within n U E w \<Longrightarrow> within (Suc n) U E (snd (m w))"
  by (simp add: preserves_def within_def identity_inv_Suc)

lemma identity_call_within:
  assumes "identity_call_step lib lower auth w w'" and "within n U E w"
  shows "within (Suc n) U E w'"
  using assms(1)
proof cases
  case (registers ctx creds)
  then show ?thesis using Register_within assms(2) by (simp add: takes_def)
next
  case (adds_address ctx new)
  then show ?thesis using CreateAddress_within assms(2) by (simp add: takes_def)
qed (simp_all add: keep_within [OF _ assms(2)] Login_within Refresh_within other_calls_within)

text \<open>Runs with their number of calls.\<close>

definition counted_step :: "auth_library \<Rightarrow> (string \<Rightarrow> string) \<Rightarrow> Manager option \<Rightarrow>
    nat \<times> identity_world \<Rightarrow> nat \<times> identity_world \<Rightarrow> bool" where
  "counted_step lib lower auth p q \<longleftrightarrow> fst q = Suc (fst p) \<and> identity_call_step lib lower auth (snd p) (snd q)"

interpretation identity: state_machine "\<lambda>(n, w). within n U E w" "counted_step lib lower auth" "\<lambda>(n, w). within n U E w"
  by unfold_locales (auto simp: counted_step_def identity_call_within)

section \<open>Accounts and addresses\<close>

text \<open>
  Start-up may set up an administrator under an email that is taken: the account stays where it
  is and only its password, role and status are replaced.
\<close>

lemma accounts_ok_replace:
  assumes "accounts_ok r" and "irUsers r i = Some u" and "usID u' = usID u" and "usEmail u' = usEmail u"
  shows "accounts_ok (r\<lparr>irUsers := (irUsers r)(i \<mapsto> u')\<rparr>)"
proof -
  have user: "usID v = j \<and> irUsersByEmail r (usEmail v) = Some j \<and> 0 < unat j \<and> unat j < unat (irNextUserID r)"
    if "irUsers r j = Some v" for j v
    using assms(1) that unfolding accounts_ok_def by blast
  have email: "\<exists>v. irUsers r j = Some v \<and> usEmail v = e" if "irUsersByEmail r e = Some j" for j e
    using assms(1) that unfolding accounts_ok_def by blast
  show ?thesis
    using user [OF assms(2)] user email assms(2-4) by (auto simp: accounts_ok_def) (metis option.inject)
qed

lemma EnsureAdmin_inv:
  assumes inv: "identity_inv n Map.empty Map.empty r"
  shows "identity_inv (Suc n) Map.empty Map.empty (snd (EnsureAdmin lower e h r))"
proof (cases "irUsersByEmail r (ToLower lower (TrimSpace e))")
  case None
  then have "snd (EnsureAdmin lower e h r) = snd (CreateUser lower e h RoleAdmin r)"
    by (simp add: EnsureAdmin_def CreateUser_def Let_def)
  with CreateUser_inv [OF inv] show ?thesis by simp
next
  case (Some i)
  have "accounts_ok (r\<lparr>irUsers := (irUsers r)(i \<mapsto> (read_user r i)\<lparr>usPasswordHash := h, usRole := RoleAdmin,
      usStatus := StatusActive\<rparr>)\<rparr>)" if "accounts_ok r"
  proof -
    from that Some obtain u where u: "irUsers r i = Some u" unfolding accounts_ok_def by blast
    with accounts_ok_replace [OF that u] show ?thesis by (simp add: read_user_def)
  qed
  with identity_inv_Suc [OF inv] Some show ?thesis
    by (auto simp: EnsureAdmin_def Let_def identity_inv_def counters_ok_def addresses_ok_def)
qed

lemma init_admin_within: "takes (within n Map.empty Map.empty) (init_admin lib lower email password) (within (Suc n) Map.empty Map.empty)"
proof -
  have "takes (within n Map.empty Map.empty) (identity_repo (EnsureAdmin lower e h)) (within (Suc n) Map.empty Map.empty)" for e h
    using EnsureAdmin_inv by (auto simp: takes_def within_def identity_repo_def split: prod.split) (metis snd_conv)
  then show ?thesis
    unfolding init_admin_def Let_def
    by (auto intro!: takes_after pres_intros intro: takes_preserves)
qed

text \<open>Runs with their number of calls that may also start up.\<close>

inductive start_or_call :: "auth_library \<Rightarrow> (string \<Rightarrow> string) \<Rightarrow> Manager option \<Rightarrow>
    nat \<times> identity_world \<Rightarrow> nat \<times> identity_world \<Rightarrow> bool"
  for lib lower auth where
  calls: "counted_step lib lower auth p q \<Longrightarrow> start_or_call lib lower auth p q"
| starts: "start_or_call lib lower auth (n, w) (Suc n, snd (init_admin lib lower email password w))"

interpretation started: state_machine "\<lambda>(n, w). within n Map.empty Map.empty w" "start_or_call lib lower auth"
  "\<lambda>(n, w). within n Map.empty Map.empty w"
  by unfold_locales (auto simp: counted_step_def identity_call_within init_admin_within [unfolded takes_def] elim!: start_or_call.cases)

text \<open>
  C28. As long as fewer than \<open>2 ^ 64 - 1\<close> calls have been made, of the gRPC methods or of the
  set-up of an administrator at start-up, in any order, the records of the identity
  service are consistent: an email belongs to at most one user, a user is filed under her own
  identifier, which is not zero, and is found under her email; a user has at most one default
  address; and an address is only ever returned to the user it belongs to.
\<close>

theorem identity_records_consistent:
  assumes "iwRepo w0 = NewIdentityRepository []" and "(start_or_call lib lower auth)\<^sup>*\<^sup>* (0, w0) (n, w)" and "Suc n < 2 ^ 64"
  shows "(\<forall>i j u v. irUsers (iwRepo w) i = Some u \<longrightarrow> irUsers (iwRepo w) j = Some v \<longrightarrow> usEmail u = usEmail v \<longrightarrow> i = j) \<and>
    (\<forall>i u. irUsers (iwRepo w) i = Some u \<longrightarrow> usID u = i \<and> i \<noteq> 0 \<and> irUsersByEmail (iwRepo w) (usEmail u) = Some i) \<and>
    (\<forall>i j a b. irAddresses (iwRepo w) i = Some a \<longrightarrow> irAddresses (iwRepo w) j = Some b \<longrightarrow>
      uaUserID a = uaUserID b \<longrightarrow> uaIsDefault a \<longrightarrow> uaIsDefault b \<longrightarrow> i = j) \<and>
    (\<forall>ctx u i v w'. IdentityServer_GetAddressSnapshot ctx (Some (u, i)) w = (Inr v, w') \<longrightarrow> iaUserId v = u \<and> iaAddressId v = i) \<and>
    (\<forall>u a. a \<in> set (case fst (ListAddresses ks u (iwRepo w)) of Inl _ \<Rightarrow> [] | Inr as \<Rightarrow> as) \<longrightarrow> uaUserID a = u)"
proof -
  have "within 0 Map.empty Map.empty w0" using assms(1) by (simp add: within_def identity_inv_new)
  then have "within n Map.empty Map.empty w"
    using started.inv_steps [OF assms(2)] by simp
  then have ok: "accounts_ok (iwRepo w)" "addresses_ok (iwRepo w)"
    using assms(3) by (simp_all add: within_def identity_inv_def)
  have "i = j" if "irUsers (iwRepo w) i = Some u" "irUsers (iwRepo w) j = Some v" "usEmail u = usEmail v" for i j u v
    using ok(1) that unfolding accounts_ok_def by (metis option.inject)
  moreover have "usID u = i \<and> i \<noteq> 0 \<and> irUsersByEmail (iwRepo w) (usEmail u) = Some i" if "irUsers (iwRepo w) i = Some u" for i u
    using ok(1) that unfolding accounts_ok_def by (metis less_irrefl unat_0)
  moreover have "i = j" if "irAddresses (iwRepo w) i = Some a" "irAddresses (iwRepo w) j = Some b" "uaUserID a = uaUserID b"
      "uaIsDefault a" "uaIsDefault b" for i j a b
    using ok(2) that unfolding addresses_ok_def by blast
  moreover have "iaUserId v = u \<and> iaAddressId v = i"
    if got: "IdentityServer_GetAddressSnapshot ctx (Some (u, i)) w = (Inr v, w')" for ctx u i v w'
  proof -
    have repo: "iwRepo (snd (authorizeUser ctx (identity_method ''GetAddressSnapshot'') u w)) = iwRepo w"
      by (simp add: authorizeUser_def and_then_def identity_now_def of_result_def)
    obtain a where "irAddresses (iwRepo w) i = Some a" "uaUserID a = u" "iaUserId v = uaUserID a" "iaAddressId v = uaID a"
      using got repo
      by (auto simp: IdentityServer_GetAddressSnapshot_def identity_call_def inspect_def identity_repo_def GetAddress_def
          ret_def fail_def split: if_splits option.splits elim!: and_then_InrE)
    with ok(2) show ?thesis by (simp add: addresses_ok_def)
  qed
  moreover have "uaUserID a = u" if "a \<in> set (case fst (ListAddresses ks u (iwRepo w)) of Inl _ \<Rightarrow> [] | Inr as \<Rightarrow> as)" for u a
    using that by (simp add: ListAddresses_def read_state_def)
  ultimately show ?thesis by blast
qed

section \<open>Credentials\<close>

lemma issueTokenPair_Inr:
  assumes "issueTokenPair lib auth u w = (Inr pair, w')"
  shows "tpUserId pair = usID u \<and> tpUserEmail pair = usEmail u \<and> irUsers (iwRepo w') = irUsers (iwRepo w) \<and>
    irUsersByEmail (iwRepo w') = irUsersByEmail (iwRepo w) \<and>
    (\<exists>t. irRefreshTokens (iwRepo w') (HashOpaqueToken (tpRefreshToken pair)) = Some t \<and> rtUserID t = usID u)"
  using assms
  by (auto simp: issueTokenPair_def issueTokenPairWithRefresh_def new_refresh_def IssueRefreshToken_def identity_random_def
      identity_now_def identity_repo_def StoreRefreshToken_def modify_state_def token_pair_def ret_def fail_def
      split: option.splits sum.splits prod.splits elim!: and_then_InrE)

lemma issueTokenPair_runs:
  assumes "usID u \<noteq> 0" and "TrimSpace (usRole u) \<noteq> []" and "\<And>c. \<exists>t. jwt_Sign lib (mnSecret m) c = Inr t"
    and "shd (iwRandom w) = Inr buffer"
  shows "\<exists>pair w'. issueTokenPair lib (Some m) u w = (Inr pair, w')"
proof -
  obtain t where "jwt_Sign lib (mnSecret m) (access_claims lib m (usID u) (usRole u) (shd (stl (iwNow w)))) = Inr t"
    using assms(3) by blast
  with assms show ?thesis
    by (simp add: issueTokenPair_def issueTokenPairWithRefresh_def new_refresh_def IssueRefreshToken_def identity_random_def
      identity_now_def identity_repo_def StoreRefreshToken_def modify_state_def ret_def and_then_def IssueAccessToken_def)
qed

text \<open>The account behind an email.\<close>

definition account :: "(string \<Rightarrow> string) \<Rightarrow> string \<Rightarrow> User \<Rightarrow> IdentityRepository \<Rightarrow> bool" where
  "account lower email u r \<longleftrightarrow>
     irUsersByEmail r (ToLower lower (TrimSpace email)) = Some (usID u) \<and> irUsers r (usID u) = Some u"

lemma Register_Inr:
  assumes "IdentityServer_Register lib lower auth ctx (Some (e, p)) w = (Inr pair, w')"
  obtains email password salt hash u where "normalizeCredentials lower e p = Inr (email, password)"
    and "bc_Generate lib salt password = Inr hash" and "account lower email u (iwRepo w')"
    and "usPasswordHash u = hash" and "usStatus u = StatusActive" and "usRole u = RoleCustomer"
    and "tpUserId pair = usID u"
proof -
  obtain w1 x w2 salt w3 hash w4 user w5 where parts:
    "normalizeCredentials lower e p = Inr x" "HashPassword lib salt (snd x) = Inr hash"
    "identity_call (CreateUser lower (fst x) hash RoleCustomer) w4 = (Inr user, w5)"
    "issueTokenPair lib auth user w5 = (Inr pair, w')"
    using assms
    by (auto simp: IdentityServer_Register_def of_result_def fail_def split: prod.splits sum.splits elim!: and_then_InrE)
  have "iwRepo w5 = put_user (ToLower lower (TrimSpace (fst x))) hash RoleCustomer (iwRepo w4) \<and>
      user = new_user (irNextUserID (iwRepo w4)) (ToLower lower (TrimSpace (fst x))) hash RoleCustomer"
    using parts(3)
    by (auto simp: identity_call_def inspect_def identity_repo_def CreateUser_def Let_def fail_def ret_def
        split: option.splits)
  with issueTokenPair_Inr [OF parts(4)] have "account lower (fst x) user (iwRepo w')" "usPasswordHash user = hash"
      "usStatus user = StatusActive" "usRole user = RoleCustomer" "tpUserId pair = usID user"
    by (auto simp: account_def put_user_def new_user_def)
  then show ?thesis
    using that [of "fst x" "snd x" salt hash user] parts(1,2) by (auto simp: HashPassword_def split: if_splits)
qed

lemma Login_account:
  assumes "normalizeCredentials lower e p = Inr (email, password)" and "account lower email u (iwRepo w)"
    and "authorizeSystem ctx (identity_method ''Login'') w = (Inr (), w1)"
  shows "IdentityServer_Login lib lower auth ctx (Some (e, p)) w =
    (if usStatus u \<noteq> StatusActive \<or> VerifyPassword lib (usPasswordHash u) password \<noteq> Inr () then (Inl bad_login, w1)
     else issueTokenPair lib auth u w1)"
proof -
  have "iwRepo w = iwRepo w1"
    using assms(3) by (auto simp: authorizeSystem_def and_then_def identity_now_def of_result_def)
  with assms show ?thesis
    by (simp add: IdentityServer_Login_def and_then_def inspect_def identity_repo_def FindUserByEmail_def read_user_def
        account_def fail_def)
qed

text \<open>
  C29. Registered credentials log in. Assume that bcrypt accepts the password a hash was made
  from and that tokens can be signed. Once a registration has succeeded, at any later time (up
  to \<open>2 ^ 64 - 2\<close> calls) a login with the same email and password, up to surrounding space and the
  case of the email, succeeds for the same user and stores a refresh token of hers; with any
  other password that bcrypt does not accept, the login is refused and nothing is stored.
\<close>

theorem registered_credentials_log_in:
  assumes "\<And>salt pw h. bc_Generate lib salt pw = Inr h \<Longrightarrow> bc_Compare lib h pw = Inr ()"
    and "\<And>c. \<exists>t. jwt_Sign lib (mnSecret m) c = Inr t"
    and "iwRepo w0 = NewIdentityRepository []" and "(counted_step lib lower auth)\<^sup>*\<^sup>* (0, w0) (n, w)"
    and "IdentityServer_Register lib lower auth ctx (Some (e, p)) w = (Inr pair, w1)"
    and "(counted_step lib lower auth)\<^sup>*\<^sup>* (Suc n, w1) (k, w2)" and "Suc k < 2 ^ 64"
    and "authorizeSystem ctx' (identity_method ''Login'') w2 = (Inr (), w3)" and "shd (iwRandom w2) = Inr buffer"
  shows "\<exists>u. (\<forall>e' p'. normalizeCredentials lower e' p' = normalizeCredentials lower e p \<longrightarrow>
      (\<exists>pair' w4 t. IdentityServer_Login lib lower (Some m) ctx' (Some (e', p')) w2 = (Inr pair', w4) \<and>
         tpUserId pair' = tpUserId pair \<and>
         irRefreshTokens (iwRepo w4) (HashOpaqueToken (tpRefreshToken pair')) = Some t \<and> rtUserID t = tpUserId pair)) \<and>
    (\<forall>e' p' email pw pw'. normalizeCredentials lower e p = Inr (email, pw) \<longrightarrow>
      normalizeCredentials lower e' p' = Inr (email, pw') \<longrightarrow> bc_Compare lib (usPasswordHash u) pw' \<noteq> Inr () \<longrightarrow>
      IdentityServer_Login lib lower (Some m) ctx' (Some (e', p')) w2 = (Inl bad_login, w3)) \<and>
    irUsers (iwRepo w2) (tpUserId pair) = Some u"
proof -
  obtain email password salt hash u where reg: "normalizeCredentials lower e p = Inr (email, password)"
    "bc_Generate lib salt password = Inr hash" "account lower email u (iwRepo w1)" "usPasswordHash u = hash"
    "usStatus u = StatusActive" "usRole u = RoleCustomer" "tpUserId pair = usID u"
    using assms(5) by (rule Register_Inr)
  have "within 0 Map.empty Map.empty w0" using assms(3) by (simp add: within_def identity_inv_new)
  then have "within n Map.empty Map.empty w"
    using identity.inv_steps [OF assms(4), of Map.empty Map.empty] by simp
  then have "within (Suc n) Map.empty Map.empty w1"
    using Register_within [of n Map.empty Map.empty lib lower auth ctx] assms(5) by (metis takes_def snd_conv)
  then have "within (Suc n) (irUsers (iwRepo w1)) (irUsersByEmail (iwRepo w1)) w1"
    by (simp add: within_def identity_inv_def)
  then have "within k (irUsers (iwRepo w1)) (irUsersByEmail (iwRepo w1)) w2"
    using identity.inv_steps [OF assms(6)] by simp
  then have later: "irUsers (iwRepo w1) \<subseteq>\<^sub>m irUsers (iwRepo w2)" "irUsersByEmail (iwRepo w1) \<subseteq>\<^sub>m irUsersByEmail (iwRepo w2)"
      "accounts_ok (iwRepo w2)"
    using assms(7) by (simp_all add: within_def identity_inv_def)
  have acc: "account lower email u (iwRepo w2)"
    using reg(3) later(1,2) unfolding account_def map_le_def by (metis domI)
  then have "usID u \<noteq> 0" using later(3) unfolding account_def accounts_ok_def by (metis less_irrefl unat_0)
  have w3: "iwRandom w3 = iwRandom w2"
    using assms(8) by (auto simp: authorizeSystem_def and_then_def identity_now_def of_result_def)
  have "TrimSpace RoleCustomer \<noteq> []" by (simp add: RoleCustomer_def TrimSpace_graphic graphic_def)
  then obtain pair' w4 where pair: "issueTokenPair lib (Some m) u w3 = (Inr pair', w4)"
    using issueTokenPair_runs [of u lib m w3 buffer] assms(2,9) reg(6) \<open>usID u \<noteq> 0\<close> w3 by metis
  have good: "IdentityServer_Login lib lower (Some m) ctx' (Some (e', p')) w2 = (Inr pair', w4)"
    if "normalizeCredentials lower e' p' = normalizeCredentials lower e p" for e' p'
    using Login_account [OF _ acc assms(8), of e' p' password lib "Some m"] that reg assms(1) [OF reg(2)] pair
    by (simp add: VerifyPassword_def)
  have bad: "IdentityServer_Login lib lower (Some m) ctx' (Some (e', p')) w2 = (Inl bad_login, w3)"
    if "normalizeCredentials lower e' p' = Inr (email, pw')" "bc_Compare lib (usPasswordHash u) pw' \<noteq> Inr ()" for e' p' pw'
    using Login_account [OF that(1) acc assms(8), of lib "Some m"] that(2) by (simp add: VerifyPassword_def)
  show ?thesis
    by (intro exI [of _ u]) (use good bad issueTokenPair_Inr [OF pair] reg acc in \<open>auto simp: account_def\<close>)
qed

text \<open>
  An administrator whose configured password starts or ends with white space can never log
  in. The process hashes the password as it was given, but a login trims the password it
  receives before comparing; bcrypt accepts no password but the one that was hashed, so every
  login to that account is refused.
\<close>

lemma padded_admin_password_locks_out:
  assumes "TrimSpace password \<noteq> password"
    and "\<And>salt pw h pw'. bc_Generate lib salt pw = Inr h \<Longrightarrow> bc_Compare lib h pw' = Inr () \<Longrightarrow> pw' = pw"
    and "init_admin lib lower email password w = (Inr (), w1)"
    and "accounts_ok (iwRepo w)" and "normalizeCredentials lower e p = Inr (TrimSpace email, pw)"
    and "authorizeSystem ctx (identity_method ''Login'') w1 = (Inr (), w2)"
  shows "IdentityServer_Login lib lower auth ctx (Some (e, p)) w1 = (Inl bad_login, w2)"
proof -
  let ?e = "ToLower lower (TrimSpace (TrimSpace email))"
  have "password \<noteq> []" using assms(1) by auto
  then obtain salt hash w' where hash: "bc_Generate lib salt password = Inr hash"
      and admin: "identity_repo (EnsureAdmin lower (TrimSpace email) hash) w' = (Inr (), w1)" and w': "iwRepo w' = iwRepo w"
    using assms(3)
    by (auto simp: init_admin_def Let_def identity_random_def of_result_def HashPassword_def split: if_splits elim!: and_then_InrE)
  have "\<exists>u. account lower (TrimSpace email) u (iwRepo w1) \<and> usPasswordHash u = hash"
  proof (cases "irUsersByEmail (iwRepo w) ?e")
    case None
    with admin w' show ?thesis
      by (intro exI [of _ "new_user (irNextUserID (iwRepo w)) ?e hash RoleAdmin"])
        (auto simp: identity_repo_def EnsureAdmin_def Let_def account_def put_user_def new_user_def)
  next
    case (Some i)
    then obtain u where "irUsers (iwRepo w) i = Some u" "usID u = i" using assms(4) unfolding accounts_ok_def by blast
    with Some admin w' show ?thesis
      by (auto simp: identity_repo_def EnsureAdmin_def Let_def account_def read_user_def
          intro!: exI [of _ "u\<lparr>usPasswordHash := hash, usRole := RoleAdmin, usStatus := StatusActive\<rparr>"])
  qed
  then obtain u where u: "account lower (TrimSpace email) u (iwRepo w1)" "usPasswordHash u = hash" by blast
  have "pw \<noteq> password" using assms(1,5) by (auto simp: normalizeCredentials_def Let_def split: if_splits)
  then have "bc_Compare lib hash pw \<noteq> Inr ()" using assms(2) [OF hash] by blast
  with Login_account [OF assms(5) u(1) assms(6), of lib auth] u(2) show ?thesis by (simp add: VerifyPassword_def)
qed

section \<open>Refresh tokens\<close>

text \<open>
  A token hash is gone for good when it is not stored and none of the random draws to come
  leads to it.
\<close>

definition spent :: "string \<Rightarrow> identity_world \<Rightarrow> bool" where
  "spent h w \<longleftrightarrow> irRefreshTokens (iwRepo w) h = None \<and>
     (\<forall>b. Inr b \<in> sset (iwRandom w) \<longrightarrow> HashOpaqueToken (base64url b) \<noteq> h)"

lemma preserves_after_value:
  assumes "preserves P m" and "\<And>x w w'. P w \<Longrightarrow> m w = (Inr x, w') \<Longrightarrow> preserves P (f x)"
  shows "preserves P (and_then m f)"
proof (rule preservesI)
  fix w assume "P w"
  obtain res w' where m: "m w = (res, w')" by (cases "m w")
  with assms(1) \<open>P w\<close> have "P w'" by (rule preservesD)
  with assms(2) [OF \<open>P w\<close>] m show "P (snd (and_then m f w))"
    by (cases res) (auto simp: and_then_def preserves_def)
qed

lemma spent_stl: "(\<forall>b. Inr b \<in> sset s \<longrightarrow> Q b) \<Longrightarrow> (\<forall>b. Inr b \<in> sset (stl s) \<longrightarrow> Q b)"
  by (meson stl_sset)

lemma preserves_spent_basic [pres_intros]:
  "preserves (spent h) identity_now" "preserves (spent h) identity_random"
  by (auto simp: preserves_def spent_def identity_now_def identity_random_def dest: spent_stl [THEN spec, THEN mp] stl_sset)

lemma preserves_spent_authorize [pres_intros]:
  "preserves (spent h) (authorizeSystem ctx method)" "preserves (spent h) (authorizeUser ctx method u)"
  by (simp_all add: authorizeSystem_def authorizeUser_def pres_intros)

lemma preserves_spent_call:
  "(\<And>r. irRefreshTokens r h = None \<Longrightarrow> irRefreshTokens (snd (m r)) h = None) \<Longrightarrow> preserves (spent h) (identity_call m)"
  "(\<And>r. irRefreshTokens r h = None \<Longrightarrow> irRefreshTokens (snd (m r)) h = None) \<Longrightarrow> preserves (spent h) (identity_repo m)"
proof -
  have snd: "snd (identity_call m w) = w\<lparr>iwRepo := snd (m (iwRepo w))\<rparr>" "snd (identity_repo m w) = w\<lparr>iwRepo := snd (m (iwRepo w))\<rparr>" for w
    by (auto simp: identity_repo_def identity_call_def inspect_def fail_def ret_def split: prod.split sum.split)
  show "preserves (spent h) (identity_call m)" "preserves (spent h) (identity_repo m)"
    if "\<And>r. irRefreshTokens r h = None \<Longrightarrow> irRefreshTokens (snd (m r)) h = None"
    using that by (simp_all add: preserves_def spent_def snd)
qed

lemma preserves_spent_new_refresh [pres_intros]: "preserves (spent h) (new_refresh m)"
  by (auto simp: new_refresh_def intro!: pres_intros)

lemma new_refresh_fresh: "spent h w \<Longrightarrow> new_refresh m w = (Inr t, w') \<Longrightarrow> mtHash t \<noteq> h"
  by (cases "iwRandom w",
    auto simp: new_refresh_def spent_def identity_random_def identity_now_def IssueRefreshToken_def fail_def ret_def
      split: sum.splits elim!: and_then_InrE) blast

lemma preserves_spent_pair:
  "mtHash t \<noteq> h \<Longrightarrow> preserves (spent h) (issueTokenPairWithRefresh lib m u t b)"
  by (auto simp: issueTokenPairWithRefresh_def StoreRefreshToken_def modify_state_def
      intro!: pres_intros preserves_spent_call split: sum.split)

lemma preserves_spent_issue [pres_intros]: "preserves (spent h) (issueTokenPair lib auth u)"
  by (auto simp: issueTokenPair_def intro!: pres_intros preserves_after_value preserves_spent_pair
      split: option.split dest: new_refresh_fresh)

lemma preserves_spent_calls:
  "preserves (spent h) (IdentityServer_Register lib lower auth ctx creds)"
  "preserves (spent h) (IdentityServer_Login lib lower auth ctx creds)"
  "preserves (spent h) (IdentityServer_CreateAddress ctx new)"
  "preserves (spent h) (IdentityServer_UpdateAddress ctx upd)"
  "preserves (spent h) (IdentityServer_DeleteAddress ctx del)"
  "preserves (spent h) (IdentityServer_ListAddresses ks ctx user)"
  "preserves (spent h) (IdentityServer_GetAddressSnapshot ctx addr)"
  unfolding IdentityServer_Register_def IdentityServer_Login_def IdentityServer_CreateAddress_def
    IdentityServer_UpdateAddress_def IdentityServer_DeleteAddress_def IdentityServer_ListAddresses_def
    IdentityServer_GetAddressSnapshot_def Let_def
  by (auto intro!: pres_intros preserves_spent_call
      simp: reading_inv CreateUser_def Let_def put_user_def CreateAddress_def UpdateAddress_def DeleteAddress_def put_address_def
      split: option.split sum.split prod.split)

lemma preserves_spent_refresh: "preserves (spent h) (IdentityServer_Refresh lib auth ctx token)"
  unfolding IdentityServer_Refresh_def
  by (auto intro!: pres_intros preserves_after_value [where m = "new_refresh _"] preserves_spent_call preserves_spent_pair
      simp: RotateRefreshToken_def split: option.split dest: new_refresh_fresh)

lemma spent_step: "identity_call_step lib lower auth w w' \<Longrightarrow> spent h w \<Longrightarrow> spent h w'"
  by (induction rule: identity_call_step.induct) (simp_all add: preserves_snd preserves_spent_calls preserves_spent_refresh)

lemma spent_run: "(identity_call_step lib lower auth)\<^sup>*\<^sup>* w w' \<Longrightarrow> spent h w \<Longrightarrow> spent h w'"
  by (induction rule: rtranclp_induct) (auto intro: spent_step)

lemma new_refresh_repo: "new_refresh m w = (res, w') \<Longrightarrow> iwRepo w' = iwRepo w"
  by (auto simp: new_refresh_def identity_random_def identity_now_def and_then_def fail_def ret_def split: sum.splits)

lemma authorizeSystem_repo: "authorizeSystem ctx method w = (res, w') \<Longrightarrow> iwRepo w' = iwRepo w \<and> iwRandom w' = iwRandom w"
  by (auto simp: authorizeSystem_def identity_now_def and_then_def of_result_def)

lemma Refresh_unknown:
  assumes "irRefreshTokens (iwRepo w) (HashOpaqueToken token) = None"
  shows "(\<exists>e. fst (IdentityServer_Refresh lib auth ctx (Some token) w) = Inl e) \<and>
    iwRepo (snd (IdentityServer_Refresh lib auth ctx (Some token) w)) = iwRepo w"
proof -
  obtain res w1 where a: "authorizeSystem ctx (identity_method ''Refresh'') w = (res, w1)" by fastforce
  show ?thesis
  proof (cases "(\<exists>e. res = Inl e) \<or> TrimSpace token = [] \<or> auth = None")
    case True
    with a authorizeSystem_repo [OF a] show ?thesis
      by (auto simp: IdentityServer_Refresh_def and_then_def fail_def split: sum.split option.split)
  next
    case False
    then obtain m where m: "auth = Some m" by blast
    obtain res' w2 where n: "new_refresh m w1 = (res', w2)" by fastforce
    have "iwRepo w2 = iwRepo w" using authorizeSystem_repo [OF a] new_refresh_repo [OF n] by simp
    with False a m n assms show ?thesis
      by (cases res; cases res')
        (auto simp: IdentityServer_Refresh_def and_then_def identity_now_def identity_call_def identity_repo_def
          inspect_def RotateRefreshToken_def fail_def)
  qed
qed

lemma Refresh_Inr:
  assumes "IdentityServer_Refresh lib auth ctx (Some token) w = (Inr pair, w')"
  obtains m t w1 w2 old user created where "new_refresh m w1 = (Inr t, w2)" and "iwRandom w1 = iwRandom w"
    and "iwRepo w1 = iwRepo w" and "irRefreshTokens (iwRepo w) (HashOpaqueToken token) = Some old"
    and "iwRandom w' = iwRandom w2" and "tpRefreshToken pair = mtRaw t" and "tpUserId pair = usID user"
    and "irUsers (iwRepo w) (rtUserID old) = Some user" and "usStatus user = StatusActive"
    and "iwRepo w' = (iwRepo w)\<lparr>irRefreshTokens := ((irRefreshTokens (iwRepo w))(HashOpaqueToken token := None))
       (mtHash t \<mapsto> \<lparr>rtUserID = rtUserID old, rtTokenHash = mtHash t, rtExpiresAt = mtExpiresAt t, rtCreatedAt = created\<rparr>)\<rparr>"
proof -
  obtain w1 m t w2 user w3 where parts: "authorizeSystem ctx (identity_method ''Refresh'') w = (Inr (), w1)"
    "new_refresh m w1 = (Inr t, w2)"
    "identity_call (RotateRefreshToken (HashOpaqueToken token) \<lparr>rtUserID = 0, rtTokenHash = mtHash t,
       rtExpiresAt = mtExpiresAt t, rtCreatedAt = shd (iwNow w2)\<rparr> (shd (stl (iwNow w2))))
       (w2\<lparr>iwNow := stl (stl (iwNow w2))\<rparr>) = (Inr user, w3)"
    "issueTokenPairWithRefresh lib m user t False w3 = (Inr pair, w')"
    using assms
    by (auto simp: IdentityServer_Refresh_def identity_now_def fail_def split: if_splits option.splits elim!: and_then_InrE)
  have w2: "iwRepo w2 = iwRepo w" "iwRepo w1 = iwRepo w" "iwRandom w1 = iwRandom w"
    using authorizeSystem_repo [OF parts(1)] new_refresh_repo [OF parts(2)] by simp_all
  obtain old where old: "irRefreshTokens (iwRepo w) (HashOpaqueToken token) = Some old"
      "irUsers (iwRepo w) (rtUserID old) = Some user" "usStatus user = StatusActive" "iwRandom w3 = iwRandom w2"
      "iwRepo w3 = (iwRepo w)\<lparr>irRefreshTokens := ((irRefreshTokens (iwRepo w))(HashOpaqueToken token := None))
       (mtHash t \<mapsto> \<lparr>rtUserID = rtUserID old, rtTokenHash = mtHash t, rtExpiresAt = mtExpiresAt t, rtCreatedAt = shd (iwNow w2)\<rparr>)\<rparr>"
    using parts(3) w2(1)
    by (auto simp: identity_call_def inspect_def identity_repo_def RotateRefreshToken_def fail_def ret_def
        split: option.splits if_splits)
  have "iwRepo w' = iwRepo w3 \<and> iwRandom w' = iwRandom w3 \<and> tpRefreshToken pair = mtRaw t \<and> tpUserId pair = usID user"
    using parts(4)
    by (auto simp: issueTokenPairWithRefresh_def identity_now_def token_pair_def fail_def ret_def
        split: sum.splits elim!: and_then_InrE)
  with old show ?thesis using that [OF parts(2) w2(3,2) old(1)] by simp
qed

text \<open>
  C27. A refresh token is good for one use. A refresh that succeeds had a stored token, hands
  out a new one for the same user, which is stored, and removes the old one; unless a later
  random draw hashes to the very same value, the old token is refused ever after, and the
  attempt changes no record.
\<close>

theorem refresh_token_single_use:
  assumes "IdentityServer_Refresh lib auth ctx (Some token) w = (Inr pair, w1)"
    and "(identity_call_step lib lower auth)\<^sup>*\<^sup>* w1 w2"
  shows "(\<exists>old t. irRefreshTokens (iwRepo w) (HashOpaqueToken token) = Some old \<and>
      irRefreshTokens (iwRepo w1) (HashOpaqueToken (tpRefreshToken pair)) = Some t \<and> rtUserID t = rtUserID old) \<and>
    ((\<exists>e. fst (IdentityServer_Refresh lib auth ctx' (Some token) w2) = Inl e \<and>
      iwRepo (snd (IdentityServer_Refresh lib auth ctx' (Some token) w2)) = iwRepo w2) \<or>
     (\<exists>b. Inr b \<in> sset (iwRandom w) \<and> HashOpaqueToken (base64url b) = HashOpaqueToken token))"
proof -
  obtain m t v1 v2 old user created where new: "new_refresh m v1 = (Inr t, v2)" "iwRandom v1 = iwRandom w"
      and old: "irRefreshTokens (iwRepo w) (HashOpaqueToken token) = Some old"
      and w1: "iwRandom w1 = iwRandom v2" "tpRefreshToken pair = mtRaw t"
      "iwRepo w1 = (iwRepo w)\<lparr>irRefreshTokens := ((irRefreshTokens (iwRepo w))(HashOpaqueToken token := None))
       (mtHash t \<mapsto> \<lparr>rtUserID = rtUserID old, rtTokenHash = mtHash t, rtExpiresAt = mtExpiresAt t, rtCreatedAt = created\<rparr>)\<rparr>"
    using assms(1) by (rule Refresh_Inr) blast
  obtain b where b: "iwRandom v1 = Inr b ## iwRandom v2" "mtRaw t = base64url b" "mtHash t = HashOpaqueToken (base64url b)"
    using new(1) by (cases "iwRandom v1")
      (auto simp: new_refresh_def identity_random_def identity_now_def IssueRefreshToken_def fail_def ret_def
        split: sum.splits elim!: and_then_InrE)
  have "irRefreshTokens (iwRepo w2) (HashOpaqueToken token) = None"
    if fresh: "\<nexists>b. Inr b \<in> sset (iwRandom w) \<and> HashOpaqueToken (base64url b) = HashOpaqueToken token"
  proof -
    have "mtHash t \<noteq> HashOpaqueToken token" using fresh b(1,3) new(2) by (metis shd_sset stream.sel(1))
    then have "spent (HashOpaqueToken token) w1"
      using fresh b(1) new(2) w1(1,3) by (auto simp: spent_def)
    then show ?thesis using spent_run [OF assms(2)] by (simp add: spent_def)
  qed
  with Refresh_unknown [of w2 token lib auth ctx'] have
    "(\<exists>e. fst (IdentityServer_Refresh lib auth ctx' (Some token) w2) = Inl e \<and>
      iwRepo (snd (IdentityServer_Refresh lib auth ctx' (Some token) w2)) = iwRepo w2) \<or>
     (\<exists>b. Inr b \<in> sset (iwRandom w) \<and> HashOpaqueToken (base64url b) = HashOpaqueToken token)"
    by metis
  with old w1(2,3) b(2,3) show ?thesis by simp
qed

section \<open>Example\<close>

text \<open>A library that keeps passwords as they are and signs every token alike.\<close>

definition desk_library :: auth_library where
  "desk_library = \<lparr>bc_Generate = \<lambda>_ pw. Inr pw, bc_Compare = \<lambda>h pw. if h = pw then Inr () else Inl (ErrorText ''mismatch''),
     jwt_NumericDate = \<lambda>t. t div Second * Second, jwt_Sign = \<lambda>_ _. Inr ''token'',
     jwt_Parse = \<lambda>_ _ _ _. Inl (ErrorText ''malformed'')\<rparr>"

definition desk_manager :: Manager where
  "desk_manager = \<lparr>mnSecret = ''secret'', mnAccessTTL = Second, mnRefreshTTL = Second\<rparr>"

definition entry :: identity_world where
  "entry = \<lparr>iwRepo = NewIdentityRepository [], iwNow = sconst 0, iwRandom = sconst (Inr [1])\<rparr>"

definition entry_context :: call_context where
  "entry_context = \<lparr>cxMetadata = None, cxSecret = [], cxNow = 0\<rparr>"

lemma entry_texts [simp]: "TrimSpace ''a@b'' = ''a@b''" "TrimSpace ''password'' = ''password''" "TrimSpace ''customer'' = ''customer''"
    "TrimSpace ''tok'' = ''tok''" "TrimSpace ''other-password'' = ''other-password''"
  by (simp_all add: TrimSpace_graphic graphic_def)

lemma entry_lower [simp]: "ToLower id ''a@b'' = ''a@b''"
  by (simp add: ToLower_def ascii_lower_def)

lemma entry_credentials: "normalizeCredentials id ''a@b'' ''password'' = Inr (''a@b'', ''password'')"
  by (simp add: normalizeCredentials_def)

lemma entry_authorized: "authorizeSystem entry_context method w = (Inr (), w\<lparr>iwNow := stl (iwNow w)\<rparr>)"
  by (simp add: authorizeSystem_def entry_context_def AuthorizeRole_def and_then_def identity_now_def of_result_def)

lemma entry_registers:
  "\<exists>pair w1. IdentityServer_Register desk_library id (Some desk_manager) entry_context (Some (''a@b'', ''password'')) entry
     = (Inr pair, w1) \<and> tpUserId pair = 1 \<and> iwRandom w1 = sconst (Inr [1])"
  by (simp add: IdentityServer_Register_def and_then_def entry_authorized of_result_def entry_credentials identity_random_def
      HashPassword_def desk_library_def identity_now_def identity_call_def inspect_def identity_repo_def CreateUser_def
      entry_def NewIdentityRepository_def ret_def issueTokenPair_def issueTokenPairWithRefresh_def new_refresh_def
      IssueRefreshToken_def IssueAccessToken_def StoreRefreshToken_def modify_state_def token_pair_def new_user_def
      put_user_def RoleCustomer_def Let_def)

theorem identity_records_consistent_witness:
  "\<exists>w. (start_or_call desk_library id (Some desk_manager))\<^sup>*\<^sup>* (0, entry) (2, w) \<and>
     {i. \<exists>u. irUsers (iwRepo w) i = Some u \<and> usEmail u = ''a@b''} = {1} \<and> irUsersByEmail (iwRepo w) ''a@b'' = Some 1"
proof -
  define w1 where "w1 = snd (init_admin desk_library id ''a@b'' ''password'' entry)"
  define w2 where "w2 = snd (IdentityServer_Register desk_library id (Some desk_manager) entry_context (Some (''a@b'', ''password'')) w1)"
  have "start_or_call desk_library id (Some desk_manager) (0, entry) (1, w1)"
    using starts [of desk_library id "Some desk_manager" 0 entry "''a@b''" "''password''"] by (simp add: w1_def)
  moreover have "start_or_call desk_library id (Some desk_manager) (1, w1) (2, w2)"
    by (intro calls) (simp add: counted_step_def w2_def registers)
  ultimately have run: "(start_or_call desk_library id (Some desk_manager))\<^sup>*\<^sup>* (0, entry) (2, w2)" by auto
  have users: "irUsers (iwRepo w1) = [1 \<mapsto> new_user 1 ''a@b'' (''password'') RoleAdmin]" "irUsersByEmail (iwRepo w1) = [''a@b'' \<mapsto> 1]"
    by (simp_all add: w1_def init_admin_def and_then_def identity_random_def HashPassword_def desk_library_def of_result_def
        identity_repo_def EnsureAdmin_def entry_def NewIdentityRepository_def put_user_def Let_def)
  have "irUsers (iwRepo w2) = irUsers (iwRepo w1)"
    using users(2) by (simp add: w2_def IdentityServer_Register_def and_then_def entry_authorized of_result_def entry_credentials
        identity_random_def identity_now_def identity_call_def inspect_def identity_repo_def CreateUser_def fail_def Let_def
        split: sum.split)
  with users have one: "irUsers (iwRepo w2) 1 = Some (new_user 1 ''a@b'' (''password'') RoleAdmin)" by simp
  have start: "iwRepo entry = NewIdentityRepository []" and few: "Suc 2 < (2 :: nat) ^ 64" by (simp_all add: entry_def)
  note ok = identity_records_consistent [OF start run few, of "[]"]
  have "irUsersByEmail (iwRepo w2) (usEmail (new_user 1 ''a@b'' ''password'' RoleAdmin)) = Some 1"
    using ok [THEN conjunct2, THEN conjunct1] one by simp
  then have "irUsersByEmail (iwRepo w2) ''a@b'' = Some 1" by (simp add: new_user_def)
  moreover have "i = 1" if "irUsers (iwRepo w2) i = Some u" "usEmail u = ''a@b''" for i u
    using ok [THEN conjunct1, rule_format, OF that(1) one] that(2) by (simp add: new_user_def)
  ultimately show ?thesis using run one by (intro exI [of _ w2]) (auto simp: new_user_def)
qed

theorem registered_credentials_log_in_witness:
  "\<exists>pair w1 pair' w2. IdentityServer_Register desk_library id (Some desk_manager) entry_context
       (Some (''a@b'', ''password'')) entry = (Inr pair, w1) \<and>
     IdentityServer_Login desk_library id (Some desk_manager) entry_context (Some (''a@b'', ''password'')) w1 = (Inr pair', w2) \<and>
     tpUserId pair' = tpUserId pair"
proof -
  obtain pair w1 where reg: "IdentityServer_Register desk_library id (Some desk_manager) entry_context
       (Some (''a@b'', ''password'')) entry = (Inr pair, w1)" "iwRandom w1 = sconst (Inr [1])"
    using entry_registers by blast
  have start: "iwRepo entry = NewIdentityRepository []" by (simp add: entry_def)
  have lib: "bc_Generate desk_library salt pw = Inr h \<Longrightarrow> bc_Compare desk_library h pw = Inr ()"
      "\<exists>t. jwt_Sign desk_library (mnSecret desk_manager) c = Inr t" for salt pw h c
    by (simp_all add: desk_library_def)
  have random: "shd (iwRandom w1) = Inr [1]" using reg(2) by simp
  from registered_credentials_log_in [OF lib start rtranclp.rtrancl_refl reg(1) rtranclp.rtrancl_refl _ entry_authorized random]
  show ?thesis using reg(1) by fastforce
qed

lemma padded_admin_password_locks_out_example:
  "\<exists>w1 w2. init_admin desk_library id ''a@b'' '' password'' entry = (Inr (), w1) \<and>
     IdentityServer_Login desk_library id (Some desk_manager) entry_context (Some (''a@b'', ''password'')) w1 = (Inl bad_login, w2)"
proof -
  have init: "\<exists>w1. init_admin desk_library id ''a@b'' '' password'' entry = (Inr (), w1)"
    by (simp add: init_admin_def and_then_def identity_random_def HashPassword_def desk_library_def of_result_def
        identity_repo_def EnsureAdmin_def entry_def NewIdentityRepository_def)
  then obtain w1 where w1: "init_admin desk_library id ''a@b'' '' password'' entry = (Inr (), w1)" by blast
  have "TrimSpace '' password'' \<noteq> '' password''"
    using TrimSpace_blank [of "''password''"] by simp
  moreover have "bc_Generate desk_library salt pw = Inr h \<Longrightarrow> bc_Compare desk_library h pw' = Inr () \<Longrightarrow> pw' = pw" for salt pw h pw'
    by (simp add: desk_library_def split: if_splits)
  moreover have "accounts_ok (iwRepo entry)" by (simp add: entry_def NewIdentityRepository_def accounts_ok_def)
  ultimately have "IdentityServer_Login desk_library id (Some desk_manager) entry_context (Some (''a@b'', ''password'')) w1 =
      (Inl bad_login, w1\<lparr>iwNow := stl (iwNow w1)\<rparr>)"
    using padded_admin_password_locks_out [OF _ _ w1, of "''a@b''" "''password''" "''password''"] entry_credentials entry_authorized
    by simp
  with w1 show ?thesis by blast
qed

definition signed_in :: identity_world where
  "signed_in = entry\<lparr>iwRepo := (NewIdentityRepository [])\<lparr>irUsers := [1 \<mapsto> new_user 1 ''a@b'' ''password'' RoleCustomer],
     irUsersByEmail := [''a@b'' \<mapsto> 1], irRefreshTokens := [HashOpaqueToken ''tok'' \<mapsto>
       \<lparr>rtUserID = 1, rtTokenHash = HashOpaqueToken ''tok'', rtExpiresAt = Second, rtCreatedAt = 0\<rparr>]\<rparr>\<rparr>"

theorem refresh_token_single_use_witness:
  "\<exists>pair w1 t. IdentityServer_Refresh desk_library (Some desk_manager) entry_context (Some ''tok'') signed_in = (Inr pair, w1) \<and>
     irRefreshTokens (iwRepo w1) (HashOpaqueToken (tpRefreshToken pair)) = Some t \<and> rtUserID t = 1"
proof -
  have "\<exists>pair w1. IdentityServer_Refresh desk_library (Some desk_manager) entry_context (Some ''tok'') signed_in = (Inr pair, w1)"
    by (simp add: IdentityServer_Refresh_def and_then_def entry_authorized new_refresh_def identity_random_def identity_now_def
        IssueRefreshToken_def signed_in_def entry_def ret_def identity_call_def inspect_def identity_repo_def
        RotateRefreshToken_def Second_def new_user_def issueTokenPairWithRefresh_def IssueAccessToken_def desk_library_def
        RoleCustomer_def)
  moreover have "irRefreshTokens (iwRepo signed_in) (HashOpaqueToken ''tok'') =
      Some \<lparr>rtUserID = 1, rtTokenHash = HashOpaqueToken ''tok'', rtExpiresAt = Second, rtCreatedAt = 0\<rparr>"
    by (simp add: signed_in_def)
  ultimately show ?thesis
    using refresh_token_single_use [OF _ rtranclp.rtrancl_refl, THEN conjunct1] by fastforce
qed

end
