(* ===== verification/Messaging_Worker.thy ===== *)
theory Messaging_Worker
  imports Messaging
begin

text \<open>
  shared/platform/messaging: the text of an envelope (types.go), the worker that publishes the
  outbox (worker.go), the in-process broker (fake.go) and the handling of one delivery by a
  RabbitMQ consumer (rabbit.go). What the AMQP client library does is a parameter: whether a
  retry message is confirmed. A message body is the JSON value it encodes, or nothing when it
  is not JSON at all; the RFC 3339 text of a time is the parameter \<open>time_codec\<close>.
\<close>

section \<open>Envelopes as JSON (types.go)\<close>

record time_codec =
  format_time :: "time \<Rightarrow> string"
  parse_time :: "string \<Rightarrow> time result"

definition get_time :: "time_codec \<Rightarrow> (string \<times> json) list \<Rightarrow> string \<Rightarrow> time result" where
  "get_time tc fs name =
     (case json_field fs name of None \<Rightarrow> Inr zero_time | Some JNull \<Rightarrow> Inr zero_time
      | Some (JString s) \<Rightarrow> parse_time tc s | Some _ \<Rightarrow> Inl (json_type_error name))"

text \<open>A raw field keeps whatever value it has; a missing one is empty, which counts as \<open>null\<close>.\<close>

definition get_raw :: "(string \<times> json) list \<Rightarrow> string \<Rightarrow> json" where
  "get_raw fs name = (case json_field fs name of None \<Rightarrow> JNull | Some j \<Rightarrow> j)"

text \<open>A byte of a string that is not UTF-8 is written as U+FFFD.\<close>

definition marshal_Envelope :: "time_codec \<Rightarrow> EventEnvelope \<Rightarrow> json" where
  "marshal_Envelope tc e =
     JObject ([(''event_id'', JString (coerce_utf8 (eEventID e))), (''event_type'', JString (coerce_utf8 (eEventType e))),
       (''event_version'', JInt (eEventVersion e)), (''aggregate_type'', JString (coerce_utf8 (eAggregateType e))),
       (''aggregate_id'', JString (coerce_utf8 (eAggregateID e))), (''occurred_at'', JString (format_time tc (eOccurredAt e)))] @
       (if eTraceID e = [] then [] else [(''trace_id'', JString (coerce_utf8 (eTraceID e)))]) @ [(''payload'', ePayload e)])"

definition unmarshal_Envelope :: "time_codec \<Rightarrow> json \<Rightarrow> EventEnvelope result" where
  "unmarshal_Envelope tc j = with_object j (\<lambda>fs.
     bind_result (get_string fs ''event_id'') (\<lambda>eid.
     bind_result (get_string fs ''event_type'') (\<lambda>et.
     bind_result (get_int64 fs ''event_version'') (\<lambda>ver.
     bind_result (get_string fs ''aggregate_type'') (\<lambda>aty.
     bind_result (get_string fs ''aggregate_id'') (\<lambda>aid.
     bind_result (get_time tc fs ''occurred_at'') (\<lambda>t.
     bind_result (get_string fs ''trace_id'') (\<lambda>trace.
       Inr \<lparr>eEventID = eid, eEventType = et, eEventVersion = sint ver, eAggregateType = aty,
         eAggregateID = aid, eOccurredAt = t, eTraceID = trace, ePayload = get_raw fs ''payload''\<rparr>))))))))"

definition MarshalEnvelope :: "time_codec \<Rightarrow> EventEnvelope \<Rightarrow> json result" where
  "MarshalEnvelope tc event = bind_result (Envelope_Validate event) (\<lambda>_. Inr (marshal_Envelope tc event))"

definition UnmarshalEnvelope :: "time_codec \<Rightarrow> json option \<Rightarrow> EventEnvelope result" where
  "UnmarshalEnvelope tc body =
     (case body of
        None \<Rightarrow> Inl (WrapError ''decode event envelope: '' (ErrorText ''invalid JSON''))
      | Some j \<Rightarrow>
          (case unmarshal_Envelope tc j of
             Inl e \<Rightarrow> Inl (WrapError ''decode event envelope: '' e)
           | Inr event \<Rightarrow> bind_result (Envelope_Validate event) (\<lambda>_. Inr event)))"

text \<open>\<open>OutboxEvent.Envelope\<close>: a payload that is itself an envelope wins over the columns of the record.\<close>

definition OutboxEvent_Envelope :: "time_codec \<Rightarrow> OutboxEvent \<Rightarrow> EventEnvelope result" where
  "OutboxEvent_Envelope tc v =
     (case UnmarshalEnvelope tc (Some (obPayload v)) of
        Inr event \<Rightarrow> Inr event
      | Inl _ \<Rightarrow>
          (let event = \<lparr>eEventID = obEventID v, eEventType = obEventType v, eEventVersion = obEventVersion v,
                 eAggregateType = obAggregateType v, eAggregateID = obAggregateID v, eOccurredAt = obCreatedAt v,
                 eTraceID = [], ePayload = obPayload v\<rparr>
           in case Envelope_Validate event of
                Inl e \<Rightarrow> Inl (WrapError ''rebuild outbox event envelope: '' e)
              | Inr _ \<Rightarrow> Inr event))"

section \<open>The outbox worker (worker.go)\<close>

text \<open>The store of the service and what is behind the publisher; both read the same clock.\<close>

record 'p worker =
  wkStore :: MessageStore
  wkBroker :: 'p

definition on_store :: "(MessageStore, 'a) go \<Rightarrow> ('p worker, 'a) go" where
  "on_store m w = (case m (wkStore w) of (res, s) \<Rightarrow> (res, w\<lparr>wkStore := s\<rparr>))"

definition on_broker :: "('p, 'a) go \<Rightarrow> ('p worker, 'a) go" where
  "on_broker m w = (case m (wkBroker w) of (res, p) \<Rightarrow> (res, w\<lparr>wkBroker := p\<rparr>))"

type_synonym 'p publisher = "EventEnvelope \<Rightarrow> headers \<Rightarrow> ('p, unit) go"

text \<open>One record of a batch; the result is the error it contributes, if any.\<close>

definition publish_record :: "time_codec \<Rightarrow> 'p publisher \<Rightarrow> OutboxEvent \<Rightarrow> ('p worker, go_error option) go" where
  "publish_record tc publish record =
     (case OutboxEvent_Envelope tc record of
        Inl decodeErr \<Rightarrow>
          inspect (on_store (Outbox_MarkFailed (obEventID record) (error_text decodeErr))) (\<lambda>_. ret (Some decodeErr))
      | Inr event \<Rightarrow>
          inspect (on_broker (publish event (obHeaders record))) (\<lambda>published. case published of
            Inl publishErr \<Rightarrow>
              and_then (on_store message_now) (\<lambda>now.
              inspect (on_store (if obAttempts record \<ge> 5 then Outbox_MarkFailed (obEventID record) (error_text publishErr)
                  else MarkRetry (obEventID record) (now + RetryDelay (obAttempts record) Second) (error_text publishErr)))
                (\<lambda>_. ret (Some publishErr)))
          | Inr _ \<Rightarrow>
              inspect (on_store (MarkPublished (obEventID record))) (\<lambda>marked.
                ret (case marked of Inl markErr \<Rightarrow> Some markErr | Inr _ \<Rightarrow> None))))"

fun publish_records :: "time_codec \<Rightarrow> 'p publisher \<Rightarrow> OutboxEvent list \<Rightarrow> go_error option \<Rightarrow> ('p worker, unit) go" where
  "publish_records tc publish [] firstErr = (case firstErr of None \<Rightarrow> ret () | Some e \<Rightarrow> fail e)"
| "publish_records tc publish (record # records) firstErr =
     and_then (publish_record tc publish record) (\<lambda>err.
       publish_records tc publish records (if firstErr = None then err else firstErr))"

definition publishOutboxBatch :: "time_codec \<Rightarrow> 'p publisher \<Rightarrow> string list \<Rightarrow> int \<Rightarrow> ('p worker, unit) go" where
  "publishOutboxBatch tc publish ks batchSize =
     and_then (on_store message_now) (\<lambda>now.
     and_then (on_store (Outbox_Claim ks now batchSize (30 * Second))) (\<lambda>events.
       publish_records tc publish events None))"

text \<open>The loop of the worker up to its cancellation: one batch per tick, errors are dropped.\<close>

primrec outbox_ticks :: "time_codec \<Rightarrow> 'p publisher \<Rightarrow> int \<Rightarrow> string list list \<Rightarrow> ('p worker, unit) go" where
  "outbox_ticks tc publish batchSize [] = ret ()"
| "outbox_ticks tc publish batchSize (ks # kss) =
     inspect (publishOutboxBatch tc publish ks batchSize) (\<lambda>_. outbox_ticks tc publish batchSize kss)"

definition RunOutboxPublisher :: "time_codec \<Rightarrow> 'p publisher \<Rightarrow> int \<Rightarrow> string list list \<Rightarrow> ('p worker, unit) go" where
  "RunOutboxPublisher tc publish batchSize kss =
     outbox_ticks tc publish (if batchSize \<le> 0 then 100 else batchSize) kss"

section \<open>The in-process broker (fake.go)\<close>

type_synonym FakeBroker = "EventEnvelope list"

definition NewFakeBroker :: FakeBroker where "NewFakeBroker = []"

definition FakeBroker_Publish :: "FakeBroker publisher" where
  "FakeBroker_Publish event hdrs =
     and_then (of_result (Envelope_Validate event)) (\<lambda>_. modify_state (\<lambda>messages. messages @ [event]))"

definition Messages :: "FakeBroker \<Rightarrow> EventEnvelope list" where "Messages b = b"

definition Dispatch :: "FakeBroker \<Rightarrow> (EventEnvelope \<Rightarrow> ('w, unit) go) \<Rightarrow> ('w, unit) go" where
  "Dispatch b handler = for_each (Messages b) handler"

section \<open>One delivery (rabbit.go)\<close>

definition ConsumerOrder :: string where "ConsumerOrder = ServiceOrder"
definition ConsumerPayment :: string where "ConsumerPayment = ServicePayment"
definition ConsumerInventory :: string where "ConsumerInventory = ServiceInventory"
definition ConsumerFulfillment :: string where "ConsumerFulfillment = ServiceFulfillment"

definition consumerEvents :: "(string \<times> string list) list" where
  "consumerEvents =
     [(ConsumerOrder, [EventSeckillAccepted, EventPaymentSucceeded, EventPaymentRefunded, EventInventoryReserved,
         EventInventoryReleased, EventShipmentCreated, EventShipmentDelivered]),
      (ConsumerPayment, [EventOrderCreated, EventOrderCancelled]),
      (ConsumerInventory, [EventOrderCancelled, EventPaymentRefunded]),
      (ConsumerFulfillment, [EventPaymentSucceeded])]"

definition queueName :: "string \<Rightarrow> string" where "queueName consumer = ''commerce.'' @ consumer @ ''.events''"
definition retryQueueName :: "string \<Rightarrow> string" where "retryQueueName consumer = ''commerce.'' @ consumer @ ''.retry''"
definition deadQueueName :: "string \<Rightarrow> string" where "deadQueueName consumer = ''commerce.'' @ consumer @ ''.dlq''"

record delivery =
  dlBody :: "json option"
  dlHeaders :: headers

text \<open>
  What becomes of the delivery: it is acknowledged, rejected for the dead-letter queue, put
  back, or replaced by a retry message, which was confirmed, and acknowledged.
\<close>

record retry_message =
  rmRoutingKey :: string
  rmMessageId :: string
  rmType :: string
  rmHeaders :: headers
  rmExpirationMillis :: int
  rmBody :: json

datatype verdict = Ack | NackDead | NackRequeue | RetryThenAck retry_message

text \<open>
  The state of a consumer: its inbox, the world of its handlers, and for each retry message to
  come whether the broker confirms it.
\<close>

record 'w consumer_world =
  cnInbox :: MessageStore
  cnWorld :: 'w
  cnConfirms :: "bool stream"

definition on_inbox :: "(MessageStore, 'a) go \<Rightarrow> ('w consumer_world, 'a) go" where
  "on_inbox m c = (case m (cnInbox c) of (res, s) \<Rightarrow> (res, c\<lparr>cnInbox := s\<rparr>))"

definition on_world :: "('w, 'a) go \<Rightarrow> ('w consumer_world, 'a) go" where
  "on_world m c = (case m (cnWorld c) of (res, w) \<Rightarrow> (res, c\<lparr>cnWorld := w\<rparr>))"

type_synonym 'w handlers = "string \<Rightarrow> (EventEnvelope \<Rightarrow> ('w, unit) go) option"

definition lookupHandler :: "EventEnvelope \<Rightarrow> 'w handlers \<Rightarrow> (EventEnvelope \<Rightarrow> ('w, unit) go) option" where
  "lookupHandler event handlers =
     (if \<not> IsKnownEventType (eEventType event) \<or> eEventVersion event > 1 then None
      else handlers (eEventType event))"

definition retry_message_for :: "string \<Rightarrow> EventEnvelope \<Rightarrow> delivery \<Rightarrow> int \<Rightarrow> json \<Rightarrow> retry_message" where
  "retry_message_for consumer event d attempt body =
     \<lparr>rmRoutingKey = consumer, rmMessageId = eEventID event, rmType = eEventType event,
      rmHeaders = filter (\<lambda>(k, _). k \<noteq> ''x-event-attempt'') (dlHeaders d) @ [(''x-event-attempt'', JInt (attempt + 1))],
      rmExpirationMillis = RetryDelay (attempt + 1) Second div Millisecond, rmBody = body\<rparr>"

definition publishRetryWith ::
  "time_codec \<Rightarrow> string \<Rightarrow> EventEnvelope \<Rightarrow> delivery \<Rightarrow> int \<Rightarrow> ('w consumer_world, verdict) go" where
  "publishRetryWith tc consumer event d attempt =
     (case MarshalEnvelope tc event of
        Inl _ \<Rightarrow> ret NackDead
      | Inr body \<Rightarrow> (\<lambda>c.
          (Inr (if shd (cnConfirms c) then RetryThenAck (retry_message_for consumer event d attempt body) else NackRequeue),
           c\<lparr>cnConfirms := stl (cnConfirms c)\<rparr>)))"

text \<open>\<open>publishRetry\<close> uses the channel of the consumer as the publisher.\<close>

definition publishRetry ::
  "time_codec \<Rightarrow> string \<Rightarrow> EventEnvelope \<Rightarrow> delivery \<Rightarrow> int \<Rightarrow> ('w consumer_world, verdict) go" where
  "publishRetry tc consumer event d attempt = publishRetryWith tc consumer event d attempt"

definition requeueDelayed ::
  "time_codec \<Rightarrow> string \<Rightarrow> EventEnvelope \<Rightarrow> delivery \<Rightarrow> int \<Rightarrow> ('w consumer_world, verdict) go" where
  "requeueDelayed tc consumer event d attempt = publishRetry tc consumer event d attempt"

definition retryOrDeadLetter ::
  "time_codec \<Rightarrow> string \<Rightarrow> EventEnvelope \<Rightarrow> delivery \<Rightarrow> int \<Rightarrow> int \<Rightarrow> ('w consumer_world, verdict) go" where
  "retryOrDeadLetter tc consumer event d attempt maxAttempts =
     (if attempt \<ge> maxAttempts then ret NackDead else publishRetry tc consumer event d attempt)"

definition handleDelivery ::
  "time_codec \<Rightarrow> string \<Rightarrow> 'w handlers \<Rightarrow> int \<Rightarrow> delivery \<Rightarrow> ('w consumer_world, verdict) go" where
  "handleDelivery tc consumer handlers maxAttempts d =
     (case UnmarshalEnvelope tc (dlBody d) of
        Inl _ \<Rightarrow> ret NackDead
      | Inr event \<Rightarrow>
          (case lookupHandler event handlers of
             None \<Rightarrow> ret Ack
           | Some handler \<Rightarrow>
               inspect (on_inbox (Inbox_Claim consumer event (30 * Second))) (\<lambda>claimed. case claimed of
                 Inl _ \<Rightarrow> retryOrDeadLetter tc consumer event d 1 maxAttempts
               | Inr claim \<Rightarrow>
                   (if icProcessed claim then ret Ack
                    else if \<not> icClaimed claim then requeueDelayed tc consumer event d (icAttempts claim)
                    else inspect (on_world (handler event)) (\<lambda>handled. case handled of
                      Inl err \<Rightarrow>
                        inspect (on_inbox (Inbox_MarkFailed consumer (eEventID event) (error_text err))) (\<lambda>_.
                          retryOrDeadLetter tc consumer event d (icAttempts claim) maxAttempts)
                    | Inr _ \<Rightarrow>
                        inspect (on_inbox (MarkProcessed consumer (eEventID event))) (\<lambda>marked. case marked of
                          Inl _ \<Rightarrow> retryOrDeadLetter tc consumer event d (icAttempts claim) maxAttempts
                        | Inr _ \<Rightarrow> ret Ack))))))"

text \<open>
  The loop of \<open>Run\<close> over the deliveries of one session; a failed acknowledgement is only
  logged. The result is what became of each delivery.
\<close>

primrec consume ::
  "time_codec \<Rightarrow> string \<Rightarrow> 'w handlers \<Rightarrow> int \<Rightarrow> delivery list \<Rightarrow> ('w consumer_world, verdict list) go" where
  "consume tc consumer handlers maxAttempts [] = ret []"
| "consume tc consumer handlers maxAttempts (d # ds) =
     and_then (handleDelivery tc consumer handlers maxAttempts d) (\<lambda>v.
     and_then (consume tc consumer handlers maxAttempts ds) (\<lambda>vs. ret (v # vs)))"

definition consumer_session ::
  "time_codec \<Rightarrow> string \<Rightarrow> 'w handlers \<Rightarrow> int \<Rightarrow> delivery list \<Rightarrow> ('w consumer_world, verdict list) go" where
  "consumer_session tc consumer handlers maxAttempts ds =
     consume tc consumer handlers (if maxAttempts \<le> 0 then 5 else maxAttempts) ds"

end
