(* ===== verification/Messaging_Properties.thy ===== *)
theory Messaging_Properties
  imports Messaging_Worker
begin

text \<open>
  What the messaging layer guarantees: envelopes survive their encoding, an event that is
  marked as published was accepted by the publisher, a batch drains what is due, and a
  consumer does not handle an event again once it is processed.
\<close>

section \<open>Envelopes\<close>

lemma OutboxEvent_Envelope_valid: "OutboxEvent_Envelope tc v = Inr e \<Longrightarrow> Envelope_Validate e = Inr ()"
  by (auto simp: OutboxEvent_Envelope_def UnmarshalEnvelope_def Let_def bind_result_def split: sum.splits)

text \<open>The texts of an envelope are UTF-8.\<close>

definition envelope_utf8 :: "EventEnvelope \<Rightarrow> bool" where
  "envelope_utf8 e \<longleftrightarrow> valid_utf8 (eEventID e) \<and> valid_utf8 (eEventType e) \<and> valid_utf8 (eAggregateType e) \<and>
     valid_utf8 (eAggregateID e) \<and> valid_utf8 (eTraceID e)"

definition utf8_envelope :: "EventEnvelope \<Rightarrow> EventEnvelope" where
  "utf8_envelope e = e\<lparr>eEventID := coerce_utf8 (eEventID e), eEventType := coerce_utf8 (eEventType e),
     eAggregateType := coerce_utf8 (eAggregateType e), eAggregateID := coerce_utf8 (eAggregateID e),
     eTraceID := coerce_utf8 (eTraceID e)\<rparr>"

lemma utf8_envelope_same: "envelope_utf8 e \<Longrightarrow> utf8_envelope e = e"
  by (simp add: utf8_envelope_def envelope_utf8_def)

lemma Unmarshal_coerced:
  assumes "Envelope_Validate e = Inr ()" and "eEventVersion e < 2 ^ 63"
    and "parse_time tc (format_time tc (eOccurredAt e)) = Inr (eOccurredAt e)"
  shows "UnmarshalEnvelope tc (Some (marshal_Envelope tc e)) = Inr (utf8_envelope e)"
proof -
  have v: "0 < eEventVersion e" using assms(1) by (auto simp: Envelope_Validate_def split: if_splits)
  then have "sint (word_of_int (eEventVersion e) :: int64) = eEventVersion e"
    using assms(2) by (intro sint64_of_int) auto
  then have "unmarshal_Envelope tc (marshal_Envelope tc e) = Inr (utf8_envelope e)"
    using v assms(2,3)
    by (simp add: unmarshal_Envelope_def marshal_Envelope_def with_object_def get_string_def get_int64_def get_time_def
        get_raw_def json_field_def utf8_envelope_def)
  moreover have "Envelope_Validate (utf8_envelope e) = Inr ()"
    using assms(1) by (simp add: Envelope_Validate_iff utf8_envelope_def)
  ultimately show ?thesis by (simp add: UnmarshalEnvelope_def bind_result_def)
qed

lemma UnmarshalEnvelope_marshal:
  assumes "Envelope_Validate e = Inr ()" and "envelope_utf8 e" and "eEventVersion e < 2 ^ 63"
    and "parse_time tc (format_time tc (eOccurredAt e)) = Inr (eOccurredAt e)"
  shows "UnmarshalEnvelope tc (Some (marshal_Envelope tc e)) = Inr e"
  using Unmarshal_coerced [OF assms(1,3,4)] assms(2) by (simp add: utf8_envelope_same)

text \<open>
  C39. An envelope survives its journey: a valid envelope whose texts are UTF-8 and whose payload
  is a JSON value as \<open>json.Marshal\<close> writes it, without surrounding white space, is encoded, and
  decoding the message gives back the same envelope, as long as the text of a time can be read
  back. In general the decoded envelope is the encoded one with every byte that is not UTF-8
  replaced by U+FFFD in the event identifier and the other texts. A message that is decoded is always a valid
  envelope.
\<close>

theorem envelope_roundtrip:
  assumes "Envelope_Validate e = Inr ()" and "eEventVersion e < 2 ^ 63"
    and "parse_time tc (format_time tc (eOccurredAt e)) = Inr (eOccurredAt e)"
  shows "(\<exists>j. MarshalEnvelope tc e = Inr j \<and> UnmarshalEnvelope tc (Some j) = Inr (utf8_envelope e)) \<and>
    (envelope_utf8 e \<longrightarrow> utf8_envelope e = e) \<and>
    (\<forall>body e'. UnmarshalEnvelope tc body = Inr e' \<longrightarrow> Envelope_Validate e' = Inr ())"
  using Unmarshal_coerced [OF assms] assms(1) utf8_envelope_same
  by (auto simp: MarshalEnvelope_def UnmarshalEnvelope_def bind_result_def split: option.splits sum.splits)

definition plain_times :: time_codec where
  "plain_times = \<lparr>format_time = fmt_int, parse_time = \<lambda>s. if s = ''5'' then Inr 5 else Inl (ErrorText ''not a time'')\<rparr>"

definition sample_event :: EventEnvelope where
  "sample_event = \<lparr>eEventID = ''e1'', eEventType = ''demo'', eEventVersion = 1, eAggregateType = ''order'',
     eAggregateID = ''o1'', eOccurredAt = 5, eTraceID = [], ePayload = JObject []\<rparr>"

lemma sample_event_valid: "Envelope_Validate sample_event = Inr ()"
  by (simp add: sample_event_def Envelope_Validate_def zero_time_def)

lemma sample_event_utf8: "envelope_utf8 sample_event"
  by (auto simp: sample_event_def envelope_utf8_def intro!: valid_utf8_ascii)

theorem envelope_roundtrip_witness:
  "(\<exists>j. MarshalEnvelope plain_times sample_event = Inr j \<and> UnmarshalEnvelope plain_times (Some j) = Inr sample_event) \<and>
   (\<exists>j. MarshalEnvelope plain_times (sample_event\<lparr>eEventID := [CHR 0xFF]\<rparr>) = Inr j \<and>
     UnmarshalEnvelope plain_times (Some j) = Inr (sample_event\<lparr>eEventID := [CHR 0xEF, CHR 0xBF, CHR 0xBD]\<rparr>))"
proof
  have "fmt_int 5 = ''5''" by code_simp
  then have times: "parse_time plain_times (format_time plain_times (eOccurredAt sample_event)) = Inr (eOccurredAt sample_event)"
    by (simp add: plain_times_def sample_event_def)
  have few: "eEventVersion sample_event < 2 ^ 63" by (simp add: sample_event_def)
  show "\<exists>j. MarshalEnvelope plain_times sample_event = Inr j \<and> UnmarshalEnvelope plain_times (Some j) = Inr sample_event"
    using envelope_roundtrip [OF sample_event_valid few times] sample_event_utf8 by auto
  let ?e = "sample_event\<lparr>eEventID := [CHR 0xFF]\<rparr>"
  have "Envelope_Validate ?e = Inr ()" by (simp add: sample_event_def Envelope_Validate_def zero_time_def)
  moreover have "utf8_envelope ?e = sample_event\<lparr>eEventID := [CHR 0xEF, CHR 0xBF, CHR 0xBD]\<rparr>"
  proof -
    have "coerce_utf8 [CHR 0xFF] = [CHR 0xEF, CHR 0xBF, CHR 0xBD]" by code_simp
    then show ?thesis using utf8_envelope_same [OF sample_event_utf8] by (simp add: utf8_envelope_def sample_event_def)
  qed
  ultimately show "\<exists>j. MarshalEnvelope plain_times ?e = Inr j \<and>
     UnmarshalEnvelope plain_times (Some j) = Inr (sample_event\<lparr>eEventID := [CHR 0xEF, CHR 0xBF, CHR 0xBD]\<rparr>)"
    using envelope_roundtrip [of ?e plain_times] few times by auto
qed

section \<open>The outbox\<close>

text \<open>
  Every record is filed under its identifier, what is marked as published was accepted, and a
  record that was created at a time at all can be turned into an envelope.
\<close>

definition settled :: "time_codec \<Rightarrow> EventEnvelope set \<Rightarrow> MessageStore \<Rightarrow> bool" where
  "settled tc acc s \<longleftrightarrow> (\<forall>k v. mgOutbox s k = Some v \<longrightarrow> obEventID v = k \<and>
     (obStatus v = StatusPublished \<longrightarrow> (\<exists>e \<in> acc. OutboxEvent_Envelope tc v = Inr e)) \<and>
     (obCreatedAt v \<noteq> zero_time \<longrightarrow> (\<exists>e. OutboxEvent_Envelope tc v = Inr e)))"

text \<open>A claimed record is still in the outbox with the same content.\<close>

definition held :: "time_codec \<Rightarrow> OutboxEvent \<Rightarrow> MessageStore \<Rightarrow> bool" where
  "held tc r s \<longleftrightarrow> (\<exists>v. mgOutbox s (obEventID r) = Some v \<and> obEventID v = obEventID r \<and>
     OutboxEvent_Envelope tc v = OutboxEvent_Envelope tc r \<and> obCreatedAt v = obCreatedAt r)"

lemma settled_mono: "settled tc acc s \<Longrightarrow> acc \<subseteq> acc' \<Longrightarrow> settled tc acc' s"
  unfolding settled_def by blast

lemma content_updates [simp]:
  "OutboxEvent_Envelope tc (v\<lparr>obStatus := a\<rparr>) = OutboxEvent_Envelope tc v"
  "OutboxEvent_Envelope tc (v\<lparr>obLastError := b\<rparr>) = OutboxEvent_Envelope tc v"
  "OutboxEvent_Envelope tc (v\<lparr>obNextRetryAt := t\<rparr>) = OutboxEvent_Envelope tc v"
  "OutboxEvent_Envelope tc (v\<lparr>obUpdatedAt := t\<rparr>) = OutboxEvent_Envelope tc v"
  "OutboxEvent_Envelope tc (v\<lparr>obAttempts := n\<rparr>) = OutboxEvent_Envelope tc v"
  by (simp_all add: OutboxEvent_Envelope_def Let_def cong: sum.case_cong)

lemma updateOutbox_runs:
  "mgOutbox s k = Some v \<Longrightarrow> updateOutbox k upd s =
     (Inr (), s\<lparr>mgClock := stl (mgClock s), mgOutbox := (mgOutbox s)(k \<mapsto> (upd v)\<lparr>obUpdatedAt := shd (mgClock s)\<rparr>)\<rparr>)"
  by (simp add: updateOutbox_def and_then_def message_now_def modify_state_def)

lemma held_update: "held tc r s \<Longrightarrow> mgOutbox s k = Some v \<Longrightarrow> obEventID v' = obEventID v \<Longrightarrow>
    OutboxEvent_Envelope tc v' = OutboxEvent_Envelope tc v \<Longrightarrow> obCreatedAt v' = obCreatedAt v \<Longrightarrow>
    mgOutbox s' = (mgOutbox s)(k \<mapsto> v') \<Longrightarrow> held tc r s'"
  by (auto simp: held_def)

text \<open>A claim leases the candidates under their identifiers and leaves the rest alone.\<close>

lemma lease_all_eq:
  "\<forall>v \<in> set vs. m0 (obEventID v) = Some v \<Longrightarrow>
   lease_all now lease vs m k = (if k \<in> obEventID ` set vs then map_option (leased now lease) (m0 k) else m k)"
  by (induction vs arbitrary: m) auto

lemma leased_simps [simp]:
  "obEventID (leased now lease v) = obEventID v" "obStatus (leased now lease v) = StatusPublishing"
  "obHeaders (leased now lease v) = obHeaders v" "obCreatedAt (leased now lease v) = obCreatedAt v"
  "OutboxEvent_Envelope tc (leased now lease v) = OutboxEvent_Envelope tc v"
  by (simp_all add: leased_def)

text \<open>The candidates of a claim: what may be claimed, in order, up to the limit.\<close>

definition candidates :: "string list \<Rightarrow> time \<Rightarrow> int \<Rightarrow> MessageStore \<Rightarrow> OutboxEvent list" where
  "candidates ks now limit s = (let vs = sort_key claim_key (filter (claimable now) (range_values ks (mgOutbox s)))
     in if limit < int (length vs) then take (nat limit) vs else vs)"

lemma candidates_in_outbox:
  assumes "settled tc acc s" and "v \<in> set (candidates ks now limit s)"
  shows "mgOutbox s (obEventID v) = Some v \<and> claimable now v"
proof -
  have "v \<in> set (filter (claimable now) (range_values ks (mgOutbox s)))"
    using assms(2) by (auto simp: candidates_def Let_def split: if_splits dest: in_set_takeD)
  then show ?thesis using assms(1) by (auto simp: set_range_values settled_def)
qed

lemma claim_settled:
  assumes "settled tc acc s" and vs_def: "vs = candidates ks now limit s"
  shows "settled tc acc (s\<lparr>mgOutbox := lease_all now lease vs (mgOutbox s)\<rparr>)"
    and "\<forall>r \<in> set (map (leased now lease) vs). held tc r (s\<lparr>mgOutbox := lease_all now lease vs (mgOutbox s)\<rparr>)"
    and "\<forall>r. held tc r s \<longrightarrow> held tc r (s\<lparr>mgOutbox := lease_all now lease vs (mgOutbox s)\<rparr>)"
proof -
  have eq: "lease_all now lease vs (mgOutbox s) k =
      (if k \<in> obEventID ` set vs then map_option (leased now lease) (mgOutbox s k) else mgOutbox s k)" for k
    by (rule lease_all_eq) (use candidates_in_outbox [OF assms(1)] vs_def in blast)
  show "settled tc acc (s\<lparr>mgOutbox := lease_all now lease vs (mgOutbox s)\<rparr>)"
    using assms(1) by (auto simp: settled_def eq const_defs split: if_splits)
  show "\<forall>r \<in> set (map (leased now lease) vs). held tc r (s\<lparr>mgOutbox := lease_all now lease vs (mgOutbox s)\<rparr>)"
  proof
    fix r assume "r \<in> set (map (leased now lease) vs)"
    then obtain v where "v \<in> set vs" "r = leased now lease v" by auto
    moreover from this have "mgOutbox s (obEventID v) = Some v" using candidates_in_outbox [OF assms(1)] vs_def by blast
    ultimately show "held tc r (s\<lparr>mgOutbox := lease_all now lease vs (mgOutbox s)\<rparr>)" by (simp add: held_def eq)
  qed
  show "\<forall>r. held tc r s \<longrightarrow> held tc r (s\<lparr>mgOutbox := lease_all now lease vs (mgOutbox s)\<rparr>)"
    by (auto simp: held_def eq)
qed

lemma AppendEvent_runs:
  "AppendEvent event hdrs s = (case ValidateEventPayload event of Inl e \<Rightarrow> (Inl e, s)
   | Inr _ \<Rightarrow> (Inr (), if mgOutbox s (eEventID event) = None then
        s\<lparr>mgOutbox := (mgOutbox s)(eEventID event \<mapsto>
            \<lparr>obID = mgNextID s, obEventID = eEventID event, obAggregateType = eAggregateType event,
             obAggregateID = eAggregateID event, obEventType = eEventType event,
             obEventVersion = eEventVersion event, obPayload = ePayload event, obHeaders = hdrs,
             obStatus = StatusPending, obAttempts = 0, obNextRetryAt = shd (mgClock s), obLastError = [],
             obCreatedAt = shd (mgClock s), obUpdatedAt = shd (mgClock s)\<rparr>), mgNextID := mgNextID s + 1,
           mgClock := stl (mgClock s)\<rparr> else s\<lparr>mgClock := stl (mgClock s)\<rparr>))"
  by (simp add: AppendEvent_def and_then_def message_now_def of_result_def split: sum.splits option.splits)

lemma rebuilt_envelope:
  assumes "Envelope_Validate \<lparr>eEventID = obEventID v, eEventType = obEventType v, eEventVersion = obEventVersion v,
    eAggregateType = obAggregateType v, eAggregateID = obAggregateID v, eOccurredAt = obCreatedAt v,
    eTraceID = [], ePayload = obPayload v\<rparr> = Inr ()"
  shows "\<exists>e. OutboxEvent_Envelope tc v = Inr e"
  using assms by (simp add: OutboxEvent_Envelope_def Let_def split: sum.split)

lemma ValidateEventPayload_envelope: "ValidateEventPayload e = Inr u \<Longrightarrow> Envelope_Validate e = Inr ()"
  by (auto simp: ValidateEventPayload_def split: sum.splits)

lemma AppendEvent_settled:
  assumes "settled tc acc s"
  shows "settled tc acc (snd (AppendEvent event hdrs s))"
proof (cases "\<exists>u. ValidateEventPayload event = Inr u \<and> mgOutbox s (eEventID event) = None")
  case True
  then have "Envelope_Validate event = Inr ()" using ValidateEventPayload_envelope by blast
  then have "Envelope_Validate (event\<lparr>eOccurredAt := t, eTraceID := []\<rparr>) = Inr ()" if "t \<noteq> zero_time" for t
    using that by (simp add: Envelope_Validate_def split: if_splits)
  with True assms show ?thesis
    by (cases event) (auto simp: AppendEvent_runs settled_def const_defs intro!: rebuilt_envelope)
next
  case False
  with assms show ?thesis by (auto simp: AppendEvent_runs settled_def split: sum.splits)
qed

lemma AppendEvent_held: "held tc r s \<Longrightarrow> held tc r (snd (AppendEvent event hdrs s))"
  by (auto simp: AppendEvent_runs held_def split: sum.splits)

text \<open>What the claim of a batch returns and leaves behind.\<close>

definition batch_candidates :: "string list \<Rightarrow> int \<Rightarrow> 'p worker \<Rightarrow> OutboxEvent list" where
  "batch_candidates ks batchSize w =
     candidates ks (shd (mgClock (wkStore w))) (if batchSize \<le> 0 then 100 else batchSize) (wkStore w)"

definition claimed_records :: "string list \<Rightarrow> int \<Rightarrow> 'p worker \<Rightarrow> OutboxEvent list" where
  "claimed_records ks batchSize w =
     map (leased (shd (mgClock (wkStore w))) (30 * Second)) (batch_candidates ks batchSize w)"

definition claimed_store :: "string list \<Rightarrow> int \<Rightarrow> 'p worker \<Rightarrow> MessageStore" where
  "claimed_store ks batchSize w = (wkStore w)\<lparr>mgClock := stl (mgClock (wkStore w)),
     mgOutbox := lease_all (shd (mgClock (wkStore w))) (30 * Second) (batch_candidates ks batchSize w) (mgOutbox (wkStore w))\<rparr>"

lemma publishOutboxBatch_runs:
  "publishOutboxBatch tc publish ks batchSize w =
     publish_records tc publish (claimed_records ks batchSize w) None (w\<lparr>wkStore := claimed_store ks batchSize w\<rparr>)"
  by (simp add: publishOutboxBatch_def and_then_def on_store_def message_now_def Outbox_Claim_def Let_def Second_def
      claimed_records_def claimed_store_def batch_candidates_def candidates_def)

lemma claimed_store_settled:
  assumes "settled tc acc (wkStore w)"
  shows "settled tc acc (claimed_store ks batchSize w)"
    and "\<forall>r \<in> set (claimed_records ks batchSize w). held tc r (claimed_store ks batchSize w)"
    and "\<forall>r. held tc r (wkStore w) \<longrightarrow> held tc r (claimed_store ks batchSize w)"
  using claim_settled [OF assms refl, where lease = "30 * Second" and ks = ks and now = "shd (mgClock (wkStore w))"]
  by (simp_all add: claimed_store_def claimed_records_def batch_candidates_def settled_def held_def)

text \<open>
  The steps of a service with an outbox: an event is appended by the domain code, a batch is
  published by the worker, or something else uses the publisher.
\<close>

inductive outbox_step :: "time_codec \<Rightarrow> 'p publisher \<Rightarrow> 'p worker \<Rightarrow> 'p worker \<Rightarrow> bool"
  for tc :: time_codec and publish :: "'p publisher" where
  append: "on_store (AppendEvent event hdrs) w = (res, w') \<Longrightarrow> outbox_step tc publish w w'"
| batch: "publishOutboxBatch tc publish ks batchSize w = (res, w') \<Longrightarrow> outbox_step tc publish w w'"
| other: "on_broker (publish event hdrs) w = (res, w') \<Longrightarrow> outbox_step tc publish w w'"

text \<open>
  A publisher accepts events: a publication that succeeds has its event accepted, and what was
  accepted stays accepted.
\<close>

locale event_publisher =
  fixes publish :: "'p publisher" and accepted :: "'p \<Rightarrow> EventEnvelope set"
  assumes accepts: "publish e h p = (Inr x, p') \<Longrightarrow> e \<in> accepted p'"
    and keeps: "accepted p \<subseteq> accepted (snd (publish e h p))"
begin

lemma publish_record_settled:
  assumes "settled tc (accepted (wkBroker w)) (wkStore w)" and "held tc r (wkStore w)"
  shows "\<exists>err w'. publish_record tc publish r w = (Inr err, w') \<and> settled tc (accepted (wkBroker w')) (wkStore w') \<and>
    (\<forall>r'. held tc r' (wkStore w) \<longrightarrow> held tc r' (wkStore w'))"
proof -
  obtain v where v: "mgOutbox (wkStore w) (obEventID r) = Some v" "obEventID v = obEventID r"
      "OutboxEvent_Envelope tc v = OutboxEvent_Envelope tc r" "obCreatedAt v = obCreatedAt r"
    using assms(2) by (auto simp: held_def)
  have decodes: "obCreatedAt r \<noteq> zero_time \<longrightarrow> (\<exists>e. OutboxEvent_Envelope tc r = Inr e)"
    using assms(1) v unfolding settled_def by metis
  let ?after = "\<lambda>c v'. wkStore w\<lparr>mgClock := c, mgOutbox := (mgOutbox (wkStore w))(obEventID r \<mapsto> v')\<rparr>"
  have after: "settled tc acc (?after c v') \<and> (\<forall>r'. held tc r' (wkStore w) \<longrightarrow> held tc r' (?after c v'))"
    if "obEventID v' = obEventID r" "OutboxEvent_Envelope tc v' = OutboxEvent_Envelope tc v" "accepted (wkBroker w) \<subseteq> acc"
      "obCreatedAt v' = obCreatedAt v" "obStatus v' = StatusPublished \<longrightarrow> (\<exists>e \<in> acc. OutboxEvent_Envelope tc v' = Inr e)" for c v' acc
    using settled_mono [OF assms(1) that(3)] that(1,2,4,5) v decodes held_update [OF _ v(1) _ that(2,4), of _ "?after c v'"]
    by (auto simp: settled_def)
  show ?thesis
  proof (cases "OutboxEvent_Envelope tc r")
    case (Inl e)
    then show ?thesis
      using v by (simp add: publish_record_def inspect_def on_store_def Outbox_MarkFailed_def updateOutbox_runs ret_def)
        (rule after, simp_all add: const_defs)
  next
    case (Inr e)
    obtain res p where pub: "publish e (obHeaders r) (wkBroker w) = (res, p)" by fastforce
    have mono: "accepted (wkBroker w) \<subseteq> accepted p" using keeps [of "wkBroker w" e "obHeaders r"] pub by simp
    show ?thesis
    proof (cases res)
      case Inl': (Inl err)
      show ?thesis
      proof (cases "obAttempts r \<ge> 5")
        case True
        then show ?thesis
          using v Inr pub Inl'
          by (simp add: publish_record_def inspect_def on_store_def on_broker_def and_then_def message_now_def
              Outbox_MarkFailed_def updateOutbox_runs ret_def) (rule after, simp_all add: mono const_defs)
      next
        case False
        then show ?thesis
          using v Inr pub Inl'
          by (simp add: publish_record_def inspect_def on_store_def on_broker_def and_then_def message_now_def
              MarkRetry_def updateOutbox_runs ret_def) (rule after, simp_all add: mono const_defs)
      qed
    next
      case Inr': (Inr u)
      then have "e \<in> accepted p" using accepts pub by blast
      then show ?thesis
        using v Inr pub Inr'
        by (simp add: publish_record_def inspect_def on_store_def on_broker_def MarkPublished_def updateOutbox_runs ret_def)
          (rule after, simp_all add: mono)
    qed
  qed
qed

lemma publish_records_settled:
  "settled tc (accepted (wkBroker w)) (wkStore w) \<Longrightarrow> \<forall>r \<in> set rs. held tc r (wkStore w) \<Longrightarrow>
   (case publish_records tc publish rs err w of (_, w') \<Rightarrow> settled tc (accepted (wkBroker w')) (wkStore w') \<and>
      (\<forall>r. held tc r (wkStore w) \<longrightarrow> held tc r (wkStore w')))"
proof (induction rs arbitrary: err w)
  case Nil
  then show ?case by (simp add: ret_def fail_def split: option.split)
next
  case (Cons r rs)
  obtain e w' where "publish_record tc publish r w = (Inr e, w')" "settled tc (accepted (wkBroker w')) (wkStore w')"
      "\<forall>r'. held tc r' (wkStore w) \<longrightarrow> held tc r' (wkStore w')"
    using publish_record_settled [OF Cons.prems(1)] Cons.prems(2) by (metis list.set_intros(1))
  with Cons.IH [of w' "if err = None then e else err"] Cons.prems(2) show ?case
    by (auto simp: and_then_def simp del: split_paired_All split: prod.splits)
qed

lemma publishOutboxBatch_settled:
  assumes "settled tc (accepted (wkBroker w)) (wkStore w)"
  shows "case publishOutboxBatch tc publish ks batchSize w of (_, w') \<Rightarrow> settled tc (accepted (wkBroker w')) (wkStore w') \<and>
    (\<forall>r. held tc r (wkStore w) \<longrightarrow> held tc r (wkStore w'))"
proof -
  define rs where "rs = claimed_records ks batchSize w"
  have "settled tc (accepted (wkBroker w)) (claimed_store ks batchSize w)"
    and "\<forall>r \<in> set rs. held tc r (claimed_store ks batchSize w)"
    and "\<forall>r. held tc r (wkStore w) \<longrightarrow> held tc r (claimed_store ks batchSize w)"
    using claimed_store_settled [OF assms, of ks batchSize] by (simp_all add: rs_def)
  with publish_records_settled [of tc "w\<lparr>wkStore := claimed_store ks batchSize w\<rparr>" rs None]
  show ?thesis by (simp add: publishOutboxBatch_runs rs_def split: prod.splits)
qed

lemma outbox_step_settled:
  assumes "settled tc (accepted (wkBroker w)) (wkStore w)" and "outbox_step tc publish w w'"
  shows "settled tc (accepted (wkBroker w')) (wkStore w') \<and> (\<forall>r. held tc r (wkStore w) \<longrightarrow> held tc r (wkStore w'))"
  using assms(2)
proof cases
  case (append event hdrs res)
  then show ?thesis
    using AppendEvent_settled [OF assms(1), of event hdrs] AppendEvent_held [of tc _ "wkStore w" event hdrs] by (auto simp: on_store_def split: prod.splits)
next
  case (batch ks batchSize res)
  then show ?thesis using publishOutboxBatch_settled [OF assms(1), of ks batchSize] by simp
next
  case (other event hdrs res)
  then show ?thesis
    using settled_mono [OF assms(1) keeps [of _ event hdrs]] by (auto simp: on_broker_def split: prod.splits)
qed

sublocale outbox: state_machine "\<lambda>w. mgOutbox (wkStore w) = Map.empty" "outbox_step tc publish"
  "\<lambda>w. settled tc (accepted (wkBroker w)) (wkStore w)" for tc
  by unfold_locales (simp add: settled_def, blast dest: outbox_step_settled)

lemma outbox_steps_held:
  assumes "settled tc (accepted (wkBroker w)) (wkStore w)" and "(outbox_step tc publish)\<^sup>*\<^sup>* w w'" and "held tc r (wkStore w)"
  shows "held tc r (wkStore w')"
  by (rule outbox.stable_steps [OF assms(2,1), where Q = "\<lambda>w. held tc r (wkStore w)"])
    (use assms(3) outbox_step_settled in blast)+

end

text \<open>A reliable publisher accepts every valid event.\<close>

definition sent :: "time_codec \<Rightarrow> EventEnvelope set \<Rightarrow> MessageStore \<Rightarrow> string \<Rightarrow> bool" where
  "sent tc acc s k \<longleftrightarrow> (\<exists>v e. mgOutbox s k = Some v \<and> obStatus v = StatusPublished \<and>
     OutboxEvent_Envelope tc v = Inr e \<and> e \<in> acc)"

locale reliable_publisher = event_publisher +
  assumes delivers: "Envelope_Validate e = Inr () \<Longrightarrow> \<exists>p'. publish e h p = (Inr (), p')"
begin

lemma publish_record_sent:
  assumes "held tc r (wkStore w)" and "OutboxEvent_Envelope tc r = Inr e"
  shows "\<exists>w'. publish_record tc publish r w = (Inr None, w') \<and> sent tc (accepted (wkBroker w')) (wkStore w') (obEventID r) \<and>
    (\<forall>k. sent tc (accepted (wkBroker w)) (wkStore w) k \<longrightarrow> sent tc (accepted (wkBroker w')) (wkStore w') k) \<and>
    (\<forall>r'. held tc r' (wkStore w) \<longrightarrow> held tc r' (wkStore w'))"
proof -
  obtain v where v: "mgOutbox (wkStore w) (obEventID r) = Some v" "obEventID v = obEventID r"
      "OutboxEvent_Envelope tc v = Inr e" "obCreatedAt v = obCreatedAt r"
    using assms by (auto simp: held_def)
  obtain p where pub: "publish e (obHeaders r) (wkBroker w) = (Inr (), p)"
    using delivers OutboxEvent_Envelope_valid [OF assms(2)] by blast
  have "e \<in> accepted p" "accepted (wkBroker w) \<subseteq> accepted p"
    using accepts [OF pub] keeps [of "wkBroker w" e "obHeaders r"] pub by simp_all
  then show ?thesis
    using v pub assms(2)
    by (auto simp: publish_record_def inspect_def on_store_def on_broker_def MarkPublished_def updateOutbox_runs ret_def
        sent_def held_def)
qed

lemma publish_records_sent:
  "\<forall>r \<in> set rs. held tc r (wkStore w) \<and> (\<exists>e. OutboxEvent_Envelope tc r = Inr e) \<Longrightarrow>
   \<exists>w'. publish_records tc publish rs None w = (Inr (), w') \<and>
     (\<forall>k. k \<in> obEventID ` set rs \<or> sent tc (accepted (wkBroker w)) (wkStore w) k \<longrightarrow>
        sent tc (accepted (wkBroker w')) (wkStore w') k)"
proof (induction rs arbitrary: w)
  case Nil
  then show ?case by (simp add: ret_def)
next
  case (Cons r rs)
  then obtain e where "held tc r (wkStore w)" "OutboxEvent_Envelope tc r = Inr e" by auto
  from publish_record_sent [OF this] obtain w' where w': "publish_record tc publish r w = (Inr None, w')"
      "sent tc (accepted (wkBroker w')) (wkStore w') (obEventID r)"
      "\<forall>k. sent tc (accepted (wkBroker w)) (wkStore w) k \<longrightarrow> sent tc (accepted (wkBroker w')) (wkStore w') k"
      "\<forall>r'. held tc r' (wkStore w) \<longrightarrow> held tc r' (wkStore w')" by blast
  then have "\<forall>r \<in> set rs. held tc r (wkStore w') \<and> (\<exists>e. OutboxEvent_Envelope tc r = Inr e)" using Cons.prems by auto
  from Cons.IH [OF this] w' show ?case by (auto simp: and_then_def)
qed

lemma batch_drains:
  assumes "settled tc (accepted (wkBroker w)) (wkStore w)" and "zero_time \<notin> obCreatedAt ` ran (mgOutbox (wkStore w))"
  shows "\<exists>w'. publishOutboxBatch tc publish ks batchSize w = (Inr (), w') \<and>
    (\<forall>v \<in> set (batch_candidates ks batchSize w). sent tc (accepted (wkBroker w')) (wkStore w') (obEventID v))"
proof -
  have "\<exists>e. OutboxEvent_Envelope tc r = Inr e" if claimed: "r \<in> set (claimed_records ks batchSize w)" for r
  proof -
    obtain v where r: "r = leased (shd (mgClock (wkStore w))) (30 * Second) v" and "v \<in> set (batch_candidates ks batchSize w)"
      using claimed by (auto simp: claimed_records_def)
    then have "mgOutbox (wkStore w) (obEventID v) = Some v"
      using candidates_in_outbox [OF assms(1)] unfolding batch_candidates_def by blast
    with assms show ?thesis by (auto simp: r settled_def ran_def image_iff)
  qed
  moreover note claimed_store_settled(2) [OF assms(1), of ks batchSize]
  ultimately obtain w' where "publishOutboxBatch tc publish ks batchSize w = (Inr (), w')"
      "\<forall>k \<in> obEventID ` set (claimed_records ks batchSize w). sent tc (accepted (wkBroker w')) (wkStore w') k"
    using publish_records_sent [of "claimed_records ks batchSize w" tc "w\<lparr>wkStore := claimed_store ks batchSize w\<rparr>"]
    by (auto simp: publishOutboxBatch_runs)
  then show ?thesis by (auto simp: claimed_records_def)
qed

end

interpretation fake: reliable_publisher FakeBroker_Publish "\<lambda>b. set (Messages b)"
  by unfold_locales (auto simp: FakeBroker_Publish_def Messages_def and_then_def of_result_def modify_state_def split: sum.splits)

text \<open>
  C33. The outbox loses nothing: on every run of a service with an empty outbox at the start,
  an event that was appended at any time is still in the outbox later with the same content,
  and when it is marked as published the broker has received exactly its envelope.
\<close>

theorem outbox_loses_nothing:
  assumes "mgOutbox (wkStore w0) = Map.empty" and "(outbox_step tc FakeBroker_Publish)\<^sup>*\<^sup>* w0 w"
    and "(outbox_step tc FakeBroker_Publish)\<^sup>*\<^sup>* w w'" and "mgOutbox (wkStore w) k = Some v"
  shows "\<exists>v'. mgOutbox (wkStore w') k = Some v' \<and> OutboxEvent_Envelope tc v' = OutboxEvent_Envelope tc v \<and>
    (obStatus v' = StatusPublished \<longrightarrow> (\<exists>e \<in> set (Messages (wkBroker w')). OutboxEvent_Envelope tc v = Inr e))"
proof -
  have ok: "settled tc (set (Messages (wkBroker w))) (wkStore w)" "settled tc (set (Messages (wkBroker w'))) (wkStore w')"
    using fake.outbox.inv_reachable assms(1-3) rtranclp_trans by (metis, metis)
  have "obEventID v = k" using ok(1) assms(4) by (auto simp: settled_def)
  then have "held tc v (wkStore w')"
    by (intro fake.outbox_steps_held [OF ok(1) assms(3)]) (simp add: held_def assms(4))
  then show ?thesis using ok(2) \<open>obEventID v = k\<close> unfolding held_def settled_def by metis
qed

text \<open>A service that appends one event and publishes it.\<close>

definition sample_start :: "FakeBroker worker" where
  "sample_start = \<lparr>wkStore = NewMessageStore (sconst 7), wkBroker = NewFakeBroker\<rparr>"

definition sample_record :: OutboxEvent where
  "sample_record = \<lparr>obID = 1, obEventID = ''e1'', obAggregateType = ''order'', obAggregateID = ''o1'', obEventType = ''demo'',
     obEventVersion = 1, obPayload = JObject [], obHeaders = [], obStatus = ''pending'', obAttempts = 0, obNextRetryAt = 7,
     obLastError = [], obCreatedAt = 7, obUpdatedAt = 7\<rparr>"

definition sample_appended :: "FakeBroker worker" where
  "sample_appended = \<lparr>wkStore = \<lparr>mgNextID = 2, mgOutbox = [''e1'' \<mapsto> sample_record], mgInbox = Map.empty,
     mgClock = sconst 7\<rparr>, wkBroker = []\<rparr>"

lemma sample_append: "on_store (AppendEvent sample_event []) sample_start = (Inr (), sample_appended)"
proof -
  have "\<not> IsKnownEventType ''demo''" by code_simp
  then have "ValidateEventPayload sample_event = Inr ()"
    by (simp add: ValidateEventPayload_def sample_event_valid) (simp add: sample_event_def)
  then show ?thesis
    by (simp add: on_store_def AppendEvent_runs sample_start_def NewMessageStore_def NewFakeBroker_def sample_appended_def
        sample_record_def sample_event_def StatusPending_def)
qed

lemma sample_run: "(outbox_step plain_times FakeBroker_Publish)\<^sup>*\<^sup>* sample_start sample_appended"
  using outbox_step.append [OF sample_append] by blast

lemma sample_record_envelope: "OutboxEvent_Envelope plain_times sample_record = Inr (sample_event\<lparr>eOccurredAt := 7\<rparr>)"
  by (simp add: OutboxEvent_Envelope_def sample_record_def sample_event_def UnmarshalEnvelope_def unmarshal_Envelope_def
      with_object_def get_string_def get_int64_def get_time_def get_raw_def json_field_def Envelope_Validate_def zero_time_def)

theorem outbox_loses_nothing_witness:
  "\<exists>v'. mgOutbox (wkStore (snd (publishOutboxBatch plain_times FakeBroker_Publish [''e1''] 10 sample_appended))) ''e1'' = Some v' \<and>
     OutboxEvent_Envelope plain_times v' = Inr (sample_event\<lparr>eOccurredAt := 7\<rparr>)"
proof -
  have "mgOutbox (wkStore sample_start) = Map.empty" by (simp add: sample_start_def NewMessageStore_def)
  moreover have "(outbox_step plain_times FakeBroker_Publish)\<^sup>*\<^sup>* sample_appended
      (snd (publishOutboxBatch plain_times FakeBroker_Publish [''e1''] 10 sample_appended))"
    by (intro r_into_rtranclp outbox_step.batch) (rule prod.collapse [symmetric])
  moreover have "mgOutbox (wkStore sample_appended) ''e1'' = Some sample_record" by (simp add: sample_appended_def)
  ultimately show ?thesis
    using outbox_loses_nothing [OF _ sample_run] by (fastforce simp: sample_record_envelope)
qed

lemma candidates_all:
  assumes "range_order ks (mgOutbox s)" and "int (card (dom (mgOutbox s))) \<le> limit"
    and "mgOutbox s k = Some v" and "claimable now v"
  shows "v \<in> set (candidates ks now limit s)"
proof -
  have "length (range_values xs m) \<le> length xs" for xs and m :: "string \<rightharpoonup> OutboxEvent"
    by (induction xs) (auto split: option.split)
  then have "length (filter (claimable now) (range_values ks (mgOutbox s))) \<le> card (dom (mgOutbox s))"
    using assms(1) distinct_card [of ks] le_trans [OF length_filter_le] by (metis range_order_def)
  then have "candidates ks now limit s = sort_key claim_key (filter (claimable now) (range_values ks (mgOutbox s)))"
    using assms(2) by (simp add: candidates_def Let_def)
  then show ?thesis using assms(3,4) by (auto simp: set_range_values_order [OF assms(1)] intro: ranI)
qed

text \<open>
  C35. The outbox drains: on every run, one batch of the worker that is at least as large as the
  outbox, over a broker that accepts valid events, returns no error and leaves every event that
  was due published and in the hands of the broker. (The clock of the store never showed the
  zero time.)
\<close>

theorem outbox_drains:
  assumes "mgOutbox (wkStore w0) = Map.empty" and "(outbox_step tc FakeBroker_Publish)\<^sup>*\<^sup>* w0 w"
    and "zero_time \<notin> obCreatedAt ` ran (mgOutbox (wkStore w))"
    and "range_order ks (mgOutbox (wkStore w))" and "int (card (dom (mgOutbox (wkStore w)))) \<le> batchSize"
  shows "\<exists>w'. publishOutboxBatch tc FakeBroker_Publish ks batchSize w = (Inr (), w') \<and>
    (\<forall>k v. mgOutbox (wkStore w) k = Some v \<and> claimable (shd (mgClock (wkStore w))) v \<longrightarrow>
      (\<exists>v' e. mgOutbox (wkStore w') k = Some v' \<and> obStatus v' = StatusPublished \<and>
        OutboxEvent_Envelope tc v' = Inr e \<and> e \<in> set (Messages (wkBroker w'))))"
proof -
  have ok: "settled tc (set (Messages (wkBroker w))) (wkStore w)"
    using fake.outbox.inv_reachable assms(1,2) by blast
  obtain w' where "publishOutboxBatch tc FakeBroker_Publish ks batchSize w = (Inr (), w')"
      and out: "\<forall>v \<in> set (batch_candidates ks batchSize w). sent tc (set (Messages (wkBroker w'))) (wkStore w') (obEventID v)"
    using fake.batch_drains [OF ok assms(3)] by blast
  moreover have "sent tc (set (Messages (wkBroker w'))) (wkStore w') k"
    if due: "mgOutbox (wkStore w) k = Some v" "claimable (shd (mgClock (wkStore w))) v" for k v
  proof -
    have "int (card (dom (mgOutbox (wkStore w)))) \<le> (if batchSize \<le> 0 then 100 else batchSize)" using assms(5) by simp
    then have "v \<in> set (batch_candidates ks batchSize w)"
      unfolding batch_candidates_def by (rule candidates_all [OF assms(4) _ due])
    moreover have "obEventID v = k" using ok due by (auto simp: settled_def)
    ultimately show ?thesis using out by blast
  qed
  ultimately show ?thesis unfolding sent_def by blast
qed

theorem outbox_drains_witness:
  "\<exists>w' v' e. publishOutboxBatch plain_times FakeBroker_Publish [''e1''] 10 sample_appended = (Inr (), w') \<and>
     mgOutbox (wkStore w') ''e1'' = Some v' \<and> obStatus v' = StatusPublished \<and> e \<in> set (Messages (wkBroker w'))"
proof -
  have "mgOutbox (wkStore sample_start) = Map.empty" by (simp add: sample_start_def NewMessageStore_def)
  moreover have "zero_time \<notin> obCreatedAt ` ran (mgOutbox (wkStore sample_appended))"
    by (simp add: sample_appended_def sample_record_def zero_time_def)
  moreover have "range_order [''e1''] (mgOutbox (wkStore sample_appended))"
    and "int (card (dom (mgOutbox (wkStore sample_appended)))) \<le> 10"
    by (simp_all add: range_order_def sample_appended_def)
  moreover have "mgOutbox (wkStore sample_appended) ''e1'' = Some sample_record"
    "claimable (shd (mgClock (wkStore sample_appended))) sample_record"
    by (simp_all add: sample_appended_def sample_record_def claimable_def const_defs)
  ultimately show ?thesis using outbox_drains [OF _ sample_run] by blast
qed

section \<open>The consumer\<close>

text \<open>The record of an event that is processed.\<close>

definition processed :: "string \<Rightarrow> string \<Rightarrow> 'w consumer_world \<Rightarrow> bool" where
  "processed consumer eventID c \<longleftrightarrow>
     (\<exists>v. mgInbox (cnInbox c) (consumer @ '':'' @ eventID) = Some v \<and> ixStatus v = StatusProcessed)"

text \<open>
  The steps of a consumer: it handles a delivery completely, or the service goes on meanwhile,
  which may append to the outbox beside the inbox and do anything to its own data.
\<close>

inductive consumer_step :: "time_codec \<Rightarrow> string \<Rightarrow> 'w consumer_world \<Rightarrow> 'w consumer_world \<Rightarrow> bool"
  for tc :: time_codec and consumer :: string where
  deliver: "handleDelivery tc consumer handlers maxAttempts d c = (res, c') \<Longrightarrow> consumer_step tc consumer c c'"
| service: "mgInbox (cnInbox c') = mgInbox (cnInbox c) \<Longrightarrow> consumer_step tc consumer c c'"

lemma publishRetryWith_inbox: "publishRetryWith tc consumer event d n c = (res, c') \<Longrightarrow>
    cnInbox c' = cnInbox c \<and> cnWorld c' = cnWorld c \<and> res \<noteq> Inr Ack"
  by (auto simp: publishRetryWith_def ret_def split: sum.splits if_splits)

lemma requeueDelayed_eq [simp]: "publishRetry = publishRetryWith" "requeueDelayed = publishRetryWith"
  by (simp_all add: fun_eq_iff publishRetry_def requeueDelayed_def)

lemma retryOrDeadLetter_inbox: "retryOrDeadLetter tc consumer event d n m c = (res, c') \<Longrightarrow>
    cnInbox c' = cnInbox c \<and> cnWorld c' = cnWorld c \<and> res \<noteq> Inr Ack"
  by (auto simp: retryOrDeadLetter_def ret_def split: if_splits dest: publishRetryWith_inbox)

text \<open>An event that is processed is acknowledged and nothing else happens.\<close>

lemma delivery_of_processed:
  assumes "UnmarshalEnvelope tc (dlBody d) = Inr event" and "lookupHandler event handlers = Some h"
    and "TrimSpace consumer = consumer" and "processed consumer (eEventID event) c" and "consumer \<noteq> []"
  shows "handleDelivery tc consumer handlers maxAttempts d c =
    (Inr Ack, c\<lparr>cnInbox := (cnInbox c)\<lparr>mgClock := stl (mgClock (cnInbox c))\<rparr>\<rparr>)"
proof -
  have "Envelope_Validate event = Inr ()"
    using assms(1) by (auto simp: UnmarshalEnvelope_def bind_result_def split: option.splits sum.splits)
  then show ?thesis
    using assms by (auto simp: handleDelivery_def inspect_def on_inbox_def Inbox_Claim_def and_then_def of_result_def
        message_now_def Envelope_InboxKey_def Let_def ret_def processed_def)
qed

lemma Inbox_Claim_other: "Inbox_Claim consumer event lease s = (res, s') \<Longrightarrow> k \<noteq> TrimSpace consumer @ '':'' @ eEventID event \<Longrightarrow>
    mgInbox s' k = mgInbox s k"
  by (auto simp: Inbox_Claim_def and_then_def of_result_def message_now_def Envelope_InboxKey_def Let_def
      split: sum.splits option.splits if_splits)

lemma Inbox_Claim_processed: "Inbox_Claim consumer event lease s = (Inr claim, s') \<Longrightarrow> icProcessed claim \<Longrightarrow>
    \<exists>v. mgInbox s' (TrimSpace consumer @ '':'' @ eEventID event) = Some v \<and> ixStatus v = StatusProcessed"
  by (auto simp: Inbox_Claim_def and_then_def of_result_def message_now_def Envelope_InboxKey_def Let_def
      split: sum.splits option.splits if_splits)

lemma updateInbox_other: "updateInbox consumer eventID upd s = (res, s') \<Longrightarrow> k \<noteq> consumer @ '':'' @ eventID \<Longrightarrow> mgInbox s' k = mgInbox s k"
  by (auto simp: updateInbox_def and_then_def message_now_def modify_state_def Let_def split: option.splits)

lemma MarkProcessed_marks: "MarkProcessed consumer eventID s = (Inr x, s') \<Longrightarrow>
    \<exists>v. mgInbox s' (consumer @ '':'' @ eventID) = Some v \<and> ixStatus v = StatusProcessed"
  by (auto simp: MarkProcessed_def updateInbox_def and_then_def message_now_def modify_state_def Let_def split: option.splits)

text \<open>A delivery touches only the record of its own event, and acknowledges it only when it is processed.\<close>

lemma handleDelivery_inbox:
  assumes "handleDelivery tc consumer handlers maxAttempts d c = (res, c')" and "UnmarshalEnvelope tc (dlBody d) = Inr event"
    and "lookupHandler event handlers = Some h" and trim: "TrimSpace consumer = consumer"
  shows "(\<forall>k. k \<noteq> consumer @ '':'' @ eEventID event \<longrightarrow> mgInbox (cnInbox c') k = mgInbox (cnInbox c) k) \<and>
    (res = Inr Ack \<longrightarrow> processed consumer (eEventID event) c')"
proof -
  obtain claimed s where claim: "Inbox_Claim consumer event (30 * Second) (cnInbox c) = (claimed, s)" by fastforce
  note run = assms(1-3) claim
  note steps = handleDelivery_def inspect_def on_inbox_def
  note other = Inbox_Claim_other [OF claim, unfolded trim]
  show ?thesis
  proof (cases claimed)
    case (Inl e)
    with run show ?thesis by (auto dest!: retryOrDeadLetter_inbox simp: steps other)
  next
    case (Inr cl)
    show ?thesis
    proof (cases "icProcessed cl \<or> \<not> icClaimed cl")
      case True
      with run Inr claim show ?thesis
        by (auto simp: steps ret_def processed_def other trim dest!: publishRetryWith_inbox dest: Inbox_Claim_processed split: if_splits)
    next
      case False
      obtain handled w where h: "h event (cnWorld c) = (handled, w)" by fastforce
      obtain mp s1 where m1: "MarkProcessed consumer (eEventID event) s = (mp, s1)" by fastforce
      show ?thesis
      proof (cases handled)
        case Inl': (Inl err)
        obtain mf s2 where m2: "Inbox_MarkFailed consumer (eEventID event) (error_text err) s = (mf, s2)" by fastforce
        have "\<forall>k. k \<noteq> consumer @ '':'' @ eEventID event \<longrightarrow> mgInbox s2 k = mgInbox (cnInbox c) k"
          using updateInbox_other [OF m2 [unfolded Inbox_MarkFailed_def]] other by metis
        with run Inr False h Inl' m2 show ?thesis
          by (auto simp: steps on_world_def dest!: retryOrDeadLetter_inbox)
      next
        case Inr': (Inr u)
        have "\<forall>k. k \<noteq> consumer @ '':'' @ eEventID event \<longrightarrow> mgInbox s1 k = mgInbox (cnInbox c) k"
          using updateInbox_other [OF m1 [unfolded MarkProcessed_def]] other by metis
        with run Inr False h Inr' m1 show ?thesis
          by (cases mp) (auto simp: steps on_world_def ret_def processed_def dest!: retryOrDeadLetter_inbox
              dest: MarkProcessed_marks)
      qed
    qed
  qed
qed

lemma delivery_keeps_processed:
  assumes "handleDelivery tc consumer handlers maxAttempts d c = (res, c')" and "TrimSpace consumer = consumer"
    and "consumer \<noteq> []" and "processed consumer eid c"
  shows "processed consumer eid c'"
proof (cases "UnmarshalEnvelope tc (dlBody d)")
  case (Inl e)
  with assms(1,4) show ?thesis by (simp add: handleDelivery_def ret_def)
next
  case (Inr event)
  show ?thesis
  proof (cases "lookupHandler event handlers")
    case None
    with assms(1,4) Inr show ?thesis by (simp add: handleDelivery_def ret_def)
  next
    case (Some h)
    show ?thesis
    proof (cases "eEventID event = eid")
      case True
      with delivery_of_processed [OF Inr Some assms(2) _ assms(3)] assms(1,4) show ?thesis by (auto simp: processed_def)
    next
      case False
      with handleDelivery_inbox [OF assms(1) Inr Some assms(2)] assms(4) show ?thesis by (auto simp: processed_def)
    qed
  qed
qed

text \<open>
  C36. A consumer handles an event once: when a delivery that has a handler was acknowledged,
  then after any further deliveries to this consumer, whatever the service does meanwhile, each
  delivery of the same event is acknowledged at once: its handler does not run again and
  nothing but the clock is touched. (Deliveries are handled one after the other.)
\<close>

theorem consumer_processes_once:
  assumes "UnmarshalEnvelope tc (dlBody d) = Inr event" and "lookupHandler event handlers = Some h"
    and "TrimSpace consumer = consumer" and "consumer \<noteq> []"
    and "handleDelivery tc consumer handlers maxAttempts d c = (Inr Ack, c1)" and "(consumer_step tc consumer)\<^sup>*\<^sup>* c1 c2"
    and "UnmarshalEnvelope tc (dlBody d') = Inr event'" and "lookupHandler event' handlers' = Some h'"
    and "eEventID event' = eEventID event"
  shows "handleDelivery tc consumer handlers' maxAttempts' d' c2 =
    (Inr Ack, c2\<lparr>cnInbox := (cnInbox c2)\<lparr>mgClock := stl (mgClock (cnInbox c2))\<rparr>\<rparr>)"
proof -
  have "processed consumer (eEventID event) c1" using handleDelivery_inbox [OF assms(5,1-3)] by simp
  with assms(6) have "processed consumer (eEventID event) c2"
  proof (induction rule: rtranclp_induct)
    case (step u v)
    from step(2) show ?case
    proof cases
      case (deliver handlers maxAttempts d res)
      then show ?thesis using delivery_keeps_processed assms(3,4) step(3,4) by blast
    next
      case service
      with step show ?thesis by (simp add: processed_def)
    qed
  qed
  then show ?thesis using delivery_of_processed assms(3,4,7-9) by metis
qed

text \<open>A session decides about each of its deliveries.\<close>

lemma handleDelivery_decides: "\<exists>v c'. handleDelivery tc consumer handlers maxAttempts d c = (Inr v, c')"
  by (auto simp: handleDelivery_def inspect_def ret_def retryOrDeadLetter_def publishRetryWith_def
      split: sum.split option.split prod.split)

lemma session_decides: "\<exists>vs c'. consumer_session tc consumer handlers maxAttempts ds c = (Inr vs, c') \<and> length vs = length ds"
proof -
  have "\<exists>vs c'. consume tc consumer handlers n ds c = (Inr vs, c') \<and> length vs = length ds" for n
  proof (induction ds arbitrary: c)
    case (Cons d ds)
    obtain v c1 where "handleDelivery tc consumer handlers n d c = (Inr v, c1)" using handleDelivery_decides by blast
    with Cons.IH [of c1] show ?case by (auto simp: and_then_def ret_def)
  qed (simp add: ret_def)
  then show ?thesis by (simp add: consumer_session_def)
qed

text \<open>A consumer whose handler counts the payments it is told of.\<close>

definition paid_event :: EventEnvelope where
  "paid_event = sample_event\<lparr>eEventType := EventPaymentSucceeded\<rparr>"

definition paid_delivery :: delivery where
  "paid_delivery = \<lparr>dlBody = Some (marshal_Envelope plain_times paid_event), dlHeaders = []\<rparr>"

definition counting :: "nat handlers" where
  "counting t = (if t = EventPaymentSucceeded then Some (\<lambda>e n. (Inr (), Suc n)) else None)"

definition idle_consumer :: "nat consumer_world" where
  "idle_consumer = \<lparr>cnInbox = NewMessageStore (sconst 7), cnWorld = 0, cnConfirms = sconst True\<rparr>"

lemma paid_decodes: "UnmarshalEnvelope plain_times (dlBody paid_delivery) = Inr paid_event"
proof -
  have "fmt_int 5 = ''5''" by code_simp
  moreover have "envelope_utf8 paid_event"
    by (auto simp: paid_event_def sample_event_def envelope_utf8_def EventPaymentSucceeded_def intro!: valid_utf8_ascii)
  ultimately show ?thesis
    unfolding paid_delivery_def
    by (simp, intro UnmarshalEnvelope_marshal)
      (simp_all add: paid_event_def sample_event_def Envelope_Validate_def zero_time_def plain_times_def EventPaymentSucceeded_def)
qed

lemma paid_handled: "lookupHandler paid_event counting = Some (\<lambda>e n. (Inr (), Suc n))"
proof -
  have "IsKnownEventType EventPaymentSucceeded" by code_simp
  then show ?thesis by (simp add: lookupHandler_def counting_def paid_event_def sample_event_def)
qed

lemma order_consumer: "TrimSpace ''order'' = ''order''" by code_simp

lemma paid_once: "\<exists>c. handleDelivery plain_times ''order'' counting 5 paid_delivery idle_consumer = (Inr Ack, c) \<and> cnWorld c = 1"
proof -
  have "Envelope_Validate paid_event = Inr ()"
    by (simp add: paid_event_def sample_event_def Envelope_Validate_def zero_time_def EventPaymentSucceeded_def)
  then show ?thesis
    by (simp add: handleDelivery_def paid_decodes paid_handled inspect_def on_inbox_def on_world_def Inbox_Claim_def and_then_def
        of_result_def message_now_def Envelope_InboxKey_def order_consumer Let_def idle_consumer_def NewMessageStore_def
        MarkProcessed_def updateInbox_def modify_state_def ret_def)
qed

theorem consumer_processes_once_witness:
  "\<exists>c. handleDelivery plain_times ''order'' counting 5 paid_delivery idle_consumer = (Inr Ack, c) \<and>
     fst (handleDelivery plain_times ''order'' counting 5 paid_delivery c) = Inr Ack \<and>
     cnWorld (snd (handleDelivery plain_times ''order'' counting 5 paid_delivery c)) = 1"
proof -
  obtain c where c: "handleDelivery plain_times ''order'' counting 5 paid_delivery idle_consumer = (Inr Ack, c)" "cnWorld c = 1"
    using paid_once by blast
  with consumer_processes_once [OF paid_decodes paid_handled order_consumer _ c(1) rtranclp.rtrancl_refl paid_decodes paid_handled refl]
  show ?thesis by simp
qed

text \<open>
  Handling is not atomic, though: a consumer that was overtaken while it handled an event, its
  lease having run out, and then fails marks the event as failed although another one has
  processed it, and once the lease is over again the event is handed out for processing.
\<close>

lemma processed_event_reopens:
  assumes "MarkProcessed consumer (eEventID event) s = (Inr (), s1)" and "TrimSpace consumer = consumer" and "consumer \<noteq> []"
    and "Envelope_Validate event = Inr ()" and "0 < lease" and "shd (mgClock s1) + lease \<le> shd (stl (mgClock s1))"
  shows "\<exists>s2 claim s3. Inbox_MarkFailed consumer (eEventID event) reason s1 = (Inr (), s2) \<and>
    Inbox_Claim consumer event lease s2 = (Inr claim, s3) \<and> icClaimed claim \<and> \<not> icProcessed claim"
  using MarkProcessed_marks [OF assms(1)] assms(2-6)
  by (auto simp: Inbox_MarkFailed_def updateInbox_def and_then_def message_now_def modify_state_def Let_def
      Inbox_Claim_def of_result_def Envelope_InboxKey_def const_defs)

text \<open>
  The routing table and the services disagree in one place: nobody is subscribed to
  \<open>inventory.restocked.v1\<close>, while every other known event has a consumer.
\<close>

lemma subscribed_events:
  "set (concat (map snd consumerEvents)) = set knownEventTypes - {EventInventoryRestocked}"
  by code_simp

end
