(* ===== verification/Gateway_Model.thy ===== *)
theory Gateway_Model
  imports Cart_Model Identity_Model Payment_Model Fulfillment_Model
begin

text \<open>
  services/gateway/internal/app and internal/middleware, shared/platform/httpx: the HTTP front of
  the services. A route is its method, its path pattern and its handler; matching a request
  against the patterns and decoding the body into JSON is done by the gin framework, so a handler
  is given a request with its path parameters, query and body (\<open>None\<close> where no JSON document can be
  read). The clients of the services are parameters. The texts of the responses are ASCII
  glosses.
\<close>

section \<open>Requests and responses (httpx/response.go)\<close>

record http_request =
  hqAuthorization :: string
  hqIdempotencyKey :: string
  hqRequestID :: string
  hqQuery :: "string \<Rightarrow> string"
  hqParam :: "string \<Rightarrow> string"
  hqBody :: "json option"
  hqContentLength :: int

text \<open>The context of a request; the keys set by the middleware are fields.\<close>

record gin_context =
  gcRequest :: http_request
  gcRequestID :: "string option"
  gcUserID :: "int64 option"
  gcUserRole :: "string option"

record gatewaySPU =
  gpID :: uint64
  gpCategoryID :: uint64
  gpName :: string
  gpDescription :: string
  gpActive :: bool

record gatewaySKU =
  gkID :: uint64
  gkSPUID :: uint64
  gkCode :: string
  gkName :: string
  gkPriceCents :: int64
  gkAvailableStock :: int32
  gkReservedStock :: int32
  gkActive :: bool
  gkCreatedAt :: time
  gkUpdatedAt :: time

record gatewayProduct =
  gtSPU :: gatewaySPU
  gtSKUs :: "gatewaySKU list"
  gtImages :: "string list"

record gatewayProductPage =
  ggItems :: "gatewayProduct list"
  ggLimit :: int
  ggOffset :: int
  ggTotal :: int

text \<open>What the \<open>Data\<close> of a response can be.\<close>

datatype http_data =
    OrderCreated OrderCreateResponse | OrderRead OrderGetResponse | OrderListed "OrderGetResponse list \<times> int"
  | OrderMoved OrderTransitionResponse | Products gatewayProductPage | ProductRead gatewayProduct
  | Tokens IdentityTokenPair | Addresses "UserAddress list" | AddressRead UserAddress | Deleted bool
  | CartLine CartItemProto | CartListed "CartItemProto list" | CartPreviewed "int64 \<times> bool \<times> CartItemProto list"
  | PaymentCreated PaymentCreateResponse | PaymentCalledBack "PaymentCreateResponse \<times> string \<times> bool"
  | PaymentRefunded PaymentRefundResponse | Shipped FulfillmentShipResponse

datatype http_body =
    Health
  | Envelope (enCode: string) (enMessage: string) (enData: "http_data option") (enRequestID: string)

record http_response =
  hsStatus :: nat
  hsBody :: http_body

definition RequestID :: "gin_context \<Rightarrow> string" where
  "RequestID c = (case gcRequestID c of Some v \<Rightarrow> v | None \<Rightarrow> hqRequestID (gcRequest c))"

definition httpx_OK :: "gin_context \<Rightarrow> nat \<Rightarrow> http_data \<Rightarrow> http_response" where
  "httpx_OK c status data = \<lparr>hsStatus = status, hsBody = Envelope ''OK'' ''success'' (Some data) (RequestID c)\<rparr>"

definition httpx_Error :: "gin_context \<Rightarrow> nat \<Rightarrow> string \<Rightarrow> string \<Rightarrow> http_response" where
  "httpx_Error c status code message = \<lparr>hsStatus = status, hsBody = Envelope code message None (RequestID c)\<rparr>"

section \<open>Authentication (middleware/commerce_auth.go)\<close>

record gateway_config =
  gfLib :: auth_library
  gfJWTSecret :: string
  gfCallSecret :: string

record 'e gateway_world =
  gwNow :: clock
  gwEnv :: 'e

type_synonym 'e handler = "('e gateway_world, http_response) go"

definition gateway_now :: "('e gateway_world, time) go" where
  "gateway_now w = (Inr (shd (gwNow w)), w\<lparr>gwNow := stl (gwNow w)\<rparr>)"

definition on_service :: "('e, 'a) go \<Rightarrow> ('e gateway_world, 'a) go" where
  "on_service m w = (case m (gwEnv w) of (res, e) \<Rightarrow> (res, w\<lparr>gwEnv := e\<rparr>))"

text \<open>\<open>strings.SplitN(s, " ", 2)\<close>, and \<open>strings.EqualFold\<close> with an ASCII word.\<close>

definition split_space :: "string \<Rightarrow> string list" where
  "split_space s = (if CHR '' '' \<in> set s
     then [takeWhile (\<lambda>c. c \<noteq> CHR '' '') s, drop 1 (dropWhile (\<lambda>c. c \<noteq> CHR '' '') s)] else [s])"

definition EqualFold_ascii :: "string \<Rightarrow> string \<Rightarrow> bool" where
  "EqualFold_ascii s word \<longleftrightarrow> map ascii_lower s = map ascii_lower word"

definition unauthorized :: "gin_context \<Rightarrow> string \<Rightarrow> http_response" where
  "unauthorized c message = httpx_Error c 401 ''UNAUTHORIZED'' message"

text \<open>The middleware either aborts with a response or goes on with the user and role of the token.\<close>

definition CommerceJWTAuth ::
  "gateway_config \<Rightarrow> gin_context \<Rightarrow> (gin_context \<Rightarrow> 'e handler) \<Rightarrow> 'e handler" where
  "CommerceJWTAuth g c continue =
     (case NewManager (TrimSpace (gfJWTSecret g)) (60 * Second) (3600 * Second) of
        Inl _ \<Rightarrow> ret (httpx_Error c 503 ''AUTH_NOT_READY'' ''authentication is not configured'')
      | Inr manager \<Rightarrow>
          (case split_space (TrimSpace (hqAuthorization (gcRequest c))) of
             [scheme, raw] \<Rightarrow>
               (if \<not> EqualFold_ascii scheme ''Bearer''
                then ret (unauthorized c ''please provide a Bearer access token'')
                else and_then gateway_now (\<lambda>now.
                  case ParseAccessToken (gfLib g) manager now raw of
                    Inl _ \<Rightarrow> ret (unauthorized c ''access token invalid or expired'')
                  | Inr claims \<Rightarrow> continue (c\<lparr>gcUserID := Some (cmUserID claims), gcUserRole := Some (cmRole claims)\<rparr>)))
           | _ \<Rightarrow> ret (unauthorized c ''please provide a Bearer access token'')))"

definition gatewayUserID :: "gin_context \<Rightarrow> (uint64 \<Rightarrow> 'e handler) \<Rightarrow> 'e handler" where
  "gatewayUserID c continue =
     (case gcUserID c of
        None \<Rightarrow> ret (unauthorized c ''user not authenticated'')
      | Some userID \<Rightarrow> (if sint userID \<le> 0 then ret (unauthorized c ''user identity invalid'') else continue userID))"

definition new_context :: "http_request \<Rightarrow> gin_context" where
  "new_context q = \<lparr>gcRequest = q, gcRequestID = None, gcUserID = None, gcUserRole = None\<rparr>"

section \<open>Reading a request\<close>

text \<open>The remaining field types of the request structs.\<close>

definition get_int32 :: "(string \<times> json) list \<Rightarrow> string \<Rightarrow> int32 result" where
  "get_int32 fs name =
     (case json_field fs name of None \<Rightarrow> Inr 0 | Some JNull \<Rightarrow> Inr 0
      | Some (JInt n) \<Rightarrow> (if - (2 ^ 31) \<le> n \<and> n < 2 ^ 31 then Inr (word_of_int n) else Inl (json_type_error name))
      | Some _ \<Rightarrow> Inl (json_type_error name))"

definition get_bool :: "(string \<times> json) list \<Rightarrow> string \<Rightarrow> bool result" where
  "get_bool fs name =
     (case json_field fs name of None \<Rightarrow> Inr False | Some JNull \<Rightarrow> Inr False
      | Some (JBool b) \<Rightarrow> Inr b | Some _ \<Rightarrow> Inl (json_type_error name))"

record orderItemRequest =
  oiSKUID :: uint64
  oiQuantity :: int32

definition read_item :: "json \<Rightarrow> orderItemRequest result" where
  "read_item j = with_object j (\<lambda>fs.
     bind_result (get_uint64 fs ''sku_id'') (\<lambda>sku. bind_result (get_int32 fs ''quantity'') (\<lambda>q.
       Inr \<lparr>oiSKUID = sku, oiQuantity = q\<rparr>)))"

fun read_items :: "json list \<Rightarrow> orderItemRequest list result" where
  "read_items [] = Inr []"
| "read_items (j # js) = bind_result (read_item j) (\<lambda>item. bind_result (read_items js) (\<lambda>items. Inr (item # items)))"

definition read_order_items :: "(string \<times> json) list \<Rightarrow> string \<Rightarrow> orderItemRequest list result" where
  "read_order_items fs name =
     (case json_field fs name of None \<Rightarrow> Inr [] | Some JNull \<Rightarrow> Inr []
      | Some (JArray js) \<Rightarrow> read_items js | Some _ \<Rightarrow> Inl (json_type_error name))"

definition read_address :: "(string \<times> json) list \<Rightarrow> UserAddress result" where
  "read_address fs =
     bind_result (get_uint64 fs ''id'') (\<lambda>i. bind_result (get_uint64 fs ''user_id'') (\<lambda>u.
     bind_result (get_string fs ''recipient'') (\<lambda>recipient. bind_result (get_string fs ''phone'') (\<lambda>phone.
     bind_result (get_string fs ''province'') (\<lambda>province. bind_result (get_string fs ''city'') (\<lambda>city.
     bind_result (get_string fs ''district'') (\<lambda>district. bind_result (get_string fs ''detail'') (\<lambda>detail.
     bind_result (get_bool fs ''is_default'') (\<lambda>dflt.
       Inr \<lparr>uaID = i, uaUserID = u, uaRecipient = recipient, uaPhone = phone, uaProvince = province, uaCity = city,
         uaDistrict = district, uaDetail = detail, uaIsDefault = dflt\<rparr>)))))))))"

definition bad_request :: "gin_context \<Rightarrow> string \<Rightarrow> http_response" where
  "bad_request c message = httpx_Error c 400 ''VALIDATION_ERROR'' message"

definition ShouldBindJSON ::
  "gin_context \<Rightarrow> ((string \<times> json) list \<Rightarrow> 'a result) \<Rightarrow> ('a \<Rightarrow> 'e handler) \<Rightarrow> 'e handler" where
  "ShouldBindJSON c read continue =
     (case hqBody (gcRequest c) of
        None \<Rightarrow> ret (bad_request c ''request format invalid'')
      | Some j \<Rightarrow>
          (case with_object j read of
             Inl _ \<Rightarrow> ret (bad_request c ''request format invalid'')
           | Inr v \<Rightarrow> continue v))"

definition path_id :: "gin_context \<Rightarrow> string \<Rightarrow> string \<Rightarrow> (uint64 \<Rightarrow> 'e handler) \<Rightarrow> 'e handler" where
  "path_id c name message continue =
     (case ParseUint (hqParam (gcRequest c) name) of
        None \<Rightarrow> ret (bad_request c message)
      | Some i \<Rightarrow> (if i = 0 then ret (bad_request c message) else continue i))"

section \<open>Calls to the services (stage4_helpers.go)\<close>

text \<open>A generated client sends a request with its outgoing metadata.\<close>

type_synonym ('e, 'req, 'resp) rpc = "metadata \<Rightarrow> 'req \<Rightarrow> ('e, 'resp) go"

record 'e order_rpc =
  orCreate :: "('e, OrderCreateRequest, OrderCreateResponse) rpc"
  orList :: "('e, uint64 \<times> int32 \<times> int32, OrderGetResponse list \<times> int) rpc"
  orGet :: "('e, uint64 \<times> string, OrderGetResponse) rpc"
  orCancel :: "('e, uint64 \<times> string \<times> string, OrderTransitionResponse) rpc"

record 'e catalog_rpc =
  crListProducts :: "('e, int32 \<times> int32 \<times> bool, CatalogListProductsResponse) rpc"
  crGetProduct :: "('e, uint64 \<times> bool, CatalogProduct) rpc"

record 'e identity_rpc =
  irRegister :: "('e, string \<times> string, IdentityTokenPair) rpc"
  irLogin :: "('e, string \<times> string, IdentityTokenPair) rpc"
  irRefresh :: "('e, string, IdentityTokenPair) rpc"
  irListAddresses :: "('e, uint64, UserAddress list) rpc"
  irCreateAddress :: "('e, uint64 \<times> UserAddress option, UserAddress) rpc"
  irUpdateAddress :: "('e, uint64 \<times> uint64 \<times> UserAddress option, UserAddress) rpc"
  irDeleteAddress :: "('e, uint64 \<times> uint64, bool) rpc"

record 'e cart_rpc =
  carSet :: "('e, uint64 \<times> uint64 \<times> int32, CartItemProto) rpc"
  carDelete :: "('e, uint64 \<times> uint64, bool) rpc"
  carList :: "('e, uint64, CartItemProto list) rpc"
  carPreview :: "('e, uint64, int64 \<times> bool \<times> CartItemProto list) rpc"

record 'e payment_rpc =
  parCreate :: "('e, uint64 \<times> string, PaymentCreateResponse) rpc"
  parCallback :: "('e, string \<times> string \<times> string, PaymentCreateResponse \<times> string \<times> bool) rpc"
  parRefund :: "('e, uint64 \<times> string \<times> string, PaymentRefundResponse) rpc"

record 'e fulfillment_rpc =
  furShip :: "('e, uint64 \<times> string \<times> string \<times> string, FulfillmentShipResponse) rpc"
  furConfirmReceipt :: "('e, uint64 \<times> string, FulfillmentShipResponse) rpc"
  furGet :: "('e, uint64 \<times> string, FulfillmentShipResponse) rpc"

text \<open>A client may be missing, its routes are then not registered.\<close>

record 'e grpcClients =
  gcCommerceOrder :: "'e order_rpc option"
  gcCatalog :: "'e catalog_rpc option"
  gcIdentity :: "'e identity_rpc option"
  gcCart :: "'e cart_rpc option"
  gcPayment :: "'e payment_rpc option"
  gcFulfillment :: "'e fulfillment_rpc option"

definition signedUserContext :: "gateway_config \<Rightarrow> string \<Rightarrow> uint64 \<Rightarrow> ('e gateway_world, metadata) go" where
  "signedUserContext g method userID =
     and_then gateway_now (\<lambda>now. ret (AppendUser [] (gfCallSecret g) method userID now))"

definition signedSystemContext :: "gateway_config \<Rightarrow> string \<Rightarrow> ('e gateway_world, metadata) go" where
  "signedSystemContext g method =
     and_then gateway_now (\<lambda>now. ret (AppendRole [] (gfCallSecret g) method SystemActorID SystemRole now))"

definition signedAdminContext :: "gateway_config \<Rightarrow> string \<Rightarrow> uint64 \<Rightarrow> ('e gateway_world, metadata) go" where
  "signedAdminContext g method userID =
     and_then gateway_now (\<lambda>now. ret (AppendRole [] (gfCallSecret g) method userID ''admin'' now))"

definition respondStage4RPCError :: "gin_context \<Rightarrow> go_error \<Rightarrow> string \<Rightarrow> http_response" where
  "respondStage4RPCError c err resource =
     (case status_code err of
        InvalidArgument \<Rightarrow> httpx_Error c 400 ''VALIDATION_ERROR'' (resource @ '' request invalid'')
      | Unauthenticated \<Rightarrow> httpx_Error c 401 ''UNAUTHORIZED'' ''credentials invalid''
      | PermissionDenied \<Rightarrow> httpx_Error c 403 ''FORBIDDEN'' ''not permitted''
      | NotFound \<Rightarrow> httpx_Error c 404 ''NOT_FOUND'' (resource @ '' does not exist'')
      | AlreadyExists \<Rightarrow> httpx_Error c 409 ''ALREADY_EXISTS'' (resource @ '' already exists'')
      | Aborted \<Rightarrow> httpx_Error c 409 ''CONFLICT'' (resource @ '' conflict'')
      | FailedPrecondition \<Rightarrow> httpx_Error c 409 ''INVALID_STATE'' (resource @ '' not allowed in this state'')
      | Unavailable \<Rightarrow> httpx_Error c 502 ''UPSTREAM_UNAVAILABLE'' (resource @ '' service unavailable'')
      | DeadlineExceeded \<Rightarrow> httpx_Error c 502 ''UPSTREAM_UNAVAILABLE'' (resource @ '' service unavailable'')
      | _ \<Rightarrow> httpx_Error c 502 ''UPSTREAM_ERROR'' (resource @ '' service unavailable''))"

text \<open>The common end of a handler: the call, then its error or its reply.\<close>

definition answer_with ::
  "('e, 'resp) go \<Rightarrow> (go_error \<Rightarrow> http_response) \<Rightarrow> ('resp \<Rightarrow> http_response) \<Rightarrow> 'e handler" where
  "answer_with call failed reply =
     inspect (on_service call) (\<lambda>res. case res of Inl err \<Rightarrow> ret (failed err) | Inr v \<Rightarrow> ret (reply v))"

definition addressRequest :: "UserAddress option \<Rightarrow> UserAddress option" where
  "addressRequest value = (case value of
     None \<Rightarrow> Some \<lparr>uaID = 0, uaUserID = 0, uaRecipient = [], uaPhone = [], uaProvince = [], uaCity = [], uaDistrict = [],
       uaDetail = [], uaIsDefault = False\<rparr>
   | Some a \<Rightarrow> Some a)"

end
