(* ===== verification/Gateway_Routes.thy ===== *)
theory Gateway_Routes
  imports Gateway_Model
begin

text \<open>
  services/gateway/internal/app: the handlers of order_routes.go, catalog_routes.go,
  identity_routes.go, cart_routes.go, payment_routes.go and fulfillment_routes.go, and the table
  of routes (routes.go).
\<close>

section \<open>Orders (order_routes.go)\<close>

definition respondOrderRPCError :: "gin_context \<Rightarrow> go_error \<Rightarrow> http_response" where
  "respondOrderRPCError c err =
     (case status_code err of
        InvalidArgument \<Rightarrow> httpx_Error c 400 ''VALIDATION_ERROR'' ''order parameters invalid''
      | NotFound \<Rightarrow> httpx_Error c 404 ''NOT_FOUND'' ''order or related resource does not exist''
      | PermissionDenied \<Rightarrow> httpx_Error c 403 ''FORBIDDEN'' ''not permitted''
      | ResourceExhausted \<Rightarrow> httpx_Error c 409 ''OUT_OF_STOCK'' ''out of stock''
      | Aborted \<Rightarrow> httpx_Error c 409 ''CONFLICT'' ''order conflict''
      | FailedPrecondition \<Rightarrow> httpx_Error c 409 ''CONFLICT'' ''order conflict''
      | Unavailable \<Rightarrow> httpx_Error c 502 ''UPSTREAM_UNAVAILABLE'' ''order service unavailable''
      | DeadlineExceeded \<Rightarrow> httpx_Error c 502 ''UPSTREAM_UNAVAILABLE'' ''order service unavailable''
      | _ \<Rightarrow> httpx_Error c 500 ''INTERNAL_ERROR'' ''order service unavailable'')"

definition parseOrderQuery :: "gin_context \<Rightarrow> string \<Rightarrow> int \<Rightarrow> int" where
  "parseOrderQuery c name fallback =
     (let value = TrimSpace (hqQuery (gcRequest c) name) in
      if value = [] then fallback else case ParseInt value of None \<Rightarrow> -1 | Some parsed \<Rightarrow> parsed)"

definition orderItemsToProto :: "orderItemRequest list \<Rightarrow> (uint64 \<times> int32) option list" where
  "orderItemsToProto items = map (\<lambda>item. Some (oiSKUID item, oiQuantity item)) items"

definition listCartForOrder ::
  "gateway_config \<Rightarrow> gin_context \<Rightarrow> 'e cart_rpc \<Rightarrow> uint64 \<Rightarrow> (orderItemRequest list \<Rightarrow> 'e handler) \<Rightarrow> 'e handler" where
  "listCartForOrder g c client userID continue =
     and_then (signedUserContext g (cart_method ''List'') userID) (\<lambda>md.
     inspect (on_service (carList client md userID)) (\<lambda>res. case res of
       Inl err \<Rightarrow> ret (respondOrderRPCError c err)
     | Inr response \<Rightarrow>
         (let items = map (\<lambda>item. \<lparr>oiSKUID = cipSkuId item, oiQuantity = cipQuantity item\<rparr>) response in
          if items = [] then ret (bad_request c ''cart is empty'') else continue items)))"

definition createOrderRPC ::
  "gateway_config \<Rightarrow> gin_context \<Rightarrow> 'e order_rpc \<Rightarrow> OrderCreateRequest \<Rightarrow> 'e handler" where
  "createOrderRPC g c client request =
     and_then (signedUserContext g (order_method ''Create'') (qcUserId request)) (\<lambda>md.
     answer_with (orCreate client md request) (respondOrderRPCError c)
       (\<lambda>response. httpx_OK c (if pcReused response then 200 else 201) (OrderCreated response)))"

definition post_order :: "gateway_config \<Rightarrow> 'e order_rpc \<Rightarrow> 'e cart_rpc option \<Rightarrow> gin_context \<Rightarrow> 'e handler" where
  "post_order g client cart c =
     ShouldBindJSON c (\<lambda>fs. bind_result (get_uint64 fs ''address_id'') (\<lambda>address.
       bind_result (read_order_items fs ''items'') (\<lambda>items. Inr (address, items)))) (\<lambda>(address, items).
     gatewayUserID c (\<lambda>userID.
       let create = (\<lambda>items. createOrderRPC g c client \<lparr>qcUserId = userID, qcAddressId = address, qcOrderType = ''normal'',
             qcActivityId = 0, qcIdempotencyKey = TrimSpace (hqIdempotencyKey (gcRequest c)),
             qcItems = orderItemsToProto items\<rparr>)
       in case (items, cart) of ([], Some client) \<Rightarrow> listCartForOrder g c client userID create | _ \<Rightarrow> create items))"

definition post_seckill_order :: "gateway_config \<Rightarrow> 'e order_rpc \<Rightarrow> gin_context \<Rightarrow> 'e handler" where
  "post_seckill_order g client c =
     ShouldBindJSON c (\<lambda>fs. bind_result (get_uint64 fs ''address_id'') (\<lambda>address.
       bind_result (get_uint64 fs ''sku_id'') (\<lambda>sku. bind_result (get_int32 fs ''quantity'') (\<lambda>q.
       bind_result (get_uint64 fs ''activity_id'') (\<lambda>activity. Inr (address, sku, q, activity))))))
     (\<lambda>(address, sku, q, activity).
     gatewayUserID c (\<lambda>userID.
       createOrderRPC g c client \<lparr>qcUserId = userID, qcAddressId = address, qcOrderType = ''seckill'',
         qcActivityId = (if activity = 0 then 1 else activity),
         qcIdempotencyKey = TrimSpace (hqIdempotencyKey (gcRequest c)), qcItems = [Some (sku, q)]\<rparr>))"

definition get_orders :: "gateway_config \<Rightarrow> 'e order_rpc \<Rightarrow> gin_context \<Rightarrow> 'e handler" where
  "get_orders g client c =
     gatewayUserID c (\<lambda>userID.
       let offset = parseOrderQuery c ''offset'' 0; limit = parseOrderQuery c ''limit'' 20 in
       if offset < 0 \<or> limit \<le> 0 \<or> limit > 100 then ret (bad_request c ''paging parameters invalid'')
       else and_then (signedUserContext g (order_method ''List'') userID) (\<lambda>md.
         answer_with (orList client md (userID, word_of_int offset, word_of_int limit)) (respondOrderRPCError c)
           (\<lambda>response. httpx_OK c 200 (OrderListed response))))"

definition get_order :: "gateway_config \<Rightarrow> 'e order_rpc \<Rightarrow> gin_context \<Rightarrow> 'e handler" where
  "get_order g client c =
     gatewayUserID c (\<lambda>userID.
       and_then (signedUserContext g (order_method ''Get'') userID) (\<lambda>md.
       answer_with (orGet client md (userID, hqParam (gcRequest c) ''order_id'')) (respondOrderRPCError c)
         (\<lambda>response. httpx_OK c 200 (OrderRead response))))"

definition cancel_order :: "gateway_config \<Rightarrow> 'e order_rpc \<Rightarrow> gin_context \<Rightarrow> 'e handler" where
  "cancel_order g client c =
     gatewayUserID c (\<lambda>userID.
       let cancel = (\<lambda>reason. and_then (signedUserContext g (order_method ''Cancel'') userID) (\<lambda>md.
             answer_with (orCancel client md (userID, hqParam (gcRequest c) ''order_id'', reason)) (respondOrderRPCError c)
               (\<lambda>response. httpx_OK c 200 (OrderMoved response))))
       in if hqContentLength (gcRequest c) > 0 then ShouldBindJSON c (\<lambda>fs. get_string fs ''reason'') cancel else cancel [])"

section \<open>Products (catalog_routes.go)\<close>

definition respondCatalogError :: "gin_context \<Rightarrow> go_error \<Rightarrow> http_response" where
  "respondCatalogError c err =
     (case status_code err of
        InvalidArgument \<Rightarrow> httpx_Error c 400 ''VALIDATION_ERROR'' ''product query invalid''
      | NotFound \<Rightarrow> httpx_Error c 404 ''NOT_FOUND'' ''product does not exist''
      | Unavailable \<Rightarrow> httpx_Error c 502 ''UPSTREAM_UNAVAILABLE'' ''catalog service unavailable''
      | DeadlineExceeded \<Rightarrow> httpx_Error c 502 ''UPSTREAM_UNAVAILABLE'' ''catalog service unavailable''
      | _ \<Rightarrow> httpx_Error c 502 ''UPSTREAM_ERROR'' ''catalog service unavailable'')"

text \<open>A number of the query with its bounds; a missing one has a default.\<close>

definition page_query :: "gin_context \<Rightarrow> string \<Rightarrow> int \<Rightarrow> (int \<Rightarrow> bool) \<Rightarrow> int option" where
  "page_query c name fallback admitted =
     (let value = hqQuery (gcRequest c) name in
      if value = [] then Some fallback
      else case ParseInt value of None \<Rightarrow> None | Some n \<Rightarrow> (if admitted n then Some n else None))"

definition parseCatalogPage :: "gin_context \<Rightarrow> (int \<Rightarrow> int \<Rightarrow> 'e handler) \<Rightarrow> 'e handler" where
  "parseCatalogPage c continue =
     (case page_query c ''offset'' 0 (\<lambda>n. \<not> n < 0) of
        None \<Rightarrow> ret (bad_request c ''offset invalid'')
      | Some offset \<Rightarrow>
          (case page_query c ''limit'' 20 (\<lambda>n. \<not> (n \<le> 0 \<or> n > 100)) of
             None \<Rightarrow> ret (bad_request c ''limit invalid'')
           | Some limit \<Rightarrow> continue offset limit))"

text \<open>A protobuf timestamp is valid from the year 1 to the year 9999.\<close>

definition timestampToTime :: "time option \<Rightarrow> time" where
  "timestampToTime value =
     (case value of None \<Rightarrow> zero_time
      | Some t \<Rightarrow> (if t < zero_time \<or> t \<ge> 253402300800 * Second then zero_time else t))"

definition catalogSKUToHTTP :: "CatalogSKUSnapshot \<Rightarrow> gatewaySKU" where
  "catalogSKUToHTTP sku = \<lparr>gkID = csSkuId sku, gkSPUID = csSpuId sku, gkCode = csSkuCode sku, gkName = csSkuName sku,
     gkPriceCents = csPriceCents sku, gkAvailableStock = csAvailableStock sku, gkReservedStock = csReservedStock sku,
     gkActive = csActive sku, gkCreatedAt = timestampToTime (csCreatedAt sku),
     gkUpdatedAt = timestampToTime (csUpdatedAt sku)\<rparr>"

definition catalogProductToHTTP :: "CatalogProduct \<Rightarrow> gatewayProduct" where
  "catalogProductToHTTP p =
     \<lparr>gtSPU = \<lparr>gpID = cpSpuId p, gpCategoryID = cpCategoryId p, gpName = cpName p, gpDescription = cpDescription p,
        gpActive = cpActive p\<rparr>, gtSKUs = map catalogSKUToHTTP (cpSkus p), gtImages = cpImages p\<rparr>"

definition get_products :: "'e catalog_rpc \<Rightarrow> gin_context \<Rightarrow> 'e handler" where
  "get_products client c =
     parseCatalogPage c (\<lambda>offset limit.
       answer_with (crListProducts client [] (word_of_int offset, word_of_int limit, False)) (respondCatalogError c)
         (\<lambda>response. httpx_OK c 200 (Products \<lparr>ggItems = map catalogProductToHTTP (clItems response),
            ggLimit = sint (clLimit response), ggOffset = sint (clOffset response), ggTotal = clTotal response\<rparr>)))"

definition get_product :: "'e catalog_rpc \<Rightarrow> gin_context \<Rightarrow> 'e handler" where
  "get_product client c =
     path_id c ''id'' ''product id invalid'' (\<lambda>i.
       answer_with (crGetProduct client [] (i, False)) (respondCatalogError c)
         (\<lambda>product. httpx_OK c 200 (ProductRead (catalogProductToHTTP product))))"

section \<open>Identity (identity_routes.go)\<close>

definition read_credentials :: "(string \<times> json) list \<Rightarrow> (string \<times> string) result" where
  "read_credentials fs = bind_result (get_string fs ''email'') (\<lambda>email.
     bind_result (get_string fs ''password'') (\<lambda>password. Inr (email, password)))"

definition post_register :: "gateway_config \<Rightarrow> 'e identity_rpc \<Rightarrow> gin_context \<Rightarrow> 'e handler" where
  "post_register g client c =
     ShouldBindJSON c read_credentials (\<lambda>credentials.
     and_then (signedSystemContext g (identity_method ''Register'')) (\<lambda>md.
     answer_with (irRegister client md credentials) (\<lambda>err. respondStage4RPCError c err ''registration'')
       (\<lambda>response. httpx_OK c 201 (Tokens response))))"

definition post_login :: "gateway_config \<Rightarrow> 'e identity_rpc \<Rightarrow> gin_context \<Rightarrow> 'e handler" where
  "post_login g client c =
     ShouldBindJSON c read_credentials (\<lambda>credentials.
     and_then (signedSystemContext g (identity_method ''Login'')) (\<lambda>md.
     answer_with (irLogin client md credentials) (\<lambda>err. respondStage4RPCError c err ''login'')
       (\<lambda>response. httpx_OK c 200 (Tokens response))))"

definition post_refresh :: "gateway_config \<Rightarrow> 'e identity_rpc \<Rightarrow> gin_context \<Rightarrow> 'e handler" where
  "post_refresh g client c =
     ShouldBindJSON c (\<lambda>fs. get_string fs ''refresh_token'') (\<lambda>token.
     and_then (signedSystemContext g (identity_method ''Refresh'')) (\<lambda>md.
     answer_with (irRefresh client md token) (\<lambda>err. respondStage4RPCError c err ''refresh'')
       (\<lambda>response. httpx_OK c 200 (Tokens response))))"

definition get_addresses :: "gateway_config \<Rightarrow> 'e identity_rpc \<Rightarrow> gin_context \<Rightarrow> 'e handler" where
  "get_addresses g client c =
     gatewayUserID c (\<lambda>userID.
     and_then (signedUserContext g (identity_method ''ListAddresses'') userID) (\<lambda>md.
     answer_with (irListAddresses client md userID) (\<lambda>err. respondStage4RPCError c err ''address'')
       (\<lambda>response. httpx_OK c 200 (Addresses response))))"

definition post_address :: "gateway_config \<Rightarrow> 'e identity_rpc \<Rightarrow> gin_context \<Rightarrow> 'e handler" where
  "post_address g client c =
     gatewayUserID c (\<lambda>userID.
     ShouldBindJSON c read_address (\<lambda>address.
     and_then (signedUserContext g (identity_method ''CreateAddress'') userID) (\<lambda>md.
     answer_with (irCreateAddress client md (userID, addressRequest (Some address)))
       (\<lambda>err. respondStage4RPCError c err ''address'') (\<lambda>response. httpx_OK c 201 (AddressRead response)))))"

definition put_address_route :: "gateway_config \<Rightarrow> 'e identity_rpc \<Rightarrow> gin_context \<Rightarrow> 'e handler" where
  "put_address_route g client c =
     gatewayUserID c (\<lambda>userID.
     path_id c ''address_id'' ''address id invalid'' (\<lambda>addressID.
     ShouldBindJSON c read_address (\<lambda>address.
     and_then (signedUserContext g (identity_method ''UpdateAddress'') userID) (\<lambda>md.
     answer_with (irUpdateAddress client md (userID, addressID, addressRequest (Some address)))
       (\<lambda>err. respondStage4RPCError c err ''address'') (\<lambda>response. httpx_OK c 200 (AddressRead response))))))"

definition delete_address_route :: "gateway_config \<Rightarrow> 'e identity_rpc \<Rightarrow> gin_context \<Rightarrow> 'e handler" where
  "delete_address_route g client c =
     gatewayUserID c (\<lambda>userID.
     path_id c ''address_id'' ''address id invalid'' (\<lambda>addressID.
     and_then (signedUserContext g (identity_method ''DeleteAddress'') userID) (\<lambda>md.
     answer_with (irDeleteAddress client md (userID, addressID)) (\<lambda>err. respondStage4RPCError c err ''address'')
       (\<lambda>response. httpx_OK c 200 (Deleted response)))))"

section \<open>Cart (cart_routes.go)\<close>

definition cart_failed :: "gin_context \<Rightarrow> go_error \<Rightarrow> http_response" where
  "cart_failed c err = respondStage4RPCError c err ''cart''"

definition post_cart_item :: "gateway_config \<Rightarrow> 'e cart_rpc \<Rightarrow> gin_context \<Rightarrow> 'e handler" where
  "post_cart_item g client c =
     gatewayUserID c (\<lambda>userID.
     ShouldBindJSON c (\<lambda>fs. bind_result (get_uint64 fs ''sku_id'') (\<lambda>sku.
       bind_result (get_int32 fs ''quantity'') (\<lambda>q. Inr (sku, q)))) (\<lambda>(sku, q).
     and_then (signedUserContext g (cart_method ''Set'') userID) (\<lambda>md.
     answer_with (carSet client md (userID, sku, q)) (cart_failed c) (\<lambda>response. httpx_OK c 200 (CartLine response)))))"

definition delete_cart_item :: "gateway_config \<Rightarrow> 'e cart_rpc \<Rightarrow> gin_context \<Rightarrow> 'e handler" where
  "delete_cart_item g client c =
     gatewayUserID c (\<lambda>userID.
     path_id c ''sku_id'' ''SKU id invalid'' (\<lambda>skuID.
     and_then (signedUserContext g (cart_method ''Delete'') userID) (\<lambda>md.
     answer_with (carDelete client md (userID, skuID)) (cart_failed c) (\<lambda>response. httpx_OK c 200 (Deleted response)))))"

definition get_cart :: "gateway_config \<Rightarrow> 'e cart_rpc \<Rightarrow> gin_context \<Rightarrow> 'e handler" where
  "get_cart g client c =
     gatewayUserID c (\<lambda>userID.
     and_then (signedUserContext g (cart_method ''List'') userID) (\<lambda>md.
     answer_with (carList client md userID) (cart_failed c) (\<lambda>response. httpx_OK c 200 (CartListed response))))"

definition get_cart_preview :: "gateway_config \<Rightarrow> 'e cart_rpc \<Rightarrow> gin_context \<Rightarrow> 'e handler" where
  "get_cart_preview g client c =
     gatewayUserID c (\<lambda>userID.
     and_then (signedUserContext g (cart_method ''Preview'') userID) (\<lambda>md.
     answer_with (carPreview client md userID) (cart_failed c) (\<lambda>response. httpx_OK c 200 (CartPreviewed response))))"

section \<open>Payments (payment_routes.go)\<close>

definition post_payment :: "gateway_config \<Rightarrow> 'e payment_rpc \<Rightarrow> gin_context \<Rightarrow> 'e handler" where
  "post_payment g client c =
     gatewayUserID c (\<lambda>userID.
     and_then (signedUserContext g (payment_method ''Create'') userID) (\<lambda>md.
     answer_with (parCreate client md (userID, hqParam (gcRequest c) ''order_id''))
       (\<lambda>err. respondStage4RPCError c err ''payment'')
       (\<lambda>response. httpx_OK c (if pcrReused response then 200 else 201) (PaymentCreated response))))"

definition post_refund :: "gateway_config \<Rightarrow> 'e payment_rpc \<Rightarrow> gin_context \<Rightarrow> 'e handler" where
  "post_refund g client c =
     gatewayUserID c (\<lambda>userID.
     ShouldBindJSON c (\<lambda>fs. get_string fs ''reason'') (\<lambda>reason.
     and_then (signedUserContext g (payment_method ''Refund'') userID) (\<lambda>md.
     answer_with (parRefund client md (userID, hqParam (gcRequest c) ''order_id'', reason))
       (\<lambda>err. respondStage4RPCError c err ''refund'') (\<lambda>response. httpx_OK c 200 (PaymentRefunded response)))))"

definition post_callback :: "gateway_config \<Rightarrow> 'e payment_rpc \<Rightarrow> gin_context \<Rightarrow> 'e handler" where
  "post_callback g client c =
     ShouldBindJSON c (\<lambda>fs. bind_result (get_string fs ''payment_no'') (\<lambda>no.
       bind_result (get_string fs ''callback_ref'') (\<lambda>ref. bind_result (get_string fs ''signature'') (\<lambda>signature.
         Inr (no, ref, signature))))) (\<lambda>callback.
     and_then (signedSystemContext g (payment_method ''Callback'')) (\<lambda>md.
     answer_with (parCallback client md callback) (\<lambda>err. respondStage4RPCError c err ''payment callback'')
       (\<lambda>response. httpx_OK c 200 (PaymentCalledBack response))))"

section \<open>Shipments (fulfillment_routes.go)\<close>

definition post_ship :: "gateway_config \<Rightarrow> 'e fulfillment_rpc \<Rightarrow> gin_context \<Rightarrow> 'e handler" where
  "post_ship g client c =
     gatewayUserID c (\<lambda>actorID.
     if gcUserRole c \<noteq> Some ''admin'' then ret (httpx_Error c 403 ''FORBIDDEN'' ''only administrators may ship'')
     else ShouldBindJSON c (\<lambda>fs. bind_result (get_string fs ''carrier'') (\<lambda>carrier.
       bind_result (get_string fs ''tracking_no'') (\<lambda>no. Inr (carrier, no)))) (\<lambda>(carrier, no).
     and_then (signedAdminContext g (shipping_method ''Ship'') actorID) (\<lambda>md.
     answer_with (furShip client md (actorID, hqParam (gcRequest c) ''order_id'', carrier, no))
       (\<lambda>err. respondStage4RPCError c err ''shipment'') (\<lambda>response. httpx_OK c 200 (Shipped response)))))"

definition post_receipt :: "gateway_config \<Rightarrow> 'e fulfillment_rpc \<Rightarrow> gin_context \<Rightarrow> 'e handler" where
  "post_receipt g client c =
     gatewayUserID c (\<lambda>userID.
     and_then (signedUserContext g (shipping_method ''ConfirmReceipt'') userID) (\<lambda>md.
     answer_with (furConfirmReceipt client md (userID, hqParam (gcRequest c) ''order_id''))
       (\<lambda>err. respondStage4RPCError c err ''receipt'') (\<lambda>response. httpx_OK c 200 (Shipped response))))"

definition get_shipment :: "gateway_config \<Rightarrow> 'e fulfillment_rpc \<Rightarrow> gin_context \<Rightarrow> 'e handler" where
  "get_shipment g client c =
     gatewayUserID c (\<lambda>userID.
     and_then (signedUserContext g (shipping_method ''Get'') userID) (\<lambda>md.
     answer_with (furGet client md (userID, hqParam (gcRequest c) ''order_id''))
       (\<lambda>err. respondStage4RPCError c err ''shipment'') (\<lambda>response. httpx_OK c 200 (Shipped response))))"

section \<open>Routes (routes.go)\<close>

type_synonym 'e route = "string \<times> string \<times> (http_request \<Rightarrow> 'e handler)"

definition public :: "string \<Rightarrow> string \<Rightarrow> (gin_context \<Rightarrow> 'e handler) \<Rightarrow> 'e route" where
  "public method path h = (method, path, \<lambda>q. h (new_context q))"

text \<open>A route of a group that uses the middleware.\<close>

definition authenticated :: "gateway_config \<Rightarrow> string \<Rightarrow> string \<Rightarrow> (gin_context \<Rightarrow> 'e handler) \<Rightarrow> 'e route" where
  "authenticated g method path h = (method, path, \<lambda>q. CommerceJWTAuth g (new_context q) h)"

definition registerOrderRoutes :: "gateway_config \<Rightarrow> 'e order_rpc option \<Rightarrow> 'e cart_rpc option \<Rightarrow> 'e route list" where
  "registerOrderRoutes g client cart = (case client of None \<Rightarrow> [] | Some client \<Rightarrow>
     [authenticated g ''POST'' ''/api/v1/orders'' (post_order g client cart),
      authenticated g ''POST'' ''/api/v1/seckill/orders'' (post_seckill_order g client),
      authenticated g ''GET'' ''/api/v1/orders'' (get_orders g client),
      authenticated g ''GET'' ''/api/v1/orders/:order_id'' (get_order g client),
      authenticated g ''POST'' ''/api/v1/orders/:order_id/cancel'' (cancel_order g client)])"

definition registerCatalogRoutes :: "'e catalog_rpc option \<Rightarrow> 'e route list" where
  "registerCatalogRoutes client = (case client of None \<Rightarrow> [] | Some client \<Rightarrow>
     [public ''GET'' ''/api/v1/products'' (get_products client),
      public ''GET'' ''/api/v1/products/:id'' (get_product client)])"

definition registerIdentityRoutes :: "gateway_config \<Rightarrow> 'e identity_rpc option \<Rightarrow> 'e route list" where
  "registerIdentityRoutes g client = (case client of None \<Rightarrow> [] | Some client \<Rightarrow>
     [public ''POST'' ''/api/v1/auth/register'' (post_register g client),
      public ''POST'' ''/api/v1/auth/login'' (post_login g client),
      public ''POST'' ''/api/v1/auth/refresh'' (post_refresh g client),
      authenticated g ''GET'' ''/api/v1/addresses'' (get_addresses g client),
      authenticated g ''POST'' ''/api/v1/addresses'' (post_address g client),
      authenticated g ''PUT'' ''/api/v1/addresses/:address_id'' (put_address_route g client),
      authenticated g ''DELETE'' ''/api/v1/addresses/:address_id'' (delete_address_route g client)])"

definition registerCartRoutes :: "gateway_config \<Rightarrow> 'e cart_rpc option \<Rightarrow> 'e route list" where
  "registerCartRoutes g client = (case client of None \<Rightarrow> [] | Some client \<Rightarrow>
     [authenticated g ''POST'' ''/api/v1/cart/items'' (post_cart_item g client),
      authenticated g ''DELETE'' ''/api/v1/cart/items/:sku_id'' (delete_cart_item g client),
      authenticated g ''GET'' ''/api/v1/cart'' (get_cart g client),
      authenticated g ''GET'' ''/api/v1/cart/preview'' (get_cart_preview g client)])"

definition registerPaymentRoutes :: "gateway_config \<Rightarrow> 'e payment_rpc option \<Rightarrow> 'e route list" where
  "registerPaymentRoutes g client = (case client of None \<Rightarrow> [] | Some client \<Rightarrow>
     [authenticated g ''POST'' ''/api/v1/orders/:order_id/payments'' (post_payment g client),
      authenticated g ''POST'' ''/api/v1/orders/:order_id/refunds'' (post_refund g client),
      public ''POST'' ''/api/v1/payments/callback'' (post_callback g client)])"

definition registerFulfillmentRoutes :: "gateway_config \<Rightarrow> 'e fulfillment_rpc option \<Rightarrow> 'e route list" where
  "registerFulfillmentRoutes g client = (case client of None \<Rightarrow> [] | Some client \<Rightarrow>
     [authenticated g ''POST'' ''/api/v1/admin/orders/:order_id/ship'' (post_ship g client),
      authenticated g ''POST'' ''/api/v1/orders/:order_id/receipt'' (post_receipt g client),
      authenticated g ''GET'' ''/api/v1/orders/:order_id/shipment'' (get_shipment g client)])"

definition registerRoutes :: "gateway_config \<Rightarrow> 'e grpcClients \<Rightarrow> 'e route list" where
  "registerRoutes g clients =
     [public ''GET'' ''/healthz'' (\<lambda>c. ret \<lparr>hsStatus = 200, hsBody = Health\<rparr>)] @
     registerCatalogRoutes (gcCatalog clients) @ registerIdentityRoutes g (gcIdentity clients) @
     registerCartRoutes g (gcCart clients) @ registerOrderRoutes g (gcCommerceOrder clients) (gcCart clients) @
     registerPaymentRoutes g (gcPayment clients) @ registerFulfillmentRoutes g (gcFulfillment clients)"

end
