(* ===== verification/Gateway_Properties.thy ===== *)
theory Gateway_Properties
  imports Gateway_Routes Cart_Properties Identity_Properties
begin

text \<open>
  What the gateway lets through: behind every route that needs a token the services see calls
  signed for the user of that token and no others, the public routes reach the services only as
  the system or without an identity, and a token that was issued reaches the cart of its user.
\<close>

section \<open>Calls a request may make\<close>

text \<open>The claims of the token that a request carries, when it is accepted at a time.\<close>

definition token_claims :: "gateway_config \<Rightarrow> http_request \<Rightarrow> time \<Rightarrow> Claims option" where
  "token_claims g q now =
     (case NewManager (TrimSpace (gfJWTSecret g)) (60 * Second) (3600 * Second) of
        Inl _ \<Rightarrow> None
      | Inr m \<Rightarrow>
          (case split_space (TrimSpace (hqAuthorization q)) of
             [scheme, raw] \<Rightarrow>
               (if EqualFold_ascii scheme ''Bearer''
                then case ParseAccessToken (gfLib g) m now raw of Inl _ \<Rightarrow> None | Inr claims \<Rightarrow> Some claims else None)
           | _ \<Rightarrow> None))"

text \<open>One call to a service in the name of user \<open>u\<close> with role \<open>r\<close>: signed for \<open>u\<close> and about \<open>u\<close>.\<close>

inductive user_call :: "gateway_config \<Rightarrow> 'e grpcClients \<Rightarrow> uint64 \<Rightarrow> string \<Rightarrow> 'e \<Rightarrow> 'e \<Rightarrow> bool"
  for g :: gateway_config and cl :: "'e grpcClients" and u :: uint64 and r :: string where
  order_create: "gcCommerceOrder cl = Some k \<Longrightarrow> qcUserId req = u \<Longrightarrow>
    orCreate k (AppendUser [] (gfCallSecret g) (order_method ''Create'') u t) req e = (res, e') \<Longrightarrow> user_call g cl u r e e'"
| order_list: "gcCommerceOrder cl = Some k \<Longrightarrow>
    orList k (AppendUser [] (gfCallSecret g) (order_method ''List'') u t) (u, a, b) e = (res', e') \<Longrightarrow> user_call g cl u r e e'"
| order_get: "gcCommerceOrder cl = Some k \<Longrightarrow>
    orGet k (AppendUser [] (gfCallSecret g) (order_method ''Get'') u t) (u, oid) e = (res'', e') \<Longrightarrow> user_call g cl u r e e'"
| order_cancel: "gcCommerceOrder cl = Some k \<Longrightarrow>
    orCancel k (AppendUser [] (gfCallSecret g) (order_method ''Cancel'') u t) (u, oid, reason) e = (res3, e') \<Longrightarrow>
    user_call g cl u r e e'"
| address_list: "gcIdentity cl = Some i \<Longrightarrow>
    irListAddresses i (AppendUser [] (gfCallSecret g) (identity_method ''ListAddresses'') u t) u e = (res4, e') \<Longrightarrow>
    user_call g cl u r e e'"
| address_create: "gcIdentity cl = Some i \<Longrightarrow>
    irCreateAddress i (AppendUser [] (gfCallSecret g) (identity_method ''CreateAddress'') u t) (u, addr) e = (res5, e') \<Longrightarrow>
    user_call g cl u r e e'"
| address_update: "gcIdentity cl = Some i \<Longrightarrow>
    irUpdateAddress i (AppendUser [] (gfCallSecret g) (identity_method ''UpdateAddress'') u t) (u, n, addr) e = (res5, e') \<Longrightarrow>
    user_call g cl u r e e'"
| address_delete: "gcIdentity cl = Some i \<Longrightarrow>
    irDeleteAddress i (AppendUser [] (gfCallSecret g) (identity_method ''DeleteAddress'') u t) (u, n) e = (res6, e') \<Longrightarrow>
    user_call g cl u r e e'"
| cart_set: "gcCart cl = Some c \<Longrightarrow>
    carSet c (AppendUser [] (gfCallSecret g) (cart_method ''Set'') u t) (u, n, q) e = (res7, e') \<Longrightarrow> user_call g cl u r e e'"
| cart_delete: "gcCart cl = Some c \<Longrightarrow>
    carDelete c (AppendUser [] (gfCallSecret g) (cart_method ''Delete'') u t) (u, n) e = (res6, e') \<Longrightarrow> user_call g cl u r e e'"
| cart_list: "gcCart cl = Some c \<Longrightarrow>
    carList c (AppendUser [] (gfCallSecret g) (cart_method ''List'') u t) u e = (res8, e') \<Longrightarrow> user_call g cl u r e e'"
| cart_preview: "gcCart cl = Some c \<Longrightarrow>
    carPreview c (AppendUser [] (gfCallSecret g) (cart_method ''Preview'') u t) u e = (res9, e') \<Longrightarrow> user_call g cl u r e e'"
| payment_create: "gcPayment cl = Some p \<Longrightarrow>
    parCreate p (AppendUser [] (gfCallSecret g) (payment_method ''Create'') u t) (u, oid) e = (res10, e') \<Longrightarrow> user_call g cl u r e e'"
| payment_refund: "gcPayment cl = Some p \<Longrightarrow>
    parRefund p (AppendUser [] (gfCallSecret g) (payment_method ''Refund'') u t) (u, oid, reason) e = (res11, e') \<Longrightarrow>
    user_call g cl u r e e'"
| receipt: "gcFulfillment cl = Some f \<Longrightarrow>
    furConfirmReceipt f (AppendUser [] (gfCallSecret g) (shipping_method ''ConfirmReceipt'') u t) (u, oid) e = (res12, e') \<Longrightarrow>
    user_call g cl u r e e'"
| shipment: "gcFulfillment cl = Some f \<Longrightarrow>
    furGet f (AppendUser [] (gfCallSecret g) (shipping_method ''Get'') u t) (u, oid) e = (res12, e') \<Longrightarrow> user_call g cl u r e e'"
| ship: "gcFulfillment cl = Some f \<Longrightarrow> r = ''admin'' \<Longrightarrow>
    furShip f (AppendRole [] (gfCallSecret g) (shipping_method ''Ship'') u ''admin'' t) (u, oid, carrier, no) e = (res12, e') \<Longrightarrow>
    user_call g cl u r e e'"

text \<open>The calls of the public routes: signed for the system, or of the catalog without an identity.\<close>

inductive system_call :: "gateway_config \<Rightarrow> 'e grpcClients \<Rightarrow> 'e \<Rightarrow> 'e \<Rightarrow> bool"
  for g :: gateway_config and cl :: "'e grpcClients" where
  register: "gcIdentity cl = Some i \<Longrightarrow>
    irRegister i (AppendRole [] (gfCallSecret g) (identity_method ''Register'') SystemActorID SystemRole t) x e = (res, e') \<Longrightarrow>
    system_call g cl e e'"
| login: "gcIdentity cl = Some i \<Longrightarrow>
    irLogin i (AppendRole [] (gfCallSecret g) (identity_method ''Login'') SystemActorID SystemRole t) x e = (res, e') \<Longrightarrow>
    system_call g cl e e'"
| refresh: "gcIdentity cl = Some i \<Longrightarrow>
    irRefresh i (AppendRole [] (gfCallSecret g) (identity_method ''Refresh'') SystemActorID SystemRole t) token e = (res, e') \<Longrightarrow>
    system_call g cl e e'"
| callback: "gcPayment cl = Some p \<Longrightarrow>
    parCallback p (AppendRole [] (gfCallSecret g) (payment_method ''Callback'') SystemActorID SystemRole t) y e = (res', e') \<Longrightarrow>
    system_call g cl e e'"
| products: "gcCatalog cl = Some k \<Longrightarrow> crListProducts k [] (a, b, False) e = (res'', e') \<Longrightarrow> system_call g cl e e'"
| product: "gcCatalog cl = Some k \<Longrightarrow> crGetProduct k [] (n, False) e = (res3, e') \<Longrightarrow> system_call g cl e e'"

definition public_routes :: "(string \<times> string) set" where
  "public_routes = {(''GET'', ''/healthz''), (''GET'', ''/api/v1/products''), (''GET'', ''/api/v1/products/:id''),
     (''POST'', ''/api/v1/auth/register''), (''POST'', ''/api/v1/auth/login''), (''POST'', ''/api/v1/auth/refresh''),
     (''POST'', ''/api/v1/payments/callback'')}"

section \<open>What a handler does to the services\<close>

text \<open>A handler always answers, and what it does to the services are steps of \<open>R\<close>.\<close>

definition reaches :: "('e \<Rightarrow> 'e \<Rightarrow> bool) \<Rightarrow> 'e handler \<Rightarrow> bool" where
  "reaches R h \<longleftrightarrow> (\<forall>w. \<exists>resp w'. h w = (Inr resp, w') \<and> R\<^sup>*\<^sup>* (gwEnv w) (gwEnv w'))"

named_theorems handler_rules

lemma reaches_ret [handler_rules]: "reaches R (ret resp)"
  by (simp add: reaches_def ret_def)

lemma reachesD: "reaches R h \<Longrightarrow> \<exists>resp w'. h w = (Inr resp, w') \<and> R\<^sup>*\<^sup>* (gwEnv w) (gwEnv w')"
  by (simp add: reaches_def)

lemma reaches_answer_with [handler_rules]:
  assumes "\<And>e res e'. call e = (res, e') \<Longrightarrow> R e e'"
  shows "reaches R (answer_with call failed reply)"
proof -
  have "\<exists>resp w'. answer_with call failed reply w = (Inr resp, w') \<and> R\<^sup>*\<^sup>* (gwEnv w) (gwEnv w')" for w
  proof -
    obtain res e' where "call (gwEnv w) = (res, e')" by fastforce
    with assms [OF this] show ?thesis
      by (cases res) (simp_all add: answer_with_def inspect_def on_service_def ret_def r_into_rtranclp)
  qed
  then show ?thesis by (simp add: reaches_def)
qed

lemma reaches_now:
  assumes "\<And>t. reaches R (k t)"
  shows "reaches R (and_then gateway_now k)"
  unfolding reaches_def
proof
  fix w
  show "\<exists>resp w'. and_then gateway_now k w = (Inr resp, w') \<and> R\<^sup>*\<^sup>* (gwEnv w) (gwEnv w')"
    using reachesD [OF assms, of "shd (gwNow w)" "w\<lparr>gwNow := stl (gwNow w)\<rparr>"] by (simp add: and_then_def gateway_now_def)
qed

lemma and_then_signed:
  "and_then (signedUserContext g method u) k = and_then gateway_now (\<lambda>t. k (AppendUser [] (gfCallSecret g) method u t))"
  "and_then (signedSystemContext g method) k =
     and_then gateway_now (\<lambda>t. k (AppendRole [] (gfCallSecret g) method SystemActorID SystemRole t))"
  "and_then (signedAdminContext g method u) k = and_then gateway_now (\<lambda>t. k (AppendRole [] (gfCallSecret g) method u ''admin'' t))"
  by (simp_all add: fun_eq_iff signedUserContext_def signedSystemContext_def signedAdminContext_def and_then_def gateway_now_def ret_def)

lemma reaches_signed [handler_rules]:
  "(\<And>t. reaches R (k (AppendUser [] (gfCallSecret g) method u t))) \<Longrightarrow> reaches R (and_then (signedUserContext g method u) k)"
  "(\<And>t. reaches R (k (AppendRole [] (gfCallSecret g) method SystemActorID SystemRole t))) \<Longrightarrow>
   reaches R (and_then (signedSystemContext g method) k)"
  "(\<And>t. reaches R (k (AppendRole [] (gfCallSecret g) method u ''admin'' t))) \<Longrightarrow> reaches R (and_then (signedAdminContext g method u) k)"
  by (simp_all add: and_then_signed reaches_now)

lemma reaches_gatewayUserID [handler_rules]:
  "(\<And>u. gcUserID c = Some u \<Longrightarrow> reaches R (k u)) \<Longrightarrow> reaches R (gatewayUserID c k)"
  by (auto simp: gatewayUserID_def reaches_ret split: option.split)

lemma reaches_ShouldBindJSON [handler_rules]: "(\<And>v. reaches R (k v)) \<Longrightarrow> reaches R (ShouldBindJSON c read k)"
  by (auto simp: ShouldBindJSON_def reaches_ret split: option.split sum.split)

lemma reaches_path_id [handler_rules]: "(\<And>i. reaches R (k i)) \<Longrightarrow> reaches R (path_id c name message k)"
  by (auto simp: path_id_def reaches_ret split: option.split)

lemma reaches_parseCatalogPage [handler_rules]: "(\<And>a b. reaches R (k a b)) \<Longrightarrow> reaches R (parseCatalogPage c k)"
  by (auto simp: parseCatalogPage_def reaches_ret split: option.split)

lemma reaches_listCartForOrder:
  fixes R :: "'e \<Rightarrow> 'e \<Rightarrow> bool"
  assumes "\<And>t e res e'. carList client (AppendUser [] (gfCallSecret g) (cart_method ''List'') u t) u e = (res, e') \<Longrightarrow> R e e'"
    and "\<And>items. reaches R (k items)"
  shows "reaches R (listCartForOrder g c client u k)"
  unfolding listCartForOrder_def
proof (rule reaches_signed(1), unfold reaches_def, rule allI)
  fix t and w :: "'e gateway_world"
  let ?md = "AppendUser [] (gfCallSecret g) (cart_method ''List'') u t"
  obtain res e' where call: "carList client ?md u (gwEnv w) = (res, e')" by fastforce
  from assms(1) [OF this] have step: "R (gwEnv w) e'" .
  obtain resp w' where "k (map (\<lambda>item. \<lparr>oiSKUID = cipSkuId item, oiQuantity = cipQuantity item\<rparr>) (projr res)) (w\<lparr>gwEnv := e'\<rparr>) =
      (Inr resp, w')" "R\<^sup>*\<^sup>* e' (gwEnv w')"
    using reachesD [OF assms(2), of _ "w\<lparr>gwEnv := e'\<rparr>"] by fastforce
  then show "\<exists>resp w'. inspect (on_service (carList client ?md u)) (\<lambda>res. case res of
       Inl err \<Rightarrow> ret (respondOrderRPCError c err)
     | Inr response \<Rightarrow>
         (let items = map (\<lambda>item. \<lparr>oiSKUID = cipSkuId item, oiQuantity = cipQuantity item\<rparr>) response in
          if items = [] then ret (bad_request c ''cart is empty'') else k items)) w = (Inr resp, w') \<and> R\<^sup>*\<^sup>* (gwEnv w) (gwEnv w')"
    using call step by (cases res) (auto simp: inspect_def on_service_def ret_def Let_def intro: converse_rtranclp_into_rtranclp)
qed

section \<open>The handlers\<close>

text \<open>A handler behind the middleware acts for the user in its context.\<close>

definition acts_for_user :: "gateway_config \<Rightarrow> 'e grpcClients \<Rightarrow> (gin_context \<Rightarrow> 'e handler) \<Rightarrow> bool" where
  "acts_for_user g cl h \<longleftrightarrow>
     (\<forall>c u r. gcUserID c = Some u \<longrightarrow> gcUserRole c = Some r \<longrightarrow> reaches (user_call g cl u r) (h c))"

lemma acts_for_userI: "(\<And>c u r. gcUserID c = Some u \<Longrightarrow> gcUserRole c = Some r \<Longrightarrow> reaches (user_call g cl u r) (h c)) \<Longrightarrow>
    acts_for_user g cl h"
  by (simp add: acts_for_user_def)

lemma createOrderRPC_reaches:
  "gcCommerceOrder cl = Some k \<Longrightarrow> qcUserId req = u \<Longrightarrow> reaches (user_call g cl u r) (createOrderRPC g c k req)"
  unfolding createOrderRPC_def by (auto intro!: handler_rules intro: user_call.intros)

lemma order_handlers:
  assumes "gcCommerceOrder cl = Some k"
  shows "acts_for_user g cl (post_order g k (gcCart cl))" "acts_for_user g cl (post_seckill_order g k)"
    "acts_for_user g cl (get_orders g k)" "acts_for_user g cl (get_order g k)" "acts_for_user g cl (cancel_order g k)"
  subgoal
    using assms unfolding post_order_def
    by (auto intro!: acts_for_userI handler_rules createOrderRPC_reaches reaches_listCartForOrder intro: user_call.cart_list
        simp: Let_def split: list.split option.split)
  subgoal
    using assms unfolding post_seckill_order_def by (auto intro!: acts_for_userI handler_rules createOrderRPC_reaches)
  subgoal
    using assms unfolding get_orders_def Let_def by (auto intro!: acts_for_userI handler_rules intro: user_call.order_list)
  subgoal
    using assms unfolding get_order_def by (auto intro!: acts_for_userI handler_rules intro: user_call.order_get)
  subgoal
    using assms unfolding cancel_order_def Let_def by (auto intro!: acts_for_userI handler_rules intro: user_call.order_cancel)
  done

lemma identity_handlers:
  assumes "gcIdentity cl = Some i"
  shows "acts_for_user g cl (get_addresses g i)" "acts_for_user g cl (post_address g i)"
    "acts_for_user g cl (put_address_route g i)" "acts_for_user g cl (delete_address_route g i)"
    "reaches (system_call g cl) (post_register g i c)" "reaches (system_call g cl) (post_login g i c)"
    "reaches (system_call g cl) (post_refresh g i c)"
  unfolding get_addresses_def post_address_def put_address_route_def delete_address_route_def post_register_def post_login_def
    post_refresh_def using assms
  by (auto intro!: acts_for_userI handler_rules
      intro: user_call.address_list user_call.address_create user_call.address_update user_call.address_delete system_call.intros)

lemma cart_handlers:
  assumes "gcCart cl = Some k"
  shows "acts_for_user g cl (post_cart_item g k)" "acts_for_user g cl (delete_cart_item g k)"
    "acts_for_user g cl (get_cart g k)" "acts_for_user g cl (get_cart_preview g k)"
  unfolding post_cart_item_def delete_cart_item_def get_cart_def get_cart_preview_def using assms
  by (auto intro!: acts_for_userI handler_rules
      intro: user_call.cart_set user_call.cart_delete user_call.cart_list user_call.cart_preview)

lemma payment_handlers:
  assumes "gcPayment cl = Some p"
  shows "acts_for_user g cl (post_payment g p)" "acts_for_user g cl (post_refund g p)"
    "reaches (system_call g cl) (post_callback g p c)"
  unfolding post_payment_def post_refund_def post_callback_def using assms
  by (auto intro!: acts_for_userI handler_rules
      intro: user_call.payment_create user_call.payment_refund system_call.callback)

lemma fulfillment_handlers:
  assumes "gcFulfillment cl = Some f"
  shows "acts_for_user g cl (post_ship g f)" "acts_for_user g cl (post_receipt g f)" "acts_for_user g cl (get_shipment g f)"
  unfolding post_ship_def post_receipt_def get_shipment_def using assms
  by (auto intro!: acts_for_userI handler_rules intro: user_call.ship user_call.receipt user_call.shipment)

lemma catalog_handlers:
  assumes "gcCatalog cl = Some k"
  shows "reaches (system_call g cl) (get_products k c)" "reaches (system_call g cl) (get_product k c)"
  unfolding get_products_def get_product_def using assms
  by (auto intro!: handler_rules intro: system_call.products system_call.product)

section \<open>The routes\<close>

lemma CommerceJWTAuth_rejects:
  "token_claims g q (shd (gwNow w)) = None \<Longrightarrow>
   \<exists>resp w'. CommerceJWTAuth g (new_context q) h w = (Inr resp, w') \<and> gwEnv w' = gwEnv w \<and> hsStatus resp \<in> {401, 503}"
  by (auto simp: token_claims_def CommerceJWTAuth_def new_context_def unauthorized_def httpx_Error_def ret_def and_then_def
      gateway_now_def split: sum.splits list.splits if_splits)

lemma CommerceJWTAuth_admits:
  "token_claims g q (shd (gwNow w)) = Some claims \<Longrightarrow>
   CommerceJWTAuth g (new_context q) h w =
     h ((new_context q)\<lparr>gcUserID := Some (cmUserID claims), gcUserRole := Some (cmRole claims)\<rparr>) (w\<lparr>gwNow := stl (gwNow w)\<rparr>)"
  by (auto simp: token_claims_def CommerceJWTAuth_def new_context_def and_then_def gateway_now_def
      split: sum.splits list.splits if_splits)

text \<open>What a route that needs a token does.\<close>

definition serves_user :: "gateway_config \<Rightarrow> 'e grpcClients \<Rightarrow> (http_request \<Rightarrow> 'e handler) \<Rightarrow> bool" where
  "serves_user g cl h \<longleftrightarrow> (\<forall>q w. \<exists>resp w'. h q w = (Inr resp, w') \<and>
     (case token_claims g q (shd (gwNow w)) of
        None \<Rightarrow> gwEnv w' = gwEnv w \<and> hsStatus resp \<in> {401, 503}
      | Some claims \<Rightarrow> (user_call g cl (cmUserID claims) (cmRole claims))\<^sup>*\<^sup>* (gwEnv w) (gwEnv w')))"

lemma authenticated_serves:
  assumes "acts_for_user g cl h"
  shows "serves_user g cl (snd (snd (authenticated g m p h)))"
proof -
  have "\<exists>resp w'. CommerceJWTAuth g (new_context q) h w = (Inr resp, w') \<and>
     (case token_claims g q (shd (gwNow w)) of
        None \<Rightarrow> gwEnv w' = gwEnv w \<and> hsStatus resp \<in> {401, 503}
      | Some claims \<Rightarrow> (user_call g cl (cmUserID claims) (cmRole claims))\<^sup>*\<^sup>* (gwEnv w) (gwEnv w'))" for q w
  proof (cases "token_claims g q (shd (gwNow w))")
    case None
    with CommerceJWTAuth_rejects [OF None, of h] show ?thesis by simp
  next
    case (Some claims)
    let ?c = "(new_context q)\<lparr>gcUserID := Some (cmUserID claims), gcUserRole := Some (cmRole claims)\<rparr>"
    have "reaches (user_call g cl (cmUserID claims) (cmRole claims)) (h ?c)"
      using assms unfolding acts_for_user_def by simp
    from reachesD [OF this, of "w\<lparr>gwNow := stl (gwNow w)\<rparr>"] CommerceJWTAuth_admits [OF Some, of h] Some
    show ?thesis by simp
  qed
  then show ?thesis by (simp add: serves_user_def authenticated_def)
qed

text \<open>A route is served as the table of public routes says.\<close>

definition served :: "gateway_config \<Rightarrow> 'e grpcClients \<Rightarrow> 'e route \<Rightarrow> bool" where
  "served g cl route \<longleftrightarrow> (case route of (m, p, h) \<Rightarrow>
     if (m, p) \<in> public_routes then \<forall>q. reaches (system_call g cl) (h q) else serves_user g cl h)"

lemma served_public: "(m, p) \<in> public_routes \<Longrightarrow> (\<And>c. reaches (system_call g cl) (h c)) \<Longrightarrow> served g cl (public m p h)"
  by (simp add: served_def public_def)

lemma served_authenticated: "(m, p) \<notin> public_routes \<Longrightarrow> acts_for_user g cl h \<Longrightarrow> served g cl (authenticated g m p h)"
  using authenticated_serves [of g cl h m p] by (simp add: served_def authenticated_def)

lemma registered_routes:
  "list_all (served g cl) (registerCatalogRoutes (gcCatalog cl))"
  "list_all (served g cl) (registerIdentityRoutes g (gcIdentity cl))"
  "list_all (served g cl) (registerCartRoutes g (gcCart cl))"
  "list_all (served g cl) (registerOrderRoutes g (gcCommerceOrder cl) (gcCart cl))"
  "list_all (served g cl) (registerPaymentRoutes g (gcPayment cl))"
  "list_all (served g cl) (registerFulfillmentRoutes g (gcFulfillment cl))"
  unfolding registerCatalogRoutes_def registerIdentityRoutes_def registerCartRoutes_def registerOrderRoutes_def
    registerPaymentRoutes_def registerFulfillmentRoutes_def
  by (auto split: option.split intro!: served_public served_authenticated catalog_handlers identity_handlers cart_handlers
      order_handlers payment_handlers fulfillment_handlers simp: public_routes_def)

lemma all_routes_served: "list_all (served g cl) (registerRoutes g cl)"
  by (auto simp: registerRoutes_def registered_routes intro!: served_public reaches_ret) (simp add: public_routes_def)

text \<open>
  C25. The gateway acts for the user of the token and for nobody else. Every request to a route
  of the table is answered. Behind a route that needs a token, a request without an accepted
  token leaves the services untouched and is answered with 401 (or 503 when no secret is
  configured), and one with a token makes only calls that are signed for the user of the
  token and are about that user, the shipment of an order only for the role \<open>admin\<close>. The seven
  public routes reach the services only with the signature of the system, or read the catalog
  without any identity.
\<close>

theorem gateway_acts_for_token_user:
  assumes "(method, path, h) \<in> set (registerRoutes g cl)"
  shows "\<exists>resp w'. h q w = (Inr resp, w') \<and>
    (if (method, path) \<in> public_routes then (system_call g cl)\<^sup>*\<^sup>* (gwEnv w) (gwEnv w')
     else case token_claims g q (shd (gwNow w)) of
        None \<Rightarrow> gwEnv w' = gwEnv w \<and> hsStatus resp \<in> {401, 503}
      | Some claims \<Rightarrow> (user_call g cl (cmUserID claims) (cmRole claims))\<^sup>*\<^sup>* (gwEnv w) (gwEnv w'))"
proof -
  have "served g cl (method, path, h)" using assms all_routes_served by (auto simp: list_all_iff)
  then show ?thesis
    by (cases "(method, path) \<in> public_routes") (auto simp: served_def serves_user_def dest: reachesD)
qed

section \<open>Pages\<close>

text \<open>
  The offset of a page is read as a 64-bit number and sent as a 32-bit one: offsets that differ
  by a multiple of \<open>2 ^ 32\<close> name the same page, so a reader who counts on gets the first products
  again instead of an error or an empty page.
\<close>

definition with_offset :: "int \<Rightarrow> gin_context \<Rightarrow> gin_context" where
  "with_offset n c = c\<lparr>gcRequest := (gcRequest c)\<lparr>hqQuery := (hqQuery (gcRequest c))(''offset'' := fmt_int n)\<rparr>\<rparr>"

lemma fmt_int_nonempty: "fmt_int n \<noteq> []"
  by (simp add: fmt_int_def)

lemma with_offset_responses [simp]:
  "httpx_Error (with_offset n c) = httpx_Error c" "httpx_OK (with_offset n c) = httpx_OK c"
  "bad_request (with_offset n c) = bad_request c" "respondCatalogError (with_offset n c) = respondCatalogError c"
proof -
  have "RequestID (with_offset n c) = RequestID c" by (simp add: RequestID_def with_offset_def split: option.split)
  then show e: "httpx_Error (with_offset n c) = httpx_Error c" and "httpx_OK (with_offset n c) = httpx_OK c"
    by (simp_all add: fun_eq_iff httpx_Error_def httpx_OK_def)
  from e show "bad_request (with_offset n c) = bad_request c" "respondCatalogError (with_offset n c) = respondCatalogError c"
    by (simp_all add: fun_eq_iff bad_request_def respondCatalogError_def split: grpc_code.split)
qed

lemma huge_offset_wraps:
  assumes "0 \<le> n" and "n + 2 ^ 32 < 2 ^ 63"
  shows "get_products client (with_offset (n + 2 ^ 32) c) = get_products client (with_offset n c)"
proof -
  have parse: "page_query (with_offset m c) ''offset'' 0 (\<lambda>n. \<not> n < 0) = Some m" if m: "0 \<le> m" "m < 2 ^ 63" for m
    using m by (simp add: page_query_def with_offset_def fmt_int_nonempty ParseInt_fmt)
  have limit: "page_query (with_offset m c) ''limit'' = page_query c ''limit''" for m
    by (simp add: page_query_def with_offset_def fun_eq_iff)
  have "(4294967296 :: int32) = 0" by transfer (simp add: take_bit_eq_mod)
  then have wrap: "x + (4294967296 :: int32) = x" for x by (metis add.right_neutral)
  show ?thesis
    using parse [of n] parse [of "n + 2 ^ 32"] assms
    by (simp only: get_products_def parseCatalogPage_def limit) (simp add: wrap split: option.split)
qed

section \<open>From a token to the cart\<close>

text \<open>The cart service behind the gateway, in front of the catalog, at a time of its own clock.\<close>

definition cart_service :: "string \<Rightarrow> time \<Rightarrow> string list \<Rightarrow> CatalogRepository cart_world cart_rpc" where
  "cart_service secret now ks =
     (let ctx = (\<lambda>md. \<lparr>cxMetadata = Some md, cxSecret = secret, cxNow = now\<rparr>) in
      \<lparr>carSet = \<lambda>md req. CartServer_Set catalog_backend (ctx md) (Some req),
       carDelete = \<lambda>md req. CartServer_Delete (ctx md) (Some req),
       carList = \<lambda>md req. CartServer_List catalog_backend ks (ctx md) (Some req),
       carPreview = \<lambda>md req. CartServer_Preview catalog_backend ks (ctx md) (Some req)\<rparr>)"

lemma cart_item_route:
  assumes "(''POST'', ''/api/v1/cart/items'', h) \<in> set (registerRoutes g cl)" and "gcCart cl = Some k"
  shows "h = (\<lambda>q. CommerceJWTAuth g (new_context q) (post_cart_item g k))"
  using assms
  by (auto simp: registerRoutes_def registerCatalogRoutes_def registerIdentityRoutes_def registerCartRoutes_def
      registerOrderRoutes_def registerPaymentRoutes_def registerFulfillmentRoutes_def public_def authenticated_def
      split: option.splits)

lemma bearer_split: "split_space (''Bearer '' @ raw) = [''Bearer'', raw]"
  by (simp add: split_space_def)

lemma issued_token_claims:
  assumes "IssueAccessToken (gfLib g) m u role issued = Inr (access, expires)"
    and "mnSecret m = TrimSpace (gfJWTSecret g)" and "32 \<le> length (TrimSpace (gfJWTSecret g))"
    and "\<And>c t. jwt_Sign (gfLib g) (mnSecret m) c = Inr t \<Longrightarrow> cmNotBefore c \<le> now \<Longrightarrow> now < cmExpiresAt c \<Longrightarrow>
      jwt_Parse (gfLib g) (mnSecret m) (cmIssuer c) now t = Inr c"
    and "jwt_NumericDate (gfLib g) issued \<le> now" and "now < jwt_NumericDate (gfLib g) expires"
    and "TrimSpace (hqAuthorization q) = ''Bearer '' @ access"
  shows "\<exists>c. token_claims g q now = Some c \<and> cmUserID c = u \<and> cmRole c = role"
proof -
  obtain c where c: "ParseAccessToken (gfLib g) m now access = Inr c" "cmUserID c = u" "cmRole c = role"
    using access_token_accepted [OF assms(1,4-6)] by blast
  obtain m' where m': "NewManager (TrimSpace (gfJWTSecret g)) (60 * Second) (3600 * Second) = Inr m'" "mnSecret m' = mnSecret m"
    using assms(2,3) by (simp add: NewManager_def TrimSpace_idem Second_def)
  have "ParseAccessToken (gfLib g) m' now access = Inr c" using c(1) m'(2) by (simp add: ParseAccessToken_def)
  with c(2,3) m'(1) assms(7) bearer_split [of access] show ?thesis
    by (simp add: token_claims_def EqualFold_ascii_def)
qed

text \<open>
  C26. A token fills the cart of its user, through all the layers: when the identity service has
  issued an access token for user \<open>u\<close>, then as long as it has not expired a POST of an SKU that is
  on sale to \<open>/api/v1/cart/items\<close> with that token is answered with 200 and the exact subtotal, the
  cart of \<open>u\<close> has the line, and the carts of all other users are as before. The signature of the
  gateway has to arrive within 29 seconds; the JWT library parses what it signed.
\<close>

theorem token_fills_own_cart:
  assumes "IssueAccessToken (gfLib g) m u role issued = Inr (access, expires)"
    and "mnSecret m = TrimSpace (gfJWTSecret g)" and "32 \<le> length (TrimSpace (gfJWTSecret g))"
    and "\<And>c t. jwt_Sign (gfLib g) (mnSecret m) c = Inr t \<Longrightarrow> cmNotBefore c \<le> shd (gwNow w) \<Longrightarrow>
      shd (gwNow w) < cmExpiresAt c \<Longrightarrow> jwt_Parse (gfLib g) (mnSecret m) (cmIssuer c) (shd (gwNow w)) t = Inr c"
    and "jwt_NumericDate (gfLib g) issued \<le> shd (gwNow w)" and "shd (gwNow w) < jwt_NumericDate (gfLib g) expires"
    and "TrimSpace (hqAuthorization q) = ''Bearer '' @ access" and "0 < sint u"
    and "hqBody q = Some (JObject [(''sku_id'', JInt (uint s)), (''quantity'', JInt (sint n))])"
    and "s \<noteq> 0" and "0 < sint n" and "sint n \<le> 99"
    and "crSkus (cwEnv (gwEnv w)) s = Some sku" and "ctActive sku" and "ctID sku = s" and "0 \<le> sint (ctPriceCents sku)"
    and "sint (ctPriceCents sku) * sint n \<le> maxInt64"
    and "- (2 ^ 63) \<le> Unix (shd (stl (gwNow w)))" and "Unix (shd (stl (gwNow w))) < 2 ^ 63"
    and "shd (stl (gwNow w)) \<le> checked" and "checked \<le> shd (stl (gwNow w)) + 29 * Second"
    and "gcCart cl = Some (cart_service (gfCallSecret g) checked ks)"
    and "(''POST'', ''/api/v1/cart/items'', h) \<in> set (registerRoutes g cl)"
  shows "\<exists>item resp w'. h q w = (Inr resp, w') \<and> hsStatus resp = 200 \<and> enData (hsBody resp) = Some (CartLine item) \<and>
    sint (cipSubtotalCents item) = sint (ctPriceCents sku) * sint n \<and>
    carts (cwRepo (gwEnv w')) = (carts (cwRepo (gwEnv w)))(u := (carts (cwRepo (gwEnv w)) u)(s \<mapsto> n))"
proof -
  obtain c where c: "token_claims g q (shd (gwNow w)) = Some c" "cmUserID c = u"
    using issued_token_claims [OF assms(1-7)] by blast
  let ?t = "shd (stl (gwNow w))"
  let ?ctx = "\<lparr>cxMetadata = Some (AppendUser [] (gfCallSecret g) (cart_method ''Set'') u ?t), cxSecret = gfCallSecret g, cxNow = checked\<rparr>"
  have u: "u \<noteq> 0" using assms(8) by auto
  have "cart_auth ?ctx (cart_method ''Set'') u = Inr ()"
    using AuthorizeUser_AppendUser [OF u assms(18-21)] by (simp add: cart_auth_def)
  from CartServer_Set_sells [OF u assms(10-12) this assms(13-17)] obtain item
    where item: "CartServer_Set catalog_backend ?ctx (Some (u, s, n)) (gwEnv w) =
        (Inr item, (gwEnv w)\<lparr>cwRepo := (cwRepo (gwEnv w))(cartKey u s \<mapsto> cart_line u s n)\<rparr>)"
      "sint (cipSubtotalCents item) = sint (ctPriceCents sku) * sint n" by blast
  have carts: "carts ((cwRepo (gwEnv w))(cartKey u s \<mapsto> cart_line u s n)) =
      (carts (cwRepo (gwEnv w)))(u := (carts (cwRepo (gwEnv w)) u)(s \<mapsto> n))"
    using carts_Set [of u s n "cwRepo (gwEnv w)"] by (simp add: CartRepository_Set_def modify_state_def)
  have "sint (word_of_int (sint n) :: int32) = sint n" by simp
  then have read: "get_int32 [(''sku_id'', JInt (uint s)), (''quantity'', JInt (sint n))] ''quantity'' = Inr n"
      "get_uint64 [(''sku_id'', JInt (uint s)), (''quantity'', JInt (sint n))] ''sku_id'' = Inr s"
    using sint32_range [of n] uint64_in_range [of s] by (simp_all add: get_int32_def get_uint64_def json_field_def)
  show ?thesis
    using c assms(8,9) item carts read CommerceJWTAuth_admits [OF c(1)]
    by (simp add: cart_item_route [OF assms(23,22)] post_cart_item_def gatewayUserID_def ShouldBindJSON_def new_context_def
        with_object_def and_then_signed and_then_def gateway_now_def answer_with_def inspect_def on_service_def cart_service_def
        Let_def ret_def httpx_OK_def)
qed

section \<open>Example: user 3 at the front door\<close>

definition door_claims :: Claims where
  "door_claims = \<lparr>cmUserID = 3, cmRole = ''customer'', cmTokenType = accessType, cmIssuer = defaultIssuer, cmSubject = fmt_uint 3,
     cmIssuedAt = 0, cmNotBefore = 0, cmExpiresAt = 60 * Second\<rparr>"

text \<open>A library that knows one token.\<close>

definition door_library :: auth_library where
  "door_library = desk_library\<lparr>jwt_NumericDate := \<lambda>t. t,
     jwt_Sign := \<lambda>_ c. if c = door_claims then Inr ''tok'' else Inl (ErrorText ''unknown claims''),
     jwt_Parse := \<lambda>_ _ _ t. if t = ''tok'' then Inr door_claims else Inl (ErrorText ''malformed'')\<rparr>"

definition door_secret :: string where "door_secret = replicate 32 (CHR ''k'')"

definition door :: gateway_config where
  "door = \<lparr>gfLib = door_library, gfJWTSecret = door_secret, gfCallSecret = ''s''\<rparr>"

definition door_clients :: "CatalogRepository cart_world grpcClients" where
  "door_clients = \<lparr>gcCommerceOrder = None, gcCatalog = None, gcIdentity = None, gcCart = Some (cart_service ''s'' 0 []),
     gcPayment = None, gcFulfillment = None\<rparr>"

definition door_request :: "string \<Rightarrow> http_request" where
  "door_request token = \<lparr>hqAuthorization = token, hqIdempotencyKey = [], hqRequestID = [], hqQuery = \<lambda>_. [], hqParam = \<lambda>_. [],
     hqBody = Some (JObject [(''sku_id'', JInt 1), (''quantity'', JInt 2)]), hqContentLength = 29\<rparr>"

definition door_world :: "CatalogRepository cart_world gateway_world" where
  "door_world = \<lparr>gwNow = sconst 0, gwEnv = trolley\<rparr>"

lemma door_route: "(''POST'', ''/api/v1/cart/items'', \<lambda>q. CommerceJWTAuth door (new_context q) (post_cart_item door (cart_service ''s'' 0 [])))
    \<in> set (registerRoutes door door_clients)"
  by (simp add: registerRoutes_def registerCartRoutes_def door_clients_def authenticated_def)

lemma door_secret_trim: "TrimSpace door_secret = door_secret"
  by (rule TrimSpace_chars) (simp add: door_secret_def graphic_def)

theorem gateway_acts_for_token_user_witness:
  "\<exists>resp w'. CommerceJWTAuth door (new_context (door_request [])) (post_cart_item door (cart_service ''s'' 0 [])) door_world =
     (Inr resp, w') \<and> gwEnv w' = trolley \<and> hsStatus resp \<in> {401, 503}"
proof -
  have "TrimSpace [] = []" by code_simp
  then have "token_claims door (door_request []) (shd (gwNow door_world)) = None"
    by (simp add: token_claims_def door_request_def split_space_def split: sum.split)
  moreover have "(''POST'', ''/api/v1/cart/items'') \<notin> public_routes" by (simp add: public_routes_def)
  ultimately show ?thesis
    using gateway_acts_for_token_user [OF door_route, of "door_request []" door_world] by (simp add: door_world_def)
qed

theorem token_fills_own_cart_witness:
  "\<exists>resp w'. CommerceJWTAuth door (new_context (door_request ''Bearer tok'')) (post_cart_item door (cart_service ''s'' 0 [])) door_world =
     (Inr resp, w') \<and> hsStatus resp = 200 \<and> carts (cwRepo (gwEnv w')) 3 1 = Some 2"
proof -
  define m where "m = \<lparr>mnSecret = door_secret, mnAccessTTL = 60 * Second, mnRefreshTTL = Second\<rparr>"
  have role: "TrimSpace ''customer'' \<noteq> []" and bearer: "TrimSpace ''Bearer tok'' = ''Bearer '' @ ''tok''" by code_simp+
  have "access_claims door_library m 3 ''customer'' 0 = door_claims"
    by (simp add: access_claims_def door_claims_def m_def door_library_def)
  then have issue: "IssueAccessToken (gfLib door) m 3 ''customer'' 0 = Inr (''tok'', 60 * Second)"
    using role by (simp add: IssueAccessToken_def door_def) (simp add: door_library_def m_def)
  have law: "jwt_Sign (gfLib door) (mnSecret m) c = Inr t \<Longrightarrow> cmNotBefore c \<le> shd (gwNow door_world) \<Longrightarrow>
      shd (gwNow door_world) < cmExpiresAt c \<Longrightarrow> jwt_Parse (gfLib door) (mnSecret m) (cmIssuer c) (shd (gwNow door_world)) t = Inr c" for c t
    by (auto simp: door_def door_library_def split: if_splits)
  have "\<exists>item resp w'. CommerceJWTAuth door (new_context (door_request ''Bearer tok'')) (post_cart_item door (cart_service ''s'' 0 [])) door_world =
      (Inr resp, w') \<and> hsStatus resp = 200 \<and> enData (hsBody resp) = Some (CartLine item) \<and>
      sint (cipSubtotalCents item) = sint (ctPriceCents (demo_sku 1000)) * sint (2 :: int32) \<and>
      carts (cwRepo (gwEnv w')) = (carts (cwRepo (gwEnv door_world)))(3 := (carts (cwRepo (gwEnv door_world)) 3)(1 \<mapsto> 2))"
    using door_secret_trim bearer
    by (intro token_fills_own_cart [OF issue _ _ law _ _ _ _ _ _ _ _ _ _ _ _ _ _ _ _ _ _ door_route, where sku = "demo_sku 1000" and checked = 0])
      (simp_all add: m_def door_def door_secret_def door_world_def door_library_def door_request_def trolley_def shelf_def
        NewCatalogRepository_def demo_sku_def maxInt64_def Unix_def Second_def door_clients_def)
  then show ?thesis by (auto simp: fun_upd_def)
qed

end
