(* ===== verification/Config_Model.thy ===== *)
theory Config_Model
  imports Contracts Internalcall
begin

text \<open>
  shared/platform/config/conf.go: the configuration of a process, and the environment variables
  that override it. The environment is a map from names to values; reading JSON is a parameter.
\<close>

section \<open>Configuration (conf.go)\<close>

type_synonym environment = "string \<rightharpoonup> string"

definition Getenv :: "environment \<Rightarrow> string \<Rightarrow> string" where
  "Getenv env key = (case env key of None \<Rightarrow> [] | Some v \<Rightarrow> v)"

record ServerConfig =
  svName :: string
  svMode :: string
  svPort :: string
  svMetricsPort :: string

record MySQLConfig =
  myDSN :: string

record MQConfig =
  mqURL :: string

record RedisConfig =
  rdAddr :: string
  rdPassword :: string
  rdDB :: int

record EtcdConfig =
  etAddr :: string

record SeckillConfig =
  skPurchaseLimit :: int64

record JWTConfig =
  jwExpire :: string
  jwSecret :: string

text \<open>The sections of the catalog, identity, order, cart and fulfillment services have the same fields.\<close>

record ServiceConfig =
  seServiceName :: string
  seAddress :: string
  seMySQLDSN :: string

record InventoryConfig =
  ivServiceName :: string
  ivAddress :: string
  ivStore :: string
  ivRedisAddr :: string
  ivRedisPassword :: string
  ivRedisDB :: int
  ivPurchaseLimit :: int32
  ivStock :: "uint64 \<rightharpoonup> int32"

record PaymentConfig =
  pyServiceName :: string
  pyAddress :: string
  pyMySQLDSN :: string
  pySecret :: string

record Config =
  cfServer :: ServerConfig
  cfMySQL :: MySQLConfig
  cfMQ :: MQConfig
  cfRedis :: RedisConfig
  cfEtcd :: EtcdConfig
  cfSeckill :: SeckillConfig
  cfJWT :: JWTConfig
  cfCatalog :: ServiceConfig
  cfInventory :: InventoryConfig
  cfIdentity :: ServiceConfig
  cfOrder :: ServiceConfig
  cfCart :: ServiceConfig
  cfPayment :: PaymentConfig
  cfFulfillment :: ServiceConfig

definition no_service :: ServiceConfig where
  "no_service = \<lparr>seServiceName = [], seAddress = [], seMySQLDSN = []\<rparr>"

definition no_inventory :: InventoryConfig where
  "no_inventory = \<lparr>ivServiceName = [], ivAddress = [], ivStore = [], ivRedisAddr = [], ivRedisPassword = [], ivRedisDB = 0,
     ivPurchaseLimit = 0, ivStock = Map.empty\<rparr>"

definition no_payment :: PaymentConfig where
  "no_payment = \<lparr>pyServiceName = [], pyAddress = [], pyMySQLDSN = [], pySecret = []\<rparr>"

definition empty_config :: Config where
  "empty_config = \<lparr>cfServer = \<lparr>svName = [], svMode = [], svPort = [], svMetricsPort = []\<rparr>, cfMySQL = \<lparr>myDSN = []\<rparr>,
     cfMQ = \<lparr>mqURL = []\<rparr>, cfRedis = \<lparr>rdAddr = [], rdPassword = [], rdDB = 0\<rparr>, cfEtcd = \<lparr>etAddr = []\<rparr>,
     cfSeckill = \<lparr>skPurchaseLimit = 0\<rparr>, cfJWT = \<lparr>jwExpire = [], jwSecret = []\<rparr>, cfCatalog = no_service,
     cfInventory = no_inventory, cfIdentity = no_service, cfOrder = no_service, cfCart = no_service,
     cfPayment = no_payment, cfFulfillment = no_service\<rparr>"

text \<open>\<open>if v := os.Getenv(key); v != "" \<open>field = v\<close>\<close>: a variable that is set to something wins.\<close>

definition override :: "environment \<Rightarrow> string \<Rightarrow> string \<Rightarrow> string" where
  "override env key old = (let v = Getenv env key in if v \<noteq> [] then v else old)"

definition override_service :: "environment \<Rightarrow> string \<Rightarrow> string \<Rightarrow> ServiceConfig \<Rightarrow> ServiceConfig" where
  "override_service env name_key addr_key s =
     s\<lparr>seServiceName := override env name_key (seServiceName s), seAddress := override env addr_key (seAddress s)\<rparr>"

definition override_dsn :: "environment \<Rightarrow> string \<Rightarrow> ServiceConfig \<Rightarrow> ServiceConfig" where
  "override_dsn env key s = s\<lparr>seMySQLDSN := override env key (seMySQLDSN s)\<rparr>"

text \<open>The DSN of the process serves the order and identity sections that have none.\<close>

definition fallback_dsn :: "string \<Rightarrow> ServiceConfig \<Rightarrow> ServiceConfig" where
  "fallback_dsn dsn s = (if dsn \<noteq> [] \<and> seMySQLDSN s = [] then s\<lparr>seMySQLDSN := dsn\<rparr> else s)"

text \<open>
  \<open>strconv.ParseInt(s, 10, 32)\<close> is the parse at 64 bits with the range of an \<open>int32\<close>. A stock is a
  JSON object whose names are SKU numbers, of which the last of several equal ones counts;
  \<open>decode\<close> reads a text as JSON.
\<close>

definition ParseInt32 :: "string \<Rightarrow> int option" where
  "ParseInt32 s = (case ParseInt s of None \<Rightarrow> None
     | Some n \<Rightarrow> (if - (2 ^ 31) \<le> n \<and> n < 2 ^ 31 then Some n else None))"

fun stock_entries :: "(string \<times> json) list \<Rightarrow> (uint64 \<times> int32) list option" where
  "stock_entries [] = Some []"
| "stock_entries ((k, j) # fs) =
     (case (ParseUint k, j, stock_entries fs) of
        (Some sku, JInt n, Some rest) \<Rightarrow>
          (if - (2 ^ 31) \<le> n \<and> n < 2 ^ 31 then Some ((sku, word_of_int n) # rest) else None)
      | (Some sku, JNull, Some rest) \<Rightarrow> Some ((sku, 0) # rest)
      | _ \<Rightarrow> None)"

definition override_stock :: "(string \<Rightarrow> json option) \<Rightarrow> string \<Rightarrow> (uint64 \<rightharpoonup> int32) \<Rightarrow> uint64 \<rightharpoonup> int32" where
  "override_stock decode raw old =
     (if raw = [] then old
      else case decode raw of
        Some (JObject fs) \<Rightarrow>
          (case stock_entries fs of None \<Rightarrow> old | Some stock \<Rightarrow> (if stock \<noteq> [] then map_of (rev stock) else old))
      | _ \<Rightarrow> old)"

definition override_inventory :: "(string \<Rightarrow> json option) \<Rightarrow> environment \<Rightarrow> InventoryConfig \<Rightarrow> InventoryConfig" where
  "override_inventory decode env i =
     i\<lparr>ivServiceName := override env ''SECKILL_INVENTORY_SERVICE'' (ivServiceName i),
       ivAddress := override env ''SECKILL_INVENTORY_ADDR'' (ivAddress i),
       ivStore := override env ''SECKILL_INVENTORY_STORE'' (ivStore i),
       ivRedisAddr := override env ''SECKILL_INVENTORY_REDIS_ADDR'' (ivRedisAddr i),
       ivRedisPassword := override env ''SECKILL_INVENTORY_REDIS_PASSWORD'' (ivRedisPassword i),
       ivRedisDB := (case ParseInt (Getenv env ''SECKILL_INVENTORY_REDIS_DB'') of
         Some n \<Rightarrow> (if n \<ge> 0 then n else ivRedisDB i) | None \<Rightarrow> ivRedisDB i),
       ivPurchaseLimit := (case ParseInt32 (Getenv env ''SECKILL_INVENTORY_PURCHASE_LIMIT'') of
         Some n \<Rightarrow> (if n > 0 then word_of_int n else ivPurchaseLimit i) | None \<Rightarrow> ivPurchaseLimit i),
       ivStock := override_stock decode (Getenv env ''SECKILL_INVENTORY_STOCK'') (ivStock i)\<rparr>"

definition override_payment :: "environment \<Rightarrow> PaymentConfig \<Rightarrow> PaymentConfig" where
  "override_payment env p =
     p\<lparr>pyServiceName := override env ''SECKILL_PAYMENT_SERVICE'' (pyServiceName p),
       pyAddress := override env ''SECKILL_PAYMENT_ADDR'' (pyAddress p),
       pyMySQLDSN := override env ''SECKILL_PAYMENT_MYSQL_DSN'' (pyMySQLDSN p),
       pySecret := override env ''SECKILL_PAYMENT_SECRET'' (override env ''SECKILL_MOCK_PAYMENT_SECRET'' (pySecret p))\<rparr>"

definition applyEnvOverrides :: "(string \<Rightarrow> json option) \<Rightarrow> environment \<Rightarrow> Config \<Rightarrow> Config" where
  "applyEnvOverrides decode env c =
     (let dsn = Getenv env ''SECKILL_MYSQL_DSN'' in
      c\<lparr>cfMySQL := (cfMySQL c)\<lparr>myDSN := override env ''SECKILL_MYSQL_DSN'' (myDSN (cfMySQL c))\<rparr>,
        cfOrder := override_service env ''SECKILL_ORDER_SERVICE'' ''SECKILL_ORDER_ADDR''
          (override_dsn env ''SECKILL_ORDER_MYSQL_DSN'' (fallback_dsn dsn (cfOrder c))),
        cfIdentity := override_service env ''SECKILL_IDENTITY_SERVICE'' ''SECKILL_IDENTITY_ADDR''
          (override_dsn env ''SECKILL_IDENTITY_MYSQL_DSN'' (fallback_dsn dsn (cfIdentity c))),
        cfCart := override_service env ''SECKILL_CART_SERVICE'' ''SECKILL_CART_ADDR''
          (override_dsn env ''SECKILL_CART_MYSQL_DSN'' (cfCart c)),
        cfPayment := override_payment env (cfPayment c),
        cfFulfillment := override_service env ''SECKILL_FULFILLMENT_SERVICE'' ''SECKILL_FULFILLMENT_ADDR''
          (override_dsn env ''SECKILL_FULFILLMENT_MYSQL_DSN'' (cfFulfillment c)),
        cfJWT := (cfJWT c)\<lparr>jwSecret := override env ''SECKILL_JWT_SECRET'' (jwSecret (cfJWT c))\<rparr>,
        cfMQ := (cfMQ c)\<lparr>mqURL := override env ''SECKILL_MQ_URL'' (mqURL (cfMQ c))\<rparr>,
        cfCatalog := override_service env ''SECKILL_CATALOG_SERVICE'' ''SECKILL_CATALOG_ADDR''
          (override_dsn env ''SECKILL_CATALOG_MYSQL_DSN'' (cfCatalog c)),
        cfInventory := override_inventory decode env (cfInventory c),
        cfEtcd := (cfEtcd c)\<lparr>etAddr := override env ''SECKILL_ETCD_ADDR'' (etAddr (cfEtcd c))\<rparr>,
        cfRedis := (cfRedis c)\<lparr>rdAddr := override env ''SECKILL_REDIS_ADDR'' (rdAddr (cfRedis c)),
          rdPassword := override env ''SECKILL_REDIS_PASSWORD'' (rdPassword (cfRedis c))\<rparr>,
        cfServer := (cfServer c)\<lparr>svMode := override env ''SECKILL_SERVER_MODE'' (svMode (cfServer c)),
          svPort := override env ''SECKILL_SERVER_PORT'' (svPort (cfServer c)),
          svMetricsPort := override env ''SECKILL_SERVER_METRICS_PORT'' (svMetricsPort (cfServer c))\<rparr>\<rparr>)"

definition AdvertiseAddr :: "environment \<Rightarrow> string \<Rightarrow> string" where
  "AdvertiseAddr env fallback = override env ''SECKILL_ADVERTISE_ADDR'' fallback"

end
