(* ===== verification/Config_Services.thy ===== *)
theory Config_Services
  imports Config_Model "HOL-Library.List_Lexorder" "HOL-Library.Char_ord"
begin

text \<open>
  shared/platform/config/services.go: the configuration of one role out of the manifest of all
  services, and \<open>InitConfig\<close> of conf.go, which chooses between the manifest and the file of the
  service. Reading a file and decoding YAML are the work of the operating system and the viper
  package: they are the arguments \<open>config_reader\<close>. The loops over a map of fields visit them in the
  order that the argument \<open>field_orders\<close> gives. The standard library functions \<open>os.Expand\<close>,
  \<open>net.SplitHostPort\<close> and \<open>strings.EqualFold\<close> are written out. A role is quoted without the
  escapes that \<open>%q\<close> uses for quotes and unprintable characters.
\<close>

section \<open>os.Expand\<close>

definition isShellSpecialVar :: "char \<Rightarrow> bool" where
  "isShellSpecialVar c \<longleftrightarrow> c \<in> set ''*#$@!?-0123456789''"

definition isAlphaNum :: "char \<Rightarrow> bool" where
  "isAlphaNum c \<longleftrightarrow> c = CHR ''_'' \<or> (let n = of_char c :: nat in
     48 \<le> n \<and> n \<le> 57 \<or> 97 \<le> n \<and> n \<le> 122 \<or> 65 \<le> n \<and> n \<le> 90)"

text \<open>The name that follows a dollar sign, and how many bytes it takes.\<close>

definition getShellName :: "string \<Rightarrow> string \<times> nat" where
  "getShellName s =
     (if hd s = CHR ''{''
      then (if length s > 2 \<and> isShellSpecialVar (s ! 1) \<and> s ! 2 = CHR ''}'' then ([s ! 1], 3)
            else let n = length (takeWhile (\<lambda>c. c \<noteq> CHR ''}'') (tl s)) in
              if n = length (tl s) then ([], 1)
              else if n = 0 then ([], 2) else (take n (tl s), n + 2))
      else if isShellSpecialVar (hd s) then ([hd s], 1)
      else let name = takeWhile isAlphaNum s in (name, length name))"

datatype template_part = Literal char | Variable string

function template_parts :: "string \<Rightarrow> template_part list" where
  "template_parts [] = []"
| "template_parts (c # s) =
     (if c = CHR ''$'' \<and> s \<noteq> []
      then case getShellName s of (name, w) \<Rightarrow>
        (if name = [] \<and> w > 0 then [] else if name = [] then [Literal c] else [Variable name])
          @ template_parts (drop w s)
      else Literal c # template_parts s)"
  by pat_completeness auto

termination
  by (relation "measure length") auto

definition Expand :: "(string \<Rightarrow> string) \<Rightarrow> string \<Rightarrow> string" where
  "Expand mapping s =
     concat (map (\<lambda>p. case p of Literal c \<Rightarrow> [c] | Variable key \<Rightarrow> mapping key) (template_parts s))"

text \<open>The keys that \<open>os.Expand\<close> asks its mapping for, in order.\<close>

definition expand_keys :: "string \<Rightarrow> string list" where
  "expand_keys s = concat (map (\<lambda>p. case p of Literal c \<Rightarrow> [] | Variable key \<Rightarrow> [key]) (template_parts s))"

section \<open>net.SplitHostPort and strings.EqualFold\<close>

text \<open>Index of the first byte; the length when there is none.\<close>

definition index_byte :: "char \<Rightarrow> string \<Rightarrow> nat" where
  "index_byte b s = length (takeWhile (\<lambda>c. c \<noteq> b) s)"

definition SplitHostPort :: "string \<Rightarrow> (string \<times> string) option" where
  "SplitHostPort s =
     (if CHR '':'' \<notin> set s then None
      else let i = length s - 1 - index_byte CHR '':'' (rev s) in
        if hd s = CHR ''[''
        then let e = index_byte CHR '']'' s in
          if e = length s \<or> e + 1 \<noteq> i then None
          else if CHR ''['' \<in> set (drop 1 s) \<or> CHR '']'' \<in> set (drop (e + 1) s) then None
          else Some (drop 1 (take e s), drop (i + 1) s)
        else if CHR '':'' \<in> set (take i s) then None
        else if CHR ''['' \<in> set s \<or> CHR '']'' \<in> set s then None
        else Some (take i s, drop (i + 1) s))"

text \<open>
  Against an ASCII word, Unicode case folding adds two letters to the ASCII ones: the long s
  (U+017F) folds to \<open>s\<close> and the Kelvin sign (U+212A) to \<open>k\<close>.
\<close>

fun fold_bytes :: "nat list \<Rightarrow> nat list" where
  "fold_bytes [] = []"
| "fold_bytes (b # bs) =
     (if b = 197 \<and> take 1 bs = [191] then 115 # fold_bytes (drop 1 bs)
      else if b = 226 \<and> take 2 bs = [132, 170] then 107 # fold_bytes (drop 2 bs)
      else (if 65 \<le> b \<and> b \<le> 90 then b + 32 else b) # fold_bytes bs)"

definition EqualFold :: "string \<Rightarrow> string \<Rightarrow> bool" where
  "EqualFold s word \<longleftrightarrow> fold_bytes (map of_char s) = fold_bytes (map of_char word)"

section \<open>The manifest\<close>

record ServiceDefinition =
  sdName :: string
  sdAddress :: string
  sdMySQLDSN :: string
  sdRabbitMQURL :: string
  sdEtcdAddr :: string
  sdRedisAddr :: string
  sdRedisPassword :: string
  sdRedisDB :: int
  sdStore :: string
  sdSecret :: string
  sdPurchaseLimit :: int32
  sdMetricsPort :: string

record GatewayJWTDefinition =
  gjSecret :: string

record GatewayDefinition =
  gdName :: string
  gdHTTPAddress :: string
  gdEtcdAddr :: string
  gdMetricsPort :: string
  gdMode :: string
  gdJWT :: GatewayJWTDefinition

record serviceManifest =
  smServices :: "string \<rightharpoonup> ServiceDefinition"
  smGateway :: GatewayDefinition

text \<open>The order in which a loop over the map of the fields of a definition visits them.\<close>

record field_orders =
  foDiscovery :: "string \<Rightarrow> string list"
  foOptional :: "string list"
  foGateway :: "string list"

text \<open>Files, the YAML parser and the decoder of viper, and the search for the file of a service.\<close>

record config_reader =
  crReadFile :: "string \<Rightarrow> string result"
  crReadConfig :: "string \<Rightarrow> json result"
  crUnmarshal :: "json \<Rightarrow> serviceManifest result"
  crReadInConfig :: "string list \<Rightarrow> string \<Rightarrow> json result"
  crUnmarshalConfig :: "json \<Rightarrow> Config result"

section \<open>Expansion of environment variables\<close>

fun join_comma :: "string list \<Rightarrow> string" where
  "join_comma [] = []"
| "join_comma [s] = s"
| "join_comma (s # t # ss) = s @ '', '' @ join_comma (t # ss)"

definition missing_keys :: "environment \<Rightarrow> string \<Rightarrow> string list" where
  "missing_keys env value = sort (remdups (filter (\<lambda>key. env key = None) (expand_keys value)))"

definition missing_variables :: "string list \<Rightarrow> go_error" where
  "missing_variables keys = ErrorText (''missing environment variables: '' @ join_comma keys)"

definition expandWithPolicy :: "environment \<Rightarrow> string \<Rightarrow> bool \<Rightarrow> string result" where
  "expandWithPolicy env value required =
     (let missing = missing_keys env value in
      if missing = [] then Inr (Expand (Getenv env) value)
      else if \<not> required then Inr []
      else Inl (missing_variables missing))"

definition expandEnv :: "environment \<Rightarrow> string \<Rightarrow> string result" where
  "expandEnv env value = expandWithPolicy env value True"

definition expandOptionalEnv :: "environment \<Rightarrow> string \<Rightarrow> string result" where
  "expandOptionalEnv env value = expandWithPolicy env value False"

text \<open>A pointer to a field: how to read it and how to store through it.\<close>

type_synonym 'r field = "('r \<Rightarrow> string) \<times> (string \<Rightarrow> 'r \<Rightarrow> 'r)"

definition expandNamedField :: "environment \<Rightarrow> string \<Rightarrow> 'r field \<Rightarrow> 'r \<Rightarrow> 'r result" where
  "expandNamedField env name f r =
     (case expandEnv env (fst f r) of
        Inl e \<Rightarrow> Inl (WrapError (name @ '': '') e) | Inr v \<Rightarrow> Inr (snd f v r))"

definition expandOptionalField :: "environment \<Rightarrow> string \<Rightarrow> 'r field \<Rightarrow> 'r \<Rightarrow> 'r result" where
  "expandOptionalField env name f r =
     (case expandOptionalEnv env (fst f r) of
        Inl e \<Rightarrow> Inl (WrapError (name @ '': '') e) | Inr v \<Rightarrow> Inr (snd f v r))"

text \<open>The body of the loops over a map from names to pointers.\<close>

fun expand_fields :: "(string \<Rightarrow> string result) \<Rightarrow> string \<Rightarrow> (string \<rightharpoonup> 'r field) \<Rightarrow> string list \<Rightarrow> 'r \<Rightarrow> 'r result" where
  "expand_fields expand label ptrs [] r = Inr r"
| "expand_fields expand label ptrs (name # names) r =
     (case ptrs name of
        None \<Rightarrow> expand_fields expand label ptrs names r
      | Some f \<Rightarrow>
          (case expand (fst f r) of
             Inl e \<Rightarrow> Inl (WrapError (label @ name @ '': '') e)
           | Inr v \<Rightarrow> expand_fields expand label ptrs names (snd f v r)))"

definition discovery_fields :: "string \<rightharpoonup> ServiceDefinition field" where
  "discovery_fields = map_of
     [(''name'', sdName, \<lambda>v d. d\<lparr>sdName := v\<rparr>),
      (''address'', sdAddress, \<lambda>v d. d\<lparr>sdAddress := v\<rparr>),
      (''etcd_addr'', sdEtcdAddr, \<lambda>v d. d\<lparr>sdEtcdAddr := v\<rparr>)]"

definition optional_fields :: "string \<rightharpoonup> ServiceDefinition field" where
  "optional_fields = map_of
     [(''mysql_dsn'', sdMySQLDSN, \<lambda>v d. d\<lparr>sdMySQLDSN := v\<rparr>),
      (''rabbitmq_url'', sdRabbitMQURL, \<lambda>v d. d\<lparr>sdRabbitMQURL := v\<rparr>),
      (''redis_addr'', sdRedisAddr, \<lambda>v d. d\<lparr>sdRedisAddr := v\<rparr>),
      (''redis_password'', sdRedisPassword, \<lambda>v d. d\<lparr>sdRedisPassword := v\<rparr>),
      (''secret'', sdSecret, \<lambda>v d. d\<lparr>sdSecret := v\<rparr>)]"

definition gateway_fields :: "string \<rightharpoonup> GatewayDefinition field" where
  "gateway_fields = map_of
     [(''name'', gdName, \<lambda>v g. g\<lparr>gdName := v\<rparr>),
      (''http_address'', gdHTTPAddress, \<lambda>v g. g\<lparr>gdHTTPAddress := v\<rparr>),
      (''etcd_addr'', gdEtcdAddr, \<lambda>v g. g\<lparr>gdEtcdAddr := v\<rparr>)]"

definition expandDiscoveryDefinition :: "environment \<Rightarrow> string list \<Rightarrow> ServiceDefinition \<Rightarrow> ServiceDefinition result" where
  "expandDiscoveryDefinition env names d =
     (case expand_fields (expandEnv env) [] discovery_fields names d of
        Inl e \<Rightarrow> Inl e
      | Inr d' \<Rightarrow> expandNamedField env ''metrics_port'' (sdMetricsPort, \<lambda>v d. d\<lparr>sdMetricsPort := v\<rparr>) d')"

definition expandServiceDefinition ::
    "environment \<Rightarrow> string list \<Rightarrow> string list \<Rightarrow> ServiceDefinition \<Rightarrow> ServiceDefinition result" where
  "expandServiceDefinition env names optional d =
     (case expandDiscoveryDefinition env names d of
        Inl e \<Rightarrow> Inl e
      | Inr d' \<Rightarrow> expand_fields (expandOptionalEnv env) [] optional_fields optional d')"

definition expandGatewayDefinition :: "environment \<Rightarrow> string list \<Rightarrow> GatewayDefinition \<Rightarrow> GatewayDefinition result" where
  "expandGatewayDefinition env names g =
     (case expand_fields (expandEnv env) ''gateway '' gateway_fields names g of
        Inl e \<Rightarrow> Inl e
      | Inr g1 \<Rightarrow>
          (case expandOptionalField env ''gateway metrics_port'' (gdMetricsPort, \<lambda>v g. g\<lparr>gdMetricsPort := v\<rparr>) g1 of
             Inl e \<Rightarrow> Inl e
           | Inr g2 \<Rightarrow> expandOptionalField env ''gateway jwt.secret''
               (\<lambda>g. gjSecret (gdJWT g), \<lambda>v g. g\<lparr>gdJWT := (gdJWT g)\<lparr>gjSecret := v\<rparr>\<rparr>) g2))"

section \<open>Validation\<close>

definition portFromAddress :: "string \<Rightarrow> string result" where
  "portFromAddress address =
     (case SplitHostPort (TrimSpace address) of
        None \<Rightarrow> Inl (ErrorText ''address must contain host and port'')
      | Some (host, port) \<Rightarrow>
          (if port = [] then Inl (ErrorText ''address must contain host and port'') else Inr port))"

text \<open>\<open>fmt.Errorf("service %q ...", role)\<close>\<close>

definition quoted :: "string \<Rightarrow> string" where
  "quoted s = [CHR 0x22] @ s @ [CHR 0x22]"

definition service_error :: "string \<Rightarrow> string \<Rightarrow> go_error" where
  "service_error role message = ErrorText (''service '' @ quoted role @ '' '' @ message)"

definition validateGatewayDefinition :: "GatewayDefinition \<Rightarrow> unit result" where
  "validateGatewayDefinition g =
     (if TrimSpace (gdName g) = [] then Inl (ErrorText ''gateway name is required'')
      else if TrimSpace (gdHTTPAddress g) = [] then Inl (ErrorText ''gateway http_address is required'')
      else if TrimSpace (gdEtcdAddr g) = [] then Inl (ErrorText ''gateway etcd_addr is required'')
      else Inr ())"

definition validateDiscoveryDefinition :: "string \<Rightarrow> ServiceDefinition \<Rightarrow> unit result" where
  "validateDiscoveryDefinition role d =
     (if TrimSpace (sdName d) = [] then Inl (service_error role ''name is required'')
      else if TrimSpace (sdAddress d) = [] then Inl (service_error role ''address is required'')
      else if TrimSpace (sdEtcdAddr d) = [] then Inl (service_error role ''etcd_addr is required'')
      else case portFromAddress (sdAddress d) of
        Inl _ \<Rightarrow> Inl (service_error role ''address is invalid'')
      | Inr _ \<Rightarrow> Inr ())"

definition validateServiceDefinition :: "string \<Rightarrow> ServiceDefinition \<Rightarrow> unit result" where
  "validateServiceDefinition role d =
     (case validateDiscoveryDefinition role d of
        Inl e \<Rightarrow> Inl e
      | Inr _ \<Rightarrow>
          (if role = ''inventory'' \<and> EqualFold (TrimSpace (sdStore d)) ''redis'' \<and> TrimSpace (sdRedisAddr d) = []
           then Inl (service_error role ''redis_addr is required when store is redis'')
           else Inr ()))"

definition gatewayModeOrDefault :: "string \<Rightarrow> string" where
  "gatewayModeOrDefault mode = (let mode = TrimSpace mode in if mode \<noteq> [] then mode else ''release'')"

definition serverModeOrDefault :: "string \<Rightarrow> string" where
  "serverModeOrDefault store = (if TrimSpace store = [] then ''debug'' else ''release'')"

section \<open>LoadServiceRuntimeConfig\<close>

definition readServiceManifest :: "config_reader \<Rightarrow> string \<Rightarrow> serviceManifest result" where
  "readServiceManifest rd path =
     (case crReadFile rd path of
        Inl e \<Rightarrow> Inl (WrapError ''read services config: '' e)
      | Inr data \<Rightarrow>
          (case crReadConfig rd data of
             Inl e \<Rightarrow> Inl (WrapError ''parse services config: '' e)
           | Inr v \<Rightarrow>
               (case crUnmarshal rd v of
                  Inl e \<Rightarrow> Inl (WrapError ''decode services config: '' e)
                | Inr manifest \<Rightarrow> Inr manifest)))"

text \<open>Find, expand and validate the definition of a service that the role calls.\<close>

definition discover :: "environment \<Rightarrow> field_orders \<Rightarrow> serviceManifest \<Rightarrow> string \<Rightarrow> ServiceDefinition result" where
  "discover env fo m role =
     (case smServices m role of
        None \<Rightarrow> Inl (service_error role ''is missing from configuration'')
      | Some d \<Rightarrow>
          (case expandDiscoveryDefinition env (foDiscovery fo role) d of
             Inl e \<Rightarrow> Inl (WrapError (''service '' @ quoted role @ '' configuration: '') e)
           | Inr d' \<Rightarrow>
               (case validateDiscoveryDefinition role d' of Inl e \<Rightarrow> Inl e | Inr _ \<Rightarrow> Inr d')))"

text \<open>
  \<open>cfg.Catalog.ServiceName, cfg.Catalog.Address = ...\<close> of the section of a role. A service role
  assigns the whole section, which is empty up to then, so the effect is the same.
\<close>

definition target :: "ServiceDefinition \<Rightarrow> ServiceConfig \<Rightarrow> ServiceConfig" where
  "target d s = s\<lparr>seServiceName := sdName d, seAddress := sdAddress d\<rparr>"

definition set_target :: "string \<Rightarrow> ServiceDefinition \<Rightarrow> Config \<Rightarrow> Config" where
  "set_target role d c =
     (if role = ''catalog'' then c\<lparr>cfCatalog := target d (cfCatalog c)\<rparr>
      else if role = ''inventory''
      then c\<lparr>cfInventory := (cfInventory c)\<lparr>ivServiceName := sdName d, ivAddress := sdAddress d\<rparr>\<rparr>
      else if role = ''identity'' then c\<lparr>cfIdentity := target d (cfIdentity c)\<rparr>
      else if role = ''cart'' then c\<lparr>cfCart := target d (cfCart c)\<rparr>
      else if role = ''payment''
      then c\<lparr>cfPayment := (cfPayment c)\<lparr>pyServiceName := sdName d, pyAddress := sdAddress d\<rparr>\<rparr>
      else if role = ''fulfillment'' then c\<lparr>cfFulfillment := target d (cfFulfillment c)\<rparr>
      else c\<lparr>cfOrder := target d (cfOrder c)\<rparr>)"

fun load_targets :: "environment \<Rightarrow> field_orders \<Rightarrow> serviceManifest \<Rightarrow> string list \<Rightarrow> Config \<Rightarrow> Config result" where
  "load_targets env fo m [] c = Inr c"
| "load_targets env fo m (role # roles) c =
     (case discover env fo m role of
        Inl e \<Rightarrow> Inl e | Inr d \<Rightarrow> load_targets env fo m roles (set_target role d c))"

definition load_gateway :: "environment \<Rightarrow> field_orders \<Rightarrow> serviceManifest \<Rightarrow> Config result" where
  "load_gateway env fo m =
     (case expandGatewayDefinition env (foGateway fo) (smGateway m) of
        Inl e \<Rightarrow> Inl e
      | Inr g \<Rightarrow>
          (case validateGatewayDefinition g of
             Inl e \<Rightarrow> Inl e
           | Inr _ \<Rightarrow>
               (case portFromAddress (gdHTTPAddress g) of
                  Inl _ \<Rightarrow> Inl (ErrorText ''gateway http_address is invalid'')
                | Inr port \<Rightarrow>
                    load_targets env fo m
                      [''identity'', ''catalog'', ''inventory'', ''cart'', ''order'', ''payment'', ''fulfillment'']
                      (empty_config\<lparr>
                         cfServer := \<lparr>svName = gdName g, svMode = gatewayModeOrDefault (gdMode g), svPort = port,
                           svMetricsPort = TrimSpace (gdMetricsPort g)\<rparr>,
                         cfEtcd := \<lparr>etAddr = gdEtcdAddr g\<rparr>,
                         cfJWT := \<lparr>jwExpire = [], jwSecret = TrimSpace (gjSecret (gdJWT g))\<rparr>\<rparr>))))"

definition own_section :: "ServiceDefinition \<Rightarrow> ServiceConfig" where
  "own_section d = \<lparr>seServiceName = sdName d, seAddress = sdAddress d, seMySQLDSN = sdMySQLDSN d\<rparr>"

text \<open>
  The switch over the role: the section of the role itself, then those of the services it
  calls. The last match of the source, no case for the role, leaves the sections empty.
\<close>

definition set_own :: "string \<Rightarrow> ServiceDefinition \<Rightarrow> Config \<Rightarrow> Config" where
  "set_own role d c =
     (if role = ''identity'' then c\<lparr>cfIdentity := own_section d\<rparr>
      else if role = ''catalog'' then c\<lparr>cfCatalog := own_section d\<rparr>
      else if role = ''inventory''
      then c\<lparr>cfInventory := \<lparr>ivServiceName = sdName d, ivAddress = sdAddress d, ivStore = sdStore d,
               ivRedisAddr = sdRedisAddr d, ivRedisPassword = sdRedisPassword d, ivRedisDB = sdRedisDB d,
               ivPurchaseLimit = sdPurchaseLimit d, ivStock = Map.empty\<rparr>,
             cfSeckill := \<lparr>skPurchaseLimit = word_of_int (sint (sdPurchaseLimit d))\<rparr>\<rparr>
      else if role = ''order'' then c\<lparr>cfOrder := own_section d\<rparr>
      else if role = ''cart'' then c\<lparr>cfCart := own_section d\<rparr>
      else if role = ''payment''
      then c\<lparr>cfPayment := \<lparr>pyServiceName = sdName d, pyAddress = sdAddress d, pyMySQLDSN = sdMySQLDSN d,
               pySecret = sdSecret d\<rparr>\<rparr>
      else if role = ''fulfillment'' then c\<lparr>cfFulfillment := own_section d\<rparr>
      else c)"

definition role_dependencies :: "string \<Rightarrow> string list" where
  "role_dependencies role =
     (if role = ''order'' then [''catalog'', ''identity'', ''inventory'']
      else if role = ''cart'' then [''catalog'']
      else if role = ''payment'' \<or> role = ''fulfillment'' then [''order'']
      else [])"

definition load_service :: "environment \<Rightarrow> field_orders \<Rightarrow> serviceManifest \<Rightarrow> string \<Rightarrow> Config result" where
  "load_service env fo m role =
     (case smServices m role of
        None \<Rightarrow> Inl (service_error role ''is missing from configuration'')
      | Some d0 \<Rightarrow>
          (case expandServiceDefinition env (foDiscovery fo role) (foOptional fo) d0 of
             Inl e \<Rightarrow> Inl (WrapError (''service '' @ quoted role @ '' configuration: '') e)
           | Inr d \<Rightarrow>
               (case validateServiceDefinition role d of
                  Inl e \<Rightarrow> Inl e
                | Inr _ \<Rightarrow>
                    (case portFromAddress (sdAddress d) of
                       Inl _ \<Rightarrow> Inl (service_error role ''address is invalid'')
                     | Inr port \<Rightarrow>
                         load_targets env fo m (role_dependencies role)
                           (set_own role d (empty_config\<lparr>
                              cfServer := \<lparr>svName = sdName d, svMode = serverModeOrDefault (sdStore d), svPort = port,
                                svMetricsPort = TrimSpace (sdMetricsPort d)\<rparr>,
                              cfMySQL := \<lparr>myDSN = sdMySQLDSN d\<rparr>,
                              cfMQ := \<lparr>mqURL = sdRabbitMQURL d\<rparr>,
                              cfEtcd := \<lparr>etAddr = sdEtcdAddr d\<rparr>,
                              cfRedis := \<lparr>rdAddr = sdRedisAddr d, rdPassword = sdRedisPassword d,
                                rdDB = sdRedisDB d\<rparr>\<rparr>))))))"

definition LoadServiceRuntimeConfig ::
    "environment \<Rightarrow> field_orders \<Rightarrow> config_reader \<Rightarrow> string \<Rightarrow> string \<Rightarrow> Config result" where
  "LoadServiceRuntimeConfig env fo rd path role =
     (case readServiceManifest rd path of
        Inl e \<Rightarrow> Inl e
      | Inr m \<Rightarrow>
          (let role = TrimSpace role in
           if role = [] then Inl (ErrorText ''service role is required'')
           else if role = ''gateway'' then load_gateway env fo m
           else load_service env fo m role))"

section \<open>InitConfig (conf.go)\<close>

text \<open>\<open>filepath.Base\<close>, \<open>filepath.Ext\<close> and \<open>strings.TrimSuffix\<close> with slashes as separators.\<close>

definition filepath_Base :: "string \<Rightarrow> string" where
  "filepath_Base path =
     (if path = [] then ''.''
      else let s = rev (dropWhile (\<lambda>c. c = CHR ''/'') (rev path)) in
        if s = [] then ''/'' else rev (takeWhile (\<lambda>c. c \<noteq> CHR ''/'') (rev s)))"

definition filepath_Ext :: "string \<Rightarrow> string" where
  "filepath_Ext path =
     (let r = takeWhile (\<lambda>c. c \<noteq> CHR ''/'') (rev path) in
      if CHR ''.'' \<in> set r then ''.'' @ rev (takeWhile (\<lambda>c. c \<noteq> CHR ''.'') r) else [])"

definition TrimSuffix :: "string \<Rightarrow> string \<Rightarrow> string" where
  "TrimSuffix s suff = (if suffix suff s then take (length s - length suff) s else s)"

definition config_role :: "string \<Rightarrow> string" where
  "config_role filename = TrimSuffix (filepath_Base filename) (filepath_Ext filename)"

text \<open>
  \<open>filepath.Join("services", role, "etc")\<close> for a role with no slash of its own: empty and dot
  elements disappear, and a double dot takes the element before it away.
\<close>

definition services_etc :: "string \<Rightarrow> string" where
  "services_etc role =
     (if role \<in> {[], ''.'', ''/''} then ''services/etc''
      else if role = ''..'' then ''etc'' else ''services/'' @ role @ ''/etc'')"

text \<open>The process ends on an error (\<open>log.Fatalf\<close>); \<open>Conf\<close> is the result.\<close>

definition InitConfig ::
    "(string \<Rightarrow> json option) \<Rightarrow> environment \<Rightarrow> field_orders \<Rightarrow> config_reader \<Rightarrow> string \<Rightarrow> Config result" where
  "InitConfig decode env fo rd filename =
     (let role = config_role filename;
          servicesPath = TrimSpace (Getenv env ''SECKILL_SERVICES_CONFIG'') in
      if servicesPath \<noteq> []
      then case LoadServiceRuntimeConfig env fo rd servicesPath role of
             Inl e \<Rightarrow> Inl (WrapError ''services config read failed: '' e)
           | Inr loaded \<Rightarrow> Inr (applyEnvOverrides decode env loaded)
      else case crReadInConfig rd [services_etc role, ''./config'', ''.''] filename of
             Inl e \<Rightarrow> Inl (WrapError ''config read failed: '' e)
           | Inr v \<Rightarrow>
               (case crUnmarshalConfig rd v of
                  Inl e \<Rightarrow> Inl (WrapError ''config unmarshal failed: '' e)
                | Inr c \<Rightarrow> Inr (applyEnvOverrides decode env c)))"

end
