(* ===== verification/Config_Properties.thy ===== *)
theory Config_Properties
  imports Config_Services
begin

text \<open>
  What the configuration loader promises: a configuration that loads names everything the process
  needs to start, holds no credential of another service, and an error says which variables
  are missing but never what a variable contains. A load succeeds exactly when the definitions
  the role needs are there, their variables are set and they pass validation, whatever the
  order of the loops over the fields.
\<close>

section \<open>Loops over the fields of a definition\<close>

text \<open>The pointers of such a loop point to different fields.\<close>

locale field_pointers =
  fixes ptrs :: "string \<rightharpoonup> 'r field"
  assumes read_own: "ptrs n = Some f \<Longrightarrow> fst f (snd f v r) = v"
    and read_other: "ptrs n = Some f \<Longrightarrow> ptrs n' = Some g \<Longrightarrow> n \<noteq> n' \<Longrightarrow> fst g (snd f v r) = fst g r"
begin

lemma expand_ok:
  assumes "distinct names" and "expand_fields expand label ptrs names r = Inr r'"
    and "n \<in> set names" and "ptrs n = Some f"
  shows "expand (fst f r) = Inr (fst f r')"
proof -
  have keep: "fst g r2 = fst g r1"
    if "expand_fields expand label ptrs ns r1 = Inr r2" "ptrs m = Some g" "m \<notin> set ns" for ns m g r1 r2
    using that by (induction ns arbitrary: r1) (auto simp: read_other split: option.splits sum.splits)
  show ?thesis
    using assms
  proof (induction names arbitrary: r)
    case (Cons m ms)
    show ?case
    proof (cases "ptrs m")
      case None
      with Cons show ?thesis by auto
    next
      case (Some g)
      with Cons.prems(2) obtain v where v: "expand (fst g r) = Inr v"
        and rest: "expand_fields expand label ptrs ms (snd g v r) = Inr r'"
        by (auto split: sum.splits)
      show ?thesis
      proof (cases "n = m")
        case True
        with Some Cons.prems have "fst f r' = fst f (snd g v r)" "f = g"
          using keep [OF rest] by auto
        with v Some show ?thesis by (simp add: read_own)
      next
        case False
        with Cons.IH [OF _ rest] Cons.prems Some show ?thesis by (simp add: read_other)
      qed
    qed
  qed simp
qed

lemma expand_frame:
  assumes "expand_fields expand label ptrs names r = Inr r'"
    and "\<And>n f v r. ptrs n = Some f \<Longrightarrow> h (snd f v r) = h r"
  shows "h r' = h r"
  using assms(1) by (induction names arbitrary: r) (auto simp: assms(2) split: option.splits sum.splits)

lemma expand_total:
  assumes "distinct names" and "\<And>n f. n \<in> set names \<Longrightarrow> ptrs n = Some f \<Longrightarrow> \<exists>v. expand (fst f r) = Inr v"
  shows "\<exists>r'. expand_fields expand label ptrs names r = Inr r'"
  using assms
proof (induction names arbitrary: r)
  case (Cons m ms)
  show ?case
  proof (cases "ptrs m")
    case None
    have "\<exists>r'. expand_fields expand label ptrs ms r = Inr r'"
      by (rule Cons.IH) (use Cons.prems(1) in simp, rule Cons.prems(2), simp_all)
    with None show ?thesis by simp
  next
    case (Some g)
    with Cons.prems(2) [of m g] obtain v where v: "expand (fst g r) = Inr v" by auto
    have "\<exists>r'. expand_fields expand label ptrs ms (snd g v r) = Inr r'"
    proof (rule Cons.IH)
      fix n f assume n: "n \<in> set ms" "ptrs n = Some f"
      with Cons.prems(1) have "m \<noteq> n" by auto
      with read_other [OF Some n(2)] have "fst f (snd g v r) = fst f r" by simp
      with Cons.prems(2) [of n f] n show "\<exists>w. expand (fst f (snd g v r)) = Inr w" by simp
    qed (use Cons.prems in simp)
    with v Some show ?thesis by simp
  qed
qed simp

lemma expand_error:
  assumes "distinct names" and "expand_fields expand label ptrs names r = Inl e"
  shows "\<exists>n f e'. n \<in> set names \<and> ptrs n = Some f \<and> expand (fst f r) = Inl e' \<and> e = WrapError (label @ n @ '': '') e'"
  using assms
proof (induction names arbitrary: r)
  case (Cons m ms)
  show ?case
  proof (cases "ptrs m")
    case None
    with Cons.prems have "distinct ms" "expand_fields expand label ptrs ms r = Inl e" by auto
    from Cons.IH [OF this] show ?thesis by auto
  next
    case (Some g)
    show ?thesis
    proof (cases "expand (fst g r)")
      case (Inl e')
      with Some Cons.prems(2) have "e = WrapError (label @ m @ '': '') e'" by simp
      with Some Inl show ?thesis by (intro exI [of _ m] exI [of _ g] exI [of _ e']) simp
    next
      case (Inr v)
      with Some Cons.prems have "expand_fields expand label ptrs ms (snd g v r) = Inl e" "distinct ms" by auto
      from Cons.IH [OF this(2,1)] obtain n f e' where n: "n \<in> set ms" "ptrs n = Some f"
        and e: "expand (fst f (snd g v r)) = Inl e'" "e = WrapError (label @ n @ '': '') e'" by blast
      moreover from n(1) Cons.prems(1) have "m \<noteq> n" by auto
      with read_other [OF Some n(2)] have "fst f (snd g v r) = fst f r" by simp
      ultimately show ?thesis by (intro exI [of _ n] exI [of _ f] exI [of _ e']) simp
    qed
  qed
qed simp

end

lemma discovery_fields_simps [simp]:
  "discovery_fields ''name'' = Some (sdName, \<lambda>v d. d\<lparr>sdName := v\<rparr>)"
  "discovery_fields ''address'' = Some (sdAddress, \<lambda>v d. d\<lparr>sdAddress := v\<rparr>)"
  "discovery_fields ''etcd_addr'' = Some (sdEtcdAddr, \<lambda>v d. d\<lparr>sdEtcdAddr := v\<rparr>)"
  unfolding discovery_fields_def by simp_all

lemma optional_fields_simps [simp]:
  "optional_fields ''mysql_dsn'' = Some (sdMySQLDSN, \<lambda>v d. d\<lparr>sdMySQLDSN := v\<rparr>)"
  "optional_fields ''rabbitmq_url'' = Some (sdRabbitMQURL, \<lambda>v d. d\<lparr>sdRabbitMQURL := v\<rparr>)"
  "optional_fields ''redis_addr'' = Some (sdRedisAddr, \<lambda>v d. d\<lparr>sdRedisAddr := v\<rparr>)"
  "optional_fields ''redis_password'' = Some (sdRedisPassword, \<lambda>v d. d\<lparr>sdRedisPassword := v\<rparr>)"
  "optional_fields ''secret'' = Some (sdSecret, \<lambda>v d. d\<lparr>sdSecret := v\<rparr>)"
  unfolding optional_fields_def by simp_all

lemma gateway_fields_simps [simp]:
  "gateway_fields ''name'' = Some (gdName, \<lambda>v g. g\<lparr>gdName := v\<rparr>)"
  "gateway_fields ''http_address'' = Some (gdHTTPAddress, \<lambda>v g. g\<lparr>gdHTTPAddress := v\<rparr>)"
  "gateway_fields ''etcd_addr'' = Some (gdEtcdAddr, \<lambda>v g. g\<lparr>gdEtcdAddr := v\<rparr>)"
  unfolding gateway_fields_def by simp_all

lemma dom_fields:
  "dom discovery_fields = {''name'', ''address'', ''etcd_addr''}"
  "dom optional_fields = {''mysql_dsn'', ''rabbitmq_url'', ''redis_addr'', ''redis_password'', ''secret''}"
  "dom gateway_fields = {''name'', ''http_address'', ''etcd_addr''}"
  by (auto simp only: discovery_fields_def optional_fields_def gateway_fields_def dom_map_of_conv_image_fst list.set image_insert image_empty fst_conv)

lemma field_names:
  "discovery_fields n = Some f \<Longrightarrow> n \<in> {''name'', ''address'', ''etcd_addr''}"
  "optional_fields n = Some f \<Longrightarrow> n \<in> {''mysql_dsn'', ''rabbitmq_url'', ''redis_addr'', ''redis_password'', ''secret''}"
  "gateway_fields n = Some g \<Longrightarrow> n \<in> {''name'', ''http_address'', ''etcd_addr''}"
  unfolding dom_fields [symmetric] by (rule domI, assumption)+

lemma discovery_cases:
  assumes "discovery_fields n = Some f"
  obtains "n = ''name''" "f = (sdName, \<lambda>v d. d\<lparr>sdName := v\<rparr>)"
    | "n = ''address''" "f = (sdAddress, \<lambda>v d. d\<lparr>sdAddress := v\<rparr>)"
    | "n = ''etcd_addr''" "f = (sdEtcdAddr, \<lambda>v d. d\<lparr>sdEtcdAddr := v\<rparr>)"
  using field_names(1) [OF assms] assms by (elim insertE emptyE) simp_all

lemma optional_cases:
  assumes "optional_fields n = Some f"
  obtains "n = ''mysql_dsn''" "f = (sdMySQLDSN, \<lambda>v d. d\<lparr>sdMySQLDSN := v\<rparr>)"
    | "n = ''rabbitmq_url''" "f = (sdRabbitMQURL, \<lambda>v d. d\<lparr>sdRabbitMQURL := v\<rparr>)"
    | "n = ''redis_addr''" "f = (sdRedisAddr, \<lambda>v d. d\<lparr>sdRedisAddr := v\<rparr>)"
    | "n = ''redis_password''" "f = (sdRedisPassword, \<lambda>v d. d\<lparr>sdRedisPassword := v\<rparr>)"
    | "n = ''secret''" "f = (sdSecret, \<lambda>v d. d\<lparr>sdSecret := v\<rparr>)"
  using field_names(2) [OF assms] assms by (elim insertE emptyE) simp_all

lemma gateway_cases:
  assumes "gateway_fields n = Some f"
  obtains "n = ''name''" "f = (gdName, \<lambda>v g. g\<lparr>gdName := v\<rparr>)"
    | "n = ''http_address''" "f = (gdHTTPAddress, \<lambda>v g. g\<lparr>gdHTTPAddress := v\<rparr>)"
    | "n = ''etcd_addr''" "f = (gdEtcdAddr, \<lambda>v g. g\<lparr>gdEtcdAddr := v\<rparr>)"
  using field_names(3) [OF assms] assms by (elim insertE emptyE) simp_all

interpretation discovery: field_pointers discovery_fields
  by unfold_locales (elim discovery_cases; simp)+

interpretation optional: field_pointers optional_fields
  by unfold_locales (elim optional_cases; simp)+

interpretation gateway: field_pointers gateway_fields
  by unfold_locales (elim gateway_cases; simp)+

definition orders_ok :: "field_orders \<Rightarrow> bool" where
  "orders_ok fo \<longleftrightarrow> (\<forall>role. range_order (foDiscovery fo role) discovery_fields) \<and>
     range_order (foOptional fo) optional_fields \<and> range_order (foGateway fo) gateway_fields"

section \<open>Expansion, in closed form\<close>

definition variables_set :: "environment \<Rightarrow> string \<Rightarrow> bool" where
  "variables_set env value \<longleftrightarrow> list_all (\<lambda>key. env key \<noteq> None) (expand_keys value)"

definition expanded :: "environment \<Rightarrow> string \<Rightarrow> string" where
  "expanded env value = Expand (Getenv env) value"

definition expanded_or_empty :: "environment \<Rightarrow> string \<Rightarrow> string" where
  "expanded_or_empty env value = (if variables_set env value then expanded env value else [])"

lemma missing_keys_Nil: "missing_keys env value = [] \<longleftrightarrow> variables_set env value"
proof -
  have "missing_keys env value = [] \<longleftrightarrow> set (missing_keys env value) = {}" by simp
  also have "\<dots> \<longleftrightarrow> variables_set env value"
    by (auto simp: missing_keys_def variables_set_def list_all_iff)
  finally show ?thesis .
qed

lemma expandEnv_iff [simp]: "expandEnv env value = Inr v \<longleftrightarrow> variables_set env value \<and> v = expanded env value"
  by (auto simp: expandEnv_def expandWithPolicy_def missing_keys_Nil expanded_def Let_def)

lemma expandEnv_eq: "expandEnv env value =
    (if variables_set env value then Inr (expanded env value) else Inl (missing_variables (missing_keys env value)))"
  by (simp add: expandEnv_def expandWithPolicy_def missing_keys_Nil expanded_def Let_def)

lemma expandOptionalEnv_eq [simp]: "expandOptionalEnv env value = Inr (expanded_or_empty env value)"
  by (simp add: expandOptionalEnv_def expandWithPolicy_def missing_keys_Nil expanded_def expanded_or_empty_def Let_def)

definition discovery_set :: "environment \<Rightarrow> ServiceDefinition \<Rightarrow> bool" where
  "discovery_set env d \<longleftrightarrow> variables_set env (sdName d) \<and> variables_set env (sdAddress d) \<and>
     variables_set env (sdEtcdAddr d) \<and> variables_set env (sdMetricsPort d)"

definition discovered :: "environment \<Rightarrow> ServiceDefinition \<Rightarrow> ServiceDefinition" where
  "discovered env d = d\<lparr>sdName := expanded env (sdName d), sdAddress := expanded env (sdAddress d),
     sdEtcdAddr := expanded env (sdEtcdAddr d), sdMetricsPort := expanded env (sdMetricsPort d)\<rparr>"

lemma discovery_loop:
  assumes "range_order names discovery_fields"
  shows "expand_fields (expandEnv env) [] discovery_fields names d = Inr d' \<longleftrightarrow>
    (variables_set env (sdName d) \<and> variables_set env (sdAddress d) \<and> variables_set env (sdEtcdAddr d)) \<and>
    d' = d\<lparr>sdName := expanded env (sdName d), sdAddress := expanded env (sdAddress d), sdEtcdAddr := expanded env (sdEtcdAddr d)\<rparr>"
    (is "?loop d' \<longleftrightarrow> ?ok \<and> d' = ?d")
proof -
  have dist: "distinct names" and set: "set names = {''name'', ''address'', ''etcd_addr''}"
    using assms by (auto simp: range_order_def dom_fields)
  have forward: "?ok \<and> x = ?d" if loop: "?loop x" for x
  proof -
    note read = discovery.expand_ok [OF dist loop]
    note frame = discovery.expand_frame [OF loop]
    have fields: "expandEnv env (sdName d) = Inr (sdName x)" "expandEnv env (sdAddress d) = Inr (sdAddress x)"
      "expandEnv env (sdEtcdAddr d) = Inr (sdEtcdAddr x)"
      using read [of "''name''"] read [of "''address''"] read [of "''etcd_addr''"] by (auto simp: set)
    have rest: "sdMySQLDSN x = sdMySQLDSN d" "sdRabbitMQURL x = sdRabbitMQURL d" "sdRedisAddr x = sdRedisAddr d"
      "sdRedisPassword x = sdRedisPassword d" "sdRedisDB x = sdRedisDB d" "sdStore x = sdStore d" "sdSecret x = sdSecret d"
      "sdPurchaseLimit x = sdPurchaseLimit d" "sdMetricsPort x = sdMetricsPort d"
      by (rule frame, erule discovery_cases; simp)+
    from fields rest show ?thesis by (auto intro: ServiceDefinition.equality)
  qed
  show ?thesis
  proof
    assume "?loop d'"
    then show "?ok \<and> d' = ?d" by (rule forward)
  next
    assume rhs: "?ok \<and> d' = ?d"
    have "\<exists>x. ?loop x"
      by (rule discovery.expand_total [OF dist], erule discovery_cases; use rhs in simp)
    then obtain x where "?loop x" ..
    with forward [OF this] rhs show "?loop d'" by simp
  qed
qed

lemma expandDiscoveryDefinition_iff:
  assumes "range_order names discovery_fields"
  shows "expandDiscoveryDefinition env names d = Inr d' \<longleftrightarrow> discovery_set env d \<and> d' = discovered env d"
proof (cases "expand_fields (expandEnv env) [] discovery_fields names d")
  case (Inl e)
  with discovery_loop [OF assms, of env d] show ?thesis
    by (auto simp: expandDiscoveryDefinition_def discovery_set_def)
next
  case (Inr x)
  with discovery_loop [OF assms, of env d x] show ?thesis
    by (auto simp: expandDiscoveryDefinition_def expandNamedField_def discovery_set_def discovered_def expandEnv_eq)
qed

definition credentials_expanded :: "environment \<Rightarrow> ServiceDefinition \<Rightarrow> ServiceDefinition" where
  "credentials_expanded env d =
     d\<lparr>sdMySQLDSN := expanded_or_empty env (sdMySQLDSN d), sdRabbitMQURL := expanded_or_empty env (sdRabbitMQURL d),
       sdRedisAddr := expanded_or_empty env (sdRedisAddr d), sdRedisPassword := expanded_or_empty env (sdRedisPassword d),
       sdSecret := expanded_or_empty env (sdSecret d)\<rparr>"

lemma optional_loop:
  assumes "range_order names optional_fields"
  shows "expand_fields (expandOptionalEnv env) [] optional_fields names d = Inr (credentials_expanded env d)"
proof -
  have dist: "distinct names" and set: "set names = {''mysql_dsn'', ''rabbitmq_url'', ''redis_addr'', ''redis_password'', ''secret''}"
    using assms by (auto simp: range_order_def dom_fields)
  obtain x where loop: "expand_fields (expandOptionalEnv env) [] optional_fields names d = Inr x"
    using optional.expand_total [OF dist, of "expandOptionalEnv env" d] by auto
  note read = optional.expand_ok [OF dist loop]
  note frame = optional.expand_frame [OF loop]
  have fields: "sdMySQLDSN x = expanded_or_empty env (sdMySQLDSN d)" "sdRabbitMQURL x = expanded_or_empty env (sdRabbitMQURL d)"
    "sdRedisAddr x = expanded_or_empty env (sdRedisAddr d)" "sdRedisPassword x = expanded_or_empty env (sdRedisPassword d)"
    "sdSecret x = expanded_or_empty env (sdSecret d)"
    using read [of "''mysql_dsn''"] read [of "''rabbitmq_url''"] read [of "''redis_addr''"] read [of "''redis_password''"]
      read [of "''secret''"] by (simp_all add: set)
  have rest: "sdName x = sdName d" "sdAddress x = sdAddress d" "sdEtcdAddr x = sdEtcdAddr d" "sdRedisDB x = sdRedisDB d"
    "sdStore x = sdStore d" "sdPurchaseLimit x = sdPurchaseLimit d" "sdMetricsPort x = sdMetricsPort d"
    by (rule frame, erule optional_cases; simp)+
  have "x = credentials_expanded env d"
    by (rule ServiceDefinition.equality) (simp_all add: credentials_expanded_def fields rest)
  with loop show ?thesis by simp
qed

lemma expandServiceDefinition_iff:
  assumes "range_order names discovery_fields" and "range_order opt optional_fields"
  shows "expandServiceDefinition env names opt d = Inr d' \<longleftrightarrow>
    discovery_set env d \<and> d' = credentials_expanded env (discovered env d)"
proof (cases "expandDiscoveryDefinition env names d")
  case (Inl e)
  with expandDiscoveryDefinition_iff [OF assms(1), of env d] show ?thesis
    by (auto simp: expandServiceDefinition_def)
next
  case (Inr x)
  with expandDiscoveryDefinition_iff [OF assms(1), of env d x] optional_loop [OF assms(2)] show ?thesis
    by (auto simp: expandServiceDefinition_def)
qed

definition gateway_set :: "environment \<Rightarrow> GatewayDefinition \<Rightarrow> bool" where
  "gateway_set env g \<longleftrightarrow> variables_set env (gdName g) \<and> variables_set env (gdHTTPAddress g) \<and> variables_set env (gdEtcdAddr g)"

definition gateway_expanded :: "environment \<Rightarrow> GatewayDefinition \<Rightarrow> GatewayDefinition" where
  "gateway_expanded env g =
     g\<lparr>gdName := expanded env (gdName g), gdHTTPAddress := expanded env (gdHTTPAddress g),
       gdEtcdAddr := expanded env (gdEtcdAddr g), gdMetricsPort := expanded_or_empty env (gdMetricsPort g),
       gdJWT := (gdJWT g)\<lparr>gjSecret := expanded_or_empty env (gjSecret (gdJWT g))\<rparr>\<rparr>"

lemma gateway_loop:
  assumes "range_order names gateway_fields"
  shows "expand_fields (expandEnv env) label gateway_fields names g = Inr g' \<longleftrightarrow>
    gateway_set env g \<and>
    g' = g\<lparr>gdName := expanded env (gdName g), gdHTTPAddress := expanded env (gdHTTPAddress g), gdEtcdAddr := expanded env (gdEtcdAddr g)\<rparr>"
    (is "?loop g' \<longleftrightarrow> ?ok \<and> g' = ?g")
proof -
  have dist: "distinct names" and set: "set names = {''name'', ''http_address'', ''etcd_addr''}"
    using assms by (auto simp: range_order_def dom_fields)
  have forward: "?ok \<and> x = ?g" if loop: "?loop x" for x
  proof -
    note read = gateway.expand_ok [OF dist loop]
    note frame = gateway.expand_frame [OF loop]
    have fields: "expandEnv env (gdName g) = Inr (gdName x)" "expandEnv env (gdHTTPAddress g) = Inr (gdHTTPAddress x)"
      "expandEnv env (gdEtcdAddr g) = Inr (gdEtcdAddr x)"
      using read [of "''name''"] read [of "''http_address''"] read [of "''etcd_addr''"] by (auto simp: set)
    have rest: "gdMetricsPort x = gdMetricsPort g" "gdMode x = gdMode g" "gdJWT x = gdJWT g"
      by (rule frame, erule gateway_cases; simp)+
    from fields rest show ?thesis by (auto simp: gateway_set_def intro: GatewayDefinition.equality)
  qed
  show ?thesis
  proof
    assume "?loop g'"
    then show "?ok \<and> g' = ?g" by (rule forward)
  next
    assume rhs: "?ok \<and> g' = ?g"
    have "\<exists>x. ?loop x"
      by (rule gateway.expand_total [OF dist], erule gateway_cases; use rhs in \<open>simp add: gateway_set_def\<close>)
    then obtain x where "?loop x" ..
    with forward [OF this] rhs show "?loop g'" by simp
  qed
qed

lemma expandGatewayDefinition_iff:
  assumes "range_order names gateway_fields"
  shows "expandGatewayDefinition env names g = Inr g' \<longleftrightarrow> gateway_set env g \<and> g' = gateway_expanded env g"
proof (cases "expand_fields (expandEnv env) ''gateway '' gateway_fields names g")
  case (Inl e)
  with gateway_loop [OF assms, of env "''gateway ''" g] show ?thesis
    by (auto simp: expandGatewayDefinition_def)
next
  case (Inr x)
  with gateway_loop [OF assms, of env "''gateway ''" g x] show ?thesis
    by (auto simp: expandGatewayDefinition_def expandOptionalField_def gateway_expanded_def)
qed

section \<open>Loading, in closed form\<close>

definition has_port :: "string \<Rightarrow> bool" where
  "has_port address \<longleftrightarrow> (case portFromAddress address of Inl _ \<Rightarrow> False | Inr _ \<Rightarrow> True)"

definition target_valid :: "ServiceDefinition \<Rightarrow> bool" where
  "target_valid d \<longleftrightarrow> TrimSpace (sdName d) \<noteq> [] \<and> TrimSpace (sdAddress d) \<noteq> [] \<and> TrimSpace (sdEtcdAddr d) \<noteq> [] \<and>
     has_port (sdAddress d)"

definition service_valid :: "string \<Rightarrow> ServiceDefinition \<Rightarrow> bool" where
  "service_valid role d \<longleftrightarrow> target_valid d \<and>
     \<not> (role = ''inventory'' \<and> EqualFold (TrimSpace (sdStore d)) ''redis'' \<and> TrimSpace (sdRedisAddr d) = [])"

definition gateway_valid :: "GatewayDefinition \<Rightarrow> bool" where
  "gateway_valid g \<longleftrightarrow> TrimSpace (gdName g) \<noteq> [] \<and> TrimSpace (gdHTTPAddress g) \<noteq> [] \<and> TrimSpace (gdEtcdAddr g) \<noteq> [] \<and>
     has_port (gdHTTPAddress g)"

lemma validate_iff:
  "validateDiscoveryDefinition role d = Inr u \<longleftrightarrow> target_valid d"
  "validateServiceDefinition role d = Inr u \<longleftrightarrow> service_valid role d"
  by (simp_all add: validateServiceDefinition_def validateDiscoveryDefinition_def target_valid_def service_valid_def
      has_port_def split: sum.splits)

definition discoverable :: "environment \<Rightarrow> serviceManifest \<Rightarrow> string \<Rightarrow> bool" where
  "discoverable env m role \<longleftrightarrow>
     (case smServices m role of None \<Rightarrow> False | Some d \<Rightarrow> discovery_set env d \<and> target_valid (discovered env d))"

definition found :: "environment \<Rightarrow> serviceManifest \<Rightarrow> string \<Rightarrow> ServiceDefinition" where
  "found env m role = discovered env (the (smServices m role))"

lemma discover_iff:
  assumes "orders_ok fo"
  shows "discover env fo m role = Inr d \<longleftrightarrow> discoverable env m role \<and> d = found env m role"
proof (cases "smServices m role")
  case (Some d0)
  have "range_order (foDiscovery fo role) discovery_fields" using assms by (simp add: orders_ok_def)
  note expand = expandDiscoveryDefinition_iff [OF this, of env d0]
  show ?thesis
  proof (cases "expandDiscoveryDefinition env (foDiscovery fo role) d0")
    case (Inl e)
    with Some expand show ?thesis by (auto simp: discover_def discoverable_def)
  next
    case (Inr x)
    with Some expand [of x] validate_iff(1) [of role x] show ?thesis
      by (cases "validateDiscoveryDefinition role x") (auto simp: discover_def discoverable_def found_def)
  qed
qed (simp add: discover_def discoverable_def)

definition with_targets :: "environment \<Rightarrow> serviceManifest \<Rightarrow> string list \<Rightarrow> Config \<Rightarrow> Config" where
  "with_targets env m roles c = fold (\<lambda>role. set_target role (found env m role)) roles c"

lemma load_targets_iff:
  assumes "orders_ok fo"
  shows "load_targets env fo m roles c = Inr c' \<longleftrightarrow> list_all (discoverable env m) roles \<and> c' = with_targets env m roles c"
proof (induction roles arbitrary: c)
  case (Cons role roles)
  show ?case
  proof (cases "discover env fo m role")
    case (Inl e)
    with discover_iff [OF assms, of env m role "found env m role"] show ?thesis by simp
  next
    case (Inr d)
    with discover_iff [OF assms, of env m role d] Cons.IH [of "set_target role d c"] show ?thesis
      by (simp add: with_targets_def)
  qed
qed (auto simp: with_targets_def)

definition all_services :: "string list" where
  "all_services = [''identity'', ''catalog'', ''inventory'', ''cart'', ''order'', ''payment'', ''fulfillment'']"

text \<open>The configuration of the process itself, before the services it calls are added.\<close>

definition port_of :: "string \<Rightarrow> string" where
  "port_of address = (case portFromAddress address of Inl _ \<Rightarrow> [] | Inr port \<Rightarrow> port)"

definition service_base :: "string \<Rightarrow> ServiceDefinition \<Rightarrow> Config" where
  "service_base role d =
     set_own role d (empty_config\<lparr>
       cfServer := \<lparr>svName = sdName d, svMode = serverModeOrDefault (sdStore d), svPort = port_of (sdAddress d),
         svMetricsPort = TrimSpace (sdMetricsPort d)\<rparr>,
       cfMySQL := \<lparr>myDSN = sdMySQLDSN d\<rparr>, cfMQ := \<lparr>mqURL = sdRabbitMQURL d\<rparr>, cfEtcd := \<lparr>etAddr = sdEtcdAddr d\<rparr>,
       cfRedis := \<lparr>rdAddr = sdRedisAddr d, rdPassword = sdRedisPassword d, rdDB = sdRedisDB d\<rparr>\<rparr>)"

definition gateway_base :: "GatewayDefinition \<Rightarrow> Config" where
  "gateway_base g = empty_config\<lparr>
     cfServer := \<lparr>svName = gdName g, svMode = gatewayModeOrDefault (gdMode g), svPort = port_of (gdHTTPAddress g),
       svMetricsPort = TrimSpace (gdMetricsPort g)\<rparr>,
     cfEtcd := \<lparr>etAddr = gdEtcdAddr g\<rparr>, cfJWT := \<lparr>jwExpire = [], jwSecret = TrimSpace (gjSecret (gdJWT g))\<rparr>\<rparr>"

definition own_definition :: "environment \<Rightarrow> serviceManifest \<Rightarrow> string \<Rightarrow> ServiceDefinition" where
  "own_definition env m role = credentials_expanded env (found env m role)"

definition service_loadable :: "environment \<Rightarrow> serviceManifest \<Rightarrow> string \<Rightarrow> bool" where
  "service_loadable env m role \<longleftrightarrow>
     (case smServices m role of None \<Rightarrow> False | Some d \<Rightarrow> discovery_set env d \<and> service_valid role (own_definition env m role)) \<and>
     list_all (discoverable env m) (role_dependencies role)"

definition gateway_loadable :: "environment \<Rightarrow> serviceManifest \<Rightarrow> bool" where
  "gateway_loadable env m \<longleftrightarrow> gateway_set env (smGateway m) \<and> gateway_valid (gateway_expanded env (smGateway m)) \<and>
     list_all (discoverable env m) all_services"

lemma load_service_iff:
  assumes "orders_ok fo"
  shows "load_service env fo m role = Inr c \<longleftrightarrow> service_loadable env m role \<and>
    c = with_targets env m (role_dependencies role) (service_base role (own_definition env m role))"
proof (cases "smServices m role")
  case (Some d0)
  have "range_order (foDiscovery fo role) discovery_fields" "range_order (foOptional fo) optional_fields"
    using assms by (simp_all add: orders_ok_def)
  note expand = expandServiceDefinition_iff [OF this, of env d0]
  show ?thesis
  proof (cases "expandServiceDefinition env (foDiscovery fo role) (foOptional fo) d0")
    case (Inl e)
    with Some expand show ?thesis by (auto simp: load_service_def service_loadable_def)
  next
    case (Inr x)
    with expand [of x] Some have x: "x = own_definition env m role" and set: "discovery_set env d0"
      by (simp_all add: own_definition_def found_def)
    show ?thesis
    proof (cases "validateServiceDefinition role x")
      case Invalid: (Inl e)
      with validate_iff(2) [of role x] have "\<not> service_valid role x" by simp
      with Invalid Inr Some x show ?thesis by (simp add: load_service_def service_loadable_def)
    next
      case Valid: (Inr u)
      then have valid: "service_valid role x" by (simp add: validate_iff)
      then obtain port where "portFromAddress (sdAddress x) = Inr port"
        by (auto simp: service_valid_def target_valid_def has_port_def split: sum.splits)
      with Valid Inr Some x set valid load_targets_iff [OF assms] show ?thesis
        by (simp add: load_service_def service_loadable_def service_base_def port_of_def)
    qed
  qed
qed (simp add: load_service_def service_loadable_def)

lemma load_gateway_iff:
  assumes "orders_ok fo"
  shows "load_gateway env fo m = Inr c \<longleftrightarrow> gateway_loadable env m \<and>
    c = with_targets env m all_services (gateway_base (gateway_expanded env (smGateway m)))"
proof -
  have "range_order (foGateway fo) gateway_fields" using assms by (simp add: orders_ok_def)
  note expand = expandGatewayDefinition_iff [OF this, of env "smGateway m"]
  show ?thesis
  proof (cases "expandGatewayDefinition env (foGateway fo) (smGateway m)")
    case (Inl e)
    with expand show ?thesis by (auto simp: load_gateway_def gateway_loadable_def)
  next
    case (Inr x)
    with expand [of x] have x: "x = gateway_expanded env (smGateway m)" "gateway_set env (smGateway m)" by simp_all
    show ?thesis
    proof (cases "gateway_valid x")
      case True
      then obtain port where "portFromAddress (gdHTTPAddress x) = Inr port"
        by (auto simp: gateway_valid_def has_port_def split: sum.splits)
      with True Inr x load_targets_iff [OF assms] show ?thesis
        by (simp add: load_gateway_def gateway_loadable_def gateway_base_def port_of_def validateGatewayDefinition_def
            gateway_valid_def all_services_def del: load_targets.simps)
    next
      case False
      with Inr x show ?thesis
        by (auto simp: load_gateway_def gateway_loadable_def validateGatewayDefinition_def gateway_valid_def has_port_def
            split: sum.splits)
    qed
  qed
qed

section \<open>What a loaded configuration holds\<close>

text \<open>Name and address of a service, as the configuration has them.\<close>

definition section_of :: "Config \<Rightarrow> string \<Rightarrow> string \<times> string" where
  "section_of c role =
     (if role = ''catalog'' then (seServiceName (cfCatalog c), seAddress (cfCatalog c))
      else if role = ''inventory'' then (ivServiceName (cfInventory c), ivAddress (cfInventory c))
      else if role = ''identity'' then (seServiceName (cfIdentity c), seAddress (cfIdentity c))
      else if role = ''cart'' then (seServiceName (cfCart c), seAddress (cfCart c))
      else if role = ''payment'' then (pyServiceName (cfPayment c), pyAddress (cfPayment c))
      else if role = ''fulfillment'' then (seServiceName (cfFulfillment c), seAddress (cfFulfillment c))
      else (seServiceName (cfOrder c), seAddress (cfOrder c)))"

definition needed_services :: "string \<Rightarrow> string list" where
  "needed_services role =
     (if role = ''gateway'' then all_services
      else if role \<in> set all_services then role # role_dependencies role else [])"

definition config_ready :: "string \<Rightarrow> Config \<Rightarrow> bool" where
  "config_ready role c \<longleftrightarrow>
     TrimSpace (svName (cfServer c)) \<noteq> [] \<and> svPort (cfServer c) \<noteq> [] \<and> svMode (cfServer c) \<noteq> [] \<and>
     TrimSpace (etAddr (cfEtcd c)) \<noteq> [] \<and>
     list_all (\<lambda>s. TrimSpace (fst (section_of c s)) \<noteq> [] \<and> has_port (snd (section_of c s))) (needed_services role) \<and>
     (role = ''inventory'' \<and> EqualFold (TrimSpace (ivStore (cfInventory c))) ''redis'' \<longrightarrow>
        TrimSpace (ivRedisAddr (cfInventory c)) \<noteq> [])"

lemma section_of_set_target:
  "role \<in> set all_services \<Longrightarrow> other \<in> set all_services \<Longrightarrow>
    section_of (set_target role d c) other = (if other = role then (sdName d, sdAddress d) else section_of c other)"
  by (auto simp: section_of_def set_target_def target_def all_services_def)

lemma set_target_server [simp]:
  "cfServer (set_target role d c) = cfServer c" "cfEtcd (set_target role d c) = cfEtcd c"
  by (simp_all add: set_target_def)

lemma with_targets_server [simp]:
  "cfServer (with_targets env m roles c) = cfServer c" "cfEtcd (with_targets env m roles c) = cfEtcd c"
  unfolding with_targets_def by (induction roles arbitrary: c) simp_all

lemma section_of_with_targets:
  "set roles \<subseteq> set all_services \<Longrightarrow> role \<in> set all_services \<Longrightarrow>
    section_of (with_targets env m roles c) role =
      (if role \<in> set roles then (sdName (found env m role), sdAddress (found env m role)) else section_of c role)"
proof (induction roles arbitrary: c)
  case (Cons r rs)
  then show ?case
    using Cons.IH [of "set_target r (found env m r) c"] by (auto simp: with_targets_def section_of_set_target)
qed (simp add: with_targets_def)

lemma discoverable_valid: "discoverable env m role \<Longrightarrow> target_valid (found env m role)"
  by (auto simp: discoverable_def found_def split: option.splits)

lemma targets_ready:
  assumes "set roles \<subseteq> set all_services" and "list_all (discoverable env m) roles" and "role \<in> set roles"
  shows "TrimSpace (fst (section_of (with_targets env m roles c) role)) \<noteq> [] \<and>
    has_port (snd (section_of (with_targets env m roles c) role))"
proof -
  have "target_valid (found env m role)" using assms(2,3) discoverable_valid by (auto simp: list_all_iff)
  moreover have "role \<in> set all_services" using assms(1,3) by auto
  ultimately show ?thesis using assms by (simp add: section_of_with_targets target_valid_def)
qed

lemma dependencies_known: "set (role_dependencies role) \<subseteq> set all_services" "role \<notin> set (role_dependencies role)"
  by (auto simp: role_dependencies_def all_services_def)

lemma service_base_simps [simp]:
  "svName (cfServer (service_base role d)) = sdName d" "svPort (cfServer (service_base role d)) = port_of (sdAddress d)"
  "svMode (cfServer (service_base role d)) = serverModeOrDefault (sdStore d)"
  "etAddr (cfEtcd (service_base role d)) = sdEtcdAddr d"
  "role \<in> set all_services \<Longrightarrow> section_of (service_base role d) role = (sdName d, sdAddress d)"
  by (auto simp: service_base_def set_own_def section_of_def all_services_def own_section_def)

lemma port_of_nonempty: "has_port address \<Longrightarrow> port_of address \<noteq> []"
  by (auto simp: has_port_def port_of_def portFromAddress_def split: sum.splits option.splits prod.splits if_splits)

lemma inventory_config:
  "cfInventory (with_targets env m (role_dependencies ''inventory'') (service_base ''inventory'' d)) =
     \<lparr>ivServiceName = sdName d, ivAddress = sdAddress d, ivStore = sdStore d, ivRedisAddr = sdRedisAddr d,
      ivRedisPassword = sdRedisPassword d, ivRedisDB = sdRedisDB d, ivPurchaseLimit = sdPurchaseLimit d, ivStock = Map.empty\<rparr>"
  by (simp add: role_dependencies_def with_targets_def service_base_def set_own_def)

lemma service_ready:
  assumes "service_loadable env m role" and "role \<noteq> ''gateway''"
  shows "config_ready role (with_targets env m (role_dependencies role) (service_base role (own_definition env m role)))"
    (is "config_ready role ?c")
proof -
  let ?d = "own_definition env m role"
  have valid: "service_valid role ?d" and deps: "list_all (discoverable env m) (role_dependencies role)"
    using assms(1) by (auto simp: service_loadable_def split: option.splits)
  then have target: "target_valid ?d" by (simp add: service_valid_def)
  have "TrimSpace (fst (section_of ?c s)) \<noteq> [] \<and> has_port (snd (section_of ?c s))" if s: "s \<in> set (needed_services role)" for s
  proof (cases "s = role")
    case True
    with s assms(2) have "role \<in> set all_services" by (auto simp: needed_services_def split: if_splits)
    with target True dependencies_known [of role] show ?thesis
      by (simp add: section_of_with_targets target_valid_def)
  next
    case False
    with s assms(2) have "s \<in> set (role_dependencies role)" by (auto simp: needed_services_def split: if_splits)
    then show ?thesis by (rule targets_ready [OF dependencies_known(1) deps])
  qed
  moreover have "TrimSpace (ivRedisAddr (cfInventory ?c)) \<noteq> []"
    if "role = ''inventory''" "EqualFold (TrimSpace (ivStore (cfInventory ?c))) ''redis''"
    using that valid by (auto simp: inventory_config service_valid_def)
  ultimately show ?thesis
    using target by (auto simp: config_ready_def target_valid_def port_of_nonempty serverModeOrDefault_def list_all_iff)
qed

lemma gateway_ready:
  assumes "gateway_loadable env m"
  shows "config_ready ''gateway'' (with_targets env m all_services (gateway_base (gateway_expanded env (smGateway m))))"
proof -
  have valid: "gateway_valid (gateway_expanded env (smGateway m))"
    and targets: "list_all (discoverable env m) all_services"
    using assms by (simp_all add: gateway_loadable_def)
  show ?thesis
    using valid targets_ready [OF subset_refl targets]
    by (auto simp: config_ready_def needed_services_def gateway_valid_def gateway_base_def gatewayModeOrDefault_def
        port_of_nonempty list_all_iff Let_def)
qed

lemma load_iff:
  assumes "orders_ok fo" and "readServiceManifest rd path = Inr m"
  shows "LoadServiceRuntimeConfig env fo rd path role = Inr c \<longleftrightarrow> TrimSpace role \<noteq> [] \<and>
    (if TrimSpace role = ''gateway''
     then gateway_loadable env m \<and> c = with_targets env m all_services (gateway_base (gateway_expanded env (smGateway m)))
     else service_loadable env m (TrimSpace role) \<and> c = with_targets env m (role_dependencies (TrimSpace role))
       (service_base (TrimSpace role) (own_definition env m (TrimSpace role))))"
  using load_service_iff [OF assms(1)] load_gateway_iff [OF assms(1)] assms(2)
  by (simp add: LoadServiceRuntimeConfig_def Let_def)

section \<open>Errors of the loader\<close>

text \<open>
  The errors a load can report. They are built from the manifest, the role and the \<^emph>\<open>names\<close> \<open>D\<close> of
  the variables that are set; the values of variables do not occur.
\<close>

definition unset_names :: "string set \<Rightarrow> string \<Rightarrow> string list" where
  "unset_names D value = sort (remdups (filter (\<lambda>key. key \<notin> D) (expand_keys value)))"

inductive discovery_error :: "string set \<Rightarrow> serviceManifest \<Rightarrow> string \<Rightarrow> go_error \<Rightarrow> bool" for D m role where
  absent: "smServices m role = None \<Longrightarrow> discovery_error D m role (service_error role ''is missing from configuration'')"
| unset: "smServices m role = Some d \<Longrightarrow>
    (name, value) \<in> {(''name'', sdName d), (''address'', sdAddress d), (''etcd_addr'', sdEtcdAddr d), (''metrics_port'', sdMetricsPort d)} \<Longrightarrow>
    unset_names D value \<noteq> [] \<Longrightarrow>
    discovery_error D m role (WrapError (''service '' @ quoted role @ '' configuration: '')
      (WrapError (name @ '': '') (missing_variables (unset_names D value))))"
| invalid: "message \<in> {''name is required'', ''address is required'', ''etcd_addr is required'', ''address is invalid'',
      ''redis_addr is required when store is redis''} \<Longrightarrow>
    discovery_error D m role (service_error role message)"

inductive gateway_error :: "string set \<Rightarrow> serviceManifest \<Rightarrow> go_error \<Rightarrow> bool" for D m where
  gateway_unset: "(name, value) \<in> {(''name'', gdName (smGateway m)), (''http_address'', gdHTTPAddress (smGateway m)),
      (''etcd_addr'', gdEtcdAddr (smGateway m))} \<Longrightarrow>
    unset_names D value \<noteq> [] \<Longrightarrow>
    gateway_error D m (WrapError (''gateway '' @ name @ '': '') (missing_variables (unset_names D value)))"
| gateway_invalid: "message \<in> {''gateway name is required'', ''gateway http_address is required'',
      ''gateway etcd_addr is required'', ''gateway http_address is invalid''} \<Longrightarrow>
    gateway_error D m (ErrorText message)"

definition load_error :: "string set \<Rightarrow> serviceManifest \<Rightarrow> string \<Rightarrow> go_error \<Rightarrow> bool" where
  "load_error D m role e \<longleftrightarrow>
     role = [] \<and> e = ErrorText ''service role is required'' \<or>
     role = ''gateway'' \<and> (gateway_error D m e \<or> (\<exists>s \<in> set all_services. discovery_error D m s e)) \<or>
     role \<noteq> [] \<and> role \<noteq> ''gateway'' \<and> (\<exists>s \<in> set (role # role_dependencies role). discovery_error D m s e)"

lemma missing_keys_eq: "missing_keys env value = unset_names (dom env) value"
  by (simp add: missing_keys_def unset_names_def domIff)

lemma expandEnv_unset: "expandEnv env value = Inl e \<Longrightarrow>
    e = missing_variables (unset_names (dom env) value) \<and> unset_names (dom env) value \<noteq> []"
  using missing_keys_Nil [of env "value"] by (auto simp: expandEnv_eq missing_keys_eq split: if_splits)

lemma expandDiscovery_error:
  assumes "range_order names discovery_fields" and "expandDiscoveryDefinition env names d = Inl e"
  shows "\<exists>name value. (name, value) \<in> {(''name'', sdName d), (''address'', sdAddress d), (''etcd_addr'', sdEtcdAddr d),
      (''metrics_port'', sdMetricsPort d)} \<and> unset_names (dom env) value \<noteq> [] \<and>
    e = WrapError (name @ '': '') (missing_variables (unset_names (dom env) value))"
proof (cases "expand_fields (expandEnv env) [] discovery_fields names d")
  case (Inl e1)
  then have "e = e1" using assms(2) by (simp add: expandDiscoveryDefinition_def)
  with Inl discovery.expand_error [of names "expandEnv env" "[]" d e1] assms(1) obtain n f e'
    where "discovery_fields n = Some f" "expandEnv env (fst f d) = Inl e'" "e = WrapError (n @ '': '') e'"
    by (auto simp: range_order_def)
  moreover from this(1,2) obtain v where "(n, v) \<in> {(''name'', sdName d), (''address'', sdAddress d), (''etcd_addr'', sdEtcdAddr d),
      (''metrics_port'', sdMetricsPort d)}" "expandEnv env v = Inl e'"
    by (elim discovery_cases) auto
  ultimately show ?thesis
    using expandEnv_unset [of env v e'] by (intro exI [of _ n] exI [of _ v] conjI) (assumption, simp_all)
next
  case (Inr x)
  with discovery_loop [OF assms(1), of env d x] have "sdMetricsPort x = sdMetricsPort d" by auto
  with Inr assms(2) have "\<exists>e'. expandEnv env (sdMetricsPort d) = Inl e' \<and> e = WrapError (''metrics_port'' @ '': '') e'"
    by (auto simp: expandDiscoveryDefinition_def expandNamedField_def split: sum.splits)
  then show ?thesis
    using expandEnv_unset [of env "sdMetricsPort d"] by (intro exI [of _ "''metrics_port''"] exI [of _ "sdMetricsPort d"]) auto
qed

lemma validate_errors:
  "validateDiscoveryDefinition role d = Inl e \<Longrightarrow> discovery_error D m role e"
  "validateServiceDefinition role d = Inl e \<Longrightarrow> discovery_error D m role e"
  by (auto simp: validateDiscoveryDefinition_def validateServiceDefinition_def intro!: discovery_error.invalid
      split: if_splits sum.splits)

lemma discover_error:
  assumes "orders_ok fo" and "discover env fo m role = Inl e"
  shows "discovery_error (dom env) m role e"
proof (cases "smServices m role")
  case None
  with assms(2) show ?thesis by (auto simp: discover_def intro: discovery_error.absent)
next
  case (Some d)
  have ro: "range_order (foDiscovery fo role) discovery_fields" using assms(1) by (simp add: orders_ok_def)
  show ?thesis
  proof (cases "expandDiscoveryDefinition env (foDiscovery fo role) d")
    case (Inl e')
    with Some assms(2) have "e = WrapError (''service '' @ quoted role @ '' configuration: '') e'" by (simp add: discover_def)
    with expandDiscovery_error [OF ro Inl] Some show ?thesis by (metis discovery_error.unset)
  next
    case (Inr x)
    with Some assms(2) show ?thesis by (auto simp: discover_def intro: validate_errors split: sum.splits)
  qed
qed

lemma load_targets_error:
  assumes "orders_ok fo" and "load_targets env fo m roles c = Inl e"
  shows "\<exists>s \<in> set roles. discovery_error (dom env) m s e"
  using assms(2)
proof (induction roles arbitrary: c)
  case (Cons role roles)
  show ?case
  proof (cases "discover env fo m role")
    case (Inl e')
    with Cons.prems discover_error [OF assms(1) Inl] show ?thesis by simp
  next
    case (Inr d)
    with Cons.prems Cons.IH [of "set_target role d c"] show ?thesis by simp
  qed
qed simp

lemma load_service_error:
  assumes "orders_ok fo" and "load_service env fo m role = Inl e"
  shows "\<exists>s \<in> set (role # role_dependencies role). discovery_error (dom env) m s e"
proof (cases "smServices m role")
  case None
  with assms(2) have "discovery_error (dom env) m role e" by (auto simp: load_service_def intro: discovery_error.absent)
  then show ?thesis by simp
next
  case (Some d)
  have ro: "range_order (foDiscovery fo role) discovery_fields" and opt: "range_order (foOptional fo) optional_fields"
    using assms(1) by (simp_all add: orders_ok_def)
  show ?thesis
  proof (cases "expandDiscoveryDefinition env (foDiscovery fo role) d")
    case (Inl e')
    with Some assms(2) have "e = WrapError (''service '' @ quoted role @ '' configuration: '') e'"
      by (simp add: load_service_def expandServiceDefinition_def)
    with expandDiscovery_error [OF ro Inl] Some have "discovery_error (dom env) m role e" by (metis discovery_error.unset)
    then show ?thesis by simp
  next
    case (Inr x)
    let ?d = "credentials_expanded env x"
    have expand: "expandServiceDefinition env (foDiscovery fo role) (foOptional fo) d = Inr ?d"
      using Inr optional_loop [OF opt] by (simp add: expandServiceDefinition_def)
    have own: ?thesis if "discovery_error (dom env) m role e" using that by simp
    show ?thesis
    proof (cases "validateServiceDefinition role ?d")
      case Bad: (Inl e')
      with Some expand assms(2) show ?thesis by (auto simp: load_service_def intro: own validate_errors(2))
    next
      case (Inr u)
      show ?thesis
      proof (cases "portFromAddress (sdAddress ?d)")
        case Bad: (Inl e')
        with Some expand Inr assms(2) have "e = service_error role ''address is invalid''" by (simp add: load_service_def)
        then show ?thesis by (intro own) (simp add: discovery_error.invalid)
      next
        case Port: (Inr port)
        with Some expand Inr assms(2) obtain c where "load_targets env fo m (role_dependencies role) c = Inl e"
          by (simp add: load_service_def)
        from load_targets_error [OF assms(1) this] show ?thesis by auto
      qed
    qed
  qed
qed

lemma expandGateway_error:
  assumes "range_order names gateway_fields" and "expandGatewayDefinition env names (smGateway m) = Inl e"
  shows "gateway_error (dom env) m e"
proof (cases "expand_fields (expandEnv env) ''gateway '' gateway_fields names (smGateway m)")
  case (Inl e1)
  then have "e = e1" using assms(2) by (simp add: expandGatewayDefinition_def)
  with Inl gateway.expand_error [of names "expandEnv env" "''gateway ''" "smGateway m" e1] assms(1) obtain n f e'
    where "gateway_fields n = Some f" "expandEnv env (fst f (smGateway m)) = Inl e'" "e = WrapError (''gateway '' @ n @ '': '') e'"
    by (auto simp: range_order_def)
  moreover from this(1,2) obtain v where "(n, v) \<in> {(''name'', gdName (smGateway m)), (''http_address'', gdHTTPAddress (smGateway m)),
      (''etcd_addr'', gdEtcdAddr (smGateway m))}" "expandEnv env v = Inl e'"
    by (elim gateway_cases) auto
  ultimately show ?thesis
    using expandEnv_unset [of env v e'] gateway_error.gateway_unset [of n v m "dom env"] by simp
next
  case (Inr x)
  with assms(2) show ?thesis by (simp add: expandGatewayDefinition_def expandOptionalField_def)
qed

lemma load_gateway_error:
  assumes "orders_ok fo" and "load_gateway env fo m = Inl e"
  shows "gateway_error (dom env) m e \<or> (\<exists>s \<in> set all_services. discovery_error (dom env) m s e)"
proof (cases "expandGatewayDefinition env (foGateway fo) (smGateway m)")
  case (Inl e')
  with assms show ?thesis by (auto simp: load_gateway_def orders_ok_def intro: expandGateway_error)
next
  case (Inr g)
  show ?thesis
  proof (cases "validateGatewayDefinition g")
    case Bad: (Inl e')
    with Inr assms(2) have "validateGatewayDefinition g = Inl e" by (simp add: load_gateway_def)
    then show ?thesis
      by (auto simp: validateGatewayDefinition_def gateway_error.gateway_invalid split: if_splits)
  next
    case Good: (Inr u)
    show ?thesis
    proof (cases "portFromAddress (gdHTTPAddress g)")
      case Bad: (Inl e')
      with Good Inr assms(2) have "e = ErrorText ''gateway http_address is invalid''" by (simp add: load_gateway_def)
      then show ?thesis by (simp add: gateway_error.gateway_invalid)
    next
      case (Inr port)
      with Good \<open>expandGatewayDefinition env (foGateway fo) (smGateway m) = Inr g\<close> assms(2)
      obtain c where "load_targets env fo m all_services c = Inl e"
        by (auto simp: load_gateway_def all_services_def simp del: load_targets.simps)
      with load_targets_error [OF assms(1)] show ?thesis by blast
    qed
  qed
qed

section \<open>Credentials of other services\<close>

definition without_credentials :: "ServiceDefinition \<Rightarrow> ServiceDefinition" where
  "without_credentials d = d\<lparr>sdMySQLDSN := [], sdRabbitMQURL := [], sdRedisAddr := [], sdRedisPassword := [], sdSecret := []\<rparr>"

lemma without_credentials_simps [simp]:
  "sdName (without_credentials d) = sdName d" "sdAddress (without_credentials d) = sdAddress d"
  "sdEtcdAddr (without_credentials d) = sdEtcdAddr d" "sdMetricsPort (without_credentials d) = sdMetricsPort d"
  "without_credentials (d\<lparr>sdMetricsPort := v\<rparr>) = (without_credentials d)\<lparr>sdMetricsPort := v\<rparr>"
  by (simp_all add: without_credentials_def)

lemma discovery_loop_public:
  "expand_fields expand label discovery_fields names (without_credentials d) =
     map_sum id without_credentials (expand_fields expand label discovery_fields names d)"
proof (induction names arbitrary: d)
  case (Cons n ns)
  show ?case
  proof (cases "discovery_fields n")
    case None
    with Cons show ?thesis by simp
  next
    case (Some f)
    have read: "fst f (without_credentials d) = fst f d" using Some by (elim discovery_cases) simp_all
    have put: "snd f v (without_credentials d) = without_credentials (snd f v d)" for v
      using Some by (elim discovery_cases) (simp_all add: without_credentials_def)
    show ?thesis using Some Cons.IH by (simp add: read put split: sum.split)
  qed
qed simp

lemma discovery_public:
  "expandDiscoveryDefinition env names (without_credentials d) =
     map_sum id without_credentials (expandDiscoveryDefinition env names d)"
proof (cases "expand_fields (expandEnv env) [] discovery_fields names d")
  case (Inr x)
  then show ?thesis
    by (simp add: expandDiscoveryDefinition_def discovery_loop_public expandNamedField_def expandEnv_eq)
qed (simp add: expandDiscoveryDefinition_def discovery_loop_public)

lemma validateDiscovery_public: "validateDiscoveryDefinition role (without_credentials d) = validateDiscoveryDefinition role d"
  by (simp add: validateDiscoveryDefinition_def)

lemma set_target_public: "set_target role (without_credentials d) c = set_target role d c"
  by (simp add: set_target_def target_def)

lemma discover_public:
  assumes "map_option without_credentials (smServices m role) = map_option without_credentials (smServices m' role)"
  shows "map_sum id without_credentials (discover env fo m role) = map_sum id without_credentials (discover env fo m' role)"
proof -
  have found: "map_sum id without_credentials (discover env fo n role) =
      (case map_option without_credentials (smServices n role) of
         None \<Rightarrow> Inl (service_error role ''is missing from configuration'')
       | Some d \<Rightarrow>
           (case expandDiscoveryDefinition env (foDiscovery fo role) d of
              Inl e \<Rightarrow> Inl (WrapError (''service '' @ quoted role @ '' configuration: '') e)
            | Inr d' \<Rightarrow> (case validateDiscoveryDefinition role d' of Inl e \<Rightarrow> Inl e | Inr _ \<Rightarrow> Inr d')))" for n
    by (simp add: discover_def discovery_public validateDiscovery_public split: option.split sum.split)
  show ?thesis unfolding found assms ..
qed

lemma load_targets_public:
  assumes "\<And>r. r \<in> set roles \<Longrightarrow> map_option without_credentials (smServices m r) = map_option without_credentials (smServices m' r)"
  shows "load_targets env fo m roles c = load_targets env fo m' roles c"
  using assms
proof (induction roles arbitrary: c)
  case (Cons role roles)
  have same: "map_sum id without_credentials (discover env fo m role) = map_sum id without_credentials (discover env fo m' role)"
    by (rule discover_public) (simp add: Cons.prems)
  have rest: "load_targets env fo m roles (set_target role d c) = load_targets env fo m' roles (set_target role d' c)"
    if "without_credentials d = without_credentials d'" for d d'
    using Cons.IH [OF Cons.prems] set_target_public that by (metis list.set_intros(2))
  show ?case
    using same rest by (cases "discover env fo m role"; cases "discover env fo m' role") simp_all
qed simp

text \<open>The manifests a role sees as equal: only its own definition is compared as a whole.\<close>

definition same_for :: "string \<Rightarrow> serviceManifest \<Rightarrow> serviceManifest \<Rightarrow> bool" where
  "same_for role m m' \<longleftrightarrow> smGateway m = smGateway m' \<and> smServices m role = smServices m' role \<and>
     list_all (\<lambda>s. map_option without_credentials (smServices m s) = map_option without_credentials (smServices m' s)) all_services"

lemma load_service_public:
  assumes "same_for role m m'"
  shows "load_service env fo m role = load_service env fo m' role"
proof -
  have targets: "load_targets env fo m (role_dependencies role) = load_targets env fo m' (role_dependencies role)"
    by (rule ext, rule load_targets_public) (use assms dependencies_known(1) in \<open>auto simp: same_for_def list_all_iff\<close>)
  have own: "smServices m role = smServices m' role" using assms by (simp add: same_for_def)
  show ?thesis unfolding load_service_def targets own ..
qed

lemma load_gateway_public:
  assumes "smGateway m = smGateway m'"
    and "list_all (\<lambda>s. map_option without_credentials (smServices m s) = map_option without_credentials (smServices m' s)) all_services"
  shows "load_gateway env fo m = load_gateway env fo m'"
proof -
  have targets: "load_targets env fo m all_services = load_targets env fo m' all_services"
    by (rule ext, rule load_targets_public) (use assms(2) in \<open>auto simp: list_all_iff\<close>)
  show ?thesis unfolding load_gateway_def targets [unfolded all_services_def] assms(1) ..
qed

section \<open>Environment overrides\<close>

lemma override_unset [simp]: "Getenv env key = [] \<Longrightarrow> override env key old = old"
  by (simp add: override_def)

lemma override_set: "Getenv env key \<noteq> [] \<Longrightarrow> override env key old = Getenv env key"
  by (simp add: override_def Let_def)

lemma no_overrides:
  assumes "\<And>key. prefix ''SECKILL_'' key \<Longrightarrow> Getenv env key = []"
  shows "applyEnvOverrides decode env c = c"
proof -
  have unset: "Getenv env (CHR ''S'' # CHR ''E'' # CHR ''C'' # CHR ''K'' # CHR ''I'' # CHR ''L'' # CHR ''L'' # CHR ''_'' # key) = []" for key
    by (rule assms) simp
  show ?thesis
    by (simp add: applyEnvOverrides_def override_service_def override_dsn_def fallback_dsn_def override_inventory_def
        override_payment_def override_stock_def unset ParseInt_def ParseInt32_def parse_digits_def Let_def)
qed

section \<open>The example template\<close>

text \<open>The services of deploy/config/commerce-services.example.yaml, and a reader that finds them.\<close>

definition example_service :: "string \<Rightarrow> string \<Rightarrow> string \<Rightarrow> ServiceDefinition" where
  "example_service name address dsn = \<lparr>sdName = name, sdAddress = address, sdMySQLDSN = dsn, sdRabbitMQURL = [],
     sdEtcdAddr = ''127.0.0.1:2379'', sdRedisAddr = [], sdRedisPassword = [], sdRedisDB = 0, sdStore = [], sdSecret = [],
     sdPurchaseLimit = 0, sdMetricsPort = []\<rparr>"

definition example_manifest :: serviceManifest where
  "example_manifest = \<lparr>
     smServices = map_of
       [(''identity'', example_service ''identity-service'' ''127.0.0.1:51001'' ''${IDENTITY_MYSQL_DSN}''),
        (''catalog'', (example_service ''catalog-service'' ''127.0.0.1:51002'' ''${CATALOG_MYSQL_DSN}'')\<lparr>sdMetricsPort := ''9102''\<rparr>),
        (''inventory'', (example_service ''inventory-service'' ''127.0.0.1:51003'' ''${INVENTORY_MYSQL_DSN}'')
           \<lparr>sdRedisAddr := ''127.0.0.1:6379'', sdRedisPassword := ''${INVENTORY_REDIS_PASSWORD}'', sdRedisDB := 2,
            sdStore := ''redis'', sdPurchaseLimit := 5, sdMetricsPort := ''9103''\<rparr>),
        (''cart'', example_service ''cart-service'' ''127.0.0.1:51004'' ''${CART_MYSQL_DSN}''),
        (''order'', example_service ''order-service'' ''127.0.0.1:51005'' ''${ORDER_MYSQL_DSN}''),
        (''payment'', (example_service ''payment-service'' ''127.0.0.1:51006'' ''${PAYMENT_MYSQL_DSN}'')\<lparr>sdSecret := ''${PAYMENT_SECRET}''\<rparr>),
        (''fulfillment'', example_service ''fulfillment-service'' ''127.0.0.1:51007'' ''${FULFILLMENT_MYSQL_DSN}'')],
     smGateway = \<lparr>gdName = ''api-gateway'', gdHTTPAddress = ''127.0.0.1:8080'', gdEtcdAddr = ''127.0.0.1:2379'',
       gdMetricsPort = ''9090'', gdMode = ''debug'', gdJWT = \<lparr>gjSecret = ''${SECKILL_JWT_SECRET}''\<rparr>\<rparr>\<rparr>"

definition example_reader :: "serviceManifest \<Rightarrow> config_reader" where
  "example_reader m = \<lparr>crReadFile = \<lambda>path. Inr [], crReadConfig = \<lambda>data. Inr JNull, crUnmarshal = \<lambda>v. Inr m,
     crReadInConfig = \<lambda>paths name. Inr JNull, crUnmarshalConfig = \<lambda>v. Inr empty_config\<rparr>"

definition example_orders :: field_orders where
  "example_orders = \<lparr>foDiscovery = \<lambda>role. [''etcd_addr'', ''name'', ''address''],
     foOptional = [''secret'', ''mysql_dsn'', ''redis_addr'', ''rabbitmq_url'', ''redis_password''],
     foGateway = [''name'', ''etcd_addr'', ''http_address'']\<rparr>"

lemma example_orders_ok: "orders_ok example_orders"
  by (auto simp: orders_ok_def example_orders_def range_order_def dom_fields)

lemma example_reader_finds: "readServiceManifest (example_reader m) path = Inr m"
  by (simp add: readServiceManifest_def example_reader_def)

lemma template_parts_plain: "CHR ''$'' \<notin> set s \<Longrightarrow> template_parts s = map Literal s"
  by (induction s) auto

lemma plain_string:
  assumes "CHR ''$'' \<notin> set s"
  shows "variables_set env s" "expanded env s = s"
  using assms
  by (simp_all add: variables_set_def expand_keys_def expanded_def Expand_def template_parts_plain concat_map_singleton
      list_all_iff comp_def)

lemma role_names:
  "TrimSpace ''order'' = ''order''" "TrimSpace ''gateway'' = ''gateway''" "TrimSpace ''catalog'' = ''catalog''"
  by (simp_all add: TrimSpace_graphic graphic_def)

definition plain_address :: "string \<Rightarrow> bool" where
  "plain_address a \<longleftrightarrow> list_all graphic a \<and> CHR ''$'' \<notin> set a \<and>
     (case SplitHostPort a of None \<Rightarrow> False | Some (host, port) \<Rightarrow> host \<noteq> [] \<and> port \<noteq> [])"

lemma plain_address_valid:
  assumes "plain_address a"
  shows "variables_set env a" "expanded env a = a" "TrimSpace a = a" "TrimSpace a \<noteq> []" "has_port a"
proof -
  show "variables_set env a" "expanded env a = a" using assms by (simp_all add: plain_address_def plain_string)
  show trim: "TrimSpace a = a" using assms by (intro TrimSpace_chars) (simp add: plain_address_def list_all_iff)
  then show "TrimSpace a \<noteq> []" using assms by (auto simp: plain_address_def SplitHostPort_def)
  show "has_port a" using assms by (auto simp: has_port_def portFromAddress_def trim plain_address_def split: option.splits)
qed

definition plain_name :: "string \<Rightarrow> bool" where
  "plain_name a \<longleftrightarrow> list_all graphic a \<and> CHR ''$'' \<notin> set a \<and> a \<noteq> []"

lemma plain_name_valid:
  assumes "plain_name a"
  shows "variables_set env a" "expanded env a = a" "TrimSpace a \<noteq> []"
proof -
  show "variables_set env a" "expanded env a = a" using assms by (simp_all add: plain_name_def plain_string)
  have "TrimSpace a = a" using assms by (intro TrimSpace_chars) (simp add: plain_name_def list_all_iff)
  then show "TrimSpace a \<noteq> []" using assms by (simp add: plain_name_def)
qed

text \<open>A definition without variables in its required fields is usable in every environment.\<close>

definition plain_definition :: "ServiceDefinition \<Rightarrow> bool" where
  "plain_definition d \<longleftrightarrow> plain_name (sdName d) \<and> plain_address (sdAddress d) \<and> plain_address (sdEtcdAddr d) \<and>
     CHR ''$'' \<notin> set (sdMetricsPort d)"

lemma plain_discoverable:
  assumes "smServices m role = Some d" and "plain_definition d"
  shows "discovery_set env d" "target_valid (discovered env d)" "discoverable env m role"
    "target_valid (own_definition env m role)"
  using assms plain_name_valid [of "sdName d"] plain_address_valid [of "sdAddress d"]
    plain_address_valid [of "sdEtcdAddr d"] plain_string [of "sdMetricsPort d" env]
  by (simp_all add: plain_definition_def discovery_set_def target_valid_def discovered_def discoverable_def
      own_definition_def found_def credentials_expanded_def)

lemma example_plain:
  "list_all (\<lambda>role. case smServices example_manifest role of None \<Rightarrow> False | Some d \<Rightarrow> plain_definition d) all_services"
  "plain_name (gdName (smGateway example_manifest))" "plain_address (gdHTTPAddress (smGateway example_manifest))"
  "plain_address (gdEtcdAddr (smGateway example_manifest))"
  by code_simp+

lemma example_discoverable:
  "role \<in> set all_services \<Longrightarrow> discoverable env example_manifest role"
  "role \<in> set all_services \<Longrightarrow> role \<noteq> ''inventory'' \<Longrightarrow> service_loadable env example_manifest role"
proof -
  have plain: "\<exists>d. smServices example_manifest r = Some d \<and> plain_definition d" if "r \<in> set all_services" for r
    using that example_plain(1) by (auto simp: list_all_iff split: option.splits)
  then show found: "discoverable env example_manifest role" if "role \<in> set all_services" for role
    using that plain_discoverable(3) by blast
  assume role: "role \<in> set all_services" "role \<noteq> ''inventory''"
  with plain [of role] obtain d where "smServices example_manifest role = Some d" "plain_definition d" by blast
  with role plain_discoverable(1,4) found dependencies_known(1) [of role] show "service_loadable env example_manifest role"
    by (auto simp: service_loadable_def service_valid_def list_all_iff)
qed

lemma example_loadable:
  "service_loadable env example_manifest ''order''" "gateway_loadable env example_manifest"
proof -
  show "service_loadable env example_manifest ''order''"
    by (rule example_discoverable(2)) (simp_all add: all_services_def)
  show "gateway_loadable env example_manifest"
    using example_plain(2-4) plain_address_valid plain_name_valid
      example_discoverable(1)
    by (simp add: gateway_loadable_def gateway_set_def gateway_valid_def gateway_expanded_def list_all_iff)
qed

section \<open>Promises of the loader\<close>

text \<open>
  A load succeeds exactly when the definitions of the role and of the services it calls are in
  the manifest, the variables of their required fields are set, and the expanded definitions
  pass validation. Missing credentials and the order in which the fields are visited do not
  matter.
\<close>

lemma config_loads_iff:
  assumes "orders_ok fo" and "readServiceManifest rd path = Inr m"
  shows "(\<exists>c. LoadServiceRuntimeConfig env fo rd path role = Inr c) \<longleftrightarrow>
    TrimSpace role \<noteq> [] \<and>
    (if TrimSpace role = ''gateway'' then gateway_loadable env m else service_loadable env m (TrimSpace role))"
  using load_iff [OF assms] by auto

lemma config_loads_example:
  "\<exists>c. LoadServiceRuntimeConfig Map.empty example_orders (example_reader example_manifest) [] ''order'' = Inr c"
  unfolding config_loads_iff [OF example_orders_ok example_reader_finds]
  using example_loadable(1) by (simp add: role_names)

text \<open>
  C30. A configuration that was loaded is complete: the process has a name, a port, a mode and
  the address of etcd, the role itself and every service that it calls have a name and an
  address with a port, and an inventory that stores in Redis knows where Redis is.
\<close>

theorem config_loaded_ready:
  assumes "orders_ok fo" and "readServiceManifest rd path = Inr m"
    and "LoadServiceRuntimeConfig env fo rd path role = Inr c"
  shows "config_ready (TrimSpace role) c"
  using assms(3) service_ready gateway_ready unfolding load_iff [OF assms(1,2)] by (auto split: if_splits)

theorem config_loaded_ready_witness:
  "\<exists>c. LoadServiceRuntimeConfig Map.empty example_orders (example_reader example_manifest) [] ''gateway'' = Inr c \<and>
    config_ready ''gateway'' c"
proof -
  obtain c where "LoadServiceRuntimeConfig Map.empty example_orders (example_reader example_manifest) [] ''gateway'' = Inr c"
    using load_iff [OF example_orders_ok example_reader_finds, of Map.empty example_manifest "[]" "''gateway''"]
      example_loadable(2) by (auto simp: role_names)
  with config_loaded_ready [OF example_orders_ok example_reader_finds this] show ?thesis by (auto simp: role_names)
qed

text \<open>
  C32. The message of a failed load is not made of the value of a variable: when the manifest was
  read, the error is one of a set (\<open>load_error\<close>) that is given by the manifest, the role and the
  names of the variables that are set. Which one of them it is may depend on a value, on whether
  a name is empty or an address malformed, but none of the messages does. A missing variable is
  named.
\<close>

theorem config_errors_hide_values:
  assumes "orders_ok fo" and "readServiceManifest rd path = Inr m"
    and "LoadServiceRuntimeConfig env fo rd path role = Inl e"
  shows "load_error (dom env) m (TrimSpace role) e"
  using assms(3) load_service_error [OF assms(1)] load_gateway_error [OF assms(1)]
  by (auto simp: LoadServiceRuntimeConfig_def load_error_def assms(2) Let_def split: if_splits)

definition broken_manifest :: serviceManifest where
  "broken_manifest = example_manifest\<lparr>smServices := (smServices example_manifest)(''catalog'' \<mapsto>
     (example_service ''catalog-service'' ''127.0.0.1:51002'' [])\<lparr>sdEtcdAddr := ''${CATALOG_ETCD_ADDR}''\<rparr>)\<rparr>"

theorem config_errors_hide_values_witness:
  "load_error {''CATALOG_MYSQL_DSN''} broken_manifest ''catalog''
    (WrapError (''service '' @ quoted ''catalog'' @ '' configuration: '')
      (WrapError ''etcd_addr: '' (missing_variables [''CATALOG_ETCD_ADDR''])))"
proof -
  have "LoadServiceRuntimeConfig [''CATALOG_MYSQL_DSN'' \<mapsto> ''secret''] example_orders (example_reader broken_manifest) [] ''catalog'' =
      Inl (WrapError (''service '' @ quoted ''catalog'' @ '' configuration: '')
        (WrapError ''etcd_addr: '' (missing_variables [''CATALOG_ETCD_ADDR''])))"
    by code_simp
  from config_errors_hide_values [OF example_orders_ok example_reader_finds this] show ?thesis
    by (simp add: role_names)
qed

text \<open>
  C31. A role sees no credential of another service: manifests that differ only in data source
  names, message queue addresses, Redis accounts or secrets of other services load to the same
  configuration, or fail with the same error.
\<close>

theorem config_ignores_foreign_credentials:
  assumes "readServiceManifest rd path = Inr m" and "readServiceManifest rd' path' = Inr m'"
    and "same_for (TrimSpace role) m m'"
  shows "LoadServiceRuntimeConfig env fo rd path role = LoadServiceRuntimeConfig env fo rd' path' role"
  using load_service_public [OF assms(3)] load_gateway_public [of m m'] assms
  by (simp add: LoadServiceRuntimeConfig_def Let_def same_for_def)

definition other_payment_secret :: serviceManifest where
  "other_payment_secret = example_manifest\<lparr>smServices := (smServices example_manifest)(''payment'' \<mapsto>
     (example_service ''payment-service'' ''127.0.0.1:51006'' ''payment:payment@db'')\<lparr>sdSecret := ''stolen''\<rparr>)\<rparr>"

theorem config_ignores_foreign_credentials_witness:
  "LoadServiceRuntimeConfig Map.empty example_orders (example_reader example_manifest) [] ''gateway'' =
   LoadServiceRuntimeConfig Map.empty example_orders (example_reader other_payment_secret) [] ''gateway''"
proof -
  have "same_for ''gateway'' example_manifest other_payment_secret"
    by (simp add: same_for_def all_services_def other_payment_secret_def example_manifest_def example_service_def
        without_credentials_def)
  then show ?thesis
    using config_ignores_foreign_credentials [OF example_reader_finds example_reader_finds, of "''gateway''"]
    by (simp add: role_names)
qed

section \<open>Two surprises\<close>

text \<open>
  The metrics port of a service is documented as optional, but a variable in it that is not set
  stops the service, where the gateway falls back to no port.
\<close>

lemma unset_metrics_port_stops:
  "LoadServiceRuntimeConfig Map.empty example_orders
     (example_reader (example_manifest\<lparr>smServices := (smServices example_manifest)(''catalog'' \<mapsto>
        (example_service ''catalog-service'' ''127.0.0.1:51002'' [])\<lparr>sdMetricsPort := ''${CATALOG_METRICS_PORT}''\<rparr>)\<rparr>))
     [] ''catalog'' =
   Inl (WrapError (''service '' @ quoted ''catalog'' @ '' configuration: '')
     (WrapError ''metrics_port: '' (missing_variables [''CATALOG_METRICS_PORT''])))"
  by code_simp

text \<open>
  The mode of a service is derived from the store of the inventory, which the other services do
  not have: a service other than the inventory that is configured by the template runs in debug
  mode, in which its main function does not check the secret of the internal calls.
\<close>

lemma storeless_service_debug:
  assumes "orders_ok fo" and "readServiceManifest rd path = Inr m"
    and "LoadServiceRuntimeConfig env fo rd path role = Inr c" and "TrimSpace role \<noteq> ''gateway''"
    and "smServices m (TrimSpace role) = Some d" and "TrimSpace (sdStore d) = []"
  shows "svMode (cfServer c) = ''debug''"
proof -
  have "sdStore (own_definition env m (TrimSpace role)) = sdStore d"
    using assms(5) by (simp add: own_definition_def found_def discovered_def credentials_expanded_def)
  with assms(3,4,6) show ?thesis unfolding load_iff [OF assms(1,2)] by (auto simp: serverModeOrDefault_def)
qed

end
