(* ===== verification/Rabbit_Publisher.thy ===== *)
theory Rabbit_Publisher
  imports Messaging_Worker
begin

text \<open>
  shared/platform/messaging/rabbit.go: the topology of exchanges and queues, and the publisher,
  which sends an event and waits for the confirmation of the broker. The AMQP client library and
  the broker behind it are a parameter: what a call returns is a function of the calls made
  before and of their results, which the log of the publisher keeps (newest first). Connections
  and channels are numbers that the library hands out. The tracing headers that
  \<open>tracer.InjectAMQPHeaders\<close> adds are the parameter \<open>inject\<close>. The mutex is held during a whole
  method, so methods are atomic.
\<close>

section \<open>The AMQP client library\<close>

definition DefaultExchange :: string where "DefaultExchange = ''commerce.events.v1''"
definition RetryExchange :: string where "RetryExchange = ''commerce.events.retry.v1''"
definition DeadExchange :: string where "DeadExchange = ''commerce.events.dlx.v1''"

record amqp_publishing =
  pbContentType :: string
  pbDeliveryMode :: nat
  pbMessageId :: string
  pbType :: string
  pbTimestamp :: time
  pbHeaders :: headers
  pbBody :: json

datatype amqp_call =
    ExchangeDeclare nat string string
  | QueueDeclare nat string "(string \<times> string) list"
  | QueueBind nat string string string
  | ConfirmMode nat
  | NotifyPublish nat
  | NotifyReturn nat
  | PublishWithContext nat string string bool amqp_publishing
  | CloseChannel nat
  | CloseConnection nat

text \<open>
  How waiting for a confirmation ends: with a confirmation (delivery tag, acknowledged or not),
  because the notification channel was closed, or because the context ended.
\<close>

datatype confirm_wait = Confirmation nat bool | ConfirmsClosed | ContextEnded go_error

record amqp_return =
  arReplyCode :: int
  arReplyText :: string
  arRoutingKey :: string

datatype amqp_event =
    Dialed string "nat result"
  | ChannelOpened nat "nat result"
  | Called amqp_call "unit result"
  | Waited "nat option" confirm_wait
  | PolledReturns "nat option" "amqp_return option"

type_synonym amqp_log = "amqp_event list"

record amqp_library =
  aqDial :: "amqp_log \<Rightarrow> string \<Rightarrow> nat result"
  aqChannel :: "amqp_log \<Rightarrow> nat \<Rightarrow> nat result"
  aqCall :: "amqp_log \<Rightarrow> amqp_call \<Rightarrow> unit result"
  aqAwait :: "amqp_log \<Rightarrow> nat option \<Rightarrow> confirm_wait"
  aqReturns :: "amqp_log \<Rightarrow> nat option \<Rightarrow> amqp_return option"

section \<open>The publisher\<close>

text \<open>\<open>confirms\<close> and \<open>returns\<close> are the channels whose notifications they carry.\<close>

record RabbitPublisher =
  rpURL :: string
  rpConn :: "nat option"
  rpChannel :: "nat option"
  rpConfirms :: "nat option"
  rpReturns :: "nat option"
  rpLog :: amqp_log

definition NewRabbitPublisher :: "string \<Rightarrow> RabbitPublisher" where
  "NewRabbitPublisher url = \<lparr>rpURL = url, rpConn = None, rpChannel = None, rpConfirms = None, rpReturns = None, rpLog = []\<rparr>"

definition amqp_dial :: "amqp_library \<Rightarrow> string \<Rightarrow> (RabbitPublisher, nat) go" where
  "amqp_dial lib url p = (let r = aqDial lib (rpLog p) url in (r, p\<lparr>rpLog := Dialed url r # rpLog p\<rparr>))"

definition open_channel :: "amqp_library \<Rightarrow> nat \<Rightarrow> (RabbitPublisher, nat) go" where
  "open_channel lib conn p = (let r = aqChannel lib (rpLog p) conn in (r, p\<lparr>rpLog := ChannelOpened conn r # rpLog p\<rparr>))"

definition call_amqp :: "amqp_library \<Rightarrow> amqp_call \<Rightarrow> (RabbitPublisher, unit) go" where
  "call_amqp lib c p = (let r = aqCall lib (rpLog p) c in (r, p\<lparr>rpLog := Called c r # rpLog p\<rparr>))"

text \<open>A call whose error is dropped, and one whose error is wrapped.\<close>

definition ignore_error :: "('w, unit) go \<Rightarrow> ('w, unit) go" where [go_defs]:
  "ignore_error m = inspect m (\<lambda>_. ret ())"

definition wrap_error :: "string \<Rightarrow> ('w, 'a) go \<Rightarrow> ('w, 'a) go" where [go_defs]:
  "wrap_error message m = inspect m (\<lambda>r. case r of Inl e \<Rightarrow> fail (WrapError message e) | Inr x \<Rightarrow> ret x)"

definition declareConsumerTopology :: "amqp_library \<Rightarrow> nat \<Rightarrow> string \<Rightarrow> string list \<Rightarrow> (RabbitPublisher, unit) go" where
  "declareConsumerTopology lib ch consumer events =
     (let mainQueue = queueName consumer; dlq = deadQueueName consumer; retry = retryQueueName consumer in
      and_then (wrap_error (''declare '' @ consumer @ '' dlq: '') (call_amqp lib (QueueDeclare ch dlq []))) (\<lambda>_.
      and_then (wrap_error (''bind '' @ consumer @ '' dlq: '') (call_amqp lib (QueueBind ch dlq consumer DeadExchange))) (\<lambda>_.
      and_then (wrap_error (''declare '' @ consumer @ '' retry: '') (call_amqp lib (QueueDeclare ch retry
        [(''x-dead-letter-exchange'', []), (''x-dead-letter-routing-key'', mainQueue)]))) (\<lambda>_.
      and_then (wrap_error (''bind '' @ consumer @ '' retry: '') (call_amqp lib (QueueBind ch retry consumer RetryExchange))) (\<lambda>_.
      and_then (wrap_error (''declare '' @ consumer @ '' queue: '') (call_amqp lib (QueueDeclare ch mainQueue
        [(''x-dead-letter-exchange'', DeadExchange), (''x-dead-letter-routing-key'', consumer)]))) (\<lambda>_.
      for_each events (\<lambda>event.
        wrap_error (''bind '' @ consumer @ '' event='' @ event @ '': '') (call_amqp lib (QueueBind ch mainQueue event DefaultExchange)))))))))"

text \<open>
  Exchanges and queues are declared as durable and not exclusive; these flags are constant and
  left out of the calls. No caller passes a nil channel. The argument \<open>ks\<close> is the order in which the loop visits
  the consumers of the routing table.
\<close>

definition subscriptions_of :: "string \<Rightarrow> string list" where
  "subscriptions_of consumer = (case map_of consumerEvents consumer of None \<Rightarrow> [] | Some events \<Rightarrow> events)"

definition DeclareTopology :: "amqp_library \<Rightarrow> string list \<Rightarrow> nat \<Rightarrow> (RabbitPublisher, unit) go" where
  "DeclareTopology lib ks ch =
     and_then (wrap_error ''declare event exchange: '' (call_amqp lib (ExchangeDeclare ch DefaultExchange ''topic''))) (\<lambda>_.
     and_then (wrap_error ''declare retry exchange: '' (call_amqp lib (ExchangeDeclare ch RetryExchange ''direct''))) (\<lambda>_.
     and_then (wrap_error ''declare dead exchange: '' (call_amqp lib (ExchangeDeclare ch DeadExchange ''direct''))) (\<lambda>_.
     for_each ks (\<lambda>consumer. declareConsumerTopology lib ch consumer (subscriptions_of consumer)))))"

definition publisher_close :: "amqp_library \<Rightarrow> (RabbitPublisher, unit) go" where
  "publisher_close lib =
     and_then (modify_state (\<lambda>p. p\<lparr>rpConfirms := None, rpReturns := None\<rparr>)) (\<lambda>_.
     and_then (read_state rpChannel) (\<lambda>channel.
     and_then (case channel of None \<Rightarrow> ret ()
       | Some ch \<Rightarrow> and_then (ignore_error (call_amqp lib (CloseChannel ch))) (\<lambda>_. modify_state (\<lambda>p. p\<lparr>rpChannel := None\<rparr>))) (\<lambda>_.
     and_then (read_state rpConn) (\<lambda>connection.
     case connection of None \<Rightarrow> ret ()
     | Some conn \<Rightarrow> and_then (ignore_error (call_amqp lib (CloseConnection conn))) (\<lambda>_. modify_state (\<lambda>p. p\<lparr>rpConn := None\<rparr>))))))"

definition abandon :: "amqp_library \<Rightarrow> nat \<Rightarrow> nat \<Rightarrow> go_error \<Rightarrow> (RabbitPublisher, unit) go" where
  "abandon lib conn ch e =
     and_then (ignore_error (call_amqp lib (CloseChannel ch))) (\<lambda>_.
     and_then (ignore_error (call_amqp lib (CloseConnection conn))) (\<lambda>_. fail e))"

text \<open>
  Each range loop over a map visits its keys in an order of its own: \<open>ks\<close> is the order chosen
  after the events of a log.
\<close>

definition Publisher_Connect :: "amqp_library \<Rightarrow> (amqp_log \<Rightarrow> string list) \<Rightarrow> (RabbitPublisher, unit) go" where
  "Publisher_Connect lib ks =
     and_then (publisher_close lib) (\<lambda>_.
     and_then (read_state rpURL) (\<lambda>url.
     if url = [] then fail (ErrorText ''rabbitmq url is required'')
     else and_then (wrap_error ''rabbitmq connect: '' (amqp_dial lib url)) (\<lambda>conn.
       inspect (open_channel lib conn) (\<lambda>opened. case opened of
         Inl e \<Rightarrow> and_then (ignore_error (call_amqp lib (CloseConnection conn))) (\<lambda>_. fail (WrapError ''rabbitmq channel: '' e))
       | Inr ch \<Rightarrow>
           inspect (\<lambda>p. DeclareTopology lib (ks (rpLog p)) ch p) (\<lambda>declared. case declared of
             Inl e \<Rightarrow> abandon lib conn ch e
           | Inr _ \<Rightarrow>
               inspect (call_amqp lib (ConfirmMode ch)) (\<lambda>confirming. case confirming of
                 Inl e \<Rightarrow> abandon lib conn ch (WrapError ''rabbitmq confirm: '' e)
               | Inr _ \<Rightarrow>
                   and_then (modify_state (\<lambda>p. p\<lparr>rpConn := Some conn, rpChannel := Some ch\<rparr>)) (\<lambda>_.
                   and_then (ignore_error (call_amqp lib (NotifyPublish ch))) (\<lambda>_.
                   and_then (modify_state (\<lambda>p. p\<lparr>rpConfirms := Some ch\<rparr>)) (\<lambda>_.
                   and_then (ignore_error (call_amqp lib (NotifyReturn ch))) (\<lambda>_.
                   modify_state (\<lambda>p. p\<lparr>rpReturns := Some ch\<rparr>)))))))))))"

definition await_confirm :: "amqp_library \<Rightarrow> (RabbitPublisher, confirm_wait) go" where
  "await_confirm lib p =
     (let r = aqAwait lib (rpLog p) (rpConfirms p) in (Inr r, p\<lparr>rpLog := Waited (rpConfirms p) r # rpLog p\<rparr>))"

definition poll_returns :: "amqp_library \<Rightarrow> (RabbitPublisher, amqp_return option) go" where
  "poll_returns lib p =
     (let r = aqReturns lib (rpLog p) (rpReturns p) in (Inr r, p\<lparr>rpLog := PolledReturns (rpReturns p) r # rpLog p\<rparr>))"

definition event_publishing :: "(headers \<Rightarrow> headers) \<Rightarrow> EventEnvelope \<Rightarrow> headers \<Rightarrow> json \<Rightarrow> amqp_publishing" where
  "event_publishing inject event hdrs body =
     \<lparr>pbContentType = ''application/json'', pbDeliveryMode = 2, pbMessageId = eEventID event, pbType = eEventType event,
      pbTimestamp = eOccurredAt event, pbHeaders = inject hdrs, pbBody = body\<rparr>"

definition message_returned :: "amqp_return \<Rightarrow> go_error" where
  "message_returned r = ErrorText (''rabbitmq message returned code='' @ fmt_int (arReplyCode r) @ '' text='' @ arReplyText r @
     '' key='' @ arRoutingKey r)"

definition settle_confirmation :: "amqp_library \<Rightarrow> confirm_wait \<Rightarrow> (RabbitPublisher, unit) go" where
  "settle_confirmation lib outcome =
     (case outcome of
        ConfirmsClosed \<Rightarrow> fail (ErrorText ''rabbitmq confirm channel closed'')
      | Confirmation tag ack \<Rightarrow>
          (if \<not> ack then fail (ErrorText (''rabbitmq publish nack delivery_tag='' @ decimal tag))
           else and_then (poll_returns lib) (\<lambda>returned. case returned of
             Some r \<Rightarrow> fail (message_returned r)
           | None \<Rightarrow> ret ()))
      | ContextEnded e \<Rightarrow> fail (WrapError ''rabbitmq confirm wait: '' e))"

text \<open>After a successful \<open>Connect\<close> the channel is there; without one the source would dereference nil.\<close>

definition publishLocked ::
    "amqp_library \<Rightarrow> (amqp_log \<Rightarrow> string list) \<Rightarrow> time_codec \<Rightarrow> (headers \<Rightarrow> headers) \<Rightarrow> EventEnvelope \<Rightarrow> headers \<Rightarrow> (RabbitPublisher, unit) go" where
  "publishLocked lib ks tc inject event hdrs =
     and_then (read_state rpChannel) (\<lambda>channel.
     and_then (case channel of None \<Rightarrow> Publisher_Connect lib ks | Some _ \<Rightarrow> ret ()) (\<lambda>_.
     and_then (of_result (MarshalEnvelope tc event)) (\<lambda>body.
     and_then (read_state rpChannel) (\<lambda>channel. case channel of
       None \<Rightarrow> fail (ErrorText ''nil channel'')
     | Some ch \<Rightarrow>
         and_then (wrap_error ''rabbitmq publish: '' (call_amqp lib
           (PublishWithContext ch DefaultExchange (eEventType event) True (event_publishing inject event hdrs body)))) (\<lambda>_.
         and_then (await_confirm lib) (settle_confirmation lib))))))"

definition Publisher_Publish ::
    "amqp_library \<Rightarrow> (amqp_log \<Rightarrow> string list) \<Rightarrow> time_codec \<Rightarrow> (headers \<Rightarrow> headers) \<Rightarrow> RabbitPublisher publisher" where
  "Publisher_Publish lib ks tc inject event hdrs =
     inspect (publishLocked lib ks tc inject event hdrs) (\<lambda>r. case r of
       Inr _ \<Rightarrow> ret ()
     | Inl _ \<Rightarrow>
         and_then (Publisher_Connect lib ks) (\<lambda>_. publishLocked lib ks tc inject event hdrs))"

definition Publisher_Close :: "amqp_library \<Rightarrow> (RabbitPublisher, unit) go" where
  "Publisher_Close lib = publisher_close lib"

section \<open>The runtime of a service (runtime.go, service_runtime.go)\<close>

text \<open>
  Sessions of a consumer up to the cancellation of the process: each is the list of deliveries
  until its connection was lost (none, when it could not be set up). The result is the list of
  the pauses between them.
\<close>

primrec consumer_sessions ::
    "time_codec \<Rightarrow> string \<Rightarrow> 'w handlers \<Rightarrow> int \<Rightarrow> duration \<Rightarrow> delivery list list \<Rightarrow> ('w consumer_world, duration list) go" where
  "consumer_sessions tc consumer handlers maxAttempts delay [] = ret []"
| "consumer_sessions tc consumer handlers maxAttempts delay (ds # dss) =
     and_then (consumer_session tc consumer handlers maxAttempts ds) (\<lambda>_.
     and_then (consumer_sessions tc consumer handlers maxAttempts (if delay < 30 * Second then delay * 2 else delay) dss)
       (\<lambda>delays. ret (delay # delays)))"

definition RunRabbitConsumer ::
    "time_codec \<Rightarrow> string \<Rightarrow> string \<Rightarrow> 'w handlers \<Rightarrow> int \<Rightarrow> delivery list list \<Rightarrow> ('w consumer_world, duration list) go" where
  "RunRabbitConsumer tc url consumer handlers maxAttempts dss =
     (if url = [] then ret [] else consumer_sessions tc consumer handlers maxAttempts Second dss)"

text \<open>The publisher exists only with an address; the stores are those of the service.\<close>

record ServiceRuntime =
  srURL :: string
  srPublisher :: "RabbitPublisher option"

definition newServiceRuntime :: "string \<Rightarrow> ServiceRuntime" where
  "newServiceRuntime rabbitURL =
     (let url = TrimSpace rabbitURL in
      \<lparr>srURL = url, srPublisher = (if url \<noteq> [] then Some (NewRabbitPublisher url) else None)\<rparr>)"

definition NewMemoryServiceRuntime :: "bool \<Rightarrow> string \<Rightarrow> ServiceRuntime result" where
  "NewMemoryServiceRuntime has_owner rabbitURL =
     (if \<not> has_owner then Inl (ErrorText ''message event sink owner is required'') else Inr (newServiceRuntime rabbitURL))"

definition Runtime_Enabled :: "ServiceRuntime option \<Rightarrow> bool" where
  "Runtime_Enabled r \<longleftrightarrow> (case r of None \<Rightarrow> False | Some rt \<Rightarrow> srPublisher rt \<noteq> None)"

definition Runtime_Close :: "amqp_library \<Rightarrow> (ServiceRuntime option, unit) go" where
  "Runtime_Close lib r =
     (case r of None \<Rightarrow> (Inr (), None)
      | Some rt \<Rightarrow>
          (case srPublisher rt of None \<Rightarrow> (Inr (), Some rt)
           | Some p \<Rightarrow> (case Publisher_Close lib p of (res, p') \<Rightarrow> (res, Some (rt\<lparr>srPublisher := Some p'\<rparr>)))))"

end
