(* ===== verification/Rabbit_Properties.thy ===== *)
theory Rabbit_Properties
  imports Rabbit_Publisher Messaging_Properties
begin

text \<open>
  What the publisher promises, for a client library that behaves as documented: an event is
  reported as published only when it was sent on a channel with the whole topology declared, an
  acknowledgement was read and no returned message, and the acknowledgement is that of this very
  message unless an earlier wait on the channel was cut short; and there is never more than one
  open connection. The publisher is a publisher in the sense of the outbox worker, so the
  guarantees of the outbox hold with it.
\<close>

section \<open>The topology\<close>

definition consumer_topology :: "nat \<Rightarrow> string \<Rightarrow> amqp_call list" where
  "consumer_topology ch consumer =
     [QueueDeclare ch (deadQueueName consumer) [], QueueBind ch (deadQueueName consumer) consumer DeadExchange,
      QueueDeclare ch (retryQueueName consumer)
        [(''x-dead-letter-exchange'', []), (''x-dead-letter-routing-key'', queueName consumer)],
      QueueBind ch (retryQueueName consumer) consumer RetryExchange,
      QueueDeclare ch (queueName consumer)
        [(''x-dead-letter-exchange'', DeadExchange), (''x-dead-letter-routing-key'', consumer)]] @
     map (\<lambda>event. QueueBind ch (queueName consumer) event DefaultExchange) (subscriptions_of consumer)"

definition topology :: "string list \<Rightarrow> nat \<Rightarrow> amqp_call list" where
  "topology ks ch =
     [ExchangeDeclare ch DefaultExchange ''topic'', ExchangeDeclare ch RetryExchange ''direct'',
      ExchangeDeclare ch DeadExchange ''direct''] @ concat (map (consumer_topology ch) ks)"

text \<open>A sequence of calls that must all succeed, and what such a sequence leaves in the log.\<close>

definition succeeded :: "amqp_call list \<Rightarrow> amqp_log" where
  "succeeded cs = rev (map (\<lambda>c. Called c (Inr ())) cs)"

lemma succeeded_simps [simp]:
  "succeeded [] = []" "succeeded (c # cs) = succeeded cs @ [Called c (Inr ())]" "succeeded (cs @ ds) = succeeded ds @ succeeded cs"
  by (simp_all add: succeeded_def)

text \<open>Some of the calls were made, all of them if the method succeeds, and nothing else has changed.\<close>

definition performs :: "amqp_call list \<Rightarrow> (RabbitPublisher, unit) go \<Rightarrow> bool" where
  "performs cs m \<longleftrightarrow> (\<forall>p. case m p of
     (Inr u, p') \<Rightarrow> p' = p\<lparr>rpLog := succeeded cs @ rpLog p\<rparr>
   | (Inl e, p') \<Rightarrow> (\<exists>evs. p' = p\<lparr>rpLog := evs @ rpLog p\<rparr> \<and> (\<forall>ev \<in> set evs. \<exists>c \<in> set cs. \<exists>r. ev = Called c r)))"

lemma performs_call: "performs [c] (wrap_error message (call_amqp lib c))"
proof -
  have "\<exists>evs. p\<lparr>rpLog := Called c r # rpLog p\<rparr> = p\<lparr>rpLog := evs @ rpLog p\<rparr> \<and> (\<forall>ev \<in> set evs. \<exists>c' \<in> {c}. \<exists>r. ev = Called c' r)" for p r
    by (rule exI [of _ "[Called c r]"]) simp
  then show ?thesis
    by (auto simp: performs_def call_amqp_def Let_def go_defs split: sum.splits)
qed

lemma performs_then:
  assumes "performs cs m" and "\<And>x. performs ds (f x)"
  shows "performs (cs @ ds) (and_then m f)"
proof -
  have "case and_then m f p of
     (Inr u, p') \<Rightarrow> p' = p\<lparr>rpLog := succeeded (cs @ ds) @ rpLog p\<rparr>
   | (Inl e, p') \<Rightarrow> (\<exists>evs. p' = p\<lparr>rpLog := evs @ rpLog p\<rparr> \<and> (\<forall>ev \<in> set evs. \<exists>c \<in> set (cs @ ds). \<exists>r. ev = Called c r))" for p
  proof (cases "fst (m p)")
    case (Inl e)
    with assms(1) [unfolded performs_def, rule_format, of p] show ?thesis
      by (cases "m p") (fastforce simp: and_then_def)
  next
    case (Inr u)
    let ?p = "p\<lparr>rpLog := succeeded cs @ rpLog p\<rparr>"
    have mp: "m p = (Inr u, ?p)"
      using Inr assms(1) [unfolded performs_def, rule_format, of p] by (cases "m p") auto
    show ?thesis
    proof (cases "f u ?p")
      case (Pair r p')
      note ds = assms(2) [of u, unfolded performs_def, rule_format, of ?p, unfolded Pair]
      show ?thesis
      proof (cases r)
        case (Inl e)
        with ds obtain evs where "p' = p\<lparr>rpLog := evs @ succeeded cs @ rpLog p\<rparr>"
          "\<forall>ev \<in> set evs. \<exists>c \<in> set ds. \<exists>r. ev = Called c r" by auto
        moreover have "\<forall>ev \<in> set (succeeded cs). \<exists>c \<in> set cs. \<exists>r. ev = Called c r" by (auto simp: succeeded_def)
        ultimately have "\<exists>evs. p' = p\<lparr>rpLog := evs @ rpLog p\<rparr> \<and> (\<forall>ev \<in> set evs. \<exists>c \<in> set (cs @ ds). \<exists>r. ev = Called c r)"
          by (intro exI [of _ "evs @ succeeded cs"]) auto
        with Inl Pair mp show ?thesis by (simp add: and_then_def)
      next
        case (Inr v)
        with ds Pair mp show ?thesis by (simp add: and_then_def)
      qed
    qed
  qed
  then show ?thesis by (simp add: performs_def)
qed

lemma performs_ret: "performs [] (ret ())"
  by (simp add: performs_def ret_def)

lemma performs_each:
  "(\<And>x. performs (cs x) (f x)) \<Longrightarrow> performs (concat (map cs xs)) (for_each xs f)"
  by (induction xs) (auto intro: performs_ret performs_then)

lemma declareConsumerTopology_performs: "performs (consumer_topology ch consumer) (declareConsumerTopology lib ch consumer (subscriptions_of consumer))"
proof -
  have binds: "performs (map (\<lambda>event. QueueBind ch (queueName consumer) event DefaultExchange) (subscriptions_of consumer))
      (for_each (subscriptions_of consumer) (\<lambda>event. wrap_error (''bind '' @ consumer @ '' event='' @ event @ '': '')
        (call_amqp lib (QueueBind ch (queueName consumer) event DefaultExchange))))"
    using performs_each [of "\<lambda>event. [QueueBind ch (queueName consumer) event DefaultExchange]", OF performs_call]
    by (simp only: concat_map_singleton)
  show ?thesis
    unfolding declareConsumerTopology_def consumer_topology_def Let_def append.simps
    by (rule performs_then [of "[c]" for c, OF performs_call, unfolded append.simps])+ (rule binds [unfolded append.simps])
qed

lemma DeclareTopology_performs: "performs (topology ks ch) (DeclareTopology lib ks ch)"
  unfolding DeclareTopology_def topology_def append.simps
  by (rule performs_then [of "[c]" for c, OF performs_call, unfolded append.simps])+
    (rule performs_each, rule declareConsumerTopology_performs)

text \<open>
  Every queue that dead letters are sent to is declared and bound: the rejected messages of a
  consumer reach its dead letter queue, expired retries its main queue, and every event of the
  routing table a queue.
\<close>

lemma topology_routes:
  assumes "(consumer, events) \<in> set consumerEvents" and "range_order ks (map_of consumerEvents)"
  shows "QueueBind ch (deadQueueName consumer) consumer DeadExchange \<in> set (topology ks ch)"
    and "QueueBind ch (retryQueueName consumer) consumer RetryExchange \<in> set (topology ks ch)"
    and "event \<in> set events \<Longrightarrow> QueueBind ch (queueName consumer) event DefaultExchange \<in> set (topology ks ch)"
proof -
  have "distinct (map fst consumerEvents)" by code_simp
  with assms(1) have "map_of consumerEvents consumer = Some events" by simp
  with assms(2) have "consumer \<in> set ks" "subscriptions_of consumer = events" by (auto simp: range_order_def subscriptions_of_def)
  then show "QueueBind ch (deadQueueName consumer) consumer DeadExchange \<in> set (topology ks ch)"
    and "QueueBind ch (retryQueueName consumer) consumer RetryExchange \<in> set (topology ks ch)"
    and "event \<in> set events \<Longrightarrow> QueueBind ch (queueName consumer) event DefaultExchange \<in> set (topology ks ch)"
    by (auto simp: topology_def consumer_topology_def)
qed

section \<open>Connections and channels in the log\<close>

text \<open>The connections that were opened and not closed since.\<close>

fun open_connections :: "amqp_log \<Rightarrow> nat list" where
  "open_connections [] = []"
| "open_connections (Dialed url (Inr conn) # log) = conn # open_connections log"
| "open_connections (Called (CloseConnection conn) r # log) = remove1 conn (open_connections log)"
| "open_connections (ev # log) = open_connections log"

text \<open>The messages sent on a channel, and the confirmations read from it.\<close>

fun is_message :: "nat \<Rightarrow> amqp_event \<Rightarrow> bool" where
  "is_message ch (Called (PublishWithContext c x k mand m) (Inr u)) \<longleftrightarrow> c = ch"
| "is_message ch ev \<longleftrightarrow> False"

fun is_confirmation :: "nat \<Rightarrow> amqp_event \<Rightarrow> bool" where
  "is_confirmation ch (Waited (Some c) (Confirmation tag ack)) \<longleftrightarrow> c = ch"
| "is_confirmation ch ev \<longleftrightarrow> False"

definition messages :: "nat \<Rightarrow> amqp_log \<Rightarrow> nat" where
  "messages ch log = length (filter (is_message ch) log)"

definition confirmations :: "nat \<Rightarrow> amqp_log \<Rightarrow> nat" where
  "confirmations ch log = length (filter (is_confirmation ch) log)"

definition known_channel :: "nat \<Rightarrow> amqp_log \<Rightarrow> bool" where
  "known_channel ch log \<longleftrightarrow> list_ex (\<lambda>ev. is_message ch ev \<or> is_confirmation ch ev \<or> ev = Waited (Some ch) ConfirmsClosed) log"

definition confirms_closed :: "nat \<Rightarrow> amqp_log \<Rightarrow> bool" where
  "confirms_closed ch log \<longleftrightarrow> Waited (Some ch) ConfirmsClosed \<in> set log"

fun cut_short :: "nat \<Rightarrow> amqp_event \<Rightarrow> bool" where
  "cut_short ch (Waited (Some c) (ContextEnded e)) \<longleftrightarrow> c = ch"
| "cut_short ch ev \<longleftrightarrow> False"

text \<open>
  What the client library documents: a new channel has carried nothing yet, confirmations arrive
  in the order of the delivery tags, which count the messages of a channel from one, and a
  closed notification channel delivers nothing any more.
\<close>

definition amqp_contract :: "amqp_library \<Rightarrow> bool" where
  "amqp_contract lib \<longleftrightarrow>
     (\<forall>log conn ch. aqChannel lib log conn = Inr ch \<longrightarrow> \<not> known_channel ch log) \<and>
     (\<forall>log ch tag ack. aqAwait lib log (Some ch) = Confirmation tag ack \<longrightarrow>
        tag = confirmations ch log + 1 \<and> \<not> confirms_closed ch log)"

section \<open>The invariant of the publisher\<close>

text \<open>The map is visited completely, in whatever order, each time.\<close>

definition range_orders :: "(amqp_log \<Rightarrow> string list) \<Rightarrow> bool" where
  "range_orders ks \<longleftrightarrow> (\<forall>log. range_order (ks log) (map_of consumerEvents))"

definition declared :: "nat \<Rightarrow> amqp_log \<Rightarrow> bool" where
  "declared ch log \<longleftrightarrow> (\<exists>ks newer older. range_order ks (map_of consumerEvents) \<and> log = newer @ Called (ConfirmMode ch) (Inr ()) # succeeded (topology ks ch) @ older)"

definition in_step :: "nat \<Rightarrow> amqp_log \<Rightarrow> bool" where
  "in_step ch log \<longleftrightarrow> messages ch log = confirmations ch log \<or> confirms_closed ch log \<or> list_ex (cut_short ch) log"

definition publisher_ok :: "RabbitPublisher \<Rightarrow> bool" where
  "publisher_ok p \<longleftrightarrow>
     open_connections (rpLog p) = (case rpConn p of None \<Rightarrow> [] | Some conn \<Rightarrow> [conn]) \<and>
     (case rpChannel p of None \<Rightarrow> True
      | Some ch \<Rightarrow> rpConfirms p = Some ch \<and> rpReturns p = Some ch \<and> declared ch (rpLog p) \<and> in_step ch (rpLog p))"

lemma declared_newer: "declared ch log \<Longrightarrow> declared ch (ev # log)"
  unfolding declared_def by (metis append_Cons)

lemma count_simps [simp]:
  "messages ch (ev # log) = (if is_message ch ev then messages ch log + 1 else messages ch log)"
  "confirmations ch (ev # log) = (if is_confirmation ch ev then confirmations ch log + 1 else confirmations ch log)"
  "confirms_closed ch (ev # log) \<longleftrightarrow> ev = Waited (Some ch) ConfirmsClosed \<or> confirms_closed ch log"
  by (auto simp: messages_def confirmations_def confirms_closed_def)

text \<open>Declarations neither send nor confirm nor close anything.\<close>

fun neutral :: "amqp_event \<Rightarrow> bool" where
  "neutral (Called (PublishWithContext c x k mand m) r) \<longleftrightarrow> False"
| "neutral (Called (CloseConnection c) r) \<longleftrightarrow> False"
| "neutral (Called c r) \<longleftrightarrow> True"
| "neutral (ChannelOpened conn r) \<longleftrightarrow> True"
| "neutral ev \<longleftrightarrow> False"

lemma neutral_events:
  "neutral ev \<Longrightarrow> \<not> is_message ch ev" "neutral ev \<Longrightarrow> \<not> is_confirmation ch ev" "neutral ev \<Longrightarrow> ev \<noteq> Waited c ConfirmsClosed"
  "neutral ev \<Longrightarrow> open_connections (ev # log) = open_connections log"
  by (cases ev rule: neutral.cases; simp)+

lemma neutral_log:
  assumes "\<forall>ev \<in> set evs. neutral ev"
  shows "open_connections (evs @ log) = open_connections log" "messages ch (evs @ log) = messages ch log"
    "confirmations ch (evs @ log) = confirmations ch log" "confirms_closed ch (evs @ log) = confirms_closed ch log"
  using assms by (induction evs) (auto simp: neutral_events)

lemma topology_neutral: "c \<in> set (topology ks ch) \<Longrightarrow> neutral (Called c r)"
  by (auto simp: topology_def consumer_topology_def)

lemma known_channel_iff: "known_channel ch log \<longleftrightarrow> messages ch log \<noteq> 0 \<or> confirmations ch log \<noteq> 0 \<or> confirms_closed ch log"
  by (auto simp: known_channel_def messages_def confirmations_def confirms_closed_def list_ex_iff filter_empty_conv)

lemma fresh_counts:
  assumes "\<not> known_channel ch log"
  shows "messages ch log = 0" "confirmations ch log = 0"
  using assms by (simp_all add: known_channel_iff)

section \<open>Every method keeps the invariant\<close>

definition disconnected :: "RabbitPublisher \<Rightarrow> bool" where
  "disconnected p \<longleftrightarrow> rpConn p = None \<and> rpChannel p = None \<and> rpConfirms p = None \<and> rpReturns p = None \<and> open_connections (rpLog p) = []"

lemma disconnected_ok: "disconnected p \<Longrightarrow> publisher_ok p"
  by (simp add: disconnected_def publisher_ok_def)

lemma close_disconnects:
  assumes "publisher_ok p"
  shows "\<exists>p'. publisher_close lib p = (Inr (), p') \<and> disconnected p' \<and> rpURL p' = rpURL p"
  using assms
  by (cases "rpChannel p"; cases "rpConn p")
    (auto simp: publisher_close_def go_defs call_amqp_def Let_def disconnected_def publisher_ok_def split: sum.splits)

lemma abandon_disconnects:
  assumes "rpConn p = None" "rpChannel p = None" "rpConfirms p = None" "rpReturns p = None" "open_connections (rpLog p) = [conn]"
  shows "\<exists>p'. abandon lib conn ch e p = (Inl e, p') \<and> disconnected p'"
  using assms by (simp add: abandon_def go_defs call_amqp_def Let_def disconnected_def)

lemma DeclareTopology_cases:
  "(\<exists>u. DeclareTopology lib ks ch p = (Inr u, p\<lparr>rpLog := succeeded (topology ks ch) @ rpLog p\<rparr>)) \<or>
   (\<exists>e evs. DeclareTopology lib ks ch p = (Inl e, p\<lparr>rpLog := evs @ rpLog p\<rparr>) \<and> (\<forall>ev \<in> set evs. neutral ev))"
proof (cases "DeclareTopology lib ks ch p")
  case (Pair r p')
  note runs = DeclareTopology_performs [of ks ch lib, unfolded performs_def, rule_format, of p, unfolded Pair]
  show ?thesis
  proof (cases r)
    case (Inl e)
    with runs obtain evs where "p' = p\<lparr>rpLog := evs @ rpLog p\<rparr>" "\<forall>ev \<in> set evs. \<exists>c \<in> set (topology ks ch). \<exists>r. ev = Called c r"
      by auto
    with Inl Pair show ?thesis by (intro disjI2 exI [of _ e] exI [of _ evs]) (auto simp: topology_neutral)
  next
    case (Inr u)
    with runs Pair show ?thesis by simp
  qed
qed

lemma succeeded_neutral: "\<forall>ev \<in> set (succeeded (topology ks ch)). neutral ev"
  by (auto simp: succeeded_def topology_neutral)

text \<open>The part of \<open>Connect\<close> after the dialing.\<close>

lemma Connect_unfold:
  assumes "publisher_close lib p = (Inr (), p1)" and "rpURL p1 \<noteq> []" and "aqDial lib (rpLog p1) (rpURL p1) = Inr conn"
    and "p2 = p1\<lparr>rpLog := Dialed (rpURL p1) (Inr conn) # rpLog p1\<rparr>"
    and "aqChannel lib (rpLog p2) conn = Inr ch" and "p3 = p2\<lparr>rpLog := ChannelOpened conn (Inr ch) # rpLog p2\<rparr>"
  shows "Publisher_Connect lib ks p =
    (case DeclareTopology lib (ks (rpLog p3)) ch p3 of
       (Inl e, p4) \<Rightarrow> abandon lib conn ch e p4
     | (Inr u, p4) \<Rightarrow>
         (case call_amqp lib (ConfirmMode ch) p4 of
            (Inl e, p5) \<Rightarrow> abandon lib conn ch (WrapError ''rabbitmq confirm: '' e) p5
          | (Inr u, p5) \<Rightarrow>
              (let p6 = snd (call_amqp lib (NotifyPublish ch) (p5\<lparr>rpConn := Some conn, rpChannel := Some ch\<rparr>));
                   p7 = snd (call_amqp lib (NotifyReturn ch) (p6\<lparr>rpConfirms := Some ch\<rparr>)) in
               (Inr (), p7\<lparr>rpReturns := Some ch\<rparr>))))"
  using assms
  by (auto simp: Publisher_Connect_def amqp_dial_def open_channel_def go_defs Let_def split: prod.splits sum.splits)

lemma Connect_ok:
  assumes lib: "amqp_contract lib" and orders: "range_orders ks" and ok: "publisher_ok p" and run: "Publisher_Connect lib ks p = (r, p')"
  shows "publisher_ok p' \<and> (r = Inr u \<longrightarrow> rpChannel p' \<noteq> None)"
proof -
  obtain p1 where p1: "publisher_close lib p = (Inr (), p1)" "disconnected p1"
    using close_disconnects [OF ok] by blast
  have simple: ?thesis if "disconnected p'" "\<exists>e. r = Inl e"
    using that disconnected_ok by auto
  show ?thesis
  proof (cases "rpURL p1 = []")
    case True
    with run p1 show ?thesis by (intro simple) (auto simp: Publisher_Connect_def go_defs)
  next
    case url: False
    show ?thesis
    proof (cases "aqDial lib (rpLog p1) (rpURL p1)")
      case (Inl e)
      with run p1 url show ?thesis
        by (intro simple) (auto simp: Publisher_Connect_def amqp_dial_def go_defs Let_def disconnected_def)
    next
      case dial: (Inr conn)
      define p2 where "p2 = p1\<lparr>rpLog := Dialed (rpURL p1) (Inr conn) # rpLog p1\<rparr>"
      show ?thesis
      proof (cases "aqChannel lib (rpLog p2) conn")
        case (Inl e)
        with run p1 url dial show ?thesis
          by (intro simple)
            (auto simp: Publisher_Connect_def amqp_dial_def open_channel_def call_amqp_def go_defs Let_def disconnected_def p2_def)
      next
        case opened: (Inr ch)
        define p3 where "p3 = p2\<lparr>rpLog := ChannelOpened conn (Inr ch) # rpLog p2\<rparr>"
        have p3: "rpConn p3 = None" "rpChannel p3 = None" "rpConfirms p3 = None" "rpReturns p3 = None"
          "open_connections (rpLog p3) = [conn]"
          using p1(2) by (simp_all add: p3_def p2_def disconnected_def)
        have fresh: "\<not> known_channel ch (rpLog p2)" using lib opened by (simp add: amqp_contract_def)
        let ?ks = "ks (rpLog p3)"
        note connect = run [unfolded Connect_unfold [OF p1(1) url dial p2_def opened p3_def]]
        consider (failed) e evs where "DeclareTopology lib ?ks ch p3 = (Inl e, p3\<lparr>rpLog := evs @ rpLog p3\<rparr>)" "\<forall>ev \<in> set evs. neutral ev"
          | (complete) u where "DeclareTopology lib ?ks ch p3 = (Inr u, p3\<lparr>rpLog := succeeded (topology ?ks ch) @ rpLog p3\<rparr>)"
          using DeclareTopology_cases [of lib ?ks ch p3] by blast
        then show ?thesis
        proof cases
          case failed
          with abandon_disconnects [of "p3\<lparr>rpLog := evs @ rpLog p3\<rparr>" conn lib ch e] p3 connect show ?thesis
            by (intro simple) (auto simp: neutral_log)
        next
          case complete
          let ?log = "succeeded (topology ?ks ch) @ rpLog p3"
          have log: "open_connections ?log = [conn]" "messages ch ?log = 0" "confirmations ch ?log = 0"
            using p3(5) fresh_counts [OF fresh] by (simp_all add: neutral_log [OF succeeded_neutral] p3_def)
          show ?thesis
          proof (cases "aqCall lib ?log (ConfirmMode ch)")
            case (Inl e)
            with complete abandon_disconnects [of "p3\<lparr>rpLog := Called (ConfirmMode ch) (Inl e) # ?log\<rparr>" conn lib ch "WrapError ''rabbitmq confirm: '' e"]
              p3 log connect show ?thesis
              by (intro simple) (auto simp: call_amqp_def Let_def)
          next
            case (Inr u)
            let ?l = "Called (ConfirmMode ch) (Inr ()) # ?log"
            let ?b = "aqCall lib ?l (NotifyPublish ch)"
            let ?a = "aqCall lib (Called (NotifyPublish ch) ?b # ?l) (NotifyReturn ch)"
            have "p' = p3\<lparr>rpConn := Some conn, rpChannel := Some ch, rpConfirms := Some ch,
                rpLog := Called (NotifyReturn ch) ?a # Called (NotifyPublish ch) ?b # ?l, rpReturns := Some ch\<rparr>"
              using Inr connect complete by (cases r) (auto simp: call_amqp_def Let_def)
            then have "rpLog p' = Called (NotifyReturn ch) ?a # Called (NotifyPublish ch) ?b # ?l"
              "rpConn p' = Some conn" "rpChannel p' = Some ch" "rpConfirms p' = Some ch" "rpReturns p' = Some ch" by simp_all
            moreover have "declared ch (Called (ConfirmMode ch) (Inr ()) # ?log)"
              unfolding declared_def using orders
              by (intro exI [of _ ?ks] exI [of _ "[]"] exI [of _ "rpLog p3"]) (simp add: range_orders_def)
            ultimately show ?thesis using log by (simp add: publisher_ok_def in_step_def declared_newer)
          qed
        qed
      qed
    qed
  qed
qed

text \<open>
  The log ends with the sending of the event on a channel with a declared topology, an
  acknowledgement and no return; unless an earlier wait on this channel was cut
  short, the acknowledged tag is the number of this message on its channel.
\<close>

definition published :: "time_codec \<Rightarrow> (headers \<Rightarrow> headers) \<Rightarrow> EventEnvelope \<Rightarrow> headers \<Rightarrow> amqp_log \<Rightarrow> bool" where
  "published tc inject event hdrs log \<longleftrightarrow>
     (\<exists>ch tag body older. MarshalEnvelope tc event = Inr body \<and>
        log = PolledReturns (Some ch) None # Waited (Some ch) (Confirmation tag True) #
          Called (PublishWithContext ch DefaultExchange (eEventType event) True (event_publishing inject event hdrs body)) (Inr ()) # older \<and>
        declared ch older \<and> (list_ex (cut_short ch) older \<or> tag = messages ch older + 1))"

lemma send_ok:
  assumes lib: "amqp_contract lib" and ok: "publisher_ok p" and ch: "rpChannel p = Some ch"
    and body: "MarshalEnvelope tc event = Inr body"
    and run: "and_then (wrap_error ''rabbitmq publish: '' (call_amqp lib
        (PublishWithContext ch DefaultExchange (eEventType event) True (event_publishing inject event hdrs body)))) (\<lambda>_.
      and_then (await_confirm lib) (settle_confirmation lib)) p = (r, p')"
  shows "publisher_ok p' \<and> (r = Inr u \<longrightarrow> published tc inject event hdrs (rpLog p'))"
proof -
  let ?send = "PublishWithContext ch DefaultExchange (eEventType event) True (event_publishing inject event hdrs body)"
  from ok ch have p: "rpConfirms p = Some ch" "rpReturns p = Some ch" "declared ch (rpLog p)" "in_step ch (rpLog p)"
    "open_connections (rpLog p) = (case rpConn p of None \<Rightarrow> [] | Some conn \<Rightarrow> [conn])"
    by (simp_all add: publisher_ok_def)
  show ?thesis
  proof (cases "aqCall lib (rpLog p) ?send")
    case (Inl e)
    then have "r = Inl (WrapError ''rabbitmq publish: '' e)" "p' = p\<lparr>rpLog := Called ?send (Inl e) # rpLog p\<rparr>"
      using run by (auto simp: call_amqp_def go_defs Let_def)
    with p ch show ?thesis by (simp add: publisher_ok_def in_step_def declared_newer)
  next
    case (Inr v)
    let ?log = "Called ?send (Inr ()) # rpLog p"
    have after: "settle_confirmation lib (aqAwait lib ?log (Some ch)) (p\<lparr>rpLog := Waited (Some ch) (aqAwait lib ?log (Some ch)) # ?log\<rparr>) = (r, p')"
      using run Inr p(1) by (simp add: call_amqp_def await_confirm_def go_defs Let_def)
    have newer: "declared ch (ev # ev' # ev'' # rpLog p)" "declared ch (ev # ev' # rpLog p)" for ev ev' ev''
      using p(3) by (simp_all add: declared_newer)
    show ?thesis
    proof (cases "aqAwait lib ?log (Some ch)")
      case (Confirmation tag ack)
      then have tag: "tag = confirmations ch (rpLog p) + 1" "\<not> confirms_closed ch (rpLog p)"
        using lib unfolding amqp_contract_def by (fastforce)+
      show ?thesis
      proof (cases "ack \<and> aqReturns lib (Waited (Some ch) (Confirmation tag ack) # ?log) (Some ch) = None")
        case True
        then have "p' = p\<lparr>rpLog := PolledReturns (Some ch) None # Waited (Some ch) (Confirmation tag True) # ?log\<rparr>"
          using after Confirmation p(2) by (auto simp: settle_confirmation_def poll_returns_def go_defs Let_def)
        with p ch tag body newer show ?thesis
          by (auto simp: publisher_ok_def in_step_def published_def)
      next
        case False
        then have "\<exists>e. r = Inl e" "\<exists>evs. rpLog p' = evs @ Waited (Some ch) (Confirmation tag ack) # ?log \<and> (evs = [] \<or> (\<exists>x. evs = [PolledReturns (Some ch) x]))"
          "rpConn p' = rpConn p" "rpChannel p' = Some ch" "rpConfirms p' = Some ch" "rpReturns p' = Some ch"
          using after Confirmation p(1,2) ch
          by (auto simp: settle_confirmation_def poll_returns_def go_defs Let_def split: if_splits option.splits)
        with p newer show ?thesis
          by (auto simp: publisher_ok_def in_step_def)
      qed
    next
      case ConfirmsClosed
      then have "r = Inl (ErrorText ''rabbitmq confirm channel closed'')" "p' = p\<lparr>rpLog := Waited (Some ch) ConfirmsClosed # ?log\<rparr>"
        using after by (auto simp: settle_confirmation_def go_defs)
      with p ch newer show ?thesis by (simp add: publisher_ok_def in_step_def)
    next
      case (ContextEnded e)
      then have "r = Inl (WrapError ''rabbitmq confirm wait: '' e)" "p' = p\<lparr>rpLog := Waited (Some ch) (ContextEnded e) # ?log\<rparr>"
        using after by (auto simp: settle_confirmation_def go_defs)
      with p ch newer show ?thesis by (simp add: publisher_ok_def in_step_def)
    qed
  qed
qed

lemma publishLocked_ok:
  assumes lib: "amqp_contract lib" and orders: "range_orders ks" and ok: "publisher_ok p"
    and run: "publishLocked lib ks tc inject event hdrs p = (r, p')"
  shows "publisher_ok p' \<and> (r = Inr u \<longrightarrow> published tc inject event hdrs (rpLog p'))"
proof -
  obtain r1 p1 where connect: "(case rpChannel p of None \<Rightarrow> Publisher_Connect lib ks | Some _ \<Rightarrow> ret ()) p = (r1, p1)"
    by (cases "(case rpChannel p of None \<Rightarrow> Publisher_Connect lib ks | Some _ \<Rightarrow> ret ()) p")
  then have p1: "publisher_ok p1" "r1 = Inr () \<longrightarrow> rpChannel p1 \<noteq> None"
    using ok Connect_ok [OF lib orders ok, of r1 p1 "()"] by (auto simp: ret_def split: option.splits)
  show ?thesis
  proof (cases r1)
    case (Inl e)
    with run connect p1 show ?thesis
      by (auto simp: publishLocked_def and_then_def read_state_def)
  next
    case (Inr v)
    show ?thesis
    proof (cases "MarshalEnvelope tc event")
      case (Inl e)
      with run connect p1 \<open>r1 = Inr v\<close> show ?thesis
        by (auto simp: publishLocked_def and_then_def read_state_def of_result_def)
    next
      case body: (Inr body)
      obtain ch where ch: "rpChannel p1 = Some ch" using p1(2) Inr by auto
      have "and_then (wrap_error ''rabbitmq publish: '' (call_amqp lib
          (PublishWithContext ch DefaultExchange (eEventType event) True (event_publishing inject event hdrs body)))) (\<lambda>_.
        and_then (await_confirm lib) (settle_confirmation lib)) p1 = (r, p')"
        using run connect Inr body ch by (simp add: publishLocked_def and_then_def [of "read_state f" for f]
            and_then_def [of "case x of None \<Rightarrow> m | Some _ \<Rightarrow> n" for x m n] and_then_def [of "of_result x" for x]
            read_state_def of_result_def)
      from send_ok [OF lib p1(1) ch body this] show ?thesis .
    qed
  qed
qed

lemma Publish_ok:
  assumes lib: "amqp_contract lib" and orders: "range_orders ks" and ok: "publisher_ok p"
    and run: "Publisher_Publish lib ks tc inject event hdrs p = (r, p')"
  shows "publisher_ok p' \<and> (r = Inr u \<longrightarrow> published tc inject event hdrs (rpLog p'))"
proof -
  obtain r1 p1 where first: "publishLocked lib ks tc inject event hdrs p = (r1, p1)"
    by (cases "publishLocked lib ks tc inject event hdrs p")
  note p1 = publishLocked_ok [OF lib orders ok first, of "()"]
  show ?thesis
  proof (cases r1)
    case (Inr v)
    with run first p1 show ?thesis by (simp add: Publisher_Publish_def go_defs)
  next
    case (Inl e)
    obtain r2 p2 where again: "Publisher_Connect lib ks p1 = (r2, p2)" by (cases "Publisher_Connect lib ks p1")
    note p2 = Connect_ok [OF lib orders _ again, of "()"]
    show ?thesis
    proof (cases r2)
      case Failed: (Inl e')
      with run first Inl again p1 p2 show ?thesis by (auto simp: Publisher_Publish_def go_defs)
    next
      case (Inr v)
      with run first Inl again have "publishLocked lib ks tc inject event hdrs p2 = (r, p')"
        by (simp add: Publisher_Publish_def go_defs)
      from publishLocked_ok [OF lib orders _ this, of u] p1 p2 show ?thesis by blast
    qed
  qed
qed

section \<open>Runs of the publisher\<close>

inductive publisher_step ::
    "amqp_library \<Rightarrow> (amqp_log \<Rightarrow> string list) \<Rightarrow> time_codec \<Rightarrow> (headers \<Rightarrow> headers) \<Rightarrow> RabbitPublisher \<Rightarrow> RabbitPublisher \<Rightarrow> bool"
  for lib ks tc inject where
  publish: "Publisher_Publish lib ks tc inject event hdrs p = (r, p') \<Longrightarrow> publisher_step lib ks tc inject p p'"
| connect: "Publisher_Connect lib ks p = (r, p') \<Longrightarrow> publisher_step lib ks tc inject p p'"
| close: "Publisher_Close lib p = (r, p') \<Longrightarrow> publisher_step lib ks tc inject p p'"

lemma new_publisher_ok: "publisher_ok (NewRabbitPublisher url)"
  by (simp add: publisher_ok_def NewRabbitPublisher_def)

lemma publisher_step_ok:
  assumes "publisher_step lib ks tc inject p p'" and "amqp_contract lib" and "range_orders ks" and "publisher_ok p"
  shows "publisher_ok p'"
  using assms(1)
proof cases
  case (publish event hdrs r)
  then show ?thesis using Publish_ok [OF assms(2-4)] by blast
next
  case (connect r)
  then show ?thesis using Connect_ok [OF assms(2-4)] by blast
next
  case (close r)
  then show ?thesis
    using close_disconnects [OF assms(4), of lib] by (auto simp: Publisher_Close_def intro: disconnected_ok)
qed

interpretation rabbit: state_machine "\<lambda>p. \<exists>url. p = NewRabbitPublisher url" "publisher_step lib ks tc inject"
  "\<lambda>p. amqp_contract lib \<longrightarrow> range_orders ks \<longrightarrow> publisher_ok p" for lib ks tc inject
  by unfold_locales (use new_publisher_ok publisher_step_ok in blast)+

section \<open>The outbox over RabbitMQ\<close>

text \<open>The events that were sent, acknowledged and not returned, as the log shows it.\<close>

definition acknowledged :: "time_codec \<Rightarrow> (headers \<Rightarrow> headers) \<Rightarrow> RabbitPublisher \<Rightarrow> EventEnvelope set" where
  "acknowledged tc inject p = {event. \<exists>newer older c d ch tag hdrs body. MarshalEnvelope tc event = Inr body \<and>
     rpLog p = newer @ PolledReturns d None # Waited c (Confirmation tag True) #
       Called (PublishWithContext ch DefaultExchange (eEventType event) True (event_publishing inject event hdrs body)) (Inr ()) # older}"

lemma acknowledged_newer:
  assumes "suffix (rpLog p) (rpLog p')"
  shows "acknowledged tc inject p \<subseteq> acknowledged tc inject p'"
proof
  fix event assume "event \<in> acknowledged tc inject p"
  then obtain newer older c d ch tag hdrs body where "MarshalEnvelope tc event = Inr body"
    "rpLog p = newer @ PolledReturns d None # Waited c (Confirmation tag True) #
       Called (PublishWithContext ch DefaultExchange (eEventType event) True (event_publishing inject event hdrs body)) (Inr ()) # older"
    unfolding acknowledged_def by blast
  moreover from assms obtain zs where "rpLog p' = zs @ rpLog p" by (auto simp: suffix_def)
  ultimately show "event \<in> acknowledged tc inject p'"
    unfolding acknowledged_def mem_Collect_eq
    by (intro exI [of _ "zs @ newer"] exI [of _ older] exI [of _ c] exI [of _ d] exI [of _ ch] exI [of _ tag] exI [of _ hdrs]
        exI [of _ body]) simp
qed

lemma log_grows_call [pres_intros]:
  "preserves (\<lambda>p. suffix L (rpLog p)) (call_amqp lib c)" "preserves (\<lambda>p. suffix L (rpLog p)) (amqp_dial lib url)"
  "preserves (\<lambda>p. suffix L (rpLog p)) (open_channel lib conn)" "preserves (\<lambda>p. suffix L (rpLog p)) (await_confirm lib)"
  "preserves (\<lambda>p. suffix L (rpLog p)) (poll_returns lib)"
  by (auto simp: preserves_def call_amqp_def amqp_dial_def open_channel_def await_confirm_def poll_returns_def Let_def
      intro: suffix_ConsI)

lemma log_grows_modify:
  "(\<And>p. rpLog (f p) = rpLog p) \<Longrightarrow> preserves (\<lambda>p. suffix L (rpLog p)) (modify_state f)"
  by (rule preserves_modify_state) simp

lemma log_grows_topology [pres_intros]: "preserves (\<lambda>p. suffix L (rpLog p)) (DeclareTopology lib ks ch)"
  unfolding DeclareTopology_def declareConsumerTopology_def wrap_error_def Let_def
  by (intro pres_intros)

lemma log_grows_ordered [pres_intros]: "preserves (\<lambda>p. suffix L (rpLog p)) (\<lambda>p. DeclareTopology lib (ks (rpLog p)) ch p)"
  using log_grows_topology by (simp add: preserves_def)

lemma log_grows_close [pres_intros]: "preserves (\<lambda>p. suffix L (rpLog p)) (publisher_close lib)"
  unfolding publisher_close_def ignore_error_def
  by (intro pres_intros log_grows_modify) simp_all

lemma log_grows_connect [pres_intros]: "preserves (\<lambda>p. suffix L (rpLog p)) (Publisher_Connect lib ks)"
  unfolding Publisher_Connect_def abandon_def ignore_error_def wrap_error_def
  by (intro pres_intros log_grows_modify) simp_all

lemma log_grows_settle [pres_intros]: "preserves (\<lambda>p. suffix L (rpLog p)) (settle_confirmation lib outcome)"
  unfolding settle_confirmation_def by (cases outcome) (auto intro!: pres_intros)

lemma log_grows_publish: "preserves (\<lambda>p. suffix L (rpLog p)) (Publisher_Publish lib ks tc inject event hdrs)"
  unfolding Publisher_Publish_def publishLocked_def wrap_error_def
  by (intro pres_intros)

lemma publishLocked_acknowledges:
  assumes "publishLocked lib ks tc inject event hdrs p = (Inr u, p')"
  shows "event \<in> acknowledged tc inject p'"
proof -
  obtain body ch p1 p2 outcome p3 where body: "MarshalEnvelope tc event = Inr body"
    and send: "wrap_error ''rabbitmq publish: '' (call_amqp lib
      (PublishWithContext ch DefaultExchange (eEventType event) True (event_publishing inject event hdrs body))) p1 = (Inr (), p2)"
    and wait: "await_confirm lib p2 = (Inr outcome, p3)" "settle_confirmation lib outcome p3 = (Inr u, p')"
    using assms unfolding publishLocked_def
    by (elim and_then_InrE) (auto simp: read_state_def of_result_def fail_def elim!: and_then_InrE split: option.splits)
  from send have p2: "p2 = p1\<lparr>rpLog := Called (PublishWithContext ch DefaultExchange (eEventType event) True
      (event_publishing inject event hdrs body)) (Inr ()) # rpLog p1\<rparr>"
    by (auto simp: wrap_error_def call_amqp_def go_defs Let_def split: sum.splits)
  from wait obtain tag where "rpLog p' = PolledReturns (rpReturns p2) None # Waited (rpConfirms p2) (Confirmation tag True) # rpLog p2"
    by (auto simp: await_confirm_def settle_confirmation_def poll_returns_def go_defs Let_def split: confirm_wait.splits if_splits option.splits)
  with p2 body show ?thesis unfolding acknowledged_def by fastforce
qed

interpretation rabbit_outbox: event_publisher "Publisher_Publish lib ks tc inject" "acknowledged tc inject" for lib ks tc inject
proof
  fix event hdrs p p' and x :: unit
  assume "Publisher_Publish lib ks tc inject event hdrs p = (Inr x, p')"
  then show "event \<in> acknowledged tc inject p'"
    unfolding Publisher_Publish_def
    by (elim inspect_eqE) (auto simp: ret_def split: sum.splits elim!: and_then_InrE intro: publishLocked_acknowledges)
next
  fix event hdrs p
  show "acknowledged tc inject p \<subseteq> acknowledged tc inject (snd (Publisher_Publish lib ks tc inject event hdrs p))"
    by (rule acknowledged_newer, rule preserves_snd [OF log_grows_publish]) simp
qed

section \<open>Promises of the publisher\<close>

text \<open>
  C34. What a successful publish means: whatever the publisher did before, with a client library
  that behaves as documented and whatever the order in which the consumers are visited at each
  connect, a call that reports success has sent exactly this event on a channel on which all
  exchanges, queues and bindings were declared and confirmations switched on; it then read an
  acknowledgement on that channel and found no returned message. That acknowledgement is the one
  for this message (its tag is the number of the message on the channel), unless an earlier
  wait on the same channel was ended by its context, which leaves an unread confirmation behind
  (see \<open>stale_confirmation\<close> below). Never is more than one connection open.
\<close>

theorem rabbit_publish_confirmed:
  assumes "amqp_contract lib" and "range_orders ks"
    and "(publisher_step lib ks tc inject)\<^sup>*\<^sup>* (NewRabbitPublisher url) p"
    and "Publisher_Publish lib ks tc inject event hdrs p = (Inr u, p')"
  shows "published tc inject event hdrs (rpLog p') \<and> length (open_connections (rpLog p')) \<le> 1"
proof -
  have "publisher_ok p" using rabbit.inv_reachable [OF _ assms(3)] assms(1,2) by blast
  from Publish_ok [OF assms(1,2) this assms(4), of u] show ?thesis
    by (auto simp: publisher_ok_def split: option.splits)
qed

text \<open>
  The same for the outbox: with this publisher, an event that was appended keeps its content,
  and when it is marked as published its envelope was sent and acknowledged.
\<close>

lemma rabbit_outbox_loses_nothing:
  assumes "mgOutbox (wkStore w0) = Map.empty" and "(outbox_step tc (Publisher_Publish lib ks tc inject))\<^sup>*\<^sup>* w0 w"
    and "(outbox_step tc (Publisher_Publish lib ks tc inject))\<^sup>*\<^sup>* w w'" and "mgOutbox (wkStore w) k = Some v"
  shows "\<exists>v'. mgOutbox (wkStore w') k = Some v' \<and> OutboxEvent_Envelope tc v' = OutboxEvent_Envelope tc v \<and>
    (obStatus v' = StatusPublished \<longrightarrow> (\<exists>e \<in> acknowledged tc inject (wkBroker w'). OutboxEvent_Envelope tc v = Inr e))"
proof -
  have ok: "settled tc (acknowledged tc inject (wkBroker w)) (wkStore w)" "settled tc (acknowledged tc inject (wkBroker w')) (wkStore w')"
    using rabbit_outbox.outbox.inv_reachable assms(1-3) rtranclp_trans by (metis, metis)
  have "obEventID v = k" using ok(1) assms(4) by (auto simp: settled_def)
  then have "held tc v (wkStore w')"
    by (intro rabbit_outbox.outbox_steps_held [OF ok(1) assms(3)]) (simp add: held_def assms(4))
  then show ?thesis using ok(2) \<open>obEventID v = k\<close> unfolding held_def settled_def by metis
qed

text \<open>
  A library for the examples: every call succeeds, a channel gets the next free number, and the
  wait number \<open>n\<close>, unless \<open>late n\<close> holds, reads the next confirmation of its channel, in order.
\<close>

definition waits :: "amqp_log \<Rightarrow> nat" where
  "waits log = length (filter (\<lambda>ev. case ev of Waited _ _ \<Rightarrow> True | _ \<Rightarrow> False) log)"

definition example_library :: "(nat \<Rightarrow> bool) \<Rightarrow> (nat \<Rightarrow> bool) \<Rightarrow> amqp_library" where
  "example_library late ack =
     \<lparr>aqDial = \<lambda>log url. Inr 0,
      aqChannel = \<lambda>log conn. if known_channel (length log) log then Inl (ErrorText ''channel in use'') else Inr (length log),
      aqCall = \<lambda>log c. Inr (),
      aqAwait = \<lambda>log c. case c of None \<Rightarrow> ContextEnded ContextCanceled
        | Some ch \<Rightarrow> if late (waits log) then ContextEnded ContextCanceled
            else if confirms_closed ch log then ConfirmsClosed
            else Confirmation (confirmations ch log + 1) (ack (confirmations ch log + 1)),
      aqReturns = \<lambda>log c. None\<rparr>"

lemma example_call [simp]: "aqCall (example_library late ack) log c = Inr ()" "aqReturns (example_library late ack) log d = None"
  by (simp_all add: example_library_def)

lemma example_library_contract: "amqp_contract (example_library late ack)"
  by (auto simp: amqp_contract_def example_library_def split: if_splits)

text \<open>Two orders of the consumers, taken in turn.\<close>

definition example_consumers :: "amqp_log \<Rightarrow> string list" where
  "example_consumers log = (if even (length log) then map fst consumerEvents else rev (map fst consumerEvents))"

lemma example_consumers_orders: "range_orders example_consumers"
proof -
  have "distinct (map fst consumerEvents)" by code_simp
  then show ?thesis
    by (simp add: range_orders_def range_order_def example_consumers_def dom_map_of_conv_image_fst)
qed

text \<open>What connecting and sending do with this library.\<close>

lemma example_declares: "DeclareTopology (example_library late ack) ks ch p = (Inr (), p\<lparr>rpLog := succeeded (topology ks ch) @ rpLog p\<rparr>)"
proof -
  let ?lib = "example_library late ack"
  define total where "total m \<longleftrightarrow> (\<forall>p. \<exists>p'. m p = (Inr (), p'))" for m :: "(RabbitPublisher, unit) go"
  have total_then: "total (and_then m f)" if "total m" "\<And>x. total (f x)" for m f
    using that unfolding total_def and_then_def by (metis (mono_tags, lifting) old.prod.case sum.simps(6))
  have total_call: "total (wrap_error t (call_amqp ?lib c))" for t c
    by (simp add: total_def wrap_error_def call_amqp_def go_defs example_library_def Let_def)
  have total_each: "(\<And>x. total (f x)) \<Longrightarrow> total (for_each xs f)" for f :: "string \<Rightarrow> (RabbitPublisher, unit) go" and xs
    by (induction xs) (auto intro: total_then simp: total_def [of "ret ()"] ret_def)
  have "total (DeclareTopology ?lib ks ch)"
    unfolding DeclareTopology_def declareConsumerTopology_def Let_def by (intro total_then total_call total_each)
  then obtain p' where "DeclareTopology ?lib ks ch p = (Inr (), p')" by (auto simp: total_def)
  with DeclareTopology_cases [of ?lib ks ch p] show ?thesis by auto
qed

definition connected :: "(amqp_log \<Rightarrow> string list) \<Rightarrow> nat \<Rightarrow> string \<Rightarrow> amqp_log \<Rightarrow> RabbitPublisher" where
  "connected ks ch url log = \<lparr>rpURL = url, rpConn = Some 0, rpChannel = Some ch, rpConfirms = Some ch, rpReturns = Some ch,
     rpLog = Called (NotifyReturn ch) (Inr ()) # Called (NotifyPublish ch) (Inr ()) # Called (ConfirmMode ch) (Inr ()) #
       succeeded (topology (ks (ChannelOpened 0 (Inr ch) # Dialed url (Inr 0) # log)) ch) @
       ChannelOpened 0 (Inr ch) # Dialed url (Inr 0) # log\<rparr>"

lemma example_connects:
  assumes "publisher_close (example_library late ack) p = (Inr (), p1)" and "disconnected p1" and "rpURL p1 = url" "url \<noteq> []"
    and "rpLog p1 = log" and "\<not> known_channel (length log + 1) (Dialed url (Inr 0) # log)"
  shows "Publisher_Connect (example_library late ack) ks p = (Inr (), connected ks (length log + 1) url log)"
proof -
  let ?lib = "example_library late ack" and ?ch = "length log + 1"
  have dial: "aqDial ?lib (rpLog p1) (rpURL p1) = Inr 0" by (simp add: example_library_def)
  have opened: "aqChannel ?lib (rpLog (p1\<lparr>rpLog := Dialed (rpURL p1) (Inr 0) # rpLog p1\<rparr>)) 0 = Inr ?ch"
    using assms by (simp add: example_library_def)
  have call: "call_amqp ?lib c q = (Inr (), q\<lparr>rpLog := Called c (Inr ()) # rpLog q\<rparr>)" for c q
    by (simp add: call_amqp_def example_library_def Let_def)
  have url: "rpURL p1 \<noteq> []" using assms by simp
  show ?thesis
    unfolding Connect_unfold [OF assms(1) url dial refl opened refl] using assms(2-5)
    by (simp add: example_declares call Let_def connected_def disconnected_def)
qed


lemma example_sends:
  assumes "rpChannel p = Some ch" "rpConfirms p = Some ch" "MarshalEnvelope tc event = Inr body"
    and "log = Called (PublishWithContext ch DefaultExchange (eEventType event) True (event_publishing inject event hdrs body)) (Inr ()) # rpLog p"
    and "aqAwait (example_library late ack) log (Some ch) = outcome"
  shows "publishLocked (example_library late ack) ks tc inject event hdrs p =
    settle_confirmation (example_library late ack) outcome (p\<lparr>rpLog := Waited (Some ch) outcome # log\<rparr>)"
  using assms
  by (simp add: publishLocked_def go_defs call_amqp_def await_confirm_def Let_def)

lemma example_sends_first:
  assumes "rpChannel p = None" and "Publisher_Connect lib ks p = (Inr (), p1)" and "rpChannel p1 \<noteq> None"
  shows "publishLocked lib ks tc inject event hdrs p = publishLocked lib ks tc inject event hdrs p1"
  using assms by (auto simp: publishLocked_def and_then_def read_state_def ret_def)

lemma waits_simps [simp]:
  "waits [] = 0" "waits (Waited c r # log) = waits log + 1" "\<forall>ev \<in> set evs. neutral ev \<Longrightarrow> waits (evs @ log) = waits log"
  "neutral ev \<Longrightarrow> waits (ev # log) = waits log" "waits (Dialed url y # log) = waits log" "waits (Called call x # log) = waits log"
  "waits (PolledReturns d z # log) = waits log"
proof -
  have neutral: "waits (ev # log) = waits log" if "neutral ev" for ev log
    using that by (cases ev) (simp_all add: waits_def)
  then show "neutral ev \<Longrightarrow> waits (ev # log) = waits log" .
  show "waits (evs @ log) = waits log" if "\<forall>ev \<in> set evs. neutral ev"
    using that by (induction evs) (simp_all add: neutral)
qed (simp_all add: waits_def)

lemma connected_simps [simp]:
  "rpURL (connected ks ch url log) = url" "rpConn (connected ks ch url log) = Some 0" "rpChannel (connected ks ch url log) = Some ch"
  "rpConfirms (connected ks ch url log) = Some ch" "rpReturns (connected ks ch url log) = Some ch"
  "messages c (rpLog (connected ks ch url log)) = messages c log"
  "confirmations c (rpLog (connected ks ch url log)) = confirmations c log"
  "confirms_closed c (rpLog (connected ks ch url log)) = confirms_closed c log"
  "waits (rpLog (connected ks ch url log)) = waits log"
  "open_connections (rpLog (connected ks ch url log)) = 0 # open_connections log"
  by (simp_all add: connected_def neutral_log [OF succeeded_neutral] succeeded_neutral)

lemma empty_log [simp]: "messages c [] = 0" "confirmations c [] = 0" "\<not> confirms_closed c []" "\<not> known_channel c []"
  by (simp_all add: messages_def confirmations_def confirms_closed_def known_channel_def)

abbreviation queue_url :: string where "queue_url \<equiv> ''amqp://mq''"

lemma example_first_connect:
  "Publisher_Connect (example_library late ack) ks (NewRabbitPublisher queue_url) = (Inr (), connected ks 1 queue_url [])"
proof -
  have "publisher_close (example_library late ack) (NewRabbitPublisher queue_url) = (Inr (), NewRabbitPublisher queue_url)"
    by (simp add: publisher_close_def NewRabbitPublisher_def go_defs)
  from example_connects [OF this, of queue_url "[]" ks] show ?thesis
    by (simp add: disconnected_def NewRabbitPublisher_def known_channel_def)
qed

definition demo_body :: "EventEnvelope \<Rightarrow> json" where
  "demo_body event = marshal_Envelope plain_times event"

lemma sample_events_valid:
  "MarshalEnvelope plain_times sample_event = Inr (demo_body sample_event)"
  "MarshalEnvelope plain_times (sample_event\<lparr>eEventID := ''e2''\<rparr>) = Inr (demo_body (sample_event\<lparr>eEventID := ''e2''\<rparr>))"
proof -
  have "Envelope_Validate (sample_event\<lparr>eEventID := ''e2''\<rparr>) = Inr ()"
    by (simp add: sample_event_def Envelope_Validate_def zero_time_def)
  then show "MarshalEnvelope plain_times sample_event = Inr (demo_body sample_event)"
    "MarshalEnvelope plain_times (sample_event\<lparr>eEventID := ''e2''\<rparr>) = Inr (demo_body (sample_event\<lparr>eEventID := ''e2''\<rparr>))"
    by (simp_all add: MarshalEnvelope_def sample_event_valid demo_body_def)
qed

theorem rabbit_publish_confirmed_witness:
  "\<exists>p. Publisher_Publish (example_library (\<lambda>n. False) (\<lambda>n. True)) example_consumers plain_times id sample_event []
      (NewRabbitPublisher queue_url) = (Inr (), p) \<and>
    published plain_times id sample_event [] (rpLog p) \<and> length (open_connections (rpLog p)) \<le> 1"
proof -
  let ?lib = "example_library (\<lambda>n. False) (\<lambda>n. True)"
  let ?p = "connected example_consumers 1 queue_url []"
  have "publishLocked ?lib example_consumers plain_times id sample_event [] (NewRabbitPublisher queue_url) =
      publishLocked ?lib example_consumers plain_times id sample_event [] ?p"
    by (rule example_sends_first) (simp_all add: example_first_connect, simp add: NewRabbitPublisher_def)
  also have "\<dots> = settle_confirmation ?lib (Confirmation 1 True) (?p\<lparr>rpLog := Waited (Some 1) (Confirmation 1 True) #
      Called (PublishWithContext 1 DefaultExchange (eEventType sample_event) True
        (event_publishing id sample_event [] (demo_body sample_event))) (Inr ()) # rpLog ?p\<rparr>)"
    by (rule example_sends [OF _ _ sample_events_valid(1) refl]) (simp_all, simp add: example_library_def)
  finally obtain p where "Publisher_Publish ?lib example_consumers plain_times id sample_event [] (NewRabbitPublisher queue_url) = (Inr (), p)"
    by (simp add: Publisher_Publish_def settle_confirmation_def poll_returns_def go_defs Let_def)
  with rabbit_publish_confirmed [OF example_library_contract example_consumers_orders rtranclp.rtrancl_refl this] show ?thesis by blast
qed

text \<open>
  Why the restriction: a wait that was cut short leaves its confirmation behind. When both
  attempts of a call are cut short, the next call on the same channel takes the confirmation of
  the earlier message for its own and reports success, although the broker refuses it.
\<close>

lemma stale_confirmation:
  fixes ks :: "amqp_log \<Rightarrow> string list"
  defines "publish \<equiv> Publisher_Publish (example_library (\<lambda>n. n < 2) (\<lambda>tag. tag = 1)) ks plain_times id"
  shows "\<exists>p p' ch older. publish sample_event [] (NewRabbitPublisher queue_url) = (Inl (WrapError ''rabbitmq confirm wait: '' ContextCanceled), p) \<and>
    publish (sample_event\<lparr>eEventID := ''e2''\<rparr>) [] p = (Inr (), p') \<and>
    rpLog p' = PolledReturns (Some ch) None # Waited (Some ch) (Confirmation 1 True) # older \<and> messages ch older = 2 \<and>
    aqAwait (example_library (\<lambda>n. n < 2) (\<lambda>tag. tag = 1)) (rpLog p') (Some ch) = Confirmation 2 False"
proof -
  let ?lib = "example_library (\<lambda>n. n < 2) (\<lambda>tag. tag = 1)"
  let ?send = "\<lambda>ch event. Called (PublishWithContext ch DefaultExchange (eEventType event) True
    (event_publishing id event [] (demo_body event))) (Inr ())"
  let ?cut = "ContextEnded ContextCanceled" and ?e2 = "sample_event\<lparr>eEventID := ''e2''\<rparr>"
  let ?err = "WrapError ''rabbitmq confirm wait: '' ContextCanceled"
  let ?p1 = "connected ks 1 queue_url []"
  define log1 where "log1 = Waited (Some 1) ?cut # ?send 1 sample_event # rpLog ?p1"
  define log2 where "log2 = Called (CloseConnection 0) (Inr ()) # Called (CloseChannel 1) (Inr ()) # log1"
  define ch where "ch = length log2 + 1"
  let ?p2 = "connected ks ch queue_url log2"
  define log3 where "log3 = Waited (Some ch) ?cut # ?send ch sample_event # rpLog ?p2"
  have first: "publishLocked ?lib ks plain_times id sample_event [] (NewRabbitPublisher queue_url) = (Inl ?err, ?p1\<lparr>rpLog := log1\<rparr>)"
  proof -
    have "publishLocked ?lib ks plain_times id sample_event [] (NewRabbitPublisher queue_url) =
        publishLocked ?lib ks plain_times id sample_event [] ?p1"
      by (rule example_sends_first) (simp_all add: example_first_connect, simp add: NewRabbitPublisher_def)
    also have "\<dots> = settle_confirmation ?lib ?cut (?p1\<lparr>rpLog := log1\<rparr>)"
      unfolding log1_def by (rule example_sends [OF _ _ sample_events_valid(1) refl]) (simp_all, simp add: example_library_def)
    finally show ?thesis by (simp add: settle_confirmation_def fail_def)
  qed
  have known: "\<not> known_channel ch (Dialed queue_url (Inr 0) # log2)"
  proof -
    have "messages c log2 = (if c = 1 then 1 else 0)" "confirmations c log2 = 0" "\<not> confirms_closed c log2" for c
      by (simp_all add: log2_def log1_def)
    moreover have "ch \<noteq> 1" by (simp add: ch_def log2_def)
    ultimately show ?thesis by (simp add: known_channel_iff)
  qed
  have connect: "Publisher_Connect ?lib ks (?p1\<lparr>rpLog := log1\<rparr>) = (Inr (), ?p2)"
    unfolding ch_def
    by (rule example_connects [where ?p1.0 = "\<lparr>rpURL = queue_url, rpConn = None, rpChannel = None, rpConfirms = None, rpReturns = None, rpLog = log2\<rparr>"])
      (use known in \<open>simp_all add: publisher_close_def go_defs call_amqp_def Let_def log2_def log1_def disconnected_def ch_def
         connected_def [of ks 1] neutral_log [OF succeeded_neutral]\<close>)
  have second: "publishLocked ?lib ks plain_times id sample_event [] ?p2 = (Inl ?err, ?p2\<lparr>rpLog := log3\<rparr>)"
  proof -
    have "publishLocked ?lib ks plain_times id sample_event [] ?p2 = settle_confirmation ?lib ?cut (?p2\<lparr>rpLog := log3\<rparr>)"
      unfolding log3_def
      by (rule example_sends [OF _ _ sample_events_valid(1) refl]) (simp_all, simp add: example_library_def log2_def log1_def)
    then show ?thesis by (simp add: settle_confirmation_def fail_def)
  qed
  have counts: "messages ch log3 = 1" "confirmations ch log3 = 0" "\<not> confirms_closed ch log3" "waits log3 = 2"
    by (simp_all add: log3_def log2_def log1_def ch_def)
  let ?p3 = "?p2\<lparr>rpLog := Waited (Some ch) (Confirmation 1 True) # ?send ch ?e2 # log3\<rparr>"
  have "publishLocked ?lib ks plain_times id ?e2 [] (?p2\<lparr>rpLog := log3\<rparr>) = settle_confirmation ?lib (Confirmation 1 True)
      (?p2\<lparr>rpLog := log3\<rparr>\<lparr>rpLog := Waited (Some ch) (Confirmation 1 True) # ?send ch ?e2 # rpLog (?p2\<lparr>rpLog := log3\<rparr>)\<rparr>)"
    by (rule example_sends [OF _ _ sample_events_valid(2) refl]) (simp_all, simp add: example_library_def counts)
  then have "publish ?e2 [] (?p2\<lparr>rpLog := log3\<rparr>) = (Inr (), ?p2\<lparr>rpLog := PolledReturns (Some ch) None # rpLog ?p3\<rparr>)"
    by (simp add: publish_def Publisher_Publish_def settle_confirmation_def poll_returns_def go_defs Let_def)
  moreover have "publish sample_event [] (NewRabbitPublisher queue_url) = (Inl ?err, ?p2\<lparr>rpLog := log3\<rparr>)"
    using first connect second by (simp add: publish_def Publisher_Publish_def go_defs)
  moreover have "aqAwait ?lib (PolledReturns (Some ch) None # rpLog ?p3) (Some ch) = Confirmation 2 False"
    by (simp add: example_library_def counts)
  ultimately show ?thesis using counts by fastforce
qed

section \<open>The runtime\<close>

text \<open>The pauses between the sessions of a consumer double from one second up to thirty-two.\<close>

lemma reconnect_pauses:
  assumes "url \<noteq> []"
  shows "\<exists>c'. RunRabbitConsumer tc url consumer handlers maxAttempts dss c =
    (Inr (map (\<lambda>i. min (2 ^ i) 32 * Second) [0..<length dss]), c')"
proof -
  have "\<exists>c'. consumer_sessions tc consumer handlers maxAttempts (min (2 ^ k) 32 * Second) dss c =
      (Inr (map (\<lambda>i. min (2 ^ i) 32 * Second) [k..<k + length dss]), c')" for k
  proof (induction dss arbitrary: k c)
    case (Cons ds dss)
    obtain vs c1 where session: "consumer_session tc consumer handlers maxAttempts ds c = (Inr vs, c1)"
      using session_decides by blast
    have "(if min (2 ^ k) 32 * Second < 30 * Second then min (2 ^ k) 32 * Second * 2 else min (2 ^ k) 32 * Second)
        = min (2 ^ Suc k) 32 * Second"
    proof (cases "k < 5")
      case True
      then have "k \<in> {0, 1, 2, 3, 4}" by auto
      then show ?thesis by (auto simp: Second_def)
    next
      case False
      then have "(2::int) ^ 5 \<le> 2 ^ k" by (intro power_increasing) simp_all
      then show ?thesis by (simp add: Second_def min_def)
    qed
    with Cons.IH [of "Suc k" c1] session show ?case
      by (auto simp: and_then_def ret_def upt_conv_Cons simp del: power_Suc upt_Suc)
  qed (simp add: ret_def)
  from this [of 0] assms show ?thesis by (simp add: RunRabbitConsumer_def)
qed

text \<open>A runtime that was closed holds no connection, and one without an address never had any.\<close>

lemma closed_runtime:
  assumes "newServiceRuntime url = rt" and "(publisher_step lib ks tc inject)\<^sup>*\<^sup>* (NewRabbitPublisher (TrimSpace url)) p"
    and "amqp_contract lib" and "range_orders ks"
  shows "TrimSpace url = [] \<Longrightarrow> \<not> Runtime_Enabled (Some rt)"
    and "TrimSpace url \<noteq> [] \<Longrightarrow> \<exists>p'. Runtime_Close lib (Some (rt\<lparr>srPublisher := Some p\<rparr>)) =
      (Inr (), Some (rt\<lparr>srPublisher := Some p'\<rparr>)) \<and> open_connections (rpLog p') = []"
proof -
  show "TrimSpace url = [] \<Longrightarrow> \<not> Runtime_Enabled (Some rt)"
    using assms(1) by (auto simp: Runtime_Enabled_def newServiceRuntime_def Let_def)
  have "publisher_ok p" using rabbit.inv_reachable [OF _ assms(2)] assms(3,4) by blast
  from close_disconnects [OF this, of lib]
  show "\<exists>p'. Runtime_Close lib (Some (rt\<lparr>srPublisher := Some p\<rparr>)) =
      (Inr (), Some (rt\<lparr>srPublisher := Some p'\<rparr>)) \<and> open_connections (rpLog p') = []"
    by (auto simp: Runtime_Close_def Publisher_Close_def disconnected_def)
qed

end
