(* ===== verification/Migrations.thy ===== *)
theory Migrations
  imports Config_Services Identity_Model
begin

text \<open>
  shared/platform/migrate/runner.go: the migrations of the database. The database is a
  parameter: what a call returns is a function of the calls before, which the log keeps
  (newest first); so is the directory of the migrations. A script is scanned byte by byte,
  which for text in UTF-8 is the same as rune by rune, because the scanner only reacts to ASCII
  characters. Chinese error texts are glosses.
\<close>

section \<open>Splitting a script into statements\<close>

text \<open>
  Where the scanner is: the flags of the source exclude each other, and \<open>escaped\<close> is only set
  within quotes.
\<close>

datatype scan_mode = Code | LineComment | BlockComment | Quoted char bool

definition next_rune :: "string \<Rightarrow> char" where
  "next_rune cs = (case cs of [] \<Rightarrow> CHR 0x00 | c # _ \<Rightarrow> c)"

definition flush_statement :: "string \<Rightarrow> string list" where
  "flush_statement builder = (let statement = TrimSpace builder in if statement \<noteq> [] then [statement] else [])"

fun split_scan :: "scan_mode \<Rightarrow> string \<Rightarrow> string \<Rightarrow> string list" where
  "split_scan mode builder [] = flush_statement builder"
| "split_scan LineComment builder (c # cs) =
     (if c = CHR 0x0A then split_scan Code (builder @ [c]) cs else split_scan LineComment builder cs)"
| "split_scan BlockComment builder (c # cs) =
     (if c = CHR ''*'' \<and> next_rune cs = CHR ''/'' then split_scan Code builder (drop 1 cs)
      else split_scan BlockComment builder cs)"
| "split_scan Code builder (c # cs) =
     (if c = CHR ''-'' \<and> next_rune cs = CHR ''-'' then split_scan LineComment builder (drop 1 cs)
      else if c = CHR ''#'' then split_scan LineComment builder cs
      else if c = CHR ''/'' \<and> next_rune cs = CHR ''*'' then split_scan BlockComment builder (drop 1 cs)
      else if c \<in> {CHR 0x27, CHR 0x22, CHR 0x60} then split_scan (Quoted c False) (builder @ [c]) cs
      else if c = CHR '';'' then flush_statement builder @ split_scan Code [] cs
      else split_scan Code (builder @ [c]) cs)"
| "split_scan (Quoted q escaped) builder (c # cs) =
     (if escaped then split_scan (Quoted q False) (builder @ [c]) cs
      else if c = CHR 0x5C \<and> q \<noteq> CHR 0x60 then split_scan (Quoted q True) (builder @ [c]) cs
      else if c = q
      then (if next_rune cs = q then split_scan (Quoted q False) (builder @ [c, q]) (drop 1 cs)
            else split_scan Code (builder @ [c]) cs)
      else split_scan (Quoted q False) (builder @ [c]) cs)"

definition splitStatements :: "string \<Rightarrow> string list" where
  "splitStatements body = split_scan Code [] body"

section \<open>Running the migrations\<close>

datatype db_call =
    CreateMigrationsTable
  | CountVersion string
  | BeginTx
  | ExecStatement string
  | InsertVersion string
  | CommitTx
  | RollbackTx

type_synonym db_log = "(db_call \<times> int result) list"

text \<open>The answer to a call; only the count of a version is looked at.\<close>

type_synonym database = "db_log \<Rightarrow> db_call \<Rightarrow> int result"

record migration_source =
  msReadDir :: "(string \<times> bool) list result"
  msReadFile :: "string \<Rightarrow> string result"

definition call_db :: "database \<Rightarrow> db_call \<Rightarrow> (db_log, int) go" where
  "call_db db c log = (let r = db log c in (r, (c, r) # log))"

definition label_error :: "string \<Rightarrow> ('w, 'a) go \<Rightarrow> ('w, 'a) go" where
  "label_error message m = inspect m (\<lambda>r. case r of Inl e \<Rightarrow> fail (WrapError message e) | Inr x \<Rightarrow> ret x)"

definition isApplied :: "database \<Rightarrow> string \<Rightarrow> (db_log, bool) go" where
  "isApplied db version =
     and_then (label_error (''query migration '' @ version @ '': '') (call_db db (CountVersion version))) (\<lambda>count. ret (count > 0))"

text \<open>\<open>defer tx.Rollback()\<close>: the rollback is the last call of the transaction in any case.\<close>

definition in_transaction :: "database \<Rightarrow> (db_log, unit) go \<Rightarrow> (db_log, unit) go" where
  "in_transaction db m = inspect m (\<lambda>r. inspect (call_db db RollbackTx) (\<lambda>_. of_result r))"

definition apply_migration :: "database \<Rightarrow> string \<Rightarrow> string \<Rightarrow> (db_log, unit) go" where
  "apply_migration db version body =
     and_then (label_error (''begin migration '' @ version @ '': '') (call_db db BeginTx)) (\<lambda>_.
     in_transaction db
       (and_then (for_each (splitStatements body) (\<lambda>statement.
          and_then (label_error (''execute migration '' @ version @ '': '') (call_db db (ExecStatement statement))) (\<lambda>_. ret ()))) (\<lambda>_.
        and_then (label_error (''record migration '' @ version @ '': '') (call_db db (InsertVersion version))) (\<lambda>_.
        and_then (label_error (''commit migration '' @ version @ '': '') (call_db db CommitTx)) (\<lambda>_. ret ())))))"

definition migration_files :: "(string \<Rightarrow> string) \<Rightarrow> (string \<times> bool) list \<Rightarrow> string list" where
  "migration_files lower entries =
     sort (map fst (filter (\<lambda>(name, isDir). \<not> (isDir \<or> ToLower lower (filepath_Ext name) \<noteq> ''.sql'')) entries))"

definition run_migration :: "database \<Rightarrow> migration_source \<Rightarrow> string \<Rightarrow> (db_log, unit) go" where
  "run_migration db source name =
     and_then (isApplied db name) (\<lambda>applied.
     if applied then ret ()
     else and_then (label_error (''read migration '' @ name @ '': '') (of_result (msReadFile source name))) (\<lambda>body.
       apply_migration db name body))"

definition Run_migrations :: "(string \<Rightarrow> string) \<Rightarrow> database \<Rightarrow> migration_source \<Rightarrow> (db_log, unit) go" where
  "Run_migrations lower db source =
     and_then (label_error ''create schema_migrations: '' (call_db db CreateMigrationsTable)) (\<lambda>_.
     and_then (label_error ''read migration directory: '' (of_result (msReadDir source))) (\<lambda>entries.
     for_each (migration_files lower entries) (run_migration db source)))"

section \<open>What the splitter keeps\<close>

text \<open>
  A statement: the scanner reads it from code to code, and meets neither a semicolon nor a
  comment outside quotes.
\<close>

fun statement_text :: "scan_mode \<Rightarrow> string \<Rightarrow> bool" where
  "statement_text mode [] \<longleftrightarrow> mode = Code"
| "statement_text Code (c # cs) \<longleftrightarrow>
     (if c = CHR ''-'' \<and> next_rune cs = CHR ''-'' \<or> c = CHR ''#'' \<or> c = CHR ''/'' \<and> next_rune cs = CHR ''*'' \<or> c = CHR '';'' then False
      else statement_text (if c \<in> {CHR 0x27, CHR 0x22, CHR 0x60} then Quoted c False else Code) cs)"
| "statement_text (Quoted q escaped) (c # cs) \<longleftrightarrow>
     (if escaped then statement_text (Quoted q False) cs
      else if c = CHR 0x5C \<and> q \<noteq> CHR 0x60 then statement_text (Quoted q True) cs
      else if c = q then (if next_rune cs = q then statement_text (Quoted q False) (drop 1 cs) else statement_text Code cs)
      else statement_text (Quoted q False) cs)"
| "statement_text mode (c # cs) \<longleftrightarrow> False"

fun quote_mode :: "scan_mode \<Rightarrow> bool" where
  "quote_mode (Quoted q e) \<longleftrightarrow> q \<in> {CHR 0x27, CHR 0x22, CHR 0x60}"
| "quote_mode mode \<longleftrightarrow> True"

lemma next_rune_append: "next_rune (cs @ CHR '';'' # rest) = (if cs = [] then CHR '';'' else next_rune cs)"
  by (cases cs) (simp_all add: next_rune_def)

lemma statement_scanned:
  "statement_text mode s \<Longrightarrow> quote_mode mode \<Longrightarrow>
   split_scan mode b (s @ CHR '';'' # rest) = flush_statement (b @ s) @ split_scan Code [] rest"
proof (induction mode s arbitrary: b rule: statement_text.induct)
  case (2 c cs)
  let ?mode = "if c \<in> {CHR 0x27, CHR 0x22, CHR 0x60} then Quoted c False else Code"
  have plain: "\<not> (c = CHR ''-'' \<and> next_rune cs = CHR ''-'')" "c \<noteq> CHR ''#''" "\<not> (c = CHR ''/'' \<and> next_rune cs = CHR ''*'')" "c \<noteq> CHR '';''"
    and rest: "statement_text ?mode cs"
    using "2.prems"(1) by (auto split: if_splits)
  have "\<not> (c = CHR ''-'' \<and> next_rune (cs @ CHR '';'' # rest) = CHR ''-'')"
    "\<not> (c = CHR ''/'' \<and> next_rune (cs @ CHR '';'' # rest) = CHR ''*'')"
    using plain by (auto simp: next_rune_append)
  with plain have "split_scan Code b ((c # cs) @ CHR '';'' # rest) = split_scan ?mode (b @ [c]) (cs @ CHR '';'' # rest)"
    by auto
  also have "\<dots> = flush_statement ((b @ [c]) @ cs) @ split_scan Code [] rest"
    by (rule "2.IH") (use plain rest in \<open>simp_all split: if_splits\<close>)
  finally show ?case by simp
next
  case (3 q e c cs)
  have q: "q \<noteq> CHR '';''" "q \<noteq> CHR 0x00" using "3.prems"(2) by auto
  consider (escaped) "e" | (escape) "\<not> e" "c = CHR 0x5C \<and> q \<noteq> CHR 0x60"
    | (closing) "\<not> e" "\<not> (c = CHR 0x5C \<and> q \<noteq> CHR 0x60)" "c = q" "next_rune cs \<noteq> q"
    | (doubled) "\<not> e" "\<not> (c = CHR 0x5C \<and> q \<noteq> CHR 0x60)" "c = q" "next_rune cs = q"
    | (inside) "\<not> e" "\<not> (c = CHR 0x5C \<and> q \<noteq> CHR 0x60)" "c \<noteq> q" by blast
  then show ?case
  proof cases
    case escaped
    with "3.prems" "3.IH"(1) [of "b @ [c]"] show ?thesis by simp
  next
    case escape
    with "3.prems" "3.IH"(2) [of "b @ [c]"] show ?thesis by simp
  next
    case closing
    have "next_rune (cs @ CHR '';'' # rest) \<noteq> q" using closing(4) q by (simp add: next_rune_append)
    with closing "3.prems" "3.IH"(4) [of "b @ [c]"] show ?thesis by simp
  next
    case doubled
    then obtain ds where cs: "cs = q # ds" using q by (cases cs) (auto simp: next_rune_def)
    with doubled "3.prems" "3.IH"(3) [of "b @ [c, q]"] show ?thesis by (simp add: next_rune_def)
  next
    case inside
    with "3.prems" "3.IH"(5) [of "b @ [c]"] show ?thesis by auto
  qed
qed simp_all

text \<open>
  C40. Splitting a migration gives its statements back: a script in which each statement is
  closed by a semicolon, with semicolons, comment signs and escaped quotes allowed within
  quotes, is split into exactly these statements, in their order and without surrounding
  blanks, whatever white space stands between them.
\<close>

theorem split_gives_statements:
  assumes "list_all (statement_text Code) statements"
  shows "splitStatements (concat (map (\<lambda>s. s @ '';'') statements)) = filter (\<lambda>s. s \<noteq> []) (map TrimSpace statements)"
  using assms
proof (induction statements)
  case Nil
  show ?case by (simp add: splitStatements_def flush_statement_def)
next
  case (Cons s ss)
  then show ?case
    using statement_scanned [of Code s "[]" "concat (map (\<lambda>s. s @ '';'') ss)"]
    by (simp add: splitStatements_def flush_statement_def Let_def)
qed

definition example_statements :: "string list" where
  "example_statements =
     [''CREATE TABLE test (value VARCHAR(32))'',
      '' INSERT INTO test(value) VALUES ('' @ [CHR 0x27] @ ''a;b -- c'' @ [CHR 0x5C, CHR 0x27] @ ''d'' @ [CHR 0x27] @ '')'', '' '']"

theorem split_gives_statements_witness:
  "splitStatements (concat (map (\<lambda>s. s @ '';'') example_statements)) =
     [''CREATE TABLE test (value VARCHAR(32))'',
      ''INSERT INTO test(value) VALUES ('' @ [CHR 0x27] @ ''a;b -- c'' @ [CHR 0x5C, CHR 0x27] @ ''d'' @ [CHR 0x27] @ '')'']"
proof -
  have "list_all (statement_text Code) example_statements" by code_simp
  moreover have "filter (\<lambda>s. s \<noteq> []) (map TrimSpace example_statements) =
      [''CREATE TABLE test (value VARCHAR(32))'',
       ''INSERT INTO test(value) VALUES ('' @ [CHR 0x27] @ ''a;b -- c'' @ [CHR 0x5C, CHR 0x27] @ ''d'' @ [CHR 0x27] @ '')'']"
    by (simp add: example_statements_def TrimSpace_blank TrimSpace_graphic graphic_def)
  ultimately show ?thesis by (simp only: split_gives_statements)
qed

text \<open>
  A comment counts as white space for MySQL, and two dashes only begin one before white space;
  the splitter removes block comments without leaving a blank and takes any two dashes for a
  comment.
\<close>

lemma splitter_surprises:
  "splitStatements ''SELECT/* */1;'' = [''SELECT1'']"
  "splitStatements ''SELECT(5--1);'' = [''SELECT(5'']"
proof -
  have "list_all graphic ''SELECT1''" "list_all graphic ''SELECT(5''" by code_simp+
  then have "TrimSpace ''SELECT1'' = ''SELECT1''" "TrimSpace ''SELECT(5'' = ''SELECT(5''"
    by (metis TrimSpace_chars list_all_iff)+
  then show "splitStatements ''SELECT/* */1;'' = [''SELECT1'']" "splitStatements ''SELECT(5--1);'' = [''SELECT(5'']"
    by (simp_all add: splitStatements_def next_rune_def flush_statement_def)
qed

section \<open>A migration is recorded only as a whole\<close>

lemma call_db_log: "call_db db c log = (r, log') \<Longrightarrow> log' = (c, r) # log"
  by (auto simp: call_db_def Let_def)

lemma labelled_call:
  assumes "label_error message (call_db db c) log = (r, log')"
  obtains x where "log' = (c, x) # log" "\<And>y. r = Inr y \<Longrightarrow> x = Inr y" "\<And>e. r = Inl e \<Longrightarrow> \<exists>e'. x = Inl e'"
  using assms by (auto simp: label_error_def inspect_def fail_def ret_def call_db_def Let_def split: prod.splits sum.splits)

lemma statements_executed:
  assumes "for_each statements (\<lambda>statement.
      and_then (label_error message (call_db db (ExecStatement statement))) (\<lambda>_. ret ())) log = (r, log')"
  shows "\<exists>evs. log' = evs @ log \<and> CommitTx \<notin> fst ` set evs \<and>
    (r = Inr () \<longrightarrow> map fst (rev evs) = map ExecStatement statements)"
  using assms
proof (induction statements arbitrary: log)
  case Nil
  then show ?case by (simp add: ret_def)
next
  case (Cons s ss)
  obtain r1 log1 where first: "label_error message (call_db db (ExecStatement s)) log = (r1, log1)"
    by (cases "label_error message (call_db db (ExecStatement s)) log")
  obtain x where log1: "log1 = (ExecStatement s, x) # log" using first by (rule labelled_call)
  show ?case
  proof (cases r1)
    case (Inl e)
    with Cons.prems first log1 show ?thesis
      by (intro exI [of _ "[(ExecStatement s, x)]"]) (auto simp: and_then_def)
  next
    case (Inr y)
    let ?body = "\<lambda>statement. and_then (label_error message (call_db db (ExecStatement statement))) (\<lambda>_. ret ())"
    have "?body s log = (Inr (), log1)" using first Inr by (simp add: and_then_def ret_def)
    with Cons.prems have "for_each ss ?body log1 = (r, log')" by (simp add: and_then_def [of "?body s"])
    from Cons.IH [OF this] obtain evs where "log' = evs @ log1" "CommitTx \<notin> fst ` set evs"
      "r = Inr () \<longrightarrow> map fst (rev evs) = map ExecStatement ss" by blast
    with log1 show ?thesis by (intro exI [of _ "evs @ [(ExecStatement s, x)]"]) auto
  qed
qed

text \<open>
  Whatever the database answers: when a migration is committed, all of its statements were
  executed before in the same transaction and in their order, and then its version was recorded.
\<close>

lemma migration_committed_as_a_whole:
  assumes "apply_migration db version body log = (r, log')"
  shows "\<exists>evs. log' = evs @ log \<and> ((CommitTx, Inr x) \<in> set evs \<longrightarrow> r = Inr () \<and>
    map fst (rev evs) = BeginTx # map ExecStatement (splitStatements body) @ [InsertVersion version, CommitTx, RollbackTx])"
proof -
  let ?label = "\<lambda>t. t @ version @ '': ''"
  obtain r1 log1 where begin_tx: "label_error (?label ''begin migration '') (call_db db BeginTx) log = (r1, log1)"
    by (cases "label_error (?label ''begin migration '') (call_db db BeginTx) log")
  obtain x1 where log1: "log1 = (BeginTx, x1) # log" using begin_tx by (rule labelled_call)
  show ?thesis
  proof (cases r1)
    case (Inl e)
    with assms begin_tx log1 show ?thesis
      by (intro exI [of _ "[(BeginTx, x1)]"]) (auto simp: apply_migration_def and_then_def)
  next
    case (Inr y)
    define exec where "exec = for_each (splitStatements body) (\<lambda>statement.
      and_then (label_error (?label ''execute migration '') (call_db db (ExecStatement statement))) (\<lambda>_. ret ()))"
    define finish where "finish = and_then (label_error (?label ''record migration '') (call_db db (InsertVersion version))) (\<lambda>_.
      and_then (label_error (?label ''commit migration '') (call_db db CommitTx)) (\<lambda>_. ret ()))"
    obtain r2 log2 where executed: "exec log1 = (r2, log2)" by (cases "exec log1")
    from statements_executed [OF executed [unfolded exec_def]] obtain evs where evs: "log2 = evs @ log1" "CommitTx \<notin> fst ` set evs"
      "r2 = Inr () \<longrightarrow> map fst (rev evs) = map ExecStatement (splitStatements body)" by blast
    have run: "in_transaction db (and_then exec (\<lambda>_. finish)) log1 = (r, log')"
    proof -
      have "and_then (label_error (?label ''begin migration '') (call_db db BeginTx)) f log = f y log1" for f :: "int \<Rightarrow> (db_log, unit) go"
        using begin_tx Inr by (simp add: and_then_def)
      with assms show ?thesis unfolding apply_migration_def exec_def finish_def by (simp only:)
    qed
    show ?thesis
    proof (cases r2)
      case Failed: (Inl e)
      with run executed evs log1 show ?thesis
        by (intro exI [of _ "(RollbackTx, db log2 RollbackTx) # evs @ [(BeginTx, x1)]"])
          (auto simp: in_transaction_def inspect_def and_then_def call_db_def of_result_def Let_def image_iff split: prod.splits)
    next
      case Executed: (Inr u)
      obtain r3 log3 where closing: "finish log2 = (r3, log3)" by (cases "finish log2")
      obtain tail where tail: "log3 = tail @ log2"
        "(CommitTx, Inr x) \<in> set tail \<longrightarrow> r3 = Inr () \<and> map fst (rev tail) = [InsertVersion version, CommitTx]"
        using closing unfolding finish_def
        by (auto simp: and_then_def label_error_def inspect_def fail_def ret_def call_db_def Let_def split: prod.splits sum.splits)
      have "r = r3" "log' = (RollbackTx, db log3 RollbackTx) # log3"
        using run executed Executed closing
        by (auto simp: in_transaction_def inspect_def and_then_def call_db_def of_result_def Let_def)
      with tail evs log1 Executed show ?thesis
        by (intro exI [of _ "(RollbackTx, db log3 RollbackTx) # tail @ evs @ [(BeginTx, x1)]"]) (auto simp: image_iff)
    qed
  qed
qed

end
