(* ===== verification/Gateway_Clients.thy ===== *)
theory Gateway_Clients
  imports Config_Properties
begin

text \<open>
  services/gateway/internal/app/clients.go: the connections of the gateway to the services and
  to etcd. The gRPC and etcd libraries are a parameter: what a call returns is a function of
  the calls before, which the log keeps (newest first); connections are numbers that the
  libraries hand out. \<open>errors.Join\<close> is a list of errors. With a configuration from the loader
  every service is dialed at its own address, and a start that fails leaves nothing open.
\<close>

section \<open>Opening and closing\<close>

datatype net_call =
    NewEtcdClient string
  | NewResolver nat
  | NewGRPCClient string bool
  | CloseHandle nat

type_synonym net_log = "(net_call \<times> nat result) list"
type_synonym network = "net_log \<Rightarrow> net_call \<Rightarrow> nat result"

record grpc_clients =
  gcClosers :: "nat list"
  gcConnections :: "(string \<times> nat) list"
  gcLog :: net_log

definition net_call :: "network \<Rightarrow> net_call \<Rightarrow> (grpc_clients, nat) go" where
  "net_call net c w = (let r = net (gcLog w) c in (r, w\<lparr>gcLog := (c, r) # gcLog w\<rparr>))"

definition dialService :: "network \<Rightarrow> string \<Rightarrow> string \<Rightarrow> bool \<Rightarrow> (grpc_clients, nat) go" where
  "dialService net serviceName directAddress has_resolver =
     (let direct = TrimSpace directAddress;
          dial = (\<lambda>address resolved. inspect (net_call net (NewGRPCClient address resolved)) (\<lambda>r. case r of
            Inl e \<Rightarrow> fail (WrapError (''grpc client dial failed service='' @ serviceName @ '': '') e)
          | Inr conn \<Rightarrow> ret conn)) in
      if direct = []
      then (if \<not> has_resolver then fail (ErrorText (''service discovery unavailable service='' @ serviceName))
            else dial (''etcd:///'' @ serviceName) True)
      else dial direct False)"

definition keep_open :: "nat \<Rightarrow> (grpc_clients, unit) go" where
  "keep_open handle = modify_state (\<lambda>w. w\<lparr>gcClosers := gcClosers w @ [handle]\<rparr>)"

text \<open>One service: its configured or default name, the connection, and its entry among the closers.\<close>

definition connect_service :: "network \<Rightarrow> bool \<Rightarrow> string \<times> string \<times> string \<Rightarrow> (grpc_clients, unit) go" where
  "connect_service net has_resolver service =
     (case service of (default_name, name, address) \<Rightarrow>
        and_then (dialService net (if name = [] then default_name else name) address has_resolver) (\<lambda>conn.
        and_then (keep_open conn) (\<lambda>_.
        modify_state (\<lambda>w. w\<lparr>gcConnections := gcConnections w @ [(default_name, conn)]\<rparr>))))"

definition gateway_services :: "Config \<Rightarrow> (string \<times> string \<times> string) list" where
  "gateway_services c =
     [(ServiceCatalog, seServiceName (cfCatalog c), seAddress (cfCatalog c)),
      (ServiceInventory, ivServiceName (cfInventory c), ivAddress (cfInventory c)),
      (ServiceOrder, seServiceName (cfOrder c), seAddress (cfOrder c)),
      (ServiceIdentity, seServiceName (cfIdentity c), seAddress (cfIdentity c)),
      (ServiceCart, seServiceName (cfCart c), seAddress (cfCart c)),
      (ServicePayment, pyServiceName (cfPayment c), pyAddress (cfPayment c)),
      (ServiceFulfillment, seServiceName (cfFulfillment c), seAddress (cfFulfillment c))]"

definition connect_etcd :: "network \<Rightarrow> string \<Rightarrow> (grpc_clients, bool) go" where
  "connect_etcd net etcdAddr =
     (if etcdAddr = [] then ret False
      else inspect (net_call net (NewEtcdClient etcdAddr)) (\<lambda>r. case r of
        Inl e \<Rightarrow> fail (WrapError ''etcd connect failed: '' e)
      | Inr cli \<Rightarrow>
          and_then (keep_open cli) (\<lambda>_.
          inspect (net_call net (NewResolver cli)) (\<lambda>r. case r of
            Inl e \<Rightarrow> fail (WrapError ''etcd resolver create failed: '' e)
          | Inr _ \<Rightarrow> ret True))))"

primrec close_all :: "network \<Rightarrow> nat list \<Rightarrow> grpc_clients \<Rightarrow> go_error list \<times> grpc_clients" where
  "close_all net [] w = ([], w)"
| "close_all net (handle # handles) w =
     (case net_call net (CloseHandle handle) w of (r, w1) \<Rightarrow>
      case close_all net handles w1 of (errs, w2) \<Rightarrow> (case r of Inl e \<Rightarrow> e # errs | Inr _ \<Rightarrow> errs, w2))"

definition Clients_Close :: "network \<Rightarrow> grpc_clients \<Rightarrow> go_error list \<times> grpc_clients" where
  "Clients_Close net w = (case close_all net (rev (gcClosers w)) w of (errs, w') \<Rightarrow> (errs, w'\<lparr>gcClosers := []\<rparr>))"

text \<open>The deferred function of the source closes what is open when the result is an error.\<close>

definition initGRPCClients :: "network \<Rightarrow> Config \<Rightarrow> grpc_clients \<Rightarrow> go_error list \<times> grpc_clients" where
  "initGRPCClients net c w =
     (case and_then (connect_etcd net (etAddr (cfEtcd c))) (\<lambda>has_resolver.
        for_each (gateway_services c) (connect_service net has_resolver)) w of
        (Inr _, w') \<Rightarrow> ([], w')
      | (Inl e, w') \<Rightarrow> (case Clients_Close net w' of (errs, w'') \<Rightarrow> (e # errs, w'')))"

definition no_clients :: grpc_clients where
  "no_clients = \<lparr>gcClosers = [], gcConnections = [], gcLog = []\<rparr>"

section \<open>Nothing stays open\<close>

text \<open>The handles that were opened and not closed since, newest first.\<close>

fun open_handles :: "net_log \<Rightarrow> nat list" where
  "open_handles [] = []"
| "open_handles ((NewEtcdClient addr, Inr h) # log) = h # open_handles log"
| "open_handles ((NewGRPCClient address resolved, Inr h) # log) = h # open_handles log"
| "open_handles ((CloseHandle h, r) # log) = remove1 h (open_handles log)"
| "open_handles (ev # log) = open_handles log"

definition tracked :: "grpc_clients \<Rightarrow> bool" where
  "tracked w \<longleftrightarrow> open_handles (gcLog w) = rev (gcClosers w)"

lemma close_all_closes:
  "open_handles (gcLog w) = handles @ rest \<Longrightarrow> open_handles (gcLog (snd (close_all net handles w))) = rest \<and>
    gcClosers (snd (close_all net handles w)) = gcClosers w"
proof (induction handles arbitrary: w)
  case (Cons h hs)
  obtain r w1 where call: "net_call net (CloseHandle h) w = (r, w1)" by (cases "net_call net (CloseHandle h) w")
  then have "open_handles (gcLog w1) = hs @ rest" "gcClosers w1 = gcClosers w"
    using Cons.prems by (auto simp: net_call_def Let_def)
  with Cons.IH [of w1] call show ?case by (auto split: prod.splits)
qed simp

lemma Close_closes:
  assumes "tracked w"
  shows "open_handles (gcLog (snd (Clients_Close net w))) = [] \<and> tracked (snd (Clients_Close net w))"
  using assms close_all_closes [of w "rev (gcClosers w)" "[]" net]
  by (auto simp: Clients_Close_def tracked_def split: prod.splits)

lemma dialService_tracks:
  assumes "dialService net name address has_resolver w = (r, w')" and "tracked w"
  shows "case r of Inl _ \<Rightarrow> tracked w' | Inr h \<Rightarrow> open_handles (gcLog w') = h # rev (gcClosers w')"
  using assms
  by (auto simp: dialService_def net_call_def inspect_def fail_def ret_def tracked_def Let_def split: sum.splits if_splits)

lemma connect_service_tracked: "preserves tracked (connect_service net has_resolver service)"
proof (rule preservesI)
  fix w assume ok: "tracked w"
  obtain default_name name address where service: "service = (default_name, name, address)" by (cases service)
  let ?name = "if name = [] then default_name else name"
  obtain r w1 where dial: "dialService net ?name address has_resolver w = (r, w1)"
    by (cases "dialService net ?name address has_resolver w")
  from dialService_tracks [OF dial ok] dial show "tracked (snd (connect_service net has_resolver service w))"
    by (cases r) (auto simp: connect_service_def service and_then_def keep_open_def modify_state_def tracked_def)
qed

lemma connect_etcd_tracked: "preserves tracked (connect_etcd net addr)"
  by (auto simp: preserves_def connect_etcd_def net_call_def keep_open_def inspect_def and_then_def modify_state_def fail_def
      ret_def tracked_def Let_def split: sum.splits)

lemma connecting_tracked:
  "preserves tracked (and_then (connect_etcd net addr) (\<lambda>has_resolver. for_each services (connect_service net has_resolver)))"
  by (intro preserves_and_then preserves_for_each connect_etcd_tracked connect_service_tracked)

text \<open>
  A start of the gateway that fails has closed everything it opened; after one that succeeds
  every open connection is among the closers, and closing the clients closes them all.
\<close>

lemma gateway_clients_no_leak:
  assumes "initGRPCClients net c no_clients = (errs, w)"
  shows "tracked w" and "errs \<noteq> [] \<Longrightarrow> open_handles (gcLog w) = []"
    and "open_handles (gcLog (snd (Clients_Close net w))) = []"
proof -
  let ?run = "and_then (connect_etcd net (etAddr (cfEtcd c))) (\<lambda>has_resolver.
    for_each (gateway_services c) (connect_service net has_resolver)) no_clients"
  obtain r w1 where run: "?run = (r, w1)" by (cases ?run)
  have "tracked w1"
    using preservesD [OF connecting_tracked _ run] by (simp add: tracked_def no_clients_def)
  then have w: "tracked w \<and> (errs \<noteq> [] \<longrightarrow> open_handles (gcLog w) = [])"
    using assms run Close_closes [of w1 net] by (cases r) (auto simp: initGRPCClients_def split: prod.splits)
  then show "tracked w" "errs \<noteq> [] \<Longrightarrow> open_handles (gcLog w) = []" by blast+
  from w show "open_handles (gcLog (snd (Clients_Close net w))) = []" using Close_closes by blast
qed

section \<open>With a loaded configuration\<close>

lemma has_port_nonblank: "has_port address \<Longrightarrow> TrimSpace address \<noteq> []"
  by (auto simp: has_port_def portFromAddress_def SplitHostPort_def split: sum.splits)

text \<open>
  The loader gives every service an address, so a gateway with a loaded configuration never
  falls back to service discovery: each service is dialed directly.
\<close>

lemma loaded_gateway_dials_directly:
  assumes "orders_ok fo" and "readServiceManifest rd path = Inr m"
    and "LoadServiceRuntimeConfig env fo rd path ''gateway'' = Inr c"
    and "(default_name, name, address) \<in> set (gateway_services c)"
  shows "name \<noteq> [] \<and> fst (dialService net name address has_resolver w) =
    (case net (gcLog w) (NewGRPCClient (TrimSpace address) False) of
       Inl e \<Rightarrow> Inl (WrapError (''grpc client dial failed service='' @ name @ '': '') e) | Inr conn \<Rightarrow> Inr conn)"
proof -
  have "config_ready ''gateway'' c"
    using assms(3) gateway_ready unfolding load_iff [OF assms(1,2)] by (simp add: role_names)
  then have "list_all (\<lambda>s. TrimSpace (fst (section_of c s)) \<noteq> [] \<and> has_port (snd (section_of c s))) all_services"
    by (simp add: config_ready_def needed_services_def)
  then have "TrimSpace name \<noteq> []" "has_port address"
    using assms(4) by (auto simp: gateway_services_def all_services_def section_of_def)
  then show ?thesis
    using has_port_nonblank
    by (auto simp: dialService_def net_call_def inspect_def fail_def ret_def Let_def split: sum.splits)
qed

end
