(* ===== verification/Stream_Bridge.thy ===== *)
theory Stream_Bridge
  imports Rabbit_Properties Inventory
begin

text \<open>
  services/inventory/internal/app/stream_outbox.go and the publishing loop of
  services/inventory/cmd/inventory-service/main.go: events that the Redis store appends to its
  stream are read through a consumer group, published and acknowledged. The Redis client is a
  parameter: what a call returns is a function of the calls before, which the log keeps (newest
  first); idle times and blocking times are constant and left out of the calls. The loop is
  given by the number of its rounds; its pauses change nothing.
\<close>

section \<open>The stream\<close>

text \<open>A message has no payload at all, or one that is a JSON text or not.\<close>

record stream_message =
  xmID :: string
  xmPayload :: "json option option"

datatype redis_call =
    XGroupCreateMkStream string string
  | XAdd string string string json
  | XReadGroup string string string int
  | XAutoClaim string string string int
  | XAck string string "string list"

datatype redis_reply = RedisError go_error | RedisDone | RedisMessages "stream_message list list"

type_synonym redis_log = "(redis_call \<times> redis_reply) list"
type_synonym redis_client = "redis_log \<Rightarrow> redis_call \<Rightarrow> redis_reply"

record RedisStreamOutbox =
  soStream :: string
  soGroup :: string

definition NewRedisStreamOutbox :: "bool \<Rightarrow> string \<Rightarrow> string \<Rightarrow> RedisStreamOutbox result" where
  "NewRedisStreamOutbox has_client stream grp =
     (if \<not> has_client then Inl (ErrorText ''redis stream client is required'')
      else Inr \<lparr>soStream = (if stream = [] then ''inventory:events'' else stream),
                soGroup = (if grp = [] then ''inventory-service'' else grp)\<rparr>)"

text \<open>The publishing loop: the calls of the Redis client, and what is behind the publisher.\<close>

record 'p bridge =
  brLog :: redis_log
  brBroker :: 'p

definition redis :: "redis_client \<Rightarrow> redis_call \<Rightarrow> ('p bridge, stream_message list list) go" where
  "redis client c w =
     (let r = client (brLog w) c in
      (case r of RedisError e \<Rightarrow> Inl e | RedisDone \<Rightarrow> Inr [] | RedisMessages mss \<Rightarrow> Inr mss, w\<lparr>brLog := (c, r) # brLog w\<rparr>))"

fun stringsContains :: "string \<Rightarrow> string \<Rightarrow> bool" where
  "stringsContains [] fragment = prefix fragment []"
| "stringsContains (c # cs) fragment = (prefix fragment (c # cs) \<or> stringsContains cs fragment)"

definition EnsureGroup :: "redis_client \<Rightarrow> RedisStreamOutbox \<Rightarrow> ('p bridge, unit) go" where
  "EnsureGroup client s =
     inspect (redis client (XGroupCreateMkStream (soStream s) (soGroup s))) (\<lambda>r. case r of
       Inl e \<Rightarrow> if \<not> stringsContains (error_text e) ''BUSYGROUP'' then fail e else ret ()
     | Inr _ \<Rightarrow> ret ())"

definition Stream_Append :: "redis_client \<Rightarrow> time_codec \<Rightarrow> RedisStreamOutbox \<Rightarrow> EventEnvelope \<Rightarrow> ('p bridge, unit) go" where
  "Stream_Append client tc s event =
     and_then (of_result (MarshalEnvelope tc event)) (\<lambda>body.
     and_then (redis client (XAdd (soStream s) (eEventID event) (eEventType event) body)) (\<lambda>_. ret ()))"

fun streamMessages :: "time_codec \<Rightarrow> stream_message list \<Rightarrow> StreamEvent list" where
  "streamMessages tc [] = []"
| "streamMessages tc (message # rest) =
     (case xmPayload message of
        None \<Rightarrow> streamMessages tc rest
      | Some raw \<Rightarrow>
          (case UnmarshalEnvelope tc raw of
             Inl _ \<Rightarrow> streamMessages tc rest
           | Inr event \<Rightarrow> \<lparr>seID = xmID message, seEvent = event\<rparr> # streamMessages tc rest))"

definition streamEvents :: "time_codec \<Rightarrow> stream_message list list \<Rightarrow> StreamEvent list" where
  "streamEvents tc xs = concat (map (streamMessages tc) xs)"

definition Stream_Read :: "redis_client \<Rightarrow> time_codec \<Rightarrow> RedisStreamOutbox \<Rightarrow> string \<Rightarrow> int \<Rightarrow> ('p bridge, StreamEvent list) go" where
  "Stream_Read client tc s consumer count =
     and_then (EnsureGroup client s) (\<lambda>_.
     and_then (redis client (XReadGroup (soStream s) (soGroup s) consumer (if count \<le> 0 then 100 else count))) (\<lambda>xs.
     ret (streamEvents tc xs)))"

definition ClaimPending :: "redis_client \<Rightarrow> time_codec \<Rightarrow> RedisStreamOutbox \<Rightarrow> string \<Rightarrow> int \<Rightarrow> ('p bridge, StreamEvent list) go" where
  "ClaimPending client tc s consumer count =
     and_then (EnsureGroup client s) (\<lambda>_.
     and_then (redis client (XAutoClaim (soStream s) (soGroup s) consumer (if count \<le> 0 then 100 else count))) (\<lambda>items.
     ret (streamMessages tc (concat items))))"

definition Stream_Ack :: "redis_client \<Rightarrow> RedisStreamOutbox \<Rightarrow> string list \<Rightarrow> ('p bridge, unit) go" where
  "Stream_Ack client s ids =
     (if ids = [] then ret () else and_then (redis client (XAck (soStream s) (soGroup s) ids)) (\<lambda>_. ret ()))"

section \<open>The publishing loop\<close>

definition on_publisher :: "('p, 'a) go \<Rightarrow> ('p bridge, 'a) go" where
  "on_publisher m w = (case m (brBroker w) of (res, p) \<Rightarrow> (res, w\<lparr>brBroker := p\<rparr>))"

text \<open>The result says whether every item was published and acknowledged.\<close>

fun publishStreamItems ::
    "redis_client \<Rightarrow> RedisStreamOutbox \<Rightarrow> 'p publisher \<Rightarrow> StreamEvent list \<Rightarrow> ('p bridge, bool) go" where
  "publishStreamItems client s publish [] = ret True"
| "publishStreamItems client s publish (item # items) =
     inspect (on_publisher (publish (seEvent item) [])) (\<lambda>published. case published of
       Inl _ \<Rightarrow> ret False
     | Inr _ \<Rightarrow>
         inspect (Stream_Ack client s [seID item]) (\<lambda>acked. case acked of
           Inl _ \<Rightarrow> ret False
         | Inr _ \<Rightarrow> publishStreamItems client s publish items))"

definition publish_new :: "redis_client \<Rightarrow> time_codec \<Rightarrow> RedisStreamOutbox \<Rightarrow> 'p publisher \<Rightarrow> ('p bridge, unit) go" where
  "publish_new client tc s publish =
     inspect (Stream_Read client tc s ''inventory-publisher'' 100) (\<lambda>r. case r of
       Inl _ \<Rightarrow> ret ()
     | Inr items \<Rightarrow> and_then (publishStreamItems client s publish items) (\<lambda>_. ret ()))"

definition stream_round :: "redis_client \<Rightarrow> time_codec \<Rightarrow> RedisStreamOutbox \<Rightarrow> 'p publisher \<Rightarrow> ('p bridge, unit) go" where
  "stream_round client tc s publish =
     inspect (ClaimPending client tc s ''inventory-publisher'' 100) (\<lambda>r. case r of
       Inl _ \<Rightarrow> publish_new client tc s publish
     | Inr items \<Rightarrow>
         and_then (publishStreamItems client s publish items) (\<lambda>all_published.
           if \<not> all_published then ret () else publish_new client tc s publish))"

primrec runStreamPublisher ::
    "redis_client \<Rightarrow> time_codec \<Rightarrow> RedisStreamOutbox \<Rightarrow> 'p publisher \<Rightarrow> nat \<Rightarrow> ('p bridge, unit) go" where
  "runStreamPublisher client tc s publish 0 = ret ()"
| "runStreamPublisher client tc s publish (Suc rounds) =
     and_then (stream_round client tc s publish) (\<lambda>_. runStreamPublisher client tc s publish rounds)"

section \<open>Only published events are acknowledged\<close>

text \<open>Redis has handed out a message with this identifier and this event.\<close>

definition handed_out :: "time_codec \<Rightarrow> redis_log \<Rightarrow> string \<Rightarrow> EventEnvelope \<Rightarrow> bool" where
  "handed_out tc log i event \<longleftrightarrow> (\<exists>c mss m raw. (c, RedisMessages mss) \<in> set log \<and> m \<in> set (concat mss) \<and> xmID m = i \<and>
     xmPayload m = Some raw \<and> UnmarshalEnvelope tc raw = Inr event)"

definition acks_published :: "time_codec \<Rightarrow> ('p \<Rightarrow> EventEnvelope set) \<Rightarrow> 'p bridge \<Rightarrow> bool" where
  "acks_published tc accepted w \<longleftrightarrow> (\<forall>stream grp ids r. (XAck stream grp ids, r) \<in> set (brLog w) \<longrightarrow>
     (\<forall>i \<in> set ids. \<exists>event \<in> accepted (brBroker w). handed_out tc (brLog w) i event))"

lemma handed_out_later: "handed_out tc log i event \<Longrightarrow> set log \<subseteq> set log' \<Longrightarrow> handed_out tc log' i event"
  unfolding handed_out_def by blast

lemma handed_out_Cons: "handed_out tc log i event \<Longrightarrow> handed_out tc (x # log) i event"
  by (rule handed_out_later) auto

lemma streamMessages_decoded:
  "item \<in> set (streamMessages tc ms) \<Longrightarrow> \<exists>m \<in> set ms. xmID m = seID item \<and>
    (\<exists>raw. xmPayload m = Some raw \<and> UnmarshalEnvelope tc raw = Inr (seEvent item))"
  by (induction tc ms rule: streamMessages.induct) (auto split: option.splits sum.splits)

text \<open>A call other than an acknowledgement keeps the invariant; a reply hands its messages out.\<close>

lemma redis_keeps:
  assumes "redis client c w = (r, w')" and "acks_published tc accepted w" and "\<forall>st g ids. c \<noteq> XAck st g ids"
  shows "acks_published tc accepted w' \<and> (\<forall>mss. r = Inr mss \<longrightarrow>
    (\<forall>m \<in> set (concat mss). \<forall>raw event. xmPayload m = Some raw \<and> UnmarshalEnvelope tc raw = Inr event \<longrightarrow>
       handed_out tc (brLog w') (xmID m) event))"
proof -
  have w': "brBroker w' = brBroker w" "brLog w' = (c, client (brLog w) c) # brLog w"
    using assms(1) by (auto simp: redis_def Let_def)
  have "acks_published tc accepted w'"
    using assms(2,3) unfolding acks_published_def w' by (fastforce intro: handed_out_Cons)
  moreover have "handed_out tc (brLog w') (xmID m) event"
    if "r = Inr mss" "m \<in> set (concat mss)" "xmPayload m = Some raw" "UnmarshalEnvelope tc raw = Inr event" for mss m raw event
  proof -
    have "client (brLog w) c = RedisMessages mss"
      using assms(1) that(1,2) by (auto simp: redis_def Let_def split: redis_reply.splits)
    with that(2-4) show ?thesis unfolding handed_out_def w' by (metis list.set_intros(1))
  qed
  ultimately show ?thesis by blast
qed

lemma EnsureGroup_keeps:
  assumes "EnsureGroup client s w = (r, w')" and "acks_published tc accepted w"
  shows "acks_published tc accepted w'"
proof -
  obtain r1 w1 where call: "redis client (XGroupCreateMkStream (soStream s) (soGroup s)) w = (r1, w1)"
    by (cases "redis client (XGroupCreateMkStream (soStream s) (soGroup s)) w")
  with redis_keeps [OF call assms(2)] assms(1) show ?thesis
    by (auto simp: EnsureGroup_def inspect_def fail_def ret_def split: sum.splits if_splits)
qed

lemma reading_keeps:
  assumes "(m = Stream_Read client tc s consumer count \<or> m = ClaimPending client tc s consumer count)"
    and "m w = (r, w')" and "acks_published tc accepted w"
  shows "acks_published tc accepted w' \<and> (\<forall>items. r = Inr items \<longrightarrow> (\<forall>item \<in> set items. handed_out tc (brLog w') (seID item) (seEvent item)))"
proof -
  obtain c decode where c: "\<forall>st g ids. c \<noteq> XAck st g ids"
    and m: "m = and_then (EnsureGroup client s) (\<lambda>_. and_then (redis client c) (\<lambda>mss. ret (decode mss)))"
    and decode: "\<And>mss item. item \<in> set (decode mss) \<Longrightarrow> \<exists>x \<in> set (concat mss). xmID x = seID item \<and>
      (\<exists>raw. xmPayload x = Some raw \<and> UnmarshalEnvelope tc raw = Inr (seEvent item))"
  proof (rule disjE [OF assms(1)])
    assume "m = Stream_Read client tc s consumer count"
    then show ?thesis
      by (intro that [of "XReadGroup (soStream s) (soGroup s) consumer (if count \<le> 0 then 100 else count)" "streamEvents tc"])
        (auto simp: Stream_Read_def streamEvents_def dest!: streamMessages_decoded)
  next
    assume "m = ClaimPending client tc s consumer count"
    then show ?thesis
      by (intro that [of "XAutoClaim (soStream s) (soGroup s) consumer (if count \<le> 0 then 100 else count)" "\<lambda>mss. streamMessages tc (concat mss)"])
        (simp, simp add: ClaimPending_def, rule streamMessages_decoded)
  qed
  obtain r1 w1 where ensure: "EnsureGroup client s w = (r1, w1)" by (cases "EnsureGroup client s w")
  have ok1: "acks_published tc accepted w1" by (rule EnsureGroup_keeps [OF ensure assms(3)])
  obtain r2 w2 where call: "redis client c w1 = (r2, w2)" by (cases "redis client c w1")
  note ok2 = redis_keeps [OF call ok1 c]
  show ?thesis
  proof (cases r1)
    case (Inl e)
    with assms(2) ensure ok1 show ?thesis by (auto simp: m and_then_def)
  next
    case (Inr u)
    have run: "and_then (redis client c) (\<lambda>mss. ret (decode mss)) w1 = (r, w')"
      using assms(2) ensure Inr by (simp add: m and_then_def)
    show ?thesis
    proof (cases r2)
      case Failed: (Inl e)
      with run call ok2 show ?thesis by (auto simp: and_then_def)
    next
      case Read: (Inr mss)
      with run call have "r = Inr (decode mss)" "w' = w2" by (auto simp: and_then_def ret_def)
      with ok2 Read decode show ?thesis by (metis sum.inject(2))
    qed
  qed
qed

context event_publisher
begin

lemma publishStreamItems_keeps:
  assumes "publishStreamItems client s publish items w = (r, w')" and "acks_published tc accepted w"
    and "\<forall>item \<in> set items. handed_out tc (brLog w) (seID item) (seEvent item)"
  shows "acks_published tc accepted w' \<and> (\<exists>b. r = Inr b)"
  using assms
proof (induction items arbitrary: w)
  case Nil
  then show ?case by (auto simp: ret_def)
next
  case (Cons item items)
  obtain r1 p1 where pub: "publish (seEvent item) [] (brBroker w) = (r1, p1)" by (cases "publish (seEvent item) [] (brBroker w)")
  have grows: "accepted (brBroker w) \<subseteq> accepted p1" using keeps [of "brBroker w" "seEvent item" "[]"] pub by simp
  let ?w1 = "w\<lparr>brBroker := p1\<rparr>"
  have ok1: "acks_published tc accepted ?w1" using Cons.prems(2) grows unfolding acks_published_def by fastforce
  show ?case
  proof (cases r1)
    case (Inl e)
    with Cons.prems(1) pub ok1 show ?thesis by (auto simp: inspect_def on_publisher_def ret_def)
  next
    case (Inr u)
    have acc: "seEvent item \<in> accepted p1" using accepts pub Inr by blast
    let ?reply = "client (brLog w) (XAck (soStream s) (soGroup s) [seID item])"
    let ?w2 = "w\<lparr>brBroker := p1, brLog := (XAck (soStream s) (soGroup s) [seID item], ?reply) # brLog w\<rparr>"
    have out: "handed_out tc (brLog w) (seID item) (seEvent item)" using Cons.prems(3) by simp
    have ok2: "acks_published tc accepted ?w2"
      using ok1 acc out unfolding acks_published_def by (fastforce intro: handed_out_later)
    have "snd (Stream_Ack client s [seID item] ?w1) = ?w2"
      by (cases ?reply) (simp_all add: Stream_Ack_def redis_def and_then_def ret_def Let_def)
    then obtain r2 where ack: "Stream_Ack client s [seID item] ?w1 = (r2, ?w2)" by (metis prod.collapse)
    show ?thesis
    proof (cases r2)
      case Failed: (Inl e)
      with Cons.prems(1) pub Inr ack ok2 show ?thesis by (auto simp: inspect_def on_publisher_def ret_def)
    next
      case Acked: (Inr v)
      with Cons.prems(1) pub Inr ack have "publishStreamItems client s publish items ?w2 = (r, w')"
        by (simp add: inspect_def on_publisher_def)
      moreover have "\<forall>x \<in> set items. handed_out tc (brLog ?w2) (seID x) (seEvent x)"
        using Cons.prems(3) by (auto intro: handed_out_later)
      ultimately show ?thesis using Cons.IH ok2 by blast
    qed
  qed
qed

lemma publish_new_keeps: "preserves (acks_published tc accepted) (publish_new client tc s publish)"
proof (rule preservesI)
  fix w assume ok: "acks_published tc accepted w"
  obtain r1 w1 where read: "Stream_Read client tc s ''inventory-publisher'' 100 w = (r1, w1)"
    by (cases "Stream_Read client tc s ''inventory-publisher'' 100 w")
  note ok1 = reading_keeps [OF disjI1 [OF refl] read ok]
  show "acks_published tc accepted (snd (publish_new client tc s publish w))"
  proof (cases r1)
    case (Inl e)
    with read ok1 show ?thesis by (simp add: publish_new_def inspect_def ret_def)
  next
    case (Inr items)
    obtain r2 w2 where items: "publishStreamItems client s publish items w1 = (r2, w2)"
      by (cases "publishStreamItems client s publish items w1")
    have "acks_published tc accepted w2 \<and> (\<exists>b. r2 = Inr b)"
      using publishStreamItems_keeps [OF items] ok1 Inr by blast
    with items Inr read show ?thesis by (auto simp: publish_new_def inspect_def and_then_def ret_def)
  qed
qed

lemma stream_round_keeps: "preserves (acks_published tc accepted) (stream_round client tc s publish)"
proof (rule preservesI)
  fix w assume ok: "acks_published tc accepted w"
  obtain r1 w1 where claim: "ClaimPending client tc s ''inventory-publisher'' 100 w = (r1, w1)"
    by (cases "ClaimPending client tc s ''inventory-publisher'' 100 w")
  note ok1 = reading_keeps [OF disjI2 [OF refl] claim ok]
  show "acks_published tc accepted (snd (stream_round client tc s publish w))"
  proof (cases r1)
    case (Inl e)
    with claim ok1 preserves_snd [OF publish_new_keeps, where w = w1] show ?thesis by (simp add: stream_round_def inspect_def)
  next
    case (Inr items)
    obtain r2 w2 where items: "publishStreamItems client s publish items w1 = (r2, w2)"
      by (cases "publishStreamItems client s publish items w1")
    have "acks_published tc accepted w2 \<and> (\<exists>b. r2 = Inr b)"
      using publishStreamItems_keeps [OF items] ok1 Inr by blast
    with items Inr claim preserves_snd [OF publish_new_keeps, where w = w2] show ?thesis
      by (auto simp: stream_round_def inspect_def and_then_def ret_def)
  qed
qed

lemma runStreamPublisher_keeps: "preserves (acks_published tc accepted) (runStreamPublisher client tc s publish rounds)"
  by (induction rounds) (auto intro: preserves_ret preserves_and_then stream_round_keeps)

end

text \<open>
  On every run of the bridge to RabbitMQ, whatever Redis answers, an event of the stream is
  acknowledged only after it was sent and confirmed by the broker; so an event whose publishing
  fails stays pending and is handed out again.
\<close>

lemma stream_acks_only_published:
  assumes "runStreamPublisher client tc s (Publisher_Publish lib ks tc inject) rounds \<lparr>brLog = [], brBroker = p\<rparr> = (r, w)"
    and "(XAck st grp ids, reply) \<in> set (brLog w)" and "i \<in> set ids"
  shows "\<exists>event \<in> acknowledged tc inject (brBroker w). handed_out tc (brLog w) i event"
proof -
  have "acks_published tc (acknowledged tc inject) \<lparr>brLog = [], brBroker = p\<rparr>" by (simp add: acks_published_def)
  with preservesD [OF rabbit_outbox.runStreamPublisher_keeps _ assms(1)] have "acks_published tc (acknowledged tc inject) w"
    by blast
  with assms(2,3) show ?thesis unfolding acks_published_def by blast
qed

end
