(* ===== verification/Spec2Isabelle.thy ===== *)
theory Spec2Isabelle
  imports Boundaries Inventory_Properties Order_Failures Payment_Properties Fulfillment_Properties Catalog
    Cart_Properties Identity_Properties Messaging_Properties Gateway_Properties Config_Properties Rabbit_Properties Migrations
    Gateway_Clients Stream_Bridge
begin

text \<open>
  \<^bold>\<open>Verification of the seckill mall services.\<close>

  The repository is a shop built of Go services that call each other over gRPC and tell each
  other what happened through events: \<^emph>\<open>identity\<close> (accounts, tokens, addresses), \<^emph>\<open>catalog\<close>
  (products and SKUs), \<^emph>\<open>cart\<close>, \<^emph>\<open>inventory\<close> (stock, reservations, seckill admission),
  \<^emph>\<open>order\<close> (the orchestration of everything else), \<^emph>\<open>payment\<close> and \<^emph>\<open>fulfillment\<close>. An order is
  created by reserving its lines in the inventory, paid by a callback of the payment provider
  (which confirms the reservations), shipped, received, canceled (which releases them) or
  refunded (which restocks them). Calls between services carry an HMAC over method, user, role
  and time. Every repository appends its events to the outbox of its service in the same
  step; a worker publishes them, and each consumer records in its inbox what it has handled.

  \<^bold>\<open>How Go is modelled.\<close> A struct is a record whose fields keep the names of the source
  behind a short prefix, machine integers are words of their width (\<open>int32\<close>, \<open>int64\<close>,
  \<open>uint64\<close>), so that wrap-around is there where the code does not guard against it, a map is a
  partial function, and an error is a value of the type \<open>go_error\<close> (Prelude). A method that can
  fail and change state is a function from the state to a result and the new state
  (\<open>('s, 'a) go\<close>), written with \<open>and_then\<close> where the source returns early on an error and with
  \<open>inspect\<close> where it looks at it. A \<open>for range\<close> over a map takes the order of its keys as an
  argument (\<open>range_order\<close> says that it is one); the clock and the random source are streams in
  the state of the component. Every definition is executable. Bytes are characters, user-facing
  Chinese texts are ASCII glosses.

  \<^bold>\<open>What is a parameter.\<close> Code that is not in the repository is an argument of the definitions
  that use it, and what is assumed of it is a hypothesis of the theorem: bcrypt and JWT
  (\<open>auth_library\<close>), the Unicode table of \<open>strings.ToLower\<close> beyond ASCII, the RFC 3339 text of a
  time (\<open>time_codec\<close>), the AMQP client (\<open>amqp_library\<close>: what each call returns, given the calls
  before; \<open>amqp_contract\<close> is what its documentation promises), whether a broker confirms a retry
  message, the routing and body decoding of the gin framework, and the reading of YAML files
  (\<open>config_reader\<close>). A service that calls another
  takes the callee as a client, a function on a state; the theorems either hold for every
  client or instantiate it with the model of the real callee, behind a network that may lose
  the request or the reply. A time limit of a call is not modelled as such: the reply of a
  client may be any error.

  \<^bold>\<open>Concurrency.\<close> Every store holds its mutex from the first to the last access of a method, so
  its behaviours are sequences of whole methods; these are the step relations below. Where a
  service method makes several calls (order creation, for instance) the theorems about whole
  runs take it as one step, and what a failure between its calls leaves behind is stated
  separately (Order_Failures and the error properties of the other services).

  \<^bold>\<open>The theories.\<close>

  \<^item> Prelude: types, errors, the \<open>go\<close> form with its rules, words, maps, and the locale
    \<open>state_machine\<close> of a step relation with an invariant, which every component interprets.
    Go_Strings: \<open>TrimSpace\<close>, number formatting and parsing. Sha256: SHA-256, HMAC and
    hexadecimal text, as used by the digests and signatures.

  \<^item> Contracts and Boundaries (shared/contracts): envelopes, payloads and their validation; the
    catalog of service boundaries and its start-up check, which is proved equivalent to what it
    should say. JSON documents are values; field names are matched exactly, where Go would also
    accept another capitalisation.

  \<^item> Internalcall (shared/platform/internalcall): signing and checking of calls between
    services; a signed call is accepted exactly within the clock skew, and an accepted call was signed for exactly this
    method, user, role and time. Auth_Manager (shared/platform/auth): passwords and tokens.

  \<^item> Inventory (services/inventory: memory_store.go, memory_stream.go, server.go, events.go) is
    the reservation state machine with its int32 arithmetic. Inventory_Branches gives every
    branch of every method; Inventory_Ledger is the contract, a ledger over unbounded integers
    with conservation of stock and purchase quota; Inventory_Refinement proves that each method
    takes ledger steps only, so no sum ever wraps; Inventory_Service lifts this to the gRPC
    methods and event handlers (locales \<open>store_property\<close> and \<open>finishing_method\<close>);
    Inventory_Properties has the promises to the callers.

  \<^item> Order_Model, Order_Repository, Order_Service, Order_Lifecycle, Order_Server
    (services/order: model.go, memory_repository.go, service.go, events.go, clients.go,
    internal_auth.go, grpc_server.go) are the order service. Order_Invariant proves what every
    method keeps, against the contract \<open>reservation_port\<close> of the inventory client; Order_System
    discharges that contract for the inventory of this development over a lossy network;
    Order_History carries properties of the repository to every entry point (the locales
    \<open>service_property\<close>, \<open>order_property\<close> and, for orders and keys alone, \<open>repository_property\<close>);
    Order_Create, Order_Properties and Order_Failures hold the
    promises, the bounds on attempts and the failures; Order_Example is the setting of the
    examples.

  \<^item> Order_Client is what the clients of the order service share. Payment_Model and
    Payment_Properties (services/payment), Fulfillment_Model and Fulfillment_Properties
    (services/fulfillment): payments, callbacks and refunds; shipments and receipts.

  \<^item> Catalog (services/catalog), Cart_Model and Cart_Properties (services/cart),
    Identity_Model and Identity_Properties (services/identity and the creation of the
    administrator in its main.go).

  \<^item> Messaging, Messaging_Worker and Messaging_Properties (shared/platform/messaging: types.go,
    memory_store.go, worker.go, fake.go and the deliveries of rabbit.go): outbox, inbox,
    the publishing worker against the contracts \<open>event_publisher\<close> and \<open>reliable_publisher\<close>, and
    the handling of a delivery. Rabbit_Publisher and Rabbit_Properties (rabbit.go, runtime.go,
    service_runtime.go): the topology, the publisher with its reconnects and confirmations, the
    reconnecting loop of a consumer. The publisher is proved to be an \<open>event_publisher\<close>, so the
    outbox theorems hold over RabbitMQ as over the in-process broker. Stream_Bridge
    (services/inventory: stream_outbox.go and the publishing loop of main.go) carries the events
    of the Redis stream to RabbitMQ and acknowledges only what the broker has confirmed; the
    loop is given by the number of its rounds.

  \<^item> Gateway_Model, Gateway_Routes and Gateway_Properties (services/gateway/internal and
    shared/platform/httpx): the JWT middleware, every HTTP handler and the table of routes, as
    calls of clients of the services. The gateway acts for the user of the token and for nobody
    else, and one request is followed from an issued token through to the cart of its user.
    Gateway_Clients (clients.go): the connections of the gateway, none of which outlives a
    failed start; with a configuration from the loader every service is dialed directly.

  \<^item> Config_Model, Config_Services and Config_Properties (shared/platform/config): the
    configuration of a role out of the manifest of all services, the expansion of variables
    (locale \<open>field_pointers\<close> for the loops over maps of fields), validation and the overrides by
    environment variables. A load succeeds exactly when what the role needs is there, gives a
    complete configuration, uses no credential of another service and reports no value.

  \<^item> Migrations (shared/platform/migrate): the splitting of a script into statements, which gives
    back what was joined, and the transaction of a migration, committed only as a whole.

  \<^bold>\<open>Bounds.\<close> No definition uses fuel: loops run over lists or are bounded by their data. The
  counters of the identity service are words; its theorems assume fewer than \<open>2 ^ 64 - 1\<close>
  calls, which is the point at which they would wrap. Identifiers that are digests cut to 128
  bits or random draws can collide, and the theorems say what happens then or exclude it.

  \<^bold>\<open>Not modelled.\<close> The MySQL repositories and the SQL message store (statements executed by a
  database), the Redis store of the inventory (scripts executed by Redis), the
  set-up of a consumer session, service discovery in etcd, tracing, metrics and
  the wiring of the processes, goroutines included. The in-memory repositories that are modelled
  implement the same interfaces and are what the services run on in memory mode.
\<close>

end
